(* ===== verification/Prelude.thy ===== *)
theory Prelude
  imports Complex_Main "HOL-Library.AList"
begin

text \<open>
  Shared vocabulary of the development.

  \<^item> JavaScript strings are HOL \<^typ>\<open>string\<close>s: a list of code units, so
    \<open>length\<close> is the \<open>length\<close> that the schemas bound.
  \<^item> A JavaScript \<open>Map\<close> is an association list in insertion order: \<open>get\<close> is
    \<^const>\<open>map_of\<close>, \<open>set\<close> is \<^const>\<open>AList.update\<close> (an existing key keeps its place, a
    new key goes to the end), \<open>values()\<close> is \<open>map snd\<close>. Order is kept because several
    operations of the store return the first entry that matches.
  \<^item> Integer-valued numbers are \<^typ>\<open>int\<close>; every place where the code asks for a safe
    integer has the bound written out (\<open>isSafeInteger\<close>).
  \<^item> A validation schema is a Boolean function, \<open>safeParse(x).success\<close>.
\<close>

named_theorems store_defs "definitions of the store operations"
named_theorems schema_defs "definitions of the validation schemas"
named_theorems preserves "operations that keep an invariant"

section \<open>Numbers\<close>

definition MAX_SAFE_INTEGER :: int where
  "MAX_SAFE_INTEGER = 9007199254740991"

definition isSafeInteger :: "int \<Rightarrow> bool" where
  "isSafeInteger n \<longleftrightarrow> - MAX_SAFE_INTEGER \<le> n \<and> n \<le> MAX_SAFE_INTEGER"

section \<open>Strings\<close>

text \<open>\<open>z.string().min(lo).max(hi)\<close>\<close>

definition boundedString :: "nat \<Rightarrow> nat \<Rightarrow> string \<Rightarrow> bool" where
  "boundedString lo hi s \<longleftrightarrow> lo \<le> length s \<and> length s \<le> hi"

definition maxString :: "nat \<Rightarrow> string \<Rightarrow> bool" where
  "maxString hi s \<longleftrightarrow> length s \<le> hi"

definition optionally :: "('a \<Rightarrow> bool) \<Rightarrow> 'a option \<Rightarrow> bool" where
  "optionally p x = (case x of None \<Rightarrow> True | Some v \<Rightarrow> p v)"

lemma optionally_simps [simp]:
  "optionally p None" "optionally p (Some v) = p v"
  by (simp_all add: optionally_def)

definition isDigit :: "char \<Rightarrow> bool" where
  "isDigit c \<longleftrightarrow> 48 \<le> (of_char c :: nat) \<and> (of_char c :: nat) \<le> 57"

definition digitValue :: "char \<Rightarrow> int" where
  "digitValue c = int (of_char c) - 48"

definition isLowerHex :: "char \<Rightarrow> bool" where
  "isLowerHex c \<longleftrightarrow> isDigit c \<or> (97 \<le> (of_char c :: nat) \<and> (of_char c :: nat) \<le> 102)"

text \<open>The regular expression \<open>/^sha256:[a-f0-9]{64}$/u\<close>.\<close>

definition sha256Reference :: "string \<Rightarrow> bool" where
  "sha256Reference s \<longleftrightarrow>
     take 7 s = ''sha256:'' \<and> length s = 71 \<and> list_all isLowerHex (drop 7 s)"

text \<open>
  \<open>\p{White_Space}\<close> and \<open>toLowerCase\<close> on the code units below 256. Both
  tables are closed on that range: no character of it lower-cases out of it.
\<close>

definition isWhiteSpace :: "char \<Rightarrow> bool" where
  "isWhiteSpace c \<longleftrightarrow> (of_char c :: nat) \<in> {9, 10, 11, 12, 13, 32, 133, 160}"

definition lowerChar :: "char \<Rightarrow> char" where
  "lowerChar c =
     (let n = (of_char c :: nat)
      in if (65 \<le> n \<and> n \<le> 90) \<or> (192 \<le> n \<and> n \<le> 222 \<and> n \<noteq> 215) then char_of (n + 32) else c)"

lemma length_dropWhile_less_Suc [termination_simp]:
  "length (dropWhile p xs) < Suc (length xs)"
  by (simp add: le_imp_less_Suc length_dropWhile_le)

fun collapseWhiteSpace :: "string \<Rightarrow> string" where
  "collapseWhiteSpace [] = []"
| "collapseWhiteSpace (c # cs) =
     (if isWhiteSpace c then CHR '' '' # collapseWhiteSpace (dropWhile isWhiteSpace cs)
      else c # collapseWhiteSpace cs)"

text \<open>
  \<open>trim\<close> strips the ECMAScript white space and line terminators; on this range they are
  the \<open>White_Space\<close> characters without the control character 133.
\<close>

definition isTrimmed :: "char \<Rightarrow> bool" where
  "isTrimmed c \<longleftrightarrow> (of_char c :: nat) \<in> {9, 10, 11, 12, 13, 32, 160}"

definition trim :: "string \<Rightarrow> string" where
  "trim s = rev (dropWhile isTrimmed (rev (dropWhile isTrimmed s)))"

definition startsWith :: "string \<Rightarrow> string \<Rightarrow> bool" where
  "startsWith s p \<longleftrightarrow> take (length p) s = p"

section \<open>Insertion-ordered maps\<close>

abbreviation values_of :: "('k \<times> 'v) list \<Rightarrow> 'v list" where
  "values_of m \<equiv> map snd m"

abbreviation mapSet :: "'k \<Rightarrow> 'v \<Rightarrow> ('k \<times> 'v) list \<Rightarrow> ('k \<times> 'v) list" where
  "mapSet \<equiv> AList.update"

abbreviation keys_distinct :: "('k \<times> 'v) list \<Rightarrow> bool" where
  "keys_distinct m \<equiv> distinct (map fst m)"

lemma map_of_mapSet: "map_of (mapSet k v m) = (map_of m)(k \<mapsto> v)"
  by (rule AList.update_conv')

lemma map_of_mapSet_apply [simp]:
  "map_of (mapSet k v m) k' = (if k' = k then Some v else map_of m k')"
  by (simp add: map_of_mapSet)

lemma keys_distinct_mapSet [simp]: "keys_distinct m \<Longrightarrow> keys_distinct (mapSet k v m)"
  by (rule AList.distinct_update)

lemma mapSet_new: "k \<notin> fst ` set m \<Longrightarrow> mapSet k v m = m @ [(k, v)]"
  by (induction m) auto

lemma mapSet_twice [simp]: "mapSet k v2 (mapSet k v1 m) = mapSet k v2 m"
  by (induction m) auto

lemma mapSet_in_set:
  "keys_distinct m \<Longrightarrow> (k', v') \<in> set (mapSet k v m) \<longleftrightarrow>
     (if k' = k then v' = v else (k', v') \<in> set m)"
  by (induction m) (auto simp: image_iff)

lemma keys_distinct_lookup: "keys_distinct m \<Longrightarrow> (k, v) \<in> set m \<Longrightarrow> map_of m k = Some v"
  by (rule map_of_is_SomeI)

lemma keys_distinct_in_iff: "keys_distinct m \<Longrightarrow> (k, v) \<in> set m \<longleftrightarrow> map_of m k = Some v"
  by (meson keys_distinct_lookup map_of_SomeD)

lemma in_values_iff: "keys_distinct m \<Longrightarrow> v \<in> set (values_of m) \<longleftrightarrow> (\<exists>k. map_of m k = Some v)"
  by (force simp: keys_distinct_in_iff[symmetric])

end
