(* ===== verification/Machine.thy ===== *)
theory Machine
  imports Prelude
begin

text \<open>
  Interfaces. Each locale states a contract that several parts of the store rely on, and proves
  its consequences once; the theories that model the providers interpret them.

  \<^item> \<open>keyed_store\<close>: a container read and written by key.
  \<^item> \<open>invariant_machine\<close>: a machine driven by calls, with an invariant every call keeps.
  \<^item> \<open>history_machine\<close>: such a machine with a reflexive, transitive relation between an earlier
    and a later state that every call respects.
  \<^item> \<open>counted_cell\<close>: optimistic concurrency. An attempt names the revision it expects; it can
    only succeed at that revision, and then the revision grows by one.
\<close>

section \<open>Containers read and written by key\<close>

locale keyed_store =
  fixes get :: "'s \<Rightarrow> 'k \<Rightarrow> 'v option"
    and put :: "'k \<Rightarrow> 'v \<Rightarrow> 's \<Rightarrow> 's"
  assumes get_put: "get (put k v s) k' = (if k' = k then Some v else get s k')"
begin

lemma get_put_same: "get (put k v s) k = Some v"
  by (simp add: get_put)

lemma get_put_other: "k' \<noteq> k \<Longrightarrow> get (put k v s) k' = get s k'"
  by (simp add: get_put)

lemma forall_put:
  assumes "\<And>k v. get s k = Some v \<Longrightarrow> P k v" and "P k0 v0"
  shows "get (put k0 v0 s) k = Some v \<Longrightarrow> P k v"
  using assms by (auto simp: get_put split: if_splits)

lemma forall_pairs_put:
  assumes "\<And>k k' v v'. k \<noteq> k' \<Longrightarrow> get s k = Some v \<Longrightarrow> get s k' = Some v' \<Longrightarrow> R v v'"
    and "\<And>v v'. R v v' \<Longrightarrow> R v' v"
    and "\<And>k v. k \<noteq> k0 \<Longrightarrow> get s k = Some v \<Longrightarrow> R v0 v"
  shows "k \<noteq> k' \<Longrightarrow> get (put k0 v0 s) k = Some v \<Longrightarrow> get (put k0 v0 s) k' = Some v' \<Longrightarrow> R v v'"
  using assms(1)[of k k' v v'] assms(2)[of v0 v] assms(3)[of k v] assms(3)[of k' v']
  by (auto simp: get_put split: if_splits)

text \<open>A run of writes to other keys leaves a key alone.\<close>

lemma get_puts_other:
  "k \<notin> fst ` set kvs \<Longrightarrow> get (foldr (\<lambda>(k, v). put k v) kvs s) k = get s k"
  by (induction kvs) (auto simp: get_put)

end

interpretation alist: keyed_store map_of mapSet
  by unfold_locales (rule map_of_mapSet_apply)

section \<open>Machines driven by calls\<close>

locale invariant_machine =
  fixes step :: "'s \<Rightarrow> 'c \<Rightarrow> 's"
    and inv :: "'s \<Rightarrow> bool"
  assumes step_inv: "inv s \<Longrightarrow> inv (step s c)"
begin

lemma run_inv: "inv s \<Longrightarrow> inv (foldl step s cs)"
  by (induction cs arbitrary: s) (auto intro: step_inv)

end

locale history_machine = invariant_machine step inv
  for step :: "'s \<Rightarrow> 'c \<Rightarrow> 's" and inv :: "'s \<Rightarrow> bool" +
  fixes later :: "'s \<Rightarrow> 's \<Rightarrow> bool"
  assumes later_refl: "later s s"
    and later_trans: "later s s' \<Longrightarrow> later s' s'' \<Longrightarrow> later s s''"
    and step_later: "inv s \<Longrightarrow> later s (step s c)"
begin

lemma run_later: "inv s \<Longrightarrow> later s (foldl step s cs)"
proof (induction cs arbitrary: s)
  case Nil
  show ?case by (simp add: later_refl)
next
  case (Cons c cs)
  have "later (step s c) (foldl step (step s c) cs)"
    by (rule Cons.IH) (rule step_inv[OF Cons.prems])
  with step_later[OF Cons.prems] show ?case by (simp add: later_trans[of s "step s c"])
qed

text \<open>Whatever holds at every later state of a run holds at each of its prefixes' ends.\<close>

lemma run_later_prefix: "inv s \<Longrightarrow> later (foldl step s cs) (foldl step s (cs @ cs'))"
  using run_later[OF run_inv] by simp

end

section \<open>Optimistic concurrency\<close>

locale counted_cell =
  fixes inv :: "'s \<Rightarrow> bool"
    and revision :: "'s \<Rightarrow> int option"
    and attempt :: "'s \<Rightarrow> int \<Rightarrow> 'c \<Rightarrow> 's option"
  assumes attempt_inv: "inv s \<Longrightarrow> attempt s e c = Some s' \<Longrightarrow> inv s'"
    and attempt_expected: "inv s \<Longrightarrow> attempt s e c = Some s' \<Longrightarrow> revision s = Some e"
    and attempt_counts: "inv s \<Longrightarrow> attempt s e c = Some s' \<Longrightarrow> revision s' = Some (e + 1)"
begin

lemma stale_refused: "inv s \<Longrightarrow> revision s \<noteq> Some e \<Longrightarrow> attempt s e c = None"
  using attempt_expected[of s e c] by (cases "attempt s e c") auto

text \<open>Of two attempts made against the same revision, the second is refused.\<close>

lemma one_winner:
  assumes "inv s" and "attempt s e c = Some s'"
  shows "attempt s' e c' = None"
  using attempt_counts[OF assms] by (intro stale_refused attempt_inv[OF assms]) simp

text \<open>Attempts that all succeed, each naming the revision it saw.\<close>

fun attempts :: "'s \<Rightarrow> (int \<times> 'c) list \<Rightarrow> 's option" where
  "attempts s [] = Some s"
| "attempts s ((e, c) # ecs) =
     (case attempt s e c of None \<Rightarrow> None | Some s' \<Rightarrow> attempts s' ecs)"

lemma attempts_revision:
  assumes "inv s" and "attempts s ecs = Some s'" and "revision s = Some r"
  shows "revision s' = Some (r + int (length ecs))"
  using assms
proof (induction ecs arbitrary: s r)
  case Nil
  then show ?case by simp
next
  case (Cons ec ecs)
  obtain e c where ec: "ec = (e, c)" by (cases ec)
  with Cons.prems obtain s1 where s1: "attempt s e c = Some s1" "attempts s1 ecs = Some s'"
    by (auto split: option.splits)
  note step = attempt_inv[OF Cons.prems(1) s1(1)] attempt_counts[OF Cons.prems(1) s1(1)]
  have "e = r" using attempt_expected[OF Cons.prems(1) s1(1)] Cons.prems(3) by simp
  with Cons.IH[OF step(1) s1(2) step(2)] show ?case by simp
qed

lemma attempts_expected:
  assumes "inv s" and "attempts s ecs = Some s'" and "revision s = Some r" and "i < length ecs"
  shows "fst (ecs ! i) = r + int i"
  using assms
proof (induction ecs arbitrary: s r i)
  case Nil
  then show ?case by simp
next
  case (Cons ec ecs)
  obtain e c where ec: "ec = (e, c)" by (cases ec)
  with Cons.prems obtain s1 where s1: "attempt s e c = Some s1" "attempts s1 ecs = Some s'"
    by (auto split: option.splits)
  note step = attempt_inv[OF Cons.prems(1) s1(1)] attempt_counts[OF Cons.prems(1) s1(1)]
  have e: "e = r" using attempt_expected[OF Cons.prems(1) s1(1)] Cons.prems(3) by simp
  show ?case
  proof (cases i)
    case 0
    then show ?thesis using ec e by simp
  next
    case (Suc j)
    then show ?thesis
      using Cons.IH[OF step(1) s1(2) step(2), of j] Cons.prems(4) e by simp
  qed
qed

end

end
