(* ===== verification/Timestamps.thy ===== *)
theory Timestamps
  imports Machine
begin

text \<open>
  Timestamps (\<open>packages/eve-agent-builder/extension/lib/domain.ts\<close>, \<open>timestampSchema\<close>): strings of
  the form \<open>YYYY-MM-DDTHH:MM:SS.mmmZ\<close> that name a real instant of the proleptic Gregorian
  calendar. \<open>dateParse\<close> is \<open>Date.parse\<close>: \<open>None\<close> stands for NaN. JavaScript engines also
  accept other formats; the \<open>Timestamp\<close> type excludes them, and here they are NaN. Comparisons
  with NaN are false, which \<open>timeLe\<close> writes out.
\<close>

type_synonym Timestamp = string

definition CANONICAL_TIMESTAMP :: string where
  "CANONICAL_TIMESTAMP = ''dddd-dd-ddTdd:dd:dd.dddZ''"

definition matchesTemplate :: "string \<Rightarrow> string \<Rightarrow> bool" where
  "matchesTemplate template s \<longleftrightarrow>
     list_all2 (\<lambda>t c. if t = CHR ''d'' then isDigit c else c = t) template s"

definition digitsValue :: "string \<Rightarrow> int" where
  "digitsValue s = foldl (\<lambda>a c. 10 * a + digitValue c) 0 s"

definition numberAt :: "nat \<Rightarrow> nat \<Rightarrow> string \<Rightarrow> int" where
  "numberAt i n s = digitsValue (take n (drop i s))"

definition isLeapYear :: "int \<Rightarrow> bool" where
  "isLeapYear y \<longleftrightarrow> (y mod 4 = 0 \<and> y mod 100 \<noteq> 0) \<or> y mod 400 = 0"

definition monthLengths :: "int \<Rightarrow> int list" where
  "monthLengths y = [31, if isLeapYear y then 29 else 28, 31, 30, 31, 30, 31, 31, 30, 31, 30, 31]"

definition daysInMonth :: "int \<Rightarrow> int \<Rightarrow> int" where
  "daysInMonth y m = monthLengths y ! nat (m - 1)"

text \<open>Days from 0000-01-01 to the first day of a year, and of a month in its year.\<close>

definition daysBeforeYear :: "int \<Rightarrow> int" where
  "daysBeforeYear y = 365 * y + (y + 3) div 4 - (y + 99) div 100 + (y + 399) div 400"

definition daysBeforeMonth :: "int \<Rightarrow> int \<Rightarrow> int" where
  "daysBeforeMonth y m = sum_list (take (nat (m - 1)) (monthLengths y))"

definition EPOCH_DAYS :: int where
  "EPOCH_DAYS = 719528"

definition epochMs :: "int \<Rightarrow> int \<Rightarrow> int \<Rightarrow> int \<Rightarrow> int \<Rightarrow> int \<Rightarrow> int \<Rightarrow> int" where
  "epochMs y mo d h mi s ms =
     (((daysBeforeYear y + daysBeforeMonth y mo + d - 1 - EPOCH_DAYS) * 24 + h) * 60 + mi) * 60000
       + s * 1000 + ms"

definition dateParse :: "string \<Rightarrow> int option" where
  "dateParse str =
     (if \<not> matchesTemplate CANONICAL_TIMESTAMP str then None
      else
        let y = numberAt 0 4 str; mo = numberAt 5 2 str; d = numberAt 8 2 str;
            h = numberAt 11 2 str; mi = numberAt 14 2 str; s = numberAt 17 2 str;
            ms = numberAt 20 3 str
        in if 1 \<le> mo \<and> mo \<le> 12 \<and> 1 \<le> d \<and> d \<le> daysInMonth y mo \<and> h \<le> 23 \<and> mi \<le> 59 \<and> s \<le> 59
           then Some (epochMs y mo d h mi s ms)
           else None)"

definition timestampSchema :: "string \<Rightarrow> bool" where
  "timestampSchema s \<longleftrightarrow> dateParse s \<noteq> None"

text \<open>\<open>Date.parse(a) <= Date.parse(b)\<close>, false when either side is NaN.\<close>

definition timeLe :: "string \<Rightarrow> string \<Rightarrow> bool" where
  "timeLe a b =
     (case (dateParse a, dateParse b) of (Some x, Some y) \<Rightarrow> x \<le> y | _ \<Rightarrow> False)"

abbreviation timeGe :: "string \<Rightarrow> string \<Rightarrow> bool" where
  "timeGe a b \<equiv> timeLe b a"

lemma timeLe_iff: "timeLe a b \<longleftrightarrow> (\<exists>x y. dateParse a = Some x \<and> dateParse b = Some y \<and> x \<le> y)"
  by (auto simp: timeLe_def split: option.splits)

lemma timeLe_trans [trans]: "timeLe a b \<Longrightarrow> timeLe b c \<Longrightarrow> timeLe a c"
  by (auto simp: timeLe_iff)

lemma timeLe_schema: "timeLe a b \<Longrightarrow> timestampSchema a \<and> timestampSchema b"
  by (auto simp: timeLe_iff timestampSchema_def)

lemma timeLe_total: "timestampSchema a \<Longrightarrow> timestampSchema b \<Longrightarrow> timeLe a b \<or> timeLe b a"
  by (auto simp: timeLe_iff timestampSchema_def)

lemma div_round_up_step:
  assumes "0 < (k::int)"
  shows "(y + k) div k = (y + (k - 1)) div k + (if y mod k = 0 then 1 else 0)"
proof (cases "y mod k = 0")
  case True
  then obtain q where y: "y = k * q" by auto
  have "(k * q + (k - 1)) div k = q"
    using assms by (simp add: div_pos_pos_trivial)
  moreover have "(k * q + k) div k = q + 1"
    using assms by (simp add: div_add_self2)
  ultimately show ?thesis using True y by simp
next
  case False
  define r where "r = y mod k"
  have r: "1 \<le> r" "r < k"
    using assms False pos_mod_bound[of k y] pos_mod_sign[of k y] unfolding r_def by linarith+
  have y: "y = k * (y div k) + r" by (simp add: r_def)
  have "(y + (k - 1)) div k = y div k + 1"
  proof -
    have "y + (k - 1) = (r - 1) + (y div k + 1) * k"
      using y by (simp add: algebra_simps)
    then have "(y + (k - 1)) div k = ((r - 1) + (y div k + 1) * k) div k" by (rule arg_cong)
    also have "\<dots> = y div k + 1"
      using r assms by (subst div_mult_self1) (simp_all add: div_pos_pos_trivial)
    finally show ?thesis .
  qed
  moreover have "(y + k) div k = y div k + 1"
    using assms by (simp add: div_add_self2)
  ultimately show ?thesis using False by simp
qed

text \<open>The calendar agrees with itself: a year is as long as its months together.\<close>

lemma daysBeforeYear_Suc:
  "daysBeforeYear (y + 1) = daysBeforeYear y + sum_list (monthLengths y)"
proof -
  have step: "daysBeforeYear (y + 1) =
      365 * y + 365 + (y + 4) div 4 - (y + 100) div 100 + (y + 400) div 400"
    by (simp add: daysBeforeYear_def)
  have len: "sum_list (monthLengths y) = (if isLeapYear y then 366 else 365)"
    by (simp add: monthLengths_def)
  have a: "(y + 4) div 4 = (y + 3) div 4 + (if y mod 4 = 0 then 1 else 0)"
    using div_round_up_step[of 4 y] by simp
  have b: "(y + 100) div 100 = (y + 99) div 100 + (if y mod 100 = 0 then 1 else 0)"
    using div_round_up_step[of 100 y] by simp
  have c: "(y + 400) div 400 = (y + 399) div 400 + (if y mod 400 = 0 then 1 else 0)"
    using div_round_up_step[of 400 y] by simp
  have d: "y mod 400 = 0 \<Longrightarrow> y mod 100 = 0" "y mod 100 = 0 \<Longrightarrow> y mod 4 = 0"
    by (auto elim!: dvd_trans[rotated] simp: mod_0_imp_dvd dvd_imp_mod_0)
  show ?thesis
    unfolding step len a b c isLeapYear_def unfolding daysBeforeYear_def
    using d by (cases "y mod 4 = 0"; cases "y mod 100 = 0"; cases "y mod 400 = 0") simp_all
qed

end
