(* ===== verification/Domain.thy ===== *)
theory Domain
  imports Timestamps
begin

text \<open>
  The data model of saved agents (\<open>packages/eve-agent-builder/extension/lib/domain.ts\<close>): opaque
  identifiers, owner scopes, editable fields, drafts, published versions and families, each
  with its validation schema as a Boolean function. An optional property is an \<open>option\<close>.
  Excess properties (\<open>.strict()\<close>) cannot be expressed in a record, so they need no check.

  Three facilities come from outside the repository and are arguments of the definitions that
  use them, gathered in the record \<open>host\<close>: Unicode NFKC normalisation, the time zone database
  behind \<open>Intl.DateTimeFormat\<close>, and SHA-256 over the JSON text of a value (lower-case hex).
\<close>

section \<open>JSON values\<close>

datatype JsonValue =
    JNull
  | JBool bool
  | JNumber rat
  | JString string
  | JArray "JsonValue list"
  | JObject "(string \<times> JsonValue) list"

record host =
  nfkc :: "string \<Rightarrow> string"
  ianaTimezone :: "string \<Rightarrow> bool"
  sha256Json :: "JsonValue \<Rightarrow> string"

definition MAX_JSON_VALUE_DEPTH :: nat where
  "MAX_JSON_VALUE_DEPTH = 64"

definition MAX_JSON_VALUE_NODES :: nat where
  "MAX_JSON_VALUE_NODES = 10000"

fun jsonNodes :: "JsonValue \<Rightarrow> nat" where
  "jsonNodes (JArray vs) = Suc (sum_list (map jsonNodes vs))"
| "jsonNodes (JObject kvs) = Suc (sum_list (map (\<lambda>kv. jsonNodes (snd kv)) kvs))"
| "jsonNodes _ = 1"

text \<open>
  \<open>isBoundedJsonValue\<close>: a worklist with an explicit stack. A value of the datatype is a finite
  tree of plain data, so the checks for cycles, accessors, symbols and prototypes never fail.
  \<open>pending.pop()\<close> takes the last element pushed: array elements are pushed from the last to
  the first, object properties in order.
\<close>

fun pushChildren :: "JsonValue \<Rightarrow> nat \<Rightarrow> (JsonValue \<times> nat) list" where
  "pushChildren (JArray vs) d = map (\<lambda>v. (v, d + 1)) vs"
| "pushChildren (JObject kvs) d = rev (map (\<lambda>kv. (snd kv, d + 1)) kvs)"
| "pushChildren _ d = []"

definition pendingNodes :: "(JsonValue \<times> nat) list \<Rightarrow> nat" where
  "pendingNodes pending = sum_list (map (\<lambda>p. jsonNodes (fst p)) pending)"

lemma jsonNodes_positive [simp]: "0 < jsonNodes v"
  by (cases v) auto

lemma pendingNodes_simps [simp]:
  "pendingNodes [] = 0"
  "pendingNodes ((v, d) # ps) = jsonNodes v + pendingNodes ps"
  "pendingNodes (ps @ qs) = pendingNodes ps + pendingNodes qs"
  by (simp_all add: pendingNodes_def)

lemma pendingNodes_pushChildren [simp]: "pendingNodes (pushChildren v d) = jsonNodes v - 1"
  by (cases v) (simp_all add: pendingNodes_def comp_def rev_map[symmetric] sum_list_rev)

function boundedJsonLoop :: "nat \<Rightarrow> (JsonValue \<times> nat) list \<Rightarrow> bool" where
  "boundedJsonLoop nodes [] = True"
| "boundedJsonLoop nodes ((value, depth) # pending) =
     (if nodes + 1 > MAX_JSON_VALUE_NODES \<or> depth > MAX_JSON_VALUE_DEPTH then False
      else boundedJsonLoop (nodes + 1) (pushChildren value depth @ pending))"
  by pat_completeness auto
termination
  by (relation "measure (\<lambda>(_, pending). pendingNodes pending)") (auto simp: Suc_le_eq)

definition isBoundedJsonValue :: "JsonValue \<Rightarrow> bool" where
  "isBoundedJsonValue rootValue = boundedJsonLoop 0 [(rootValue, 0)]"

definition jsonValueSchema :: "JsonValue \<Rightarrow> bool" where
  "jsonValueSchema v = isBoundedJsonValue v"

fun isJsonObject :: "JsonValue \<Rightarrow> bool" where
  "isJsonObject (JObject _) = True"
| "isJsonObject _ = False"

definition jsonObjectSchema :: "JsonValue \<Rightarrow> bool" where
  "jsonObjectSchema v \<longleftrightarrow> isBoundedJsonValue v \<and> isJsonObject v"

section \<open>Identifiers and owners\<close>

definition NUL :: char where
  "NUL = char_of (0::nat)"

definition identifierSchema :: "string \<Rightarrow> bool" where
  "identifierSchema s \<longleftrightarrow> boundedString 1 512 s \<and> NUL \<notin> set s"

definition positiveRevisionSchema :: "int \<Rightarrow> bool" where
  "positiveRevisionSchema n \<longleftrightarrow> isSafeInteger n \<and> 0 < n"

definition positiveVersionSchema :: "int \<Rightarrow> bool" where
  "positiveVersionSchema n \<longleftrightarrow> isSafeInteger n \<and> 0 < n"

record OwnerScope =
  tenantKey :: string
  ownerKey :: string

definition ownerScopeSchema :: "OwnerScope \<Rightarrow> bool" where
  "ownerScopeSchema ow \<longleftrightarrow>
     boundedString 1 512 (tenantKey ow) \<and> NUL \<notin> set (tenantKey ow) \<and>
     boundedString 1 512 (ownerKey ow) \<and> NUL \<notin> set (ownerKey ow)"

definition sameOwner :: "OwnerScope \<Rightarrow> OwnerScope \<Rightarrow> bool" where
  "sameOwner a b \<longleftrightarrow> tenantKey a = tenantKey b \<and> ownerKey a = ownerKey b"

lemma sameOwner_eq [simp]: "sameOwner a b \<longleftrightarrow> a = b"
  by (cases a; cases b) (simp add: sameOwner_def)

section \<open>Names\<close>

definition canonicalizeAgentName :: "host \<Rightarrow> string \<Rightarrow> string" where
  "canonicalizeAgentName h name =
     map lowerChar (trim (collapseWhiteSpace (nfkc h name)))"

definition savedAgentNameSchema :: "host \<Rightarrow> string \<Rightarrow> bool" where
  "savedAgentNameSchema h s \<longleftrightarrow>
     boundedString 1 256 s \<and>
     length (canonicalizeAgentName h s) \<noteq> 0 \<and> length (canonicalizeAgentName h s) \<le> 128"

section \<open>Editable fields\<close>

datatype SavedAgentKind = KindAgent | KindSkill

datatype AgentLifecycle = DraftOnly | Active | Archived | Deleted

datatype RequirementLevel = Required | Optional

record SavedToolRequirement =
  req_capabilityId :: string
  req_level :: RequirementLevel
  req_displayNameSnapshot :: string
  req_schemaFingerprint :: string
  req_consequential :: bool

definition savedToolRequirementSchema :: "SavedToolRequirement \<Rightarrow> bool" where
  "savedToolRequirementSchema r \<longleftrightarrow>
     identifierSchema (req_capabilityId r) \<and>
     boundedString 1 256 (req_displayNameSnapshot r) \<and>
     boundedString 1 512 (req_schemaFingerprint r)"

record InvocationDestination =
  dst_channelKind :: string
  dst_address :: string
  dst_threadKey :: "string option"

definition invocationDestinationSchema :: "InvocationDestination \<Rightarrow> bool" where
  "invocationDestinationSchema d \<longleftrightarrow>
     boundedString 1 128 (dst_channelKind d) \<and>
     boundedString 1 2048 (dst_address d) \<and>
     optionally (boundedString 1 2048) (dst_threadKey d)"

datatype SavedTriggerDefinition =
    ScheduleTrigger (triggerId: string) (displaySchedule: string) (timezone: string)
      (normalizedSchedule: JsonValue) (destination: InvocationDestination)
  | EventTrigger (triggerId: string) (sourceId: string) (eventFilter: JsonValue)
      (destination: InvocationDestination)

definition ianaTimezoneSchema :: "host \<Rightarrow> string \<Rightarrow> bool" where
  "ianaTimezoneSchema h s \<longleftrightarrow> boundedString 1 128 s \<and> ianaTimezone h s"

fun savedTriggerDefinitionSchema :: "host \<Rightarrow> SavedTriggerDefinition \<Rightarrow> bool" where
  "savedTriggerDefinitionSchema h (ScheduleTrigger tid disp tz sched dest) \<longleftrightarrow>
     identifierSchema tid \<and> boundedString 1 512 disp \<and> ianaTimezoneSchema h tz \<and>
     jsonObjectSchema sched \<and> invocationDestinationSchema dest"
| "savedTriggerDefinitionSchema h (EventTrigger tid src filt dest) \<longleftrightarrow>
     identifierSchema tid \<and> boundedString 1 512 src \<and>
     jsonObjectSchema filt \<and> invocationDestinationSchema dest"

record SavedAgentEditableFields =
  fld_name :: string
  fld_kind :: SavedAgentKind
  fld_description :: string
  fld_pmBrief :: string
  fld_instructions :: string
  fld_toolRequirements :: "SavedToolRequirement list"
  fld_triggers :: "SavedTriggerDefinition list"
  fld_testChecklist :: "string list"
  fld_qaFindings :: "string list"

text \<open>
  \<open>addUniqueIdIssues\<close> walks each list with the set of identifiers seen so far; it reports an
  issue exactly when an identifier is seen again.
\<close>

fun uniqueIds :: "string list \<Rightarrow> string set \<Rightarrow> bool" where
  "uniqueIds [] seen = True"
| "uniqueIds (x # xs) seen = (x \<notin> seen \<and> uniqueIds xs (insert x seen))"

lemma uniqueIds_iff: "uniqueIds xs seen \<longleftrightarrow> distinct xs \<and> set xs \<inter> seen = {}"
  by (induction xs arbitrary: seen) auto

definition noUniqueIdIssues ::
  "SavedToolRequirement list \<Rightarrow> SavedTriggerDefinition list \<Rightarrow> bool" where
  "noUniqueIdIssues reqs trgs \<longleftrightarrow>
     uniqueIds (map req_capabilityId reqs) {} \<and> uniqueIds (map triggerId trgs) {}"

definition noKindIssues ::
  "SavedAgentKind \<Rightarrow> SavedToolRequirement list \<Rightarrow> SavedTriggerDefinition list \<Rightarrow> bool" where
  "noKindIssues k reqs trgs \<longleftrightarrow>
     noUniqueIdIssues reqs trgs \<and>
     \<not> (k = KindSkill \<and> length reqs > 0) \<and> \<not> (k = KindSkill \<and> length trgs > 0)"

definition editableFieldsObjectSchema :: "host \<Rightarrow> SavedAgentEditableFields \<Rightarrow> bool" where
  "editableFieldsObjectSchema h f \<longleftrightarrow>
     savedAgentNameSchema h (fld_name f) \<and>
     maxString 8000 (fld_description f) \<and>
     maxString 32000 (fld_pmBrief f) \<and>
     maxString 128000 (fld_instructions f) \<and>
     length (fld_toolRequirements f) \<le> 256 \<and>
     list_all savedToolRequirementSchema (fld_toolRequirements f) \<and>
     length (fld_triggers f) \<le> 256 \<and>
     list_all (savedTriggerDefinitionSchema h) (fld_triggers f) \<and>
     length (fld_testChecklist f) \<le> 256 \<and>
     list_all (boundedString 1 4000) (fld_testChecklist f) \<and>
     length (fld_qaFindings f) \<le> 256 \<and>
     list_all (boundedString 1 8000) (fld_qaFindings f)"

definition savedAgentEditableFieldsSchema :: "host \<Rightarrow> SavedAgentEditableFields \<Rightarrow> bool" where
  "savedAgentEditableFieldsSchema h f \<longleftrightarrow>
     editableFieldsObjectSchema h f \<and>
     noKindIssues (fld_kind f) (fld_toolRequirements f) (fld_triggers f)"

section \<open>Drafts, published versions, families\<close>

text \<open>A draft spreads its nine editable fields; here they are one component, \<open>d_fields\<close>.\<close>

record SavedAgentDraft =
  d_draftId :: string
  d_basedOnSpecId :: "string option"
  d_basedOnVersion :: "int option"
  d_fields :: SavedAgentEditableFields
  d_draftRevision :: int
  d_createdAt :: Timestamp
  d_updatedAt :: Timestamp

definition savedAgentDraftSchema :: "host \<Rightarrow> SavedAgentDraft \<Rightarrow> bool" where
  "savedAgentDraftSchema h d \<longleftrightarrow>
     identifierSchema (d_draftId d) \<and>
     optionally identifierSchema (d_basedOnSpecId d) \<and>
     optionally positiveVersionSchema (d_basedOnVersion d) \<and>
     editableFieldsObjectSchema h (d_fields d) \<and>
     positiveRevisionSchema (d_draftRevision d) \<and>
     timestampSchema (d_createdAt d) \<and>
     timestampSchema (d_updatedAt d) \<and>
     noKindIssues (fld_kind (d_fields d)) (fld_toolRequirements (d_fields d))
       (fld_triggers (d_fields d)) \<and>
     (d_basedOnSpecId d = None) = (d_basedOnVersion d = None)"

record PublishedAgentVersion =
  v_specId :: string
  v_agentId :: string
  v_version :: int
  v_name :: string
  v_kind :: SavedAgentKind
  v_description :: string
  v_pmBrief :: string
  v_instructions :: string
  v_toolRequirements :: "SavedToolRequirement list"
  v_triggers :: "SavedTriggerDefinition list"
  v_testChecklist :: "string list"
  v_publishedAt :: Timestamp
  v_publishedBy :: string

definition publishedAgentVersionSchema :: "host \<Rightarrow> PublishedAgentVersion \<Rightarrow> bool" where
  "publishedAgentVersionSchema h v \<longleftrightarrow>
     identifierSchema (v_specId v) \<and>
     identifierSchema (v_agentId v) \<and>
     positiveVersionSchema (v_version v) \<and>
     savedAgentNameSchema h (v_name v) \<and>
     maxString 8000 (v_description v) \<and>
     maxString 32000 (v_pmBrief v) \<and>
     maxString 128000 (v_instructions v) \<and>
     length (v_toolRequirements v) \<le> 256 \<and>
     list_all savedToolRequirementSchema (v_toolRequirements v) \<and>
     length (v_triggers v) \<le> 256 \<and>
     list_all (savedTriggerDefinitionSchema h) (v_triggers v) \<and>
     length (v_testChecklist v) \<le> 256 \<and>
     list_all (boundedString 1 4000) (v_testChecklist v) \<and>
     timestampSchema (v_publishedAt v) \<and>
     boundedString 1 1024 (v_publishedBy v) \<and>
     noKindIssues (v_kind v) (v_toolRequirements v) (v_triggers v)"

record SavedAgentFamily =
  fam_agentId :: string
  fam_owner :: OwnerScope
  fam_lifecycle :: AgentLifecycle
  fam_activeSpecId :: "string option"
  fam_activeVersion :: "int option"
  fam_draft :: "SavedAgentDraft option"
  fam_revision :: int
  fam_createdAt :: Timestamp
  fam_updatedAt :: Timestamp
  fam_archivedAt :: "Timestamp option"
  fam_deletedAt :: "Timestamp option"

text \<open>The refinement of \<open>savedAgentFamilySchema\<close>: which fields go with which lifecycle.\<close>

definition lifecycleConsistent :: "SavedAgentFamily \<Rightarrow> bool" where
  "lifecycleConsistent f \<longleftrightarrow>
     (let hasActiveSpec = fam_activeSpecId f \<noteq> None; hasActiveVersion = fam_activeVersion f \<noteq> None
      in \<not> (hasActiveSpec \<noteq> hasActiveVersion) \<and>
         \<not> (fam_lifecycle f = DraftOnly \<and> (hasActiveSpec \<or> fam_draft f = None)) \<and>
         \<not> (fam_lifecycle f = Active \<and> \<not> hasActiveSpec) \<and>
         \<not> ((fam_lifecycle f = Archived) \<noteq> (fam_archivedAt f \<noteq> None)) \<and>
         \<not> ((fam_lifecycle f = Deleted) \<noteq> (fam_deletedAt f \<noteq> None)))"

definition savedAgentFamilySchema :: "host \<Rightarrow> SavedAgentFamily \<Rightarrow> bool" where
  "savedAgentFamilySchema h f \<longleftrightarrow>
     identifierSchema (fam_agentId f) \<and>
     ownerScopeSchema (fam_owner f) \<and>
     optionally identifierSchema (fam_activeSpecId f) \<and>
     optionally positiveVersionSchema (fam_activeVersion f) \<and>
     optionally (savedAgentDraftSchema h) (fam_draft f) \<and>
     positiveRevisionSchema (fam_revision f) \<and>
     timestampSchema (fam_createdAt f) \<and>
     timestampSchema (fam_updatedAt f) \<and>
     optionally timestampSchema (fam_archivedAt f) \<and>
     optionally timestampSchema (fam_deletedAt f) \<and>
     lifecycleConsistent f"

section \<open>Facts about the data model\<close>

text \<open>
  The worklist of \<open>isBoundedJsonValue\<close> computes what its two limits say: the number of nodes
  and the depth of the whole tree.
\<close>

fun jsonDepth :: "JsonValue \<Rightarrow> nat" where
  "jsonDepth (JArray vs) = foldr max (map (\<lambda>v. Suc (jsonDepth v)) vs) 0"
| "jsonDepth (JObject kvs) = foldr max (map (\<lambda>kv. Suc (jsonDepth (snd kv))) kvs) 0"
| "jsonDepth _ = 0"

lemma add_foldr_max_le:
  "d \<le> n \<Longrightarrow> d + foldr max xs (0::nat) \<le> n \<longleftrightarrow> (\<forall>x \<in> set xs. d + x \<le> n)"
  by (induction xs) (auto simp: max_def)

lemma pushChildren_depth:
  "d \<le> n \<Longrightarrow> (\<forall>(w, e) \<in> set (pushChildren v d). e + jsonDepth w \<le> n) \<longleftrightarrow> d + jsonDepth v \<le> n"
  by (cases v) (auto simp: add_foldr_max_le split_beta)

lemma boundedJsonLoop_iff:
  "boundedJsonLoop n pending \<longleftrightarrow>
     pending = [] \<or>
     (n + pendingNodes pending \<le> MAX_JSON_VALUE_NODES \<and>
      (\<forall>(v, d) \<in> set pending. d + jsonDepth v \<le> MAX_JSON_VALUE_DEPTH))"
proof (induction n pending rule: boundedJsonLoop.induct)
  case (1 nodes)
  then show ?case by simp
next
  case (2 nodes v d ps)
  show ?case
  proof (cases "nodes + 1 > MAX_JSON_VALUE_NODES \<or> d > MAX_JSON_VALUE_DEPTH")
    case True
    then have "\<not> (nodes + pendingNodes ((v, d) # ps) \<le> MAX_JSON_VALUE_NODES \<and>
        d + jsonDepth v \<le> MAX_JSON_VALUE_DEPTH)"
      using jsonNodes_positive[of v] unfolding pendingNodes_simps by linarith
    with True show ?thesis by auto
  next
    case False
    have n: "nodes + 1 + pendingNodes (pushChildren v d @ ps) = nodes + pendingNodes ((v, d) # ps)"
      using jsonNodes_positive[of v] by simp
    have d: "(\<forall>(w, e) \<in> set (pushChildren v d). e + jsonDepth w \<le> MAX_JSON_VALUE_DEPTH)
        \<longleftrightarrow> d + jsonDepth v \<le> MAX_JSON_VALUE_DEPTH"
      using False by (intro pushChildren_depth) simp
    have "boundedJsonLoop nodes ((v, d) # ps) = boundedJsonLoop (nodes + 1) (pushChildren v d @ ps)"
      using False by simp
    also have "\<dots> \<longleftrightarrow> pushChildren v d @ ps = [] \<or>
        (nodes + pendingNodes ((v, d) # ps) \<le> MAX_JSON_VALUE_NODES \<and>
         (\<forall>(w, e) \<in> set (pushChildren v d @ ps). e + jsonDepth w \<le> MAX_JSON_VALUE_DEPTH))"
      using "2.IH"[OF False, unfolded n] .
    also have "\<dots> \<longleftrightarrow> nodes + pendingNodes ((v, d) # ps) \<le> MAX_JSON_VALUE_NODES \<and>
         (\<forall>(w, e) \<in> set ((v, d) # ps). e + jsonDepth w \<le> MAX_JSON_VALUE_DEPTH)"
    proof (cases "pushChildren v d @ ps = []")
      case True
      then have "jsonNodes v = 1" and "jsonDepth v = 0"
        using pendingNodes_pushChildren[of v d] jsonNodes_positive[of v] d False by (cases v; simp)+
      then show ?thesis using True False by simp
    next
      case ne: False
      then show ?thesis using d by (auto simp: ball_Un)
    qed
    finally show ?thesis by simp
  qed
qed

text \<open>C26. The iterative check of JSON payloads is exact: the worklist accepts a value if and only if
  the whole tree has at most 10,000 nodes and is at most 64 levels deep, so it neither rejects a
  payload within the limits nor recurses on one beyond them.\<close>

theorem isBoundedJsonValue_iff:
  "isBoundedJsonValue v \<longleftrightarrow>
     jsonNodes v \<le> MAX_JSON_VALUE_NODES \<and> jsonDepth v \<le> MAX_JSON_VALUE_DEPTH"
  by (simp add: isBoundedJsonValue_def boundedJsonLoop_iff)

text \<open>A family's fields by lifecycle, read off the schema.\<close>

lemma lifecycleConsistentD:
  assumes "lifecycleConsistent f"
  shows "fam_activeSpecId f = None \<longleftrightarrow> fam_activeVersion f = None"
    and "fam_lifecycle f = Active \<Longrightarrow> fam_activeSpecId f \<noteq> None"
    and "fam_lifecycle f = DraftOnly \<Longrightarrow> fam_activeSpecId f = None \<and> fam_draft f \<noteq> None"
    and "fam_lifecycle f = Archived \<longleftrightarrow> fam_archivedAt f \<noteq> None"
    and "fam_lifecycle f = Deleted \<longleftrightarrow> fam_deletedAt f \<noteq> None"
  using assms by (auto simp: lifecycleConsistent_def Let_def)

lemma savedAgentFamilySchema_lifecycle:
  "savedAgentFamilySchema h f \<Longrightarrow> lifecycleConsistent f"
  by (simp add: savedAgentFamilySchema_def)

end
