(* ===== verification/Workflow.thy ===== *)
theory Workflow
  imports Domain
begin

text \<open>
  The durable build workflow (\<open>packages/eve-agent-builder/extension/lib/workflow.ts\<close>): phases,
  roles and results, the transition log, test evidence, QA approval, publication evidence, and
  the workflow record with the cross-field refinement of its schema.
\<close>

datatype BuildWorkflowPhase =
    PmWork | PmInput | ImplementationWork | ImplementationInput | QaReview | QaInput
  | TestPending | PublishReady | Published | TerminalFailure

datatype BuildWorkflowRole =
    RoleSystem | RolePm | RoleImplementor | RoleQa | RoleTestRunner | RoleRoot

datatype BuildWorkflowResult =
    ResAllocated | ResCompletedHandoff | ResNeedsUserInput | ResNeedsTest | ResTestPassed
  | ResTestInputRequired | ResTestFailed | ResChangesRequested | ResApproved | ResPublished
  | ResFailed | ResDraftEdited | ResApprovalInvalidated

record BuildWorkflowTransition =
  tr_owner :: OwnerScope
  tr_workflowId :: string
  tr_agentId :: string
  tr_draftId :: string
  tr_draftRevision :: int
  tr_role :: BuildWorkflowRole
  tr_operationId :: string
  tr_fromPhase :: BuildWorkflowPhase
  tr_toPhase :: BuildWorkflowPhase
  tr_result :: BuildWorkflowResult
  tr_occurredAt :: Timestamp

definition buildWorkflowTransitionSchema :: "BuildWorkflowTransition \<Rightarrow> bool" where
  "buildWorkflowTransitionSchema t \<longleftrightarrow>
     ownerScopeSchema (tr_owner t) \<and> identifierSchema (tr_workflowId t) \<and>
     identifierSchema (tr_agentId t) \<and> identifierSchema (tr_draftId t) \<and>
     positiveRevisionSchema (tr_draftRevision t) \<and> identifierSchema (tr_operationId t) \<and>
     timestampSchema (tr_occurredAt t)"

datatype CapabilityUnavailableReason = Missing | Unauthorized | Disabled | Incompatible

record BuildTestCapabilityOmission =
  bo_capabilityId :: string
  bo_reason :: CapabilityUnavailableReason

datatype BuildTestStatus = TestPassed | TestInputRequired | TestFailed

record BuildTestEvidence =
  te_testRunId :: string
  te_owner :: OwnerScope
  te_workflowId :: string
  te_agentId :: string
  te_draftId :: string
  te_draftRevision :: int
  te_leaseId :: string
  te_childSessionId :: string
  te_executionTurnId :: string
  te_status :: BuildTestStatus
  te_capabilityPlanFingerprint :: string
  te_requiredCapabilityIds :: "string list"
  te_usedCapabilityIds :: "string list"
  te_failedCapabilityIds :: "string list"
  te_optionalOmissions :: "BuildTestCapabilityOmission list"
  te_errorCodes :: "string list"
  te_startedAt :: Timestamp
  te_completedAt :: Timestamp

definition idListSchema :: "string list \<Rightarrow> bool" where
  "idListSchema ids \<longleftrightarrow> list_all identifierSchema ids \<and> length ids \<le> 256"

definition buildTestEvidenceSchema :: "BuildTestEvidence \<Rightarrow> bool" where
  "buildTestEvidenceSchema e \<longleftrightarrow>
     identifierSchema (te_testRunId e) \<and> ownerScopeSchema (te_owner e) \<and>
     identifierSchema (te_workflowId e) \<and> identifierSchema (te_agentId e) \<and>
     identifierSchema (te_draftId e) \<and> positiveRevisionSchema (te_draftRevision e) \<and>
     boundedString 1 512 (te_leaseId e) \<and> boundedString 1 512 (te_childSessionId e) \<and>
     boundedString 1 512 (te_executionTurnId e) \<and>
     sha256Reference (te_capabilityPlanFingerprint e) \<and>
     idListSchema (te_requiredCapabilityIds e) \<and> idListSchema (te_usedCapabilityIds e) \<and>
     idListSchema (te_failedCapabilityIds e) \<and>
     list_all (\<lambda>x. identifierSchema (bo_capabilityId x)) (te_optionalOmissions e) \<and>
     length (te_optionalOmissions e) \<le> 256 \<and>
     list_all (boundedString 1 256) (te_errorCodes e) \<and> length (te_errorCodes e) \<le> 256 \<and>
     timestampSchema (te_startedAt e) \<and> timestampSchema (te_completedAt e)"

record QaApprovalEvidence =
  qa_owner :: OwnerScope
  qa_workflowId :: string
  qa_agentId :: string
  qa_draftId :: string
  qa_draftRevision :: int
  qa_testRunId :: string
  qa_capabilityPlanFingerprint :: string
  qa_requiredCapabilityIds :: "string list"
  qa_operationId :: string
  qa_approvedAt :: Timestamp

definition qaApprovalEvidenceSchema :: "QaApprovalEvidence \<Rightarrow> bool" where
  "qaApprovalEvidenceSchema q \<longleftrightarrow>
     ownerScopeSchema (qa_owner q) \<and> identifierSchema (qa_workflowId q) \<and>
     identifierSchema (qa_agentId q) \<and> identifierSchema (qa_draftId q) \<and>
     positiveRevisionSchema (qa_draftRevision q) \<and> identifierSchema (qa_testRunId q) \<and>
     sha256Reference (qa_capabilityPlanFingerprint q) \<and>
     idListSchema (qa_requiredCapabilityIds q) \<and> identifierSchema (qa_operationId q) \<and>
     timestampSchema (qa_approvedAt q)"

record PublishedBuildEvidence =
  pb_owner :: OwnerScope
  pb_workflowId :: string
  pb_agentId :: string
  pb_specId :: string
  pb_specVersion :: int
  pb_operationId :: string
  pb_publishedAt :: Timestamp

definition publishedBuildEvidenceSchema :: "PublishedBuildEvidence \<Rightarrow> bool" where
  "publishedBuildEvidenceSchema p \<longleftrightarrow>
     ownerScopeSchema (pb_owner p) \<and> identifierSchema (pb_workflowId p) \<and>
     identifierSchema (pb_agentId p) \<and> identifierSchema (pb_specId p) \<and>
     positiveVersionSchema (pb_specVersion p) \<and> identifierSchema (pb_operationId p) \<and>
     timestampSchema (pb_publishedAt p)"

record BuildWorkflowRecord =
  wf_workflowId :: string
  wf_owner :: OwnerScope
  wf_agentId :: string
  wf_draftId :: string
  wf_draftRevision :: int
  wf_revision :: int
  wf_phase :: BuildWorkflowPhase
  wf_testRunId :: "string option"
  wf_testEvidence :: "BuildTestEvidence option"
  wf_qaApproval :: "QaApprovalEvidence option"
  wf_published :: "PublishedBuildEvidence option"
  wf_transitions :: "BuildWorkflowTransition list"
  wf_createdAt :: Timestamp
  wf_updatedAt :: Timestamp

text \<open>The refinement of \<open>buildWorkflowRecordSchema\<close>, one conjunct per issue it can report.\<close>

definition transitionBound :: "BuildWorkflowRecord \<Rightarrow> BuildWorkflowTransition \<Rightarrow> bool" where
  "transitionBound w t \<longleftrightarrow>
     sameOwner (tr_owner t) (wf_owner w) \<and> tr_workflowId t = wf_workflowId w \<and>
     tr_agentId t = wf_agentId w \<and> tr_draftId t = wf_draftId w"

definition latestDescribes :: "BuildWorkflowRecord \<Rightarrow> bool" where
  "latestDescribes w \<longleftrightarrow>
     (case wf_transitions w of [] \<Rightarrow> False
      | _ \<Rightarrow> tr_toPhase (last (wf_transitions w)) = wf_phase w \<and>
             tr_draftRevision (last (wf_transitions w)) = wf_draftRevision w)"

definition evidenceBound :: "BuildWorkflowRecord \<Rightarrow> bool" where
  "evidenceBound w \<longleftrightarrow>
     (case wf_testEvidence w of None \<Rightarrow> True
      | Some e \<Rightarrow>
          wf_testRunId w = Some (te_testRunId e) \<and>
          sameOwner (te_owner e) (wf_owner w) \<and> te_workflowId e = wf_workflowId w \<and>
          te_agentId e = wf_agentId w \<and> te_draftId e = wf_draftId w \<and>
          te_draftRevision e = wf_draftRevision w)"

definition approvalBound :: "BuildWorkflowRecord \<Rightarrow> bool" where
  "approvalBound w \<longleftrightarrow>
     (case wf_qaApproval w of None \<Rightarrow> True
      | Some q \<Rightarrow>
          (case wf_testEvidence w of None \<Rightarrow> False
           | Some e \<Rightarrow>
               sameOwner (qa_owner q) (wf_owner w) \<and> qa_workflowId q = wf_workflowId w \<and>
               qa_agentId q = wf_agentId w \<and> qa_draftId q = wf_draftId w \<and>
               qa_draftRevision q = wf_draftRevision w \<and>
               qa_testRunId q = te_testRunId e \<and>
               qa_capabilityPlanFingerprint q = te_capabilityPlanFingerprint e))"

definition publicationBound :: "BuildWorkflowRecord \<Rightarrow> bool" where
  "publicationBound w \<longleftrightarrow>
     (case wf_published w of None \<Rightarrow> True
      | Some p \<Rightarrow> sameOwner (pb_owner p) (wf_owner w) \<and> pb_workflowId p = wf_workflowId w \<and>
                   pb_agentId p = wf_agentId w)"

definition buildWorkflowRefinement :: "BuildWorkflowRecord \<Rightarrow> bool" where
  "buildWorkflowRefinement w \<longleftrightarrow>
     list_all (transitionBound w) (wf_transitions w) \<and>
     latestDescribes w \<and>
     evidenceBound w \<and>
     approvalBound w \<and>
     (wf_phase w = TestPending) = (wf_testRunId w \<noteq> None \<and> wf_testEvidence w = None) \<and>
     (wf_phase w = Published) = (wf_published w \<noteq> None) \<and>
     publicationBound w \<and>
     \<not> (wf_phase w = PublishReady \<and> wf_qaApproval w = None)"

definition buildWorkflowRecordSchema :: "BuildWorkflowRecord \<Rightarrow> bool" where
  "buildWorkflowRecordSchema w \<longleftrightarrow>
     identifierSchema (wf_workflowId w) \<and> ownerScopeSchema (wf_owner w) \<and>
     identifierSchema (wf_agentId w) \<and> identifierSchema (wf_draftId w) \<and>
     positiveRevisionSchema (wf_draftRevision w) \<and> positiveRevisionSchema (wf_revision w) \<and>
     optionally identifierSchema (wf_testRunId w) \<and>
     optionally buildTestEvidenceSchema (wf_testEvidence w) \<and>
     optionally qaApprovalEvidenceSchema (wf_qaApproval w) \<and>
     optionally publishedBuildEvidenceSchema (wf_published w) \<and>
     list_all buildWorkflowTransitionSchema (wf_transitions w) \<and>
     1 \<le> length (wf_transitions w) \<and> length (wf_transitions w) \<le> 256 \<and>
     timestampSchema (wf_createdAt w) \<and> timestampSchema (wf_updatedAt w) \<and>
     buildWorkflowRefinement w"

section \<open>Consequences of the schema\<close>

lemma buildWorkflowRecordSchemaD:
  assumes "buildWorkflowRecordSchema w"
  shows "buildWorkflowRefinement w" and "wf_transitions w \<noteq> []"
    and "length (wf_transitions w) \<le> 256"
    and "ownerScopeSchema (wf_owner w)"
  using assms by (auto simp: buildWorkflowRecordSchema_def)

lemma approval_evidence:
  assumes "buildWorkflowRefinement w" and "wf_qaApproval w = Some q"
  obtains e where "wf_testEvidence w = Some e" and "te_testRunId e = qa_testRunId q"
    and "te_draftRevision e = wf_draftRevision w" and "te_draftId e = wf_draftId w"
    and "qa_draftRevision q = wf_draftRevision w"
    and "te_capabilityPlanFingerprint e = qa_capabilityPlanFingerprint q"
  using assms
  by (auto simp: buildWorkflowRefinement_def approvalBound_def evidenceBound_def
      split: option.splits)

end
