(* ===== verification/Bootstrap.thy ===== *)
theory Bootstrap
  imports Workflow
begin

text \<open>
  Bootstrap grants and execution leases (\<open>packages/eve-agent-builder/extension/lib/bootstrap.ts\<close>):
  the records a store keeps, their schemas, the store commands and errors, and the comparisons
  the store uses. A grant stores only the hash of its token.
\<close>

definition AGENT_BUILDER_BOOTSTRAP_PROTOCOL_VERSION :: int where
  "AGENT_BUILDER_BOOTSTRAP_PROTOCOL_VERSION = 1"

definition DEFAULT_BOOTSTRAP_GRANT_TTL_MS :: int where
  "DEFAULT_BOOTSTRAP_GRANT_TTL_MS = 5 * 60 * 1000"

definition DEFAULT_EXECUTION_LEASE_TTL_MS :: int where
  "DEFAULT_EXECUTION_LEASE_TTL_MS = 15 * 60 * 1000"

definition MINIMUM_BOOTSTRAP_TOKEN_BYTES :: nat where
  "MINIMUM_BOOTSTRAP_TOKEN_BYTES = 16"

datatype ExecutionRole = ExPm | ExImplementor | ExQa | ExTestRunner | ExActiveRunner

record BuildExecutionScope =
  sc_workflowId :: string
  sc_workflowRevision :: int
  sc_testRunId :: "string option"

definition buildExecutionScopeSchema :: "BuildExecutionScope \<Rightarrow> bool" where
  "buildExecutionScopeSchema s \<longleftrightarrow>
     identifierSchema (sc_workflowId s) \<and> positiveRevisionSchema (sc_workflowRevision s) \<and>
     optionally identifierSchema (sc_testRunId s)"

datatype BootstrapTarget =
    DraftTarget (tgt_agentId: string) (tgt_draftId: string) (tgt_draftRevision: int)
  | PublishedTarget (tgt_agentId: string) (tgt_specId: string) (tgt_specVersion: int)

fun bootstrapTargetSchema :: "BootstrapTarget \<Rightarrow> bool" where
  "bootstrapTargetSchema (DraftTarget a d r) \<longleftrightarrow>
     identifierSchema a \<and> identifierSchema d \<and> positiveRevisionSchema r"
| "bootstrapTargetSchema (PublishedTarget a s v) \<longleftrightarrow>
     identifierSchema a \<and> identifierSchema s \<and> positiveVersionSchema v"

record BootstrapGrantRecord =
  gr_grantId :: string
  gr_tokenHash :: string
  gr_owner :: OwnerScope
  gr_role :: ExecutionRole
  gr_target :: BootstrapTarget
  gr_workflow :: "BuildExecutionScope option"
  gr_parentSessionId :: string
  gr_parentTurnId :: "string option"
  gr_parentCallId :: "string option"
  gr_issuedAt :: Timestamp
  gr_expiresAt :: Timestamp
  gr_redeemedAt :: "Timestamp option"
  gr_childSessionId :: "string option"

definition bootstrapGrantRecordSchema :: "BootstrapGrantRecord \<Rightarrow> bool" where
  "bootstrapGrantRecordSchema g \<longleftrightarrow>
     boundedString 1 512 (gr_grantId g) \<and> sha256Reference (gr_tokenHash g) \<and>
     ownerScopeSchema (gr_owner g) \<and> bootstrapTargetSchema (gr_target g) \<and>
     optionally buildExecutionScopeSchema (gr_workflow g) \<and>
     boundedString 1 512 (gr_parentSessionId g) \<and>
     optionally (boundedString 1 512) (gr_parentTurnId g) \<and>
     optionally (boundedString 1 512) (gr_parentCallId g) \<and>
     timestampSchema (gr_issuedAt g) \<and> timestampSchema (gr_expiresAt g) \<and>
     optionally timestampSchema (gr_redeemedAt g) \<and>
     optionally (boundedString 1 512) (gr_childSessionId g) \<and>
     (gr_redeemedAt g = None) = (gr_childSessionId g = None)"

datatype PlanMode = ModeTest | ModeDirect | ModeUnattended

record ExecutionCapabilityPlanEntry =
  pe_capabilityId :: string
  pe_modelToolName :: string
  pe_schemaFingerprint :: string
  pe_consequential :: bool

record ExecutionCapabilityOmission =
  po_capabilityId :: string
  po_displayNameSnapshot :: string
  po_reason :: CapabilityUnavailableReason

record ExecutionCapabilityPlan =
  plan_mode :: PlanMode
  plan_selected :: "ExecutionCapabilityPlanEntry list"
  plan_optionalOmissions :: "ExecutionCapabilityOmission list"

definition executionCapabilityPlanSchema :: "ExecutionCapabilityPlan \<Rightarrow> bool" where
  "executionCapabilityPlanSchema p \<longleftrightarrow>
     list_all (\<lambda>e. boundedString 1 512 (pe_capabilityId e) \<and>
                   boundedString 1 256 (pe_modelToolName e) \<and>
                   boundedString 1 512 (pe_schemaFingerprint e)) (plan_selected p) \<and>
     length (plan_selected p) \<le> 256 \<and>
     list_all (\<lambda>e. boundedString 1 512 (po_capabilityId e) \<and>
                   boundedString 1 256 (po_displayNameSnapshot e)) (plan_optionalOmissions p) \<and>
     length (plan_optionalOmissions p) \<le> 256"

text \<open>The plan as the JSON value whose text is hashed into test evidence.\<close>

fun planModeText :: "PlanMode \<Rightarrow> string" where
  "planModeText ModeTest = ''test''"
| "planModeText ModeDirect = ''direct''"
| "planModeText ModeUnattended = ''unattended''"

fun reasonText :: "CapabilityUnavailableReason \<Rightarrow> string" where
  "reasonText Missing = ''missing''"
| "reasonText Unauthorized = ''unauthorized''"
| "reasonText Disabled = ''disabled''"
| "reasonText Incompatible = ''incompatible''"

definition planJson :: "ExecutionCapabilityPlan \<Rightarrow> JsonValue" where
  "planJson p = JObject
     [(''mode'', JString (planModeText (plan_mode p))),
      (''selected'', JArray (map (\<lambda>e. JObject
         [(''capabilityId'', JString (pe_capabilityId e)),
          (''modelToolName'', JString (pe_modelToolName e)),
          (''schemaFingerprint'', JString (pe_schemaFingerprint e)),
          (''consequential'', JBool (pe_consequential e))]) (plan_selected p))),
      (''optionalOmissions'', JArray (map (\<lambda>e. JObject
         [(''capabilityId'', JString (po_capabilityId e)),
          (''displayNameSnapshot'', JString (po_displayNameSnapshot e)),
          (''reason'', JString (reasonText (po_reason e)))]) (plan_optionalOmissions p)))]"

definition capabilityPlanFingerprint :: "host \<Rightarrow> ExecutionCapabilityPlan \<Rightarrow> string" where
  "capabilityPlanFingerprint h p = ''sha256:'' @ sha256Json h (planJson p)"

datatype ExecutionLeaseStatus =
    LeaseReady | LeaseRunning | LeaseSucceeded | LeaseFailed | LeaseCancelled | LeaseExpired

definition isTerminalStatus :: "ExecutionLeaseStatus \<Rightarrow> bool" where
  "isTerminalStatus s \<longleftrightarrow> s \<in> {LeaseSucceeded, LeaseFailed, LeaseCancelled, LeaseExpired}"

record ExecutionLeaseRecord =
  ls_leaseId :: string
  ls_grantId :: string
  ls_owner :: OwnerScope
  ls_role :: ExecutionRole
  ls_target :: BootstrapTarget
  ls_workflow :: "BuildExecutionScope option"
  ls_parentSessionId :: string
  ls_parentTurnId :: "string option"
  ls_parentCallId :: string
  ls_childSessionId :: string
  ls_bootstrapTurnId :: string
  ls_issuedAt :: Timestamp
  ls_expiresAt :: Timestamp
  ls_status :: ExecutionLeaseStatus
  ls_executionTurnId :: "string option"
  ls_capabilityPlan :: "ExecutionCapabilityPlan option"
  ls_closedAt :: "Timestamp option"
  ls_terminalCode :: "string option"

definition executionLeaseRecordSchema :: "ExecutionLeaseRecord \<Rightarrow> bool" where
  "executionLeaseRecordSchema l \<longleftrightarrow>
     boundedString 1 512 (ls_leaseId l) \<and> boundedString 1 512 (ls_grantId l) \<and>
     ownerScopeSchema (ls_owner l) \<and> bootstrapTargetSchema (ls_target l) \<and>
     optionally buildExecutionScopeSchema (ls_workflow l) \<and>
     boundedString 1 512 (ls_parentSessionId l) \<and>
     optionally (boundedString 1 512) (ls_parentTurnId l) \<and>
     boundedString 1 512 (ls_parentCallId l) \<and> boundedString 1 512 (ls_childSessionId l) \<and>
     boundedString 1 512 (ls_bootstrapTurnId l) \<and>
     timestampSchema (ls_issuedAt l) \<and> timestampSchema (ls_expiresAt l) \<and>
     optionally (boundedString 1 512) (ls_executionTurnId l) \<and>
     optionally executionCapabilityPlanSchema (ls_capabilityPlan l) \<and>
     optionally timestampSchema (ls_closedAt l) \<and>
     optionally (boundedString 1 256) (ls_terminalCode l) \<and>
     isTerminalStatus (ls_status l) = (ls_closedAt l \<noteq> None) \<and>
     \<not> (ls_status l = LeaseRunning \<and> ls_executionTurnId l = None)"

datatype BootstrapStoreErrorCode =
    BOOTSTRAP_NOT_FOUND | BOOTSTRAP_REPLAYED | BOOTSTRAP_EXPIRED | BOOTSTRAP_BINDING_MISMATCH
  | OWNER_MISMATCH | CHILD_SESSION_MISMATCH | LEASE_NOT_FOUND | LEASE_NOT_READY | LEASE_CLOSED
  | LEASE_EXPIRED | TARGET_CHANGED | BOOTSTRAP_STORE_INVARIANT_VIOLATION

type_synonym 'a BootstrapStoreResult = "BootstrapStoreErrorCode + 'a"

record RedeemBootstrapGrantStoreCommand =
  rd_tokenHash :: string
  rd_owner :: OwnerScope
  rd_role :: ExecutionRole
  rd_expectedTarget :: "BootstrapTarget option"
  rd_expectedWorkflow :: "BuildExecutionScope option"
  rd_parentSessionId :: string
  rd_parentTurnId :: "string option"
  rd_parentCallId :: string
  rd_childSessionId :: string
  rd_bootstrapTurnId :: string
  rd_leaseId :: string
  rd_occurredAt :: Timestamp
  rd_leaseExpiresAt :: Timestamp

record BeginExecutionLeaseStoreCommand =
  bl_owner :: OwnerScope
  bl_childSessionId :: string
  bl_executionTurnId :: string
  bl_occurredAt :: Timestamp
  bl_capabilityPlan :: "ExecutionCapabilityPlan option"

datatype CloseStatus = CloseSucceeded | CloseFailed | CloseCancelled

fun closeLeaseStatus :: "CloseStatus \<Rightarrow> ExecutionLeaseStatus" where
  "closeLeaseStatus CloseSucceeded = LeaseSucceeded"
| "closeLeaseStatus CloseFailed = LeaseFailed"
| "closeLeaseStatus CloseCancelled = LeaseCancelled"

record CloseExecutionLeaseStoreCommand =
  cl_owner :: OwnerScope
  cl_childSessionId :: string
  cl_executionTurnId :: string
  cl_status :: CloseStatus
  cl_occurredAt :: Timestamp
  cl_terminalCode :: "string option"

datatype ParentCloseStatus = ParentFailed | ParentCancelled

fun parentLeaseStatus :: "ParentCloseStatus \<Rightarrow> ExecutionLeaseStatus" where
  "parentLeaseStatus ParentFailed = LeaseFailed"
| "parentLeaseStatus ParentCancelled = LeaseCancelled"

record CloseParentTurnLeasesStoreCommand =
  cp_owner :: OwnerScope
  cp_parentSessionId :: string
  cp_parentTurnId :: string
  cp_status :: ParentCloseStatus
  cp_occurredAt :: Timestamp
  cp_terminalCode :: string

definition equalTokenHashes :: "string \<Rightarrow> string \<Rightarrow> bool" where
  "equalTokenHashes a b \<longleftrightarrow> length a = length b \<and> list_all2 (=) a b"

fun bootstrapTargetsEqual :: "BootstrapTarget \<Rightarrow> BootstrapTarget \<Rightarrow> bool" where
  "bootstrapTargetsEqual (DraftTarget a d r) (DraftTarget a' d' r') \<longleftrightarrow>
     a = a' \<and> d = d' \<and> r = r'"
| "bootstrapTargetsEqual (PublishedTarget a s v) (PublishedTarget a' s' v') \<longleftrightarrow>
     a = a' \<and> s = s' \<and> v = v'"
| "bootstrapTargetsEqual _ _ \<longleftrightarrow> False"

fun buildExecutionScopesEqual ::
  "BuildExecutionScope option \<Rightarrow> BuildExecutionScope option \<Rightarrow> bool" where
  "buildExecutionScopesEqual None None \<longleftrightarrow> True"
| "buildExecutionScopesEqual (Some a) (Some b) \<longleftrightarrow>
     sc_workflowId a = sc_workflowId b \<and> sc_workflowRevision a = sc_workflowRevision b \<and>
     sc_testRunId a = sc_testRunId b"
| "buildExecutionScopesEqual _ _ \<longleftrightarrow> False"

lemma equalTokenHashes_iff [simp]: "equalTokenHashes a b \<longleftrightarrow> a = b"
  by (auto simp: equalTokenHashes_def list.rel_eq)

lemma bootstrapTargetsEqual_iff [simp]: "bootstrapTargetsEqual a b \<longleftrightarrow> a = b"
  by (cases a; cases b) simp_all

lemma buildExecutionScopesEqual_iff [simp]: "buildExecutionScopesEqual a b \<longleftrightarrow> a = b"
  by (cases a; cases b) auto

lemma closeLeaseStatus_terminal [simp]: "isTerminalStatus (closeLeaseStatus s)"
  by (cases s) (simp_all add: isTerminalStatus_def)

lemma parentLeaseStatus_terminal [simp]: "isTerminalStatus (parentLeaseStatus s)"
  by (cases s) (simp_all add: isTerminalStatus_def)

lemma isTerminalStatus_simps [simp]:
  "\<not> isTerminalStatus LeaseReady" "\<not> isTerminalStatus LeaseRunning" "isTerminalStatus LeaseExpired"
  by (simp_all add: isTerminalStatus_def)

lemma isTerminalStatus_cases:
  "\<not> isTerminalStatus s \<longleftrightarrow> s = LeaseReady \<or> s = LeaseRunning"
  by (cases s) (simp_all add: isTerminalStatus_def)

end
