(* ===== verification/Test_Policy.thy ===== *)
theory Test_Policy
  imports Bootstrap
begin

text \<open>
  Exact-call policy for consequential test tools
  (\<open>packages/eve-agent-builder/extension/lib/test-policy.ts\<close>): the step scope, the single-use input
  grant, the execution record, their schemas, store commands and errors.
\<close>

record TestCapabilityStepScope =
  st_owner :: OwnerScope
  st_workflowId :: string
  st_workflowRevision :: int
  st_testRunId :: string
  st_agentId :: string
  st_draftId :: string
  st_draftRevision :: int
  st_leaseId :: string
  st_childSessionId :: string
  st_executionTurnId :: string
  st_capabilityId :: string
  st_schemaFingerprint :: string
  st_modelToolName :: string
  st_callId :: string
  st_stepFingerprint :: string
  st_expiresAt :: Timestamp

definition testCapabilityStepScopeSchema :: "TestCapabilityStepScope \<Rightarrow> bool" where
  "testCapabilityStepScopeSchema s \<longleftrightarrow>
     ownerScopeSchema (st_owner s) \<and> identifierSchema (st_workflowId s) \<and>
     positiveRevisionSchema (st_workflowRevision s) \<and> identifierSchema (st_testRunId s) \<and>
     identifierSchema (st_agentId s) \<and> identifierSchema (st_draftId s) \<and>
     positiveRevisionSchema (st_draftRevision s) \<and>
     boundedString 1 512 (st_leaseId s) \<and> boundedString 1 512 (st_childSessionId s) \<and>
     boundedString 1 512 (st_executionTurnId s) \<and> identifierSchema (st_capabilityId s) \<and>
     boundedString 1 512 (st_schemaFingerprint s) \<and> boundedString 1 256 (st_modelToolName s) \<and>
     boundedString 1 512 (st_callId s) \<and> sha256Reference (st_stepFingerprint s) \<and>
     timestampSchema (st_expiresAt s)"

text \<open>A grant and an execution extend the step scope; the scope is one component here.\<close>

record TestInputGrantRecord =
  ig_step :: TestCapabilityStepScope
  ig_requestId :: string
  ig_responderPrincipalId :: string
  ig_authorizedAt :: Timestamp
  ig_consumedAt :: "Timestamp option"

definition testInputGrantRecordSchema :: "TestInputGrantRecord \<Rightarrow> bool" where
  "testInputGrantRecordSchema g \<longleftrightarrow>
     testCapabilityStepScopeSchema (ig_step g) \<and> boundedString 1 512 (ig_requestId g) \<and>
     boundedString 1 1024 (ig_responderPrincipalId g) \<and> timestampSchema (ig_authorizedAt g) \<and>
     optionally timestampSchema (ig_consumedAt g)"

datatype TestApproval = NotRequired | Verified

datatype TestExecutionStatus = ExecStarted | ExecSucceeded | ExecFailed

record TestCapabilityExecutionRecord =
  tx_step :: TestCapabilityStepScope
  tx_approval :: TestApproval
  tx_status :: TestExecutionStatus
  tx_startedAt :: Timestamp
  tx_completedAt :: "Timestamp option"
  tx_errorCode :: "string option"

definition testCapabilityExecutionRecordSchema :: "TestCapabilityExecutionRecord \<Rightarrow> bool" where
  "testCapabilityExecutionRecordSchema e \<longleftrightarrow>
     testCapabilityStepScopeSchema (tx_step e) \<and> timestampSchema (tx_startedAt e) \<and>
     optionally timestampSchema (tx_completedAt e) \<and>
     optionally (boundedString 1 256) (tx_errorCode e) \<and>
     (tx_status e = ExecStarted) \<noteq> (tx_completedAt e \<noteq> None)"

datatype TestPolicyErrorCode =
    TP_INPUT_REQUIRED | TP_INPUT_UNAVAILABLE | TP_INPUT_DENIED | TP_INPUT_CANCELLED
  | TP_INPUT_TIMEOUT | TP_INPUT_STALE | TP_INPUT_MALFORMED | TP_INPUT_AMBIGUOUS
  | TP_UNATTENDED_INPUT_FORBIDDEN | TP_OWNER_MISMATCH | TP_BOOTSTRAP_REQUIRED | TP_LEASE_CLOSED
  | TP_LEASE_EXPIRED | TP_TARGET_CHANGED | TP_WORKFLOW_CHANGED | TP_CAPABILITY_NOT_SELECTED
  | TP_CAPABILITY_SCHEMA_CHANGED | TP_INPUT_REPLAYED | TP_TEST_STEP_REPLAYED
  | TP_TEST_POLICY_STORE_INVARIANT_VIOLATION

type_synonym 'a TestPolicyResult = "TestPolicyErrorCode + 'a"

record AuthorizeTestInputStoreCommand =
  au_step :: TestCapabilityStepScope
  au_requestId :: string
  au_principalId :: string
  au_principalType :: string
  au_occurredAt :: Timestamp

record BeginTestCapabilityExecutionStoreCommand =
  be_step :: TestCapabilityStepScope
  be_consequential :: bool
  be_occurredAt :: Timestamp

datatype CompleteStatus = CompleteSucceeded | CompleteFailed

fun completeExecStatus :: "CompleteStatus \<Rightarrow> TestExecutionStatus" where
  "completeExecStatus CompleteSucceeded = ExecSucceeded"
| "completeExecStatus CompleteFailed = ExecFailed"

record CompleteTestCapabilityExecutionStoreCommand =
  ce_owner :: OwnerScope
  ce_workflowId :: string
  ce_testRunId :: string
  ce_leaseId :: string
  ce_childSessionId :: string
  ce_executionTurnId :: string
  ce_callId :: string
  ce_status :: CompleteStatus
  ce_occurredAt :: Timestamp
  ce_errorCode :: "string option"

record TestCapabilityExecutionQuery =
  xq_owner :: OwnerScope
  xq_workflowId :: string
  xq_testRunId :: string

end
