(* ===== verification/Store_Interface.thy ===== *)
theory Store_Interface
  imports Test_Policy
begin

text \<open>
  The persistence boundary (\<open>packages/eve-agent-builder/extension/lib/store.ts\<close>): the commands of
  one store transaction, its typed errors and results, and the queries. A command is the base
  shared by all commands (owner, mutation identity, time) and the part of its own type. Error
  messages are text only and are left out; every other member of an error is kept.
\<close>

record StoreMutationBase =
  mb_owner :: OwnerScope
  mb_operationId :: string
  mb_requestFingerprint :: string
  mb_occurredAt :: Timestamp

record CreateFamilyStoreCommand =
  cf_agentId :: string
  cf_draftId :: string
  cf_maxFamilies :: int
  cf_canonicalName :: string
  cf_fields :: SavedAgentEditableFields

record BeginRevisionStoreCommand =
  br_agentId :: string
  br_expectedRevision :: int
  br_draftId :: string
  br_basedOnSpecId :: string
  br_basedOnVersion :: int
  br_fields :: SavedAgentEditableFields

record PatchDraftStoreCommand =
  pd_agentId :: string
  pd_expectedRevision :: int
  pd_expectedDraftRevision :: int
  pd_canonicalName :: string
  pd_fields :: SavedAgentEditableFields

record PublishDraftStoreCommand =
  pu_agentId :: string
  pu_expectedRevision :: int
  pu_expectedDraftRevision :: int
  pu_specId :: string
  pu_publishedBy :: string

record ActivateVersionStoreCommand =
  av_agentId :: string
  av_expectedRevision :: int
  av_specId :: string
  av_version :: int

text \<open>\<open>ArchiveFamilyStoreCommand\<close>, \<open>RestoreFamilyStoreCommand\<close> and \<open>DeleteFamilyStoreCommand\<close>
  have the same members.\<close>

record LifecycleStoreCommand =
  lc_agentId :: string
  lc_expectedRevision :: int

record AllocateBuildWorkflowStoreCommand =
  al_workflowId :: string
  al_agentId :: string
  al_draftId :: string
  al_maxFamilies :: int
  al_canonicalName :: string
  al_fields :: SavedAgentEditableFields

datatype BuildRole = BuildPm | BuildImplementor | BuildQa

datatype SubmissionResult =
    SubCompletedHandoff | SubNeedsTest | SubChangesRequested | SubApproved
  | SubNeedsUserInput | SubFailed

record SubmitBuildRoleStoreCommand =
  sb_workflowId :: string
  sb_expectedWorkflowRevision :: int
  sb_role :: BuildRole
  sb_leaseId :: string
  sb_childSessionId :: string
  sb_executionTurnId :: string
  sb_expectedRevision :: int
  sb_expectedDraftRevision :: int
  sb_canonicalName :: string
  sb_fields :: SavedAgentEditableFields
  sb_result :: SubmissionResult
  sb_testRunId :: "string option"

record RecordBuildTestStoreCommand =
  rt_workflowId :: string
  rt_expectedWorkflowRevision :: int
  rt_testRunId :: string
  rt_leaseId :: string
  rt_childSessionId :: string
  rt_executionTurnId :: string
  rt_status :: BuildTestStatus
  rt_errorCodes :: "string list"

record ReopenBuildWorkflowStoreCommand =
  ro_workflowId :: string
  ro_expectedWorkflowRevision :: int
  ro_agentId :: string
  ro_expectedRevision :: int
  ro_expectedDraftRevision :: int

record PublishBuildWorkflowStoreCommand =
  pw_workflowId :: string
  pw_expectedWorkflowRevision :: int
  pw_agentId :: string
  pw_expectedRevision :: int
  pw_expectedDraftRevision :: int
  pw_specId :: string
  pw_publishedBy :: string

datatype AgentBuilderStoreCommand =
    ActivateVersion ActivateVersionStoreCommand
  | AllocateBuildWorkflow AllocateBuildWorkflowStoreCommand
  | ArchiveFamily LifecycleStoreCommand
  | BeginRevision BeginRevisionStoreCommand
  | CreateFamily CreateFamilyStoreCommand
  | DeleteFamily LifecycleStoreCommand
  | PatchDraft PatchDraftStoreCommand
  | PublishBuildWorkflow PublishBuildWorkflowStoreCommand
  | PublishDraft PublishDraftStoreCommand
  | RecordBuildTest RecordBuildTestStoreCommand
  | ReopenBuildWorkflow ReopenBuildWorkflowStoreCommand
  | RestoreFamily LifecycleStoreCommand
  | SubmitBuildRole SubmitBuildRoleStoreCommand

datatype StoreOperation =
    OpCreateFamily | OpBeginRevision | OpPatchDraft | OpPublishDraft | OpActivateVersion
  | OpArchiveFamily | OpRestoreFamily | OpDeleteFamily | OpAllocateBuildWorkflow
  | OpSubmitBuildRole | OpRecordBuildTest | OpReopenBuildWorkflow | OpPublishBuildWorkflow

datatype AgentBuilderStoreMutationSuccess =
    FamilyCreated (resultFamily: SavedAgentFamily)
  | RevisionBegun (resultFamily: SavedAgentFamily)
  | DraftPatched (resultFamily: SavedAgentFamily)
  | DraftPublished (resultFamily: SavedAgentFamily) PublishedAgentVersion
  | VersionActivated (resultFamily: SavedAgentFamily) PublishedAgentVersion
  | FamilyArchived (resultFamily: SavedAgentFamily)
  | FamilyRestored (resultFamily: SavedAgentFamily)
  | FamilyDeleted (resultFamily: SavedAgentFamily) AgentLifecycle
  | WorkflowAllocated (resultFamily: SavedAgentFamily) BuildWorkflowRecord
  | WorkflowRoleSubmitted (resultFamily: SavedAgentFamily) BuildWorkflowRecord
  | WorkflowTestRecorded (resultFamily: SavedAgentFamily) BuildWorkflowRecord
  | WorkflowReopened (resultFamily: SavedAgentFamily) BuildWorkflowRecord
  | WorkflowPublished (resultFamily: SavedAgentFamily) BuildWorkflowRecord PublishedAgentVersion

datatype SuccessType =
    TFamilyCreated | TRevisionBegun | TDraftPatched | TDraftPublished | TVersionActivated
  | TFamilyArchived | TFamilyRestored | TFamilyDeleted | TWorkflowAllocated
  | TWorkflowRoleSubmitted | TWorkflowTestRecorded | TWorkflowReopened | TWorkflowPublished

fun successType :: "AgentBuilderStoreMutationSuccess \<Rightarrow> SuccessType" where
  "successType (FamilyCreated _) = TFamilyCreated"
| "successType (RevisionBegun _) = TRevisionBegun"
| "successType (DraftPatched _) = TDraftPatched"
| "successType (DraftPublished _ _) = TDraftPublished"
| "successType (VersionActivated _ _) = TVersionActivated"
| "successType (FamilyArchived _) = TFamilyArchived"
| "successType (FamilyRestored _) = TFamilyRestored"
| "successType (FamilyDeleted _ _) = TFamilyDeleted"
| "successType (WorkflowAllocated _ _) = TWorkflowAllocated"
| "successType (WorkflowRoleSubmitted _ _) = TWorkflowRoleSubmitted"
| "successType (WorkflowTestRecorded _ _) = TWorkflowTestRecorded"
| "successType (WorkflowReopened _ _) = TWorkflowReopened"
| "successType (WorkflowPublished _ _ _) = TWorkflowPublished"

datatype WorkflowErrorCode =
    WORKFLOW_NOT_FOUND | WORKFLOW_CONFLICT | WORKFLOW_INVALID_TRANSITION | ROLE_FORBIDDEN
  | TEST_EVIDENCE_REQUIRED | PUBLISH_NOT_READY

datatype AgentBuilderStoreError =
    NOT_FOUND
  | REVISION_CONFLICT int "int option"
  | NAME_CONFLICT string
  | QUOTA_EXCEEDED int int
  | INVALID_TRANSITION AgentLifecycle StoreOperation
  | VERSION_NOT_FOUND
  | OPERATION_ID_REUSED SuccessType
  | STORE_INVARIANT_VIOLATION
  | WORKFLOW_ERROR WorkflowErrorCode "int option"
  | REJECTED_PROMISE \<comment> \<open>not a typed error: the handler throws\<close>

type_synonym 'a StoreResult = "AgentBuilderStoreError + 'a"

datatype MutationReplayResult =
    ReplayMiss
  | Replay AgentBuilderStoreMutationSuccess
  | ReplayOperationIdReused SuccessType

record ActiveFamilyStoreRecord =
  af_family :: SavedAgentFamily
  af_activeVersion :: PublishedAgentVersion

section \<open>The store's state\<close>

text \<open>
  One owner's bucket and the two-level tenant/owner map of
  \<open>packages/eve-agent-builder/extension/lib/stores/memory.ts\<close>. The keys \<open>testStepKey\<close> and
  \<open>parentTurnKey\<close> are the JSON text of an array of strings, which determines the strings; here
  the key is the tuple of strings itself.
\<close>

record FamilyRecord =
  fr_family :: SavedAgentFamily
  fr_versions :: "PublishedAgentVersion list"

record OperationRecord =
  op_requestFingerprint :: string
  op_result :: AgentBuilderStoreMutationSuccess

type_synonym TestStepKey = "string \<times> string \<times> string \<times> string \<times> string"

record OwnerBucket =
  allocatedDraftIds :: "string set"
  closedParentTurns :: "((string \<times> string) \<times> Timestamp) list"
  families :: "(string \<times> FamilyRecord) list"
  grants :: "(string \<times> BootstrapGrantRecord) list"
  leases :: "(string \<times> ExecutionLeaseRecord) list"
  operations :: "(string \<times> OperationRecord) list"
  workflows :: "(string \<times> BuildWorkflowRecord) list"
  testInputGrants :: "(TestStepKey \<times> TestInputGrantRecord) list"
  testExecutions :: "(TestStepKey \<times> TestCapabilityExecutionRecord) list"

type_synonym Tenants = "(string \<times> (string \<times> OwnerBucket) list) list"

definition emptyBucket :: OwnerBucket where
  "emptyBucket = \<lparr>allocatedDraftIds = {}, closedParentTurns = [], families = [], grants = [],
     leases = [], operations = [], workflows = [], testInputGrants = [], testExecutions = []\<rparr>"

end
