(* ===== verification/Memory_Family.thy ===== *)
theory Memory_Family
  imports Store_Interface
begin

text \<open>
  The family half of the in-process store
  (\<open>packages/eve-agent-builder/extension/lib/stores/memory.ts\<close>): helpers on one owner's bucket and
  the handlers of \<open>create_family\<close>, \<open>begin_revision\<close>, \<open>patch_draft\<close>, \<open>publish_draft\<close>,
  \<open>activate_version\<close>, \<open>archive_family\<close>, \<open>restore_family\<close> and \<open>delete_family\<close>. A handler returns
  an error (and changes nothing) or the new bucket with its result. \<open>structuredClone\<close> and
  \<open>Object.freeze\<close> are the identity on values. Comparing two \<open>JSON.stringify\<close> texts of values of
  one type is comparing the values.
\<close>

section \<open>Helpers\<close>

definition editableFieldsFromVersion :: "PublishedAgentVersion \<Rightarrow> SavedAgentEditableFields" where
  "editableFieldsFromVersion v = \<lparr>fld_name = v_name v, fld_kind = v_kind v,
     fld_description = v_description v, fld_pmBrief = v_pmBrief v,
     fld_instructions = v_instructions v, fld_toolRequirements = v_toolRequirements v,
     fld_triggers = v_triggers v, fld_testChecklist = v_testChecklist v, fld_qaFindings = []\<rparr>"

definition draftFields :: "SavedAgentDraft \<Rightarrow> SavedAgentEditableFields" where
  "draftFields d = d_fields d"

definition liveRecord :: "OwnerBucket \<Rightarrow> string \<Rightarrow> FamilyRecord option" where
  "liveRecord b agentId =
     (case map_of (families b) agentId of
        None \<Rightarrow> None
      | Some rec \<Rightarrow> if fam_lifecycle (fr_family rec) = Deleted then None else Some rec)"

text \<open>Whether a family reserves a canonical name: by its draft or by any published version.\<close>

definition reservesName :: "host \<Rightarrow> FamilyRecord \<Rightarrow> string \<Rightarrow> bool" where
  "reservesName h rec cn \<longleftrightarrow>
     (case fam_draft (fr_family rec) of
        None \<Rightarrow> False
      | Some d \<Rightarrow> canonicalizeAgentName h (fld_name (d_fields d)) = cn) \<or>
     list_ex (\<lambda>v. canonicalizeAgentName h (v_name v) = cn) (fr_versions rec)"

fun nameOwnerIn :: "host \<Rightarrow> FamilyRecord list \<Rightarrow> string \<Rightarrow> string option" where
  "nameOwnerIn h [] cn = None"
| "nameOwnerIn h (rec # recs) cn =
     (if reservesName h rec cn then Some (fam_agentId (fr_family rec)) else nameOwnerIn h recs cn)"

definition nameOwner :: "host \<Rightarrow> OwnerBucket \<Rightarrow> string \<Rightarrow> string option" where
  "nameOwner h b cn = nameOwnerIn h (values_of (families b)) cn"

definition draftRevisionOf :: "SavedAgentFamily \<Rightarrow> int option" where
  "draftRevisionOf f = map_option d_draftRevision (fam_draft f)"

definition checkRevision ::
  "SavedAgentFamily \<Rightarrow> int \<Rightarrow> int option \<Rightarrow> AgentBuilderStoreError option" where
  "checkRevision f expectedRevision expectedDraftRevision =
     (if fam_revision f = expectedRevision \<and>
         (expectedDraftRevision = None \<or> draftRevisionOf f = expectedDraftRevision)
      then None
      else Some (REVISION_CONFLICT (fam_revision f) (draftRevisionOf f)))"

definition invalidTransition :: "SavedAgentFamily \<Rightarrow> StoreOperation \<Rightarrow> AgentBuilderStoreError" where
  "invalidTransition f op = INVALID_TRANSITION (fam_lifecycle f) op"

definition checkFields ::
  "host \<Rightarrow> SavedAgentEditableFields \<Rightarrow> string \<Rightarrow> AgentBuilderStoreError option" where
  "checkFields h f cn =
     (if \<not> savedAgentEditableFieldsSchema h f then Some STORE_INVARIANT_VIOLATION
      else if canonicalizeAgentName h (fld_name f) \<noteq> cn then Some STORE_INVARIANT_VIOLATION
      else None)"

definition validateFamily :: "host \<Rightarrow> SavedAgentFamily \<Rightarrow> AgentBuilderStoreError option" where
  "validateFamily h f =
     (if \<not> savedAgentFamilySchema h f then Some STORE_INVARIANT_VIOLATION else None)"

definition putRecord :: "string \<Rightarrow> FamilyRecord \<Rightarrow> OwnerBucket \<Rightarrow> OwnerBucket" where
  "putRecord agentId rec b = b\<lparr>families := mapSet agentId rec (families b)\<rparr>"

definition saveFamily ::
  "host \<Rightarrow> OwnerBucket \<Rightarrow> string \<Rightarrow> FamilyRecord \<Rightarrow> SavedAgentFamily \<Rightarrow>
   AgentBuilderStoreMutationSuccess \<Rightarrow> (OwnerBucket \<times> AgentBuilderStoreMutationSuccess) StoreResult"
where
  "saveFamily h b agentId rec f success =
     (case validateFamily h f of
        Some e \<Rightarrow> Inl e
      | None \<Rightarrow> Inr (putRecord agentId (rec\<lparr>fr_family := f\<rparr>) b, success))"

definition specIdAllocated :: "OwnerBucket \<Rightarrow> string \<Rightarrow> bool" where
  "specIdAllocated b specId \<longleftrightarrow>
     list_ex (\<lambda>rec. list_ex (\<lambda>v. v_specId v = specId) (fr_versions rec)) (values_of (families b))"

definition maximumVersion :: "PublishedAgentVersion list \<Rightarrow> int" where
  "maximumVersion vs = foldl (\<lambda>value v. max value (v_version v)) 0 vs"

definition findVersion ::
  "PublishedAgentVersion list \<Rightarrow> string \<Rightarrow> int \<Rightarrow> PublishedAgentVersion option" where
  "findVersion vs specId version =
     List.find (\<lambda>v. v_specId v = specId \<and> v_version v = version) vs"

text \<open>The version appended by both ways to publish, and the family it leaves active.\<close>

definition versionFromDraft ::
  "SavedAgentFamily \<Rightarrow> SavedAgentDraft \<Rightarrow> string \<Rightarrow> int \<Rightarrow> Timestamp \<Rightarrow> string \<Rightarrow> PublishedAgentVersion"
where
  "versionFromDraft f d specId version occurredAt publishedBy =
     \<lparr>v_specId = specId, v_agentId = fam_agentId f, v_version = version,
      v_name = fld_name (d_fields d), v_kind = fld_kind (d_fields d),
      v_description = fld_description (d_fields d), v_pmBrief = fld_pmBrief (d_fields d),
      v_instructions = fld_instructions (d_fields d),
      v_toolRequirements = fld_toolRequirements (d_fields d),
      v_triggers = fld_triggers (d_fields d), v_testChecklist = fld_testChecklist (d_fields d),
      v_publishedAt = occurredAt, v_publishedBy = publishedBy\<rparr>"

definition publishedFamily ::
  "SavedAgentFamily \<Rightarrow> PublishedAgentVersion \<Rightarrow> Timestamp \<Rightarrow> SavedAgentFamily" where
  "publishedFamily f v occurredAt =
     \<lparr>fam_agentId = fam_agentId f, fam_owner = fam_owner f, fam_lifecycle = Active,
      fam_activeSpecId = Some (v_specId v), fam_activeVersion = Some (v_version v),
      fam_draft = None, fam_revision = fam_revision f + 1, fam_createdAt = fam_createdAt f,
      fam_updatedAt = occurredAt, fam_archivedAt = None, fam_deletedAt = None\<rparr>"

section \<open>Handlers\<close>

definition liveFamilyCount :: "OwnerBucket \<Rightarrow> int" where
  "liveFamilyCount b =
     int (length (filter (\<lambda>rec. fam_lifecycle (fr_family rec) \<noteq> Deleted) (values_of (families b))))"

definition createdFamily ::
  "StoreMutationBase \<Rightarrow> CreateFamilyStoreCommand \<Rightarrow> SavedAgentFamily" where
  "createdFamily m c =
     \<lparr>fam_agentId = cf_agentId c, fam_owner = mb_owner m, fam_lifecycle = DraftOnly,
      fam_activeSpecId = None, fam_activeVersion = None,
      fam_draft = Some \<lparr>d_draftId = cf_draftId c, d_basedOnSpecId = None, d_basedOnVersion = None,
        d_fields = cf_fields c, d_draftRevision = 1, d_createdAt = mb_occurredAt m,
        d_updatedAt = mb_occurredAt m\<rparr>,
      fam_revision = 1, fam_createdAt = mb_occurredAt m, fam_updatedAt = mb_occurredAt m,
      fam_archivedAt = None, fam_deletedAt = None\<rparr>"

definition createFamily ::
  "host \<Rightarrow> OwnerBucket \<Rightarrow> StoreMutationBase \<Rightarrow> CreateFamilyStoreCommand \<Rightarrow>
   (OwnerBucket \<times> AgentBuilderStoreMutationSuccess) StoreResult" where
  "createFamily h b m c =
     (case checkFields h (cf_fields c) (cf_canonicalName c) of
        Some e \<Rightarrow> Inl e
      | None \<Rightarrow>
        if \<not> isSafeInteger (cf_maxFamilies c) \<or> cf_maxFamilies c < 1 then
          Inl STORE_INVARIANT_VIOLATION
        else if map_of (families b) (cf_agentId c) \<noteq> None then Inl STORE_INVARIANT_VIOLATION
        else if cf_draftId c \<in> allocatedDraftIds b then Inl STORE_INVARIANT_VIOLATION
        else if liveFamilyCount b \<ge> cf_maxFamilies c then
          Inl (QUOTA_EXCEEDED (cf_maxFamilies c) (liveFamilyCount b))
        else if nameOwner h b (cf_canonicalName c) \<noteq> None then
          Inl (NAME_CONFLICT (cf_canonicalName c))
        else
          (case validateFamily h (createdFamily m c) of
             Some e \<Rightarrow> Inl e
           | None \<Rightarrow>
               Inr ((putRecord (cf_agentId c)
                       \<lparr>fr_family = createdFamily m c, fr_versions = []\<rparr> b)
                      \<lparr>allocatedDraftIds := insert (cf_draftId c) (allocatedDraftIds b)\<rparr>,
                    FamilyCreated (createdFamily m c))))"

definition revisedFamily ::
  "StoreMutationBase \<Rightarrow> BeginRevisionStoreCommand \<Rightarrow> SavedAgentFamily \<Rightarrow> SavedAgentFamily" where
  "revisedFamily m c f =
     f\<lparr>fam_draft := Some \<lparr>d_draftId = br_draftId c, d_basedOnSpecId = Some (br_basedOnSpecId c),
          d_basedOnVersion = Some (br_basedOnVersion c), d_fields = br_fields c,
          d_draftRevision = 1, d_createdAt = mb_occurredAt m, d_updatedAt = mb_occurredAt m\<rparr>,
       fam_revision := fam_revision f + 1, fam_updatedAt := mb_occurredAt m\<rparr>"

definition beginRevision ::
  "host \<Rightarrow> OwnerBucket \<Rightarrow> StoreMutationBase \<Rightarrow> BeginRevisionStoreCommand \<Rightarrow>
   (OwnerBucket \<times> AgentBuilderStoreMutationSuccess) StoreResult" where
  "beginRevision h b m c =
     (case liveRecord b (br_agentId c) of
        None \<Rightarrow> Inl NOT_FOUND
      | Some rec \<Rightarrow>
        let f = fr_family rec in
        (case checkRevision f (br_expectedRevision c) None of
           Some e \<Rightarrow> Inl e
         | None \<Rightarrow>
           if fam_lifecycle f \<noteq> Active \<or> fam_draft f \<noteq> None \<or>
              fam_activeSpecId f \<noteq> Some (br_basedOnSpecId c) \<or>
              fam_activeVersion f \<noteq> Some (br_basedOnVersion c)
           then Inl (invalidTransition f OpBeginRevision)
           else
             (case findVersion (fr_versions rec) (br_basedOnSpecId c) (br_basedOnVersion c) of
                None \<Rightarrow> Inl STORE_INVARIANT_VIOLATION
              | Some base \<Rightarrow>
                if \<not> savedAgentEditableFieldsSchema h (br_fields c) then
                  Inl STORE_INVARIANT_VIOLATION
                else if br_draftId c \<in> allocatedDraftIds b then Inl STORE_INVARIANT_VIOLATION
                else if br_fields c \<noteq> editableFieldsFromVersion base then
                  Inl STORE_INVARIANT_VIOLATION
                else
                  (case saveFamily h b (br_agentId c) rec (revisedFamily m c f)
                          (RevisionBegun (revisedFamily m c f)) of
                     Inl e \<Rightarrow> Inl e
                   | Inr (b', success) \<Rightarrow>
                       Inr (b'\<lparr>allocatedDraftIds := insert (br_draftId c) (allocatedDraftIds b')\<rparr>,
                            success)))))"

text \<open>Patching a draft also invalidates the workflow that targets exactly this draft revision.\<close>

definition workflowTransition ::
  "BuildWorkflowRecord \<Rightarrow> int \<Rightarrow> BuildWorkflowRole \<Rightarrow> BuildWorkflowResult \<Rightarrow> BuildWorkflowPhase \<Rightarrow>
   string \<Rightarrow> Timestamp \<Rightarrow> BuildWorkflowTransition" where
  "workflowTransition w draftRevision role result toPhase operationId occurredAt =
     \<lparr>tr_owner = wf_owner w, tr_workflowId = wf_workflowId w, tr_agentId = wf_agentId w,
      tr_draftId = wf_draftId w, tr_draftRevision = draftRevision, tr_role = role,
      tr_operationId = operationId, tr_fromPhase = wf_phase w, tr_toPhase = toPhase,
      tr_result = result, tr_occurredAt = occurredAt\<rparr>"

definition patchedFamily ::
  "StoreMutationBase \<Rightarrow> PatchDraftStoreCommand \<Rightarrow> SavedAgentFamily \<Rightarrow> SavedAgentDraft \<Rightarrow> SavedAgentFamily"
where
  "patchedFamily m c f d =
     f\<lparr>fam_draft := Some \<lparr>d_draftId = d_draftId d, d_basedOnSpecId = d_basedOnSpecId d,
          d_basedOnVersion = (if d_basedOnSpecId d = None then None else d_basedOnVersion d),
          d_fields = pd_fields c, d_draftRevision = d_draftRevision d + 1,
          d_createdAt = d_createdAt d, d_updatedAt = mb_occurredAt m\<rparr>,
       fam_revision := fam_revision f + 1, fam_updatedAt := mb_occurredAt m\<rparr>"

definition pmFieldsChanged ::
  "SavedAgentEditableFields \<Rightarrow> SavedAgentEditableFields \<Rightarrow> bool" where
  "pmFieldsChanged a b \<longleftrightarrow>
     fld_name a \<noteq> fld_name b \<or> fld_kind a \<noteq> fld_kind b \<or>
     fld_description a \<noteq> fld_description b \<or> fld_pmBrief a \<noteq> fld_pmBrief b"

definition implementationFieldsChanged ::
  "SavedAgentEditableFields \<Rightarrow> SavedAgentEditableFields \<Rightarrow> bool" where
  "implementationFieldsChanged a b \<longleftrightarrow>
     fld_instructions a \<noteq> fld_instructions b \<or>
     fld_toolRequirements a \<noteq> fld_toolRequirements b \<or> fld_triggers a \<noteq> fld_triggers b"

definition patchPhase ::
  "SavedAgentEditableFields \<Rightarrow> SavedAgentEditableFields \<Rightarrow> BuildWorkflowPhase" where
  "patchPhase before new =
     (if pmFieldsChanged before new then PmWork
      else if implementationFieldsChanged before new then ImplementationWork
      else QaReview)"

definition invalidatedWorkflow ::
  "StoreMutationBase \<Rightarrow> PatchDraftStoreCommand \<Rightarrow> SavedAgentDraft \<Rightarrow> BuildWorkflowRecord \<Rightarrow>
   BuildWorkflowRecord" where
  "invalidatedWorkflow m c d w =
     (let nextPhase = patchPhase (draftFields d) (pd_fields c);
          transition = workflowTransition w (d_draftRevision d + 1) RoleRoot
            (if wf_qaApproval w = None then ResDraftEdited else ResApprovalInvalidated)
            nextPhase (mb_operationId m) (mb_occurredAt m)
      in w\<lparr>wf_testRunId := None, wf_testEvidence := None, wf_qaApproval := None,
           wf_published := None, wf_draftRevision := d_draftRevision d + 1,
           wf_revision := wf_revision w + 1, wf_phase := nextPhase,
           wf_transitions := wf_transitions w @ [transition],
           wf_updatedAt := mb_occurredAt m\<rparr>)"

text \<open>The workflow that a patch of draft \<open>d\<close> invalidates, if there is one.\<close>

definition affectedWorkflow :: "OwnerBucket \<Rightarrow> string \<Rightarrow> SavedAgentDraft \<Rightarrow> BuildWorkflowRecord option"
where
  "affectedWorkflow b agentId d =
     (case map_of (workflows b) agentId of
        None \<Rightarrow> None
      | Some w \<Rightarrow>
          if wf_draftId w = d_draftId d \<and> wf_draftRevision w = d_draftRevision d
          then Some w else None)"

definition putWorkflow :: "BuildWorkflowRecord \<Rightarrow> string \<Rightarrow> OwnerBucket \<Rightarrow> OwnerBucket" where
  "putWorkflow w agentId b = b\<lparr>workflows := mapSet agentId w (workflows b)\<rparr>"

definition patchDraft ::
  "host \<Rightarrow> OwnerBucket \<Rightarrow> StoreMutationBase \<Rightarrow> PatchDraftStoreCommand \<Rightarrow>
   (OwnerBucket \<times> AgentBuilderStoreMutationSuccess) StoreResult" where
  "patchDraft h b m c =
     (case liveRecord b (pd_agentId c) of
        None \<Rightarrow> Inl NOT_FOUND
      | Some rec \<Rightarrow>
        let f = fr_family rec in
        (case checkRevision f (pd_expectedRevision c) (Some (pd_expectedDraftRevision c)) of
           Some e \<Rightarrow> Inl e
         | None \<Rightarrow>
           (case fam_draft f of
              None \<Rightarrow> Inl (invalidTransition f OpPatchDraft)
            | Some d \<Rightarrow>
              if fam_lifecycle f = Archived then Inl (invalidTransition f OpPatchDraft)
              else
                (case checkFields h (pd_fields c) (pd_canonicalName c) of
                   Some e \<Rightarrow> Inl e
                 | None \<Rightarrow>
                   if nameOwner h b (pd_canonicalName c) \<noteq> None \<and>
                      nameOwner h b (pd_canonicalName c) \<noteq> Some (fam_agentId f)
                   then Inl (NAME_CONFLICT (pd_canonicalName c))
                   else
                     (case affectedWorkflow b (pd_agentId c) d of
                        None \<Rightarrow>
                          saveFamily h b (pd_agentId c) rec (patchedFamily m c f d)
                            (DraftPatched (patchedFamily m c f d))
                      | Some w \<Rightarrow>
                          if \<not> buildWorkflowRecordSchema (invalidatedWorkflow m c d w)
                          then Inl STORE_INVARIANT_VIOLATION
                          else
                            (case saveFamily h b (pd_agentId c) rec (patchedFamily m c f d)
                                    (DraftPatched (patchedFamily m c f d)) of
                               Inl e \<Rightarrow> Inl e
                             | Inr (b', success) \<Rightarrow>
                                 Inr (putWorkflow (invalidatedWorkflow m c d w) (pd_agentId c) b',
                                      success)))))))"

definition publishDraft ::
  "host \<Rightarrow> OwnerBucket \<Rightarrow> StoreMutationBase \<Rightarrow> PublishDraftStoreCommand \<Rightarrow>
   (OwnerBucket \<times> AgentBuilderStoreMutationSuccess) StoreResult" where
  "publishDraft h b m c =
     (case liveRecord b (pu_agentId c) of
        None \<Rightarrow> Inl NOT_FOUND
      | Some rec \<Rightarrow>
        let f = fr_family rec in
        if map_of (workflows b) (pu_agentId c) \<noteq> None then
          Inl (WORKFLOW_ERROR PUBLISH_NOT_READY None)
        else
          (case checkRevision f (pu_expectedRevision c) (Some (pu_expectedDraftRevision c)) of
             Some e \<Rightarrow> Inl e
           | None \<Rightarrow>
             (case fam_draft f of
                None \<Rightarrow> Inl (invalidTransition f OpPublishDraft)
              | Some d \<Rightarrow>
                if fam_lifecycle f = Archived then Inl (invalidTransition f OpPublishDraft)
                else if specIdAllocated b (pu_specId c) then Inl STORE_INVARIANT_VIOLATION
                else if \<not> isSafeInteger (maximumVersion (fr_versions rec) + 1) then
                  Inl STORE_INVARIANT_VIOLATION
                else
                  let v = versionFromDraft f d (pu_specId c) (maximumVersion (fr_versions rec) + 1)
                            (mb_occurredAt m) (pu_publishedBy c)
                  in if \<not> publishedAgentVersionSchema h v then Inl STORE_INVARIANT_VIOLATION
                     else
                       (case saveFamily h b (pu_agentId c) rec
                               (publishedFamily f v (mb_occurredAt m))
                               (DraftPublished (publishedFamily f v (mb_occurredAt m)) v) of
                          Inl e \<Rightarrow> Inl e
                        | Inr (b', success) \<Rightarrow>
                            Inr (putRecord (pu_agentId c)
                                   \<lparr>fr_family = publishedFamily f v (mb_occurredAt m),
                                    fr_versions = fr_versions rec @ [v]\<rparr> b',
                                 success)))))"

definition activatedFamily ::
  "StoreMutationBase \<Rightarrow> SavedAgentFamily \<Rightarrow> PublishedAgentVersion \<Rightarrow> SavedAgentFamily" where
  "activatedFamily m f v =
     f\<lparr>fam_activeSpecId := Some (v_specId v), fam_activeVersion := Some (v_version v),
       fam_revision := fam_revision f + 1, fam_updatedAt := mb_occurredAt m\<rparr>"

definition activateVersion ::
  "host \<Rightarrow> OwnerBucket \<Rightarrow> StoreMutationBase \<Rightarrow> ActivateVersionStoreCommand \<Rightarrow>
   (OwnerBucket \<times> AgentBuilderStoreMutationSuccess) StoreResult" where
  "activateVersion h b m c =
     (case liveRecord b (av_agentId c) of
        None \<Rightarrow> Inl NOT_FOUND
      | Some rec \<Rightarrow>
        let f = fr_family rec in
        (case checkRevision f (av_expectedRevision c) None of
           Some e \<Rightarrow> Inl e
         | None \<Rightarrow>
           if fam_lifecycle f \<noteq> Active then Inl (invalidTransition f OpActivateVersion)
           else
             (case findVersion (fr_versions rec) (av_specId c) (av_version c) of
                None \<Rightarrow> Inl VERSION_NOT_FOUND
              | Some v \<Rightarrow>
                  saveFamily h b (av_agentId c) rec (activatedFamily m f v)
                    (VersionActivated (activatedFamily m f v) v))))"

definition archivedFamily :: "StoreMutationBase \<Rightarrow> SavedAgentFamily \<Rightarrow> SavedAgentFamily" where
  "archivedFamily m f =
     f\<lparr>fam_lifecycle := Archived, fam_archivedAt := Some (mb_occurredAt m),
       fam_revision := fam_revision f + 1, fam_updatedAt := mb_occurredAt m\<rparr>"

definition archiveFamily ::
  "host \<Rightarrow> OwnerBucket \<Rightarrow> StoreMutationBase \<Rightarrow> LifecycleStoreCommand \<Rightarrow>
   (OwnerBucket \<times> AgentBuilderStoreMutationSuccess) StoreResult" where
  "archiveFamily h b m c =
     (case liveRecord b (lc_agentId c) of
        None \<Rightarrow> Inl NOT_FOUND
      | Some rec \<Rightarrow>
        let f = fr_family rec in
        (case checkRevision f (lc_expectedRevision c) None of
           Some e \<Rightarrow> Inl e
         | None \<Rightarrow>
           if fam_lifecycle f \<noteq> Active \<and> fam_lifecycle f \<noteq> DraftOnly
           then Inl (invalidTransition f OpArchiveFamily)
           else saveFamily h b (lc_agentId c) rec (archivedFamily m f)
                  (FamilyArchived (archivedFamily m f))))"

definition restoredFamily :: "StoreMutationBase \<Rightarrow> SavedAgentFamily \<Rightarrow> SavedAgentFamily" where
  "restoredFamily m f =
     f\<lparr>fam_archivedAt := None,
       fam_lifecycle := (if fam_activeSpecId f = None then DraftOnly else Active),
       fam_revision := fam_revision f + 1, fam_updatedAt := mb_occurredAt m\<rparr>"

definition restoreFamily ::
  "host \<Rightarrow> OwnerBucket \<Rightarrow> StoreMutationBase \<Rightarrow> LifecycleStoreCommand \<Rightarrow>
   (OwnerBucket \<times> AgentBuilderStoreMutationSuccess) StoreResult" where
  "restoreFamily h b m c =
     (case liveRecord b (lc_agentId c) of
        None \<Rightarrow> Inl NOT_FOUND
      | Some rec \<Rightarrow>
        let f = fr_family rec in
        (case checkRevision f (lc_expectedRevision c) None of
           Some e \<Rightarrow> Inl e
         | None \<Rightarrow>
           if fam_lifecycle f \<noteq> Archived then Inl (invalidTransition f OpRestoreFamily)
           else saveFamily h b (lc_agentId c) rec (restoredFamily m f)
                  (FamilyRestored (restoredFamily m f))))"

definition deletedFamily :: "StoreMutationBase \<Rightarrow> SavedAgentFamily \<Rightarrow> SavedAgentFamily" where
  "deletedFamily m f =
     f\<lparr>fam_archivedAt := None, fam_lifecycle := Deleted, fam_deletedAt := Some (mb_occurredAt m),
       fam_revision := fam_revision f + 1, fam_updatedAt := mb_occurredAt m\<rparr>"

definition deleteFamily ::
  "host \<Rightarrow> OwnerBucket \<Rightarrow> StoreMutationBase \<Rightarrow> LifecycleStoreCommand \<Rightarrow>
   (OwnerBucket \<times> AgentBuilderStoreMutationSuccess) StoreResult" where
  "deleteFamily h b m c =
     (case liveRecord b (lc_agentId c) of
        None \<Rightarrow> Inl NOT_FOUND
      | Some rec \<Rightarrow>
        let f = fr_family rec in
        (case checkRevision f (lc_expectedRevision c) None of
           Some e \<Rightarrow> Inl e
         | None \<Rightarrow>
           if fam_lifecycle f = Deleted then Inl NOT_FOUND
           else saveFamily h b (lc_agentId c) rec (deletedFamily m f)
                  (FamilyDeleted (deletedFamily m f) (fam_lifecycle f))))"

end
