(* ===== verification/Memory_Workflow.thy ===== *)
theory Memory_Workflow
  imports Memory_Family
begin

text \<open>
  The build-workflow half of the in-process store
  (\<open>packages/eve-agent-builder/extension/lib/stores/memory.ts\<close>): the handlers of
  \<open>allocate_build_workflow\<close>, \<open>submit_build_role\<close>, \<open>record_build_test\<close>,
  \<open>reopen_build_workflow\<close> and \<open>publish_build_workflow\<close>, and the small functions they share.
\<close>

section \<open>Helpers\<close>

definition workflowById :: "OwnerBucket \<Rightarrow> string \<Rightarrow> BuildWorkflowRecord option" where
  "workflowById b workflowId = List.find (\<lambda>w. wf_workflowId w = workflowId) (values_of (workflows b))"

fun roleResultAllowed :: "BuildRole \<Rightarrow> SubmissionResult \<Rightarrow> bool" where
  "roleResultAllowed BuildQa result \<longleftrightarrow>
     result \<in> {SubNeedsTest, SubChangesRequested, SubApproved, SubNeedsUserInput, SubFailed}"
| "roleResultAllowed _ result \<longleftrightarrow> result \<in> {SubCompletedHandoff, SubNeedsUserInput, SubFailed}"

fun rolePhaseAllowed :: "BuildRole \<Rightarrow> BuildWorkflowPhase \<Rightarrow> bool" where
  "rolePhaseAllowed BuildPm phase \<longleftrightarrow> phase \<in> {PmWork, PmInput}"
| "rolePhaseAllowed BuildImplementor phase \<longleftrightarrow> phase \<in> {ImplementationWork, ImplementationInput}"
| "rolePhaseAllowed BuildQa phase \<longleftrightarrow> phase \<in> {QaReview, QaInput}"

text \<open>A role may change its own fields only; every other field must be as in the draft.\<close>

fun onlyRoleFieldsChanged ::
  "BuildRole \<Rightarrow> SavedAgentEditableFields \<Rightarrow> SavedAgentEditableFields \<Rightarrow> bool" where
  "onlyRoleFieldsChanged role before new \<longleftrightarrow>
     (role = BuildPm \<or>
        (fld_name before = fld_name new \<and> fld_kind before = fld_kind new \<and>
         fld_description before = fld_description new \<and> fld_pmBrief before = fld_pmBrief new)) \<and>
     (role = BuildImplementor \<or>
        (fld_instructions before = fld_instructions new \<and>
         fld_toolRequirements before = fld_toolRequirements new \<and>
         fld_triggers before = fld_triggers new)) \<and>
     (role = BuildQa \<or>
        (fld_testChecklist before = fld_testChecklist new \<and>
         fld_qaFindings before = fld_qaFindings new))"

fun nextRolePhase :: "BuildRole \<Rightarrow> SubmissionResult \<Rightarrow> BuildWorkflowPhase" where
  "nextRolePhase role result =
     (if result = SubFailed then TerminalFailure
      else if result = SubNeedsUserInput then
        (if role = BuildPm then PmInput
         else if role = BuildImplementor then ImplementationInput else QaInput)
      else if role = BuildPm then ImplementationWork
      else if role = BuildImplementor then QaReview
      else if result = SubNeedsTest then TestPending
      else if result = SubChangesRequested then ImplementationWork
      else PublishReady)"

fun submissionRole :: "BuildRole \<Rightarrow> BuildWorkflowRole" where
  "submissionRole BuildPm = RolePm"
| "submissionRole BuildImplementor = RoleImplementor"
| "submissionRole BuildQa = RoleQa"

fun executionRoleOf :: "BuildRole \<Rightarrow> ExecutionRole" where
  "executionRoleOf BuildPm = ExPm"
| "executionRoleOf BuildImplementor = ExImplementor"
| "executionRoleOf BuildQa = ExQa"

fun submissionResult :: "SubmissionResult \<Rightarrow> BuildWorkflowResult" where
  "submissionResult SubCompletedHandoff = ResCompletedHandoff"
| "submissionResult SubNeedsTest = ResNeedsTest"
| "submissionResult SubChangesRequested = ResChangesRequested"
| "submissionResult SubApproved = ResApproved"
| "submissionResult SubNeedsUserInput = ResNeedsUserInput"
| "submissionResult SubFailed = ResFailed"

definition requiredCapabilities :: "SavedAgentEditableFields \<Rightarrow> string list" where
  "requiredCapabilities f =
     map req_capabilityId (filter (\<lambda>r. req_level r = Required) (fld_toolRequirements f))"

text \<open>\<open>[...new Set(xs)]\<close>: the first occurrence of each element, in order.\<close>

definition uniqueInOrder :: "string list \<Rightarrow> string list" where
  "uniqueInOrder xs = rev (remdups (rev xs))"

lemma set_uniqueInOrder [simp]: "set (uniqueInOrder xs) = set xs"
  by (simp add: uniqueInOrder_def)

lemma uniqueInOrder_Nil_iff [simp]: "uniqueInOrder xs = [] \<longleftrightarrow> xs = []"
  by (simp add: uniqueInOrder_def remdups_eq_nil_iff)

section \<open>Allocation\<close>

definition allocatedWorkflow ::
  "StoreMutationBase \<Rightarrow> AllocateBuildWorkflowStoreCommand \<Rightarrow> BuildWorkflowRecord" where
  "allocatedWorkflow m c =
     \<lparr>wf_workflowId = al_workflowId c, wf_owner = mb_owner m, wf_agentId = al_agentId c,
      wf_draftId = al_draftId c, wf_draftRevision = 1, wf_revision = 1, wf_phase = PmWork,
      wf_testRunId = None, wf_testEvidence = None, wf_qaApproval = None, wf_published = None,
      wf_transitions =
        [\<lparr>tr_owner = mb_owner m, tr_workflowId = al_workflowId c, tr_agentId = al_agentId c,
          tr_draftId = al_draftId c, tr_draftRevision = 1, tr_role = RoleSystem,
          tr_operationId = mb_operationId m, tr_fromPhase = PmWork, tr_toPhase = PmWork,
          tr_result = ResAllocated, tr_occurredAt = mb_occurredAt m\<rparr>],
      wf_createdAt = mb_occurredAt m, wf_updatedAt = mb_occurredAt m\<rparr>"

definition allocationAsCreation ::
  "AllocateBuildWorkflowStoreCommand \<Rightarrow> CreateFamilyStoreCommand" where
  "allocationAsCreation c =
     \<lparr>cf_agentId = al_agentId c, cf_draftId = al_draftId c, cf_maxFamilies = al_maxFamilies c,
      cf_canonicalName = al_canonicalName c, cf_fields = al_fields c\<rparr>"

definition allocateBuildWorkflow ::
  "host \<Rightarrow> OwnerBucket \<Rightarrow> StoreMutationBase \<Rightarrow> AllocateBuildWorkflowStoreCommand \<Rightarrow>
   (OwnerBucket \<times> AgentBuilderStoreMutationSuccess) StoreResult" where
  "allocateBuildWorkflow h b m c =
     (if list_ex (\<lambda>w. wf_workflowId w = al_workflowId c) (values_of (workflows b)) then
        Inl STORE_INVARIANT_VIOLATION
      else if \<not> buildWorkflowRecordSchema (allocatedWorkflow m c) then
        Inl STORE_INVARIANT_VIOLATION
      else
        (case createFamily h b m (allocationAsCreation c) of
           Inl e \<Rightarrow> Inl e
         | Inr (b', success) \<Rightarrow>
             Inr (putWorkflow (allocatedWorkflow m c) (al_agentId c) b',
                  WorkflowAllocated (resultFamily success) (allocatedWorkflow m c))))"

section \<open>Role submission\<close>

definition submissionLeaseValid ::
  "OwnerBucket \<Rightarrow> StoreMutationBase \<Rightarrow> SubmitBuildRoleStoreCommand \<Rightarrow> BuildWorkflowRecord \<Rightarrow> bool" where
  "submissionLeaseValid b m c w \<longleftrightarrow>
     (case map_of (leases b) (sb_childSessionId c) of
        None \<Rightarrow> False
      | Some l \<Rightarrow>
          ls_leaseId l = sb_leaseId c \<and>
          ls_role l = executionRoleOf (sb_role c) \<and>
          ls_status l = LeaseRunning \<and>
          \<not> timeGe (mb_occurredAt m) (ls_expiresAt l) \<and>
          ls_executionTurnId l = Some (sb_executionTurnId c) \<and>
          ls_target l = DraftTarget (wf_agentId w) (wf_draftId w) (wf_draftRevision w) \<and>
          (case ls_workflow l of
             None \<Rightarrow> False
           | Some s \<Rightarrow> sc_workflowId s = wf_workflowId w \<and> sc_workflowRevision s = wf_revision w))"

definition UNTITLED_PREFIX :: string where
  "UNTITLED_PREFIX = ''Untitled build ''"

definition handoffIncomplete :: "SubmitBuildRoleStoreCommand \<Rightarrow> bool" where
  "handoffIncomplete c \<longleftrightarrow>
     sb_result c = SubCompletedHandoff \<and>
     ((sb_role c = BuildPm \<and>
         (startsWith (fld_name (sb_fields c)) UNTITLED_PREFIX \<or>
          length (trim (fld_pmBrief (sb_fields c))) = 0)) \<or>
      (sb_role c = BuildImplementor \<and> length (trim (fld_instructions (sb_fields c))) = 0))"

definition submittedFamily ::
  "StoreMutationBase \<Rightarrow> SubmitBuildRoleStoreCommand \<Rightarrow> SavedAgentFamily \<Rightarrow> SavedAgentDraft \<Rightarrow>
   SavedAgentFamily" where
  "submittedFamily m c f d =
     f\<lparr>fam_draft := Some \<lparr>d_draftId = d_draftId d, d_basedOnSpecId = d_basedOnSpecId d,
          d_basedOnVersion = (if d_basedOnSpecId d = None then None else d_basedOnVersion d),
          d_fields = sb_fields c, d_draftRevision = d_draftRevision d + 1,
          d_createdAt = d_createdAt d, d_updatedAt = mb_occurredAt m\<rparr>,
       fam_revision := fam_revision f + 1, fam_updatedAt := mb_occurredAt m\<rparr>"

definition approvalEvidenceOk ::
  "BuildWorkflowRecord \<Rightarrow> SavedAgentEditableFields \<Rightarrow> int \<Rightarrow> bool" where
  "approvalEvidenceOk w flds finalDraftRevision \<longleftrightarrow>
     (case wf_testEvidence w of
        None \<Rightarrow> False
      | Some e \<Rightarrow>
          te_status e = TestPassed \<and> te_draftRevision e = finalDraftRevision \<and>
          te_draftId e = wf_draftId w \<and> \<not> length (te_failedCapabilityIds e) > 0 \<and>
          \<not> length (te_errorCodes e) > 0 \<and>
          \<not> list_ex (\<lambda>i. i \<notin> set (te_usedCapabilityIds e)) (requiredCapabilities flds))"

definition qaApprovalFor ::
  "StoreMutationBase \<Rightarrow> BuildWorkflowRecord \<Rightarrow> int \<Rightarrow> BuildTestEvidence \<Rightarrow> QaApprovalEvidence" where
  "qaApprovalFor m w finalDraftRevision e =
     \<lparr>qa_owner = wf_owner w, qa_workflowId = wf_workflowId w, qa_agentId = wf_agentId w,
      qa_draftId = wf_draftId w, qa_draftRevision = finalDraftRevision,
      qa_testRunId = te_testRunId e, qa_capabilityPlanFingerprint = te_capabilityPlanFingerprint e,
      qa_requiredCapabilityIds = te_requiredCapabilityIds e, qa_operationId = mb_operationId m,
      qa_approvedAt = mb_occurredAt m\<rparr>"

text \<open>\<open>clearEvidence\<close> of the code, and the members \<open>common\<close> to the three ways to continue.\<close>

definition clearsEvidence :: "SubmitBuildRoleStoreCommand \<Rightarrow> bool \<Rightarrow> bool" where
  "clearsEvidence c changed \<longleftrightarrow>
     sb_role c \<noteq> BuildQa \<or> sb_result c = SubNeedsTest \<or> sb_result c = SubChangesRequested \<or> changed"

definition withoutEvidence :: "BuildWorkflowRecord \<Rightarrow> BuildWorkflowRecord" where
  "withoutEvidence w = w\<lparr>wf_testRunId := None, wf_testEvidence := None, wf_qaApproval := None\<rparr>"

definition submissionCommon ::
  "StoreMutationBase \<Rightarrow> SubmitBuildRoleStoreCommand \<Rightarrow> BuildWorkflowRecord \<Rightarrow> int \<Rightarrow>
   BuildWorkflowRecord \<Rightarrow> BuildWorkflowRecord" where
  "submissionCommon m c w finalDraftRevision base =
     base\<lparr>wf_draftRevision := finalDraftRevision, wf_revision := wf_revision w + 1,
          wf_phase := nextRolePhase (sb_role c) (sb_result c),
          wf_transitions := wf_transitions w @
            [workflowTransition w finalDraftRevision (submissionRole (sb_role c))
               (submissionResult (sb_result c)) (nextRolePhase (sb_role c) (sb_result c))
               (mb_operationId m) (mb_occurredAt m)],
          wf_updatedAt := mb_occurredAt m\<rparr>"

definition submittedWorkflow ::
  "StoreMutationBase \<Rightarrow> SubmitBuildRoleStoreCommand \<Rightarrow> BuildWorkflowRecord \<Rightarrow> int \<Rightarrow> bool \<Rightarrow>
   BuildWorkflowRecord" where
  "submittedWorkflow m c w finalDraftRevision changed =
     (if sb_role c = BuildQa \<and> sb_result c = SubNeedsTest then
        (submissionCommon m c w finalDraftRevision (withoutEvidence w))
          \<lparr>wf_testRunId := sb_testRunId c\<rparr>
      else if sb_role c = BuildQa \<and> sb_result c = SubApproved \<and> wf_testEvidence w \<noteq> None then
        (submissionCommon m c w finalDraftRevision w)
          \<lparr>wf_qaApproval := map_option (qaApprovalFor m w finalDraftRevision) (wf_testEvidence w)\<rparr>
      else if clearsEvidence c changed then
        submissionCommon m c w finalDraftRevision (withoutEvidence w)
      else submissionCommon m c w finalDraftRevision w)"

text \<open>
  The checks of \<open>#submitBuildRole\<close> after the draft is known, in the order of the code: the first
  that fails gives the error.
\<close>

definition submissionError ::
  "host \<Rightarrow> OwnerBucket \<Rightarrow> StoreMutationBase \<Rightarrow> SubmitBuildRoleStoreCommand \<Rightarrow> BuildWorkflowRecord \<Rightarrow>
   SavedAgentFamily \<Rightarrow> SavedAgentDraft \<Rightarrow> AgentBuilderStoreError option" where
  "submissionError h b m c w f d =
     (let changed = (sb_fields c \<noteq> draftFields d);
          finalDraftRevision = d_draftRevision d + (if changed then 1 else 0);
          f' = (if changed then submittedFamily m c f d else f);
          w' = submittedWorkflow m c w finalDraftRevision changed
      in
      if checkRevision f (sb_expectedRevision c) (Some (sb_expectedDraftRevision c)) \<noteq> None then
        checkRevision f (sb_expectedRevision c) (Some (sb_expectedDraftRevision c))
      else if wf_draftId w \<noteq> d_draftId d \<or> wf_draftRevision w \<noteq> d_draftRevision d then
        Some (WORKFLOW_ERROR WORKFLOW_CONFLICT (Some (wf_revision w)))
      else if \<not> submissionLeaseValid b m c w then Some (WORKFLOW_ERROR ROLE_FORBIDDEN None)
      else if \<not> rolePhaseAllowed (sb_role c) (wf_phase w) \<or>
              \<not> roleResultAllowed (sb_role c) (sb_result c) then
        Some (WORKFLOW_ERROR WORKFLOW_INVALID_TRANSITION (Some (wf_revision w)))
      else if checkFields h (sb_fields c) (sb_canonicalName c) \<noteq> None then
        checkFields h (sb_fields c) (sb_canonicalName c)
      else if handoffIncomplete c then
        Some (WORKFLOW_ERROR WORKFLOW_INVALID_TRANSITION (Some (wf_revision w)))
      else if \<not> onlyRoleFieldsChanged (sb_role c) (draftFields d) (sb_fields c) then
        Some (WORKFLOW_ERROR ROLE_FORBIDDEN None)
      else if nameOwner h b (sb_canonicalName c) \<noteq> None \<and>
              nameOwner h b (sb_canonicalName c) \<noteq> Some (fam_agentId f) then
        Some (NAME_CONFLICT (sb_canonicalName c))
      else if sb_role c = BuildQa \<and> sb_result c = SubApproved \<and> changed then
        Some (WORKFLOW_ERROR TEST_EVIDENCE_REQUIRED None)
      else if sb_role c = BuildQa \<and> sb_result c = SubNeedsTest \<and> sb_testRunId c = None then
        Some STORE_INVARIANT_VIOLATION
      else if sb_role c = BuildQa \<and> sb_result c = SubApproved \<and>
              \<not> approvalEvidenceOk w (draftFields d) finalDraftRevision then
        Some (WORKFLOW_ERROR TEST_EVIDENCE_REQUIRED None)
      else if \<not> savedAgentFamilySchema h f' \<or> \<not> buildWorkflowRecordSchema w' then
        Some STORE_INVARIANT_VIOLATION
      else None)"

definition submitBuildRole ::
  "host \<Rightarrow> OwnerBucket \<Rightarrow> StoreMutationBase \<Rightarrow> SubmitBuildRoleStoreCommand \<Rightarrow>
   (OwnerBucket \<times> AgentBuilderStoreMutationSuccess) StoreResult" where
  "submitBuildRole h b m c =
     (case workflowById b (sb_workflowId c) of
        None \<Rightarrow> Inl (WORKFLOW_ERROR WORKFLOW_NOT_FOUND None)
      | Some w \<Rightarrow>
        if wf_revision w \<noteq> sb_expectedWorkflowRevision c then
          Inl (WORKFLOW_ERROR WORKFLOW_CONFLICT (Some (wf_revision w)))
        else
          (case liveRecord b (wf_agentId w) of
             None \<Rightarrow> Inl NOT_FOUND
           | Some rec \<Rightarrow>
             (case fam_draft (fr_family rec) of
                None \<Rightarrow> Inl NOT_FOUND
              | Some d \<Rightarrow>
                (case submissionError h b m c w (fr_family rec) d of
                   Some e \<Rightarrow> Inl e
                 | None \<Rightarrow>
                   let changed = (sb_fields c \<noteq> draftFields d);
                       finalDraftRevision = d_draftRevision d + (if changed then 1 else 0);
                       f' = (if changed then submittedFamily m c (fr_family rec) d
                             else fr_family rec);
                       w' = submittedWorkflow m c w finalDraftRevision changed
                   in Inr (putWorkflow w' (wf_agentId w)
                             (putRecord (wf_agentId w) (rec\<lparr>fr_family := f'\<rparr>) b),
                           WorkflowRoleSubmitted f' w')))))"

section \<open>Test recording\<close>

definition recordLeaseValid ::
  "OwnerBucket \<Rightarrow> StoreMutationBase \<Rightarrow> RecordBuildTestStoreCommand \<Rightarrow> BuildWorkflowRecord \<Rightarrow>
   ExecutionLeaseRecord \<Rightarrow> ExecutionCapabilityPlan \<Rightarrow> bool" where
  "recordLeaseValid b m c w l plan \<longleftrightarrow>
     ls_leaseId l = rt_leaseId c \<and> ls_role l = ExTestRunner \<and> ls_status l = LeaseRunning \<and>
     \<not> timeGe (mb_occurredAt m) (ls_expiresAt l) \<and>
     ls_executionTurnId l = Some (rt_executionTurnId c) \<and>
     (case ls_workflow l of
        None \<Rightarrow> False
      | Some s \<Rightarrow> sc_workflowId s = wf_workflowId w \<and> sc_testRunId s = Some (rt_testRunId c) \<and>
                  sc_workflowRevision s = wf_revision w) \<and>
     plan_mode plan = ModeTest"

text \<open>Lease, draft and plan that authorise the recording: all present and all matching.\<close>

definition recordContext ::
  "OwnerBucket \<Rightarrow> StoreMutationBase \<Rightarrow> RecordBuildTestStoreCommand \<Rightarrow> BuildWorkflowRecord \<Rightarrow>
   (FamilyRecord \<times> SavedAgentDraft \<times> ExecutionLeaseRecord \<times> ExecutionCapabilityPlan) option" where
  "recordContext b m c w =
     (case liveRecord b (wf_agentId w) of
        None \<Rightarrow> None
      | Some rec \<Rightarrow>
        (case fam_draft (fr_family rec) of
           None \<Rightarrow> None
         | Some d \<Rightarrow>
           if d_draftId d \<noteq> wf_draftId w \<or> d_draftRevision d \<noteq> wf_draftRevision w then None
           else
             (case map_of (leases b) (rt_childSessionId c) of
                None \<Rightarrow> None
              | Some l \<Rightarrow>
                (case ls_capabilityPlan l of
                   None \<Rightarrow> None
                 | Some plan \<Rightarrow>
                     if recordLeaseValid b m c w l plan then Some (rec, d, l, plan) else None))))"

definition executionsOfRun ::
  "OwnerBucket \<Rightarrow> RecordBuildTestStoreCommand \<Rightarrow> BuildWorkflowRecord \<Rightarrow>
   TestCapabilityExecutionRecord list" where
  "executionsOfRun b c w =
     filter (\<lambda>x. st_workflowId (tx_step x) = wf_workflowId w \<and>
                 st_testRunId (tx_step x) = rt_testRunId c \<and>
                 st_leaseId (tx_step x) = rt_leaseId c \<and>
                 st_childSessionId (tx_step x) = rt_childSessionId c \<and>
                 st_executionTurnId (tx_step x) = rt_executionTurnId c)
       (values_of (testExecutions b))"

definition succeededCapabilities :: "TestCapabilityExecutionRecord list \<Rightarrow> string list" where
  "succeededCapabilities xs =
     map (\<lambda>x. st_capabilityId (tx_step x)) (filter (\<lambda>x. tx_status x = ExecSucceeded) xs)"

definition failedCapabilities :: "TestCapabilityExecutionRecord list \<Rightarrow> string list" where
  "failedCapabilities xs =
     map (\<lambda>x. st_capabilityId (tx_step x))
       (filter (\<lambda>x. tx_status x = ExecFailed \<or> tx_status x = ExecStarted) xs)"

definition effectiveStatus ::
  "RecordBuildTestStoreCommand \<Rightarrow> string list \<Rightarrow> string list \<Rightarrow> string list \<Rightarrow> string list \<Rightarrow>
   BuildTestStatus" where
  "effectiveStatus c required selectedIds succeeded failed =
     (if rt_status c = TestPassed \<and>
         list_all (\<lambda>i. i \<in> set selectedIds \<and> i \<in> set succeeded) required \<and>
         length failed = 0 \<and> length (rt_errorCodes c) = 0
      then TestPassed
      else if rt_status c = TestInputRequired then TestInputRequired
      else TestFailed)"

definition recordedEvidence ::
  "host \<Rightarrow> OwnerBucket \<Rightarrow> StoreMutationBase \<Rightarrow> RecordBuildTestStoreCommand \<Rightarrow> BuildWorkflowRecord \<Rightarrow>
   SavedAgentDraft \<Rightarrow> ExecutionLeaseRecord \<Rightarrow> ExecutionCapabilityPlan \<Rightarrow> BuildTestEvidence" where
  "recordedEvidence h b m c w d l plan =
     (let executions = executionsOfRun b c w;
          succeeded = succeededCapabilities executions;
          failed = failedCapabilities executions;
          required = requiredCapabilities (d_fields d);
          selectedIds = map pe_capabilityId (plan_selected plan)
      in \<lparr>te_testRunId = rt_testRunId c, te_owner = wf_owner w, te_workflowId = wf_workflowId w,
          te_agentId = wf_agentId w, te_draftId = wf_draftId w,
          te_draftRevision = wf_draftRevision w, te_leaseId = ls_leaseId l,
          te_childSessionId = ls_childSessionId l, te_executionTurnId = rt_executionTurnId c,
          te_status = effectiveStatus c required selectedIds succeeded failed,
          te_capabilityPlanFingerprint = capabilityPlanFingerprint h plan,
          te_requiredCapabilityIds = required,
          te_usedCapabilityIds = uniqueInOrder succeeded,
          te_failedCapabilityIds = uniqueInOrder failed,
          te_optionalOmissions = map (\<lambda>x. \<lparr>bo_capabilityId = po_capabilityId x,
            bo_reason = po_reason x\<rparr>) (plan_optionalOmissions plan),
          te_errorCodes = rt_errorCodes c,
          te_startedAt = (case executions of [] \<Rightarrow> ls_issuedAt l | x # _ \<Rightarrow> tx_startedAt x),
          te_completedAt = mb_occurredAt m\<rparr>)"

fun testResultOf :: "BuildTestStatus \<Rightarrow> BuildWorkflowResult" where
  "testResultOf TestPassed = ResTestPassed"
| "testResultOf TestInputRequired = ResTestInputRequired"
| "testResultOf TestFailed = ResTestFailed"

definition testedWorkflow ::
  "StoreMutationBase \<Rightarrow> BuildWorkflowRecord \<Rightarrow> BuildTestEvidence \<Rightarrow> BuildWorkflowRecord" where
  "testedWorkflow m w e =
     w\<lparr>wf_revision := wf_revision w + 1, wf_phase := QaReview, wf_testEvidence := Some e,
       wf_transitions := wf_transitions w @
         [workflowTransition w (wf_draftRevision w) RoleTestRunner (testResultOf (te_status e))
            QaReview (mb_operationId m) (mb_occurredAt m)],
       wf_updatedAt := mb_occurredAt m\<rparr>"

text \<open>\<open>capabilityIdSchema.parse\<close> throws on an omission whose identifier is not valid.\<close>

definition recordBuildTest ::
  "host \<Rightarrow> OwnerBucket \<Rightarrow> StoreMutationBase \<Rightarrow> RecordBuildTestStoreCommand \<Rightarrow>
   (OwnerBucket \<times> AgentBuilderStoreMutationSuccess) StoreResult" where
  "recordBuildTest h b m c =
     (case workflowById b (rt_workflowId c) of
        None \<Rightarrow> Inl (WORKFLOW_ERROR WORKFLOW_NOT_FOUND None)
      | Some w \<Rightarrow>
        if wf_revision w \<noteq> rt_expectedWorkflowRevision c then
          Inl (WORKFLOW_ERROR WORKFLOW_CONFLICT (Some (wf_revision w)))
        else if wf_phase w \<noteq> TestPending \<or> wf_testRunId w \<noteq> Some (rt_testRunId c) then
          Inl (WORKFLOW_ERROR WORKFLOW_INVALID_TRANSITION (Some (wf_revision w)))
        else
          (case recordContext b m c w of
             None \<Rightarrow> Inl (WORKFLOW_ERROR TEST_EVIDENCE_REQUIRED None)
           | Some (rec, d, l, plan) \<Rightarrow>
             if length (rt_errorCodes c) > 256 \<or>
                list_ex (\<lambda>code. length code < 1 \<or> length code > 256) (rt_errorCodes c)
             then Inl STORE_INVARIANT_VIOLATION
             else if \<not> list_all (\<lambda>x. identifierSchema (po_capabilityId x))
                        (plan_optionalOmissions plan)
             then Inl REJECTED_PROMISE
             else
               let evidence = recordedEvidence h b m c w d l plan;
                   nextWorkflow = testedWorkflow m w evidence
               in if \<not> buildTestEvidenceSchema evidence then Inl STORE_INVARIANT_VIOLATION
                  else if \<not> buildWorkflowRecordSchema nextWorkflow then
                    Inl STORE_INVARIANT_VIOLATION
                  else Inr (putWorkflow nextWorkflow (wf_agentId w) b,
                            WorkflowTestRecorded (fr_family rec) nextWorkflow)))"

section \<open>Reopening and publication\<close>

definition reopenedWorkflow ::
  "StoreMutationBase \<Rightarrow> BuildWorkflowRecord \<Rightarrow> SavedAgentDraft \<Rightarrow> BuildWorkflowRecord" where
  "reopenedWorkflow m w d =
     w\<lparr>wf_testRunId := None, wf_testEvidence := None, wf_qaApproval := None, wf_published := None,
       wf_revision := wf_revision w + 1, wf_phase := PmWork,
       wf_transitions := wf_transitions w @
         [workflowTransition w (d_draftRevision d) RoleRoot ResApprovalInvalidated PmWork
            (mb_operationId m) (mb_occurredAt m)],
       wf_updatedAt := mb_occurredAt m\<rparr>"

text \<open>
  The common start of \<open>#reopenBuildWorkflow\<close> and \<open>#publishBuildWorkflow\<close>: both look the
  workflow up, compare its revision, and need a live family with a draft at the expected
  revisions.
\<close>

definition workflowDraftContext ::
  "OwnerBucket \<Rightarrow> string \<Rightarrow> string \<Rightarrow> int \<Rightarrow> int \<Rightarrow> int \<Rightarrow>
   (BuildWorkflowRecord \<times> FamilyRecord \<times> SavedAgentDraft) StoreResult" where
  "workflowDraftContext b workflowId agentId expectedWorkflowRevision expectedRevision
     expectedDraftRevision =
     (case workflowById b workflowId of
        None \<Rightarrow> Inl (WORKFLOW_ERROR WORKFLOW_NOT_FOUND None)
      | Some w \<Rightarrow>
        if wf_agentId w \<noteq> agentId then Inl (WORKFLOW_ERROR WORKFLOW_NOT_FOUND None)
        else if wf_revision w \<noteq> expectedWorkflowRevision then
          Inl (WORKFLOW_ERROR WORKFLOW_CONFLICT (Some (wf_revision w)))
        else
          (case liveRecord b agentId of
             None \<Rightarrow> Inl NOT_FOUND
           | Some rec \<Rightarrow>
             (case fam_draft (fr_family rec) of
                None \<Rightarrow> Inl NOT_FOUND
              | Some d \<Rightarrow>
                (case checkRevision (fr_family rec) expectedRevision (Some expectedDraftRevision) of
                   Some e \<Rightarrow> Inl e
                 | None \<Rightarrow> Inr (w, rec, d)))))"

definition reopenBuildWorkflow ::
  "host \<Rightarrow> OwnerBucket \<Rightarrow> StoreMutationBase \<Rightarrow> ReopenBuildWorkflowStoreCommand \<Rightarrow>
   (OwnerBucket \<times> AgentBuilderStoreMutationSuccess) StoreResult" where
  "reopenBuildWorkflow h b m c =
     (case workflowDraftContext b (ro_workflowId c) (ro_agentId c) (ro_expectedWorkflowRevision c)
             (ro_expectedRevision c) (ro_expectedDraftRevision c) of
        Inl e \<Rightarrow> Inl e
      | Inr (w, rec, d) \<Rightarrow>
        if wf_phase w \<noteq> PublishReady \<or> wf_draftId w \<noteq> d_draftId d \<or>
           wf_draftRevision w \<noteq> d_draftRevision d \<or> wf_testEvidence w = None \<or>
           wf_qaApproval w = None
        then Inl (WORKFLOW_ERROR PUBLISH_NOT_READY None)
        else if \<not> buildWorkflowRecordSchema (reopenedWorkflow m w d) then
          Inl STORE_INVARIANT_VIOLATION
        else Inr (putWorkflow (reopenedWorkflow m w d) (wf_agentId w) b,
                  WorkflowReopened (fr_family rec) (reopenedWorkflow m w d)))"

definition publishReadyFor :: "BuildWorkflowRecord \<Rightarrow> SavedAgentDraft \<Rightarrow> bool" where
  "publishReadyFor w d \<longleftrightarrow>
     wf_phase w = PublishReady \<and> wf_draftId w = d_draftId d \<and>
     wf_draftRevision w = d_draftRevision d \<and>
     (case wf_qaApproval w of
        None \<Rightarrow> False
      | Some q \<Rightarrow>
          qa_draftRevision q = d_draftRevision d \<and>
          Some (qa_testRunId q) = map_option te_testRunId (wf_testEvidence w) \<and>
          Some (qa_capabilityPlanFingerprint q) =
            map_option te_capabilityPlanFingerprint (wf_testEvidence w))"

definition publishedWorkflow ::
  "StoreMutationBase \<Rightarrow> BuildWorkflowRecord \<Rightarrow> PublishedAgentVersion \<Rightarrow> BuildWorkflowRecord" where
  "publishedWorkflow m w v =
     w\<lparr>wf_revision := wf_revision w + 1, wf_phase := Published,
       wf_published := Some \<lparr>pb_owner = wf_owner w, pb_workflowId = wf_workflowId w,
         pb_agentId = wf_agentId w, pb_specId = v_specId v, pb_specVersion = v_version v,
         pb_operationId = mb_operationId m, pb_publishedAt = mb_occurredAt m\<rparr>,
       wf_transitions := wf_transitions w @
         [workflowTransition w (wf_draftRevision w) RoleRoot ResPublished Published
            (mb_operationId m) (mb_occurredAt m)],
       wf_updatedAt := mb_occurredAt m\<rparr>"

definition publishBuildWorkflow ::
  "host \<Rightarrow> OwnerBucket \<Rightarrow> StoreMutationBase \<Rightarrow> PublishBuildWorkflowStoreCommand \<Rightarrow>
   (OwnerBucket \<times> AgentBuilderStoreMutationSuccess) StoreResult" where
  "publishBuildWorkflow h b m c =
     (case workflowDraftContext b (pw_workflowId c) (pw_agentId c) (pw_expectedWorkflowRevision c)
             (pw_expectedRevision c) (pw_expectedDraftRevision c) of
        Inl e \<Rightarrow> Inl e
      | Inr (w, rec, d) \<Rightarrow>
        if \<not> publishReadyFor w d then Inl (WORKFLOW_ERROR PUBLISH_NOT_READY None)
        else if specIdAllocated b (pw_specId c) then Inl STORE_INVARIANT_VIOLATION
        else if \<not> isSafeInteger (maximumVersion (fr_versions rec) + 1) then
          Inl STORE_INVARIANT_VIOLATION
        else
          let v = versionFromDraft (fr_family rec) d (pw_specId c)
                    (maximumVersion (fr_versions rec) + 1) (mb_occurredAt m) (pw_publishedBy c);
              f' = publishedFamily (fr_family rec) v (mb_occurredAt m);
              w' = publishedWorkflow m w v
          in if \<not> publishedAgentVersionSchema h v \<or> \<not> savedAgentFamilySchema h f' \<or>
                \<not> buildWorkflowRecordSchema w'
             then Inl STORE_INVARIANT_VIOLATION
             else Inr (putWorkflow w' (wf_agentId w)
                         (putRecord (pw_agentId c)
                            \<lparr>fr_family = f', fr_versions = fr_versions rec @ [v]\<rparr> b),
                       WorkflowPublished f' w' v))"

end
