(* ===== verification/Memory_Lease.thy ===== *)
theory Memory_Lease
  imports Memory_Workflow
begin

text \<open>
  The bootstrap half of the in-process store
  (\<open>packages/eve-agent-builder/extension/lib/stores/memory.ts\<close>): the tenant/owner map, and the
  operations that create a grant, redeem it into a lease, and begin and close leases. Grants
  and leases are looked up across all owners. An operation returns the new tenants with its
  result: some failing paths change the state (a bucket is allocated, expired tombstones are
  pruned, a lease expires), so the state is returned in every case.
\<close>

section \<open>Buckets\<close>

definition getBucket :: "Tenants \<Rightarrow> OwnerScope \<Rightarrow> OwnerBucket option" where
  "getBucket t ow =
     (case map_of t (tenantKey ow) of None \<Rightarrow> None | Some owners \<Rightarrow> map_of owners (ownerKey ow))"

definition putBucket :: "Tenants \<Rightarrow> OwnerScope \<Rightarrow> OwnerBucket \<Rightarrow> Tenants" where
  "putBucket t ow b =
     mapSet (tenantKey ow)
       (mapSet (ownerKey ow) b (case map_of t (tenantKey ow) of None \<Rightarrow> [] | Some owners \<Rightarrow> owners)) t"

text \<open>\<open>#bucket(owner, true)\<close>: the owner's bucket, allocated empty when it is missing.\<close>

definition bucketOf :: "Tenants \<Rightarrow> OwnerScope \<Rightarrow> OwnerBucket" where
  "bucketOf t ow = (case getBucket t ow of None \<Rightarrow> emptyBucket | Some b \<Rightarrow> b)"

definition ensureBucket :: "Tenants \<Rightarrow> OwnerScope \<Rightarrow> Tenants" where
  "ensureBucket t ow = (case getBucket t ow of None \<Rightarrow> putBucket t ow emptyBucket | Some _ \<Rightarrow> t)"

text \<open>All buckets with their owner, in the order of the two nested loops of the code.\<close>

definition allBuckets :: "Tenants \<Rightarrow> (OwnerScope \<times> OwnerBucket) list" where
  "allBuckets t =
     concat (map (\<lambda>(tk, owners). map (\<lambda>(ok, b). (\<lparr>tenantKey = tk, ownerKey = ok\<rparr>, b)) owners) t)"

fun findGrantIn ::
  "(OwnerScope \<times> OwnerBucket) list \<Rightarrow> string \<Rightarrow> (OwnerScope \<times> BootstrapGrantRecord) option" where
  "findGrantIn [] tokenHash = None"
| "findGrantIn ((ow, b) # rest) tokenHash =
     (case List.find (\<lambda>g. equalTokenHashes (gr_tokenHash g) tokenHash) (values_of (grants b)) of
        Some g \<Rightarrow> Some (ow, g)
      | None \<Rightarrow> findGrantIn rest tokenHash)"

definition findGrant :: "Tenants \<Rightarrow> string \<Rightarrow> (OwnerScope \<times> BootstrapGrantRecord) option" where
  "findGrant t tokenHash = findGrantIn (allBuckets t) tokenHash"

fun findLeaseIn ::
  "(OwnerScope \<times> OwnerBucket) list \<Rightarrow> string \<Rightarrow> (OwnerScope \<times> ExecutionLeaseRecord) option" where
  "findLeaseIn [] child = None"
| "findLeaseIn ((ow, b) # rest) child =
     (case map_of (leases b) child of
        Some l \<Rightarrow> Some (ow, l)
      | None \<Rightarrow> findLeaseIn rest child)"

definition findLease :: "Tenants \<Rightarrow> string \<Rightarrow> (OwnerScope \<times> ExecutionLeaseRecord) option" where
  "findLease t child = findLeaseIn (allBuckets t) child"

subsection \<open>Laws of the tenant/owner map\<close>

lemma getBucket_putBucket:
  "getBucket (putBucket t ow b) ow' = (if ow' = ow then Some b else getBucket t ow')"
  by (cases ow; cases ow') (auto simp: getBucket_def putBucket_def split: option.splits)

interpretation tenants: keyed_store getBucket "\<lambda>ow b t. putBucket t ow b"
  by unfold_locales (rule getBucket_putBucket)

lemma getBucket_ensureBucket [simp]:
  "getBucket (ensureBucket t ow) ow' = (if ow' = ow then Some (bucketOf t ow) else getBucket t ow')"
  by (auto simp: ensureBucket_def bucketOf_def getBucket_putBucket split: option.splits)

lemma bucketOf_Some: "getBucket t ow = Some b \<Longrightarrow> bucketOf t ow = b"
  by (simp add: bucketOf_def)

lemma bucketOf_putBucket [simp]:
  "bucketOf (putBucket t ow b) ow' = (if ow' = ow then b else bucketOf t ow')"
  by (simp add: bucketOf_def getBucket_putBucket)

lemma bucketOf_ensureBucket [simp]: "bucketOf (ensureBucket t ow) ow' = bucketOf t ow'"
  by (auto simp: bucketOf_def ensureBucket_def getBucket_putBucket split: option.splits)

text \<open>Both levels of the map have distinct keys, so that a scan finds what a lookup finds.\<close>

definition tenants_distinct :: "Tenants \<Rightarrow> bool" where
  "tenants_distinct t \<longleftrightarrow> keys_distinct t \<and> (\<forall>(tk, owners) \<in> set t. keys_distinct owners)"

lemma tenants_distinct_putBucket:
  assumes "tenants_distinct t"
  shows "tenants_distinct (putBucket t ow b)"
proof -
  have "keys_distinct (case map_of t (tenantKey ow) of None \<Rightarrow> [] | Some owners \<Rightarrow> owners)"
    using assms by (auto simp: tenants_distinct_def dest: map_of_SomeD split: option.splits)
  then show ?thesis
    using assms by (auto simp: tenants_distinct_def putBucket_def mapSet_in_set split: if_splits)
qed

lemma tenants_distinct_ensureBucket: "tenants_distinct t \<Longrightarrow> tenants_distinct (ensureBucket t ow)"
  by (auto simp: ensureBucket_def tenants_distinct_putBucket split: option.splits)

lemma in_allBuckets_iff:
  assumes "tenants_distinct t"
  shows "(ow, b) \<in> set (allBuckets t) \<longleftrightarrow> getBucket t ow = Some b"
proof
  assume "(ow, b) \<in> set (allBuckets t)"
  then obtain owners where o: "(tenantKey ow, owners) \<in> set t" "(ownerKey ow, b) \<in> set owners"
    by (auto simp: allBuckets_def)
  with assms have "keys_distinct owners" by (auto simp: tenants_distinct_def)
  with o assms show "getBucket t ow = Some b"
    by (simp add: getBucket_def tenants_distinct_def keys_distinct_lookup)
next
  assume "getBucket t ow = Some b"
  then obtain owners where "(tenantKey ow, owners) \<in> set t" "(ownerKey ow, b) \<in> set owners"
    by (auto simp: getBucket_def dest: map_of_SomeD split: option.splits)
  then have "(\<lparr>tenantKey = tenantKey ow, ownerKey = ownerKey ow\<rparr>, b) \<in> set (allBuckets t)"
    by (force simp: allBuckets_def)
  then show "(ow, b) \<in> set (allBuckets t)" by (cases ow) simp
qed

lemma find_None_mem: "List.find p xs = None \<longleftrightarrow> (\<forall>x \<in> set xs. \<not> p x)"
  by (auto simp: find_None_iff)

lemma findLeaseIn_Some:
  "findLeaseIn bs child = Some (ow, l) \<Longrightarrow> \<exists>b. (ow, b) \<in> set bs \<and> map_of (leases b) child = Some l"
  by (induction bs child rule: findLeaseIn.induct) (auto split: option.splits)

lemma findLeaseIn_None:
  "findLeaseIn bs child = None \<longleftrightarrow> (\<forall>ow b. (ow, b) \<in> set bs \<longrightarrow> map_of (leases b) child = None)"
  by (induction bs child rule: findLeaseIn.induct) (auto split: option.splits)

lemma find_SomeD: "List.find p xs = Some x \<Longrightarrow> x \<in> set xs \<and> p x"
  by (auto simp: find_Some_iff)

lemma findGrantIn_Some:
  "findGrantIn bs th = Some (ow, g) \<Longrightarrow>
     \<exists>b. (ow, b) \<in> set bs \<and> g \<in> set (values_of (grants b)) \<and> gr_tokenHash g = th"
proof (induction bs th rule: findGrantIn.induct)
  case (2 ow' b rest th)
  then show ?case by (fastforce split: option.splits dest: find_SomeD)
qed simp

lemma findGrantIn_None:
  "findGrantIn bs th = None \<longleftrightarrow>
     (\<forall>ow b g. (ow, b) \<in> set bs \<longrightarrow> g \<in> set (values_of (grants b)) \<longrightarrow> gr_tokenHash g \<noteq> th)"
proof (induction bs th rule: findGrantIn.induct)
  case (2 ow' b rest th)
  show ?case
  proof (cases "List.find (\<lambda>g. gr_tokenHash g = th) (values_of (grants b))")
    case None
    then have "findGrantIn ((ow', b) # rest) th = findGrantIn rest th" by simp
    moreover have "\<forall>g \<in> set (values_of (grants b)). gr_tokenHash g \<noteq> th"
      using None by (simp add: find_None_mem)
    ultimately show ?thesis
      using 2 None by (simp only: list.set insert_iff prod.inject equalTokenHashes_iff) blast
  next
    case (Some g)
    with find_SomeD[OF Some] show ?thesis by auto
  qed
qed simp

lemma findLease_Some:
  assumes "tenants_distinct t" and "findLease t child = Some (ow, l)"
  obtains b where "getBucket t ow = Some b" and "map_of (leases b) child = Some l"
  using findLeaseIn_Some[OF assms(2)[unfolded findLease_def]] in_allBuckets_iff[OF assms(1)]
  by blast

lemma findLease_None:
  assumes "tenants_distinct t"
  shows "findLease t child = None \<longleftrightarrow>
    (\<forall>ow b. getBucket t ow = Some b \<longrightarrow> map_of (leases b) child = None)"
  unfolding findLease_def findLeaseIn_None in_allBuckets_iff[OF assms] ..

lemma findGrant_Some:
  assumes "tenants_distinct t" and "findGrant t th = Some (ow, g)"
  obtains b where "getBucket t ow = Some b" and "g \<in> set (values_of (grants b))"
    and "gr_tokenHash g = th"
  using findGrantIn_Some[OF assms(2)[unfolded findGrant_def]] in_allBuckets_iff[OF assms(1)]
  by blast

lemma findGrant_None:
  assumes "tenants_distinct t"
  shows "findGrant t th = None \<longleftrightarrow>
    (\<forall>ow b g. getBucket t ow = Some b \<longrightarrow> g \<in> set (values_of (grants b)) \<longrightarrow> gr_tokenHash g \<noteq> th)"
  unfolding findGrant_def findGrantIn_None in_allBuckets_iff[OF assms] ..

section \<open>Guards\<close>

fun targetIsCurrent :: "OwnerBucket \<Rightarrow> BootstrapTarget \<Rightarrow> bool" where
  "targetIsCurrent b (DraftTarget agentId draftId draftRevision) \<longleftrightarrow>
     (case map_of (families b) agentId of
        None \<Rightarrow> False
      | Some rec \<Rightarrow>
          fam_lifecycle (fr_family rec) \<noteq> Deleted \<and> fam_lifecycle (fr_family rec) \<noteq> Archived \<and>
          (case fam_draft (fr_family rec) of
             None \<Rightarrow> False
           | Some d \<Rightarrow> d_draftId d = draftId \<and> d_draftRevision d = draftRevision))"
| "targetIsCurrent b (PublishedTarget agentId specId specVersion) \<longleftrightarrow>
     (case map_of (families b) agentId of
        None \<Rightarrow> False
      | Some rec \<Rightarrow>
          fam_lifecycle (fr_family rec) = Active \<and>
          fam_activeSpecId (fr_family rec) = Some specId \<and>
          fam_activeVersion (fr_family rec) = Some specVersion \<and>
          list_ex (\<lambda>v. v_specId v = specId \<and> v_version v = specVersion) (fr_versions rec))"

fun workflowScopeIsCurrent :: "OwnerBucket \<Rightarrow> BootstrapTarget \<Rightarrow> BuildExecutionScope \<Rightarrow> bool" where
  "workflowScopeIsCurrent b (DraftTarget agentId draftId draftRevision) s \<longleftrightarrow>
     (case map_of (workflows b) agentId of
        None \<Rightarrow> False
      | Some w \<Rightarrow>
          wf_workflowId w = sc_workflowId s \<and> wf_revision w = sc_workflowRevision s \<and>
          wf_draftId w = draftId \<and> wf_draftRevision w = draftRevision \<and>
          wf_testRunId w = sc_testRunId s)"
| "workflowScopeIsCurrent b (PublishedTarget _ _ _) s \<longleftrightarrow> False"

text \<open>A tombstone is pruned once it is as old as the longest grant lifetime.\<close>

definition tombstoneExpired :: "Timestamp \<Rightarrow> Timestamp \<Rightarrow> bool" where
  "tombstoneExpired occurredAt closedAt =
     (case (dateParse closedAt, dateParse occurredAt) of
        (Some c, Some n) \<Rightarrow> c \<le> n - DEFAULT_BOOTSTRAP_GRANT_TTL_MS
      | _ \<Rightarrow> False)"

definition pruneClosedParentTurns :: "OwnerBucket \<Rightarrow> Timestamp \<Rightarrow> OwnerBucket" where
  "pruneClosedParentTurns b occurredAt =
     b\<lparr>closedParentTurns :=
         filter (\<lambda>(k, closedAt). \<not> tombstoneExpired occurredAt closedAt) (closedParentTurns b)\<rparr>"

definition parentTurnClosed :: "OwnerBucket \<Rightarrow> string \<Rightarrow> string option \<Rightarrow> bool" where
  "parentTurnClosed b parentSessionId parentTurnId =
     (case parentTurnId of
        None \<Rightarrow> False
      | Some turn \<Rightarrow> map_of (closedParentTurns b) (parentSessionId, turn) \<noteq> None)"

definition targetAndScopeCurrent ::
  "OwnerBucket \<Rightarrow> BootstrapTarget \<Rightarrow> BuildExecutionScope option \<Rightarrow> bool" where
  "targetAndScopeCurrent b target scope \<longleftrightarrow>
     targetIsCurrent b target \<and> optionally (workflowScopeIsCurrent b target) scope"

section \<open>Grants\<close>

definition createBootstrapGrant ::
  "Tenants \<Rightarrow> BootstrapGrantRecord \<Rightarrow> Tenants \<times> BootstrapGrantRecord BootstrapStoreResult" where
  "createBootstrapGrant t g =
     (if \<not> bootstrapGrantRecordSchema g \<or> gr_redeemedAt g \<noteq> None \<or>
         timeLe (gr_expiresAt g) (gr_issuedAt g)
      then (t, Inl BOOTSTRAP_STORE_INVARIANT_VIOLATION)
      else if findGrant t (gr_tokenHash g) \<noteq> None then (t, Inl BOOTSTRAP_STORE_INVARIANT_VIOLATION)
      else
        let t1 = ensureBucket t (gr_owner g); b = bucketOf t (gr_owner g)
        in if \<not> targetAndScopeCurrent b (gr_target g) (gr_workflow g) then (t1, Inl TARGET_CHANGED)
           else
             let b2 = pruneClosedParentTurns b (gr_issuedAt g)
             in if parentTurnClosed b2 (gr_parentSessionId g) (gr_parentTurnId g) then
                  (putBucket t1 (gr_owner g) b2, Inl BOOTSTRAP_BINDING_MISMATCH)
                else
                  (putBucket t1 (gr_owner g) (b2\<lparr>grants := mapSet (gr_tokenHash g) g (grants b2)\<rparr>),
                   Inr g))"

definition bindingMismatch ::
  "BootstrapGrantRecord \<Rightarrow> RedeemBootstrapGrantStoreCommand \<Rightarrow> bool" where
  "bindingMismatch g c \<longleftrightarrow>
     gr_role g \<noteq> rd_role c \<or> gr_parentSessionId g \<noteq> rd_parentSessionId c \<or>
     (gr_parentTurnId g \<noteq> None \<and> gr_parentTurnId g \<noteq> rd_parentTurnId c) \<or>
     (gr_parentCallId g \<noteq> None \<and> gr_parentCallId g \<noteq> Some (rd_parentCallId c)) \<or>
     (case rd_expectedTarget c of
        None \<Rightarrow> False | Some tgt \<Rightarrow> \<not> bootstrapTargetsEqual (gr_target g) tgt) \<or>
     (rd_expectedWorkflow c \<noteq> None \<and>
      \<not> buildExecutionScopesEqual (gr_workflow g) (rd_expectedWorkflow c))"

definition leaseFromGrant ::
  "BootstrapGrantRecord \<Rightarrow> RedeemBootstrapGrantStoreCommand \<Rightarrow> ExecutionLeaseRecord" where
  "leaseFromGrant g c =
     \<lparr>ls_leaseId = rd_leaseId c, ls_grantId = gr_grantId g, ls_owner = gr_owner g,
      ls_role = gr_role g, ls_target = gr_target g, ls_workflow = gr_workflow g,
      ls_parentSessionId = gr_parentSessionId g, ls_parentTurnId = gr_parentTurnId g,
      ls_parentCallId = rd_parentCallId c, ls_childSessionId = rd_childSessionId c,
      ls_bootstrapTurnId = rd_bootstrapTurnId c, ls_issuedAt = rd_occurredAt c,
      ls_expiresAt = rd_leaseExpiresAt c, ls_status = LeaseReady, ls_executionTurnId = None,
      ls_capabilityPlan = None, ls_closedAt = None, ls_terminalCode = None\<rparr>"

text \<open>The checks of \<open>redeemBootstrapGrant\<close> on the found grant, in order.\<close>

definition redemptionError ::
  "Tenants \<Rightarrow> OwnerBucket \<Rightarrow> BootstrapGrantRecord \<Rightarrow> RedeemBootstrapGrantStoreCommand \<Rightarrow>
   BootstrapStoreErrorCode option" where
  "redemptionError t b g c =
     (if \<not> sameOwner (gr_owner g) (rd_owner c) then Some OWNER_MISMATCH
      else if gr_redeemedAt g \<noteq> None then Some BOOTSTRAP_REPLAYED
      else if parentTurnClosed b (gr_parentSessionId g) (gr_parentTurnId g) then
        Some BOOTSTRAP_BINDING_MISMATCH
      else if \<not> targetIsCurrent b (gr_target g) then Some TARGET_CHANGED
      else if \<not> optionally (workflowScopeIsCurrent b (gr_target g)) (gr_workflow g) then
        Some TARGET_CHANGED
      else if timeGe (rd_occurredAt c) (gr_expiresAt g) then Some BOOTSTRAP_EXPIRED
      else if bindingMismatch g c then Some BOOTSTRAP_BINDING_MISMATCH
      else if findLease t (rd_childSessionId c) \<noteq> None then Some CHILD_SESSION_MISMATCH
      else if \<not> timestampSchema (rd_occurredAt c) \<or> \<not> timestampSchema (rd_leaseExpiresAt c) \<or>
              timeLe (rd_leaseExpiresAt c) (rd_occurredAt c) then
        Some BOOTSTRAP_STORE_INVARIANT_VIOLATION
      else if \<not> executionLeaseRecordSchema (leaseFromGrant g c) then
        Some BOOTSTRAP_STORE_INVARIANT_VIOLATION
      else None)"

definition redeemBootstrapGrant ::
  "Tenants \<Rightarrow> RedeemBootstrapGrantStoreCommand \<Rightarrow>
   Tenants \<times> ExecutionLeaseRecord BootstrapStoreResult" where
  "redeemBootstrapGrant t c =
     (case findGrant t (rd_tokenHash c) of
        None \<Rightarrow> (t, Inl BOOTSTRAP_NOT_FOUND)
      | Some (ow, g) \<Rightarrow>
        let b = pruneClosedParentTurns (bucketOf t ow) (rd_occurredAt c)
        in (case redemptionError t b g c of
              Some e \<Rightarrow> (putBucket t ow b, Inl e)
            | None \<Rightarrow>
                (putBucket t ow
                   (b\<lparr>grants := mapSet (gr_tokenHash g)
                        (g\<lparr>gr_redeemedAt := Some (rd_occurredAt c),
                           gr_childSessionId := Some (rd_childSessionId c)\<rparr>) (grants b),
                      leases := mapSet (rd_childSessionId c) (leaseFromGrant g c) (leases b)\<rparr>),
                 Inr (leaseFromGrant g c))))"

section \<open>Leases\<close>

definition putLease :: "Tenants \<Rightarrow> OwnerScope \<Rightarrow> string \<Rightarrow> ExecutionLeaseRecord \<Rightarrow> Tenants" where
  "putLease t ow child l =
     putBucket t ow ((bucketOf t ow)\<lparr>leases := mapSet child l (leases (bucketOf t ow))\<rparr>)"

definition LEASE_EXPIRED_CODE :: string where
  "LEASE_EXPIRED_CODE = ''LEASE_EXPIRED''"

definition beginExecutionLease ::
  "Tenants \<Rightarrow> BeginExecutionLeaseStoreCommand \<Rightarrow>
   Tenants \<times> ExecutionLeaseRecord BootstrapStoreResult" where
  "beginExecutionLease t c =
     (case findLease t (bl_childSessionId c) of
        None \<Rightarrow> (t, Inl LEASE_NOT_FOUND)
      | Some (ow, l) \<Rightarrow>
        if \<not> sameOwner (ls_owner l) (bl_owner c) then (t, Inl OWNER_MISMATCH)
        else if timeGe (bl_occurredAt c) (ls_expiresAt l) then
          (putLease t ow (bl_childSessionId c)
             (l\<lparr>ls_status := LeaseExpired, ls_closedAt := Some (bl_occurredAt c),
                ls_terminalCode := Some LEASE_EXPIRED_CODE\<rparr>),
           Inl LEASE_EXPIRED)
        else if ls_status l = LeaseRunning \<and> ls_executionTurnId l = Some (bl_executionTurnId c) then
          (if ls_capabilityPlan l \<noteq> bl_capabilityPlan c then (t, Inl TARGET_CHANGED) else (t, Inr l))
        else if ls_status l \<noteq> LeaseReady then (t, Inl LEASE_CLOSED)
        else if \<not> targetAndScopeCurrent (bucketOf t ow) (ls_target l) (ls_workflow l) then
          (t, Inl TARGET_CHANGED)
        else if bl_executionTurnId c = ls_bootstrapTurnId l then (t, Inl LEASE_NOT_READY)
        else if \<not> optionally executionCapabilityPlanSchema (bl_capabilityPlan c) then
          (t, Inl BOOTSTRAP_STORE_INVARIANT_VIOLATION)
        else
          let running = l\<lparr>ls_status := LeaseRunning,
                ls_executionTurnId := Some (bl_executionTurnId c),
                ls_capabilityPlan := (case bl_capabilityPlan c of
                  None \<Rightarrow> ls_capabilityPlan l | Some p \<Rightarrow> Some p)\<rparr>
          in (putLease t ow (bl_childSessionId c) running, Inr running))"

text \<open>The members a close adds when the lease has not been claimed by a turn yet.\<close>

definition claimedBy :: "ExecutionLeaseRecord \<Rightarrow> string \<Rightarrow> ExecutionLeaseRecord" where
  "claimedBy l turn =
     (if ls_executionTurnId l = None then l\<lparr>ls_executionTurnId := Some turn\<rparr> else l)"

definition terminalLease ::
  "ExecutionLeaseRecord \<Rightarrow> CloseExecutionLeaseStoreCommand \<Rightarrow> ExecutionLeaseRecord" where
  "terminalLease l c =
     (claimedBy l (cl_executionTurnId c))
       \<lparr>ls_status := closeLeaseStatus (cl_status c), ls_closedAt := Some (cl_occurredAt c),
        ls_terminalCode := (case cl_terminalCode c of None \<Rightarrow> ls_terminalCode l | Some x \<Rightarrow> Some x)\<rparr>"

definition closeExecutionLease ::
  "Tenants \<Rightarrow> CloseExecutionLeaseStoreCommand \<Rightarrow>
   Tenants \<times> ExecutionLeaseRecord BootstrapStoreResult" where
  "closeExecutionLease t c =
     (case findLease t (cl_childSessionId c) of
        None \<Rightarrow> (t, Inl LEASE_NOT_FOUND)
      | Some (ow, l) \<Rightarrow>
        if \<not> sameOwner (ls_owner l) (cl_owner c) then (t, Inl OWNER_MISMATCH)
        else if isTerminalStatus (ls_status l) then
          (t, if ls_status l = closeLeaseStatus (cl_status c) then Inr l else Inl LEASE_CLOSED)
        else if timeGe (cl_occurredAt c) (ls_expiresAt l) then
          let expired = (claimedBy l (cl_executionTurnId c))
                \<lparr>ls_status := LeaseExpired, ls_closedAt := Some (cl_occurredAt c),
                 ls_terminalCode := Some LEASE_EXPIRED_CODE\<rparr>
          in (putLease t ow (cl_childSessionId c) expired, Inr expired)
        else if ls_status l = LeaseRunning \<and> ls_executionTurnId l \<noteq> Some (cl_executionTurnId c) then
          (t, Inl CHILD_SESSION_MISMATCH)
        else if ls_status l = LeaseReady \<and> cl_status c = CloseSucceeded then (t, Inl LEASE_NOT_READY)
        else if \<not> executionLeaseRecordSchema (terminalLease l c) then
          (t, Inl BOOTSTRAP_STORE_INVARIANT_VIOLATION)
        else (putLease t ow (cl_childSessionId c) (terminalLease l c), Inr (terminalLease l c)))"

definition closedByParent ::
  "CloseParentTurnLeasesStoreCommand \<Rightarrow> ExecutionLeaseRecord \<Rightarrow> bool" where
  "closedByParent c l \<longleftrightarrow>
     ls_status l \<in> {LeaseReady, LeaseRunning} \<and>
     ls_parentSessionId l = cp_parentSessionId c \<and> ls_parentTurnId l = Some (cp_parentTurnId c)"

definition parentTerminalLease ::
  "CloseParentTurnLeasesStoreCommand \<Rightarrow> ExecutionLeaseRecord \<Rightarrow> ExecutionLeaseRecord" where
  "parentTerminalLease c l =
     l\<lparr>ls_status := parentLeaseStatus (cp_status c), ls_closedAt := Some (cp_occurredAt c),
       ls_terminalCode := Some (cp_terminalCode c)\<rparr>"

definition closeParentTurnExecutionLeases ::
  "Tenants \<Rightarrow> CloseParentTurnLeasesStoreCommand \<Rightarrow>
   Tenants \<times> ExecutionLeaseRecord list BootstrapStoreResult" where
  "closeParentTurnExecutionLeases t c =
     (if \<not> timestampSchema (cp_occurredAt c) then (t, Inl BOOTSTRAP_STORE_INVARIANT_VIOLATION)
      else
        let t1 = ensureBucket t (cp_owner c);
            b = pruneClosedParentTurns (bucketOf t (cp_owner c)) (cp_occurredAt c);
            b1 = b\<lparr>closedParentTurns :=
                     mapSet (cp_parentSessionId c, cp_parentTurnId c) (cp_occurredAt c)
                       (closedParentTurns b)\<rparr>;
            b2 = b1\<lparr>leases := map (\<lambda>(child, l).
                     (child, if closedByParent c l then parentTerminalLease c l else l)) (leases b1)\<rparr>
        in (putBucket t1 (cp_owner c) b2,
            Inr (map (parentTerminalLease c) (filter (closedByParent c) (values_of (leases b1))))))"

definition getExecutionLease ::
  "Tenants \<Rightarrow> OwnerScope \<Rightarrow> string \<Rightarrow> ExecutionLeaseRecord option" where
  "getExecutionLease t ow child =
     (case getBucket t ow of None \<Rightarrow> None | Some b \<Rightarrow> map_of (leases b) child)"

end
