(* ===== verification/Memory_Test.thy ===== *)
theory Memory_Test
  imports Memory_Lease
begin

text \<open>
  The test-policy half of the in-process store
  (\<open>packages/eve-agent-builder/extension/lib/stores/memory.ts\<close>): recording a verified input for an
  exact step, starting a capability execution (which consumes the input of a consequential
  step), completing it, and listing the executions of a run.
\<close>

definition testStepKey :: "TestCapabilityStepScope \<Rightarrow> TestStepKey" where
  "testStepKey s =
     (st_workflowId s, st_testRunId s, st_childSessionId s, st_executionTurnId s, st_callId s)"

definition completionKey :: "CompleteTestCapabilityExecutionStoreCommand \<Rightarrow> TestStepKey" where
  "completionKey c =
     (ce_workflowId c, ce_testRunId c, ce_childSessionId c, ce_executionTurnId c, ce_callId c)"

definition stepScope :: "TestCapabilityStepScope \<Rightarrow> BuildExecutionScope" where
  "stepScope s = \<lparr>sc_workflowId = st_workflowId s, sc_workflowRevision = st_workflowRevision s,
     sc_testRunId = Some (st_testRunId s)\<rparr>"

text \<open>The lease part of \<open>#validateTestStep\<close>.\<close>

definition validateStepLease ::
  "OwnerBucket \<Rightarrow> TestCapabilityStepScope \<Rightarrow> TestPolicyErrorCode option" where
  "validateStepLease b s =
     (case map_of (leases b) (st_childSessionId s) of
        None \<Rightarrow> Some TP_BOOTSTRAP_REQUIRED
      | Some l \<Rightarrow>
        if ls_leaseId l \<noteq> st_leaseId s then Some TP_BOOTSTRAP_REQUIRED
        else if ls_status l \<noteq> LeaseRunning then Some TP_LEASE_CLOSED
        else if ls_role l \<noteq> ExTestRunner \<or> ls_executionTurnId l \<noteq> Some (st_executionTurnId s) \<or>
                ls_expiresAt l \<noteq> st_expiresAt s \<or>
                \<not> buildExecutionScopesEqual (ls_workflow l) (Some (stepScope s))
        then Some TP_WORKFLOW_CHANGED
        else
          (case ls_capabilityPlan l of
             None \<Rightarrow> Some TP_CAPABILITY_NOT_SELECTED
           | Some plan \<Rightarrow>
             (case List.find (\<lambda>e. pe_capabilityId e = st_capabilityId s) (plan_selected plan) of
                None \<Rightarrow> Some TP_CAPABILITY_NOT_SELECTED
              | Some e \<Rightarrow>
                if plan_mode plan \<noteq> ModeTest then Some TP_CAPABILITY_NOT_SELECTED
                else if pe_schemaFingerprint e \<noteq> st_schemaFingerprint s \<or>
                        pe_modelToolName e \<noteq> st_modelToolName s
                then Some TP_CAPABILITY_SCHEMA_CHANGED
                else None)))"

definition validateTestStep ::
  "OwnerBucket \<Rightarrow> TestCapabilityStepScope \<Rightarrow> TestPolicyErrorCode option" where
  "validateTestStep b s =
     (case workflowById b (st_workflowId s) of
        None \<Rightarrow> Some TP_OWNER_MISMATCH
      | Some w \<Rightarrow>
        if \<not> sameOwner (wf_owner w) (st_owner s) then Some TP_OWNER_MISMATCH
        else if wf_revision w \<noteq> st_workflowRevision s \<or> wf_phase w \<noteq> TestPending \<or>
                wf_testRunId w \<noteq> Some (st_testRunId s) \<or> wf_agentId w \<noteq> st_agentId s \<or>
                wf_draftId w \<noteq> st_draftId s \<or> wf_draftRevision w \<noteq> st_draftRevision s
        then Some TP_WORKFLOW_CHANGED
        else
          (case liveRecord b (st_agentId s) of
             None \<Rightarrow> Some TP_TARGET_CHANGED
           | Some rec \<Rightarrow>
             (case fam_draft (fr_family rec) of
                None \<Rightarrow> Some TP_TARGET_CHANGED
              | Some d \<Rightarrow>
                if d_draftId d \<noteq> st_draftId s \<or> d_draftRevision d \<noteq> st_draftRevision s
                then Some TP_TARGET_CHANGED
                else validateStepLease b s)))"

definition inputMalformed :: "AuthorizeTestInputStoreCommand \<Rightarrow> bool" where
  "inputMalformed c \<longleftrightarrow>
     \<not> testCapabilityStepScopeSchema (au_step c) \<or> \<not> timestampSchema (au_occurredAt c) \<or>
     length (au_requestId c) < 1 \<or> length (au_requestId c) > 512 \<or>
     au_principalType c \<noteq> ''user'' \<or>
     length (au_principalId c) < 1 \<or> length (au_principalId c) > 1024"

definition authorizeTestInput ::
  "Tenants \<Rightarrow> AuthorizeTestInputStoreCommand \<Rightarrow> Tenants \<times> TestInputGrantRecord TestPolicyResult" where
  "authorizeTestInput t c =
     (if inputMalformed c then (t, Inl TP_INPUT_MALFORMED)
      else
        (case getBucket t (st_owner (au_step c)) of
           None \<Rightarrow>
             (t, Inl (if timeGe (au_occurredAt c) (st_expiresAt (au_step c))
                      then TP_INPUT_STALE else TP_WORKFLOW_CHANGED))
         | Some b \<Rightarrow>
           (case validateTestStep b (au_step c) of
              Some e \<Rightarrow> (t, Inl e)
            | None \<Rightarrow>
              if timeGe (au_occurredAt c) (st_expiresAt (au_step c)) then (t, Inl TP_INPUT_STALE)
              else if map_of (testInputGrants b) (testStepKey (au_step c)) \<noteq> None then
                (t, Inl TP_INPUT_REPLAYED)
              else
                let g = \<lparr>ig_step = au_step c, ig_requestId = au_requestId c,
                      ig_responderPrincipalId = au_principalId c,
                      ig_authorizedAt = au_occurredAt c, ig_consumedAt = None\<rparr>
                in if \<not> testInputGrantRecordSchema g then
                     (t, Inl TP_TEST_POLICY_STORE_INVARIANT_VIOLATION)
                   else
                     (putBucket t (st_owner (au_step c))
                        (b\<lparr>testInputGrants :=
                             mapSet (testStepKey (au_step c)) g (testInputGrants b)\<rparr>),
                      Inr g))))"

definition startedExecution ::
  "BeginTestCapabilityExecutionStoreCommand \<Rightarrow> TestApproval \<Rightarrow> TestCapabilityExecutionRecord" where
  "startedExecution c approval =
     \<lparr>tx_step = be_step c, tx_approval = approval, tx_status = ExecStarted,
      tx_startedAt = be_occurredAt c, tx_completedAt = None, tx_errorCode = None\<rparr>"

text \<open>Adding the execution, or reporting an invalid record, after the input was dealt with.\<close>

definition startExecution ::
  "Tenants \<Rightarrow> OwnerBucket \<Rightarrow> BeginTestCapabilityExecutionStoreCommand \<Rightarrow> TestApproval \<Rightarrow>
   Tenants \<times> TestCapabilityExecutionRecord TestPolicyResult" where
  "startExecution t b c approval =
     (if \<not> testCapabilityExecutionRecordSchema (startedExecution c approval) then
        (putBucket t (st_owner (be_step c)) b, Inl TP_TEST_POLICY_STORE_INVARIANT_VIOLATION)
      else
        (putBucket t (st_owner (be_step c))
           (b\<lparr>testExecutions := mapSet (testStepKey (be_step c)) (startedExecution c approval)
                                  (testExecutions b)\<rparr>),
         Inr (startedExecution c approval)))"

definition beginTestCapabilityExecution ::
  "Tenants \<Rightarrow> BeginTestCapabilityExecutionStoreCommand \<Rightarrow>
   Tenants \<times> TestCapabilityExecutionRecord TestPolicyResult" where
  "beginTestCapabilityExecution t c =
     (if \<not> testCapabilityStepScopeSchema (be_step c) \<or> \<not> timestampSchema (be_occurredAt c) then
        (t, Inl TP_TEST_POLICY_STORE_INVARIANT_VIOLATION)
      else
        (case getBucket t (st_owner (be_step c)) of
           None \<Rightarrow>
             (t, Inl (if timeGe (be_occurredAt c) (st_expiresAt (be_step c))
                      then TP_LEASE_EXPIRED else TP_WORKFLOW_CHANGED))
         | Some b \<Rightarrow>
           (case validateTestStep b (be_step c) of
              Some e \<Rightarrow> (t, Inl e)
            | None \<Rightarrow>
              if timeGe (be_occurredAt c) (st_expiresAt (be_step c)) then (t, Inl TP_LEASE_EXPIRED)
              else if map_of (testExecutions b) (testStepKey (be_step c)) \<noteq> None then
                (t, Inl TP_TEST_STEP_REPLAYED)
              else if \<not> be_consequential c then startExecution t b c NotRequired
              else
                (case map_of (testInputGrants b) (testStepKey (be_step c)) of
                   None \<Rightarrow> (t, Inl TP_INPUT_REQUIRED)
                 | Some g \<Rightarrow>
                   if ig_consumedAt g \<noteq> None then (t, Inl TP_INPUT_REPLAYED)
                   else if st_stepFingerprint (ig_step g) \<noteq> st_stepFingerprint (be_step c) \<or>
                           st_capabilityId (ig_step g) \<noteq> st_capabilityId (be_step c) \<or>
                           st_schemaFingerprint (ig_step g) \<noteq> st_schemaFingerprint (be_step c)
                   then (t, Inl TP_INPUT_STALE)
                   else
                     startExecution t
                       (b\<lparr>testInputGrants := mapSet (testStepKey (be_step c))
                            (g\<lparr>ig_consumedAt := Some (be_occurredAt c)\<rparr>) (testInputGrants b)\<rparr>)
                       c Verified))))"

definition completedExecution ::
  "TestCapabilityExecutionRecord \<Rightarrow> CompleteTestCapabilityExecutionStoreCommand \<Rightarrow>
   TestCapabilityExecutionRecord" where
  "completedExecution x c =
     x\<lparr>tx_status := completeExecStatus (ce_status c), tx_completedAt := Some (ce_occurredAt c),
       tx_errorCode := (case ce_errorCode c of None \<Rightarrow> tx_errorCode x | Some e \<Rightarrow> Some e)\<rparr>"

definition completeTestCapabilityExecution ::
  "Tenants \<Rightarrow> CompleteTestCapabilityExecutionStoreCommand \<Rightarrow>
   Tenants \<times> TestCapabilityExecutionRecord TestPolicyResult" where
  "completeTestCapabilityExecution t c =
     (case getBucket t (ce_owner c) of
        None \<Rightarrow> (t, Inl TP_TEST_POLICY_STORE_INVARIANT_VIOLATION)
      | Some b \<Rightarrow>
        (case map_of (testExecutions b) (completionKey c) of
           None \<Rightarrow> (t, Inl TP_TEST_POLICY_STORE_INVARIANT_VIOLATION)
         | Some x \<Rightarrow>
           if st_leaseId (tx_step x) \<noteq> ce_leaseId c then (t, Inl TP_WORKFLOW_CHANGED)
           else if tx_status x \<noteq> ExecStarted then
             (t, if tx_status x = completeExecStatus (ce_status c) then Inr x
                 else Inl TP_TEST_STEP_REPLAYED)
           else if \<not> testCapabilityExecutionRecordSchema (completedExecution x c) then
             (t, Inl TP_TEST_POLICY_STORE_INVARIANT_VIOLATION)
           else
             (putBucket t (ce_owner c)
                (b\<lparr>testExecutions :=
                     mapSet (completionKey c) (completedExecution x c) (testExecutions b)\<rparr>),
              Inr (completedExecution x c))))"

text \<open>
  \<open>startedAt.localeCompare\<close> on canonical timestamps is their order in time (fixed width,
  digits only where they differ); the sort is stable.
\<close>

fun insertByStart ::
  "TestCapabilityExecutionRecord \<Rightarrow> TestCapabilityExecutionRecord list \<Rightarrow>
   TestCapabilityExecutionRecord list" where
  "insertByStart x [] = [x]"
| "insertByStart x (y # ys) =
     (if timeLe (tx_startedAt x) (tx_startedAt y) then x # y # ys else y # insertByStart x ys)"

definition listTestCapabilityExecutions ::
  "Tenants \<Rightarrow> TestCapabilityExecutionQuery \<Rightarrow> TestCapabilityExecutionRecord list" where
  "listTestCapabilityExecutions t q =
     foldr insertByStart
       (filter (\<lambda>x. st_workflowId (tx_step x) = xq_workflowId q \<and>
                    st_testRunId (tx_step x) = xq_testRunId q)
          (case getBucket t (xq_owner q) of None \<Rightarrow> [] | Some b \<Rightarrow> values_of (testExecutions b))) []"

end
