(* ===== verification/Memory_Store.thy ===== *)
theory Memory_Store
  imports Memory_Test
begin

text \<open>
  The store as a whole (\<open>packages/eve-agent-builder/extension/lib/stores/memory.ts\<close>,
  \<open>MemoryAgentBuilderStore\<close>): \<open>mutate\<close> with its operation log, the queries, and the step relation.
  \<open>#locked\<close> chains every operation on one promise, so operations run one after the other, each
  to its end: an execution is a sequence of steps, each one whole operation.
\<close>

fun apply_command ::
  "host \<Rightarrow> OwnerBucket \<Rightarrow> StoreMutationBase \<Rightarrow> AgentBuilderStoreCommand \<Rightarrow>
   (OwnerBucket \<times> AgentBuilderStoreMutationSuccess) StoreResult" where
  "apply_command h b m (AllocateBuildWorkflow c) = allocateBuildWorkflow h b m c"
| "apply_command h b m (CreateFamily c) = createFamily h b m c"
| "apply_command h b m (BeginRevision c) = beginRevision h b m c"
| "apply_command h b m (PatchDraft c) = patchDraft h b m c"
| "apply_command h b m (PublishDraft c) = publishDraft h b m c"
| "apply_command h b m (ActivateVersion c) = activateVersion h b m c"
| "apply_command h b m (ArchiveFamily c) = archiveFamily h b m c"
| "apply_command h b m (RestoreFamily c) = restoreFamily h b m c"
| "apply_command h b m (DeleteFamily c) = deleteFamily h b m c"
| "apply_command h b m (SubmitBuildRole c) = submitBuildRole h b m c"
| "apply_command h b m (RecordBuildTest c) = recordBuildTest h b m c"
| "apply_command h b m (ReopenBuildWorkflow c) = reopenBuildWorkflow h b m c"
| "apply_command h b m (PublishBuildWorkflow c) = publishBuildWorkflow h b m c"

definition logOperation ::
  "StoreMutationBase \<Rightarrow> AgentBuilderStoreMutationSuccess \<Rightarrow> OwnerBucket \<Rightarrow> OwnerBucket" where
  "logOperation m success b =
     b\<lparr>operations := mapSet (mb_operationId m)
         \<lparr>op_requestFingerprint = mb_requestFingerprint m, op_result = success\<rparr> (operations b)\<rparr>"

definition mutate ::
  "host \<Rightarrow> Tenants \<Rightarrow> StoreMutationBase \<Rightarrow> AgentBuilderStoreCommand \<Rightarrow>
   Tenants \<times> AgentBuilderStoreMutationSuccess StoreResult" where
  "mutate h t m c =
     (let t1 = ensureBucket t (mb_owner m); b = bucketOf t (mb_owner m)
      in case map_of (operations b) (mb_operationId m) of
           Some replay \<Rightarrow>
             (t1, if op_requestFingerprint replay = mb_requestFingerprint m then Inr (op_result replay)
                  else Inl (OPERATION_ID_REUSED (successType (op_result replay))))
         | None \<Rightarrow>
           if \<not> timestampSchema (mb_occurredAt m) then (t1, Inl STORE_INVARIANT_VIOLATION)
           else
             (case apply_command h b m c of
                Inl e \<Rightarrow> (t1, Inl e)
              | Inr (b', success) \<Rightarrow>
                  (putBucket t1 (mb_owner m) (logOperation m success b'), Inr success)))"

section \<open>Queries\<close>

definition getMutationReplay ::
  "Tenants \<Rightarrow> OwnerScope \<Rightarrow> string \<Rightarrow> string \<Rightarrow> MutationReplayResult" where
  "getMutationReplay t ow operationId requestFingerprint =
     (case getBucket t ow of
        None \<Rightarrow> ReplayMiss
      | Some b \<Rightarrow>
        (case map_of (operations b) operationId of
           None \<Rightarrow> ReplayMiss
         | Some r \<Rightarrow>
           if op_requestFingerprint r \<noteq> requestFingerprint then
             ReplayOperationIdReused (successType (op_result r))
           else Replay (op_result r)))"

definition familyRecordOf :: "Tenants \<Rightarrow> OwnerScope \<Rightarrow> string \<Rightarrow> FamilyRecord option" where
  "familyRecordOf t ow agentId =
     (case getBucket t ow of None \<Rightarrow> None | Some b \<Rightarrow> map_of (families b) agentId)"

definition getFamily :: "Tenants \<Rightarrow> OwnerScope \<Rightarrow> string \<Rightarrow> SavedAgentFamily option" where
  "getFamily t ow agentId = map_option fr_family (familyRecordOf t ow agentId)"

definition getVersion ::
  "Tenants \<Rightarrow> OwnerScope \<Rightarrow> string \<Rightarrow> string \<Rightarrow> int \<Rightarrow> PublishedAgentVersion option" where
  "getVersion t ow agentId specId version =
     (case familyRecordOf t ow agentId of
        None \<Rightarrow> None
      | Some rec \<Rightarrow> findVersion (fr_versions rec) specId version)"

definition listVersions :: "Tenants \<Rightarrow> OwnerScope \<Rightarrow> string \<Rightarrow> PublishedAgentVersion list" where
  "listVersions t ow agentId =
     sort_key v_version
       (case familyRecordOf t ow agentId of None \<Rightarrow> [] | Some rec \<Rightarrow> fr_versions rec)"

text \<open>
  One family's contribution to \<open>listActiveFamilies\<close>: nothing, a record, or the exception
  \<open>Active family points to a missing published version\<close> (\<open>Inl\<close>).
\<close>

definition activeRecord :: "FamilyRecord \<Rightarrow> unit + ActiveFamilyStoreRecord option" where
  "activeRecord rec =
     (let f = fr_family rec in
      case (fam_activeSpecId f, fam_activeVersion f) of
        (Some specId, Some version) \<Rightarrow>
          if fam_lifecycle f \<noteq> Active then Inr None
          else (case findVersion (fr_versions rec) specId version of
                  None \<Rightarrow> Inl ()
                | Some v \<Rightarrow> Inr (Some \<lparr>af_family = f, af_activeVersion = v\<rparr>))
      | _ \<Rightarrow> Inr None)"

fun activeRecords :: "FamilyRecord list \<Rightarrow> unit + ActiveFamilyStoreRecord list" where
  "activeRecords [] = Inr []"
| "activeRecords (rec # recs) =
     (case activeRecord rec of
        Inl e \<Rightarrow> Inl e
      | Inr r \<Rightarrow>
        (case activeRecords recs of
           Inl e \<Rightarrow> Inl e
         | Inr rs \<Rightarrow> Inr (case r of None \<Rightarrow> rs | Some x \<Rightarrow> x # rs)))"

definition listActiveFamilies :: "Tenants \<Rightarrow> OwnerScope \<Rightarrow> unit + ActiveFamilyStoreRecord list" where
  "listActiveFamilies t ow =
     activeRecords (case getBucket t ow of None \<Rightarrow> [] | Some b \<Rightarrow> values_of (families b))"

definition getBuildWorkflow :: "Tenants \<Rightarrow> OwnerScope \<Rightarrow> string \<Rightarrow> BuildWorkflowRecord option" where
  "getBuildWorkflow t ow agentId =
     (case getBucket t ow of None \<Rightarrow> None | Some b \<Rightarrow> map_of (workflows b) agentId)"

section \<open>Executions\<close>

datatype StoreCall =
    Mutate StoreMutationBase AgentBuilderStoreCommand
  | CreateGrant BootstrapGrantRecord
  | RedeemGrant RedeemBootstrapGrantStoreCommand
  | BeginLease BeginExecutionLeaseStoreCommand
  | CloseLease CloseExecutionLeaseStoreCommand
  | CloseParentTurn CloseParentTurnLeasesStoreCommand
  | AuthorizeInput AuthorizeTestInputStoreCommand
  | BeginTestExecution BeginTestCapabilityExecutionStoreCommand
  | CompleteTestExecution CompleteTestCapabilityExecutionStoreCommand

fun callState :: "host \<Rightarrow> Tenants \<Rightarrow> StoreCall \<Rightarrow> Tenants" where
  "callState h t (Mutate m c) = fst (mutate h t m c)"
| "callState h t (CreateGrant g) = fst (createBootstrapGrant t g)"
| "callState h t (RedeemGrant c) = fst (redeemBootstrapGrant t c)"
| "callState h t (BeginLease c) = fst (beginExecutionLease t c)"
| "callState h t (CloseLease c) = fst (closeExecutionLease t c)"
| "callState h t (CloseParentTurn c) = fst (closeParentTurnExecutionLeases t c)"
| "callState h t (AuthorizeInput c) = fst (authorizeTestInput t c)"
| "callState h t (BeginTestExecution c) = fst (beginTestCapabilityExecution t c)"
| "callState h t (CompleteTestExecution c) = fst (completeTestCapabilityExecution t c)"

text \<open>A store starts empty; any caller may make any call at any time.\<close>

inductive store_step :: "host \<Rightarrow> Tenants \<Rightarrow> Tenants \<Rightarrow> bool" for h where
  call: "store_step h t (callState h t c)"

inductive reachable :: "host \<Rightarrow> Tenants \<Rightarrow> bool" for h where
  initial: "reachable h []"
| step: "reachable h t \<Longrightarrow> store_step h t t' \<Longrightarrow> reachable h t'"

inductive_simps store_step_iff: "store_step h t t'"

lemma reachable_call: "reachable h t \<Longrightarrow> reachable h (callState h t c)"
  by (blast intro: reachable.step store_step.call)

text \<open>Executable runs, for concrete states.\<close>

fun runCalls :: "host \<Rightarrow> Tenants \<Rightarrow> StoreCall list \<Rightarrow> Tenants" where
  "runCalls h t [] = t"
| "runCalls h t (c # cs) = runCalls h (callState h t c) cs"

lemma runCalls_append: "runCalls h t (cs @ cs') = runCalls h (runCalls h t cs) cs'"
  by (induction cs arbitrary: t) simp_all

lemma reachable_runCalls: "reachable h t \<Longrightarrow> reachable h (runCalls h t cs)"
  by (induction cs arbitrary: t) (auto intro: reachable_call)

end
