(* ===== verification/Family_Laws.thy ===== *)
theory Family_Laws
  imports Memory_Store
begin

text \<open>
  What the family handlers do when they succeed, one inversion lemma per handler: the guards
  that held, and the bucket that results.
\<close>

lemma liveRecord_Some:
  "liveRecord b aid = Some rec \<longleftrightarrow>
     map_of (families b) aid = Some rec \<and> fam_lifecycle (fr_family rec) \<noteq> Deleted"
  by (auto simp: liveRecord_def split: option.splits)

lemma checkRevision_None:
  "checkRevision f r dr = None \<longleftrightarrow>
     fam_revision f = r \<and> (dr = None \<or> draftRevisionOf f = dr)"
  by (simp add: checkRevision_def)

lemma checkFields_None:
  "checkFields h f cn = None \<longleftrightarrow>
     savedAgentEditableFieldsSchema h f \<and> canonicalizeAgentName h (fld_name f) = cn"
  by (simp add: checkFields_def)

lemma validateFamily_None: "validateFamily h f = None \<longleftrightarrow> savedAgentFamilySchema h f"
  by (simp add: validateFamily_def)

lemma draftRevisionOf_Some:
  "draftRevisionOf f = Some r \<longleftrightarrow> (\<exists>d. fam_draft f = Some d \<and> d_draftRevision d = r)"
  by (auto simp: draftRevisionOf_def)

lemmas guard_simps = liveRecord_Some checkRevision_None checkFields_None validateFamily_None

lemma saveFamily_Inr:
  "saveFamily h b aid rec f s = Inr (b', s') \<longleftrightarrow>
     savedAgentFamilySchema h f \<and> b' = putRecord aid (rec\<lparr>fr_family := f\<rparr>) b \<and> s' = s"
  by (auto simp: saveFamily_def validateFamily_def)

lemma putRecord_twice [simp]: "putRecord aid r2 (putRecord aid r1 b) = putRecord aid r2 b"
  by (simp add: putRecord_def)

lemma createFamily_Inr:
  assumes "createFamily h b m c = Inr (b', s)"
  shows "savedAgentEditableFieldsSchema h (cf_fields c)"
    and "canonicalizeAgentName h (fld_name (cf_fields c)) = cf_canonicalName c"
    and "map_of (families b) (cf_agentId c) = None"
    and "cf_draftId c \<notin> allocatedDraftIds b"
    and "liveFamilyCount b < cf_maxFamilies c"
    and "nameOwner h b (cf_canonicalName c) = None"
    and "savedAgentFamilySchema h (createdFamily m c)"
    and "b' = (putRecord (cf_agentId c) \<lparr>fr_family = createdFamily m c, fr_versions = []\<rparr> b)
               \<lparr>allocatedDraftIds := insert (cf_draftId c) (allocatedDraftIds b)\<rparr>"
    and "s = FamilyCreated (createdFamily m c)"
  using assms by (auto simp: createFamily_def guard_simps split: option.splits if_splits)

lemma beginRevision_Inr:
  assumes "beginRevision h b m c = Inr (b', s)"
  obtains rec base where
    "map_of (families b) (br_agentId c) = Some rec"
    "fam_lifecycle (fr_family rec) = Active"
    "fam_revision (fr_family rec) = br_expectedRevision c"
    "fam_draft (fr_family rec) = None"
    "fam_activeSpecId (fr_family rec) = Some (br_basedOnSpecId c)"
    "fam_activeVersion (fr_family rec) = Some (br_basedOnVersion c)"
    "findVersion (fr_versions rec) (br_basedOnSpecId c) (br_basedOnVersion c) = Some base"
    "br_fields c = editableFieldsFromVersion base"
    "br_draftId c \<notin> allocatedDraftIds b"
    "savedAgentFamilySchema h (revisedFamily m c (fr_family rec))"
    "b' = (putRecord (br_agentId c) (rec\<lparr>fr_family := revisedFamily m c (fr_family rec)\<rparr>) b)
            \<lparr>allocatedDraftIds := insert (br_draftId c) (allocatedDraftIds b)\<rparr>"
    "s = RevisionBegun (revisedFamily m c (fr_family rec))"
  using assms
  by (auto simp: beginRevision_def Let_def guard_simps saveFamily_Inr putRecord_def
      split: option.splits if_splits sum.splits)

lemma patchDraft_Inr:
  assumes "patchDraft h b m c = Inr (b', s)"
  obtains rec d where
    "map_of (families b) (pd_agentId c) = Some rec"
    "fam_lifecycle (fr_family rec) \<noteq> Deleted" "fam_lifecycle (fr_family rec) \<noteq> Archived"
    "fam_revision (fr_family rec) = pd_expectedRevision c"
    "fam_draft (fr_family rec) = Some d" "d_draftRevision d = pd_expectedDraftRevision c"
    "savedAgentEditableFieldsSchema h (pd_fields c)"
    "canonicalizeAgentName h (fld_name (pd_fields c)) = pd_canonicalName c"
    "nameOwner h b (pd_canonicalName c) \<in> {None, Some (fam_agentId (fr_family rec))}"
    "savedAgentFamilySchema h (patchedFamily m c (fr_family rec) d)"
    "\<And>w. affectedWorkflow b (pd_agentId c) d = Some w \<Longrightarrow>
       buildWorkflowRecordSchema (invalidatedWorkflow m c d w)"
    "b' = (let b1 = putRecord (pd_agentId c)
                      (rec\<lparr>fr_family := patchedFamily m c (fr_family rec) d\<rparr>) b
           in case affectedWorkflow b (pd_agentId c) d of
                None \<Rightarrow> b1
              | Some w \<Rightarrow> putWorkflow (invalidatedWorkflow m c d w) (pd_agentId c) b1)"
    "s = DraftPatched (patchedFamily m c (fr_family rec) d)"
proof -
  obtain rec where live: "liveRecord b (pd_agentId c) = Some rec"
    using assms by (cases "liveRecord b (pd_agentId c)") (auto simp: patchDraft_def)
  have rv: "checkRevision (fr_family rec) (pd_expectedRevision c)
              (Some (pd_expectedDraftRevision c)) = None"
    using assms live by (auto simp: patchDraft_def Let_def split: option.splits)
  obtain d where draft: "fam_draft (fr_family rec) = Some d"
    using rv by (auto simp: checkRevision_None draftRevisionOf_def)
  note d = live rv draft
  show thesis
  proof (cases "affectedWorkflow b (pd_agentId c) d")
    case None
    then show ?thesis
      using assms d by (intro that[of rec d])
        (auto simp: patchDraft_def Let_def guard_simps saveFamily_Inr draftRevisionOf_def
          split: option.splits if_splits)
  next
    case (Some w)
    then show ?thesis
      using assms d by (intro that[of rec d])
        (auto simp: patchDraft_def Let_def guard_simps saveFamily_Inr draftRevisionOf_def
          split: option.splits if_splits sum.splits)
  qed
qed

lemma publishDraft_Inr:
  assumes "publishDraft h b m c = Inr (b', s)"
  obtains rec d v where
    "map_of (families b) (pu_agentId c) = Some rec"
    "fam_lifecycle (fr_family rec) \<noteq> Deleted" "fam_lifecycle (fr_family rec) \<noteq> Archived"
    "map_of (workflows b) (pu_agentId c) = None"
    "fam_revision (fr_family rec) = pu_expectedRevision c"
    "fam_draft (fr_family rec) = Some d" "d_draftRevision d = pu_expectedDraftRevision c"
    "\<not> specIdAllocated b (pu_specId c)"
    "v = versionFromDraft (fr_family rec) d (pu_specId c) (maximumVersion (fr_versions rec) + 1)
           (mb_occurredAt m) (pu_publishedBy c)"
    "publishedAgentVersionSchema h v"
    "savedAgentFamilySchema h (publishedFamily (fr_family rec) v (mb_occurredAt m))"
    "b' = putRecord (pu_agentId c)
            \<lparr>fr_family = publishedFamily (fr_family rec) v (mb_occurredAt m),
             fr_versions = fr_versions rec @ [v]\<rparr> b"
    "s = DraftPublished (publishedFamily (fr_family rec) v (mb_occurredAt m)) v"
  using assms
  by (auto simp: publishDraft_def Let_def guard_simps saveFamily_Inr draftRevisionOf_def
      split: option.splits if_splits sum.splits; rule that; (assumption | rule refl | simp)+)

lemma findVersion_Some:
  "findVersion vs sid n = Some v \<Longrightarrow> v \<in> set vs \<and> v_specId v = sid \<and> v_version v = n"
  by (auto simp: findVersion_def find_Some_iff)

lemma activateVersion_Inr:
  assumes "activateVersion h b m c = Inr (b', s)"
  obtains rec v where
    "map_of (families b) (av_agentId c) = Some rec"
    "fam_lifecycle (fr_family rec) = Active"
    "fam_revision (fr_family rec) = av_expectedRevision c"
    "findVersion (fr_versions rec) (av_specId c) (av_version c) = Some v"
    "savedAgentFamilySchema h (activatedFamily m (fr_family rec) v)"
    "b' = putRecord (av_agentId c) (rec\<lparr>fr_family := activatedFamily m (fr_family rec) v\<rparr>) b"
    "s = VersionActivated (activatedFamily m (fr_family rec) v) v"
  using assms
  by (auto simp: activateVersion_def Let_def guard_simps saveFamily_Inr
      split: option.splits if_splits)

lemma archiveFamily_Inr:
  assumes "archiveFamily h b m c = Inr (b', s)"
  obtains rec where
    "map_of (families b) (lc_agentId c) = Some rec"
    "fam_lifecycle (fr_family rec) \<in> {Active, DraftOnly}"
    "fam_revision (fr_family rec) = lc_expectedRevision c"
    "savedAgentFamilySchema h (archivedFamily m (fr_family rec))"
    "b' = putRecord (lc_agentId c) (rec\<lparr>fr_family := archivedFamily m (fr_family rec)\<rparr>) b"
    "s = FamilyArchived (archivedFamily m (fr_family rec))"
  using assms
  by (auto simp: archiveFamily_def Let_def guard_simps saveFamily_Inr
      split: option.splits if_splits)

lemma restoreFamily_Inr:
  assumes "restoreFamily h b m c = Inr (b', s)"
  obtains rec where
    "map_of (families b) (lc_agentId c) = Some rec"
    "fam_lifecycle (fr_family rec) = Archived"
    "fam_revision (fr_family rec) = lc_expectedRevision c"
    "savedAgentFamilySchema h (restoredFamily m (fr_family rec))"
    "b' = putRecord (lc_agentId c) (rec\<lparr>fr_family := restoredFamily m (fr_family rec)\<rparr>) b"
    "s = FamilyRestored (restoredFamily m (fr_family rec))"
  using assms
  by (auto simp: restoreFamily_def Let_def guard_simps saveFamily_Inr
      split: option.splits if_splits)

lemma deleteFamily_Inr:
  assumes "deleteFamily h b m c = Inr (b', s)"
  obtains rec where
    "map_of (families b) (lc_agentId c) = Some rec"
    "fam_lifecycle (fr_family rec) \<noteq> Deleted"
    "fam_revision (fr_family rec) = lc_expectedRevision c"
    "savedAgentFamilySchema h (deletedFamily m (fr_family rec))"
    "b' = putRecord (lc_agentId c) (rec\<lparr>fr_family := deletedFamily m (fr_family rec)\<rparr>) b"
    "s = FamilyDeleted (deletedFamily m (fr_family rec)) (fam_lifecycle (fr_family rec))"
  using assms
  by (auto simp: deleteFamily_def Let_def guard_simps saveFamily_Inr
      split: option.splits if_splits)

end
