(* ===== verification/Workflow_Laws.thy ===== *)
theory Workflow_Laws
  imports Family_Laws
begin

text \<open>
  What the workflow handlers do when they succeed: the guards that held and the bucket that
  results, one inversion lemma per handler.
\<close>

lemma workflowById_Some:
  assumes "workflowById b wid = Some w"
  shows "wf_workflowId w = wid" and "w \<in> set (values_of (workflows b))"
  using find_SomeD[OF assms[unfolded workflowById_def]] by simp_all

lemma allocateBuildWorkflow_Inr:
  assumes "allocateBuildWorkflow h b m c = Inr (b', s)"
  obtains b1 where
    "\<And>w. w \<in> set (values_of (workflows b)) \<Longrightarrow> wf_workflowId w \<noteq> al_workflowId c"
    "buildWorkflowRecordSchema (allocatedWorkflow m c)"
    "createFamily h b m (allocationAsCreation c) =
       Inr (b1, FamilyCreated (createdFamily m (allocationAsCreation c)))"
    "b' = putWorkflow (allocatedWorkflow m c) (al_agentId c) b1"
    "s = WorkflowAllocated (createdFamily m (allocationAsCreation c)) (allocatedWorkflow m c)"
  using assms createFamily_Inr(9)[of h b m "allocationAsCreation c"]
  by (fastforce simp: allocateBuildWorkflow_def list_ex_iff split: if_splits sum.splits)

definition submissionChanged :: "SubmitBuildRoleStoreCommand \<Rightarrow> SavedAgentDraft \<Rightarrow> bool" where
  "submissionChanged c d \<longleftrightarrow> sb_fields c \<noteq> d_fields d"

definition submissionDraftRevision ::
  "SubmitBuildRoleStoreCommand \<Rightarrow> SavedAgentDraft \<Rightarrow> int" where
  "submissionDraftRevision c d = d_draftRevision d + (if submissionChanged c d then 1 else 0)"

definition familyAfterSubmission ::
  "StoreMutationBase \<Rightarrow> SubmitBuildRoleStoreCommand \<Rightarrow> SavedAgentFamily \<Rightarrow> SavedAgentDraft \<Rightarrow>
   SavedAgentFamily" where
  "familyAfterSubmission m c f d = (if submissionChanged c d then submittedFamily m c f d else f)"

definition workflowAfterSubmission ::
  "StoreMutationBase \<Rightarrow> SubmitBuildRoleStoreCommand \<Rightarrow> BuildWorkflowRecord \<Rightarrow> SavedAgentDraft \<Rightarrow>
   BuildWorkflowRecord" where
  "workflowAfterSubmission m c w d =
     submittedWorkflow m c w (submissionDraftRevision c d) (submissionChanged c d)"

lemmas submission_defs =
  submissionChanged_def submissionDraftRevision_def familyAfterSubmission_def
  workflowAfterSubmission_def

text \<open>The guards of a submission, all of them, when no check reports an error.\<close>

lemma submissionError_None:
  assumes "submissionError h b m c w f d = None"
  shows "fam_revision f = sb_expectedRevision c"
    and "draftRevisionOf f = Some (sb_expectedDraftRevision c)"
    and "wf_draftId w = d_draftId d" and "wf_draftRevision w = d_draftRevision d"
    and "submissionLeaseValid b m c w"
    and "rolePhaseAllowed (sb_role c) (wf_phase w)"
    and "roleResultAllowed (sb_role c) (sb_result c)"
    and "savedAgentEditableFieldsSchema h (sb_fields c)"
    and "canonicalizeAgentName h (fld_name (sb_fields c)) = sb_canonicalName c"
    and "\<not> handoffIncomplete c"
    and "onlyRoleFieldsChanged (sb_role c) (d_fields d) (sb_fields c)"
    and "nameOwner h b (sb_canonicalName c) \<in> {None, Some (fam_agentId f)}"
    and "sb_role c = BuildQa \<Longrightarrow> sb_result c = SubApproved \<Longrightarrow> \<not> submissionChanged c d"
    and "sb_role c = BuildQa \<Longrightarrow> sb_result c = SubNeedsTest \<Longrightarrow> sb_testRunId c \<noteq> None"
    and "sb_role c = BuildQa \<Longrightarrow> sb_result c = SubApproved \<Longrightarrow>
           approvalEvidenceOk w (d_fields d) (d_draftRevision d)"
    and "savedAgentFamilySchema h (familyAfterSubmission m c f d)"
    and "buildWorkflowRecordSchema (workflowAfterSubmission m c w d)"
  using assms
  by (auto simp: submissionError_def Let_def guard_simps draftFields_def submission_defs
      simp del: onlyRoleFieldsChanged.simps split: if_splits)

lemma submitBuildRole_Inr:
  assumes "submitBuildRole h b m c = Inr (b', s)"
  obtains w rec d where
    "workflowById b (sb_workflowId c) = Some w"
    "wf_revision w = sb_expectedWorkflowRevision c"
    "map_of (families b) (wf_agentId w) = Some rec"
    "fam_lifecycle (fr_family rec) \<noteq> Deleted"
    "fam_draft (fr_family rec) = Some d"
    "submissionError h b m c w (fr_family rec) d = None"
    "b' = putWorkflow (workflowAfterSubmission m c w d) (wf_agentId w)
            (putRecord (wf_agentId w)
               (rec\<lparr>fr_family := familyAfterSubmission m c (fr_family rec) d\<rparr>) b)"
    "s = WorkflowRoleSubmitted (familyAfterSubmission m c (fr_family rec) d)
           (workflowAfterSubmission m c w d)"
  using assms
  by (auto simp: submitBuildRole_def Let_def guard_simps draftFields_def submission_defs
      split: option.splits if_splits)

lemma recordContext_Some:
  assumes "recordContext b m c w = Some (rec, d, l, plan)"
  shows "map_of (families b) (wf_agentId w) = Some rec"
    and "fam_lifecycle (fr_family rec) \<noteq> Deleted"
    and "fam_draft (fr_family rec) = Some d"
    and "d_draftId d = wf_draftId w" and "d_draftRevision d = wf_draftRevision w"
    and "map_of (leases b) (rt_childSessionId c) = Some l"
    and "ls_capabilityPlan l = Some plan"
    and "recordLeaseValid b m c w l plan"
  using assms by (auto simp: recordContext_def guard_simps split: option.splits if_splits)

lemma recordBuildTest_Inr:
  assumes "recordBuildTest h b m c = Inr (b', s)"
  obtains w rec d l plan e where
    "workflowById b (rt_workflowId c) = Some w"
    "wf_revision w = rt_expectedWorkflowRevision c"
    "wf_phase w = TestPending" "wf_testRunId w = Some (rt_testRunId c)"
    "recordContext b m c w = Some (rec, d, l, plan)"
    "e = recordedEvidence h b m c w d l plan"
    "buildTestEvidenceSchema e"
    "buildWorkflowRecordSchema (testedWorkflow m w e)"
    "b' = putWorkflow (testedWorkflow m w e) (wf_agentId w) b"
    "s = WorkflowTestRecorded (fr_family rec) (testedWorkflow m w e)"
  using assms
  by (auto simp: recordBuildTest_def Let_def split: option.splits if_splits)

lemma workflowDraftContext_Inr:
  assumes "workflowDraftContext b wid aid wr r dr = Inr (w, rec, d)"
  shows "workflowById b wid = Some w" and "wf_agentId w = aid" and "wf_revision w = wr"
    and "map_of (families b) aid = Some rec" and "fam_lifecycle (fr_family rec) \<noteq> Deleted"
    and "fam_draft (fr_family rec) = Some d" and "fam_revision (fr_family rec) = r"
    and "d_draftRevision d = dr"
  using assms
  by (auto simp: workflowDraftContext_def guard_simps draftRevisionOf_def
      split: option.splits if_splits)

lemma reopenBuildWorkflow_Inr:
  assumes "reopenBuildWorkflow h b m c = Inr (b', s)"
  obtains w rec d where
    "workflowDraftContext b (ro_workflowId c) (ro_agentId c) (ro_expectedWorkflowRevision c)
       (ro_expectedRevision c) (ro_expectedDraftRevision c) = Inr (w, rec, d)"
    "wf_phase w = PublishReady" "wf_draftId w = d_draftId d"
    "wf_draftRevision w = d_draftRevision d"
    "buildWorkflowRecordSchema (reopenedWorkflow m w d)"
    "b' = putWorkflow (reopenedWorkflow m w d) (wf_agentId w) b"
    "s = WorkflowReopened (fr_family rec) (reopenedWorkflow m w d)"
  using assms
  by (auto simp: reopenBuildWorkflow_def split: sum.splits if_splits)

lemma publishReadyFor_iff:
  "publishReadyFor w d \<longleftrightarrow>
     wf_phase w = PublishReady \<and> wf_draftId w = d_draftId d \<and>
     wf_draftRevision w = d_draftRevision d \<and>
     (\<exists>q e. wf_qaApproval w = Some q \<and> wf_testEvidence w = Some e \<and>
        qa_draftRevision q = d_draftRevision d \<and> qa_testRunId q = te_testRunId e \<and>
        qa_capabilityPlanFingerprint q = te_capabilityPlanFingerprint e)"
  by (cases "wf_testEvidence w") (auto simp: publishReadyFor_def split: option.splits)

lemma publishBuildWorkflow_Inr:
  assumes "publishBuildWorkflow h b m c = Inr (b', s)"
  obtains w rec d v where
    "workflowDraftContext b (pw_workflowId c) (pw_agentId c) (pw_expectedWorkflowRevision c)
       (pw_expectedRevision c) (pw_expectedDraftRevision c) = Inr (w, rec, d)"
    "publishReadyFor w d"
    "\<not> specIdAllocated b (pw_specId c)"
    "v = versionFromDraft (fr_family rec) d (pw_specId c) (maximumVersion (fr_versions rec) + 1)
           (mb_occurredAt m) (pw_publishedBy c)"
    "publishedAgentVersionSchema h v"
    "savedAgentFamilySchema h (publishedFamily (fr_family rec) v (mb_occurredAt m))"
    "buildWorkflowRecordSchema (publishedWorkflow m w v)"
    "b' = putWorkflow (publishedWorkflow m w v) (wf_agentId w)
            (putRecord (pw_agentId c)
               \<lparr>fr_family = publishedFamily (fr_family rec) v (mb_occurredAt m),
                fr_versions = fr_versions rec @ [v]\<rparr> b)"
    "s = WorkflowPublished (publishedFamily (fr_family rec) v (mb_occurredAt m))
           (publishedWorkflow m w v) v"
  using assms
  by (auto simp: publishBuildWorkflow_def Let_def split: sum.splits if_splits)

end
