(* ===== verification/Family_Invariant.thy ===== *)
theory Family_Invariant
  imports Workflow_Laws
begin

text \<open>
  The invariant of one owner's families, and the lemma that every handler's update keeps it: a
  family is stored under its own id and owner and satisfies its schema; its versions are
  numbered 1, 2, 3, ... in the order they were published; its active pointer and the base of its
  draft name published versions; no two families share a canonical name, a spec id or a draft id.
\<close>

section \<open>One record\<close>

definition reservedNames :: "host \<Rightarrow> FamilyRecord \<Rightarrow> string set" where
  "reservedNames h rec =
     (case fam_draft (fr_family rec) of
        None \<Rightarrow> {} | Some d \<Rightarrow> {canonicalizeAgentName h (fld_name (d_fields d))}) \<union>
     (\<lambda>v. canonicalizeAgentName h (v_name v)) ` set (fr_versions rec)"

definition recordSpecIds :: "FamilyRecord \<Rightarrow> string set" where
  "recordSpecIds rec = v_specId ` set (fr_versions rec)"

definition recordDraftIds :: "FamilyRecord \<Rightarrow> string set" where
  "recordDraftIds rec =
     (case fam_draft (fr_family rec) of None \<Rightarrow> {} | Some d \<Rightarrow> {d_draftId d})"

lemmas record_sets = reservedNames_def recordSpecIds_def recordDraftIds_def

lemma reservesName_iff: "reservesName h rec cn \<longleftrightarrow> cn \<in> reservedNames h rec"
  by (auto simp: reservesName_def reservedNames_def list_ex_iff split: option.splits)

definition versionsNumbered :: "PublishedAgentVersion list \<Rightarrow> bool" where
  "versionsNumbered vs \<longleftrightarrow> map v_version vs = map (\<lambda>i. int (Suc i)) [0..<length vs]"

definition activePointerValid :: "FamilyRecord \<Rightarrow> bool" where
  "activePointerValid rec \<longleftrightarrow>
     (case fam_activeSpecId (fr_family rec) of
        None \<Rightarrow> fr_versions rec = []
      | Some sid \<Rightarrow> \<exists>v \<in> set (fr_versions rec).
          v_specId v = sid \<and> fam_activeVersion (fr_family rec) = Some (v_version v))"

definition draftBaseValid :: "FamilyRecord \<Rightarrow> bool" where
  "draftBaseValid rec \<longleftrightarrow>
     (case fam_draft (fr_family rec) of None \<Rightarrow> True
      | Some d \<Rightarrow>
          (case d_basedOnSpecId d of None \<Rightarrow> True
           | Some sid \<Rightarrow> \<exists>v \<in> set (fr_versions rec).
               v_specId v = sid \<and> d_basedOnVersion d = Some (v_version v)))"

definition record_ok :: "host \<Rightarrow> OwnerScope \<Rightarrow> string \<Rightarrow> FamilyRecord \<Rightarrow> bool" where
  "record_ok h ow aid rec \<longleftrightarrow>
     fam_agentId (fr_family rec) = aid \<and> fam_owner (fr_family rec) = ow \<and>
     savedAgentFamilySchema h (fr_family rec) \<and>
     versionsNumbered (fr_versions rec) \<and>
     (\<forall>v \<in> set (fr_versions rec). v_agentId v = aid \<and> publishedAgentVersionSchema h v) \<and>
     distinct (map v_specId (fr_versions rec)) \<and>
     activePointerValid rec \<and> draftBaseValid rec"

definition compatible :: "host \<Rightarrow> FamilyRecord \<Rightarrow> FamilyRecord \<Rightarrow> bool" where
  "compatible h r1 r2 \<longleftrightarrow>
     reservedNames h r1 \<inter> reservedNames h r2 = {} \<and>
     recordSpecIds r1 \<inter> recordSpecIds r2 = {} \<and>
     recordDraftIds r1 \<inter> recordDraftIds r2 = {}"

lemma compatible_sym: "compatible h r1 r2 \<Longrightarrow> compatible h r2 r1"
  by (auto simp: compatible_def)

lemma compatible_mono:
  "compatible h r r2 \<Longrightarrow> reservedNames h r' \<subseteq> reservedNames h r \<Longrightarrow>
   recordSpecIds r' \<subseteq> recordSpecIds r \<Longrightarrow> recordDraftIds r' \<subseteq> recordDraftIds r \<Longrightarrow>
   compatible h r' r2"
  unfolding compatible_def by blast

subsection \<open>Numbering\<close>

lemma versionsNumbered_nth:
  "versionsNumbered vs \<longleftrightarrow> (\<forall>i < length vs. v_version (vs ! i) = int (Suc i))"
  unfolding versionsNumbered_def list_eq_iff_nth_eq by simp

lemma versionsNumbered_Nil [simp]: "versionsNumbered []"
  by (simp add: versionsNumbered_def)

lemma versionsNumbered_snoc [simp]:
  "versionsNumbered (vs @ [v]) \<longleftrightarrow> versionsNumbered vs \<and> v_version v = int (Suc (length vs))"
  by (auto simp: versionsNumbered_def)

lemma maximumVersion_snoc: "maximumVersion (vs @ [v]) = max (maximumVersion vs) (v_version v)"
  by (simp add: maximumVersion_def)

lemma maximumVersion_numbered: "versionsNumbered vs \<Longrightarrow> maximumVersion vs = int (length vs)"
proof (induction vs rule: rev_induct)
  case Nil
  show ?case by (simp add: maximumVersion_def)
next
  case (snoc v vs)
  then show ?case by (simp add: maximumVersion_snoc)
qed

lemma findVersion_numbered:
  assumes "versionsNumbered vs" and "v \<in> set vs"
  shows "findVersion vs (v_specId v) (v_version v) = Some v"
proof -
  have "findVersion vs (v_specId v) (v_version v) \<noteq> None"
    using assms(2) by (auto simp: findVersion_def find_None_iff)
  then obtain w where w: "findVersion vs (v_specId v) (v_version v) = Some w" by auto
  from findVersion_Some[OF w] have "w \<in> set vs" "v_version w = v_version v" by auto
  with assms w show ?thesis
    by (auto simp: versionsNumbered_nth in_set_conv_nth)
qed

section \<open>The families of a bucket\<close>

definition families_ok :: "host \<Rightarrow> OwnerScope \<Rightarrow> OwnerBucket \<Rightarrow> bool" where
  "families_ok h ow b \<longleftrightarrow>
     keys_distinct (families b) \<and>
     (\<forall>aid rec. map_of (families b) aid = Some rec \<longrightarrow>
        record_ok h ow aid rec \<and> recordDraftIds rec \<subseteq> allocatedDraftIds b) \<and>
     (\<forall>a1 a2 r1 r2. a1 \<noteq> a2 \<longrightarrow> map_of (families b) a1 = Some r1 \<longrightarrow>
        map_of (families b) a2 = Some r2 \<longrightarrow> compatible h r1 r2)"

lemma families_okD:
  assumes "families_ok h ow b"
  shows "keys_distinct (families b)"
    and "map_of (families b) aid = Some rec \<Longrightarrow> record_ok h ow aid rec"
    and "map_of (families b) aid = Some rec \<Longrightarrow> recordDraftIds rec \<subseteq> allocatedDraftIds b"
    and "a1 \<noteq> a2 \<Longrightarrow> map_of (families b) a1 = Some r1 \<Longrightarrow> map_of (families b) a2 = Some r2 \<Longrightarrow>
         compatible h r1 r2"
  using assms by (auto simp: families_ok_def)

lemma families_ok_empty [simp]: "families_ok h ow emptyBucket"
  by (simp add: families_ok_def emptyBucket_def)

text \<open>Writing one record.\<close>

lemma families_ok_put:
  assumes ok: "families_ok h ow b"
    and fam: "families b' = mapSet aid rec (families b)"
    and alloc: "allocatedDraftIds b \<subseteq> allocatedDraftIds b'"
    and rec: "record_ok h ow aid rec" "recordDraftIds rec \<subseteq> allocatedDraftIds b'"
    and other: "\<And>a r. a \<noteq> aid \<Longrightarrow> map_of (families b) a = Some r \<Longrightarrow> compatible h rec r"
  shows "families_ok h ow b'"
  unfolding families_ok_def fam
proof (intro conjI allI impI)
  show "keys_distinct (mapSet aid rec (families b))"
    by (rule keys_distinct_mapSet) (rule families_okD(1)[OF ok])
next
  fix a r assume "map_of (mapSet aid rec (families b)) a = Some r"
  then show "record_ok h ow a r" and "recordDraftIds r \<subseteq> allocatedDraftIds b'"
    using rec families_okD(2,3)[OF ok, of a r] alloc by (auto split: if_splits)
next
  fix a1 a2 r1 r2
  assume "a1 \<noteq> a2" "map_of (mapSet aid rec (families b)) a1 = Some r1"
    "map_of (mapSet aid rec (families b)) a2 = Some r2"
  then show "compatible h r1 r2"
    using alist.forall_pairs_put[of "families b" "compatible h" aid rec a1 a2 r1 r2]
      families_okD(4)[OF ok] compatible_sym other by blast
qed

text \<open>A record that reserves no more than the one it replaces.\<close>

lemma families_ok_replace:
  assumes ok: "families_ok h ow b" and old: "map_of (families b) aid = Some rec0"
    and fam: "families b' = mapSet aid rec (families b)"
    and alloc: "allocatedDraftIds b' = allocatedDraftIds b"
    and rec: "record_ok h ow aid rec"
    and sub: "reservedNames h rec \<subseteq> reservedNames h rec0" "recordSpecIds rec \<subseteq> recordSpecIds rec0"
      "recordDraftIds rec \<subseteq> recordDraftIds rec0"
  shows "families_ok h ow b'"
proof (rule families_ok_put[OF ok fam])
  show "recordDraftIds rec \<subseteq> allocatedDraftIds b'"
    using sub(3) families_okD(3)[OF ok old] alloc by blast
  fix a r assume "a \<noteq> aid" "map_of (families b) a = Some r"
  then have "compatible h rec0 r" by (intro families_okD(4)[OF ok _ old, of a]) auto
  then show "compatible h rec r" by (rule compatible_mono[OF _ sub])
qed (use alloc rec in auto)

section \<open>Names and spec ids that are free\<close>

lemma nameOwnerIn_None: "nameOwnerIn h recs cn = None \<longleftrightarrow> (\<forall>r \<in> set recs. cn \<notin> reservedNames h r)"
  by (induction recs) (auto simp: reservesName_iff)

lemma nameOwnerIn_Some:
  "nameOwnerIn h recs cn = Some a \<Longrightarrow>
     \<exists>r \<in> set recs. cn \<in> reservedNames h r \<and> fam_agentId (fr_family r) = a"
  by (induction recs) (auto simp: reservesName_iff split: if_splits)

lemma nameOwner_None:
  assumes "families_ok h ow b"
  shows "nameOwner h b cn = None \<longleftrightarrow>
    (\<forall>a r. map_of (families b) a = Some r \<longrightarrow> cn \<notin> reservedNames h r)"
  unfolding nameOwner_def nameOwnerIn_None using in_values_iff[OF families_okD(1)[OF assms]] by blast

lemma nameOwner_Some:
  assumes ok: "families_ok h ow b" and "nameOwner h b cn = Some a"
  obtains r where "map_of (families b) a = Some r" and "cn \<in> reservedNames h r"
proof -
  from nameOwnerIn_Some[OF assms(2)[unfolded nameOwner_def]] obtain r where
    r: "r \<in> set (values_of (families b))" "cn \<in> reservedNames h r" "fam_agentId (fr_family r) = a"
    by blast
  then obtain k where k: "map_of (families b) k = Some r"
    using in_values_iff[OF families_okD(1)[OF ok]] by blast
  then have "k = a" using families_okD(2)[OF ok k] r(3) by (simp add: record_ok_def)
  with k r(2) show thesis by (intro that) auto
qed

text \<open>The check of an edit: the name is free, or the family's own.\<close>

lemma name_free_elsewhere:
  assumes ok: "families_ok h ow b" and own: "map_of (families b) aid = Some rec"
    and free: "nameOwner h b cn \<in> {None, Some aid}"
    and other: "a \<noteq> aid" "map_of (families b) a = Some r"
  shows "cn \<notin> reservedNames h r"
proof
  assume cn: "cn \<in> reservedNames h r"
  then have "nameOwner h b cn \<noteq> None" using other(2) nameOwner_None[OF ok] by blast
  with free have "nameOwner h b cn = Some aid" by auto
  then obtain r' where r': "map_of (families b) aid = Some r'" "cn \<in> reservedNames h r'"
    by (rule nameOwner_Some[OF ok])
  from families_okD(4)[OF ok other(1) other(2) r'(1)] cn r'(2) show False
    by (auto simp: compatible_def)
qed

lemma specIdAllocated_iff:
  assumes "families_ok h ow b"
  shows "specIdAllocated b sid \<longleftrightarrow>
    (\<exists>a r. map_of (families b) a = Some r \<and> sid \<in> recordSpecIds r)"
proof -
  have "specIdAllocated b sid \<longleftrightarrow> (\<exists>r \<in> set (values_of (families b)). sid \<in> recordSpecIds r)"
    by (simp only: specIdAllocated_def list_ex_iff recordSpecIds_def) blast
  then show ?thesis using in_values_iff[OF families_okD(1)[OF assms]] by blast
qed

end
