(* ===== verification/Family_Preservation.thy ===== *)
theory Family_Preservation
  imports Family_Invariant
begin

text \<open>
  Every command keeps the invariant of the owner's families. The handlers fall into four kinds of
  update: a new family, a family that only moves its lifecycle or pointer, a family whose draft
  is edited, and a family that gains a version.
\<close>

lemma map_of_families_putRecord [simp]:
  "families (putRecord aid rec b) = mapSet aid rec (families b)"
  "allocatedDraftIds (putRecord aid rec b) = allocatedDraftIds b"
  "workflows (putRecord aid rec b) = workflows b"
  "leases (putRecord aid rec b) = leases b"
  "grants (putRecord aid rec b) = grants b"
  "operations (putRecord aid rec b) = operations b"
  "closedParentTurns (putRecord aid rec b) = closedParentTurns b"
  "testInputGrants (putRecord aid rec b) = testInputGrants b"
  "testExecutions (putRecord aid rec b) = testExecutions b"
  by (simp_all add: putRecord_def)

lemma map_of_families_putWorkflow [simp]:
  "families (putWorkflow w aid b) = families b"
  "allocatedDraftIds (putWorkflow w aid b) = allocatedDraftIds b"
  "workflows (putWorkflow w aid b) = mapSet aid w (workflows b)"
  "leases (putWorkflow w aid b) = leases b"
  "grants (putWorkflow w aid b) = grants b"
  "operations (putWorkflow w aid b) = operations b"
  "closedParentTurns (putWorkflow w aid b) = closedParentTurns b"
  "testInputGrants (putWorkflow w aid b) = testInputGrants b"
  "testExecutions (putWorkflow w aid b) = testExecutions b"
  by (simp_all add: putWorkflow_def)

lemma families_ok_cong:
  "families b' = families b \<Longrightarrow> allocatedDraftIds b' = allocatedDraftIds b \<Longrightarrow>
   families_ok h ow b' = families_ok h ow b"
  by (simp add: families_ok_def)

section \<open>A new family\<close>

lemma createFamily_families:
  assumes ok: "families_ok h ow b" and ow: "mb_owner m = ow"
    and op: "createFamily h b m c = Inr (b', s)"
  shows "families_ok h ow b'"
proof -
  note c = createFamily_Inr[OF op]
  let ?rec = "\<lparr>fr_family = createdFamily m c, fr_versions = []\<rparr>"
  show ?thesis
  proof (rule families_ok_put[OF ok, of b' "cf_agentId c" ?rec])
    show "record_ok h ow (cf_agentId c) ?rec"
      using c(7) ow
      by (simp add: record_ok_def createdFamily_def activePointerValid_def draftBaseValid_def)
    fix a r assume a: "a \<noteq> cf_agentId c" "map_of (families b) a = Some r"
    have "cf_canonicalName c \<notin> reservedNames h r"
      using nameOwner_None[OF ok] c(6) a(2) by blast
    moreover have "cf_draftId c \<notin> recordDraftIds r"
      using families_okD(3)[OF ok a(2)] c(4) by blast
    ultimately show "compatible h ?rec r"
      using c(2) by (auto simp: compatible_def record_sets createdFamily_def)
  qed (auto simp: c(8) recordDraftIds_def createdFamily_def)
qed

lemma beginRevision_families:
  assumes ok: "families_ok h ow b" and op: "beginRevision h b m c = Inr (b', s)"
  shows "families_ok h ow b'"
  using op
proof (rule beginRevision_Inr)
  fix rec base
  assume r: "map_of (families b) (br_agentId c) = Some rec"
    and draft: "fam_draft (fr_family rec) = None"
    and base: "findVersion (fr_versions rec) (br_basedOnSpecId c) (br_basedOnVersion c) = Some base"
    and flds: "br_fields c = editableFieldsFromVersion base"
    and fresh: "br_draftId c \<notin> allocatedDraftIds b"
    and schema: "savedAgentFamilySchema h (revisedFamily m c (fr_family rec))"
    and b': "b' = (putRecord (br_agentId c) (rec\<lparr>fr_family := revisedFamily m c (fr_family rec)\<rparr>) b)
               \<lparr>allocatedDraftIds := insert (br_draftId c) (allocatedDraftIds b)\<rparr>"
  let ?rec = "rec\<lparr>fr_family := revisedFamily m c (fr_family rec)\<rparr>"
  note base = findVersion_Some[OF base]
  show ?thesis
  proof (rule families_ok_put[OF ok, of b' "br_agentId c" ?rec])
    show "record_ok h ow (br_agentId c) ?rec"
      using families_okD(2)[OF ok r] schema base
      by (auto simp: record_ok_def revisedFamily_def activePointerValid_def draftBaseValid_def
          split: option.splits)
    fix a r2 assume a: "a \<noteq> br_agentId c" "map_of (families b) a = Some r2"
    have "br_draftId c \<notin> recordDraftIds r2"
      using families_okD(3)[OF ok a(2)] fresh by blast
    moreover have "compatible h rec r2"
      using families_okD(4)[OF ok _ r a(2)] a(1) by blast
    moreover have "canonicalizeAgentName h (fld_name (br_fields c)) \<in> reservedNames h rec"
      using base flds by (auto simp: reservedNames_def editableFieldsFromVersion_def)
    ultimately show "compatible h ?rec r2"
      by (auto simp: compatible_def record_sets revisedFamily_def draft)
  qed (auto simp: b' recordDraftIds_def revisedFamily_def)
qed

section \<open>Draft edits\<close>

text \<open>A draft with new fields under a canonical name that is free or the family's own.\<close>

lemma edited_record_families:
  assumes ok: "families_ok h ow b" and r: "map_of (families b) aid = Some rec"
    and draft: "fam_draft (fr_family rec) = Some d"
    and free: "nameOwner h b cn \<in> {None, Some (fam_agentId (fr_family rec))}"
    and f: "fam_draft f = Some d'" "d_draftId d' = d_draftId d"
      "canonicalizeAgentName h (fld_name (d_fields d')) = cn"
      "d_basedOnSpecId d' = d_basedOnSpecId d"
      "d_basedOnSpecId d \<noteq> None \<Longrightarrow> d_basedOnVersion d' = d_basedOnVersion d"
      "fam_agentId f = fam_agentId (fr_family rec)" "fam_owner f = fam_owner (fr_family rec)"
      "fam_activeSpecId f = fam_activeSpecId (fr_family rec)"
      "fam_activeVersion f = fam_activeVersion (fr_family rec)"
      "savedAgentFamilySchema h f"
    and b': "families b' = mapSet aid (rec\<lparr>fr_family := f\<rparr>) (families b)"
      "allocatedDraftIds b' = allocatedDraftIds b"
  shows "families_ok h ow b'"
proof (rule families_ok_put[OF ok b'(1)])
  have rok: "record_ok h ow aid rec" by (rule families_okD(2)[OF ok r])
  then show "record_ok h ow aid (rec\<lparr>fr_family := f\<rparr>)"
    using f draft
    by (auto simp: record_ok_def activePointerValid_def draftBaseValid_def split: option.splits)
  show "recordDraftIds (rec\<lparr>fr_family := f\<rparr>) \<subseteq> allocatedDraftIds b'"
    using families_okD(3)[OF ok r] f draft b'(2) by (simp add: recordDraftIds_def)
  fix a r2 assume a: "a \<noteq> aid" "map_of (families b) a = Some r2"
  have "fam_agentId (fr_family rec) = aid" using rok by (simp add: record_ok_def)
  then have "cn \<notin> reservedNames h r2"
    using name_free_elsewhere[OF ok r _ a, of cn] free by simp
  moreover have "compatible h rec r2"
    using families_okD(4)[OF ok _ r a(2)] a(1) by blast
  ultimately show "compatible h (rec\<lparr>fr_family := f\<rparr>) r2"
    using f draft by (auto simp: compatible_def record_sets)
qed (use b' in auto)

lemma patchDraft_families:
  assumes ok: "families_ok h ow b" and op: "patchDraft h b m c = Inr (b', s)"
  shows "families_ok h ow b'"
  using op
proof (rule patchDraft_Inr)
  fix rec d
  assume r: "map_of (families b) (pd_agentId c) = Some rec"
    and draft: "fam_draft (fr_family rec) = Some d"
    and name: "canonicalizeAgentName h (fld_name (pd_fields c)) = pd_canonicalName c"
    and free: "nameOwner h b (pd_canonicalName c) \<in> {None, Some (fam_agentId (fr_family rec))}"
    and schema: "savedAgentFamilySchema h (patchedFamily m c (fr_family rec) d)"
    and b': "b' = (let b1 = putRecord (pd_agentId c)
                      (rec\<lparr>fr_family := patchedFamily m c (fr_family rec) d\<rparr>) b
           in case affectedWorkflow b (pd_agentId c) d of
                None \<Rightarrow> b1
              | Some w \<Rightarrow> putWorkflow (invalidatedWorkflow m c d w) (pd_agentId c) b1)"
  show ?thesis
    by (rule edited_record_families[OF ok r draft free _ _ _ _ _ _ _ _ _ schema,
          where d' = "the (fam_draft (patchedFamily m c (fr_family rec) d))"])
      (auto simp: patchedFamily_def name b' Let_def split: option.splits)
qed

lemma submitBuildRole_families:
  assumes ok: "families_ok h ow b" and op: "submitBuildRole h b m c = Inr (b', s)"
  shows "families_ok h ow b'"
  using op
proof (rule submitBuildRole_Inr)
  fix w rec d
  assume r: "map_of (families b) (wf_agentId w) = Some rec"
    and draft: "fam_draft (fr_family rec) = Some d"
    and err: "submissionError h b m c w (fr_family rec) d = None"
    and b': "b' = putWorkflow (workflowAfterSubmission m c w d) (wf_agentId w)
            (putRecord (wf_agentId w)
               (rec\<lparr>fr_family := familyAfterSubmission m c (fr_family rec) d\<rparr>) b)"
  note g = submissionError_None[OF err]
  show ?thesis
  proof (cases "submissionChanged c d")
    case True
    then show ?thesis
      by (intro edited_record_families[OF ok r draft g(12) _ _ _ _ _ _ _ _ _ g(16),
            where d' = "the (fam_draft (submittedFamily m c (fr_family rec) d))"])
        (auto simp: familyAfterSubmission_def submittedFamily_def g(9) b')
  next
    case False
    then have "families_ok h ow (putRecord (wf_agentId w) rec b)"
      by (intro families_ok_replace[OF ok r _ _ families_okD(2)[OF ok r]]) simp_all
    then show ?thesis using False
      by (subst families_ok_cong[of _ "putRecord (wf_agentId w) rec b"])
        (simp_all add: b' familyAfterSubmission_def)
  qed
qed

section \<open>Lifecycle and pointer\<close>

lemma moved_record_families:
  assumes ok: "families_ok h ow b" and r: "map_of (families b) aid = Some rec"
    and f: "fam_draft f = fam_draft (fr_family rec)"
      "fam_agentId f = fam_agentId (fr_family rec)" "fam_owner f = fam_owner (fr_family rec)"
      "savedAgentFamilySchema h f"
    and active: "activePointerValid (rec\<lparr>fr_family := f\<rparr>)"
  shows "families_ok h ow (putRecord aid (rec\<lparr>fr_family := f\<rparr>) b)"
proof (rule families_ok_replace[OF ok r])
  show "record_ok h ow aid (rec\<lparr>fr_family := f\<rparr>)"
    using families_okD(2)[OF ok r] f active
    by (auto simp: record_ok_def draftBaseValid_def split: option.splits)
qed (auto simp: record_sets f)

lemma activePointerValid_kept:
  "record_ok h ow aid rec \<Longrightarrow> fam_activeSpecId f = fam_activeSpecId (fr_family rec) \<Longrightarrow>
   fam_activeVersion f = fam_activeVersion (fr_family rec) \<Longrightarrow>
   activePointerValid (rec\<lparr>fr_family := f\<rparr>)"
  by (auto simp: record_ok_def activePointerValid_def split: option.splits)

lemma activateVersion_families:
  assumes ok: "families_ok h ow b" and op: "activateVersion h b m c = Inr (b', s)"
  shows "families_ok h ow b'"
  using op
proof (rule activateVersion_Inr)
  fix rec v
  assume r: "map_of (families b) (av_agentId c) = Some rec"
    and v: "findVersion (fr_versions rec) (av_specId c) (av_version c) = Some v"
    and schema: "savedAgentFamilySchema h (activatedFamily m (fr_family rec) v)"
    and b': "b' = putRecord (av_agentId c)
                    (rec\<lparr>fr_family := activatedFamily m (fr_family rec) v\<rparr>) b"
  show ?thesis
    unfolding b' using findVersion_Some[OF v] schema
    by (intro moved_record_families[OF ok r]) (auto simp: activatedFamily_def activePointerValid_def)
qed

lemma lifecycle_families:
  assumes ok: "families_ok h ow b"
  shows "archiveFamily h b m c = Inr (b', s) \<Longrightarrow> families_ok h ow b'"
    and "restoreFamily h b m c = Inr (b', s) \<Longrightarrow> families_ok h ow b'"
    and "deleteFamily h b m c = Inr (b', s) \<Longrightarrow> families_ok h ow b'"
proof -
  note keep = families_okD(2)[OF ok, THEN activePointerValid_kept]
  show "families_ok h ow b'" if "archiveFamily h b m c = Inr (b', s)"
    using that by (rule archiveFamily_Inr)
      (auto intro!: moved_record_families[OF ok] keep simp: archivedFamily_def)
  show "families_ok h ow b'" if "restoreFamily h b m c = Inr (b', s)"
    using that by (rule restoreFamily_Inr)
      (auto intro!: moved_record_families[OF ok] keep simp: restoredFamily_def)
  show "families_ok h ow b'" if "deleteFamily h b m c = Inr (b', s)"
    using that by (rule deleteFamily_Inr)
      (auto intro!: moved_record_families[OF ok] keep simp: deletedFamily_def)
qed

section \<open>Publication\<close>

lemma published_record_families:
  assumes ok: "families_ok h ow b" and r: "map_of (families b) aid = Some rec"
    and draft: "fam_draft (fr_family rec) = Some d"
    and free: "\<not> specIdAllocated b sid"
    and v: "v = versionFromDraft (fr_family rec) d sid (maximumVersion (fr_versions rec) + 1) t by"
      "publishedAgentVersionSchema h v"
    and schema: "savedAgentFamilySchema h (publishedFamily (fr_family rec) v t)"
    and b': "families b' = mapSet aid \<lparr>fr_family = publishedFamily (fr_family rec) v t,
               fr_versions = fr_versions rec @ [v]\<rparr> (families b)"
      "allocatedDraftIds b' = allocatedDraftIds b"
  shows "families_ok h ow b'"
proof (rule families_ok_put[OF ok b'(1)])
  let ?rec = "\<lparr>fr_family = publishedFamily (fr_family rec) v t, fr_versions = fr_versions rec @ [v]\<rparr>"
  have rok: "record_ok h ow aid rec" by (rule families_okD(2)[OF ok r])
  have vf: "v_specId v = sid" "v_name v = fld_name (d_fields d)"
    "v_agentId v = fam_agentId (fr_family rec)" "v_version v = maximumVersion (fr_versions rec) + 1"
    by (simp_all add: v(1) versionFromDraft_def)
  have "sid \<notin> recordSpecIds rec"
    using free r specIdAllocated_iff[OF ok] by blast
  then show "record_ok h ow aid ?rec"
    using rok vf v(2) schema
    by (auto simp: record_ok_def publishedFamily_def activePointerValid_def draftBaseValid_def
        recordSpecIds_def maximumVersion_numbered)
  fix a r2 assume a: "a \<noteq> aid" "map_of (families b) a = Some r2"
  have "sid \<notin> recordSpecIds r2" using free a(2) specIdAllocated_iff[OF ok] by blast
  moreover have "compatible h rec r2"
    using families_okD(4)[OF ok _ r a(2)] a(1) by blast
  ultimately show "compatible h ?rec r2"
    using vf draft by (auto simp: compatible_def record_sets publishedFamily_def)
qed (auto simp: recordDraftIds_def publishedFamily_def b')

lemma publishDraft_families:
  assumes ok: "families_ok h ow b" and op: "publishDraft h b m c = Inr (b', s)"
  shows "families_ok h ow b'"
  using op
  by (rule publishDraft_Inr)
    (rule published_record_families[OF ok], assumption+, auto)

lemma publishBuildWorkflow_families:
  assumes ok: "families_ok h ow b" and op: "publishBuildWorkflow h b m c = Inr (b', s)"
  shows "families_ok h ow b'"
  using op
proof (rule publishBuildWorkflow_Inr)
  fix w rec d v
  assume ctx: "workflowDraftContext b (pw_workflowId c) (pw_agentId c)
      (pw_expectedWorkflowRevision c) (pw_expectedRevision c) (pw_expectedDraftRevision c)
      = Inr (w, rec, d)"
    and p: "\<not> specIdAllocated b (pw_specId c)"
      "v = versionFromDraft (fr_family rec) d (pw_specId c) (maximumVersion (fr_versions rec) + 1)
           (mb_occurredAt m) (pw_publishedBy c)"
      "publishedAgentVersionSchema h v"
      "savedAgentFamilySchema h (publishedFamily (fr_family rec) v (mb_occurredAt m))"
    and b': "b' = putWorkflow (publishedWorkflow m w v) (wf_agentId w)
            (putRecord (pw_agentId c)
               \<lparr>fr_family = publishedFamily (fr_family rec) v (mb_occurredAt m),
                fr_versions = fr_versions rec @ [v]\<rparr> b)"
  note ctx = workflowDraftContext_Inr[OF ctx]
  show ?thesis
    by (rule published_record_families[OF ok ctx(4) ctx(6) p]) (simp_all add: b')
qed

section \<open>All commands\<close>

lemma allocateBuildWorkflow_families:
  assumes ok: "families_ok h ow b" and ow: "mb_owner m = ow"
    and op: "allocateBuildWorkflow h b m c = Inr (b', s)"
  shows "families_ok h ow b'"
  using op
proof (rule allocateBuildWorkflow_Inr)
  fix b1
  assume c: "createFamily h b m (allocationAsCreation c) =
      Inr (b1, FamilyCreated (createdFamily m (allocationAsCreation c)))"
    and b': "b' = putWorkflow (allocatedWorkflow m c) (al_agentId c) b1"
  have "families_ok h ow b1" by (rule createFamily_families[OF ok ow c])
  then show ?thesis by (simp add: b' families_ok_def)
qed

lemma recordBuildTest_families:
  assumes "families_ok h ow b" and "recordBuildTest h b m c = Inr (b', s)"
  shows "families_ok h ow b'"
  using assms(2) by (rule recordBuildTest_Inr) (use assms(1) in \<open>simp add: families_ok_def\<close>)

lemma reopenBuildWorkflow_families:
  assumes "families_ok h ow b" and "reopenBuildWorkflow h b m c = Inr (b', s)"
  shows "families_ok h ow b'"
  using assms(2) by (rule reopenBuildWorkflow_Inr) (use assms(1) in \<open>simp add: families_ok_def\<close>)

lemmas command_families =
  createFamily_families beginRevision_families patchDraft_families publishDraft_families
  activateVersion_families lifecycle_families allocateBuildWorkflow_families
  submitBuildRole_families recordBuildTest_families reopenBuildWorkflow_families
  publishBuildWorkflow_families

theorem apply_command_families:
  assumes "families_ok h ow b" and "mb_owner m = ow" and "apply_command h b m c = Inr (b', s)"
  shows "families_ok h ow b'"
  using assms by (cases c) (simp_all, (blast intro: command_families)+)

end
