(* ===== verification/Workflow_Invariant.thy ===== *)
theory Workflow_Invariant
  imports Family_Preservation
begin

text \<open>
  The build process as an abstract machine, and the invariant that ties every stored workflow to
  it. \<open>phase_edge\<close> is the process: which role moves a workflow from which phase to which, with
  which result. \<open>build_log\<close> holds of a transition log that is a walk of that machine from its
  start. The invariant says that the stored log is such a walk ending in the stored phase, that
  the revision counts its steps, and what test evidence and approval mean.
\<close>

section \<open>The abstract process\<close>

inductive phase_edge ::
  "BuildWorkflowRole \<Rightarrow> BuildWorkflowResult \<Rightarrow> BuildWorkflowPhase \<Rightarrow> BuildWorkflowPhase \<Rightarrow> bool"
where
  pm_done: "p \<in> {PmWork, PmInput} \<Longrightarrow> phase_edge RolePm ResCompletedHandoff p ImplementationWork"
| pm_asks: "p \<in> {PmWork, PmInput} \<Longrightarrow> phase_edge RolePm ResNeedsUserInput p PmInput"
| pm_fails: "p \<in> {PmWork, PmInput} \<Longrightarrow> phase_edge RolePm ResFailed p TerminalFailure"
| implementor_done: "p \<in> {ImplementationWork, ImplementationInput} \<Longrightarrow>
    phase_edge RoleImplementor ResCompletedHandoff p QaReview"
| implementor_asks: "p \<in> {ImplementationWork, ImplementationInput} \<Longrightarrow>
    phase_edge RoleImplementor ResNeedsUserInput p ImplementationInput"
| implementor_fails: "p \<in> {ImplementationWork, ImplementationInput} \<Longrightarrow>
    phase_edge RoleImplementor ResFailed p TerminalFailure"
| qa_tests: "p \<in> {QaReview, QaInput} \<Longrightarrow> phase_edge RoleQa ResNeedsTest p TestPending"
| qa_returns: "p \<in> {QaReview, QaInput} \<Longrightarrow>
    phase_edge RoleQa ResChangesRequested p ImplementationWork"
| qa_approves: "p \<in> {QaReview, QaInput} \<Longrightarrow> phase_edge RoleQa ResApproved p PublishReady"
| qa_asks: "p \<in> {QaReview, QaInput} \<Longrightarrow> phase_edge RoleQa ResNeedsUserInput p QaInput"
| qa_fails: "p \<in> {QaReview, QaInput} \<Longrightarrow> phase_edge RoleQa ResFailed p TerminalFailure"
| tested: "r \<in> {ResTestPassed, ResTestInputRequired, ResTestFailed} \<Longrightarrow>
    phase_edge RoleTestRunner r TestPending QaReview"
| edited: "p \<noteq> Published \<Longrightarrow> p \<noteq> PublishReady \<Longrightarrow>
    q \<in> {PmWork, ImplementationWork, QaReview} \<Longrightarrow> phase_edge RoleRoot ResDraftEdited p q"
| invalidated: "q \<in> {PmWork, ImplementationWork, QaReview} \<Longrightarrow>
    phase_edge RoleRoot ResApprovalInvalidated PublishReady q"
| published: "phase_edge RoleRoot ResPublished PublishReady Published"

code_pred phase_edge .

inductive_simps phase_edge_from_Published: "phase_edge r res Published q"
inductive_cases to_Published: "phase_edge r res p Published"
inductive_cases to_PublishReady: "phase_edge r res p PublishReady"
inductive_cases to_TestPending: "phase_edge r res p TestPending"

inductive build_log :: "BuildWorkflowTransition list \<Rightarrow> BuildWorkflowPhase \<Rightarrow> bool" where
  allocated: "tr_role t = RoleSystem \<Longrightarrow> tr_result t = ResAllocated \<Longrightarrow> tr_fromPhase t = PmWork \<Longrightarrow>
    tr_toPhase t = PmWork \<Longrightarrow> build_log [t] PmWork"
| logged: "build_log ts p \<Longrightarrow> tr_fromPhase t = p \<Longrightarrow>
    phase_edge (tr_role t) (tr_result t) p (tr_toPhase t) \<Longrightarrow>
    build_log (ts @ [t]) (tr_toPhase t)"

text \<open>A log ends in its phase; a published one ends with an approval by QA and the publication.\<close>

lemma build_log_last: "build_log ts p \<Longrightarrow> ts \<noteq> [] \<and> tr_toPhase (last ts) = p"
  by (induction rule: build_log.induct) auto

lemma build_log_PublishReady:
  assumes "build_log ts PublishReady"
  shows "tr_role (last ts) = RoleQa \<and> tr_result (last ts) = ResApproved"
  using assms by (cases rule: build_log.cases) (auto elim: to_PublishReady)

lemma build_log_Published:
  assumes "build_log ts Published"
  obtains ts' a p where "ts = ts' @ [a, p]" and "tr_role a = RoleQa" and "tr_result a = ResApproved"
    and "tr_role p = RoleRoot" and "tr_result p = ResPublished"
proof -
  from assms obtain ts1 q t where t: "ts = ts1 @ [t]" "build_log ts1 q"
      "phase_edge (tr_role t) (tr_result t) q Published"
    by (cases rule: build_log.cases) auto
  from t(3) have q: "q = PublishReady" "tr_role t = RoleRoot" "tr_result t = ResPublished"
    by (auto elim: to_Published)
  from t(2) q have "ts1 \<noteq> []" using build_log_last by blast
  then have "ts1 = butlast ts1 @ [last ts1]" by simp
  with t(1) have "ts = butlast ts1 @ [last ts1, t]" by simp
  with build_log_PublishReady t(2) q that show thesis by blast
qed

section \<open>One workflow\<close>

definition passedEvidence :: "BuildTestEvidence \<Rightarrow> bool" where
  "passedEvidence e \<longleftrightarrow>
     te_status e = TestPassed \<and> te_failedCapabilityIds e = [] \<and> te_errorCodes e = [] \<and>
     set (te_requiredCapabilityIds e) \<subseteq> set (te_usedCapabilityIds e)"

definition evidence_ok :: "BuildWorkflowRecord \<Rightarrow> bool" where
  "evidence_ok w \<longleftrightarrow>
     (case wf_testEvidence w of None \<Rightarrow> True
      | Some e \<Rightarrow> te_status e = TestPassed \<longrightarrow> passedEvidence e) \<and>
     (wf_qaApproval w \<noteq> None \<longleftrightarrow> wf_phase w \<in> {PublishReady, Published}) \<and>
     (wf_qaApproval w \<noteq> None \<longrightarrow>
        (\<exists>e. wf_testEvidence w = Some e \<and> te_status e = TestPassed))"

definition workflow_ok :: "OwnerScope \<Rightarrow> string \<Rightarrow> BuildWorkflowRecord \<Rightarrow> bool" where
  "workflow_ok ow aid w \<longleftrightarrow>
     wf_agentId w = aid \<and> wf_owner w = ow \<and> buildWorkflowRecordSchema w \<and>
     build_log (wf_transitions w) (wf_phase w) \<and>
     wf_revision w = int (length (wf_transitions w)) \<and> evidence_ok w"

text \<open>
  A workflow and the family it builds. Until it is published it describes the family's draft at
  its present revision, and the family has no version; afterwards the family has exactly the
  version that the workflow published.
\<close>

definition drafting :: "FamilyRecord \<Rightarrow> BuildWorkflowRecord \<Rightarrow> bool" where
  "drafting rec w \<longleftrightarrow>
     wf_phase w \<noteq> Published \<and> fr_versions rec = [] \<and>
     (\<exists>d. fam_draft (fr_family rec) = Some d \<and> d_draftId d = wf_draftId w \<and>
        d_draftRevision d = wf_draftRevision w \<and>
        (\<forall>e. wf_testEvidence w = Some e \<longrightarrow>
           te_requiredCapabilityIds e = requiredCapabilities (d_fields d)))"

definition versionRequired :: "PublishedAgentVersion \<Rightarrow> string list" where
  "versionRequired v =
     map req_capabilityId (filter (\<lambda>r. req_level r = Required) (v_toolRequirements v))"

definition delivered :: "FamilyRecord \<Rightarrow> BuildWorkflowRecord \<Rightarrow> bool" where
  "delivered rec w \<longleftrightarrow>
     wf_phase w = Published \<and> wf_draftId w \<notin> recordDraftIds rec \<and>
     (\<exists>v p e. fr_versions rec = [v] \<and> wf_published w = Some p \<and> pb_specId p = v_specId v \<and>
        pb_specVersion p = v_version v \<and> wf_testEvidence w = Some e \<and>
        te_requiredCapabilityIds e = versionRequired v)"

definition linked :: "OwnerBucket \<Rightarrow> string \<Rightarrow> BuildWorkflowRecord \<Rightarrow> bool" where
  "linked b aid w \<longleftrightarrow>
     wf_draftId w \<in> allocatedDraftIds b \<and>
     (case map_of (families b) aid of None \<Rightarrow> False
      | Some rec \<Rightarrow> drafting rec w \<or> delivered rec w)"

definition workflows_ok :: "OwnerScope \<Rightarrow> OwnerBucket \<Rightarrow> bool" where
  "workflows_ok ow b \<longleftrightarrow>
     keys_distinct (workflows b) \<and>
     (\<forall>aid w. map_of (workflows b) aid = Some w \<longrightarrow> workflow_ok ow aid w \<and> linked b aid w) \<and>
     (\<forall>a1 a2 w1 w2. a1 \<noteq> a2 \<longrightarrow> map_of (workflows b) a1 = Some w1 \<longrightarrow>
        map_of (workflows b) a2 = Some w2 \<longrightarrow> wf_workflowId w1 \<noteq> wf_workflowId w2)"

lemma workflows_okD:
  assumes "workflows_ok ow b"
  shows "keys_distinct (workflows b)"
    and "map_of (workflows b) aid = Some w \<Longrightarrow> workflow_ok ow aid w"
    and "map_of (workflows b) aid = Some w \<Longrightarrow> linked b aid w"
    and "a1 \<noteq> a2 \<Longrightarrow> map_of (workflows b) a1 = Some w1 \<Longrightarrow>
         map_of (workflows b) a2 = Some w2 \<Longrightarrow> wf_workflowId w1 \<noteq> wf_workflowId w2"
  using assms by (auto simp: workflows_ok_def)

lemma workflows_ok_empty [simp]: "workflows_ok ow emptyBucket"
  by (simp add: workflows_ok_def emptyBucket_def)

lemma workflowById_map_of:
  assumes ok: "workflows_ok ow b" and "workflowById b wid = Some w"
  shows "map_of (workflows b) (wf_agentId w) = Some w"
proof -
  obtain a where a: "map_of (workflows b) a = Some w"
    using workflowById_Some(2)[OF assms(2)] in_values_iff[OF workflows_okD(1)[OF ok]] by blast
  with workflows_okD(2)[OF ok a] show ?thesis by (simp add: workflow_ok_def)
qed

lemma workflow_linked:
  assumes "workflows_ok ow b" and "map_of (workflows b) aid = Some w"
    and "map_of (families b) aid = Some rec"
  shows "drafting rec w \<or> delivered rec w" and "wf_draftId w \<in> allocatedDraftIds b"
  using workflows_okD(3)[OF assms(1,2)] assms(3) by (simp_all add: linked_def)

lemma workflow_family:
  assumes "workflows_ok ow b" and "map_of (workflows b) aid = Some w"
  obtains rec where "map_of (families b) aid = Some rec"
  using workflows_okD(3)[OF assms] by (auto simp: linked_def split: option.splits)

text \<open>Writing one workflow and the family it belongs to.\<close>

lemma workflows_ok_put:
  assumes ok: "workflows_ok ow b"
    and fam: "\<And>a. a \<noteq> aid \<Longrightarrow> map_of (families b') a = map_of (families b) a"
    and wfs: "workflows b' = mapSet aid w (workflows b)"
    and alloc: "allocatedDraftIds b \<subseteq> allocatedDraftIds b'"
    and w: "workflow_ok ow aid w" "linked b' aid w"
    and id: "\<And>a w2. a \<noteq> aid \<Longrightarrow> map_of (workflows b) a = Some w2 \<Longrightarrow>
               wf_workflowId w \<noteq> wf_workflowId w2"
  shows "workflows_ok ow b'"
  unfolding workflows_ok_def wfs
proof (intro conjI allI impI)
  show "keys_distinct (mapSet aid w (workflows b))"
    by (rule keys_distinct_mapSet) (rule workflows_okD(1)[OF ok])
next
  fix a w2 assume a: "map_of (mapSet aid w (workflows b)) a = Some w2"
  show "workflow_ok ow a w2"
    using a w(1) workflows_okD(2)[OF ok] by (auto split: if_splits)
  show "linked b' a w2"
  proof (cases "a = aid")
    case True
    with a w(2) show ?thesis by simp
  next
    case False
    with a have "linked b a w2" using workflows_okD(3)[OF ok] by simp
    with False fam[of a] alloc show ?thesis by (auto simp: linked_def)
  qed
next
  fix a1 a2 w1 w2
  assume "a1 \<noteq> a2" "map_of (mapSet aid w (workflows b)) a1 = Some w1"
    "map_of (mapSet aid w (workflows b)) a2 = Some w2"
  then show "wf_workflowId w1 \<noteq> wf_workflowId w2"
    using workflows_okD(4)[OF ok, of a1 a2 w1 w2] id[of a1 w1] id[of a2 w2]
    by (auto split: if_splits)
qed

text \<open>Writing a family only: its workflow, if any, must still be linked to it.\<close>

lemma workflows_ok_family:
  assumes ok: "workflows_ok ow b"
    and fam: "\<And>a. a \<noteq> aid \<Longrightarrow> map_of (families b') a = map_of (families b) a"
    and wfs: "workflows b' = workflows b"
    and alloc: "allocatedDraftIds b \<subseteq> allocatedDraftIds b'"
    and w: "\<And>w. map_of (workflows b) aid = Some w \<Longrightarrow> linked b aid w \<Longrightarrow> linked b' aid w"
  shows "workflows_ok ow b'"
  unfolding workflows_ok_def wfs
proof (intro conjI allI impI)
  fix a w2 assume a: "map_of (workflows b) a = Some w2"
  show "linked b' a w2"
  proof (cases "a = aid")
    case True
    with a w workflows_okD(3)[OF ok a] show ?thesis by simp
  next
    case False
    with fam[of a] alloc workflows_okD(3)[OF ok a] show ?thesis by (auto simp: linked_def)
  qed
qed (use workflows_okD[OF ok] in auto)

lemma workflows_ok_cong:
  "families b' = families b \<Longrightarrow> allocatedDraftIds b' = allocatedDraftIds b \<Longrightarrow>
   workflows b' = workflows b \<Longrightarrow> workflows_ok ow b' = workflows_ok ow b"
  by (simp add: workflows_ok_def linked_def)

end
