(* ===== verification/Workflow_Preservation.thy ===== *)
theory Workflow_Preservation
  imports Workflow_Invariant
begin

text \<open>
  Every command keeps the invariant of the owner's workflows: each handler moves a workflow along
  an edge of the abstract process, or leaves it where it is.
\<close>

lemma build_log_workflowTransition:
  "build_log (wf_transitions w) (wf_phase w) \<Longrightarrow> phase_edge role result (wf_phase w) q \<Longrightarrow>
   build_log (wf_transitions w @ [workflowTransition w dr role result q opid t]) q"
  using build_log.logged[of "wf_transitions w" "wf_phase w" "workflowTransition w dr role result q opid t"]
  by (simp add: workflowTransition_def)

lemma workflow_okD:
  assumes "workflow_ok ow aid w"
  shows "wf_agentId w = aid" "wf_owner w = ow" "buildWorkflowRecordSchema w"
    "build_log (wf_transitions w) (wf_phase w)"
    "wf_revision w = int (length (wf_transitions w))" "evidence_ok w"
  using assms by (simp_all add: workflow_ok_def)

text \<open>A workflow stepped once.\<close>

lemma workflow_ok_step:
  assumes ok: "workflow_ok ow aid w"
    and edge: "phase_edge role result (wf_phase w) (wf_phase w')"
    and w': "wf_agentId w' = wf_agentId w" "wf_owner w' = wf_owner w"
      "wf_transitions w' =
         wf_transitions w @ [workflowTransition w dr role result (wf_phase w') opid t]"
      "wf_revision w' = wf_revision w + 1"
    and schema: "buildWorkflowRecordSchema w'" and ev: "evidence_ok w'"
  shows "workflow_ok ow aid w'"
  using workflow_okD[OF ok] w' schema ev build_log_workflowTransition[OF workflow_okD(4)[OF ok] edge]
  by (simp add: workflow_ok_def)

lemma workflow_ids_differ:
  "workflows_ok ow b \<Longrightarrow> map_of (workflows b) aid = Some w \<Longrightarrow> a \<noteq> aid \<Longrightarrow>
   map_of (workflows b) a = Some w2 \<Longrightarrow> wf_workflowId w \<noteq> wf_workflowId w2"
  by (rule workflows_okD(4)[of ow b aid a]) auto

section \<open>Families under a workflow\<close>

lemma linked_Some:
  "map_of (families b) aid = Some rec \<Longrightarrow>
   linked b aid w \<longleftrightarrow> wf_draftId w \<in> allocatedDraftIds b \<and> (drafting rec w \<or> delivered rec w)"
  by (simp add: linked_def)

lemma drafting_cong:
  "fam_draft (fr_family rec') = fam_draft (fr_family rec) \<Longrightarrow> fr_versions rec' = fr_versions rec \<Longrightarrow>
   drafting rec' w = drafting rec w"
  by (simp add: drafting_def)

lemma delivered_cong:
  "fam_draft (fr_family rec') = fam_draft (fr_family rec) \<Longrightarrow> fr_versions rec' = fr_versions rec \<Longrightarrow>
   delivered rec' w = delivered rec w"
  by (simp add: delivered_def recordDraftIds_def)

lemma workflows_ok_moved:
  assumes ok: "workflows_ok ow b" and r: "map_of (families b) aid = Some rec"
    and f: "fam_draft f = fam_draft (fr_family rec)"
  shows "workflows_ok ow (putRecord aid (rec\<lparr>fr_family := f\<rparr>) b)"
proof (rule workflows_ok_family[OF ok, of aid])
  fix w assume "linked b aid w"
  then show "linked (putRecord aid (rec\<lparr>fr_family := f\<rparr>) b) aid w"
    using f drafting_cong[of "rec\<lparr>fr_family := f\<rparr>" rec w] delivered_cong[of "rec\<lparr>fr_family := f\<rparr>" rec w]
    by (simp add: linked_def r)
qed simp_all

lemma family_command_workflows:
  assumes ok: "workflows_ok ow b"
  shows "activateVersion h b m av = Inr (b', s) \<Longrightarrow> workflows_ok ow b'"
    and "archiveFamily h b m c = Inr (b', s) \<Longrightarrow> workflows_ok ow b'"
    and "restoreFamily h b m c = Inr (b', s) \<Longrightarrow> workflows_ok ow b'"
    and "deleteFamily h b m c = Inr (b', s) \<Longrightarrow> workflows_ok ow b'"
proof -
  show "workflows_ok ow b'" if "activateVersion h b m av = Inr (b', s)"
    using that by (rule activateVersion_Inr)
      (auto intro!: workflows_ok_moved[OF ok] simp: activatedFamily_def)
  show "workflows_ok ow b'" if "archiveFamily h b m c = Inr (b', s)"
    using that by (rule archiveFamily_Inr)
      (auto intro!: workflows_ok_moved[OF ok] simp: archivedFamily_def)
  show "workflows_ok ow b'" if "restoreFamily h b m c = Inr (b', s)"
    using that by (rule restoreFamily_Inr)
      (auto intro!: workflows_ok_moved[OF ok] simp: restoredFamily_def)
  show "workflows_ok ow b'" if "deleteFamily h b m c = Inr (b', s)"
    using that by (rule deleteFamily_Inr)
      (auto intro!: workflows_ok_moved[OF ok] simp: deletedFamily_def)
qed

lemma no_workflow_without_family:
  "workflows_ok ow b \<Longrightarrow> map_of (families b) aid = None \<Longrightarrow> map_of (workflows b) aid = None"
  by (rule ccontr) (auto elim: workflow_family)

lemma createFamily_workflows:
  assumes ok: "workflows_ok ow b" and op: "createFamily h b m c = Inr (b', s)"
  shows "workflows_ok ow b'"
proof -
  note c = createFamily_Inr[OF op]
  show ?thesis
    using no_workflow_without_family[OF ok c(3)]
    by (intro workflows_ok_family[OF ok, of "cf_agentId c"]) (auto simp: c(8))
qed

lemma beginRevision_workflows:
  assumes ok: "workflows_ok ow b" and op: "beginRevision h b m c = Inr (b', s)"
  shows "workflows_ok ow b'"
  using op
proof (rule beginRevision_Inr)
  fix rec
  assume r: "map_of (families b) (br_agentId c) = Some rec"
    and draft: "fam_draft (fr_family rec) = None"
    and fresh: "br_draftId c \<notin> allocatedDraftIds b"
    and b': "b' = (putRecord (br_agentId c) (rec\<lparr>fr_family := revisedFamily m c (fr_family rec)\<rparr>) b)
               \<lparr>allocatedDraftIds := insert (br_draftId c) (allocatedDraftIds b)\<rparr>"
  show ?thesis
  proof (rule workflows_ok_family[OF ok, of "br_agentId c"])
    fix w assume "linked b (br_agentId c) w"
    then show "linked b' (br_agentId c) w"
      using draft fresh
      by (auto simp: linked_def r b' drafting_def delivered_def recordDraftIds_def revisedFamily_def)
  qed (auto simp: b')
qed

lemma publishDraft_workflows:
  assumes ok: "workflows_ok ow b" and op: "publishDraft h b m c = Inr (b', s)"
  shows "workflows_ok ow b'"
  using op
proof (rule publishDraft_Inr)
  fix rec v
  assume none: "map_of (workflows b) (pu_agentId c) = None"
    and b': "b' = putRecord (pu_agentId c)
            \<lparr>fr_family = publishedFamily (fr_family rec) v (mb_occurredAt m),
             fr_versions = fr_versions rec @ [v]\<rparr> b"
  show ?thesis
    using none by (intro workflows_ok_family[OF ok, of "pu_agentId c"]) (auto simp: b')
qed

section \<open>Edits\<close>

lemma patchPhase_cases: "patchPhase a b \<in> {PmWork, ImplementationWork, QaReview}"
  by (simp add: patchPhase_def)

lemma invalidatedWorkflow_ok:
  assumes ok: "workflow_ok ow aid w" and ph: "wf_phase w \<noteq> Published"
    and schema: "buildWorkflowRecordSchema (invalidatedWorkflow m c d w)"
  shows "workflow_ok ow aid (invalidatedWorkflow m c d w)"
proof -
  let ?res = "if wf_qaApproval w = None then ResDraftEdited else ResApprovalInvalidated"
  have ready: "wf_qaApproval w \<noteq> None \<longleftrightarrow> wf_phase w = PublishReady"
    using workflow_okD(6)[OF ok] ph by (simp add: evidence_ok_def)
  then have "phase_edge RoleRoot ?res (wf_phase w) (patchPhase (draftFields d) (pd_fields c))"
    using ph patchPhase_cases[of "draftFields d" "pd_fields c"]
    by (auto intro: phase_edge.edited phase_edge.invalidated)
  moreover have "evidence_ok (invalidatedWorkflow m c d w)"
    using patchPhase_cases[of "draftFields d" "pd_fields c"]
    by (auto simp: evidence_ok_def invalidatedWorkflow_def Let_def)
  ultimately show ?thesis
    by (intro workflow_ok_step[OF ok _ _ _ _ _ schema]) (auto simp: invalidatedWorkflow_def Let_def)
qed

lemma affectedWorkflow_Some:
  "affectedWorkflow b aid d = Some w \<longleftrightarrow>
     map_of (workflows b) aid = Some w \<and> wf_draftId w = d_draftId d \<and>
     wf_draftRevision w = d_draftRevision d"
  by (auto simp: affectedWorkflow_def split: option.splits if_splits)

lemma affectedWorkflow_None:
  "affectedWorkflow b aid d = None \<longleftrightarrow>
     (\<forall>w. map_of (workflows b) aid = Some w \<longrightarrow>
        wf_draftId w \<noteq> d_draftId d \<or> wf_draftRevision w \<noteq> d_draftRevision d)"
  by (auto simp: affectedWorkflow_def split: option.splits if_splits)

lemma patchDraft_workflows:
  assumes ok: "workflows_ok ow b" and op: "patchDraft h b m c = Inr (b', s)"
  shows "workflows_ok ow b'"
  using op
proof (rule patchDraft_Inr)
  fix rec :: FamilyRecord and d
  let ?f = "patchedFamily m c (fr_family rec) d" and ?aid = "pd_agentId c"
  assume r: "map_of (families b) ?aid = Some rec"
    and draft: "fam_draft (fr_family rec) = Some d"
    and schema: "\<And>w. affectedWorkflow b ?aid d = Some w \<Longrightarrow>
       buildWorkflowRecordSchema (invalidatedWorkflow m c d w)"
    and b': "b' = (let b1 = putRecord ?aid (rec\<lparr>fr_family := ?f\<rparr>) b
           in case affectedWorkflow b ?aid d of None \<Rightarrow> b1
              | Some w \<Rightarrow> putWorkflow (invalidatedWorkflow m c d w) ?aid b1)"
  have draft': "fam_draft ?f = Some \<lparr>d_draftId = d_draftId d, d_basedOnSpecId = d_basedOnSpecId d,
          d_basedOnVersion = (if d_basedOnSpecId d = None then None else d_basedOnVersion d),
          d_fields = pd_fields c, d_draftRevision = d_draftRevision d + 1,
          d_createdAt = d_createdAt d, d_updatedAt = mb_occurredAt m\<rparr>"
    by (simp add: patchedFamily_def)
  show ?thesis
  proof (cases "affectedWorkflow b ?aid d")
    case None
    show ?thesis
    proof (rule workflows_ok_family[OF ok, of ?aid])
      fix w assume w: "map_of (workflows b) ?aid = Some w" "linked b ?aid w"
      with None have "wf_draftId w \<noteq> d_draftId d \<or> wf_draftRevision w \<noteq> d_draftRevision d"
        by (simp add: affectedWorkflow_None)
      then have "delivered rec w" using w(2) draft r by (auto simp: linked_def drafting_def)
      then have "delivered (rec\<lparr>fr_family := ?f\<rparr>) w"
        by (auto simp: delivered_def recordDraftIds_def draft draft')
      with w(2) show "linked b' ?aid w" by (simp add: linked_def b' None Let_def r)
    qed (simp_all add: b' None Let_def)
  next
    case (Some w)
    then have w: "map_of (workflows b) ?aid = Some w" "wf_draftId w = d_draftId d"
      "wf_draftRevision w = d_draftRevision d" by (simp_all add: affectedWorkflow_Some)
    have wok: "workflow_ok ow ?aid w" by (rule workflows_okD(2)[OF ok w(1)])
    have "\<not> delivered rec w" using w(2) draft by (simp add: delivered_def recordDraftIds_def)
    with workflow_linked[OF ok w(1) r] have dr: "drafting rec w"
      and alloc: "wf_draftId w \<in> allocatedDraftIds b" by auto
    have "workflow_ok ow ?aid (invalidatedWorkflow m c d w)"
      using dr by (intro invalidatedWorkflow_ok[OF wok _ schema[OF Some]]) (simp add: drafting_def)
    moreover have "drafting (rec\<lparr>fr_family := ?f\<rparr>) (invalidatedWorkflow m c d w)"
      using dr w patchPhase_cases[of "draftFields d" "pd_fields c"]
      by (auto simp: drafting_def draft draft' invalidatedWorkflow_def Let_def)
    ultimately show ?thesis
      using workflow_ids_differ[OF ok w(1)] alloc
      by (intro workflows_ok_put[OF ok, of ?aid _ "invalidatedWorkflow m c d w"])
        (auto simp: b' Some Let_def linked_def invalidatedWorkflow_def)
  qed
qed

section \<open>Role submissions\<close>

lemma submission_edge:
  assumes "rolePhaseAllowed role p" and "roleResultAllowed role result"
  shows "phase_edge (submissionRole role) (submissionResult result) p (nextRolePhase role result)"
  using assms
  by (cases role; cases result) (auto intro: phase_edge.intros)

lemma submittedWorkflow_simps [simp]:
  "wf_agentId (submittedWorkflow m c w fr ch) = wf_agentId w"
  "wf_owner (submittedWorkflow m c w fr ch) = wf_owner w"
  "wf_workflowId (submittedWorkflow m c w fr ch) = wf_workflowId w"
  "wf_draftId (submittedWorkflow m c w fr ch) = wf_draftId w"
  "wf_draftRevision (submittedWorkflow m c w fr ch) = fr"
  "wf_revision (submittedWorkflow m c w fr ch) = wf_revision w + 1"
  "wf_phase (submittedWorkflow m c w fr ch) = nextRolePhase (sb_role c) (sb_result c)"
  "wf_transitions (submittedWorkflow m c w fr ch) = wf_transitions w @
     [workflowTransition w fr (submissionRole (sb_role c)) (submissionResult (sb_result c))
        (nextRolePhase (sb_role c) (sb_result c)) (mb_operationId m) (mb_occurredAt m)]"
  "wf_published (submittedWorkflow m c w fr ch) = wf_published w"
  by (simp_all add: submittedWorkflow_def submissionCommon_def withoutEvidence_def
      del: nextRolePhase.simps)

lemma submitted_evidence:
  "wf_testEvidence (submittedWorkflow m c w fr ch) \<in> {None, wf_testEvidence w}"
  "ch \<Longrightarrow> \<not> (sb_role c = BuildQa \<and> sb_result c = SubApproved) \<Longrightarrow>
     wf_testEvidence (submittedWorkflow m c w fr ch) = None"
  by (auto simp: submittedWorkflow_def submissionCommon_def withoutEvidence_def clearsEvidence_def
      simp del: nextRolePhase.simps)

lemma nextRolePhase_PublishReady:
  "roleResultAllowed role result \<Longrightarrow>
   nextRolePhase role result = PublishReady \<longleftrightarrow> role = BuildQa \<and> result = SubApproved"
  "nextRolePhase role result \<noteq> Published"
  by (cases role; cases result; simp)+

lemma submitted_approval:
  "wf_qaApproval (submittedWorkflow m c w fr ch) \<noteq> None \<Longrightarrow> wf_qaApproval w = None \<Longrightarrow>
     sb_role c = BuildQa \<and> sb_result c = SubApproved \<and> wf_testEvidence w \<noteq> None"
  "sb_role c = BuildQa \<Longrightarrow> sb_result c = SubApproved \<Longrightarrow> wf_testEvidence w \<noteq> None \<Longrightarrow>
     wf_qaApproval (submittedWorkflow m c w fr ch) \<noteq> None \<and>
     wf_testEvidence (submittedWorkflow m c w fr ch) = wf_testEvidence w"
  by (auto simp: submittedWorkflow_def submissionCommon_def withoutEvidence_def
      simp del: nextRolePhase.simps split: if_splits)

lemma submission_evidence_ok:
  assumes ok: "evidence_ok w" and err: "submissionError h b m c w f d = None"
    and dr: "wf_draftRevision w = d_draftRevision d"
  shows "evidence_ok (workflowAfterSubmission m c w d)"
proof -
  note g = submissionError_None[OF err]
  let ?w = "workflowAfterSubmission m c w d"
  have ph: "wf_phase w \<notin> {PublishReady, Published}"
    using g(6) by (cases "sb_role c") auto
  then have no: "wf_qaApproval w = None" using ok by (simp add: evidence_ok_def)
  have ev: "wf_testEvidence ?w \<in> {None, wf_testEvidence w}"
    using submitted_evidence(1) by (simp add: workflowAfterSubmission_def)
  have next_phase: "wf_phase ?w \<in> {PublishReady, Published} \<longleftrightarrow>
      sb_role c = BuildQa \<and> sb_result c = SubApproved"
    using nextRolePhase_PublishReady(1)[OF g(7)] nextRolePhase_PublishReady(2)[of "sb_role c" "sb_result c"]
    by (simp add: workflowAfterSubmission_def del: nextRolePhase.simps)
  have app: "\<exists>e. wf_testEvidence w = Some e \<and> te_status e = TestPassed"
    if "sb_role c = BuildQa" "sb_result c = SubApproved"
    using g(15)[OF that] by (auto simp: approvalEvidenceOk_def split: option.splits)
  have iff: "wf_qaApproval ?w \<noteq> None \<longleftrightarrow> sb_role c = BuildQa \<and> sb_result c = SubApproved"
    using submitted_approval[where m = m and c = c and w = w and
        fr = "submissionDraftRevision c d" and ch = "submissionChanged c d"] no app
    unfolding workflowAfterSubmission_def by auto
  have same: "wf_testEvidence ?w = wf_testEvidence w"
    if "sb_role c = BuildQa" "sb_result c = SubApproved"
    using submitted_approval(2)[OF that, where m = m and w = w and
        fr = "submissionDraftRevision c d" and ch = "submissionChanged c d"] app[OF that] unfolding workflowAfterSubmission_def by auto
  show ?thesis
    unfolding evidence_ok_def next_phase iff
  proof (intro conjI impI)
    show "case wf_testEvidence ?w of None \<Rightarrow> True
          | Some e \<Rightarrow> te_status e = TestPassed \<longrightarrow> passedEvidence e"
      using ev ok by (auto simp: evidence_ok_def)
  qed (use app same in auto)
qed

lemma submitBuildRole_workflows:
  assumes ok: "workflows_ok ow b" and op: "submitBuildRole h b m c = Inr (b', s)"
  shows "workflows_ok ow b'"
  using op
proof (rule submitBuildRole_Inr)
  fix w and rec :: FamilyRecord and d
  let ?w = "workflowAfterSubmission m c w d"
  let ?f = "familyAfterSubmission m c (fr_family rec) d"
  assume byid: "workflowById b (sb_workflowId c) = Some w"
    and r: "map_of (families b) (wf_agentId w) = Some rec"
    and draft: "fam_draft (fr_family rec) = Some d"
    and err: "submissionError h b m c w (fr_family rec) d = None"
    and b': "b' = putWorkflow ?w (wf_agentId w) (putRecord (wf_agentId w) (rec\<lparr>fr_family := ?f\<rparr>) b)"
  note g = submissionError_None[OF err]
  have w: "map_of (workflows b) (wf_agentId w) = Some w" by (rule workflowById_map_of[OF ok byid])
  have wok: "workflow_ok ow (wf_agentId w) w" by (rule workflows_okD(2)[OF ok w])
  have "\<not> delivered rec w" using g(3) draft by (simp add: delivered_def recordDraftIds_def)
  with workflow_linked[OF ok w r] have dr: "drafting rec w"
    and alloc: "wf_draftId w \<in> allocatedDraftIds b" by auto
  have edge: "phase_edge (submissionRole (sb_role c)) (submissionResult (sb_result c)) (wf_phase w)
      (wf_phase ?w)"
    using submission_edge[OF g(6) g(7)] by (simp add: workflowAfterSubmission_def del: nextRolePhase.simps)
  have wok': "workflow_ok ow (wf_agentId w) ?w"
    by (rule workflow_ok_step[OF wok edge _ _ _ _ g(17)
          submission_evidence_ok[OF workflow_okD(6)[OF wok] err g(4)]])
      (simp_all add: workflowAfterSubmission_def del: nextRolePhase.simps)
  have ev: "wf_testEvidence ?w = Some e \<Longrightarrow>
      wf_testEvidence w = Some e \<and> \<not> submissionChanged c d" for e
    using submitted_evidence[where m = m and c = c and w = w and
        fr = "submissionDraftRevision c d" and ch = "submissionChanged c d"] g(13)
    unfolding workflowAfterSubmission_def
    by (cases "submissionChanged c d"; cases "sb_role c = BuildQa \<and> sb_result c = SubApproved") auto
  have df: "fr_versions rec = []" "\<And>e. wf_testEvidence w = Some e \<Longrightarrow>
      te_requiredCapabilityIds e = requiredCapabilities (d_fields d)"
    using dr draft by (auto simp: drafting_def)
  have wf: "wf_phase ?w \<noteq> Published" "wf_draftId ?w = d_draftId d"
    "wf_draftRevision ?w = submissionDraftRevision c d"
    using nextRolePhase_PublishReady(2) g(3)
    by (simp_all add: workflowAfterSubmission_def del: nextRolePhase.simps)
  have "drafting (rec\<lparr>fr_family := ?f\<rparr>) ?w"
  proof (cases "submissionChanged c d")
    case True
    then have "wf_testEvidence ?w = None" using ev by (cases "wf_testEvidence ?w") auto
    with True wf df(1) show ?thesis
      by (simp add: drafting_def familyAfterSubmission_def submittedFamily_def
          submissionDraftRevision_def)
  next
    case False
    with wf df draft ev show ?thesis
      by (simp add: drafting_def familyAfterSubmission_def submissionDraftRevision_def)
  qed
  then have "linked b' (wf_agentId w) ?w"
    using alloc by (simp add: linked_def b' workflowAfterSubmission_def)
  with wok' show ?thesis
    using workflow_ids_differ[OF ok w]
    by (intro workflows_ok_put[OF ok, of "wf_agentId w" _ ?w])
      (auto simp: b' workflowAfterSubmission_def)
qed

section \<open>Allocation, tests, reopening, publication\<close>

lemma allocatedWorkflow_ok:
  "buildWorkflowRecordSchema (allocatedWorkflow m c) \<Longrightarrow>
   workflow_ok (mb_owner m) (al_agentId c) (allocatedWorkflow m c)"
  by (auto simp: workflow_ok_def allocatedWorkflow_def evidence_ok_def
      intro: build_log.allocated)

lemma allocateBuildWorkflow_workflows:
  assumes ok: "workflows_ok ow b" and ow: "mb_owner m = ow"
    and op: "allocateBuildWorkflow h b m c = Inr (b', s)"
  shows "workflows_ok ow b'"
  using op
proof (rule allocateBuildWorkflow_Inr)
  fix b1
  let ?c = "allocationAsCreation c" and ?w = "allocatedWorkflow m c"
  assume ids: "\<And>w. w \<in> set (values_of (workflows b)) \<Longrightarrow> wf_workflowId w \<noteq> al_workflowId c"
    and schema: "buildWorkflowRecordSchema ?w"
    and cr: "createFamily h b m ?c = Inr (b1, FamilyCreated (createdFamily m ?c))"
    and b': "b' = putWorkflow ?w (al_agentId c) b1"
  note b1 = createFamily_Inr(8)[OF cr]
  have "drafting \<lparr>fr_family = createdFamily m ?c, fr_versions = []\<rparr> ?w"
    by (simp add: drafting_def createdFamily_def allocationAsCreation_def allocatedWorkflow_def)
  then have "linked b' (al_agentId c) ?w"
    by (simp add: linked_def b' b1 allocationAsCreation_def allocatedWorkflow_def)
  moreover have "wf_workflowId ?w \<noteq> wf_workflowId w2"
    if "map_of (workflows b) a = Some w2" for a w2
    using ids[of w2] that in_values_iff[OF workflows_okD(1)[OF ok], of w2]
    by (fastforce simp: allocatedWorkflow_def)
  ultimately show ?thesis
    using allocatedWorkflow_ok[OF schema] ow
    by (intro workflows_ok_put[OF ok, of "al_agentId c" _ ?w])
      (auto simp: b' b1 allocationAsCreation_def)
qed

lemma recordedEvidence_passed:
  "te_status (recordedEvidence h b m c w d l plan) = TestPassed \<Longrightarrow>
   passedEvidence (recordedEvidence h b m c w d l plan)"
  by (auto simp: recordedEvidence_def Let_def passedEvidence_def effectiveStatus_def list_all_iff
      split: if_splits)

lemma recordBuildTest_workflows:
  assumes ok: "workflows_ok ow b" and op: "recordBuildTest h b m c = Inr (b', s)"
  shows "workflows_ok ow b'"
  using op
proof (rule recordBuildTest_Inr)
  fix w rec d l plan e
  let ?w = "testedWorkflow m w e"
  assume byid: "workflowById b (rt_workflowId c) = Some w" and ph: "wf_phase w = TestPending"
    and ctx: "recordContext b m c w = Some (rec, d, l, plan)"
    and e: "e = recordedEvidence h b m c w d l plan"
    and schema: "buildWorkflowRecordSchema ?w"
    and b': "b' = putWorkflow ?w (wf_agentId w) b"
  note ctx = recordContext_Some[OF ctx]
  have w: "map_of (workflows b) (wf_agentId w) = Some w" by (rule workflowById_map_of[OF ok byid])
  have wok: "workflow_ok ow (wf_agentId w) w" by (rule workflows_okD(2)[OF ok w])
  have "\<not> delivered rec w" using ph by (simp add: delivered_def)
  with workflow_linked[OF ok w ctx(1)] have dr: "drafting rec w"
    and alloc: "wf_draftId w \<in> allocatedDraftIds b" by auto
  have "te_status e = TestPassed \<longrightarrow> passedEvidence e"
    using recordedEvidence_passed e by simp
  moreover have "wf_qaApproval w = None"
    using workflow_okD(6)[OF wok] ph by (simp add: evidence_ok_def)
  ultimately have ev: "evidence_ok ?w" by (simp add: evidence_ok_def testedWorkflow_def)
  have "testResultOf (te_status e) \<in> {ResTestPassed, ResTestInputRequired, ResTestFailed}"
    by (cases "te_status e") simp_all
  then have edge: "phase_edge RoleTestRunner (testResultOf (te_status e)) (wf_phase w) (wf_phase ?w)"
    using ph by (simp add: testedWorkflow_def phase_edge.tested)
  have "workflow_ok ow (wf_agentId w) ?w"
    by (rule workflow_ok_step[OF wok edge _ _ _ _ schema ev]) (simp_all add: testedWorkflow_def)
  moreover have "drafting rec ?w"
    using dr ctx(3) by (auto simp: drafting_def testedWorkflow_def e recordedEvidence_def Let_def)
  ultimately show ?thesis
    using workflow_ids_differ[OF ok w] alloc ctx(1)
    by (intro workflows_ok_put[OF ok, of "wf_agentId w" _ ?w])
      (auto simp: b' linked_def testedWorkflow_def)
qed

lemma reopenBuildWorkflow_workflows:
  assumes ok: "workflows_ok ow b" and op: "reopenBuildWorkflow h b m c = Inr (b', s)"
  shows "workflows_ok ow b'"
  using op
proof (rule reopenBuildWorkflow_Inr)
  fix w rec d
  let ?w = "reopenedWorkflow m w d"
  assume ctx: "workflowDraftContext b (ro_workflowId c) (ro_agentId c)
       (ro_expectedWorkflowRevision c) (ro_expectedRevision c) (ro_expectedDraftRevision c) =
       Inr (w, rec, d)"
    and ph: "wf_phase w = PublishReady"
    and schema: "buildWorkflowRecordSchema ?w"
    and b': "b' = putWorkflow ?w (wf_agentId w) b"
  note ctx = workflowDraftContext_Inr[OF ctx]
  have w: "map_of (workflows b) (wf_agentId w) = Some w" by (rule workflowById_map_of[OF ok ctx(1)])
  have r: "map_of (families b) (wf_agentId w) = Some rec" using ctx(2,4) by simp
  have wok: "workflow_ok ow (wf_agentId w) w" by (rule workflows_okD(2)[OF ok w])
  have "\<not> delivered rec w" using ph by (simp add: delivered_def)
  with workflow_linked[OF ok w r] have dr: "drafting rec w"
    and alloc: "wf_draftId w \<in> allocatedDraftIds b" by auto
  have edge: "phase_edge RoleRoot ResApprovalInvalidated (wf_phase w) (wf_phase ?w)"
    using ph by (simp add: reopenedWorkflow_def phase_edge.invalidated)
  have "workflow_ok ow (wf_agentId w) ?w"
    by (rule workflow_ok_step[OF wok edge _ _ _ _ schema])
      (simp_all add: reopenedWorkflow_def evidence_ok_def)
  moreover have "drafting rec ?w"
    using dr by (auto simp: drafting_def reopenedWorkflow_def)
  ultimately show ?thesis
    using workflow_ids_differ[OF ok w] alloc r
    by (intro workflows_ok_put[OF ok, of "wf_agentId w" _ ?w])
      (auto simp: b' linked_def reopenedWorkflow_def)
qed

lemma versionRequired_versionFromDraft:
  "versionRequired (versionFromDraft f d sid n t by) = requiredCapabilities (d_fields d)"
  by (simp add: versionRequired_def requiredCapabilities_def versionFromDraft_def)

lemma publishBuildWorkflow_workflows:
  assumes ok: "workflows_ok ow b" and op: "publishBuildWorkflow h b m c = Inr (b', s)"
  shows "workflows_ok ow b'"
  using op
proof (rule publishBuildWorkflow_Inr)
  fix w and rec :: FamilyRecord and d v
  let ?w = "publishedWorkflow m w v"
  let ?rec = "\<lparr>fr_family = publishedFamily (fr_family rec) v (mb_occurredAt m),
                fr_versions = fr_versions rec @ [v]\<rparr>"
  assume ctx: "workflowDraftContext b (pw_workflowId c) (pw_agentId c)
       (pw_expectedWorkflowRevision c) (pw_expectedRevision c) (pw_expectedDraftRevision c) =
       Inr (w, rec, d)"
    and ready: "publishReadyFor w d"
    and v: "v = versionFromDraft (fr_family rec) d (pw_specId c)
       (maximumVersion (fr_versions rec) + 1) (mb_occurredAt m) (pw_publishedBy c)"
    and schema: "buildWorkflowRecordSchema ?w"
    and b': "b' = putWorkflow ?w (wf_agentId w) (putRecord (pw_agentId c) ?rec b)"
  note ctx = workflowDraftContext_Inr[OF ctx]
  from ready obtain e where ph: "wf_phase w = PublishReady" and e: "wf_testEvidence w = Some e"
    by (auto simp: publishReadyFor_iff)
  have w: "map_of (workflows b) (wf_agentId w) = Some w" by (rule workflowById_map_of[OF ok ctx(1)])
  have r: "map_of (families b) (wf_agentId w) = Some rec" using ctx(2,4) by simp
  have wok: "workflow_ok ow (wf_agentId w) w" by (rule workflows_okD(2)[OF ok w])
  have "\<not> delivered rec w" using ph by (simp add: delivered_def)
  with workflow_linked[OF ok w r] have dr: "drafting rec w"
    and alloc: "wf_draftId w \<in> allocatedDraftIds b" by auto
  have edge: "phase_edge RoleRoot ResPublished (wf_phase w) (wf_phase ?w)"
    using ph by (simp add: publishedWorkflow_def phase_edge.published)
  have "evidence_ok ?w"
    using workflow_okD(6)[OF wok] ph by (simp add: evidence_ok_def publishedWorkflow_def)
  then have "workflow_ok ow (wf_agentId w) ?w"
    by (intro workflow_ok_step[OF wok edge _ _ _ _ schema]) (simp_all add: publishedWorkflow_def)
  moreover have "delivered ?rec ?w"
    using dr ctx(6) e by (auto simp: drafting_def delivered_def publishedWorkflow_def publishedFamily_def
        recordDraftIds_def v versionRequired_versionFromDraft)
  ultimately show ?thesis
    using workflow_ids_differ[OF ok w] alloc ctx(2)
    by (intro workflows_ok_put[OF ok, of "wf_agentId w" _ ?w])
      (auto simp: b' linked_def publishedWorkflow_def)
qed

section \<open>All commands\<close>

lemmas command_workflows =
  createFamily_workflows beginRevision_workflows patchDraft_workflows publishDraft_workflows
  family_command_workflows allocateBuildWorkflow_workflows submitBuildRole_workflows
  recordBuildTest_workflows reopenBuildWorkflow_workflows publishBuildWorkflow_workflows

theorem apply_command_workflows:
  assumes "workflows_ok ow b" and "mb_owner m = ow" and "apply_command h b m c = Inr (b', s)"
  shows "workflows_ok ow b'"
  using assms by (cases c) (simp_all, (blast intro: command_workflows)+)

end
