(* ===== verification/Session_Invariant.thy ===== *)
theory Session_Invariant
  imports Workflow_Preservation
begin

text \<open>
  The invariant of grants and leases: each is stored under its own key and owner, a lease exists
  exactly for each redeemed grant and carries that grant's binding, and no token hash or child
  session is used twice. The step lemmas describe the effect of the lease operations on a
  bucket.
\<close>

section \<open>Order of lease statuses\<close>

text \<open>
  Ready before running before closed before expired. The three ways to close are not comparable.
\<close>

fun leaseRank :: "ExecutionLeaseStatus \<Rightarrow> nat" where
  "leaseRank LeaseReady = 0"
| "leaseRank LeaseRunning = 1"
| "leaseRank LeaseSucceeded = 2"
| "leaseRank LeaseFailed = 2"
| "leaseRank LeaseCancelled = 2"
| "leaseRank LeaseExpired = 3"

instantiation ExecutionLeaseStatus :: order
begin

definition less_eq_ExecutionLeaseStatus ::
  "ExecutionLeaseStatus \<Rightarrow> ExecutionLeaseStatus \<Rightarrow> bool" where
  "less_eq_ExecutionLeaseStatus a b \<longleftrightarrow> a = b \<or> leaseRank a < leaseRank b"

definition less_ExecutionLeaseStatus ::
  "ExecutionLeaseStatus \<Rightarrow> ExecutionLeaseStatus \<Rightarrow> bool" where
  "less_ExecutionLeaseStatus a b \<longleftrightarrow> leaseRank a < leaseRank b"

instance
  by standard (auto simp: less_eq_ExecutionLeaseStatus_def less_ExecutionLeaseStatus_def)

end

lemma le_LeaseExpired [simp]: "s \<le> LeaseExpired"
  by (cases s) (simp_all add: less_eq_ExecutionLeaseStatus_def)

lemma LeaseReady_le [simp]: "LeaseReady \<le> s"
  by (cases s) (simp_all add: less_eq_ExecutionLeaseStatus_def)

lemma open_le_terminal: "\<not> isTerminalStatus s \<Longrightarrow> isTerminalStatus s' \<Longrightarrow> s \<le> s'"
  by (cases s; cases s') (simp_all add: less_eq_ExecutionLeaseStatus_def isTerminalStatus_def)

lemma terminal_up: "isTerminalStatus s \<Longrightarrow> s \<le> s' \<Longrightarrow> isTerminalStatus s'"
  by (cases s; cases s') (simp_all add: less_eq_ExecutionLeaseStatus_def isTerminalStatus_def)

section \<open>Leases\<close>

text \<open>What a lease is bound to: it never changes after redemption.\<close>

definition sameBinding :: "ExecutionLeaseRecord \<Rightarrow> ExecutionLeaseRecord \<Rightarrow> bool" where
  "sameBinding l l' \<longleftrightarrow>
     ls_leaseId l' = ls_leaseId l \<and> ls_grantId l' = ls_grantId l \<and> ls_owner l' = ls_owner l \<and>
     ls_role l' = ls_role l \<and> ls_target l' = ls_target l \<and> ls_workflow l' = ls_workflow l \<and>
     ls_parentSessionId l' = ls_parentSessionId l \<and> ls_parentTurnId l' = ls_parentTurnId l \<and>
     ls_parentCallId l' = ls_parentCallId l \<and> ls_childSessionId l' = ls_childSessionId l \<and>
     ls_bootstrapTurnId l' = ls_bootstrapTurnId l \<and> ls_issuedAt l' = ls_issuedAt l \<and>
     ls_expiresAt l' = ls_expiresAt l"

lemma sameBinding_refl [simp]: "sameBinding l l"
  by (simp add: sameBinding_def)

lemma sameBinding_trans: "sameBinding l l' \<Longrightarrow> sameBinding l' l'' \<Longrightarrow> sameBinding l l''"
  by (simp add: sameBinding_def)

definition leaseLater :: "ExecutionLeaseRecord \<Rightarrow> ExecutionLeaseRecord \<Rightarrow> bool" where
  "leaseLater l l' \<longleftrightarrow>
     sameBinding l l' \<and> ls_status l \<le> ls_status l' \<and>
     (ls_executionTurnId l \<noteq> None \<longrightarrow> ls_executionTurnId l' = ls_executionTurnId l) \<and>
     (ls_status l \<noteq> LeaseReady \<longrightarrow> ls_capabilityPlan l' = ls_capabilityPlan l)"

lemma leaseLater_refl [simp]: "leaseLater l l"
  by (simp add: leaseLater_def)

lemma leaseLater_trans: "leaseLater l l' \<Longrightarrow> leaseLater l' l'' \<Longrightarrow> leaseLater l l''"
  unfolding leaseLater_def
  by (auto intro: sameBinding_trans order_trans simp: antisym)

text \<open>A closed lease has a closing time, a running one its turn; an unclaimed one has no plan.\<close>

definition lease_ok :: "OwnerScope \<Rightarrow> string \<Rightarrow> ExecutionLeaseRecord \<Rightarrow> bool" where
  "lease_ok ow child l \<longleftrightarrow>
     ls_childSessionId l = child \<and> ls_owner l = ow \<and>
     (isTerminalStatus (ls_status l) \<longleftrightarrow> ls_closedAt l \<noteq> None) \<and>
     (ls_status l = LeaseRunning \<longrightarrow> ls_executionTurnId l \<noteq> None) \<and>
     (ls_status l = LeaseReady \<longrightarrow> ls_executionTurnId l = None \<and> ls_capabilityPlan l = None)"

definition leaseOfGrant :: "BootstrapGrantRecord \<Rightarrow> ExecutionLeaseRecord \<Rightarrow> bool" where
  "leaseOfGrant g l \<longleftrightarrow>
     ls_grantId l = gr_grantId g \<and> ls_owner l = gr_owner g \<and> ls_role l = gr_role g \<and>
     ls_target l = gr_target g \<and> ls_workflow l = gr_workflow g \<and>
     ls_parentSessionId l = gr_parentSessionId g \<and> ls_parentTurnId l = gr_parentTurnId g \<and>
     gr_childSessionId g = Some (ls_childSessionId l) \<and> gr_redeemedAt g = Some (ls_issuedAt l) \<and>
     \<not> timeGe (ls_issuedAt l) (gr_expiresAt g)"

lemma leaseOfGrant_binding: "leaseOfGrant g l \<Longrightarrow> sameBinding l l' \<Longrightarrow> leaseOfGrant g l'"
  by (simp add: leaseOfGrant_def sameBinding_def)

section \<open>Grants and leases of a bucket\<close>

definition grant_ok :: "OwnerScope \<Rightarrow> string \<Rightarrow> BootstrapGrantRecord \<Rightarrow> bool" where
  "grant_ok ow th g \<longleftrightarrow>
     gr_tokenHash g = th \<and> gr_owner g = ow \<and>
     (gr_redeemedAt g = None \<longleftrightarrow> gr_childSessionId g = None)"

definition sessions_ok :: "OwnerScope \<Rightarrow> OwnerBucket \<Rightarrow> bool" where
  "sessions_ok ow b \<longleftrightarrow>
     keys_distinct (grants b) \<and> keys_distinct (leases b) \<and>
     (\<forall>th g. map_of (grants b) th = Some g \<longrightarrow> grant_ok ow th g) \<and>
     (\<forall>child l. map_of (leases b) child = Some l \<longrightarrow> lease_ok ow child l) \<and>
     (\<forall>th g child. map_of (grants b) th = Some g \<longrightarrow> gr_childSessionId g = Some child \<longrightarrow>
        (\<exists>l. map_of (leases b) child = Some l \<and> leaseOfGrant g l)) \<and>
     (\<forall>child l. map_of (leases b) child = Some l \<longrightarrow>
        (\<exists>th g. map_of (grants b) th = Some g \<and> leaseOfGrant g l)) \<and>
     (\<forall>th1 th2 g1 g2 child. map_of (grants b) th1 = Some g1 \<longrightarrow> map_of (grants b) th2 = Some g2 \<longrightarrow>
        gr_childSessionId g1 = Some child \<longrightarrow> gr_childSessionId g2 = Some child \<longrightarrow> th1 = th2)"

lemma sessions_okD:
  assumes "sessions_ok ow b"
  shows "keys_distinct (grants b)" "keys_distinct (leases b)"
    and "map_of (grants b) th = Some g \<Longrightarrow> grant_ok ow th g"
    and "map_of (leases b) child = Some l \<Longrightarrow> lease_ok ow child l"
    and "map_of (grants b) th = Some g \<Longrightarrow> gr_childSessionId g = Some child \<Longrightarrow>
         \<exists>l. map_of (leases b) child = Some l \<and> leaseOfGrant g l"
    and "map_of (leases b) child = Some l \<Longrightarrow>
         \<exists>th g. map_of (grants b) th = Some g \<and> leaseOfGrant g l"
    and "map_of (grants b) th1 = Some g1 \<Longrightarrow> map_of (grants b) th2 = Some g2 \<Longrightarrow>
         gr_childSessionId g1 = Some child \<Longrightarrow> gr_childSessionId g2 = Some child \<Longrightarrow> th1 = th2"
  using assms unfolding sessions_ok_def by blast+

lemma sessions_ok_empty [simp]: "sessions_ok ow emptyBucket"
  by (simp add: sessions_ok_def emptyBucket_def)

lemma sessions_ok_cong:
  "grants b' = grants b \<Longrightarrow> leases b' = leases b \<Longrightarrow> sessions_ok ow b' = sessions_ok ow b"
  by (simp add: sessions_ok_def)

text \<open>A new grant.\<close>

lemma sessions_ok_grant:
  assumes ok: "sessions_ok ow b" and new: "map_of (grants b) th = None"
    and g: "gr_tokenHash g = th" "gr_owner g = ow" "gr_redeemedAt g = None"
      "gr_childSessionId g = None"
    and b': "grants b' = mapSet th g (grants b)" "leases b' = leases b"
  shows "sessions_ok ow b'"
  unfolding sessions_ok_def b'
proof (intro conjI allI impI)
  fix child l assume "map_of (leases b) child = Some l"
  from sessions_okD(6)[OF ok this] obtain th' g' where
    "map_of (grants b) th' = Some g'" "leaseOfGrant g' l" by blast
  with new show "\<exists>th' g'. map_of (mapSet th g (grants b)) th' = Some g' \<and> leaseOfGrant g' l"
    by (intro exI[of _ th'] exI[of _ g']) auto
qed (use sessions_okD[OF ok] g in \<open>auto simp: grant_ok_def split: if_splits\<close>)

text \<open>A redemption: the grant is marked and its lease appears.\<close>

lemma sessions_ok_redeem:
  assumes ok: "sessions_ok ow b" and g: "map_of (grants b) th = Some g" "gr_childSessionId g = None"
    and fresh: "map_of (leases b) child = None"
    and g': "g' = g\<lparr>gr_redeemedAt := Some now, gr_childSessionId := Some child\<rparr>"
    and l: "leaseOfGrant g' l" "lease_ok ow child l"
    and b': "grants b' = mapSet th g' (grants b)" "leases b' = mapSet child l (leases b)"
  shows "sessions_ok ow b'"
  unfolding sessions_ok_def b'
proof (intro conjI allI impI)
  show "keys_distinct (mapSet th g' (grants b))" "keys_distinct (mapSet child l (leases b))"
    using sessions_okD(1,2)[OF ok] by simp_all
  fix th2 g2 assume g2: "map_of (mapSet th g' (grants b)) th2 = Some g2"
  then show "grant_ok ow th2 g2"
    using sessions_okD(3)[OF ok] g g' by (auto simp: grant_ok_def split: if_splits)
  fix ch assume ch: "gr_childSessionId g2 = Some ch"
  show "\<exists>l2. map_of (mapSet child l (leases b)) ch = Some l2 \<and> leaseOfGrant g2 l2"
  proof (cases "th2 = th")
    case True
    with g2 ch g' have "g2 = g'" "ch = child" by auto
    with l(1) show ?thesis by simp
  next
    case False
    with g2 sessions_okD(5)[OF ok _ ch, of th2] obtain l2 where
      "map_of (leases b) ch = Some l2" "leaseOfGrant g2 l2" by auto
    with fresh show ?thesis by auto
  qed
next
  fix ch l2 assume l2: "map_of (mapSet child l (leases b)) ch = Some l2"
  then show "lease_ok ow ch l2"
    using sessions_okD(4)[OF ok] l(2) by (auto split: if_splits)
  show "\<exists>th2 g2. map_of (mapSet th g' (grants b)) th2 = Some g2 \<and> leaseOfGrant g2 l2"
  proof (cases "ch = child")
    case True
    with l2 l(1) show ?thesis by (intro exI[of _ th] exI[of _ g']) simp
  next
    case False
    with l2 sessions_okD(6)[OF ok, of ch l2] obtain th2 g2 where
      "map_of (grants b) th2 = Some g2" "leaseOfGrant g2 l2" by auto
    with g show ?thesis by (intro exI[of _ th2] exI[of _ g2]) (auto simp: leaseOfGrant_def)
  qed
next
  fix th1 th2 g1 g2 ch
  assume a: "map_of (mapSet th g' (grants b)) th1 = Some g1"
    "map_of (mapSet th g' (grants b)) th2 = Some g2"
    "gr_childSessionId g1 = Some ch" "gr_childSessionId g2 = Some ch"
  have no: "gr_childSessionId g3 \<noteq> Some child" if "map_of (grants b) th3 = Some g3" for th3 g3
    using sessions_okD(5)[OF ok that] fresh by auto
  show "th1 = th2"
    using a no sessions_okD(7)[OF ok, of th1 g1 th2 g2 ch] g' by (auto split: if_splits)
qed

text \<open>Leases replaced by later states of themselves.\<close>

lemma sessions_ok_leases:
  assumes ok: "sessions_ok ow b" and gs: "grants b' = grants b"
    and keys: "keys_distinct (leases b')"
    and old: "\<And>child l'. map_of (leases b') child = Some l' \<Longrightarrow>
      \<exists>l. map_of (leases b) child = Some l \<and> sameBinding l l' \<and> lease_ok ow child l'"
    and new: "\<And>child l. map_of (leases b) child = Some l \<Longrightarrow>
      \<exists>l'. map_of (leases b') child = Some l' \<and> sameBinding l l'"
  shows "sessions_ok ow b'"
  unfolding sessions_ok_def gs
proof (intro conjI allI impI)
  fix th g child assume "map_of (grants b) th = Some g" "gr_childSessionId g = Some child"
  from sessions_okD(5)[OF ok this] obtain l where "map_of (leases b) child = Some l" "leaseOfGrant g l"
    by blast
  with new[of child l] leaseOfGrant_binding
  show "\<exists>l. map_of (leases b') child = Some l \<and> leaseOfGrant g l" by blast
next
  fix child l' assume "map_of (leases b') child = Some l'"
  from old[OF this] obtain l where l: "map_of (leases b) child = Some l" "sameBinding l l'" by blast
  with sessions_okD(6)[OF ok l(1)] leaseOfGrant_binding
  show "\<exists>th g. map_of (grants b) th = Some g \<and> leaseOfGrant g l'" by blast
qed (use sessions_okD[OF ok] keys old in blast)+

lemma sessions_ok_put_lease:
  assumes ok: "sessions_ok ow b" and l: "map_of (leases b) child = Some l"
    and l': "sameBinding l l'" "lease_ok ow child l'"
    and b': "grants b' = grants b" "leases b' = mapSet child l' (leases b)"
  shows "sessions_ok ow b'"
proof (rule sessions_ok_leases[OF ok b'(1)])
  show "keys_distinct (leases b')" using sessions_okD(2)[OF ok] b'(2) by simp
qed (use l l' sessions_okD(4)[OF ok] in \<open>auto simp: b'(2) split: if_splits\<close>)

end
