(* ===== verification/Bucket_Invariant.thy ===== *)
theory Bucket_Invariant
  imports Session_Invariant
begin

text \<open>
  The whole invariant of one owner's bucket: families, workflows, sessions, the executions of
  consequential test steps, and the evidence that rests on those executions. Every command keeps
  it, and touches only the families, the workflows and the allocated draft ids.
\<close>

section \<open>Test executions\<close>

definition consumedBy :: "TestInputGrantRecord \<Rightarrow> TestCapabilityExecutionRecord \<Rightarrow> bool" where
  "consumedBy g x \<longleftrightarrow>
     ig_consumedAt g = Some (tx_startedAt x) \<and> tx_approval x = Verified \<and>
     st_stepFingerprint (ig_step g) = st_stepFingerprint (tx_step x) \<and>
     st_capabilityId (ig_step g) = st_capabilityId (tx_step x) \<and>
     st_schemaFingerprint (ig_step g) = st_schemaFingerprint (tx_step x)"

definition executions_ok :: "OwnerScope \<Rightarrow> OwnerBucket \<Rightarrow> bool" where
  "executions_ok ow b \<longleftrightarrow>
     keys_distinct (testExecutions b) \<and> keys_distinct (testInputGrants b) \<and>
     (\<forall>k x. map_of (testExecutions b) k = Some x \<longrightarrow>
        testStepKey (tx_step x) = k \<and> st_owner (tx_step x) = ow \<and>
        testCapabilityExecutionRecordSchema x \<and>
        (tx_approval x = Verified \<longrightarrow>
           (\<exists>g. map_of (testInputGrants b) k = Some g \<and> consumedBy g x))) \<and>
     (\<forall>k g. map_of (testInputGrants b) k = Some g \<longrightarrow>
        testStepKey (ig_step g) = k \<and> st_owner (ig_step g) = ow \<and>
        testInputGrantRecordSchema g \<and>
        (ig_consumedAt g \<noteq> None \<longrightarrow>
           (\<exists>x. map_of (testExecutions b) k = Some x \<and> consumedBy g x)))"

lemma executions_okD:
  assumes "executions_ok ow b"
  shows "keys_distinct (testExecutions b)" "keys_distinct (testInputGrants b)"
    and "map_of (testExecutions b) k = Some x \<Longrightarrow>
           testStepKey (tx_step x) = k \<and> st_owner (tx_step x) = ow \<and>
           testCapabilityExecutionRecordSchema x"
    and "map_of (testExecutions b) k = Some x \<Longrightarrow> tx_approval x = Verified \<Longrightarrow>
           \<exists>g. map_of (testInputGrants b) k = Some g \<and> consumedBy g x"
    and "map_of (testInputGrants b) k = Some g \<Longrightarrow>
           testStepKey (ig_step g) = k \<and> st_owner (ig_step g) = ow \<and> testInputGrantRecordSchema g"
    and "map_of (testInputGrants b) k = Some g \<Longrightarrow> ig_consumedAt g \<noteq> None \<Longrightarrow>
           \<exists>x. map_of (testExecutions b) k = Some x \<and> consumedBy g x"
  using assms unfolding executions_ok_def by blast+

lemma executions_ok_empty [simp]: "executions_ok ow emptyBucket"
  by (simp add: executions_ok_def emptyBucket_def)

lemma executions_ok_cong:
  "testExecutions b' = testExecutions b \<Longrightarrow> testInputGrants b' = testInputGrants b \<Longrightarrow>
   executions_ok ow b' = executions_ok ow b"
  by (simp add: executions_ok_def)

section \<open>Evidence rests on executions\<close>

definition ranFor :: "BuildTestEvidence \<Rightarrow> string \<Rightarrow> TestCapabilityExecutionRecord \<Rightarrow> bool" where
  "ranFor e capability x \<longleftrightarrow>
     tx_status x = ExecSucceeded \<and> st_capabilityId (tx_step x) = capability \<and>
     st_workflowId (tx_step x) = te_workflowId e \<and> st_testRunId (tx_step x) = te_testRunId e \<and>
     st_leaseId (tx_step x) = te_leaseId e \<and> st_childSessionId (tx_step x) = te_childSessionId e \<and>
     st_executionTurnId (tx_step x) = te_executionTurnId e"

definition supportedEvidence :: "OwnerBucket \<Rightarrow> BuildTestEvidence \<Rightarrow> bool" where
  "supportedEvidence b e \<longleftrightarrow>
     (\<forall>i \<in> set (te_usedCapabilityIds e). \<exists>k x. map_of (testExecutions b) k = Some x \<and> ranFor e i x)"

definition evidence_supported :: "OwnerBucket \<Rightarrow> bool" where
  "evidence_supported b \<longleftrightarrow>
     (\<forall>aid w e. map_of (workflows b) aid = Some w \<longrightarrow> wf_testEvidence w = Some e \<longrightarrow>
        supportedEvidence b e)"

lemma evidence_supported_empty [simp]: "evidence_supported emptyBucket"
  by (simp add: evidence_supported_def emptyBucket_def)

text \<open>Executions only gain: an entry that succeeded stays.\<close>

lemma supportedEvidence_mono:
  assumes "supportedEvidence b e"
    and "\<And>k x. map_of (testExecutions b) k = Some x \<Longrightarrow> tx_status x = ExecSucceeded \<Longrightarrow>
           map_of (testExecutions b') k = Some x"
  shows "supportedEvidence b' e"
  using assms unfolding supportedEvidence_def ranFor_def by meson

lemma recordedEvidence_supported:
  assumes ex: "executions_ok ow b" and se: "sessions_ok ow b"
    and ctx: "recordContext b m c w = Some (rec, d, l, plan)"
  shows "supportedEvidence b (recordedEvidence h b m c w d l plan)"
proof -
  note ctx = recordContext_Some[OF ctx]
  have l: "ls_leaseId l = rt_leaseId c" "ls_childSessionId l = rt_childSessionId c"
    using ctx(8) sessions_okD(4)[OF se ctx(6)] by (auto simp: recordLeaseValid_def lease_ok_def)
  show ?thesis
    unfolding supportedEvidence_def
  proof
    fix i assume "i \<in> set (te_usedCapabilityIds (recordedEvidence h b m c w d l plan))"
    then obtain x where x: "x \<in> set (executionsOfRun b c w)" "tx_status x = ExecSucceeded"
        "st_capabilityId (tx_step x) = i"
      by (auto simp: recordedEvidence_def Let_def succeededCapabilities_def)
    then have "x \<in> set (values_of (testExecutions b))" by (simp add: executionsOfRun_def)
    then obtain k where k: "map_of (testExecutions b) k = Some x"
      using in_values_iff[OF executions_okD(1)[OF ex]] by blast
    have "ranFor (recordedEvidence h b m c w d l plan) i x"
      using x l by (auto simp: ranFor_def executionsOfRun_def recordedEvidence_def Let_def)
    with k show "\<exists>k x. map_of (testExecutions b) k = Some x \<and>
        ranFor (recordedEvidence h b m c w d l plan) i x" by blast
  qed
qed

section \<open>The bucket\<close>

definition bucket_ok :: "host \<Rightarrow> OwnerScope \<Rightarrow> OwnerBucket \<Rightarrow> bool" where
  "bucket_ok h ow b \<longleftrightarrow>
     families_ok h ow b \<and> workflows_ok ow b \<and> sessions_ok ow b \<and> executions_ok ow b \<and>
     evidence_supported b"

lemma bucket_okD:
  assumes "bucket_ok h ow b"
  shows "families_ok h ow b" "workflows_ok ow b" "sessions_ok ow b" "executions_ok ow b"
    "evidence_supported b"
  using assms by (simp_all add: bucket_ok_def)

lemma bucket_ok_empty [simp]: "bucket_ok h ow emptyBucket"
  by (simp add: bucket_ok_def)

section \<open>Commands\<close>

text \<open>What a command leaves alone.\<close>

definition sameRest :: "OwnerBucket \<Rightarrow> OwnerBucket \<Rightarrow> bool" where
  "sameRest b b' \<longleftrightarrow>
     leases b' = leases b \<and> grants b' = grants b \<and> operations b' = operations b \<and>
     closedParentTurns b' = closedParentTurns b \<and> testInputGrants b' = testInputGrants b \<and>
     testExecutions b' = testExecutions b"

lemma sameRest_simps [simp]:
  "sameRest b b" "sameRest b (putRecord aid rec b1) = sameRest b b1"
  "sameRest b (putWorkflow w aid b1) = sameRest b b1"
  "sameRest b (b1\<lparr>allocatedDraftIds := A\<rparr>) = sameRest b b1"
  by (auto simp: sameRest_def)

lemma patchDraft_rest: "patchDraft h b m c = Inr (b', s) \<Longrightarrow> sameRest b b'"
  by (erule patchDraft_Inr) (simp add: Let_def split: option.splits)

lemma createFamily_rest: "createFamily h b m c = Inr (b', s) \<Longrightarrow> sameRest b b'"
  by (drule createFamily_Inr(8)) simp

lemma allocateBuildWorkflow_rest: "allocateBuildWorkflow h b m c = Inr (b', s) \<Longrightarrow> sameRest b b'"
  by (erule allocateBuildWorkflow_Inr) (simp add: createFamily_rest)

lemma apply_command_rest: "apply_command h b m c = Inr (b', s) \<Longrightarrow> sameRest b b'"
  by (cases c)
    (auto dest: patchDraft_rest createFamily_rest allocateBuildWorkflow_rest
      elim!: beginRevision_Inr publishDraft_Inr activateVersion_Inr archiveFamily_Inr
        restoreFamily_Inr deleteFamily_Inr submitBuildRole_Inr recordBuildTest_Inr
        reopenBuildWorkflow_Inr publishBuildWorkflow_Inr)

text \<open>A workflow's evidence after a command was there before, or has just been recorded.\<close>

definition evidenceKept :: "OwnerBucket \<Rightarrow> OwnerBucket \<Rightarrow> bool" where
  "evidenceKept b b' \<longleftrightarrow>
     (\<forall>aid w' e. map_of (workflows b') aid = Some w' \<longrightarrow> wf_testEvidence w' = Some e \<longrightarrow>
        supportedEvidence b e \<or>
        (\<exists>w. map_of (workflows b) aid = Some w \<and> wf_testEvidence w = Some e))"

lemma evidenceKept_same: "workflows b' = workflows b \<Longrightarrow> evidenceKept b b'"
  by (auto simp: evidenceKept_def)

lemma evidenceKept_put:
  assumes "workflows b' = mapSet aid w' (workflows b)"
    and "\<And>e. wf_testEvidence w' = Some e \<Longrightarrow> supportedEvidence b e \<or>
           (\<exists>w. map_of (workflows b) aid = Some w \<and> wf_testEvidence w = Some e)"
  shows "evidenceKept b b'"
  using assms by (auto simp: evidenceKept_def)

lemma patchDraft_evidence: "patchDraft h b m c = Inr (b', s) \<Longrightarrow> evidenceKept b b'"
proof (erule patchDraft_Inr)
  fix rec d
  assume b': "b' = (let b1 = putRecord (pd_agentId c)
                      (rec\<lparr>fr_family := patchedFamily m c (fr_family rec) d\<rparr>) b
           in case affectedWorkflow b (pd_agentId c) d of
                None \<Rightarrow> b1
              | Some w \<Rightarrow> putWorkflow (invalidatedWorkflow m c d w) (pd_agentId c) b1)"
  show ?thesis
  proof (cases "affectedWorkflow b (pd_agentId c) d")
    case None
    then show ?thesis by (intro evidenceKept_same) (simp add: b' Let_def)
  next
    case (Some w)
    then show ?thesis
      by (intro evidenceKept_put[of _ "pd_agentId c" "invalidatedWorkflow m c d w"])
        (simp_all add: b' Let_def invalidatedWorkflow_def)
  qed
qed

lemma allocateBuildWorkflow_evidence:
  "allocateBuildWorkflow h b m c = Inr (b', s) \<Longrightarrow> evidenceKept b b'"
proof (erule allocateBuildWorkflow_Inr)
  fix b1
  assume cr: "createFamily h b m (allocationAsCreation c) =
       Inr (b1, FamilyCreated (createdFamily m (allocationAsCreation c)))"
    and b': "b' = putWorkflow (allocatedWorkflow m c) (al_agentId c) b1"
  show ?thesis
    by (intro evidenceKept_put[of _ "al_agentId c" "allocatedWorkflow m c"])
      (simp_all add: b' createFamily_Inr(8)[OF cr] allocatedWorkflow_def)
qed

lemma workflow_command_evidence:
  assumes ok: "bucket_ok h ow b"
  shows "submitBuildRole h b m sb = Inr (b', s) \<Longrightarrow> evidenceKept b b'"
    and "recordBuildTest h b m rt = Inr (b', s) \<Longrightarrow> evidenceKept b b'"
    and "reopenBuildWorkflow h b m ro = Inr (b', s) \<Longrightarrow> evidenceKept b b'"
    and "publishBuildWorkflow h b m pw = Inr (b', s) \<Longrightarrow> evidenceKept b b'"
proof -
  note byid = workflowById_map_of[OF bucket_okD(2)[OF ok]]
  show "evidenceKept b b'" if "submitBuildRole h b m sb = Inr (b', s)"
    using that
  proof (rule submitBuildRole_Inr)
    fix w rec d
    assume w: "workflowById b (sb_workflowId sb) = Some w"
      and b': "b' = putWorkflow (workflowAfterSubmission m sb w d) (wf_agentId w)
            (putRecord (wf_agentId w)
               (rec\<lparr>fr_family := familyAfterSubmission m sb (fr_family rec) d\<rparr>) b)"
    show ?thesis
      using byid[OF w] submitted_evidence(1)[of m sb w "submissionDraftRevision sb d" "submissionChanged sb d"]
      by (intro evidenceKept_put[of _ "wf_agentId w" "workflowAfterSubmission m sb w d"])
        (auto simp: b' workflowAfterSubmission_def)
  qed
  show "evidenceKept b b'" if "recordBuildTest h b m rt = Inr (b', s)"
    using that
  proof (rule recordBuildTest_Inr)
    fix w rec d l plan e
    assume ctx: "recordContext b m rt w = Some (rec, d, l, plan)"
      and e: "e = recordedEvidence h b m rt w d l plan"
      and b': "b' = putWorkflow (testedWorkflow m w e) (wf_agentId w) b"
    show ?thesis
      using recordedEvidence_supported[OF bucket_okD(4)[OF ok] bucket_okD(3)[OF ok] ctx, of h]
      by (intro evidenceKept_put[of _ "wf_agentId w" "testedWorkflow m w e"])
        (auto simp: b' e testedWorkflow_def)
  qed
  show "evidenceKept b b'" if "reopenBuildWorkflow h b m ro = Inr (b', s)"
    using that
  proof (rule reopenBuildWorkflow_Inr)
    fix w rec d
    assume b': "b' = putWorkflow (reopenedWorkflow m w d) (wf_agentId w) b"
    show ?thesis
      by (intro evidenceKept_put[of _ "wf_agentId w" "reopenedWorkflow m w d"])
        (simp_all add: b' reopenedWorkflow_def)
  qed
  show "evidenceKept b b'" if "publishBuildWorkflow h b m pw = Inr (b', s)"
    using that
  proof (rule publishBuildWorkflow_Inr)
    fix w rec d v
    assume ctx: "workflowDraftContext b (pw_workflowId pw) (pw_agentId pw)
        (pw_expectedWorkflowRevision pw) (pw_expectedRevision pw) (pw_expectedDraftRevision pw)
        = Inr (w, rec, d)"
      and b': "b' = putWorkflow (publishedWorkflow m w v) (wf_agentId w)
            (putRecord (pw_agentId pw)
               \<lparr>fr_family = publishedFamily (fr_family rec) v (mb_occurredAt m),
                fr_versions = fr_versions rec @ [v]\<rparr> b)"
    show ?thesis
      using byid[OF workflowDraftContext_Inr(1)[OF ctx]]
      by (intro evidenceKept_put[of _ "wf_agentId w" "publishedWorkflow m w v"])
        (auto simp: b' publishedWorkflow_def)
  qed
qed

lemma family_command_evidence:
  "createFamily h b m cf = Inr (b', s) \<Longrightarrow> evidenceKept b b'"
  "beginRevision h b m br = Inr (b', s) \<Longrightarrow> evidenceKept b b'"
  "publishDraft h b m pu = Inr (b', s) \<Longrightarrow> evidenceKept b b'"
  "activateVersion h b m av = Inr (b', s) \<Longrightarrow> evidenceKept b b'"
  "archiveFamily h b m c = Inr (b', s) \<Longrightarrow> evidenceKept b b'"
  "restoreFamily h b m c = Inr (b', s) \<Longrightarrow> evidenceKept b b'"
  "deleteFamily h b m c = Inr (b', s) \<Longrightarrow> evidenceKept b b'"
  by (auto intro!: evidenceKept_same dest: createFamily_Inr(8)
      elim!: beginRevision_Inr publishDraft_Inr activateVersion_Inr archiveFamily_Inr
        restoreFamily_Inr deleteFamily_Inr)

lemmas command_evidence =
  family_command_evidence patchDraft_evidence allocateBuildWorkflow_evidence
  workflow_command_evidence

lemma apply_command_evidence:
  assumes "bucket_ok h ow b" and "apply_command h b m c = Inr (b', s)"
  shows "evidenceKept b b'"
  using assms by (cases c) (simp_all, (blast intro: command_evidence)+)

theorem apply_command_bucket:
  assumes ok: "bucket_ok h ow b" and ow: "mb_owner m = ow"
    and op: "apply_command h b m c = Inr (b', s)"
  shows "bucket_ok h ow b'"
proof -
  have rest: "sameRest b b'" by (rule apply_command_rest[OF op])
  have "evidence_supported b'"
    using apply_command_evidence[OF ok op] bucket_okD(5)[OF ok] rest
    unfolding evidence_supported_def evidenceKept_def supportedEvidence_def sameRest_def by metis
  then show ?thesis
    using apply_command_families[OF _ ow op] apply_command_workflows[OF _ ow op] bucket_okD[OF ok]
      rest sessions_ok_cong[of b' b ow] executions_ok_cong[of b' b ow]
    by (simp add: bucket_ok_def sameRest_def)
qed

end
