(* ===== verification/Store_Invariant.thy ===== *)
theory Store_Invariant
  imports Bucket_Invariant
begin

text \<open>
  The invariant of the whole store, every operation's preservation of it, and so its truth in
  every reachable state: each bucket is well formed, and no token hash and no child session
  occurs in two buckets.
\<close>

definition separate :: "OwnerBucket \<Rightarrow> OwnerBucket \<Rightarrow> bool" where
  "separate b1 b2 \<longleftrightarrow>
     dom (map_of (grants b1)) \<inter> dom (map_of (grants b2)) = {} \<and>
     dom (map_of (leases b1)) \<inter> dom (map_of (leases b2)) = {}"

lemma separate_sym: "separate b1 b2 \<Longrightarrow> separate b2 b1"
  by (simp add: separate_def Int_commute)

lemma separateD:
  "separate b1 b2 \<Longrightarrow> map_of (grants b1) th = Some g \<Longrightarrow> map_of (grants b2) th = None"
  "separate b1 b2 \<Longrightarrow> map_of (leases b1) child = Some l \<Longrightarrow> map_of (leases b2) child = None"
  by (auto simp: separate_def dom_def)

lemma separate_mono:
  "separate b1 b2 \<Longrightarrow> dom (map_of (grants b)) \<subseteq> dom (map_of (grants b1)) \<Longrightarrow>
   dom (map_of (leases b)) \<subseteq> dom (map_of (leases b1)) \<Longrightarrow> separate b b2"
  unfolding separate_def by blast

lemma separate_empty [simp]: "separate emptyBucket b"
  by (simp add: separate_def emptyBucket_def)

definition store_ok :: "host \<Rightarrow> Tenants \<Rightarrow> bool" where
  "store_ok h t \<longleftrightarrow>
     tenants_distinct t \<and>
     (\<forall>ow b. getBucket t ow = Some b \<longrightarrow> bucket_ok h ow b) \<and>
     (\<forall>o1 o2 b1 b2. o1 \<noteq> o2 \<longrightarrow> getBucket t o1 = Some b1 \<longrightarrow> getBucket t o2 = Some b2 \<longrightarrow>
        separate b1 b2)"

lemma store_okD:
  assumes "store_ok h t"
  shows "tenants_distinct t" "getBucket t ow = Some b \<Longrightarrow> bucket_ok h ow b"
    "o1 \<noteq> o2 \<Longrightarrow> getBucket t o1 = Some b1 \<Longrightarrow> getBucket t o2 = Some b2 \<Longrightarrow> separate b1 b2"
  using assms by (auto simp: store_ok_def)

lemma store_ok_empty [simp]: "store_ok h []"
  by (simp add: store_ok_def tenants_distinct_def getBucket_def)

lemma store_ok_put:
  assumes ok: "store_ok h t" and b: "bucket_ok h ow b"
    and sep: "\<And>o2 b2. o2 \<noteq> ow \<Longrightarrow> getBucket t o2 = Some b2 \<Longrightarrow> separate b b2"
  shows "store_ok h (putBucket t ow b)"
  unfolding store_ok_def
proof (intro conjI allI impI)
  show "tenants_distinct (putBucket t ow b)"
    by (rule tenants_distinct_putBucket) (rule store_okD(1)[OF ok])
next
  fix ow' b' assume "getBucket (putBucket t ow b) ow' = Some b'"
  then show "bucket_ok h ow' b'"
    using b store_okD(2)[OF ok] by (auto simp: getBucket_putBucket split: if_splits)
next
  fix o1 o2 b1 b2
  assume "o1 \<noteq> o2" "getBucket (putBucket t ow b) o1 = Some b1" "getBucket (putBucket t ow b) o2 = Some b2"
  then show "separate b1 b2"
    using tenants.forall_pairs_put[of t separate ow b o1 o2 b1 b2] store_okD(3)[OF ok] separate_sym sep
    by blast
qed

lemma bucketOf_ok: "store_ok h t \<Longrightarrow> bucket_ok h ow (bucketOf t ow)"
  by (auto simp: bucketOf_def dest: store_okD(2) split: option.splits)

lemma bucketOf_separate:
  "store_ok h t \<Longrightarrow> o2 \<noteq> ow \<Longrightarrow> getBucket t o2 = Some b2 \<Longrightarrow> separate (bucketOf t ow) b2"
  using store_okD(3)[of h t ow o2] by (auto simp: bucketOf_def split: option.splits)

text \<open>A bucket that holds no new token hash and no new child session.\<close>

lemma store_ok_update:
  assumes ok: "store_ok h t" and b: "bucket_ok h ow b"
    and gs: "dom (map_of (grants b)) \<subseteq> dom (map_of (grants (bucketOf t ow)))"
    and ls: "dom (map_of (leases b)) \<subseteq> dom (map_of (leases (bucketOf t ow)))"
  shows "store_ok h (putBucket t ow b)"
proof (rule store_ok_put[OF ok b])
  fix o2 b2 assume "o2 \<noteq> ow" "getBucket t o2 = Some b2"
  then show "separate b b2" by (rule separate_mono[OF bucketOf_separate[OF ok] gs ls])
qed

lemma store_ok_ensure: "store_ok h t \<Longrightarrow> store_ok h (ensureBucket t ow)"
  by (auto simp: ensureBucket_def intro: store_ok_put split: option.splits)

section \<open>Commands\<close>

lemma bucket_ok_cong:
  "families b' = families b \<Longrightarrow> allocatedDraftIds b' = allocatedDraftIds b \<Longrightarrow>
   workflows b' = workflows b \<Longrightarrow> grants b' = grants b \<Longrightarrow> leases b' = leases b \<Longrightarrow>
   testExecutions b' = testExecutions b \<Longrightarrow> testInputGrants b' = testInputGrants b \<Longrightarrow>
   bucket_ok h ow b' = bucket_ok h ow b"
  by (simp add: bucket_ok_def families_ok_cong[of b' b] workflows_ok_cong[of b' b]
      sessions_ok_cong[of b' b] executions_ok_cong[of b' b] evidence_supported_def
      supportedEvidence_def)

lemma mutate_cases:
  obtains (replayed) r where "map_of (operations (bucketOf t (mb_owner m))) (mb_operationId m) = Some r"
      "mutate h t m c = (ensureBucket t (mb_owner m),
         if op_requestFingerprint r = mb_requestFingerprint m then Inr (op_result r)
         else Inl (OPERATION_ID_REUSED (successType (op_result r))))"
  | (refused) e where "map_of (operations (bucketOf t (mb_owner m))) (mb_operationId m) = None"
      "mutate h t m c = (ensureBucket t (mb_owner m), Inl e)"
  | (applied) b' s where "map_of (operations (bucketOf t (mb_owner m))) (mb_operationId m) = None"
      "timestampSchema (mb_occurredAt m)"
      "apply_command h (bucketOf t (mb_owner m)) m c = Inr (b', s)"
      "mutate h t m c =
         (putBucket (ensureBucket t (mb_owner m)) (mb_owner m) (logOperation m s b'), Inr s)"
proof (cases "map_of (operations (bucketOf t (mb_owner m))) (mb_operationId m)")
  case (Some r)
  show thesis by (rule replayed[OF Some]) (simp add: mutate_def Some)
next
  case None
  show thesis
  proof (cases "timestampSchema (mb_occurredAt m)")
    case False
    show thesis by (rule refused[OF None]) (simp add: mutate_def None False)
  next
    case True
    show thesis
    proof (cases "apply_command h (bucketOf t (mb_owner m)) m c")
      case (Inl e)
      show thesis by (rule refused[OF None]) (simp add: mutate_def None True Inl)
    next
      case (Inr r)
      obtain b' s where "r = (b', s)" by (cases r)
      with Inr show thesis by (intro applied[OF None True]) (simp_all add: mutate_def None True)
    qed
  qed
qed

lemma mutate_ok:
  assumes ok: "store_ok h t"
  shows "store_ok h (fst (mutate h t m c))"
proof (cases rule: mutate_cases[of t m h c])
  case (replayed r)
  then show ?thesis using store_ok_ensure[OF ok] by simp
next
  case (refused e)
  then show ?thesis using store_ok_ensure[OF ok] by simp
next
  case (applied b' s)
  have "bucket_ok h (mb_owner m) b'"
    by (rule apply_command_bucket[OF bucketOf_ok[OF ok] refl applied(3)])
  then have "bucket_ok h (mb_owner m) (logOperation m s b')"
    by (subst bucket_ok_cong[of _ b']) (simp_all add: logOperation_def)
  moreover have "sameRest (bucketOf t (mb_owner m)) b'" by (rule apply_command_rest[OF applied(3)])
  ultimately show ?thesis
    using applied(4)
    by (auto intro!: store_ok_update[OF store_ok_ensure[OF ok]] simp: sameRest_def logOperation_def)
qed

section \<open>Grants and leases\<close>

lemma pruned_simps [simp]:
  "families (pruneClosedParentTurns b now) = families b"
  "allocatedDraftIds (pruneClosedParentTurns b now) = allocatedDraftIds b"
  "workflows (pruneClosedParentTurns b now) = workflows b"
  "grants (pruneClosedParentTurns b now) = grants b"
  "leases (pruneClosedParentTurns b now) = leases b"
  "operations (pruneClosedParentTurns b now) = operations b"
  "testInputGrants (pruneClosedParentTurns b now) = testInputGrants b"
  "testExecutions (pruneClosedParentTurns b now) = testExecutions b"
  by (simp_all add: pruneClosedParentTurns_def)

lemma bucket_ok_prune [simp]: "bucket_ok h ow (pruneClosedParentTurns b now) = bucket_ok h ow b"
  by (rule bucket_ok_cong) simp_all

lemma bucket_ok_sessions:
  assumes "bucket_ok h ow b" and "sessions_ok ow b'"
    and "families b' = families b" "allocatedDraftIds b' = allocatedDraftIds b"
    "workflows b' = workflows b" "testExecutions b' = testExecutions b"
    "testInputGrants b' = testInputGrants b"
  shows "bucket_ok h ow b'"
  using assms families_ok_cong[of b' b h ow] workflows_ok_cong[of b' b ow]
    executions_ok_cong[of b' b ow]
  by (simp add: bucket_ok_def evidence_supported_def supportedEvidence_def)

lemma findGrant_None_map_of:
  assumes ok: "store_ok h t"
  shows "findGrant t th = None \<longleftrightarrow>
    (\<forall>ow b. getBucket t ow = Some b \<longrightarrow> map_of (grants b) th = None)"
proof -
  have "(\<forall>g \<in> set (values_of (grants b)). gr_tokenHash g \<noteq> th) \<longleftrightarrow> map_of (grants b) th = None"
    if b: "getBucket t ow = Some b" for ow b
  proof -
    note se = bucket_okD(3)[OF store_okD(2)[OF ok b]]
    show ?thesis
      using in_values_iff[OF sessions_okD(1)[OF se]] sessions_okD(3)[OF se]
      by (metis grant_ok_def not_None_eq)
  qed
  then show ?thesis unfolding findGrant_None[OF store_okD(1)[OF ok]] by blast
qed

lemma findGrant_Some_map_of:
  assumes ok: "store_ok h t" and "findGrant t th = Some (ow, g)"
  obtains b where "getBucket t ow = Some b" and "map_of (grants b) th = Some g"
proof -
  from findGrant_Some[OF store_okD(1)[OF ok] assms(2)] obtain b where b: "getBucket t ow = Some b"
      "g \<in> set (values_of (grants b))" "gr_tokenHash g = th" .
  note se = bucket_okD(3)[OF store_okD(2)[OF ok b(1)]]
  from b(2) obtain k where "map_of (grants b) k = Some g"
    using in_values_iff[OF sessions_okD(1)[OF se]] by blast
  with sessions_okD(3)[OF se this] b that show thesis by (auto simp: grant_ok_def)
qed

lemma map_of_findGrant:
  assumes ok: "store_ok h t" and b: "getBucket t ow = Some b" "map_of (grants b) th = Some g"
  shows "findGrant t th = Some (ow, g)"
proof (cases "findGrant t th")
  case None
  with b show ?thesis using findGrant_None_map_of[OF ok] by auto
next
  case (Some r)
  obtain ow' g' where r: "r = (ow', g')" by (cases r)
  from findGrant_Some_map_of[OF ok Some[unfolded r]] obtain b' where
    b': "getBucket t ow' = Some b'" "map_of (grants b') th = Some g'" .
  have "ow' = ow"
    using store_okD(3)[OF ok _ b'(1) b(1)] separateD[of b' b] b'(2) b(2) by force
  with Some r b b' show ?thesis by simp
qed

lemma map_of_findLease:
  assumes ok: "store_ok h t" and b: "getBucket t ow = Some b" "map_of (leases b) child = Some l"
  shows "findLease t child = Some (ow, l)"
proof (cases "findLease t child")
  case None
  with b show ?thesis using findLease_None[OF store_okD(1)[OF ok]] by auto
next
  case (Some r)
  obtain ow' l' where r: "r = (ow', l')" by (cases r)
  from findLease_Some[OF store_okD(1)[OF ok] Some[unfolded r]] obtain b' where
    b': "getBucket t ow' = Some b'" "map_of (leases b') child = Some l'" .
  have "ow' = ow"
    using store_okD(3)[OF ok _ b'(1) b(1)] separateD[of b' b] b'(2) b(2) by force
  with Some r b b' show ?thesis by simp
qed

lemma findLease_bucket:
  assumes "store_ok h t" and "findLease t child = Some (ow, l)"
  shows "getBucket t ow = Some (bucketOf t ow)" and "map_of (leases (bucketOf t ow)) child = Some l"
    and "ls_owner l = ow"
proof -
  from findLease_Some[OF store_okD(1)[OF assms(1)] assms(2)] obtain b where
    b: "getBucket t ow = Some b" "map_of (leases b) child = Some l" .
  then show "getBucket t ow = Some (bucketOf t ow)" "map_of (leases (bucketOf t ow)) child = Some l"
    by (simp_all add: bucketOf_def)
  from b sessions_okD(4)[OF bucket_okD(3)[OF store_okD(2)[OF assms(1) b(1)]] b(2)]
  show "ls_owner l = ow" by (simp add: lease_ok_def)
qed

lemma createBootstrapGrant_cases:
  obtains (refused) e where "createBootstrapGrant t g = (t, Inl e)"
  | (changed) e where "createBootstrapGrant t g = (ensureBucket t (gr_owner g), Inl e)"
  | (closed) e where "createBootstrapGrant t g =
       (putBucket (ensureBucket t (gr_owner g)) (gr_owner g)
          (pruneClosedParentTurns (bucketOf t (gr_owner g)) (gr_issuedAt g)), Inl e)"
  | (created) b where "bootstrapGrantRecordSchema g" "gr_redeemedAt g = None"
      "\<not> timeLe (gr_expiresAt g) (gr_issuedAt g)" "findGrant t (gr_tokenHash g) = None"
      "targetAndScopeCurrent (bucketOf t (gr_owner g)) (gr_target g) (gr_workflow g)"
      "b = pruneClosedParentTurns (bucketOf t (gr_owner g)) (gr_issuedAt g)"
      "\<not> parentTurnClosed b (gr_parentSessionId g) (gr_parentTurnId g)"
      "createBootstrapGrant t g =
         (putBucket (ensureBucket t (gr_owner g)) (gr_owner g)
            (b\<lparr>grants := mapSet (gr_tokenHash g) g (grants b)\<rparr>), Inr g)"
proof (cases "bootstrapGrantRecordSchema g \<and> gr_redeemedAt g = None \<and>
    \<not> timeLe (gr_expiresAt g) (gr_issuedAt g) \<and> findGrant t (gr_tokenHash g) = None")
  case False
  then show thesis by (intro refused) (auto simp: createBootstrapGrant_def)
next
  case valid: True
  let ?b = "pruneClosedParentTurns (bucketOf t (gr_owner g)) (gr_issuedAt g)"
  consider "\<not> targetAndScopeCurrent (bucketOf t (gr_owner g)) (gr_target g) (gr_workflow g)"
    | "targetAndScopeCurrent (bucketOf t (gr_owner g)) (gr_target g) (gr_workflow g)"
      "parentTurnClosed ?b (gr_parentSessionId g) (gr_parentTurnId g)"
    | "targetAndScopeCurrent (bucketOf t (gr_owner g)) (gr_target g) (gr_workflow g)"
      "\<not> parentTurnClosed ?b (gr_parentSessionId g) (gr_parentTurnId g)" by blast
  then show thesis
  proof cases
    case 1
    then show thesis using valid by (intro changed) (simp add: createBootstrapGrant_def)
  next
    case 2
    then show thesis using valid by (intro closed) (simp add: createBootstrapGrant_def Let_def)
  next
    case 3
    then show thesis
      using valid by (intro created[of ?b]) (simp_all add: createBootstrapGrant_def Let_def)
  qed
qed

lemma createBootstrapGrant_ok:
  assumes ok: "store_ok h t"
  shows "store_ok h (fst (createBootstrapGrant t g))"
proof -
  let ?ow = "gr_owner g"
  let ?t1 = "ensureBucket t ?ow" and ?b2 = "pruneClosedParentTurns (bucketOf t ?ow) (gr_issuedAt g)"
  have t1: "store_ok h ?t1" by (rule store_ok_ensure[OF ok])
  have b2: "bucket_ok h ?ow ?b2" using bucketOf_ok[OF ok] by simp
  have pruned: "store_ok h (putBucket ?t1 ?ow ?b2)"
    by (rule store_ok_update[OF t1 b2]) simp_all
  have added: "store_ok h (putBucket ?t1 ?ow (?b2\<lparr>grants := mapSet (gr_tokenHash g) g (grants ?b2)\<rparr>))"
    if schema: "bootstrapGrantRecordSchema g" and fresh: "gr_redeemedAt g = None"
      and new: "findGrant t (gr_tokenHash g) = None"
  proof (rule store_ok_put[OF t1])
    have none: "map_of (grants ?b2) (gr_tokenHash g) = None"
      using new findGrant_None_map_of[OF ok, of "gr_tokenHash g"]
      by (auto simp: bucketOf_def emptyBucket_def split: option.splits)
    have "gr_childSessionId g = None"
      using schema fresh by (simp add: bootstrapGrantRecordSchema_def)
    then have "sessions_ok ?ow (?b2\<lparr>grants := mapSet (gr_tokenHash g) g (grants ?b2)\<rparr>)"
      by (rule sessions_ok_grant[OF bucket_okD(3)[OF b2] none refl refl fresh]) simp_all
    then show "bucket_ok h ?ow (?b2\<lparr>grants := mapSet (gr_tokenHash g) g (grants ?b2)\<rparr>)"
      by (rule bucket_ok_sessions[OF b2]) simp_all
    fix o2 bb assume o2: "o2 \<noteq> ?ow" "getBucket ?t1 o2 = Some bb"
    then have bb: "getBucket t o2 = Some bb" by simp
    have "map_of (grants bb) (gr_tokenHash g) = None"
      using new bb findGrant_None_map_of[OF ok, of "gr_tokenHash g"] by auto
    with bucketOf_separate[OF ok o2(1) bb]
    show "separate (?b2\<lparr>grants := mapSet (gr_tokenHash g) g (grants ?b2)\<rparr>) bb"
      by (auto simp: separate_def dom_def)
  qed
  show ?thesis
  proof (cases rule: createBootstrapGrant_cases[of t g])
    case (created b)
    from added[OF created(1,2,4)] show ?thesis unfolding created(8) created(6) fst_conv .
  qed (simp_all only: fst_conv ok t1 pruned)
qed

end
