(* ===== verification/Lease_Preservation.thy ===== *)
theory Lease_Preservation
  imports Store_Invariant
begin

text \<open>
  What the lease operations do, by cases (\<open>redeemBootstrapGrant\<close>, \<open>beginExecutionLease\<close>,
  \<open>closeExecutionLease\<close>, \<open>closeParentTurnExecutionLeases\<close> of
  \<open>packages/eve-agent-builder/extension/lib/stores/memory.ts\<close>), and that each keeps the invariant
  of the store: a lease only ever moves to a later state of itself.
\<close>

section \<open>Redemption\<close>

lemma redemptionError_None:
  assumes "redemptionError t b g c = None"
  shows "gr_owner g = rd_owner c" "gr_redeemedAt g = None"
    "\<not> parentTurnClosed b (gr_parentSessionId g) (gr_parentTurnId g)"
    "targetAndScopeCurrent b (gr_target g) (gr_workflow g)"
    "\<not> timeGe (rd_occurredAt c) (gr_expiresAt g)" "\<not> bindingMismatch g c"
    "findLease t (rd_childSessionId c) = None"
    "timestampSchema (rd_occurredAt c)" "timestampSchema (rd_leaseExpiresAt c)"
    "\<not> timeLe (rd_leaseExpiresAt c) (rd_occurredAt c)"
    "executionLeaseRecordSchema (leaseFromGrant g c)"
  using assms
  by (auto simp: redemptionError_def targetAndScopeCurrent_def simp del: not_None_eq
      split: if_splits)

lemma redeemBootstrapGrant_cases:
  obtains (missing) "redeemBootstrapGrant t c = (t, Inl BOOTSTRAP_NOT_FOUND)"
      "findGrant t (rd_tokenHash c) = None"
  | (refused) ow g e where "findGrant t (rd_tokenHash c) = Some (ow, g)"
      "redemptionError t (pruneClosedParentTurns (bucketOf t ow) (rd_occurredAt c)) g c = Some e"
      "redeemBootstrapGrant t c =
         (putBucket t ow (pruneClosedParentTurns (bucketOf t ow) (rd_occurredAt c)), Inl e)"
  | (redeemed) ow g b where "findGrant t (rd_tokenHash c) = Some (ow, g)"
      "b = pruneClosedParentTurns (bucketOf t ow) (rd_occurredAt c)"
      "redemptionError t b g c = None"
      "redeemBootstrapGrant t c =
         (putBucket t ow
            (b\<lparr>grants := mapSet (gr_tokenHash g)
                 (g\<lparr>gr_redeemedAt := Some (rd_occurredAt c),
                    gr_childSessionId := Some (rd_childSessionId c)\<rparr>) (grants b),
               leases := mapSet (rd_childSessionId c) (leaseFromGrant g c) (leases b)\<rparr>),
          Inr (leaseFromGrant g c))"
proof (cases "findGrant t (rd_tokenHash c)")
  case None
  then show thesis by (intro missing) (simp_all add: redeemBootstrapGrant_def)
next
  case (Some r)
  obtain ow g where r: "r = (ow, g)" by (cases r)
  let ?b = "pruneClosedParentTurns (bucketOf t ow) (rd_occurredAt c)"
  show thesis
  proof (cases "redemptionError t ?b g c")
    case None
    show thesis
      by (rule redeemed[OF Some[unfolded r] refl None])
        (simp add: redeemBootstrapGrant_def Some r Let_def None)
  next
    case err: (Some e)
    show thesis
      by (rule refused[OF Some[unfolded r] err])
        (simp add: redeemBootstrapGrant_def Some r Let_def err)
  qed
qed

lemma leaseFromGrant_ok:
  assumes "redemptionError t b g c = None"
  shows "leaseOfGrant (g\<lparr>gr_redeemedAt := Some (rd_occurredAt c),
           gr_childSessionId := Some (rd_childSessionId c)\<rparr>) (leaseFromGrant g c)"
    and "lease_ok (gr_owner g) (rd_childSessionId c) (leaseFromGrant g c)"
  using redemptionError_None[OF assms]
  by (simp_all add: leaseOfGrant_def leaseFromGrant_def lease_ok_def)

lemma redeemBootstrapGrant_ok:
  assumes ok: "store_ok h t"
  shows "store_ok h (fst (redeemBootstrapGrant t c))"
proof (cases rule: redeemBootstrapGrant_cases[of t c])
  case missing
  then show ?thesis using ok by simp
next
  case (refused ow g e)
  have "store_ok h (putBucket t ow (pruneClosedParentTurns (bucketOf t ow) (rd_occurredAt c)))"
    by (rule store_ok_update[OF ok]) (simp_all add: bucketOf_ok[OF ok])
  then show ?thesis using refused(3) by simp
next
  case (redeemed ow g b)
  note e = redemptionError_None[OF redeemed(3)]
  from findGrant_Some_map_of[OF ok redeemed(1)] obtain b0 where
    b0: "getBucket t ow = Some b0" "map_of (grants b0) (rd_tokenHash c) = Some g" .
  have bo: "bucketOf t ow = b0" by (rule bucketOf_Some[OF b0(1)])
  have bok: "bucket_ok h ow b" using bucketOf_ok[OF ok] by (simp add: redeemed(2))
  have g: "gr_tokenHash g = rd_tokenHash c" "gr_owner g = ow" "gr_childSessionId g = None"
    using sessions_okD(3)[OF bucket_okD(3)[OF store_okD(2)[OF ok b0(1)]] b0(2)] e(2)
    by (auto simp: grant_ok_def)
  let ?g = "g\<lparr>gr_redeemedAt := Some (rd_occurredAt c), gr_childSessionId := Some (rd_childSessionId c)\<rparr>"
  let ?b = "b\<lparr>grants := mapSet (gr_tokenHash g) ?g (grants b),
              leases := mapSet (rd_childSessionId c) (leaseFromGrant g c) (leases b)\<rparr>"
  have gb: "map_of (grants b) (rd_tokenHash c) = Some g" using b0 bo by (simp add: redeemed(2))
  have none: "map_of (leases b2) (rd_childSessionId c) = None" if "getBucket t o2 = Some b2" for o2 b2
    using e(7) that findLease_None[OF store_okD(1)[OF ok]] by blast
  have nb: "map_of (leases b) (rd_childSessionId c) = None"
    using none[OF b0(1)] bo by (simp add: redeemed(2))
  have "sessions_ok ow ?b"
    by (rule sessions_ok_redeem[OF bucket_okD(3)[OF bok] gb g(3) nb refl
          leaseFromGrant_ok(1)[OF redeemed(3)]])
      (use leaseFromGrant_ok(2)[OF redeemed(3)] g in simp_all)
  then have "bucket_ok h ow ?b" by (rule bucket_ok_sessions[OF bok]) simp_all
  then have "store_ok h (putBucket t ow ?b)"
  proof (rule store_ok_put[OF ok])
    fix o2 b2 assume o2: "o2 \<noteq> ow" "getBucket t o2 = Some b2"
    from bucketOf_separate[OF ok o2] none[OF o2(2)] gb g(1)
    show "separate ?b b2" by (auto simp: separate_def dom_def redeemed(2))
  qed
  then show ?thesis by (simp add: redeemed(4))
qed

section \<open>Lease operations\<close>

text \<open>Begin and close replace one lease by a later state of itself.\<close>

lemma putLease_ok:
  assumes ok: "store_ok h t" and l: "findLease t child = Some (ow, l)"
    and l': "leaseLater l l'" "lease_ok ow child l'"
  shows "store_ok h (putLease t ow child l')"
proof -
  note f = findLease_bucket[OF ok l]
  have bok: "bucket_ok h ow (bucketOf t ow)" by (rule bucketOf_ok[OF ok])
  let ?b = "(bucketOf t ow)\<lparr>leases := mapSet child l' (leases (bucketOf t ow))\<rparr>"
  have "sessions_ok ow ?b"
    by (rule sessions_ok_put_lease[OF bucket_okD(3)[OF bok] f(2)])
      (use l' in \<open>simp_all add: leaseLater_def\<close>)
  then have "bucket_ok h ow ?b" by (rule bucket_ok_sessions[OF bok]) simp_all
  then show ?thesis
    unfolding putLease_def using f(2) by (intro store_ok_update[OF ok]) (auto simp: dom_def)
qed

definition expiredLease :: "ExecutionLeaseRecord \<Rightarrow> Timestamp \<Rightarrow> ExecutionLeaseRecord" where
  "expiredLease l now = l\<lparr>ls_status := LeaseExpired, ls_closedAt := Some now,
     ls_terminalCode := Some LEASE_EXPIRED_CODE\<rparr>"

definition runningLease ::
  "ExecutionLeaseRecord \<Rightarrow> BeginExecutionLeaseStoreCommand \<Rightarrow> ExecutionLeaseRecord" where
  "runningLease l c = l\<lparr>ls_status := LeaseRunning, ls_executionTurnId := Some (bl_executionTurnId c),
     ls_capabilityPlan := (case bl_capabilityPlan c of
       None \<Rightarrow> ls_capabilityPlan l | Some p \<Rightarrow> Some p)\<rparr>"

lemma beginExecutionLease_cases:
  obtains (unchanged) r where "beginExecutionLease t c = (t, r)"
  | (expired) ow l where "findLease t (bl_childSessionId c) = Some (ow, l)"
      "ls_owner l = bl_owner c" "timeGe (bl_occurredAt c) (ls_expiresAt l)"
      "beginExecutionLease t c =
         (putLease t ow (bl_childSessionId c) (expiredLease l (bl_occurredAt c)), Inl LEASE_EXPIRED)"
  | (begun) ow l where "findLease t (bl_childSessionId c) = Some (ow, l)"
      "ls_owner l = bl_owner c" "\<not> timeGe (bl_occurredAt c) (ls_expiresAt l)"
      "ls_status l = LeaseReady"
      "targetAndScopeCurrent (bucketOf t ow) (ls_target l) (ls_workflow l)"
      "bl_executionTurnId c \<noteq> ls_bootstrapTurnId l"
      "optionally executionCapabilityPlanSchema (bl_capabilityPlan c)"
      "beginExecutionLease t c =
         (putLease t ow (bl_childSessionId c) (runningLease l c), Inr (runningLease l c))"
proof (cases "findLease t (bl_childSessionId c)")
  case None
  then show thesis by (intro unchanged) (simp add: beginExecutionLease_def)
next
  case (Some r)
  obtain ow l where r: "r = (ow, l)" by (cases r)
  note f = Some[unfolded r]
  consider "ls_owner l \<noteq> bl_owner c"
    | "ls_owner l = bl_owner c" "timeGe (bl_occurredAt c) (ls_expiresAt l)"
    | "ls_owner l = bl_owner c" "\<not> timeGe (bl_occurredAt c) (ls_expiresAt l)"
      "ls_status l \<noteq> LeaseReady \<or>
       \<not> targetAndScopeCurrent (bucketOf t ow) (ls_target l) (ls_workflow l) \<or>
       bl_executionTurnId c = ls_bootstrapTurnId l \<or>
       \<not> optionally executionCapabilityPlanSchema (bl_capabilityPlan c)"
    | "ls_owner l = bl_owner c" "\<not> timeGe (bl_occurredAt c) (ls_expiresAt l)"
      "ls_status l = LeaseReady"
      "targetAndScopeCurrent (bucketOf t ow) (ls_target l) (ls_workflow l)"
      "bl_executionTurnId c \<noteq> ls_bootstrapTurnId l"
      "optionally executionCapabilityPlanSchema (bl_capabilityPlan c)"
    by blast
  then show thesis
  proof cases
    case 1
    then show thesis by (intro unchanged) (simp add: beginExecutionLease_def f)
  next
    case 2
    then show thesis
      by (intro expired[OF f]) (simp_all add: beginExecutionLease_def f expiredLease_def)
  next
    case 3
    then have "fst (beginExecutionLease t c) = t"
      by (auto simp: beginExecutionLease_def f)
    then show thesis by (intro unchanged[of "snd (beginExecutionLease t c)"]) (simp add: prod_eq_iff)
  next
    case 4
    then show thesis
      by (intro begun[OF f]) (simp_all add: beginExecutionLease_def f runningLease_def Let_def)
  qed
qed


lemma beginExecutionLease_ok:
  assumes ok: "store_ok h t"
  shows "store_ok h (fst (beginExecutionLease t c))"
proof (cases rule: beginExecutionLease_cases[of t c])
  case (unchanged r)
  then show ?thesis using ok by simp
next
  case (expired ow l)
  note f = findLease_bucket[OF ok expired(1)]
  have "lease_ok ow (bl_childSessionId c) l"
    by (rule sessions_okD(4)[OF bucket_okD(3)[OF bucketOf_ok[OF ok]] f(2)])
  then have "store_ok h (putLease t ow (bl_childSessionId c) (expiredLease l (bl_occurredAt c)))"
    by (intro putLease_ok[OF ok expired(1)])
      (auto simp: leaseLater_def sameBinding_def expiredLease_def lease_ok_def)
  then show ?thesis by (simp add: expired(4))
next
  case (begun ow l)
  note f = findLease_bucket[OF ok begun(1)]
  have "lease_ok ow (bl_childSessionId c) l"
    by (rule sessions_okD(4)[OF bucket_okD(3)[OF bucketOf_ok[OF ok]] f(2)])
  then have "store_ok h (putLease t ow (bl_childSessionId c) (runningLease l c))"
    by (intro putLease_ok[OF ok begun(1)])
      (auto simp: leaseLater_def sameBinding_def runningLease_def lease_ok_def begun(4))
  then show ?thesis by (simp add: begun(8))
qed

lemma closeExecutionLease_cases:
  obtains (unchanged) r where "closeExecutionLease t c = (t, r)"
  | (expired) ow l where "findLease t (cl_childSessionId c) = Some (ow, l)"
      "ls_owner l = cl_owner c" "\<not> isTerminalStatus (ls_status l)"
      "timeGe (cl_occurredAt c) (ls_expiresAt l)"
      "closeExecutionLease t c =
         (putLease t ow (cl_childSessionId c)
            (expiredLease (claimedBy l (cl_executionTurnId c)) (cl_occurredAt c)),
          Inr (expiredLease (claimedBy l (cl_executionTurnId c)) (cl_occurredAt c)))"
  | (closed) ow l where "findLease t (cl_childSessionId c) = Some (ow, l)"
      "ls_owner l = cl_owner c" "\<not> isTerminalStatus (ls_status l)"
      "\<not> timeGe (cl_occurredAt c) (ls_expiresAt l)"
      "ls_status l = LeaseRunning \<Longrightarrow> ls_executionTurnId l = Some (cl_executionTurnId c)"
      "ls_status l = LeaseReady \<Longrightarrow> cl_status c \<noteq> CloseSucceeded"
      "executionLeaseRecordSchema (terminalLease l c)"
      "closeExecutionLease t c =
         (putLease t ow (cl_childSessionId c) (terminalLease l c), Inr (terminalLease l c))"
proof (cases "findLease t (cl_childSessionId c)")
  case None
  then show thesis by (intro unchanged) (simp add: closeExecutionLease_def)
next
  case (Some r)
  obtain ow l where r: "r = (ow, l)" by (cases r)
  note f = Some[unfolded r]
  let ?open = "ls_owner l = cl_owner c \<and> \<not> isTerminalStatus (ls_status l)"
  let ?stop = "(ls_status l = LeaseRunning \<and> ls_executionTurnId l \<noteq> Some (cl_executionTurnId c)) \<or>
    (ls_status l = LeaseReady \<and> cl_status c = CloseSucceeded) \<or>
    \<not> executionLeaseRecordSchema (terminalLease l c)"
  consider "\<not> ?open \<or> (\<not> timeGe (cl_occurredAt c) (ls_expiresAt l) \<and> ?stop)"
    | "?open" "timeGe (cl_occurredAt c) (ls_expiresAt l)"
    | "?open" "\<not> timeGe (cl_occurredAt c) (ls_expiresAt l)" "\<not> ?stop" by blast
  then show thesis
  proof cases
    case 1
    then have "fst (closeExecutionLease t c) = t" by (auto simp: closeExecutionLease_def f)
    then show thesis by (intro unchanged[of "snd (closeExecutionLease t c)"]) (simp add: prod_eq_iff)
  next
    case 2
    then show thesis
      by (intro expired[OF f]) (simp_all add: closeExecutionLease_def f expiredLease_def Let_def)
  next
    case 3
    then show thesis by (intro closed[OF f]) (auto simp: closeExecutionLease_def f)
  qed
qed

lemma claimedBy_later:
  "lease_ok ow child l \<Longrightarrow> sameBinding l (claimedBy l turn)"
  "lease_ok ow child l \<Longrightarrow> ls_executionTurnId l \<noteq> None \<Longrightarrow> claimedBy l turn = l"
  "ls_status (claimedBy l turn) = ls_status l" "ls_closedAt (claimedBy l turn) = ls_closedAt l"
  "ls_capabilityPlan (claimedBy l turn) = ls_capabilityPlan l"
  "ls_executionTurnId (claimedBy l turn) \<noteq> None"
  by (auto simp: claimedBy_def sameBinding_def)

lemma closeExecutionLease_ok:
  assumes ok: "store_ok h t"
  shows "store_ok h (fst (closeExecutionLease t c))"
proof (cases rule: closeExecutionLease_cases[of t c])
  case (unchanged r)
  then show ?thesis using ok by simp
next
  case (expired ow l)
  note f = findLease_bucket[OF ok expired(1)]
  have "lease_ok ow (cl_childSessionId c) l"
    by (rule sessions_okD(4)[OF bucket_okD(3)[OF bucketOf_ok[OF ok]] f(2)])
  then have "store_ok h (putLease t ow (cl_childSessionId c)
      (expiredLease (claimedBy l (cl_executionTurnId c)) (cl_occurredAt c)))"
    by (intro putLease_ok[OF ok expired(1)])
      (auto simp: leaseLater_def sameBinding_def expiredLease_def lease_ok_def claimedBy_def)
  then show ?thesis by (simp add: expired(5))
next
  case (closed ow l)
  note f = findLease_bucket[OF ok closed(1)]
  have l: "lease_ok ow (cl_childSessionId c) l"
    by (rule sessions_okD(4)[OF bucket_okD(3)[OF bucketOf_ok[OF ok]] f(2)])
  have up: "ls_status l \<le> closeLeaseStatus (cl_status c)"
    by (rule open_le_terminal[OF closed(3)]) simp
  have "closeLeaseStatus (cl_status c) \<noteq> LeaseRunning" "closeLeaseStatus (cl_status c) \<noteq> LeaseReady"
    by (cases "cl_status c"; simp)+
  with l up have "store_ok h (putLease t ow (cl_childSessionId c) (terminalLease l c))"
    by (intro putLease_ok[OF ok closed(1)])
      (auto simp: leaseLater_def sameBinding_def terminalLease_def lease_ok_def claimedBy_def)
  then show ?thesis by (simp add: closed(8))
qed

section \<open>Closing a parent turn\<close>

lemma map_of_map_values: "map_of (map (\<lambda>(k, v). (k, f v)) m) k = map_option f (map_of m k)"
  by (induction m) auto

definition parentClosedBucket ::
  "OwnerBucket \<Rightarrow> CloseParentTurnLeasesStoreCommand \<Rightarrow> OwnerBucket" where
  "parentClosedBucket b c =
     (let b0 = pruneClosedParentTurns b (cp_occurredAt c)
      in b0\<lparr>closedParentTurns := mapSet (cp_parentSessionId c, cp_parentTurnId c) (cp_occurredAt c)
              (closedParentTurns b0),
            leases := map (\<lambda>(child, l). (child, if closedByParent c l then parentTerminalLease c l else l))
              (leases b0)\<rparr>)"

lemma closeParentTurn_cases:
  obtains (refused) "\<not> timestampSchema (cp_occurredAt c)"
      "closeParentTurnExecutionLeases t c = (t, Inl BOOTSTRAP_STORE_INVARIANT_VIOLATION)"
  | (closed) ls where "timestampSchema (cp_occurredAt c)"
      "closeParentTurnExecutionLeases t c =
         (putBucket (ensureBucket t (cp_owner c)) (cp_owner c)
            (parentClosedBucket (bucketOf t (cp_owner c)) c), Inr ls)"
  by (cases "timestampSchema (cp_occurredAt c)")
    (auto simp: closeParentTurnExecutionLeases_def parentClosedBucket_def Let_def)

lemma parentClosed_lease:
  assumes "lease_ok ow child l"
  shows "leaseLater l (if closedByParent c l then parentTerminalLease c l else l)"
    and "lease_ok ow child (if closedByParent c l then parentTerminalLease c l else l)"
proof -
  have "parentLeaseStatus s \<noteq> LeaseRunning" "parentLeaseStatus s \<noteq> LeaseReady" for s
    by (cases s; simp)+
  moreover have "ls_status l \<le> parentLeaseStatus (cp_status c)" if "closedByParent c l"
    by (rule open_le_terminal) (use that in \<open>auto simp: closedByParent_def\<close>)
  ultimately show "leaseLater l (if closedByParent c l then parentTerminalLease c l else l)"
    "lease_ok ow child (if closedByParent c l then parentTerminalLease c l else l)"
    using assms by (auto simp: leaseLater_def sameBinding_def parentTerminalLease_def lease_ok_def)
qed

lemma parentClosed_leases:
  "map_of (leases (parentClosedBucket b c)) child =
     map_option (\<lambda>l. if closedByParent c l then parentTerminalLease c l else l) (map_of (leases b) child)"
  by (simp add: parentClosedBucket_def Let_def map_of_map_values)

lemma closeParentTurn_ok:
  assumes ok: "store_ok h t"
  shows "store_ok h (fst (closeParentTurnExecutionLeases t c))"
proof (cases rule: closeParentTurn_cases[of c t])
  case refused
  then show ?thesis using ok by simp
next
  case (closed ls)
  let ?ow = "cp_owner c"
  let ?b = "parentClosedBucket (bucketOf t ?ow) c"
  have bok: "bucket_ok h ?ow (bucketOf t ?ow)" by (rule bucketOf_ok[OF ok])
  note se = bucket_okD(3)[OF bok]
  have simps: "grants ?b = grants (bucketOf t ?ow)" "families ?b = families (bucketOf t ?ow)"
    "allocatedDraftIds ?b = allocatedDraftIds (bucketOf t ?ow)"
    "workflows ?b = workflows (bucketOf t ?ow)"
    "testExecutions ?b = testExecutions (bucketOf t ?ow)"
    "testInputGrants ?b = testInputGrants (bucketOf t ?ow)"
    by (simp_all add: parentClosedBucket_def Let_def)
  have "map fst (leases ?b) = map fst (leases (bucketOf t ?ow))"
    by (simp add: parentClosedBucket_def Let_def split_beta comp_def)
  then have keys: "keys_distinct (leases ?b)" using sessions_okD(2)[OF se] by simp
  have "sessions_ok ?ow ?b"
  proof (rule sessions_ok_leases[OF se simps(1) keys])
    fix child l' assume "map_of (leases ?b) child = Some l'"
    then obtain l where l: "map_of (leases (bucketOf t ?ow)) child = Some l"
        "l' = (if closedByParent c l then parentTerminalLease c l else l)"
      by (auto simp: parentClosed_leases)
    from parentClosed_lease[OF sessions_okD(4)[OF se l(1)], of c] l
    show "\<exists>l. map_of (leases (bucketOf t ?ow)) child = Some l \<and> sameBinding l l' \<and> lease_ok ?ow child l'"
      by (auto simp: leaseLater_def)
  next
    fix child l assume l: "map_of (leases (bucketOf t ?ow)) child = Some l"
    from parentClosed_lease(1)[OF sessions_okD(4)[OF se l], of c] l
    show "\<exists>l'. map_of (leases ?b) child = Some l' \<and> sameBinding l l'"
      by (auto simp: parentClosed_leases leaseLater_def)
  qed
  then have "bucket_ok h ?ow ?b" using simps by (intro bucket_ok_sessions[OF bok]) simp_all
  then have "store_ok h (putBucket (ensureBucket t ?ow) ?ow ?b)"
    by (rule store_ok_update[OF store_ok_ensure[OF ok]])
      (auto simp: simps parentClosed_leases dom_def)
  then show ?thesis by (simp add: closed(2))
qed

end
