(* ===== verification/Store_Machine.thy ===== *)
theory Store_Machine
  imports Lease_Preservation
begin

text \<open>
  The test-policy operations keep the invariant; with them every call does, so it holds in every
  reachable state. The store is an instance of the machine interfaces of theory \<open>Machine\<close>:
  its invariant, and what its operations never undo.
\<close>

section \<open>Test-policy operations\<close>

lemma authorizeTestInput_cases:
  obtains (unchanged) r where "authorizeTestInput t c = (t, r)"
  | (authorized) b g where "getBucket t (st_owner (au_step c)) = Some b"
      "\<not> inputMalformed c" "validateTestStep b (au_step c) = None"
      "\<not> timeGe (au_occurredAt c) (st_expiresAt (au_step c))"
      "map_of (testInputGrants b) (testStepKey (au_step c)) = None"
      "g = \<lparr>ig_step = au_step c, ig_requestId = au_requestId c,
        ig_responderPrincipalId = au_principalId c, ig_authorizedAt = au_occurredAt c,
        ig_consumedAt = None\<rparr>"
      "testInputGrantRecordSchema g"
      "authorizeTestInput t c =
         (putBucket t (st_owner (au_step c))
            (b\<lparr>testInputGrants := mapSet (testStepKey (au_step c)) g (testInputGrants b)\<rparr>), Inr g)"
proof -
  let ?g = "\<lparr>ig_step = au_step c, ig_requestId = au_requestId c,
        ig_responderPrincipalId = au_principalId c, ig_authorizedAt = au_occurredAt c,
        ig_consumedAt = None\<rparr>"
  let ?step = "au_step c"
  show thesis
  proof (cases "fst (authorizeTestInput t c) = t")
    case True
    then show thesis by (intro unchanged[of "snd (authorizeTestInput t c)"]) (simp add: prod_eq_iff)
  next
    case False
    then obtain b where b: "getBucket t (st_owner ?step) = Some b"
      by (cases "getBucket t (st_owner ?step)") (auto simp: authorizeTestInput_def split: if_splits)
    have "\<not> inputMalformed c" "validateTestStep b ?step = None"
      "\<not> timeGe (au_occurredAt c) (st_expiresAt ?step)"
      "map_of (testInputGrants b) (testStepKey ?step) = None" "testInputGrantRecordSchema ?g"
      using False b
      by (auto simp: authorizeTestInput_def Let_def simp del: not_None_eq
          split: if_splits option.splits)
    with b show thesis by (intro authorized[OF b _ _ _ _ refl]) (simp_all add: authorizeTestInput_def Let_def)
  qed
qed

text \<open>A started execution always satisfies its schema, so the last check cannot fail.\<close>

lemma startedExecution_schema:
  "testCapabilityStepScopeSchema (be_step c) \<Longrightarrow> timestampSchema (be_occurredAt c) \<Longrightarrow>
   testCapabilityExecutionRecordSchema (startedExecution c approval)"
  by (simp add: testCapabilityExecutionRecordSchema_def startedExecution_def)

definition consumedGrant ::
  "TestInputGrantRecord \<Rightarrow> BeginTestCapabilityExecutionStoreCommand \<Rightarrow> TestInputGrantRecord" where
  "consumedGrant g c = g\<lparr>ig_consumedAt := Some (be_occurredAt c)\<rparr>"

lemma beginTestCapabilityExecution_cases:
  obtains (unchanged) e where "beginTestCapabilityExecution t c = (t, Inl e)"
  | (plain) b where "getBucket t (st_owner (be_step c)) = Some b"
      "testCapabilityStepScopeSchema (be_step c)" "timestampSchema (be_occurredAt c)"
      "validateTestStep b (be_step c) = None"
      "\<not> timeGe (be_occurredAt c) (st_expiresAt (be_step c))"
      "map_of (testExecutions b) (testStepKey (be_step c)) = None" "\<not> be_consequential c"
      "beginTestCapabilityExecution t c =
         (putBucket t (st_owner (be_step c))
            (b\<lparr>testExecutions := mapSet (testStepKey (be_step c)) (startedExecution c NotRequired)
                 (testExecutions b)\<rparr>),
          Inr (startedExecution c NotRequired))"
  | (verified) b g where "getBucket t (st_owner (be_step c)) = Some b"
      "testCapabilityStepScopeSchema (be_step c)" "timestampSchema (be_occurredAt c)"
      "validateTestStep b (be_step c) = None"
      "\<not> timeGe (be_occurredAt c) (st_expiresAt (be_step c))"
      "map_of (testExecutions b) (testStepKey (be_step c)) = None" "be_consequential c"
      "map_of (testInputGrants b) (testStepKey (be_step c)) = Some g" "ig_consumedAt g = None"
      "st_stepFingerprint (ig_step g) = st_stepFingerprint (be_step c)"
      "st_capabilityId (ig_step g) = st_capabilityId (be_step c)"
      "st_schemaFingerprint (ig_step g) = st_schemaFingerprint (be_step c)"
      "beginTestCapabilityExecution t c =
         (putBucket t (st_owner (be_step c))
            (b\<lparr>testInputGrants := mapSet (testStepKey (be_step c)) (consumedGrant g c)
                 (testInputGrants b),
               testExecutions := mapSet (testStepKey (be_step c)) (startedExecution c Verified)
                 (testExecutions b)\<rparr>),
          Inr (startedExecution c Verified))"
proof -
  let ?step = "be_step c"
  show thesis
  proof (cases "testCapabilityStepScopeSchema ?step \<and> timestampSchema (be_occurredAt c)")
    case False
    then show thesis
      by (intro unchanged[of TP_TEST_POLICY_STORE_INVARIANT_VIOLATION])
        (auto simp: beginTestCapabilityExecution_def)
  next
    case schema: True
    note started = startedExecution_schema[of c]
    show thesis
    proof (cases "getBucket t (st_owner ?step)")
      case None
      then show thesis using schema by (intro unchanged) (simp add: beginTestCapabilityExecution_def)
    next
      case b: (Some b)
      show thesis
      proof (cases "validateTestStep b ?step = None \<and> map_of (testExecutions b) (testStepKey ?step) = None
          \<and> \<not> timeGe (be_occurredAt c) (st_expiresAt ?step)")
        case False
        have "fst (beginTestCapabilityExecution t c) = t \<and>
            (\<exists>e. snd (beginTestCapabilityExecution t c) = Inl e)"
          using schema b False
          by (cases "validateTestStep b ?step") (auto simp: beginTestCapabilityExecution_def)
        then obtain e where "snd (beginTestCapabilityExecution t c) = Inl e"
          "fst (beginTestCapabilityExecution t c) = t" by blast
        then show thesis by (intro unchanged[of e]) (simp add: prod_eq_iff)
      next
        case ready: True
        show thesis
        proof (cases "be_consequential c")
          case False
          then show thesis
            using schema b ready started
            by (intro plain[OF b]) (simp_all add: beginTestCapabilityExecution_def startExecution_def)
        next
          case cons: True
          show thesis
          proof (cases "map_of (testInputGrants b) (testStepKey ?step)")
            case None
            then show thesis
              using schema b ready cons
              by (intro unchanged[of TP_INPUT_REQUIRED]) (simp add: beginTestCapabilityExecution_def)
          next
            case g: (Some g)
            show thesis
            proof (cases "ig_consumedAt g = None \<and>
                st_stepFingerprint (ig_step g) = st_stepFingerprint ?step \<and>
                st_capabilityId (ig_step g) = st_capabilityId ?step \<and>
                st_schemaFingerprint (ig_step g) = st_schemaFingerprint ?step")
              case False
              then show thesis
                using schema b ready cons g
                by (intro unchanged[of "if ig_consumedAt g = None then TP_INPUT_STALE else TP_INPUT_REPLAYED"])
                  (auto simp: beginTestCapabilityExecution_def)
            next
              case True
              then show thesis
                using schema b ready cons g started
                by (intro verified[OF b]) (simp_all add: beginTestCapabilityExecution_def
                    startExecution_def consumedGrant_def)
            qed
          qed
        qed
      qed
    qed
  qed
qed

lemma completeTestCapabilityExecution_cases:
  obtains (unchanged) r where "completeTestCapabilityExecution t c = (t, r)"
  | (completed) b x where "getBucket t (ce_owner c) = Some b"
      "map_of (testExecutions b) (completionKey c) = Some x"
      "st_leaseId (tx_step x) = ce_leaseId c" "tx_status x = ExecStarted"
      "testCapabilityExecutionRecordSchema (completedExecution x c)"
      "completeTestCapabilityExecution t c =
         (putBucket t (ce_owner c)
            (b\<lparr>testExecutions := mapSet (completionKey c) (completedExecution x c) (testExecutions b)\<rparr>),
          Inr (completedExecution x c))"
proof (cases "fst (completeTestCapabilityExecution t c) = t")
  case True
  then show thesis
    by (intro unchanged[of "snd (completeTestCapabilityExecution t c)"]) (simp add: prod_eq_iff)
next
  case False
  then obtain b where b: "getBucket t (ce_owner c) = Some b"
    by (cases "getBucket t (ce_owner c)") (auto simp: completeTestCapabilityExecution_def)
  with False obtain x where x: "map_of (testExecutions b) (completionKey c) = Some x"
    by (cases "map_of (testExecutions b) (completionKey c)")
      (auto simp: completeTestCapabilityExecution_def)
  have "st_leaseId (tx_step x) = ce_leaseId c" "tx_status x = ExecStarted"
      "testCapabilityExecutionRecordSchema (completedExecution x c)"
    using False b x by (auto simp: completeTestCapabilityExecution_def split: if_splits)
  with b x show thesis by (intro completed[OF b x]) (simp_all add: completeTestCapabilityExecution_def)
qed

lemma bucket_ok_tests:
  assumes b: "bucket_ok h ow b" and ex: "executions_ok ow b'"
    and same: "families b' = families b" "allocatedDraftIds b' = allocatedDraftIds b"
      "workflows b' = workflows b" "grants b' = grants b" "leases b' = leases b"
    and kept: "\<And>k x. map_of (testExecutions b) k = Some x \<Longrightarrow> tx_status x = ExecSucceeded \<Longrightarrow>
      map_of (testExecutions b') k = Some x"
  shows "bucket_ok h ow b'"
proof -
  have "evidence_supported b'"
    using bucket_okD(5)[OF b] supportedEvidence_mono[OF _ kept] same(3)
    unfolding evidence_supported_def by metis
  then show ?thesis
    using bucket_okD[OF b] ex same families_ok_cong[of b' b h ow] workflows_ok_cong[of b' b ow]
      sessions_ok_cong[of b' b ow]
    by (simp add: bucket_ok_def)
qed

lemma authorizeTestInput_ok:
  assumes ok: "store_ok h t"
  shows "store_ok h (fst (authorizeTestInput t c))"
proof (cases rule: authorizeTestInput_cases[of t c])
  case (unchanged r)
  then show ?thesis using ok by simp
next
  case (authorized b g)
  let ?ow = "st_owner (au_step c)"
  let ?b = "b\<lparr>testInputGrants := mapSet (testStepKey (au_step c)) g (testInputGrants b)\<rparr>"
  have bo: "bucketOf t ?ow = b" by (rule bucketOf_Some[OF authorized(1)])
  have bok: "bucket_ok h ?ow b" by (rule store_okD(2)[OF ok authorized(1)])
  note ex = bucket_okD(4)[OF bok]
  have "executions_ok ?ow ?b"
    unfolding executions_ok_def
  proof (intro conjI allI impI)
    fix k x assume x: "map_of (testExecutions ?b) k = Some x" "tx_approval x = Verified"
    with executions_okD(4)[OF ex, of k x] obtain g' where
      "map_of (testInputGrants b) k = Some g'" "consumedBy g' x" by auto
    with authorized(5) show "\<exists>g. map_of (testInputGrants ?b) k = Some g \<and> consumedBy g x" by auto
  qed (use executions_okD[OF ex] authorized(6,7) in \<open>auto split: if_splits\<close>)
  then have "bucket_ok h ?ow ?b" by (rule bucket_ok_tests[OF bok]) simp_all
  then have "store_ok h (putBucket t ?ow ?b)"
    by (rule store_ok_update[OF ok]) (simp_all add: bo)
  then show ?thesis by (simp add: authorized(8))
qed

lemma beginTestCapabilityExecution_ok:
  assumes ok: "store_ok h t"
  shows "store_ok h (fst (beginTestCapabilityExecution t c))"
proof (cases rule: beginTestCapabilityExecution_cases[of t c])
  case (unchanged r)
  then show ?thesis using ok by simp
next
  case (plain b)
  let ?ow = "st_owner (be_step c)" and ?k = "testStepKey (be_step c)"
  let ?x = "startedExecution c NotRequired"
  let ?b = "b\<lparr>testExecutions := mapSet ?k ?x (testExecutions b)\<rparr>"
  have bo: "bucketOf t ?ow = b" by (rule bucketOf_Some[OF plain(1)])
  have bok: "bucket_ok h ?ow b" by (rule store_okD(2)[OF ok plain(1)])
  note ex = bucket_okD(4)[OF bok]
  have "executions_ok ?ow ?b"
    unfolding executions_ok_def
  proof (intro conjI allI impI)
    fix k g assume "map_of (testInputGrants ?b) k = Some g" "ig_consumedAt g \<noteq> None"
    with executions_okD(6)[OF ex, of k g] obtain x where
      "map_of (testExecutions b) k = Some x" "consumedBy g x" by auto
    with plain(6) show "\<exists>x. map_of (testExecutions ?b) k = Some x \<and> consumedBy g x" by auto
  next
    fix k x assume "map_of (testExecutions ?b) k = Some x"
    then show "testCapabilityExecutionRecordSchema x"
      using executions_okD(3)[OF ex, of k x] startedExecution_schema[OF plain(2,3)]
      by (auto split: if_splits)
  qed (use executions_okD[OF ex] in \<open>auto simp: startedExecution_def split: if_splits\<close>)
  then have "bucket_ok h ?ow ?b" by (rule bucket_ok_tests[OF bok]) (use plain(6) in auto)
  then have "store_ok h (putBucket t ?ow ?b)"
    by (rule store_ok_update[OF ok]) (simp_all add: bo)
  then show ?thesis by (simp add: plain(8))
next
  case (verified b g)
  let ?ow = "st_owner (be_step c)" and ?k = "testStepKey (be_step c)"
  let ?x = "startedExecution c Verified" and ?g = "consumedGrant g c"
  let ?b = "b\<lparr>testInputGrants := mapSet ?k ?g (testInputGrants b),
              testExecutions := mapSet ?k ?x (testExecutions b)\<rparr>"
  have bo: "bucketOf t ?ow = b" by (rule bucketOf_Some[OF verified(1)])
  have bok: "bucket_ok h ?ow b" by (rule store_okD(2)[OF ok verified(1)])
  note ex = bucket_okD(4)[OF bok]
  have used: "consumedBy ?g ?x"
    using verified(10-12) by (simp add: consumedBy_def consumedGrant_def startedExecution_def)
  have gk: "testStepKey (ig_step g) = ?k" "st_owner (ig_step g) = ?ow" "testInputGrantRecordSchema g"
    using executions_okD(5)[OF ex verified(8)] by simp_all
  have "executions_ok ?ow ?b"
    unfolding executions_ok_def
  proof (intro conjI allI impI)
    fix k g' assume g': "map_of (testInputGrants ?b) k = Some g'"
    then show "testStepKey (ig_step g') = k" "st_owner (ig_step g') = ?ow"
      "testInputGrantRecordSchema g'"
      using executions_okD(5)[OF ex, of k g'] gk verified(3)
      by (auto simp: consumedGrant_def testInputGrantRecordSchema_def split: if_splits)
    assume "ig_consumedAt g' \<noteq> None"
    then show "\<exists>x. map_of (testExecutions ?b) k = Some x \<and> consumedBy g' x"
      using g' used executions_okD(6)[OF ex, of k g'] by (auto split: if_splits)
  next
    fix k x assume x: "map_of (testExecutions ?b) k = Some x"
    then show "testStepKey (tx_step x) = k" "st_owner (tx_step x) = ?ow"
      "testCapabilityExecutionRecordSchema x"
      using executions_okD(3)[OF ex, of k x] startedExecution_schema[OF verified(2,3)]
      by (auto simp: startedExecution_def split: if_splits)
    assume "tx_approval x = Verified"
    then show "\<exists>g. map_of (testInputGrants ?b) k = Some g \<and> consumedBy g x"
      using x used executions_okD(4)[OF ex, of k x] by (auto split: if_splits)
  qed (use executions_okD(1,2)[OF ex] in simp_all)
  then have "bucket_ok h ?ow ?b" by (rule bucket_ok_tests[OF bok]) (use verified(6) in auto)
  then have "store_ok h (putBucket t ?ow ?b)"
    by (rule store_ok_update[OF ok]) (simp_all add: bo)
  then show ?thesis by (simp add: verified(13))
qed

lemma completeTestCapabilityExecution_ok:
  assumes ok: "store_ok h t"
  shows "store_ok h (fst (completeTestCapabilityExecution t c))"
proof (cases rule: completeTestCapabilityExecution_cases[of t c])
  case (unchanged r)
  then show ?thesis using ok by simp
next
  case (completed b x)
  let ?ow = "ce_owner c" and ?x = "completedExecution x c"
  let ?b = "b\<lparr>testExecutions := mapSet (completionKey c) ?x (testExecutions b)\<rparr>"
  have bo: "bucketOf t ?ow = b" by (rule bucketOf_Some[OF completed(1)])
  have bok: "bucket_ok h ?ow b" by (rule store_okD(2)[OF ok completed(1)])
  note ex = bucket_okD(4)[OF bok]
  have same: "tx_step ?x = tx_step x" "tx_approval ?x = tx_approval x" "tx_startedAt ?x = tx_startedAt x"
    by (simp_all add: completedExecution_def)
  then have used: "consumedBy g ?x = consumedBy g x" for g by (simp add: consumedBy_def)
  have "executions_ok ?ow ?b"
    unfolding executions_ok_def
  proof (intro conjI allI impI)
    fix k g assume "map_of (testInputGrants ?b) k = Some g" "ig_consumedAt g \<noteq> None"
    with executions_okD(6)[OF ex, of k g] obtain y where
      y: "map_of (testExecutions b) k = Some y" "consumedBy g y" by auto
    show "\<exists>x. map_of (testExecutions ?b) k = Some x \<and> consumedBy g x"
    proof (cases "k = completionKey c")
      case True
      with y completed(2) used have "consumedBy g ?x" by simp
      with True show ?thesis by simp
    next
      case False
      with y show ?thesis by simp
    qed
  next
    fix k y assume y: "map_of (testExecutions ?b) k = Some y"
    then show "testStepKey (tx_step y) = k" "st_owner (tx_step y) = ?ow"
      "testCapabilityExecutionRecordSchema y"
      using executions_okD(3)[OF ex, of k] completed(2,5) same by (auto split: if_splits)
    assume "tx_approval y = Verified"
    then show "\<exists>g. map_of (testInputGrants ?b) k = Some g \<and> consumedBy g y"
      using y used executions_okD(4)[OF ex, of k] completed(2) same by (auto split: if_splits)
  qed (use executions_okD[OF ex] in auto)
  then have "bucket_ok h ?ow ?b" by (rule bucket_ok_tests[OF bok]) (use completed(2,4) in auto)
  then have "store_ok h (putBucket t ?ow ?b)"
    by (rule store_ok_update[OF ok]) (simp_all add: bo)
  then show ?thesis by (simp add: completed(6))
qed

section \<open>The store as a machine\<close>

lemma callState_ok: "store_ok h t \<Longrightarrow> store_ok h (callState h t c)"
  by (cases c) (simp_all add: mutate_ok createBootstrapGrant_ok redeemBootstrapGrant_ok
      beginExecutionLease_ok closeExecutionLease_ok closeParentTurn_ok authorizeTestInput_ok
      beginTestCapabilityExecution_ok completeTestCapabilityExecution_ok)

interpretation store: invariant_machine "callState h" "store_ok h" for h
  by unfold_locales (rule callState_ok)

lemma runCalls_foldl: "runCalls h t cs = foldl (callState h) t cs"
  by (induction cs arbitrary: t) simp_all

lemma runCalls_ok: "store_ok h t \<Longrightarrow> store_ok h (runCalls h t cs)"
  unfolding runCalls_foldl by (rule store.run_inv)

lemma reachable_ok: "reachable h t \<Longrightarrow> store_ok h t"
  by (induction rule: reachable.induct) (auto simp: store_step_iff callState_ok)

lemma reachable_bucket: "reachable h t \<Longrightarrow> getBucket t ow = Some b \<Longrightarrow> bucket_ok h ow b"
  by (rule store_okD(2)[OF reachable_ok])

lemma reachable_iff: "reachable h t \<longleftrightarrow> (\<exists>cs. t = runCalls h [] cs)"
proof
  show "reachable h t \<Longrightarrow> \<exists>cs. t = runCalls h [] cs"
  proof (induction rule: reachable.induct)
    case initial
    show ?case by (rule exI[of _ "[]"]) simp
  next
    case (step t t')
    then obtain cs c where "t = runCalls h [] cs" "t' = callState h t c"
      by (auto simp: store_step_iff)
    then show ?case by (intro exI[of _ "cs @ [c]"]) (simp add: runCalls_foldl)
  qed
  show "\<exists>cs. t = runCalls h [] cs \<Longrightarrow> reachable h t"
    using reachable_runCalls[OF reachable.initial] by blast
qed

end
