(* ===== verification/Store_History.thy ===== *)
theory Store_History
  imports Store_Machine
begin

text \<open>
  What no operation of the store ever undoes. Each kind of stored record has its own relation
  between an earlier and a later state; the relation of stores is built from them, every call
  respects it, and so does every run (\<open>history_machine\<close> of theory \<open>Machine\<close>).
\<close>

section \<open>Relations on maps\<close>

definition map_later :: "('v \<Rightarrow> 'v \<Rightarrow> bool) \<Rightarrow> ('k \<Rightarrow> 'v option) \<Rightarrow> ('k \<Rightarrow> 'v option) \<Rightarrow> bool" where
  "map_later R m m' \<longleftrightarrow> (\<forall>k v. m k = Some v \<longrightarrow> (\<exists>v'. m' k = Some v' \<and> R v v'))"

lemma map_later_refl: "(\<And>v. R v v) \<Longrightarrow> map_later R m m"
  by (auto simp: map_later_def)

lemma map_later_trans:
  assumes R: "\<And>v v' v''. R v v' \<Longrightarrow> R v' v'' \<Longrightarrow> R v v''"
    and "map_later R m m'" "map_later R m' m''"
  shows "map_later R m m''"
  unfolding map_later_def
proof (intro allI impI)
  fix k v assume "m k = Some v"
  with assms(2) obtain v' where v': "m' k = Some v'" "R v v'" by (auto simp: map_later_def)
  with assms(3) obtain v'' where "m'' k = Some v''" "R v' v''" by (auto simp: map_later_def)
  with v' R show "\<exists>v''. m'' k = Some v'' \<and> R v v''" by blast
qed

lemma map_later_put:
  assumes "\<And>v. R v v" and "\<And>v. map_of m k = Some v \<Longrightarrow> R v v0"
  shows "map_later R (map_of m) (map_of (mapSet k v0 m))"
  using assms by (auto simp: map_later_def)

lemma map_laterD: "map_later R m m' \<Longrightarrow> m k = Some v \<Longrightarrow> \<exists>v'. m' k = Some v' \<and> R v v'"
  by (auto simp: map_later_def)

section \<open>Records\<close>

text \<open>
  A family keeps its identity and its versions; any change to it is counted by its revision, and
  a deleted family is final.
\<close>

definition familyLater :: "FamilyRecord \<Rightarrow> FamilyRecord \<Rightarrow> bool" where
  "familyLater r r' \<longleftrightarrow>
     r' = r \<or>
     (fam_revision (fr_family r) < fam_revision (fr_family r') \<and>
      fam_lifecycle (fr_family r) \<noteq> Deleted \<and>
      fam_agentId (fr_family r') = fam_agentId (fr_family r) \<and>
      fam_owner (fr_family r') = fam_owner (fr_family r) \<and>
      fam_createdAt (fr_family r') = fam_createdAt (fr_family r) \<and>
      (\<exists>vs. fr_versions r' = fr_versions r @ vs))"

text \<open>A workflow keeps its identity and its log; once published it is final.\<close>

definition workflowLater :: "BuildWorkflowRecord \<Rightarrow> BuildWorkflowRecord \<Rightarrow> bool" where
  "workflowLater w w' \<longleftrightarrow>
     w' = w \<or>
     (wf_revision w < wf_revision w' \<and> wf_phase w \<noteq> Published \<and>
      wf_workflowId w' = wf_workflowId w \<and> wf_agentId w' = wf_agentId w \<and>
      wf_owner w' = wf_owner w \<and> wf_draftId w' = wf_draftId w \<and>
      wf_createdAt w' = wf_createdAt w \<and> wf_draftRevision w \<le> wf_draftRevision w' \<and>
      (\<exists>ts. wf_transitions w' = wf_transitions w @ ts))"

text \<open>A grant is only ever marked redeemed, an input only ever consumed, each once.\<close>

definition grantLater :: "BootstrapGrantRecord \<Rightarrow> BootstrapGrantRecord \<Rightarrow> bool" where
  "grantLater g g' \<longleftrightarrow>
     g' = g \<or>
     (gr_redeemedAt g = None \<and>
      (\<exists>now child. g' = g\<lparr>gr_redeemedAt := Some now, gr_childSessionId := Some child\<rparr>))"

definition inputLater :: "TestInputGrantRecord \<Rightarrow> TestInputGrantRecord \<Rightarrow> bool" where
  "inputLater g g' \<longleftrightarrow> g' = g \<or> (ig_consumedAt g = None \<and> (\<exists>now. g' = g\<lparr>ig_consumedAt := Some now\<rparr>))"

definition executionLater ::
  "TestCapabilityExecutionRecord \<Rightarrow> TestCapabilityExecutionRecord \<Rightarrow> bool" where
  "executionLater x x' \<longleftrightarrow>
     x' = x \<or>
     (tx_status x = ExecStarted \<and> tx_status x' \<noteq> ExecStarted \<and> tx_step x' = tx_step x \<and>
      tx_approval x' = tx_approval x \<and> tx_startedAt x' = tx_startedAt x)"

lemma record_later_refl [simp]:
  "familyLater r r" "workflowLater w w" "grantLater g g" "inputLater i i" "executionLater x x"
  by (simp_all add: familyLater_def workflowLater_def grantLater_def inputLater_def
      executionLater_def)

lemma familyLater_trans:
  assumes "familyLater a b" and "familyLater b c"
  shows "familyLater a c"
proof (cases "b = a \<or> c = b")
  case True
  with assms show ?thesis by auto
next
  case False
  with assms show ?thesis
    unfolding familyLater_def by (intro disjI2) (elim disjE conjE exE; simp)
qed

lemma workflowLater_trans:
  assumes "workflowLater a b" and "workflowLater b c"
  shows "workflowLater a c"
proof (cases "b = a \<or> c = b")
  case True
  with assms show ?thesis by auto
next
  case False
  with assms show ?thesis
    unfolding workflowLater_def by (intro disjI2) (elim disjE conjE exE; simp)
qed

lemma grantLater_trans: "grantLater a b \<Longrightarrow> grantLater b c \<Longrightarrow> grantLater a c"
  by (auto simp: grantLater_def)

lemma inputLater_trans: "inputLater a b \<Longrightarrow> inputLater b c \<Longrightarrow> inputLater a c"
  by (auto simp: inputLater_def)

lemma executionLater_trans: "executionLater a b \<Longrightarrow> executionLater b c \<Longrightarrow> executionLater a c"
  by (auto simp: executionLater_def)

section \<open>Buckets\<close>

definition bucketLater :: "OwnerBucket \<Rightarrow> OwnerBucket \<Rightarrow> bool" where
  "bucketLater b b' \<longleftrightarrow>
     allocatedDraftIds b \<subseteq> allocatedDraftIds b' \<and>
     map_later familyLater (map_of (families b)) (map_of (families b')) \<and>
     map_later workflowLater (map_of (workflows b)) (map_of (workflows b')) \<and>
     map_later (=) (map_of (operations b)) (map_of (operations b')) \<and>
     map_later grantLater (map_of (grants b)) (map_of (grants b')) \<and>
     map_later leaseLater (map_of (leases b)) (map_of (leases b')) \<and>
     map_later inputLater (map_of (testInputGrants b)) (map_of (testInputGrants b')) \<and>
     map_later executionLater (map_of (testExecutions b)) (map_of (testExecutions b'))"

lemmas bucketLater_intros = map_later_refl[of familyLater] map_later_refl[of workflowLater]
  map_later_refl[of grantLater] map_later_refl[of leaseLater] map_later_refl[of inputLater]
  map_later_refl[of executionLater] map_later_refl[of "(=)"]

lemma bucketLater_refl [simp]: "bucketLater b b"
  by (simp add: bucketLater_def bucketLater_intros)

lemma maps_later_trans:
  "map_later familyLater f f' \<Longrightarrow> map_later familyLater f' f'' \<Longrightarrow> map_later familyLater f f''"
  "map_later workflowLater w w' \<Longrightarrow> map_later workflowLater w' w'' \<Longrightarrow> map_later workflowLater w w''"
  "map_later (=) o1 o2 \<Longrightarrow> map_later (=) o2 o3 \<Longrightarrow> map_later (=) o1 o3"
  "map_later grantLater g g' \<Longrightarrow> map_later grantLater g' g'' \<Longrightarrow> map_later grantLater g g''"
  "map_later leaseLater l l' \<Longrightarrow> map_later leaseLater l' l'' \<Longrightarrow> map_later leaseLater l l''"
  "map_later inputLater i i' \<Longrightarrow> map_later inputLater i' i'' \<Longrightarrow> map_later inputLater i i''"
  "map_later executionLater x x' \<Longrightarrow> map_later executionLater x' x'' \<Longrightarrow> map_later executionLater x x''"
  subgoal by (rule map_later_trans[OF familyLater_trans])
  subgoal by (rule map_later_trans[OF workflowLater_trans])
  subgoal by (rule map_later_trans[where R = "(=)", OF trans])
  subgoal by (rule map_later_trans[OF grantLater_trans])
  subgoal by (rule map_later_trans[OF leaseLater_trans])
  subgoal by (rule map_later_trans[OF inputLater_trans])
  subgoal by (rule map_later_trans[OF executionLater_trans])
  done

lemma bucketLater_trans:
  assumes "bucketLater a b" and "bucketLater b c"
  shows "bucketLater a c"
  using assms unfolding bucketLater_def by (blast intro: subset_trans maps_later_trans)

text \<open>Commands: only families, workflows and draft ids can differ.\<close>

lemma bucketLater_command:
  assumes "sameRest b b'" and "allocatedDraftIds b \<subseteq> allocatedDraftIds b'"
    and "map_later familyLater (map_of (families b)) (map_of (families b'))"
    and "map_later workflowLater (map_of (workflows b)) (map_of (workflows b'))"
  shows "bucketLater b b'"
  using assms by (simp add: bucketLater_def sameRest_def bucketLater_intros)

lemma family_put_later:
  assumes "families b' = mapSet aid rec' (families b)" and "map_of (families b) aid = Some rec"
    and "familyLater rec rec'"
  shows "map_later familyLater (map_of (families b)) (map_of (families b'))"
  unfolding assms(1) using assms(2,3) by (intro map_later_put) simp_all

lemma workflow_put_later:
  assumes "workflows b' = mapSet aid w' (workflows b)" and "map_of (workflows b) aid = Some w"
    and "workflowLater w w'"
  shows "map_later workflowLater (map_of (workflows b)) (map_of (workflows b'))"
  unfolding assms(1) using assms(2,3) by (intro map_later_put) simp_all

lemma familyLater_bumped:
  "fam_lifecycle (fr_family rec) \<noteq> Deleted \<Longrightarrow> fam_revision f = fam_revision (fr_family rec) + 1 \<Longrightarrow>
   fam_agentId f = fam_agentId (fr_family rec) \<Longrightarrow> fam_owner f = fam_owner (fr_family rec) \<Longrightarrow>
   fam_createdAt f = fam_createdAt (fr_family rec) \<Longrightarrow>
   familyLater rec (rec\<lparr>fr_family := f\<rparr>)"
  by (auto simp: familyLater_def)

lemma familyLater_published:
  "fam_lifecycle (fr_family rec) \<noteq> Deleted \<Longrightarrow>
   familyLater rec \<lparr>fr_family = publishedFamily (fr_family rec) v now, fr_versions = fr_versions rec @ [v]\<rparr>"
  by (auto simp: familyLater_def publishedFamily_def)

lemma createFamily_later:
  assumes "createFamily h b m c = Inr (b', s)"
  shows "bucketLater b b'"
proof (rule bucketLater_command[OF createFamily_rest[OF assms]])
  note c = createFamily_Inr[OF assms]
  show "map_later familyLater (map_of (families b)) (map_of (families b'))"
    unfolding c(8) using c(3) by (auto simp: map_later_def)
qed (auto simp: createFamily_Inr(8)[OF assms] bucketLater_intros)

lemma allocateBuildWorkflow_later:
  assumes ok: "bucket_ok h ow b" and op: "allocateBuildWorkflow h b m c = Inr (b', s)"
  shows "bucketLater b b'"
  using op
proof (rule allocateBuildWorkflow_Inr)
  fix b1
  assume cr: "createFamily h b m (allocationAsCreation c) =
       Inr (b1, FamilyCreated (createdFamily m (allocationAsCreation c)))"
    and b': "b' = putWorkflow (allocatedWorkflow m c) (al_agentId c) b1"
  note c = createFamily_Inr[OF cr]
  have "map_of (workflows b) (al_agentId c) = None"
    using no_workflow_without_family[OF bucket_okD(2)[OF ok] c(3)]
    by (simp add: allocationAsCreation_def)
  then have "bucketLater b1 b'"
    by (intro bucketLater_command) (auto simp: b' c(8) bucketLater_intros map_later_def)
  with createFamily_later[OF cr] show ?thesis by (rule bucketLater_trans)
qed

lemma beginRevision_later:
  assumes "beginRevision h b m c = Inr (b', s)"
  shows "bucketLater b b'"
  using assms
  by (rule beginRevision_Inr)
    (auto intro!: bucketLater_command family_put_later familyLater_bumped bucketLater_intros
      simp: revisedFamily_def)

lemma publishDraft_later:
  assumes "publishDraft h b m c = Inr (b', s)"
  shows "bucketLater b b'"
  using assms
  by (rule publishDraft_Inr)
    (auto intro!: bucketLater_command family_put_later familyLater_published bucketLater_intros)

lemma lifecycle_later:
  "activateVersion h b m av = Inr (b', s) \<Longrightarrow> bucketLater b b'"
  "archiveFamily h b m c = Inr (b', s) \<Longrightarrow> bucketLater b b'"
  "restoreFamily h b m c = Inr (b', s) \<Longrightarrow> bucketLater b b'"
  "deleteFamily h b m c = Inr (b', s) \<Longrightarrow> bucketLater b b'"
  by (auto intro!: bucketLater_command family_put_later familyLater_bumped bucketLater_intros
      simp: activatedFamily_def archivedFamily_def restoredFamily_def deletedFamily_def
      elim!: activateVersion_Inr archiveFamily_Inr restoreFamily_Inr deleteFamily_Inr)

lemma draft_of_workflow_drafting:
  assumes "workflows_ok ow b" and "map_of (workflows b) aid = Some w"
    and "map_of (families b) aid = Some rec" and "fam_draft (fr_family rec) = Some d"
    and "wf_draftId w = d_draftId d"
  shows "drafting rec w"
  using workflow_linked(1)[OF assms(1-3)] assms(4,5)
  by (auto simp: delivered_def recordDraftIds_def)

lemma patchDraft_later:
  assumes ok: "bucket_ok h ow b" and op: "patchDraft h b m c = Inr (b', s)"
  shows "bucketLater b b'"
  using op
proof (rule patchDraft_Inr)
  fix rec :: FamilyRecord and d
  let ?f = "patchedFamily m c (fr_family rec) d" and ?aid = "pd_agentId c"
  let ?b1 = "putRecord ?aid (rec\<lparr>fr_family := ?f\<rparr>) b"
  assume r: "map_of (families b) ?aid = Some rec" "fam_lifecycle (fr_family rec) \<noteq> Deleted"
    and draft: "fam_draft (fr_family rec) = Some d"
    and b': "b' = (let b1 = ?b1 in case affectedWorkflow b ?aid d of None \<Rightarrow> b1
              | Some w \<Rightarrow> putWorkflow (invalidatedWorkflow m c d w) ?aid b1)"
  have b1: "bucketLater b ?b1"
    using r by (auto intro!: bucketLater_command family_put_later familyLater_bumped
        bucketLater_intros simp: patchedFamily_def)
  show ?thesis
  proof (cases "affectedWorkflow b ?aid d")
    case None
    with b1 show ?thesis by (simp add: b' Let_def)
  next
    case (Some w)
    then have w: "map_of (workflows b) ?aid = Some w" "wf_draftId w = d_draftId d"
      "wf_draftRevision w = d_draftRevision d" by (simp_all add: affectedWorkflow_Some)
    have "drafting rec w"
      by (rule draft_of_workflow_drafting[OF bucket_okD(2)[OF ok] w(1) r(1) draft w(2)])
    then have "workflowLater w (invalidatedWorkflow m c d w)"
      using w(3) by (auto simp: workflowLater_def drafting_def invalidatedWorkflow_def Let_def)
    then have "bucketLater ?b1 (putWorkflow (invalidatedWorkflow m c d w) ?aid ?b1)"
      using w(1)
      by (intro bucketLater_command) (auto intro!: map_later_put bucketLater_intros)
    with b1 show ?thesis unfolding b' Some by (auto simp: Let_def intro: bucketLater_trans)
  qed
qed

lemma submitBuildRole_later:
  assumes ok: "bucket_ok h ow b" and op: "submitBuildRole h b m c = Inr (b', s)"
  shows "bucketLater b b'"
  using op
proof (rule submitBuildRole_Inr)
  fix w and rec :: FamilyRecord and d
  let ?w = "workflowAfterSubmission m c w d"
  let ?f = "familyAfterSubmission m c (fr_family rec) d"
  assume byid: "workflowById b (sb_workflowId c) = Some w"
    and r: "map_of (families b) (wf_agentId w) = Some rec" "fam_lifecycle (fr_family rec) \<noteq> Deleted"
    and err: "submissionError h b m c w (fr_family rec) d = None"
    and b': "b' = putWorkflow ?w (wf_agentId w) (putRecord (wf_agentId w) (rec\<lparr>fr_family := ?f\<rparr>) b)"
  note g = submissionError_None[OF err]
  have w: "map_of (workflows b) (wf_agentId w) = Some w"
    by (rule workflowById_map_of[OF bucket_okD(2)[OF ok] byid])
  have "familyLater rec (rec\<lparr>fr_family := ?f\<rparr>)"
  proof (cases "submissionChanged c d")
    case True
    then show ?thesis
      using r(2) by (intro familyLater_bumped)
        (auto simp: familyAfterSubmission_def submittedFamily_def)
  next
    case False
    then show ?thesis by (simp add: familyAfterSubmission_def)
  qed
  moreover have "wf_phase w \<noteq> Published" using g(6) by (cases "sb_role c") auto
  then have "workflowLater w ?w"
    using g(4) by (auto simp: workflowLater_def workflowAfterSubmission_def submissionDraftRevision_def
        submittedWorkflow_def submissionCommon_def withoutEvidence_def simp del: nextRolePhase.simps)
  ultimately show ?thesis
    using r w by (intro bucketLater_command)
      (auto simp: b' intro!: map_later_put)
qed

lemma workflow_command_later:
  assumes ok: "bucket_ok h ow b"
  shows "recordBuildTest h b m rt = Inr (b', s) \<Longrightarrow> bucketLater b b'"
    and "reopenBuildWorkflow h b m ro = Inr (b', s) \<Longrightarrow> bucketLater b b'"
    and "publishBuildWorkflow h b m pw = Inr (b', s) \<Longrightarrow> bucketLater b b'"
proof -
  note byid = workflowById_map_of[OF bucket_okD(2)[OF ok]]
  show "bucketLater b b'" if "recordBuildTest h b m rt = Inr (b', s)"
    using that
    by (rule recordBuildTest_Inr)
      (auto intro!: bucketLater_command workflow_put_later bucketLater_intros dest!: byid
        simp: workflowLater_def testedWorkflow_def)
  show "bucketLater b b'" if "reopenBuildWorkflow h b m ro = Inr (b', s)"
    using that
    by (rule reopenBuildWorkflow_Inr)
      (auto intro!: bucketLater_command workflow_put_later bucketLater_intros
        dest!: workflowDraftContext_Inr(1) byid simp: workflowLater_def reopenedWorkflow_def)
  show "bucketLater b b'" if "publishBuildWorkflow h b m pw = Inr (b', s)"
    using that
  proof (rule publishBuildWorkflow_Inr)
    fix w and rec :: FamilyRecord and d v
    assume ctx: "workflowDraftContext b (pw_workflowId pw) (pw_agentId pw)
        (pw_expectedWorkflowRevision pw) (pw_expectedRevision pw) (pw_expectedDraftRevision pw)
        = Inr (w, rec, d)"
      and ready: "publishReadyFor w d"
      and b': "b' = putWorkflow (publishedWorkflow m w v) (wf_agentId w)
            (putRecord (pw_agentId pw)
               \<lparr>fr_family = publishedFamily (fr_family rec) v (mb_occurredAt m),
                fr_versions = fr_versions rec @ [v]\<rparr> b)"
    note ctx = workflowDraftContext_Inr[OF ctx]
    have "workflowLater w (publishedWorkflow m w v)"
      using ready by (auto simp: workflowLater_def publishedWorkflow_def publishReadyFor_def)
    then show ?thesis
      using ctx(4,5) byid[OF ctx(1)] by (intro bucketLater_command)
        (auto simp: b' ctx(2) intro!: map_later_put familyLater_published)
  qed
qed

lemmas command_later =
  createFamily_later allocateBuildWorkflow_later beginRevision_later publishDraft_later
  lifecycle_later patchDraft_later submitBuildRole_later workflow_command_later

lemma apply_command_later:
  assumes "bucket_ok h ow b" and "apply_command h b m c = Inr (b', s)"
  shows "bucketLater b b'"
  using assms by (cases c) (simp_all, (blast intro: command_later)+)

section \<open>The store\<close>

definition storeLater :: "Tenants \<Rightarrow> Tenants \<Rightarrow> bool" where
  "storeLater t t' \<longleftrightarrow> (\<forall>ow. bucketLater (bucketOf t ow) (bucketOf t' ow))"

lemma storeLater_refl [simp]: "storeLater t t"
  by (simp add: storeLater_def)

lemma storeLater_trans: "storeLater t t' \<Longrightarrow> storeLater t' t'' \<Longrightarrow> storeLater t t''"
  unfolding storeLater_def by (blast intro: bucketLater_trans)

lemma storeLater_put: "bucketLater (bucketOf t ow) b \<Longrightarrow> storeLater t (putBucket t ow b)"
  by (simp add: storeLater_def)

lemma storeLater_ensure [simp]: "storeLater t (ensureBucket t ow)"
  by (simp add: storeLater_def)

lemma storeLater_put_ensured:
  "bucketLater (bucketOf t ow) b \<Longrightarrow> storeLater t (putBucket (ensureBucket t ow) ow b)"
  by (simp add: storeLater_def)

lemma bucketLater_prune [simp]: "bucketLater b (pruneClosedParentTurns b now)"
  by (simp add: bucketLater_def bucketLater_intros)

lemma mutate_later:
  assumes ok: "store_ok h t"
  shows "storeLater t (fst (mutate h t m c))"
proof (cases rule: mutate_cases[of t m h c])
  case (applied b' s)
  have "bucketLater (bucketOf t (mb_owner m)) b'"
    by (rule apply_command_later[OF bucketOf_ok[OF ok] applied(3)])
  moreover have "operations b' = operations (bucketOf t (mb_owner m))"
    using apply_command_rest[OF applied(3)] by (simp add: sameRest_def)
  then have "bucketLater b' (logOperation m s b')"
    using applied(1) by (auto simp: bucketLater_def logOperation_def bucketLater_intros map_later_def)
  ultimately have "bucketLater (bucketOf t (mb_owner m)) (logOperation m s b')"
    by (rule bucketLater_trans)
  then show ?thesis by (simp add: applied(4) storeLater_put_ensured)
qed simp_all

lemma createBootstrapGrant_later:
  assumes ok: "store_ok h t"
  shows "storeLater t (fst (createBootstrapGrant t g))"
proof (cases rule: createBootstrapGrant_cases[of t g])
  case (created b)
  have "map_of (grants (bucketOf t (gr_owner g))) (gr_tokenHash g) = None"
    using created(4) findGrant_None_map_of[OF ok, of "gr_tokenHash g"]
    by (auto simp: bucketOf_def emptyBucket_def split: option.splits)
  then have "bucketLater (bucketOf t (gr_owner g)) (b\<lparr>grants := mapSet (gr_tokenHash g) g (grants b)\<rparr>)"
    by (auto simp: created(6) bucketLater_def bucketLater_intros map_later_def)
  then show ?thesis by (simp add: created(8) storeLater_put_ensured)
qed (simp_all add: storeLater_put_ensured)

lemma redeemBootstrapGrant_later:
  assumes ok: "store_ok h t"
  shows "storeLater t (fst (redeemBootstrapGrant t c))"
proof (cases rule: redeemBootstrapGrant_cases[of t c])
  case (redeemed ow g b)
  note e = redemptionError_None[OF redeemed(3)]
  from findGrant_Some_map_of[OF ok redeemed(1)] obtain b0 where
    b0: "getBucket t ow = Some b0" "map_of (grants b0) (rd_tokenHash c) = Some g" .
  have bo: "bucketOf t ow = b0" by (rule bucketOf_Some[OF b0(1)])
  have "gr_tokenHash g = rd_tokenHash c"
    using sessions_okD(3)[OF bucket_okD(3)[OF store_okD(2)[OF ok b0(1)]] b0(2)]
    by (simp add: grant_ok_def)
  moreover have "map_of (leases b0) (rd_childSessionId c) = None"
    using e(7) b0(1) findLease_None[OF store_okD(1)[OF ok]] by blast
  ultimately have "bucketLater (bucketOf t ow)
      (b\<lparr>grants := mapSet (gr_tokenHash g) (g\<lparr>gr_redeemedAt := Some (rd_occurredAt c),
           gr_childSessionId := Some (rd_childSessionId c)\<rparr>) (grants b),
         leases := mapSet (rd_childSessionId c) (leaseFromGrant g c) (leases b)\<rparr>)"
    unfolding redeemed(2) bo using b0(2) e(2)
    by (auto simp: bucketLater_def bucketLater_intros map_later_def grantLater_def)
  then show ?thesis by (simp add: redeemed(4) storeLater_put)
qed (simp_all add: storeLater_put)

lemma putLease_later:
  assumes ok: "store_ok h t" and l: "findLease t child = Some (ow, l)" and l': "leaseLater l l'"
  shows "storeLater t (putLease t ow child l')"
  unfolding putLease_def
  by (rule storeLater_put)
    (use findLease_bucket(2)[OF ok l] l' in
      \<open>auto simp: bucketLater_def bucketLater_intros intro!: map_later_put\<close>)

text \<open>The leases that begin and close leave behind.\<close>

lemma lease_effects:
  assumes ok: "lease_ok ow child l"
  shows "leaseLater l (expiredLease l now)"
    and "leaseLater l (expiredLease (claimedBy l turn) now)"
    and "ls_status l = LeaseReady \<Longrightarrow> leaseLater l (runningLease l bl)"
    and "\<not> isTerminalStatus (ls_status l) \<Longrightarrow> leaseLater l (terminalLease l cl)"
  using ok open_le_terminal[of "ls_status l" "closeLeaseStatus (cl_status cl)"]
  by (auto simp: leaseLater_def sameBinding_def expiredLease_def claimedBy_def lease_ok_def
      runningLease_def terminalLease_def)

lemma found_lease_ok:
  assumes "store_ok h t" and "findLease t child = Some (ow, l)"
  shows "lease_ok ow child l"
  using sessions_okD(4)[OF bucket_okD(3)[OF bucketOf_ok[OF assms(1)]] findLease_bucket(2)[OF assms]] .

lemma beginExecutionLease_later:
  assumes ok: "store_ok h t"
  shows "storeLater t (fst (beginExecutionLease t c))"
proof (cases rule: beginExecutionLease_cases[of t c])
  case (expired ow l)
  show ?thesis
    unfolding expired(4) fst_conv
    by (rule putLease_later[OF ok expired(1)]) (rule lease_effects(1)[OF found_lease_ok[OF ok expired(1)]])
next
  case (begun ow l)
  show ?thesis
    unfolding begun(8) fst_conv
    by (rule putLease_later[OF ok begun(1)])
      (rule lease_effects(3)[OF found_lease_ok[OF ok begun(1)] begun(4)])
qed simp

lemma closeExecutionLease_later:
  assumes ok: "store_ok h t"
  shows "storeLater t (fst (closeExecutionLease t c))"
proof (cases rule: closeExecutionLease_cases[of t c])
  case (expired ow l)
  show ?thesis
    unfolding expired(5) fst_conv
    by (rule putLease_later[OF ok expired(1)]) (rule lease_effects(2)[OF found_lease_ok[OF ok expired(1)]])
next
  case (closed ow l)
  show ?thesis
    unfolding closed(8) fst_conv
    by (rule putLease_later[OF ok closed(1)])
      (rule lease_effects(4)[OF found_lease_ok[OF ok closed(1)] closed(3)])
qed simp

lemma closeParentTurn_later:
  assumes ok: "store_ok h t"
  shows "storeLater t (fst (closeParentTurnExecutionLeases t c))"
proof (cases rule: closeParentTurn_cases[of c t])
  case (closed ls)
  let ?b = "bucketOf t (cp_owner c)"
  have "leaseLater l (if closedByParent c l then parentTerminalLease c l else l)"
    if "map_of (leases ?b) child = Some l" for child l
    by (rule parentClosed_lease(1)) (rule sessions_okD(4)[OF bucket_okD(3)[OF bucketOf_ok[OF ok]] that])
  then have "map_later leaseLater (map_of (leases ?b)) (map_of (leases (parentClosedBucket ?b c)))"
    by (simp add: map_later_def parentClosed_leases)
  then have "bucketLater ?b (parentClosedBucket ?b c)"
    by (simp add: bucketLater_def bucketLater_intros parentClosedBucket_def Let_def)
  then show ?thesis by (simp add: closed(2) storeLater_put_ensured)
qed simp

lemma test_operations_later:
  shows "storeLater t (fst (authorizeTestInput t au))"
    and "storeLater t (fst (beginTestCapabilityExecution t be))"
    and "storeLater t (fst (completeTestCapabilityExecution t ce))"
proof -
  show "storeLater t (fst (authorizeTestInput t au))"
  proof (cases rule: authorizeTestInput_cases[of t au])
    case (authorized b g)
    then show ?thesis
      by (auto intro!: storeLater_put simp: bucketOf_def bucketLater_def bucketLater_intros map_later_def)
  qed simp
  show "storeLater t (fst (beginTestCapabilityExecution t be))"
  proof (cases rule: beginTestCapabilityExecution_cases[of t be])
    case (plain b)
    then show ?thesis
      by (auto intro!: storeLater_put simp: bucketOf_def bucketLater_def bucketLater_intros map_later_def)
  next
    case (verified b g)
    have "inputLater g (consumedGrant g be)"
      using verified(9) unfolding inputLater_def consumedGrant_def by blast
    then show ?thesis
      using verified(1,6,8)
      by (auto intro!: storeLater_put simp: verified(13) bucketOf_def bucketLater_def
          bucketLater_intros map_later_def)
  qed simp
  show "storeLater t (fst (completeTestCapabilityExecution t ce))"
  proof (cases rule: completeTestCapabilityExecution_cases[of t ce])
    case (completed b x)
    have "executionLater x (completedExecution x ce)"
      using completed(4) by (cases "ce_status ce")
        (auto simp: executionLater_def completedExecution_def)
    then show ?thesis
      using completed(1,2)
      by (auto intro!: storeLater_put simp: completed(6) bucketOf_def bucketLater_def
          bucketLater_intros map_later_def)
  qed simp
qed

lemma callState_later: "store_ok h t \<Longrightarrow> storeLater t (callState h t c)"
  by (cases c) (simp_all add: mutate_later createBootstrapGrant_later redeemBootstrapGrant_later
      beginExecutionLease_later closeExecutionLease_later closeParentTurn_later test_operations_later)

interpretation history: history_machine "callState h" "store_ok h" storeLater for h
  by unfold_locales (auto intro: storeLater_trans callState_later)

lemma runCalls_later: "store_ok h t \<Longrightarrow> storeLater t (runCalls h t cs)"
  unfolding runCalls_foldl by (rule history.run_later)

lemma reachable_later: "reachable h t \<Longrightarrow> storeLater t (runCalls h t cs)"
  by (rule runCalls_later[OF reachable_ok])

end
