(* ===== verification/Store_Concurrency.thy ===== *)
theory Store_Concurrency
  imports Store_History
begin

text \<open>
  Optimistic concurrency of the store, as instances of \<open>counted_cell\<close> of theory \<open>Machine\<close>: eight
  commands guard and count the revision of a family, four the revision of a workflow.
\<close>

section \<open>Family revisions\<close>

fun familyExpectation :: "AgentBuilderStoreCommand \<Rightarrow> (string \<times> int) option" where
  "familyExpectation (ActivateVersion c) = Some (av_agentId c, av_expectedRevision c)"
| "familyExpectation (ArchiveFamily c) = Some (lc_agentId c, lc_expectedRevision c)"
| "familyExpectation (BeginRevision c) = Some (br_agentId c, br_expectedRevision c)"
| "familyExpectation (DeleteFamily c) = Some (lc_agentId c, lc_expectedRevision c)"
| "familyExpectation (PatchDraft c) = Some (pd_agentId c, pd_expectedRevision c)"
| "familyExpectation (PublishBuildWorkflow c) = Some (pw_agentId c, pw_expectedRevision c)"
| "familyExpectation (PublishDraft c) = Some (pu_agentId c, pu_expectedRevision c)"
| "familyExpectation (RestoreFamily c) = Some (lc_agentId c, lc_expectedRevision c)"
| "familyExpectation _ = None"

definition familyRevision :: "string \<Rightarrow> OwnerBucket \<Rightarrow> int option" where
  "familyRevision aid b = map_option (\<lambda>r. fam_revision (fr_family r)) (map_of (families b) aid)"

definition attemptOn ::
  "('a \<times> int) option \<Rightarrow> 'a \<Rightarrow> host \<Rightarrow> OwnerScope \<Rightarrow> OwnerBucket \<Rightarrow> int \<Rightarrow>
   StoreMutationBase \<Rightarrow> AgentBuilderStoreCommand \<Rightarrow> OwnerBucket option" where
  "attemptOn expectation key h ow b e m c =
     (if mb_owner m = ow \<and> expectation = Some (key, e)
      then (case apply_command h b m c of Inl _ \<Rightarrow> None | Inr (b', _) \<Rightarrow> Some b')
      else None)"

lemma attemptOn_Some:
  "attemptOn ex key h ow b e m c = Some b' \<longleftrightarrow>
     mb_owner m = ow \<and> ex = Some (key, e) \<and> (\<exists>s. apply_command h b m c = Inr (b', s))"
  by (auto simp: attemptOn_def split: sum.splits prod.splits)

lemma family_command_counts:
  assumes "familyExpectation c = Some (aid, e)" and "apply_command h b m c = Inr (b', s)"
  shows "familyRevision aid b = Some e" and "familyRevision aid b' = Some (e + 1)"
proof -
  have "familyRevision aid b = Some e \<and> familyRevision aid b' = Some (e + 1)"
    using assms
    by (cases c)
      (auto simp: familyRevision_def activatedFamily_def archivedFamily_def restoredFamily_def
        deletedFamily_def revisedFamily_def patchedFamily_def publishedFamily_def Let_def
        dest: workflowDraftContext_Inr(4,7)
        elim!: activateVersion_Inr archiveFamily_Inr restoreFamily_Inr deleteFamily_Inr
          beginRevision_Inr patchDraft_Inr publishDraft_Inr publishBuildWorkflow_Inr
        split: option.splits)
  then show "familyRevision aid b = Some e" "familyRevision aid b' = Some (e + 1)" by simp_all
qed

interpretation family_cell: counted_cell "bucket_ok h ow" "familyRevision aid"
  "\<lambda>b e (m, c). attemptOn (familyExpectation c) aid h ow b e m c" for h ow aid
  by unfold_locales
    (auto simp: attemptOn_Some dest: apply_command_bucket family_command_counts split: prod.splits)

section \<open>Workflow revisions\<close>

fun workflowExpectation :: "AgentBuilderStoreCommand \<Rightarrow> (string \<times> int) option" where
  "workflowExpectation (SubmitBuildRole c) = Some (sb_workflowId c, sb_expectedWorkflowRevision c)"
| "workflowExpectation (RecordBuildTest c) = Some (rt_workflowId c, rt_expectedWorkflowRevision c)"
| "workflowExpectation (ReopenBuildWorkflow c) =
     Some (ro_workflowId c, ro_expectedWorkflowRevision c)"
| "workflowExpectation (PublishBuildWorkflow c) =
     Some (pw_workflowId c, pw_expectedWorkflowRevision c)"
| "workflowExpectation _ = None"

definition workflowRevision :: "string \<Rightarrow> OwnerBucket \<Rightarrow> int option" where
  "workflowRevision wid b = map_option wf_revision (workflowById b wid)"

lemma workflowById_iff:
  assumes ok: "workflows_ok ow b"
  shows "workflowById b wid = Some w \<longleftrightarrow>
    (\<exists>aid. map_of (workflows b) aid = Some w \<and> wf_workflowId w = wid)"
proof
  assume "workflowById b wid = Some w"
  from workflowById_map_of[OF ok this] workflowById_Some(1)[OF this]
  show "\<exists>aid. map_of (workflows b) aid = Some w \<and> wf_workflowId w = wid" by blast
next
  assume "\<exists>aid. map_of (workflows b) aid = Some w \<and> wf_workflowId w = wid"
  then obtain aid where w: "map_of (workflows b) aid = Some w" "wf_workflowId w = wid" by blast
  then have "w \<in> set (values_of (workflows b))"
    using in_values_iff[OF workflows_okD(1)[OF ok]] by blast
  with w(2) have "workflowById b wid \<noteq> None"
    unfolding workflowById_def find_None_mem by blast
  then obtain w' where w': "workflowById b wid = Some w'" by blast
  have "wf_agentId w' = aid"
    using workflows_okD(4)[OF ok _ workflowById_map_of[OF ok w'] w(1)]
      workflowById_Some(1)[OF w'] w(2) by auto
  with workflowById_map_of[OF ok w'] w(1) w' show "workflowById b wid = Some w" by simp
qed

lemma workflowRevision_put:
  assumes "workflows_ok ow b'" and "map_of (workflows b') aid = Some w"
  shows "workflowRevision (wf_workflowId w) b' = Some (wf_revision w)"
  using workflowById_iff[OF assms(1), of "wf_workflowId w" w] assms(2)
  by (auto simp: workflowRevision_def)

lemma workflow_command_counts:
  assumes ok: "bucket_ok h ow b" and ow: "mb_owner m = ow"
    and ex: "workflowExpectation c = Some (wid, e)" and op: "apply_command h b m c = Inr (b', s)"
  shows "workflowRevision wid b = Some e" and "workflowRevision wid b' = Some (e + 1)"
proof -
  have ok': "workflows_ok ow b'"
    by (rule bucket_okD(2)[OF apply_command_bucket[OF ok ow op]])
  have "\<exists>w w' aid. workflowById b wid = Some w \<and> wf_revision w = e \<and>
      map_of (workflows b') aid = Some w' \<and> wf_workflowId w' = wid \<and> wf_revision w' = e + 1"
  proof (cases c)
    case (SubmitBuildRole x)
    with ex op have x: "sb_workflowId x = wid" "sb_expectedWorkflowRevision x = e"
      "submitBuildRole h b m x = Inr (b', s)" by simp_all
    from x(3) show ?thesis
    proof (rule submitBuildRole_Inr)
      fix w and rec :: FamilyRecord and d
      assume w: "workflowById b (sb_workflowId x) = Some w" "wf_revision w = sb_expectedWorkflowRevision x"
        and b': "b' = putWorkflow (workflowAfterSubmission m x w d) (wf_agentId w)
            (putRecord (wf_agentId w)
               (rec\<lparr>fr_family := familyAfterSubmission m x (fr_family rec) d\<rparr>) b)"
      show ?thesis
        using w x(1,2) workflowById_Some(1)[OF w(1)]
        by (intro exI[of _ w] exI[of _ "workflowAfterSubmission m x w d"] exI[of _ "wf_agentId w"])
          (simp add: b' workflowAfterSubmission_def)
    qed
  next
    case (RecordBuildTest x)
    with ex op have x: "rt_workflowId x = wid" "rt_expectedWorkflowRevision x = e"
      "recordBuildTest h b m x = Inr (b', s)" by simp_all
    from x(3) show ?thesis
    proof (rule recordBuildTest_Inr)
      fix w ev
      assume w: "workflowById b (rt_workflowId x) = Some w" "wf_revision w = rt_expectedWorkflowRevision x"
        and b': "b' = putWorkflow (testedWorkflow m w ev) (wf_agentId w) b"
      show ?thesis
        using w x(1,2) workflowById_Some(1)[OF w(1)]
        by (intro exI[of _ w] exI[of _ "testedWorkflow m w ev"] exI[of _ "wf_agentId w"])
          (simp add: b' testedWorkflow_def)
    qed
  next
    case (ReopenBuildWorkflow x)
    with ex op have x: "ro_workflowId x = wid" "ro_expectedWorkflowRevision x = e"
      "reopenBuildWorkflow h b m x = Inr (b', s)" by simp_all
    from x(3) show ?thesis
    proof (rule reopenBuildWorkflow_Inr)
      fix w and rec :: FamilyRecord and d
      assume ctx: "workflowDraftContext b (ro_workflowId x) (ro_agentId x)
          (ro_expectedWorkflowRevision x) (ro_expectedRevision x) (ro_expectedDraftRevision x) =
          Inr (w, rec, d)"
        and b': "b' = putWorkflow (reopenedWorkflow m w d) (wf_agentId w) b"
      show ?thesis
        using workflowDraftContext_Inr(1,3)[OF ctx] x(1,2)
          workflowById_Some(1)[OF workflowDraftContext_Inr(1)[OF ctx]]
        by (intro exI[of _ w] exI[of _ "reopenedWorkflow m w d"] exI[of _ "wf_agentId w"])
          (simp add: b' reopenedWorkflow_def)
    qed
  next
    case (PublishBuildWorkflow x)
    with ex op have x: "pw_workflowId x = wid" "pw_expectedWorkflowRevision x = e"
      "publishBuildWorkflow h b m x = Inr (b', s)" by simp_all
    from x(3) show ?thesis
    proof (rule publishBuildWorkflow_Inr)
      fix w and rec :: FamilyRecord and d v
      assume ctx: "workflowDraftContext b (pw_workflowId x) (pw_agentId x)
          (pw_expectedWorkflowRevision x) (pw_expectedRevision x) (pw_expectedDraftRevision x) =
          Inr (w, rec, d)"
        and b': "b' = putWorkflow (publishedWorkflow m w v) (wf_agentId w)
            (putRecord (pw_agentId x)
               \<lparr>fr_family = publishedFamily (fr_family rec) v (mb_occurredAt m),
                fr_versions = fr_versions rec @ [v]\<rparr> b)"
      show ?thesis
        using workflowDraftContext_Inr(1,3)[OF ctx] x(1,2)
          workflowById_Some(1)[OF workflowDraftContext_Inr(1)[OF ctx]]
        by (intro exI[of _ w] exI[of _ "publishedWorkflow m w v"] exI[of _ "wf_agentId w"])
          (simp add: b' publishedWorkflow_def)
    qed
  qed (use ex in simp_all)
  then show "workflowRevision wid b = Some e" "workflowRevision wid b' = Some (e + 1)"
    using workflowRevision_put[OF ok'] by (force simp: workflowRevision_def)+
qed

interpretation workflow_cell: counted_cell "bucket_ok h ow" "workflowRevision wid"
  "\<lambda>b e (m, c). attemptOn (workflowExpectation c) wid h ow b e m c" for h ow wid
  by unfold_locales
    (auto simp: attemptOn_Some dest: apply_command_bucket workflow_command_counts split: prod.splits)

section \<open>Revisions never go back\<close>

lemma familyRevision_later:
  assumes "bucketLater b b'" and "familyRevision aid b = Some r"
  obtains r' where "familyRevision aid b' = Some r'" and "r \<le> r'"
proof -
  from assms(2) obtain rec where rec: "map_of (families b) aid = Some rec"
      "fam_revision (fr_family rec) = r"
    by (auto simp: familyRevision_def)
  with assms(1) obtain rec' where rec': "map_of (families b') aid = Some rec'" "familyLater rec rec'"
    using map_laterD by (fastforce simp: bucketLater_def)
  then have "r \<le> fam_revision (fr_family rec')" using rec(2) by (auto simp: familyLater_def)
  with rec'(1) show thesis by (intro that) (simp_all add: familyRevision_def)
qed

lemma workflowRevision_later:
  assumes "bucketLater b b'" and "workflows_ok ow b" and "workflows_ok ow b'"
    and "workflowRevision wid b = Some r"
  obtains r' where "workflowRevision wid b' = Some r'" and "r \<le> r'"
proof -
  from assms(4) obtain w where w: "workflowById b wid = Some w" "wf_revision w = r"
    by (auto simp: workflowRevision_def)
  with assms(1) workflowById_map_of[OF assms(2) w(1)] obtain w' where
    w': "map_of (workflows b') (wf_agentId w) = Some w'" "workflowLater w w'"
    using map_laterD by (fastforce simp: bucketLater_def)
  then have "wf_workflowId w' = wid" "r \<le> wf_revision w'"
    using w workflowById_Some(1)[OF w(1)] by (auto simp: workflowLater_def)
  with workflowRevision_put[OF assms(3) w'(1)] show thesis by (intro that) simp_all
qed

text \<open>
  A committed command, and any command of the same expectation that comes at any later time under
  an operation id that is not in the log.
\<close>

definition fresh :: "Tenants \<Rightarrow> StoreMutationBase \<Rightarrow> bool" where
  "fresh t m \<longleftrightarrow> map_of (operations (bucketOf t (mb_owner m))) (mb_operationId m) = None"

lemma mutate_fresh_Inr:
  assumes "fresh t m" and "mutate h t m c = (t1, Inr s)"
  obtains b' where "apply_command h (bucketOf t (mb_owner m)) m c = Inr (b', s)"
    and "bucketOf t1 (mb_owner m) = logOperation m s b'"
  using assms
  by (cases rule: mutate_cases[of t m h c]) (auto simp: fresh_def)

lemma mutate_fresh_refused:
  assumes "fresh t m" and "\<And>b' s. apply_command h (bucketOf t (mb_owner m)) m c \<noteq> Inr (b', s)"
  shows "\<exists>e. snd (mutate h t m c) = Inl e"
  using assms
  by (cases rule: mutate_cases[of t m h c]) (auto simp: fresh_def)

lemma logOperation_revisions [simp]:
  "familyRevision aid (logOperation m s b) = familyRevision aid b"
  "workflowRevision wid (logOperation m s b) = workflowRevision wid b"
  by (simp_all add: familyRevision_def workflowRevision_def workflowById_def logOperation_def)

lemma bucketOf_later: "storeLater t t' \<Longrightarrow> bucketLater (bucketOf t ow) (bucketOf t' ow)"
  by (simp add: storeLater_def)

lemma stale_family_command:
  assumes t: "store_ok h t" and m: "fresh t m" "mutate h t m c = (t1, Inr s)"
    "familyExpectation c = Some (aid, e)"
    and m2: "mb_owner m2 = mb_owner m" "familyExpectation c2 = Some (aid, e)"
    "fresh (runCalls h t1 cs) m2"
  shows "\<exists>err. snd (mutate h (runCalls h t1 cs) m2 c2) = Inl err"
proof (rule mutate_fresh_refused[OF m2(3)])
  fix b2 s2
  let ?ow = "mb_owner m" and ?t2 = "runCalls h t1 cs"
  obtain b' where b': "apply_command h (bucketOf t ?ow) m c = Inr (b', s)"
      "bucketOf t1 ?ow = logOperation m s b'"
    using mutate_fresh_Inr[OF m(1,2)] .
  have t1: "store_ok h t1" using mutate_ok[OF t, of m c] m(2) by simp
  have "familyRevision aid (bucketOf t1 ?ow) = Some (e + 1)"
    using family_command_counts(2)[OF m(3) b'(1)] b'(2) by simp
  then obtain r where r: "familyRevision aid (bucketOf ?t2 ?ow) = Some r" "e + 1 \<le> r"
    using familyRevision_later[OF bucketOf_later[OF runCalls_later[OF t1]]] by blast
  show "apply_command h (bucketOf ?t2 (mb_owner m2)) m2 c2 \<noteq> Inr (b2, s2)"
    using family_command_counts(1)[OF m2(2), of h "bucketOf ?t2 ?ow" m2 b2 s2] r m2(1) by auto
qed

lemma stale_workflow_command:
  assumes t: "store_ok h t" and m: "fresh t m" "mutate h t m c = (t1, Inr s)"
    "workflowExpectation c = Some (wid, e)"
    and m2: "mb_owner m2 = mb_owner m" "workflowExpectation c2 = Some (wid, e)"
    "fresh (runCalls h t1 cs) m2"
  shows "\<exists>err. snd (mutate h (runCalls h t1 cs) m2 c2) = Inl err"
proof (rule mutate_fresh_refused[OF m2(3)])
  fix b2 s2
  let ?ow = "mb_owner m" and ?t2 = "runCalls h t1 cs"
  obtain b' where b': "apply_command h (bucketOf t ?ow) m c = Inr (b', s)"
      "bucketOf t1 ?ow = logOperation m s b'"
    using mutate_fresh_Inr[OF m(1,2)] .
  have t1: "store_ok h t1" using mutate_ok[OF t, of m c] m(2) by simp
  note t2 = runCalls_ok[OF t1, of cs]
  have "workflowRevision wid (bucketOf t1 ?ow) = Some (e + 1)"
    using workflow_command_counts(2)[OF bucketOf_ok[OF t] refl m(3) b'(1)] b'(2) by simp
  then obtain r where r: "workflowRevision wid (bucketOf ?t2 ?ow) = Some r" "e + 1 \<le> r"
    using workflowRevision_later[OF bucketOf_later[OF runCalls_later[OF t1]]
        bucket_okD(2)[OF bucketOf_ok[OF t1]] bucket_okD(2)[OF bucketOf_ok[OF t2]]] by blast
  show "apply_command h (bucketOf ?t2 (mb_owner m2)) m2 c2 \<noteq> Inr (b2, s2)"
    using workflow_command_counts(1)[OF bucketOf_ok[OF t2] m2(1) m2(2), of b2 s2] r m2(1) by auto
qed

end
