(* ===== verification/Session_Safety.thy ===== *)
theory Session_Safety
  imports Store_Concurrency
begin

text \<open>
  Safety of bootstrap sessions over whole executions: a token is redeemed at most once, a closed
  parent turn cannot be bootstrapped again, and a lease never leaves what it was bound to.
\<close>

section \<open>Single use of a token\<close>

lemma stored_grant_later:
  assumes t: "store_ok h t" and b: "getBucket t ow = Some b" "map_of (grants b) th = Some g"
  obtains b' g' where "getBucket (runCalls h t cs) ow = Some b'" "map_of (grants b') th = Some g'"
    "grantLater g g'"
proof -
  have "bucketLater b (bucketOf (runCalls h t cs) ow)"
    using bucketOf_later[OF runCalls_later[OF t], of ow cs] bucketOf_Some[OF b(1)] by simp
  with b(2) obtain g' where g': "map_of (grants (bucketOf (runCalls h t cs) ow)) th = Some g'"
      "grantLater g g'"
    using map_laterD by (fastforce simp: bucketLater_def)
  then obtain b' where "getBucket (runCalls h t cs) ow = Some b'"
    by (cases "getBucket (runCalls h t cs) ow") (auto simp: bucketOf_def emptyBucket_def)
  with g' show thesis by (intro that) (simp_all add: bucketOf_def)
qed

lemma redeemed_grant:
  assumes t: "store_ok h t" and r: "redeemBootstrapGrant t c = (t1, Inr l)"
  obtains b g where "getBucket t1 (rd_owner c) = Some b" "map_of (grants b) (rd_tokenHash c) = Some g"
    "gr_redeemedAt g = Some (rd_occurredAt c)" "gr_childSessionId g = Some (rd_childSessionId c)"
    "map_of (leases b) (rd_childSessionId c) = Some l"
proof (cases rule: redeemBootstrapGrant_cases[of t c])
  case (redeemed ow g b)
  note e = redemptionError_None[OF redeemed(3)]
  from findGrant_Some_map_of[OF t redeemed(1)] obtain b0 where
    b0: "getBucket t ow = Some b0" "map_of (grants b0) (rd_tokenHash c) = Some g" .
  have "gr_tokenHash g = rd_tokenHash c" "gr_owner g = ow"
    using sessions_okD(3)[OF bucket_okD(3)[OF store_okD(2)[OF t b0(1)]] b0(2)]
    by (simp_all add: grant_ok_def)
  with e(1) r redeemed(4) show thesis
    by (intro that[of "bucketOf t1 (rd_owner c)"]) (auto simp: getBucket_putBucket)
qed (use r in auto)

lemma redeemed_token_refused:
  assumes t: "store_ok h t" and b: "getBucket t ow = Some b" "map_of (grants b) (rd_tokenHash c) = Some g"
    "gr_redeemedAt g \<noteq> None"
  shows "snd (redeemBootstrapGrant t c) \<in> {Inl OWNER_MISMATCH, Inl BOOTSTRAP_REPLAYED}"
  using b(3) by (simp add: redeemBootstrapGrant_def map_of_findGrant[OF t b(1,2)] Let_def
      redemptionError_def)

section \<open>Closed parent turns\<close>

fun callTime :: "StoreCall \<Rightarrow> Timestamp option" where
  "callTime (CreateGrant g) = Some (gr_issuedAt g)"
| "callTime (RedeemGrant c) = Some (rd_occurredAt c)"
| "callTime (CloseParentTurn c) = Some (cp_occurredAt c)"
| "callTime _ = None"

text \<open>The calls that read the clock read it between \<open>lo\<close> and \<open>hi\<close> (milliseconds).\<close>

definition clockBetween :: "int \<Rightarrow> int \<Rightarrow> StoreCall \<Rightarrow> bool" where
  "clockBetween lo hi c \<longleftrightarrow>
     (case callTime c of None \<Rightarrow> True
      | Some ts \<Rightarrow> (case dateParse ts of None \<Rightarrow> True | Some n \<Rightarrow> lo \<le> n \<and> n \<le> hi))"

text \<open>A tombstone from \<open>lo\<close> on is there, unless the clock has passed the longest grant lifetime.\<close>

definition turnClosed :: "OwnerScope \<Rightarrow> string \<times> string \<Rightarrow> int \<Rightarrow> int \<Rightarrow> Tenants \<Rightarrow> bool" where
  "turnClosed ow key lo hi t \<longleftrightarrow>
     lo + DEFAULT_BOOTSTRAP_GRANT_TTL_MS \<le> hi \<or>
     (\<exists>closedAt n. (key, closedAt) \<in> set (closedParentTurns (bucketOf t ow)) \<and>
        dateParse closedAt = Some n \<and> lo \<le> n)"

lemma in_mapSet_other: "k' \<noteq> k \<Longrightarrow> (k, v) \<in> set m \<Longrightarrow> (k, v) \<in> set (mapSet k' v' m)"
  by (induction m) auto

lemma in_mapSet_same: "(k, v) \<in> set (mapSet k v m)"
  by (induction m) auto

lemma pruned_entry:
  assumes "(key, closedAt) \<in> set (closedParentTurns b)" and "dateParse closedAt = Some n" and "lo \<le> n"
    and "\<And>now. dateParse occurredAt = Some now \<Longrightarrow> now \<le> hi"
  shows "lo + DEFAULT_BOOTSTRAP_GRANT_TTL_MS \<le> hi \<or>
    (key, closedAt) \<in> set (closedParentTurns (pruneClosedParentTurns b occurredAt))"
  using assms by (force simp: pruneClosedParentTurns_def tombstoneExpired_def split: option.splits)

lemma turnClosed_prune:
  assumes "turnClosed ow key lo hi t" and "\<And>now. dateParse occurredAt = Some now \<Longrightarrow> now \<le> hi"
    and "closedParentTurns b = closedParentTurns (pruneClosedParentTurns (bucketOf t ow') occurredAt)"
  shows "turnClosed ow key lo hi (putBucket t ow' b)"
proof (cases "lo + DEFAULT_BOOTSTRAP_GRANT_TTL_MS \<le> hi \<or> ow \<noteq> ow'")
  case True
  with assms(1) show ?thesis by (auto simp: turnClosed_def)
next
  case False
  with assms(1) obtain closedAt n where
    e: "(key, closedAt) \<in> set (closedParentTurns (bucketOf t ow'))"
      "dateParse closedAt = Some n" "lo \<le> n" by (auto simp: turnClosed_def)
  from pruned_entry[OF e assms(2)] False e assms(3) show ?thesis by (auto simp: turnClosed_def)
qed

lemma turnClosed_same:
  "turnClosed ow key lo hi t \<Longrightarrow> closedParentTurns b = closedParentTurns (bucketOf t ow') \<Longrightarrow>
   turnClosed ow key lo hi (putBucket t ow' b)"
  by (auto simp: turnClosed_def)

lemma turnClosed_ensure [simp]: "turnClosed ow key lo hi (ensureBucket t ow') = turnClosed ow key lo hi t"
  by (simp add: turnClosed_def)

lemma turnClosed_putLease: "turnClosed ow key lo hi t \<Longrightarrow> turnClosed ow key lo hi (putLease t ow' child l)"
  unfolding putLease_def by (rule turnClosed_same) simp_all

lemma turnClosed_closed:
  assumes "turnClosed ow key lo hi t" and "dateParse (cp_occurredAt c) = Some n" "lo \<le> n" "n \<le> hi"
  shows "turnClosed ow key lo hi
    (putBucket (ensureBucket t (cp_owner c)) (cp_owner c) (parentClosedBucket (bucketOf t (cp_owner c)) c))"
proof (cases "cp_owner c = ow \<and> key = (cp_parentSessionId c, cp_parentTurnId c)")
  case True
  then show ?thesis
    using assms(2,3) by (auto simp: turnClosed_def parentClosedBucket_def Let_def intro!: in_mapSet_same)
next
  case False
  then have "turnClosed ow key lo hi (putBucket t (cp_owner c)
      (pruneClosedParentTurns (bucketOf t (cp_owner c)) (cp_occurredAt c)))"
    by (intro turnClosed_prune[OF assms(1), of "cp_occurredAt c"]) (use assms in simp_all)
  with False show ?thesis
    by (auto simp: turnClosed_def parentClosedBucket_def Let_def split: if_splits
        intro: in_mapSet_other)
qed

lemma callState_turnClosed:
  assumes closed: "turnClosed ow key lo hi t" and call: "clockBetween lo hi c"
  shows "turnClosed ow key lo hi (callState h t c)"
proof (cases c)
  case (Mutate m x)
  show ?thesis unfolding Mutate callState.simps
  proof (cases rule: mutate_cases[of t m h x])
    case (applied b' s)
    have "closedParentTurns (logOperation m s b') = closedParentTurns (bucketOf t (mb_owner m))"
      using apply_command_rest[OF applied(3)] by (simp add: sameRest_def logOperation_def)
    with closed show "turnClosed ow key lo hi (fst (mutate h t m x))"
      by (simp add: applied(4) turnClosed_same)
  qed (use closed in simp_all)
next
  case (CreateGrant g)
  have now: "\<And>now. dateParse (gr_issuedAt g) = Some now \<Longrightarrow> now \<le> hi"
    using call by (simp add: clockBetween_def CreateGrant)
  show ?thesis unfolding CreateGrant callState.simps
    by (cases rule: createBootstrapGrant_cases[of t g])
      (use closed in \<open>simp_all add: turnClosed_prune[OF _ now]\<close>)
next
  case (RedeemGrant x)
  have now: "\<And>now. dateParse (rd_occurredAt x) = Some now \<Longrightarrow> now \<le> hi"
    using call by (simp add: clockBetween_def RedeemGrant)
  show ?thesis unfolding RedeemGrant callState.simps
    by (cases rule: redeemBootstrapGrant_cases[of t x])
      (use closed in \<open>simp_all add: turnClosed_prune[OF _ now]\<close>)
next
  case (BeginLease x)
  show ?thesis unfolding BeginLease callState.simps
    by (cases rule: beginExecutionLease_cases[of t x]) (use closed in \<open>simp_all add: turnClosed_putLease\<close>)
next
  case (CloseLease x)
  show ?thesis unfolding CloseLease callState.simps
    by (cases rule: closeExecutionLease_cases[of t x]) (use closed in \<open>simp_all add: turnClosed_putLease\<close>)
next
  case (CloseParentTurn x)
  show ?thesis unfolding CloseParentTurn callState.simps
  proof (cases rule: closeParentTurn_cases[of x t])
    case (closed ls)
    then obtain n where "dateParse (cp_occurredAt x) = Some n"
      by (auto simp: timestampSchema_def split: option.splits)
    with \<open>turnClosed ow key lo hi t\<close> call
    show "turnClosed ow key lo hi (fst (closeParentTurnExecutionLeases t x))"
      by (simp add: closed(2) turnClosed_closed clockBetween_def CloseParentTurn)
  qed (use closed in simp_all)
next
  case (AuthorizeInput x)
  show ?thesis unfolding AuthorizeInput callState.simps
    by (cases rule: authorizeTestInput_cases[of t x])
      (use closed in \<open>simp_all add: turnClosed_same bucketOf_def\<close>)
next
  case (BeginTestExecution x)
  show ?thesis unfolding BeginTestExecution callState.simps
    by (cases rule: beginTestCapabilityExecution_cases[of t x])
      (use closed in \<open>simp_all add: turnClosed_same bucketOf_def\<close>)
next
  case (CompleteTestExecution x)
  show ?thesis unfolding CompleteTestExecution callState.simps
    by (cases rule: completeTestCapabilityExecution_cases[of t x])
      (use closed in \<open>simp_all add: turnClosed_same bucketOf_def\<close>)
qed

lemma runCalls_turnClosed:
  "turnClosed ow key lo hi t \<Longrightarrow> list_all (clockBetween lo hi) cs \<Longrightarrow>
   turnClosed ow key lo hi (runCalls h t cs)"
  by (induction cs arbitrary: t) (auto intro: callState_turnClosed)

lemma closeParentTurn_turnClosed:
  assumes "closeParentTurnExecutionLeases t c = (t1, Inr ls)" and "dateParse (cp_occurredAt c) = Some lo"
  shows "turnClosed (cp_owner c) (cp_parentSessionId c, cp_parentTurnId c) lo hi t1"
  using assms
  by (cases rule: closeParentTurn_cases[of c t])
    (auto simp: turnClosed_def parentClosedBucket_def Let_def intro!: in_mapSet_same)

lemma closed_turn_refused:
  assumes closed: "turnClosed ow (gr_parentSessionId g, turn) lo hi t"
    and g: "findGrant t (rd_tokenHash r) = Some (ow, g)" "gr_parentTurnId g = Some turn"
      "dateParse (gr_expiresAt g) = Some x" "x \<le> lo + DEFAULT_BOOTSTRAP_GRANT_TTL_MS"
    and now: "dateParse (rd_occurredAt r) = Some hi"
  shows "\<exists>e. snd (redeemBootstrapGrant t r) = Inl e"
proof (cases rule: redeemBootstrapGrant_cases[of t r])
  case (redeemed ow' g' b)
  with g(1) have same: "ow' = ow" "g' = g" by simp_all
  note e = redemptionError_None[OF redeemed(3)]
  have "\<not> timeGe (rd_occurredAt r) (gr_expiresAt g)" using e(5) same by simp
  then have hi: "hi < x" using now g(3) by (simp add: timeLe_def)
  with closed g(4) obtain closedAt n where
    entry: "((gr_parentSessionId g, turn), closedAt) \<in> set (closedParentTurns (bucketOf t ow))"
      "dateParse closedAt = Some n" "lo \<le> n" by (auto simp: turnClosed_def)
  have "((gr_parentSessionId g, turn), closedAt) \<in> set (closedParentTurns b)"
    using pruned_entry[OF entry, of "rd_occurredAt r" hi] now hi g(4) redeemed(2) same by auto
  then have "map_of (closedParentTurns b) (gr_parentSessionId g, turn) \<noteq> None"
    by (metis map_of_eq_None_iff fst_conv image_eqI)
  with e(3) g(2) same show ?thesis by (simp add: parentTurnClosed_def)
qed auto

section \<open>Grant and redemption\<close>

lemma parentTurnClosed_prune:
  "parentTurnClosed (pruneClosedParentTurns b now) s turn \<Longrightarrow> parentTurnClosed b s turn"
  by (cases turn)
    (auto simp: parentTurnClosed_def pruneClosedParentTurns_def map_of_eq_None_iff simp del: not_None_eq)

text \<open>A fresh grant can be redeemed: the exact conditions on the redeeming command.\<close>

lemma fresh_grant_redeemable:
  assumes t: "store_ok h t" and g: "createBootstrapGrant t g = (t1, Inr g)"
    and r: "rd_tokenHash r = gr_tokenHash g" "rd_owner r = gr_owner g"
      "\<not> timeGe (rd_occurredAt r) (gr_expiresAt g)" "\<not> bindingMismatch g r"
      "findLease t (rd_childSessionId r) = None"
      "timestampSchema (rd_occurredAt r)" "timestampSchema (rd_leaseExpiresAt r)"
      "\<not> timeLe (rd_leaseExpiresAt r) (rd_occurredAt r)"
      "executionLeaseRecordSchema (leaseFromGrant g r)"
  shows "snd (redeemBootstrapGrant t1 r) = Inr (leaseFromGrant g r)"
    and "getExecutionLease (fst (redeemBootstrapGrant t1 r)) (gr_owner g) (rd_childSessionId r) =
      Some (leaseFromGrant g r)"
proof -
  have t1: "store_ok h t1" using createBootstrapGrant_ok[OF t, of g] g by simp
  obtain b where c: "gr_redeemedAt g = None"
      "targetAndScopeCurrent (bucketOf t (gr_owner g)) (gr_target g) (gr_workflow g)"
      "b = pruneClosedParentTurns (bucketOf t (gr_owner g)) (gr_issuedAt g)"
      "\<not> parentTurnClosed b (gr_parentSessionId g) (gr_parentTurnId g)"
      "t1 = putBucket (ensureBucket t (gr_owner g)) (gr_owner g)
              (b\<lparr>grants := mapSet (gr_tokenHash g) g (grants b)\<rparr>)"
    using g by (cases rule: createBootstrapGrant_cases[of t g]) auto
  let ?b = "b\<lparr>grants := mapSet (gr_tokenHash g) g (grants b)\<rparr>"
  have b1: "getBucket t1 (gr_owner g) = Some ?b" by (simp add: c(5) getBucket_putBucket)
  have found: "findGrant t1 (rd_tokenHash r) = Some (gr_owner g, g)"
    by (rule map_of_findGrant[OF t1 b1]) (simp add: r(1))
  have "findLease t1 (rd_childSessionId r) = None"
  proof -
    have "map_of (leases b) (rd_childSessionId r) = None"
      using r(5) findLease_None[OF store_okD(1)[OF t]]
      by (auto simp: c(3) bucketOf_def emptyBucket_def split: option.splits)
    moreover have "map_of (leases b2) (rd_childSessionId r) = None"
      if "getBucket t o2 = Some b2" for o2 b2
      using r(5) that findLease_None[OF store_okD(1)[OF t]] by blast
    ultimately show ?thesis
      unfolding findLease_None[OF store_okD(1)[OF t1]]
      by (auto simp: c(5) getBucket_putBucket split: if_splits)
  qed
  moreover have "\<not> parentTurnClosed (pruneClosedParentTurns ?b (rd_occurredAt r))
      (gr_parentSessionId g) (gr_parentTurnId g)"
  proof
    assume "parentTurnClosed (pruneClosedParentTurns ?b (rd_occurredAt r))
        (gr_parentSessionId g) (gr_parentTurnId g)"
    then have "parentTurnClosed ?b (gr_parentSessionId g) (gr_parentTurnId g)"
      by (rule parentTurnClosed_prune)
    then have "parentTurnClosed b (gr_parentSessionId g) (gr_parentTurnId g)"
      by (cases "gr_parentTurnId g") (simp_all add: parentTurnClosed_def)
    with c(4) show False ..
  qed
  moreover have "targetAndScopeCurrent (pruneClosedParentTurns ?b (rd_occurredAt r))
      (gr_target g) (gr_workflow g)"
  proof -
    let ?b2 = "pruneClosedParentTurns ?b (rd_occurredAt r)" and ?b0 = "bucketOf t (gr_owner g)"
    have "targetIsCurrent ?b2 tgt = targetIsCurrent ?b0 tgt" for tgt
      by (cases tgt) (simp_all add: c(3))
    moreover have "workflowScopeIsCurrent ?b2 tgt s = workflowScopeIsCurrent ?b0 tgt s" for tgt s
      by (cases tgt) (simp_all add: c(3))
    ultimately show ?thesis using c(2)
      by (cases "gr_workflow g") (simp_all add: targetAndScopeCurrent_def)
  qed
  ultimately have none: "redemptionError t1 (pruneClosedParentTurns ?b (rd_occurredAt r)) g r = None"
    using r c(1) by (simp add: redemptionError_def targetAndScopeCurrent_def)
  have bo: "bucketOf t1 (gr_owner g) = ?b" by (rule bucketOf_Some[OF b1])
  show "snd (redeemBootstrapGrant t1 r) = Inr (leaseFromGrant g r)"
    "getExecutionLease (fst (redeemBootstrapGrant t1 r)) (gr_owner g) (rd_childSessionId r) =
      Some (leaseFromGrant g r)"
    by (simp_all add: redeemBootstrapGrant_def found bo Let_def none getExecutionLease_def
        getBucket_putBucket)
qed

end
