(* ===== verification/Scenario.thy ===== *)
theory Scenario
  imports Session_Safety
begin

text \<open>
  A concrete execution: one agent is built by the whole process, from the allocation of its
  workflow to its publication. The properties are applied to it and to its prefixes.
\<close>

definition exHost :: host where
  "exHost = \<lparr>nfkc = (\<lambda>s. s), ianaTimezone = (\<lambda>_. True),
     sha256Json = (\<lambda>_. replicate 64 (CHR ''a''))\<rparr>"

definition exOwner :: OwnerScope where
  "exOwner = \<lparr>tenantKey = ''t'', ownerKey = ''u''\<rparr>"

definition exTime :: "string \<Rightarrow> Timestamp" where
  "exTime minute = ''2025-01-01T00:'' @ minute @ '':00.000Z''"

lemma exTime_parse [simp]:
  "dateParse (exTime ''00'') = Some 1735689600000" "dateParse (exTime ''01'') = Some 1735689660000"
  "dateParse (exTime ''02'') = Some 1735689720000" "dateParse (exTime ''03'') = Some 1735689780000"
  "dateParse (exTime ''04'') = Some 1735689840000" "dateParse (exTime ''05'') = Some 1735689900000"
  "dateParse (exTime ''06'') = Some 1735689960000" "dateParse (exTime ''07'') = Some 1735690020000"
  "dateParse (exTime ''08'') = Some 1735690080000" "dateParse (exTime ''10'') = Some 1735690200000"
  "dateParse (exTime ''20'') = Some 1735690800000"
  by code_simp+

definition exBase :: "string \<Rightarrow> string \<Rightarrow> StoreMutationBase" where
  "exBase operation minute = \<lparr>mb_owner = exOwner, mb_operationId = operation,
     mb_requestFingerprint = operation, mb_occurredAt = exTime minute\<rparr>"

definition exFields0 :: SavedAgentEditableFields where
  "exFields0 = \<lparr>fld_name = ''Untitled build 1'', fld_kind = KindAgent, fld_description = '''',
     fld_pmBrief = '''', fld_instructions = '''', fld_toolRequirements = [], fld_triggers = [],
     fld_testChecklist = [], fld_qaFindings = []\<rparr>"

definition exFields1 :: SavedAgentEditableFields where
  "exFields1 = exFields0\<lparr>fld_name := ''Mail agent'', fld_pmBrief := ''Sort mail''\<rparr>"

definition exRequirement :: SavedToolRequirement where
  "exRequirement = \<lparr>req_capabilityId = ''mail'', req_level = Required,
     req_displayNameSnapshot = ''Mail'', req_schemaFingerprint = ''f'', req_consequential = True\<rparr>"

definition exFields2 :: SavedAgentEditableFields where
  "exFields2 = exFields1\<lparr>fld_instructions := ''Sort'', fld_toolRequirements := [exRequirement]\<rparr>"

definition exAllocate :: StoreCall where
  "exAllocate = Mutate (exBase ''op-allocate'' ''00'')
     (AllocateBuildWorkflow \<lparr>al_workflowId = ''w'', al_agentId = ''a'', al_draftId = ''d'',
        al_maxFamilies = 5, al_canonicalName = ''untitled build 1'', al_fields = exFields0\<rparr>)"

definition exToken :: "string \<Rightarrow> string" where
  "exToken c = ''sha256:'' @ concat (replicate 64 c)"

lemma exToken_simps [simp]:
  "sha256Reference (exToken ''1'')" "sha256Reference (exToken ''2'')" "sha256Reference (exToken ''3'')"
  "sha256Reference (exToken ''4'')" "sha256Reference (exToken ''5'')" "sha256Reference (exToken ''c'')"
  "exToken [c] = exToken [d] \<longleftrightarrow> c = d"
  by (code_simp, code_simp, code_simp, code_simp, code_simp, code_simp) (simp add: exToken_def)

definition exFingerprintA :: string where
  "exFingerprintA = ''sha256:'' @ replicate 64 (CHR ''a'')"

lemma exFingerprint [simp]:
  "capabilityPlanFingerprint exHost plan = exFingerprintA" "sha256Reference exFingerprintA"
  by (simp_all add: exFingerprintA_def capabilityPlanFingerprint_def exHost_def
      sha256Reference_def isLowerHex_def isDigit_def list_all_iff)

definition exGrant :: "string \<Rightarrow> ExecutionRole \<Rightarrow> int \<Rightarrow> int \<Rightarrow> string option \<Rightarrow> BootstrapGrantRecord" where
  "exGrant token role dr wr testRun =
     \<lparr>gr_grantId = token, gr_tokenHash = exToken token, gr_owner = exOwner, gr_role = role,
      gr_target = DraftTarget ''a'' ''d'' dr,
      gr_workflow = Some \<lparr>sc_workflowId = ''w'', sc_workflowRevision = wr,
        sc_testRunId = testRun\<rparr>,
      gr_parentSessionId = ''parent'', gr_parentTurnId = Some ''turn'', gr_parentCallId = None,
      gr_issuedAt = exTime ''01'', gr_expiresAt = exTime ''06'', gr_redeemedAt = None,
      gr_childSessionId = None\<rparr>"

definition exRedeem :: "string \<Rightarrow> ExecutionRole \<Rightarrow> RedeemBootstrapGrantStoreCommand" where
  "exRedeem token role =
     \<lparr>rd_tokenHash = exToken token, rd_owner = exOwner, rd_role = role, rd_expectedTarget = None,
      rd_expectedWorkflow = None, rd_parentSessionId = ''parent'', rd_parentTurnId = Some ''turn'',
      rd_parentCallId = ''call'', rd_childSessionId = ''child-'' @ token,
      rd_bootstrapTurnId = ''bootstrap'', rd_leaseId = ''lease-'' @ token,
      rd_occurredAt = exTime ''02'', rd_leaseExpiresAt = exTime ''20''\<rparr>"

definition exBegin :: "string \<Rightarrow> ExecutionCapabilityPlan option \<Rightarrow> BeginExecutionLeaseStoreCommand" where
  "exBegin token plan = \<lparr>bl_owner = exOwner, bl_childSessionId = ''child-'' @ token,
     bl_executionTurnId = ''work'', bl_occurredAt = exTime ''03'', bl_capabilityPlan = plan\<rparr>"

text \<open>A role's session: its grant, the redemption and the start of its turn.\<close>

definition exSession ::
  "string \<Rightarrow> ExecutionRole \<Rightarrow> int \<Rightarrow> int \<Rightarrow> string option \<Rightarrow> ExecutionCapabilityPlan option \<Rightarrow>
   StoreCall list" where
  "exSession token role dr wr testRun plan =
     [CreateGrant (exGrant token role dr wr testRun),
      RedeemGrant (exRedeem token role), BeginLease (exBegin token plan)]"

definition exSubmit ::
  "string \<Rightarrow> BuildRole \<Rightarrow> int \<Rightarrow> int \<Rightarrow> int \<Rightarrow> SavedAgentEditableFields \<Rightarrow> string \<Rightarrow>
   SubmissionResult \<Rightarrow> string option \<Rightarrow> StoreCall" where
  "exSubmit token role wr fr dr flds cn result testRun =
     Mutate (exBase (''op-'' @ token) ''04'')
       (SubmitBuildRole \<lparr>sb_workflowId = ''w'', sb_expectedWorkflowRevision = wr,
          sb_role = role, sb_leaseId = ''lease-'' @ token, sb_childSessionId = ''child-'' @ token,
          sb_executionTurnId = ''work'', sb_expectedRevision = fr,
          sb_expectedDraftRevision = dr, sb_canonicalName = cn, sb_fields = flds,
          sb_result = result, sb_testRunId = testRun\<rparr>)"

definition exPlan :: ExecutionCapabilityPlan where
  "exPlan = \<lparr>plan_mode = ModeTest,
     plan_selected = [\<lparr>pe_capabilityId = ''mail'', pe_modelToolName = ''mail_tool'',
       pe_schemaFingerprint = ''f'', pe_consequential = True\<rparr>],
     plan_optionalOmissions = []\<rparr>"

definition exStep :: TestCapabilityStepScope where
  "exStep = \<lparr>st_owner = exOwner, st_workflowId = ''w'', st_workflowRevision = 4,
     st_testRunId = ''run'', st_agentId = ''a'', st_draftId = ''d'', st_draftRevision = 3,
     st_leaseId = ''lease-4'', st_childSessionId = ''child-4'', st_executionTurnId = ''work'',
     st_capabilityId = ''mail'', st_schemaFingerprint = ''f'', st_modelToolName = ''mail_tool'',
     st_callId = ''call-1'', st_stepFingerprint = exToken ''c'', st_expiresAt = exTime ''20''\<rparr>"

definition exAuthorize :: AuthorizeTestInputStoreCommand where
  "exAuthorize = \<lparr>au_step = exStep, au_requestId = ''request'', au_principalId = ''user-1'',
     au_principalType = ''user'', au_occurredAt = exTime ''05''\<rparr>"

definition exBeginTest :: BeginTestCapabilityExecutionStoreCommand where
  "exBeginTest = \<lparr>be_step = exStep, be_consequential = True, be_occurredAt = exTime ''06''\<rparr>"

definition exCompleteTest :: CompleteTestCapabilityExecutionStoreCommand where
  "exCompleteTest = \<lparr>ce_owner = exOwner, ce_workflowId = ''w'', ce_testRunId = ''run'',
     ce_leaseId = ''lease-4'', ce_childSessionId = ''child-4'', ce_executionTurnId = ''work'',
     ce_callId = ''call-1'', ce_status = CompleteSucceeded, ce_occurredAt = exTime ''07'',
     ce_errorCode = None\<rparr>"

definition exRecordCommand :: RecordBuildTestStoreCommand where
  "exRecordCommand = \<lparr>rt_workflowId = ''w'', rt_expectedWorkflowRevision = 4,
     rt_testRunId = ''run'', rt_leaseId = ''lease-4'', rt_childSessionId = ''child-4'',
     rt_executionTurnId = ''work'', rt_status = TestPassed, rt_errorCodes = []\<rparr>"

definition exRecord :: StoreCall where
  "exRecord = Mutate (exBase ''op-record'' ''08'') (RecordBuildTest exRecordCommand)"

definition exPublish :: StoreCall where
  "exPublish = Mutate (exBase ''op-publish'' ''10'')
     (PublishBuildWorkflow \<lparr>pw_workflowId = ''w'', pw_expectedWorkflowRevision = 6,
        pw_agentId = ''a'', pw_expectedRevision = 3, pw_expectedDraftRevision = 3,
        pw_specId = ''spec'', pw_publishedBy = ''user-1''\<rparr>)"

definition exDrafting :: "StoreCall list" where
  "exDrafting = exAllocate # exSession ''1'' ExPm 1 1 None None @
     [exSubmit ''1'' BuildPm 1 1 1 exFields1 ''mail agent'' SubCompletedHandoff None] @
     exSession ''2'' ExImplementor 2 2 None None @
     [exSubmit ''2'' BuildImplementor 2 2 2 exFields2 ''mail agent'' SubCompletedHandoff None]"

definition exTesting :: "StoreCall list" where
  "exTesting = exSession ''3'' ExQa 3 3 None None @
     [exSubmit ''3'' BuildQa 3 3 3 exFields2 ''mail agent'' SubNeedsTest (Some ''run'')] @
     exSession ''4'' ExTestRunner 3 4 (Some ''run'') (Some exPlan) @
     [AuthorizeInput exAuthorize, BeginTestExecution exBeginTest,
      CompleteTestExecution exCompleteTest, exRecord]"

definition exApproval :: "StoreCall list" where
  "exApproval = exSession ''5'' ExQa 3 5 (Some ''run'') None @
     [exSubmit ''5'' BuildQa 5 3 3 exFields2 ''mail agent'' SubApproved None]"

definition exCalls :: "StoreCall list" where
  "exCalls = exDrafting @ exTesting @ exApproval @ [exPublish]"

lemma exNames [simp]:
  "canonicalizeAgentName exHost ''Untitled build 1'' = ''untitled build 1''"
  "canonicalizeAgentName exHost ''Mail agent'' = ''mail agent''"
  by code_simp+

lemma exTrimmed [simp]: "trim ''Sort mail'' = ''Sort mail''" "trim ''Sort'' = ''Sort''"
  by code_simp+

lemma NUL_char: "NUL = CHR 0x00"
  by code_simp

lemmas evaluation =
  MAX_SAFE_INTEGER_def isSafeInteger_def boundedString_def maxString_def startsWith_def NUL_char
  identifierSchema_def positiveRevisionSchema_def positiveVersionSchema_def ownerScopeSchema_def
  savedAgentNameSchema_def savedToolRequirementSchema_def noUniqueIdIssues_def noKindIssues_def
  editableFieldsObjectSchema_def savedAgentEditableFieldsSchema_def savedAgentDraftSchema_def
  publishedAgentVersionSchema_def lifecycleConsistent_def savedAgentFamilySchema_def
  buildWorkflowTransitionSchema_def idListSchema_def buildTestEvidenceSchema_def
  qaApprovalEvidenceSchema_def publishedBuildEvidenceSchema_def transitionBound_def
  latestDescribes_def evidenceBound_def approvalBound_def publicationBound_def
  buildWorkflowRefinement_def buildWorkflowRecordSchema_def DEFAULT_BOOTSTRAP_GRANT_TTL_MS_def
  buildExecutionScopeSchema_def bootstrapGrantRecordSchema_def executionCapabilityPlanSchema_def
  isTerminalStatus_def executionLeaseRecordSchema_def testCapabilityStepScopeSchema_def
  testInputGrantRecordSchema_def testCapabilityExecutionRecordSchema_def emptyBucket_def
  editableFieldsFromVersion_def draftFields_def liveRecord_def reservesName_def nameOwner_def
  draftRevisionOf_def checkRevision_def invalidTransition_def checkFields_def validateFamily_def
  putRecord_def saveFamily_def specIdAllocated_def maximumVersion_def findVersion_def
  versionFromDraft_def publishedFamily_def liveFamilyCount_def createdFamily_def createFamily_def
  revisedFamily_def beginRevision_def workflowTransition_def patchedFamily_def pmFieldsChanged_def
  implementationFieldsChanged_def patchPhase_def invalidatedWorkflow_def affectedWorkflow_def
  putWorkflow_def patchDraft_def publishDraft_def activatedFamily_def activateVersion_def
  archivedFamily_def archiveFamily_def restoredFamily_def restoreFamily_def deletedFamily_def
  deleteFamily_def workflowById_def requiredCapabilities_def uniqueInOrder_def
  allocatedWorkflow_def allocationAsCreation_def allocateBuildWorkflow_def
  submissionLeaseValid_def UNTITLED_PREFIX_def handoffIncomplete_def submittedFamily_def
  approvalEvidenceOk_def qaApprovalFor_def clearsEvidence_def withoutEvidence_def
  submissionCommon_def submittedWorkflow_def submissionError_def submitBuildRole_def
  recordLeaseValid_def recordContext_def executionsOfRun_def succeededCapabilities_def
  failedCapabilities_def effectiveStatus_def recordedEvidence_def testedWorkflow_def
  recordBuildTest_def reopenedWorkflow_def workflowDraftContext_def reopenBuildWorkflow_def
  publishReadyFor_def publishedWorkflow_def publishBuildWorkflow_def getBucket_def putBucket_def
  bucketOf_def ensureBucket_def allBuckets_def findGrant_def findLease_def tombstoneExpired_def
  pruneClosedParentTurns_def parentTurnClosed_def targetAndScopeCurrent_def
  createBootstrapGrant_def bindingMismatch_def leaseFromGrant_def redemptionError_def
  redeemBootstrapGrant_def putLease_def LEASE_EXPIRED_CODE_def beginExecutionLease_def
  claimedBy_def terminalLease_def closeExecutionLease_def closedByParent_def
  parentTerminalLease_def closeParentTurnExecutionLeases_def getExecutionLease_def testStepKey_def
  completionKey_def stepScope_def validateStepLease_def validateTestStep_def inputMalformed_def
  authorizeTestInput_def startedExecution_def startExecution_def beginTestCapabilityExecution_def
  completedExecution_def completeTestCapabilityExecution_def logOperation_def mutate_def
  familyRecordOf_def getFamily_def getBuildWorkflow_def timestampSchema_def timeLe_def Let_def

lemmas scenario =
  exOwner_def exBase_def exFields0_def exFields1_def exRequirement_def exFields2_def exAllocate_def
  exGrant_def exRedeem_def exBegin_def exSession_def exSubmit_def exPlan_def exStep_def
  exAuthorize_def exBeginTest_def exCompleteTest_def exRecordCommand_def exRecord_def exPublish_def exDrafting_def
  exTesting_def exApproval_def exCalls_def

text \<open>
  The states of the store between the stages of the execution, written out. One lemma per stage
  evaluates the calls of that stage on the state before it.
\<close>

definition exUsed :: "string \<Rightarrow> ExecutionRole \<Rightarrow> int \<Rightarrow> int \<Rightarrow> string option \<Rightarrow> BootstrapGrantRecord" where
  "exUsed token role dr wr testRun = (exGrant token role dr wr testRun)
     \<lparr>gr_redeemedAt := Some (exTime ''02''),
      gr_childSessionId := Some (''child-'' @ token)\<rparr>"

definition exLease ::
  "string \<Rightarrow> ExecutionRole \<Rightarrow> int \<Rightarrow> int \<Rightarrow> string option \<Rightarrow> ExecutionCapabilityPlan option \<Rightarrow>
   ExecutionLeaseRecord" where
  "exLease token role dr wr testRun plan =
     \<lparr>ls_leaseId = ''lease-'' @ token, ls_grantId = token, ls_owner = exOwner, ls_role = role,
      ls_target = DraftTarget ''a'' ''d'' dr,
      ls_workflow = Some \<lparr>sc_workflowId = ''w'', sc_workflowRevision = wr,
        sc_testRunId = testRun\<rparr>,
      ls_parentSessionId = ''parent'', ls_parentTurnId = Some ''turn'', ls_parentCallId = ''call'',
      ls_childSessionId = ''child-'' @ token, ls_bootstrapTurnId = ''bootstrap'',
      ls_issuedAt = exTime ''02'', ls_expiresAt = exTime ''20'', ls_status = LeaseRunning,
      ls_executionTurnId = Some ''work'', ls_capabilityPlan = plan, ls_closedAt = None,
      ls_terminalCode = None\<rparr>"

definition exDraft :: "SavedAgentEditableFields \<Rightarrow> int \<Rightarrow> string \<Rightarrow> SavedAgentDraft" where
  "exDraft flds dr minute = \<lparr>d_draftId = ''d'', d_basedOnSpecId = None, d_basedOnVersion = None,
     d_fields = flds, d_draftRevision = dr, d_createdAt = exTime ''00'',
     d_updatedAt = exTime minute\<rparr>"

definition exFamily :: "SavedAgentEditableFields \<Rightarrow> int \<Rightarrow> string \<Rightarrow> SavedAgentFamily" where
  "exFamily flds revision minute = \<lparr>fam_agentId = ''a'', fam_owner = exOwner,
     fam_lifecycle = DraftOnly, fam_activeSpecId = None, fam_activeVersion = None,
     fam_draft = Some (exDraft flds revision minute), fam_revision = revision,
     fam_createdAt = exTime ''00'', fam_updatedAt = exTime minute, fam_archivedAt = None,
     fam_deletedAt = None\<rparr>"

definition exMove ::
  "BuildWorkflowRole \<Rightarrow> string \<Rightarrow> int \<Rightarrow> BuildWorkflowPhase \<Rightarrow> BuildWorkflowPhase \<Rightarrow>
   BuildWorkflowResult \<Rightarrow> string \<Rightarrow> BuildWorkflowTransition" where
  "exMove role operation dr p q result minute =
     \<lparr>tr_owner = exOwner, tr_workflowId = ''w'', tr_agentId = ''a'', tr_draftId = ''d'',
      tr_draftRevision = dr, tr_role = role, tr_operationId = operation, tr_fromPhase = p,
      tr_toPhase = q, tr_result = result, tr_occurredAt = exTime minute\<rparr>"

definition exWorkflow1 :: BuildWorkflowRecord where
  "exWorkflow1 = \<lparr>wf_workflowId = ''w'', wf_owner = exOwner, wf_agentId = ''a'', wf_draftId = ''d'',
     wf_draftRevision = 1, wf_revision = 1, wf_phase = PmWork, wf_testRunId = None,
     wf_testEvidence = None, wf_qaApproval = None, wf_published = None,
     wf_transitions = [exMove RoleSystem ''op-allocate'' 1 PmWork PmWork ResAllocated ''00''],
     wf_createdAt = exTime ''00'', wf_updatedAt = exTime ''00''\<rparr>"

definition exMoved :: "BuildWorkflowTransition \<Rightarrow> BuildWorkflowRecord \<Rightarrow> BuildWorkflowRecord" where
  "exMoved m w = w\<lparr>wf_draftRevision := tr_draftRevision m, wf_revision := wf_revision w + 1,
     wf_phase := tr_toPhase m, wf_transitions := wf_transitions w @ [m],
     wf_updatedAt := tr_occurredAt m\<rparr>"

definition exWorkflow2 :: BuildWorkflowRecord where
  "exWorkflow2 = exMoved (exMove RolePm ''op-1'' 2 PmWork ImplementationWork
     ResCompletedHandoff ''04'') exWorkflow1"

definition exWorkflow3 :: BuildWorkflowRecord where
  "exWorkflow3 = exMoved (exMove RoleImplementor ''op-2'' 3 ImplementationWork QaReview
     ResCompletedHandoff ''04'') exWorkflow2"

definition exWorkflow4 :: BuildWorkflowRecord where
  "exWorkflow4 = (exMoved (exMove RoleQa ''op-3'' 3 QaReview TestPending ResNeedsTest ''04'')
     exWorkflow3)\<lparr>wf_testRunId := Some ''run''\<rparr>"

definition exEvidence :: BuildTestEvidence where
  "exEvidence = \<lparr>te_testRunId = ''run'', te_owner = exOwner, te_workflowId = ''w'',
     te_agentId = ''a'', te_draftId = ''d'', te_draftRevision = 3, te_leaseId = ''lease-4'',
     te_childSessionId = ''child-4'', te_executionTurnId = ''work'', te_status = TestPassed,
     te_capabilityPlanFingerprint = exFingerprintA, te_requiredCapabilityIds = [''mail''],
     te_usedCapabilityIds = [''mail''], te_failedCapabilityIds = [], te_optionalOmissions = [],
     te_errorCodes = [], te_startedAt = exTime ''06'', te_completedAt = exTime ''08''\<rparr>"

definition exWorkflow5 :: BuildWorkflowRecord where
  "exWorkflow5 = (exMoved (exMove RoleTestRunner ''op-record'' 3 TestPending QaReview
     ResTestPassed ''08'') exWorkflow4)\<lparr>wf_testEvidence := Some exEvidence\<rparr>"

definition exQaApproval :: QaApprovalEvidence where
  "exQaApproval = \<lparr>qa_owner = exOwner, qa_workflowId = ''w'', qa_agentId = ''a'',
     qa_draftId = ''d'', qa_draftRevision = 3, qa_testRunId = ''run'',
     qa_capabilityPlanFingerprint = exFingerprintA, qa_requiredCapabilityIds = [''mail''],
     qa_operationId = ''op-5'', qa_approvedAt = exTime ''04''\<rparr>"

definition exWorkflow6 :: BuildWorkflowRecord where
  "exWorkflow6 = (exMoved (exMove RoleQa ''op-5'' 3 QaReview PublishReady ResApproved ''04'')
     exWorkflow5)\<lparr>wf_qaApproval := Some exQaApproval\<rparr>"

definition exWorkflow7 :: BuildWorkflowRecord where
  "exWorkflow7 = (exMoved (exMove RoleRoot ''op-publish'' 3 PublishReady Published ResPublished
     ''10'') exWorkflow6)\<lparr>wf_published := Some \<lparr>pb_owner = exOwner, pb_workflowId = ''w'',
       pb_agentId = ''a'', pb_specId = ''spec'', pb_specVersion = 1,
       pb_operationId = ''op-publish'', pb_publishedAt = exTime ''10''\<rparr>\<rparr>"

definition exVersion :: PublishedAgentVersion where
  "exVersion = \<lparr>v_specId = ''spec'', v_agentId = ''a'', v_version = 1, v_name = ''Mail agent'',
     v_kind = KindAgent, v_description = '''', v_pmBrief = ''Sort mail'',
     v_instructions = ''Sort'', v_toolRequirements = [exRequirement], v_triggers = [],
     v_testChecklist = [], v_publishedAt = exTime ''10'', v_publishedBy = ''user-1''\<rparr>"

definition exPublished :: SavedAgentFamily where
  "exPublished = (exFamily exFields2 3 ''04'')\<lparr>fam_lifecycle := Active,
     fam_activeSpecId := Some ''spec'', fam_activeVersion := Some 1, fam_draft := None,
     fam_revision := 4, fam_updatedAt := exTime ''10''\<rparr>"

text \<open>The records of the sessions and of the log are constants of their own: a stage unfolds
  only the ones it makes.\<close>

definition exOp1 :: OperationRecord where
  "exOp1 = \<lparr>op_requestFingerprint = ''op-allocate'',
     op_result = WorkflowAllocated (exFamily exFields0 1 ''00'') exWorkflow1\<rparr>"

definition exOp2 :: OperationRecord where
  "exOp2 = \<lparr>op_requestFingerprint = ''op-1'',
     op_result = WorkflowRoleSubmitted (exFamily exFields1 2 ''04'') exWorkflow2\<rparr>"

definition exOp3 :: OperationRecord where
  "exOp3 = \<lparr>op_requestFingerprint = ''op-2'',
     op_result = WorkflowRoleSubmitted (exFamily exFields2 3 ''04'') exWorkflow3\<rparr>"

definition exOp4 :: OperationRecord where
  "exOp4 = \<lparr>op_requestFingerprint = ''op-3'',
     op_result = WorkflowRoleSubmitted (exFamily exFields2 3 ''04'') exWorkflow4\<rparr>"

definition exOp5 :: OperationRecord where
  "exOp5 = \<lparr>op_requestFingerprint = ''op-record'',
     op_result = WorkflowTestRecorded (exFamily exFields2 3 ''04'') exWorkflow5\<rparr>"

definition exOp6 :: OperationRecord where
  "exOp6 = \<lparr>op_requestFingerprint = ''op-5'',
     op_result = WorkflowRoleSubmitted (exFamily exFields2 3 ''04'') exWorkflow6\<rparr>"

definition exOp7 :: OperationRecord where
  "exOp7 = \<lparr>op_requestFingerprint = ''op-publish'',
     op_result = WorkflowPublished exPublished exWorkflow7 exVersion\<rparr>"

definition exLog :: "(string \<times> OperationRecord) list" where
  "exLog =
     [(''op-allocate'', exOp1),
      (''op-1'', exOp2),
      (''op-2'', exOp3),
      (''op-3'', exOp4),
      (''op-record'', exOp5),
      (''op-5'', exOp6),
      (''op-publish'', exOp7)]"

definition exUsed1 :: BootstrapGrantRecord where
  "exUsed1 = exUsed ''1'' ExPm 1 1 None"

definition exLease1 :: ExecutionLeaseRecord where
  "exLease1 = exLease ''1'' ExPm 1 1 None None"

definition exUsed2 :: BootstrapGrantRecord where
  "exUsed2 = exUsed ''2'' ExImplementor 2 2 None"

definition exLease2 :: ExecutionLeaseRecord where
  "exLease2 = exLease ''2'' ExImplementor 2 2 None None"

definition exUsed3 :: BootstrapGrantRecord where
  "exUsed3 = exUsed ''3'' ExQa 3 3 None"

definition exLease3 :: ExecutionLeaseRecord where
  "exLease3 = exLease ''3'' ExQa 3 3 None None"

definition exUsed4 :: BootstrapGrantRecord where
  "exUsed4 = exUsed ''4'' ExTestRunner 3 4 (Some ''run'')"

definition exLease4 :: ExecutionLeaseRecord where
  "exLease4 = exLease ''4'' ExTestRunner 3 4 (Some ''run'') (Some exPlan)"

definition exUsed5 :: BootstrapGrantRecord where
  "exUsed5 = exUsed ''5'' ExQa 3 5 (Some ''run'')"

definition exLease5 :: ExecutionLeaseRecord where
  "exLease5 = exLease ''5'' ExQa 3 5 (Some ''run'') None"

lemma exUsed_tokens [simp]:
  "gr_tokenHash exUsed1 = exToken ''1''"
  "gr_tokenHash exUsed2 = exToken ''2''"
  "gr_tokenHash exUsed3 = exToken ''3''"
  "gr_tokenHash exUsed4 = exToken ''4''"
  "gr_tokenHash exUsed5 = exToken ''5''"
  by (simp_all add: exUsed1_def exUsed2_def exUsed3_def exUsed4_def exUsed5_def exUsed_def exGrant_def)

definition exGrants :: "(string \<times> BootstrapGrantRecord) list" where
  "exGrants =
     [(exToken ''1'', exUsed1),
      (exToken ''2'', exUsed2),
      (exToken ''3'', exUsed3),
      (exToken ''4'', exUsed4),
      (exToken ''5'', exUsed5)]"

definition exLeases :: "(string \<times> ExecutionLeaseRecord) list" where
  "exLeases =
     [(''child-1'', exLease1),
      (''child-2'', exLease2),
      (''child-3'', exLease3),
      (''child-4'', exLease4),
      (''child-5'', exLease5)]"

text \<open>A store with that many sessions and operations and the given family and workflow.\<close>

definition exBucket ::
  "nat \<Rightarrow> nat \<Rightarrow> SavedAgentFamily \<Rightarrow> PublishedAgentVersion list \<Rightarrow> BuildWorkflowRecord \<Rightarrow>
   OwnerBucket" where
  "exBucket sessions logged f vs w =
     \<lparr>allocatedDraftIds = {''d''}, closedParentTurns = [],
      families = [(''a'', \<lparr>fr_family = f, fr_versions = vs\<rparr>)],
      grants = take sessions exGrants, leases = take sessions exLeases,
      operations = take logged exLog, workflows = [(''a'', w)], testInputGrants = [],
      testExecutions = []\<rparr>"

definition exKey :: TestStepKey where
  "exKey = (''w'', ''run'', ''child-4'', ''work'', ''call-1'')"

definition exInput :: TestInputGrantRecord where
  "exInput = \<lparr>ig_step = exStep, ig_requestId = ''request'', ig_responderPrincipalId = ''user-1'',
     ig_authorizedAt = exTime ''05'', ig_consumedAt = Some (exTime ''06'')\<rparr>"

definition exExecution :: TestCapabilityExecutionRecord where
  "exExecution = \<lparr>tx_step = exStep, tx_approval = Verified, tx_status = ExecSucceeded,
     tx_startedAt = exTime ''06'', tx_completedAt = Some (exTime ''07''), tx_errorCode = None\<rparr>"

definition exTested :: "OwnerBucket \<Rightarrow> OwnerBucket" where
  "exTested b = b\<lparr>testInputGrants := [(exKey, exInput)], testExecutions := [(exKey, exExecution)]\<rparr>"

definition exStore :: "OwnerBucket \<Rightarrow> Tenants" where
  "exStore b = [(''t'', [(''u'', b)])]"

definition exState1 :: Tenants where
  "exState1 = exStore (exBucket 0 1 (exFamily exFields0 1 ''00'') [] exWorkflow1)"

definition exState2 :: Tenants where
  "exState2 = exStore (exBucket 1 2 (exFamily exFields1 2 ''04'') [] exWorkflow2)"

definition exState3 :: Tenants where
  "exState3 = exStore (exBucket 2 3 (exFamily exFields2 3 ''04'') [] exWorkflow3)"

definition exState4 :: Tenants where
  "exState4 = exStore (exBucket 3 4 (exFamily exFields2 3 ''04'') [] exWorkflow4)"

definition exState5 :: Tenants where
  "exState5 = exStore (exBucket 4 4 (exFamily exFields2 3 ''04'') [] exWorkflow4)"

definition exState5a :: Tenants where
  "exState5a = exStore (exTested (exBucket 4 4 (exFamily exFields2 3 ''04'') [] exWorkflow4))"

definition exState6 :: Tenants where
  "exState6 = exStore (exTested (exBucket 4 5 (exFamily exFields2 3 ''04'') [] exWorkflow5))"

definition exState6a :: Tenants where
  "exState6a = exStore (exTested (exBucket 5 5 (exFamily exFields2 3 ''04'') [] exWorkflow5))"

definition exState7 :: Tenants where
  "exState7 = exStore (exTested (exBucket 5 6 (exFamily exFields2 3 ''04'') [] exWorkflow6))"

definition exState8 :: Tenants where
  "exState8 = exStore (exTested (exBucket 5 7 exPublished [exVersion] exWorkflow7))"

lemmas states =
  exUsed_def exLease_def exDraft_def exFamily_def exMove_def exWorkflow1_def exMoved_def
  exWorkflow2_def exWorkflow3_def exWorkflow4_def exEvidence_def
  exWorkflow5_def exQaApproval_def exWorkflow6_def exWorkflow7_def exVersion_def exPublished_def
  exLog_def exGrants_def exLeases_def exBucket_def exKey_def exInput_def
  exExecution_def exTested_def exStore_def exState1_def exState2_def exState3_def exState4_def
  exState5_def exState5a_def exState6_def exState6a_def exState7_def exState8_def

end
