(* ===== verification/Scenario_Run.thy ===== *)
theory Scenario_Run
  imports Scenario
begin

text \<open>
  The stages of the example execution, each evaluated on the state before it, and the states it
  passes through as reachable states of the store.
\<close>

lemma stage1:
  "runCalls exHost []
     ([exAllocate]) = exState1"
  by (simp add: evaluation scenario states exOp1_def)

lemma stage2:
  "runCalls exHost exState1
     (exSession ''1'' ExPm 1 1 None None @
      [exSubmit ''1'' BuildPm 1 1 1 exFields1 ''mail agent'' SubCompletedHandoff None]) = exState2"
  by (simp add: evaluation scenario states exOp2_def exUsed1_def exLease1_def)

lemma stage3:
  "runCalls exHost exState2
     (exSession ''2'' ExImplementor 2 2 None None @
      [exSubmit ''2'' BuildImplementor 2 2 2 exFields2 ''mail agent'' SubCompletedHandoff None]) = exState3"
  by (simp add: evaluation scenario states exOp3_def exUsed2_def exLease2_def)

lemma stage4:
  "runCalls exHost exState3
     (exSession ''3'' ExQa 3 3 None None @
      [exSubmit ''3'' BuildQa 3 3 3 exFields2 ''mail agent'' SubNeedsTest (Some ''run'')]) = exState4"
  by (simp add: evaluation scenario states exOp4_def exUsed3_def exLease3_def)

lemma stage5:
  "runCalls exHost exState4
     (exSession ''4'' ExTestRunner 3 4 (Some ''run'') (Some exPlan)) = exState5"
  by (simp add: evaluation scenario states exUsed4_def exLease4_def)

lemma stage5a:
  "runCalls exHost exState5
     [AuthorizeInput exAuthorize, BeginTestExecution exBeginTest,
      CompleteTestExecution exCompleteTest] = exState5a"
  by (simp add: evaluation scenario states exLease4_def)

definition exTestedBucket :: OwnerBucket where
  "exTestedBucket = exTested (exBucket 4 4 (exFamily exFields2 3 ''04'') [] exWorkflow4)"


lemma record_workflow: "workflowById exTestedBucket ''w'' = Some exWorkflow4"
  by (simp add: workflowById_def exTestedBucket_def states exOwner_def)

lemma record_context: "recordContext exTestedBucket (exBase ''op-record'' ''08'') exRecordCommand exWorkflow4 = 
   Some (\<lparr>fr_family = exFamily exFields2 3 ''04'', fr_versions = []\<rparr>, exDraft exFields2 3 ''04'', exLease4, exPlan)"
  by (simp add: recordContext_def recordLeaseValid_def liveRecord_def exTestedBucket_def states exRecordCommand_def exOwner_def exLease4_def exBase_def exPlan_def timeLe_def)

lemma record_executions: "executionsOfRun exTestedBucket exRecordCommand exWorkflow4 = [exExecution]"
  by (simp add: executionsOfRun_def exRecordCommand_def exTestedBucket_def states exStep_def)

lemma record_capabilities:
  "succeededCapabilities [exExecution] = [''mail'']" "failedCapabilities [exExecution] = []"
  by (simp_all add: succeededCapabilities_def failedCapabilities_def exExecution_def exStep_def)

lemma record_evidence: "recordedEvidence exHost exTestedBucket (exBase ''op-record'' ''08'') exRecordCommand
     exWorkflow4 (exDraft exFields2 3 ''04'') exLease4 exPlan = exEvidence"
  unfolding recordedEvidence_def record_executions Let_def record_capabilities
  by (simp add: evaluation scenario states exLease4_def exRecordCommand_def)

lemma exEvidence_schema: "buildTestEvidenceSchema exEvidence"
  by (simp add: evaluation scenario exEvidence_def)

lemma record_tested: "testedWorkflow (exBase ''op-record'' ''08'') exWorkflow4 exEvidence = exWorkflow5"
  by (simp add: evaluation scenario states)

lemma exWorkflow5_schema: "buildWorkflowRecordSchema exWorkflow5"
  by (simp add: evaluation scenario states)

lemma record_result: "recordBuildTest exHost exTestedBucket (exBase ''op-record'' ''08'') exRecordCommand =
    Inr (exTestedBucket\<lparr>workflows := [(''a'', exWorkflow5)]\<rparr>, WorkflowTestRecorded (exFamily exFields2 3 ''04'') exWorkflow5)"
proof -
  have "wf_phase exWorkflow4 = TestPending" "wf_testRunId exWorkflow4 = Some ''run''"
    "wf_revision exWorkflow4 = 4" "wf_agentId exWorkflow4 = ''a''"
    by (simp_all add: states)
  moreover have "putWorkflow exWorkflow5 ''a'' exTestedBucket = exTestedBucket\<lparr>workflows := [(''a'', exWorkflow5)]\<rparr>"
    by (simp add: putWorkflow_def exTestedBucket_def exTested_def exBucket_def)
  ultimately show ?thesis
    using record_workflow record_context record_evidence exEvidence_schema record_tested exWorkflow5_schema
    by (simp add: recordBuildTest_def exPlan_def Let_def exRecordCommand_def)
qed
lemma stage6: "runCalls exHost exState5a [exRecord] = exState6"
proof -
  let ?m = "exBase ''op-record'' ''08''" and ?t = exState5a
  have b: "bucketOf ?t exOwner = exTestedBucket" and e: "ensureBucket ?t exOwner = ?t"
    by (simp_all add: bucketOf_def getBucket_def ensureBucket_def exState5a_def exStore_def
        exOwner_def exTestedBucket_def)
  have m: "mb_owner ?m = exOwner" "mb_operationId ?m = ''op-record''"
    "mb_requestFingerprint ?m = ''op-record''" "timestampSchema (mb_occurredAt ?m)"
    by (simp_all add: exBase_def timestampSchema_def)
  have new: "map_of (operations exTestedBucket) ''op-record'' = None"
    by (simp add: exTestedBucket_def exTested_def exBucket_def exLog_def)
  show ?thesis
    by (simp add: exRecord_def mutate_def b e m new record_result Let_def)
      (simp add: logOperation_def m exTestedBucket_def states putBucket_def exOwner_def exOp5_def)
qed

lemma stage6a:
  "runCalls exHost exState6 (exSession ''5'' ExQa 3 5 (Some ''run'') None) = exState6a"
  by (simp add: evaluation scenario states exUsed5_def exLease5_def)

lemma stage7:
  "runCalls exHost exState6a
     [exSubmit ''5'' BuildQa 5 3 3 exFields2 ''mail agent'' SubApproved None] = exState7"
  by (simp add: evaluation scenario states exOp6_def exLease5_def exLease_def)

lemma stage8:
  "runCalls exHost exState7
     ([exPublish]) = exState8"
  by (simp add: evaluation scenario states exOp7_def)

lemma exStates_reachable:
  "reachable exHost exState1" "reachable exHost exState2" "reachable exHost exState3"
  "reachable exHost exState4" "reachable exHost exState5" "reachable exHost exState6"
  "reachable exHost exState7" "reachable exHost exState8"
proof -
  note step = reachable_runCalls [where h = exHost]
  show 1: "reachable exHost exState1" using step [OF reachable.initial] stage1 by metis
  show 2: "reachable exHost exState2" using step [OF 1] stage2 by metis
  show 3: "reachable exHost exState3" using step [OF 2] stage3 by metis
  show 4: "reachable exHost exState4" using step [OF 3] stage4 by metis
  show 5: "reachable exHost exState5" using step [OF 4] stage5 by metis
  show 6: "reachable exHost exState6" using step [OF step [OF 5]] stage5a stage6 by metis
  show 7: "reachable exHost exState7" using step [OF step [OF 6]] stage6a stage7 by metis
  show 8: "reachable exHost exState8" using step [OF 7] stage8 by metis
qed

lemma exState6a_reachable: "reachable exHost exState6a"
  using reachable_runCalls[OF exStates_reachable(6)] stage6a by metis

lemma exCalls_run: "runCalls exHost [] exCalls = exState8"
  unfolding exCalls_def exDrafting_def exTesting_def exApproval_def
  using stage1 stage2 stage3 stage4 stage5 stage5a stage6 stage6a stage7 stage8
  by (simp only: runCalls_append append_assoc append_Cons append_Nil runCalls.simps)

text \<open>What the queries return on the states.\<close>

lemmas queries = getBuildWorkflow_def listVersions_def familyRecordOf_def getFamily_def getBucket_def
  bucketOf_def getExecutionLease_def exStore_def exTested_def exBucket_def exOwner_def

lemma exWorkflows:
  "getBuildWorkflow exState1 exOwner ''a'' = Some exWorkflow1"
  "getBuildWorkflow exState4 exOwner ''a'' = Some exWorkflow4"
  "getBuildWorkflow exState6 exOwner ''a'' = Some exWorkflow5"
  "getBuildWorkflow exState7 exOwner ''a'' = Some exWorkflow6"
  "getBuildWorkflow exState8 exOwner ''a'' = Some exWorkflow7"
  by (simp_all add: queries exState1_def exState4_def exState6_def exState7_def exState8_def)

lemmas workflow_values = exWorkflow1_def exWorkflow2_def exWorkflow3_def exWorkflow4_def
  exWorkflow5_def exWorkflow6_def exWorkflow7_def exMoved_def exMove_def

lemma exPhases:
  "wf_phase exWorkflow1 = PmWork" "wf_phase exWorkflow4 = TestPending"
  "wf_phase exWorkflow5 = QaReview" "wf_phase exWorkflow6 = PublishReady"
  "wf_phase exWorkflow7 = Published"
  by (simp_all add: workflow_values)

section \<open>A second family\<close>

definition exOtherFields :: SavedAgentEditableFields where
  "exOtherFields = exFields0\<lparr>fld_name := ''Other''\<rparr>"

definition exCreate :: CreateFamilyStoreCommand where
  "exCreate = \<lparr>cf_agentId = ''b'', cf_draftId = ''d2'', cf_maxFamilies = 5,
     cf_canonicalName = ''other'', cf_fields = exOtherFields\<rparr>"

definition exOther :: SavedAgentFamily where
  "exOther = \<lparr>fam_agentId = ''b'', fam_owner = exOwner, fam_lifecycle = DraftOnly,
     fam_activeSpecId = None, fam_activeVersion = None,
     fam_draft = Some \<lparr>d_draftId = ''d2'', d_basedOnSpecId = None, d_basedOnVersion = None,
       d_fields = exOtherFields, d_draftRevision = 1, d_createdAt = exTime ''10'',
       d_updatedAt = exTime ''10''\<rparr>,
     fam_revision = 1, fam_createdAt = exTime ''10'', fam_updatedAt = exTime ''10'',
     fam_archivedAt = None, fam_deletedAt = None\<rparr>"

definition exState9 :: Tenants where
  "exState9 = runCalls exHost exState8 [Mutate (exBase ''op-create'' ''10'') (CreateFamily exCreate)]"

lemma exOther_name [simp]: "canonicalizeAgentName exHost ''Other'' = ''other''"
  by code_simp

lemma create_result:
  "apply_command exHost (bucketOf exState8 exOwner) (exBase ''op-create'' ''10'') (CreateFamily exCreate) =
     Inr (putRecord ''b'' \<lparr>fr_family = exOther, fr_versions = []\<rparr> (bucketOf exState8 exOwner)
            \<lparr>allocatedDraftIds := {''d'', ''d2''}\<rparr>, FamilyCreated exOther)"
  by (simp add: evaluation scenario states exCreate_def exOtherFields_def exOther_def insert_commute)

lemma mutate_applied:
  assumes "map_of (operations (bucketOf t (mb_owner m))) (mb_operationId m) = None"
    and "timestampSchema (mb_occurredAt m)"
    and "apply_command h (bucketOf t (mb_owner m)) m c = Inr (b', s)"
  shows "mutate h t m c =
    (putBucket (ensureBucket t (mb_owner m)) (mb_owner m) (logOperation m s b'), Inr s)"
  using assms by (simp add: mutate_def)

lemma exBase_members [simp]:
  "mb_owner (exBase operation minute) = exOwner" "mb_operationId (exBase operation minute) = operation"
  "mb_requestFingerprint (exBase operation minute) = operation"
  "mb_occurredAt (exBase operation minute) = exTime minute"
  by (simp_all add: exBase_def)

lemma create_mutation:
  "mutate exHost exState8 (exBase ''op-create'' ''10'') (CreateFamily exCreate) =
     (exState9, Inr (FamilyCreated exOther))"
proof -
  have "map_of (operations (bucketOf exState8 exOwner)) ''op-create'' = None"
    by (simp add: exState8_def queries exLog_def)
  from mutate_applied[of exState8 "exBase ''op-create'' ''10''", unfolded exBase_members, OF this _ create_result]
  show ?thesis by (simp add: exState9_def timestampSchema_def)
qed

lemma exState9_bucket: "bucketOf exState9 exOwner =
    logOperation (exBase ''op-create'' ''10'') (FamilyCreated exOther)
      (putRecord ''b'' \<lparr>fr_family = exOther, fr_versions = []\<rparr> (bucketOf exState8 exOwner)
         \<lparr>allocatedDraftIds := {''d'', ''d2''}\<rparr>)"
  using mutate_fresh_Inr[of exState8 "exBase ''op-create'' ''10''" exHost "CreateFamily exCreate"
      exState9 "FamilyCreated exOther"] create_mutation create_result
  by (auto simp: fresh_def exState8_def queries exLog_def)

lemma exFamilies9:
  "familyRecordOf exState9 exOwner ''a'' = Some \<lparr>fr_family = exPublished, fr_versions = [exVersion]\<rparr>"
  "familyRecordOf exState9 exOwner ''b'' = Some \<lparr>fr_family = exOther, fr_versions = []\<rparr>"
proof -
  have q: "familyRecordOf exState9 exOwner aid = map_of (families (bucketOf exState9 exOwner)) aid" for aid
    by (simp add: familyRecordOf_def bucketOf_def emptyBucket_def split: option.splits)
  show "familyRecordOf exState9 exOwner ''a'' = Some \<lparr>fr_family = exPublished, fr_versions = [exVersion]\<rparr>"
    "familyRecordOf exState9 exOwner ''b'' = Some \<lparr>fr_family = exOther, fr_versions = []\<rparr>"
    unfolding q exState9_bucket by (simp_all add: logOperation_def putRecord_def exState8_def queries)
qed

lemma exState9_reachable: "reachable exHost exState9"
  unfolding exState9_def by (rule reachable_runCalls) (rule exStates_reachable)

end
