(* ===== verification/Workflow_Properties.thy ===== *)
theory Workflow_Properties
  imports Scenario_Run
begin

text \<open>
  The properties of the build process: what a published agent has behind it, which walks the
  transition log can be, and what an edit or the size of the log does to the process.
\<close>

lemma stored_workflow:
  assumes "reachable h t" and "getBuildWorkflow t ow aid = Some w"
  obtains b where "getBucket t ow = Some b" and "bucket_ok h ow b"
    and "map_of (workflows b) aid = Some w" and "workflow_ok ow aid w"
proof -
  from assms(2) obtain b where b: "getBucket t ow = Some b" "map_of (workflows b) aid = Some w"
    by (auto simp: getBuildWorkflow_def split: option.splits)
  with reachable_bucket[OF assms(1) b(1)] workflows_okD(2)[OF bucket_okD(2)] that show thesis
    by blast
qed

lemma getBuildWorkflow_bucketOf: "getBuildWorkflow t ow aid = map_of (workflows (bucketOf t ow)) aid"
  by (simp add: getBuildWorkflow_def bucketOf_def emptyBucket_def split: option.splits)

lemma later_workflow:
  assumes "reachable h t" and "getBuildWorkflow t ow aid = Some w"
  obtains w' where "getBuildWorkflow (runCalls h t cs) ow aid = Some w'" and "workflowLater w w'"
proof -
  have "bucketLater (bucketOf t ow) (bucketOf (runCalls h t cs) ow)"
    by (rule bucketOf_later) (rule reachable_later[OF assms(1)])
  then have "map_later workflowLater (map_of (workflows (bucketOf t ow)))
      (map_of (workflows (bucketOf (runCalls h t cs) ow)))"
    by (simp add: bucketLater_def)
  from map_laterD[OF this assms(2)[unfolded getBuildWorkflow_bucketOf]] that show thesis
    unfolding getBuildWorkflow_bucketOf by blast
qed

lemma workflow_refinement: "workflow_ok ow aid w \<Longrightarrow> buildWorkflowRefinement w"
  by (simp add: workflow_ok_def buildWorkflowRecordSchemaD)

lemma stored_family:
  assumes "getBucket t ow = Some b" and "map_of (families b) aid = Some rec"
  shows "familyRecordOf t ow aid = Some rec"
  using assms by (simp add: familyRecordOf_def)

lemma delivered_facts:
  assumes "reachable h t" and "getBuildWorkflow t ow aid = Some w" and "wf_phase w = Published"
  obtains b rec v p e q where "getBucket t ow = Some b" and "bucket_ok h ow b"
    and "familyRecordOf t ow aid = Some rec" and "fr_versions rec = [v]"
    and "wf_published w = Some p" and "pb_specId p = v_specId v" and "pb_specVersion p = v_version v"
    and "wf_testEvidence w = Some e" and "te_requiredCapabilityIds e = versionRequired v"
    and "passedEvidence e" and "wf_qaApproval w = Some q" and "supportedEvidence b e"
    and "workflow_ok ow aid w"
proof -
  from stored_workflow[OF assms(1,2)] obtain b where b: "getBucket t ow = Some b"
      "bucket_ok h ow b" "map_of (workflows b) aid = Some w" "workflow_ok ow aid w" .
  from workflow_family[OF bucket_okD(2)[OF b(2)] b(3)] obtain rec where
    rec: "map_of (families b) aid = Some rec" .
  from workflow_linked(1)[OF bucket_okD(2)[OF b(2)] b(3) rec] assms(3) have "delivered rec w"
    by (auto simp: drafting_def)
  then obtain v p e where v: "fr_versions rec = [v]" "wf_published w = Some p"
      "pb_specId p = v_specId v" "pb_specVersion p = v_version v" "wf_testEvidence w = Some e"
      "te_requiredCapabilityIds e = versionRequired v"
    by (auto simp: delivered_def)
  from b(4) assms(3) v(5) obtain q where "wf_qaApproval w = Some q" "passedEvidence e"
    by (auto simp: workflow_ok_def evidence_ok_def)
  moreover have "supportedEvidence b e"
    using bucket_okD(5)[OF b(2)] b(3) v(5) by (auto simp: evidence_supported_def)
  ultimately show thesis using that b stored_family[OF b(1) rec] v by blast
qed

text \<open>C1. A published workflow has exactly one version behind it, the one its publication names,
  and that version was tested: the stored evidence passed without a failure or an error, it names
  the required capabilities of the very version that was published, and for each of them the
  store holds a succeeded execution of that capability in the same test run, lease and turn.\<close>

theorem published_workflow_tested:
  assumes "reachable h t" and "getBuildWorkflow t ow aid = Some w" and "wf_phase w = Published"
  shows "\<exists>v p e. listVersions t ow aid = [v] \<and>
    wf_published w = Some p \<and> pb_specId p = v_specId v \<and> pb_specVersion p = v_version v \<and>
    wf_testEvidence w = Some e \<and> te_status e = TestPassed \<and> te_failedCapabilityIds e = [] \<and>
    te_errorCodes e = [] \<and>
    (\<forall>r \<in> set (v_toolRequirements v). req_level r = Required \<longrightarrow>
       (\<exists>k x. map_of (testExecutions (bucketOf t ow)) k = Some x \<and> ranFor e (req_capabilityId r) x))"
proof -
  from delivered_facts[OF assms] obtain b rec v p e q where f: "getBucket t ow = Some b"
    "familyRecordOf t ow aid = Some rec" "fr_versions rec = [v]" "wf_published w = Some p"
    "pb_specId p = v_specId v" "pb_specVersion p = v_version v" "wf_testEvidence w = Some e"
    "te_requiredCapabilityIds e = versionRequired v" "passedEvidence e" "supportedEvidence b e"
    by metis
  have "\<exists>k x. map_of (testExecutions b) k = Some x \<and> ranFor e (req_capabilityId r) x"
    if "r \<in> set (v_toolRequirements v)" "req_level r = Required" for r
  proof -
    have "req_capabilityId r \<in> set (te_requiredCapabilityIds e)"
      using that by (auto simp: f(8) versionRequired_def)
    with f(9,10) show ?thesis by (auto simp: passedEvidence_def supportedEvidence_def)
  qed
  with f show ?thesis
    by (auto simp: listVersions_def passedEvidence_def bucketOf_def)
qed

theorem published_workflow_tested_witness:
  "\<exists>v p e. listVersions exState8 exOwner ''a'' = [v] \<and>
    wf_published exWorkflow7 = Some p \<and> pb_specId p = v_specId v \<and> pb_specVersion p = v_version v \<and>
    wf_testEvidence exWorkflow7 = Some e \<and> te_status e = TestPassed \<and> te_failedCapabilityIds e = [] \<and>
    te_errorCodes e = [] \<and>
    (\<forall>r \<in> set (v_toolRequirements v). req_level r = Required \<longrightarrow>
       (\<exists>k x. map_of (testExecutions (bucketOf exState8 exOwner)) k = Some x \<and>
          ranFor e (req_capabilityId r) x))"
  by (rule published_workflow_tested[OF exStates_reachable(8) exWorkflows(5) exPhases(5)])

text \<open>C2. Every stored workflow is a walk of the build process: the log starts with the allocation,
  each entry leaves the phase the one before reached along an edge of the process, the last entry
  reaches the stored phase at the stored draft revision, and the revision counts the entries.\<close>

theorem workflow_walks_process:
  assumes "reachable h t" and "getBuildWorkflow t ow aid = Some w"
  shows "build_log (wf_transitions w) (wf_phase w) \<and>
    wf_revision w = int (length (wf_transitions w)) \<and>
    tr_draftRevision (last (wf_transitions w)) = wf_draftRevision w"
proof -
  from stored_workflow[OF assms] obtain b where w: "workflow_ok ow aid w" by metis
  then have "latestDescribes w"
    using workflow_refinement[OF w] by (simp add: buildWorkflowRefinement_def)
  with w show ?thesis by (auto simp: workflow_ok_def latestDescribes_def split: list.splits)
qed

theorem workflow_walks_process_witness:
  "build_log (wf_transitions exWorkflow7) (wf_phase exWorkflow7) \<and>
    wf_revision exWorkflow7 = int (length (wf_transitions exWorkflow7)) \<and>
    tr_draftRevision (last (wf_transitions exWorkflow7)) = wf_draftRevision exWorkflow7"
  by (rule workflow_walks_process[OF exStates_reachable(8) exWorkflows(5)])

text \<open>C3. Nothing is published without QA: the log of a published workflow ends with an approval
  by the QA role, directly followed by the publication, and the stored approval is bound to the
  draft revision, the test run and the capability plan of the stored evidence.\<close>

theorem publication_follows_approval:
  assumes "reachable h t" and "getBuildWorkflow t ow aid = Some w" and "wf_phase w = Published"
  shows "\<exists>ts a p q e. wf_transitions w = ts @ [a, p] \<and> tr_role a = RoleQa \<and>
    tr_result a = ResApproved \<and> tr_role p = RoleRoot \<and> tr_result p = ResPublished \<and>
    wf_qaApproval w = Some q \<and> wf_testEvidence w = Some e \<and>
    qa_draftRevision q = te_draftRevision e \<and> qa_testRunId q = te_testRunId e \<and>
    qa_capabilityPlanFingerprint q = te_capabilityPlanFingerprint e"
proof -
  from delivered_facts[OF assms] obtain e q where f: "wf_testEvidence w = Some e"
    "wf_qaApproval w = Some q" "workflow_ok ow aid w" by metis
  from f(3) assms(3) have "build_log (wf_transitions w) Published" by (simp add: workflow_ok_def)
  then obtain ts a p where "wf_transitions w = ts @ [a, p]" "tr_role a = RoleQa"
    "tr_result a = ResApproved" "tr_role p = RoleRoot" "tr_result p = ResPublished"
    by (rule build_log_Published)
  moreover from approval_evidence[OF workflow_refinement[OF f(3)] f(2)] f(1)
  have "qa_draftRevision q = te_draftRevision e \<and> qa_testRunId q = te_testRunId e \<and>
    qa_capabilityPlanFingerprint q = te_capabilityPlanFingerprint e" by (metis option.inject)
  ultimately show ?thesis using f by blast
qed

theorem publication_follows_approval_witness:
  "\<exists>ts a p q e. wf_transitions exWorkflow7 = ts @ [a, p] \<and> tr_role a = RoleQa \<and>
    tr_result a = ResApproved \<and> tr_role p = RoleRoot \<and> tr_result p = ResPublished \<and>
    wf_qaApproval exWorkflow7 = Some q \<and> wf_testEvidence exWorkflow7 = Some e \<and>
    qa_draftRevision q = te_draftRevision e \<and> qa_testRunId q = te_testRunId e \<and>
    qa_capabilityPlanFingerprint q = te_capabilityPlanFingerprint e"
  by (rule publication_follows_approval[OF exStates_reachable(8) exWorkflows(5) exPhases(5)])

text \<open>C4. An agent under construction cannot be published around its process: as long as its
  workflow is not published, the family has no version and no active version, and its draft is
  the one the workflow describes, at the same revision.\<close>

theorem no_publication_around_process:
  assumes "reachable h t" and "getBuildWorkflow t ow aid = Some w" and "wf_phase w \<noteq> Published"
  shows "listVersions t ow aid = [] \<and>
    (\<exists>f d. getFamily t ow aid = Some f \<and> fam_activeSpecId f = None \<and> fam_draft f = Some d \<and>
       d_draftId d = wf_draftId w \<and> d_draftRevision d = wf_draftRevision w)"
proof -
  from stored_workflow[OF assms(1,2)] obtain b where b: "getBucket t ow = Some b"
      "bucket_ok h ow b" "map_of (workflows b) aid = Some w" "workflow_ok ow aid w" .
  from workflow_family[OF bucket_okD(2)[OF b(2)] b(3)] obtain rec where
    rec: "map_of (families b) aid = Some rec" .
  from workflow_linked(1)[OF bucket_okD(2)[OF b(2)] b(3) rec] assms(3) have d: "drafting rec w"
    by (auto simp: delivered_def)
  have "activePointerValid rec"
    using families_okD(2)[OF bucket_okD(1)[OF b(2)] rec] by (simp add: record_ok_def)
  with d stored_family[OF b(1) rec] show ?thesis
    by (auto simp: drafting_def listVersions_def getFamily_def activePointerValid_def
        split: option.splits)
qed

theorem no_publication_around_process_witness:
  "listVersions exState7 exOwner ''a'' = [] \<and>
    (\<exists>f d. getFamily exState7 exOwner ''a'' = Some f \<and> fam_activeSpecId f = None \<and>
       fam_draft f = Some d \<and> d_draftId d = wf_draftId exWorkflow6 \<and>
       d_draftRevision d = wf_draftRevision exWorkflow6)"
  by (rule no_publication_around_process[OF exStates_reachable(7) exWorkflows(4)])
    (simp add: exPhases)

text \<open>C5. A workflow is bounded and only moves forward: whatever is called, it is still there
  afterwards, either unchanged or at a higher revision, and no revision exceeds 256, the length
  its log may have. A workflow with 256 entries therefore never changes again.\<close>

theorem workflow_bounded:
  assumes "reachable h t" and "getBuildWorkflow t ow aid = Some w"
  shows "\<exists>w'. getBuildWorkflow (runCalls h t cs) ow aid = Some w' \<and>
    (w' = w \<or> wf_revision w < wf_revision w') \<and> wf_revision w' \<le> 256"
proof -
  from later_workflow[OF assms, of cs] obtain w' where
    q: "getBuildWorkflow (runCalls h t cs) ow aid = Some w'" and w': "workflowLater w w'" .
  have "workflow_ok ow aid w'" by (rule stored_workflow[OF reachable_runCalls[OF assms(1)] q])
  then have "wf_revision w' \<le> 256"
    using buildWorkflowRecordSchemaD(3)[of w'] by (simp add: workflow_ok_def)
  moreover from w' have "w' = w \<or> wf_revision w < wf_revision w'" unfolding workflowLater_def by blast
  ultimately show ?thesis using q by blast
qed

theorem workflow_bounded_witness:
  "\<exists>w'. getBuildWorkflow (runCalls exHost exState4 exApproval) exOwner ''a'' = Some w' \<and>
    (w' = exWorkflow4 \<or> wf_revision exWorkflow4 < wf_revision w') \<and> wf_revision w' \<le> 256"
  by (rule workflow_bounded[OF exStates_reachable(4) exWorkflows(2)])

text \<open>Publication is final: a published workflow is never changed again.\<close>

theorem published_workflow_final:
  assumes "reachable h t" and "getBuildWorkflow t ow aid = Some w" and "wf_phase w = Published"
  shows "getBuildWorkflow (runCalls h t cs) ow aid = Some w"
  using later_workflow[OF assms(1,2), of cs] assms(3) by (auto simp: workflowLater_def)

theorem published_workflow_final_witness:
  "getBuildWorkflow (runCalls exHost exState8 exCalls) exOwner ''a'' = Some exWorkflow7"
  by (rule published_workflow_final[OF exStates_reachable(8) exWorkflows(5) exPhases(5)])

end
