(* ===== verification/Family_Properties.thy ===== *)
theory Family_Properties
  imports Workflow_Properties
begin

text \<open>
  The properties of saved agent families and of the mutation protocol: version history, names,
  idempotence, optimistic concurrency, isolation of owners, and the lifecycle.
\<close>

lemma familyRecordOf_bucketOf: "familyRecordOf t ow aid = map_of (families (bucketOf t ow)) aid"
  by (simp add: familyRecordOf_def bucketOf_def emptyBucket_def split: option.splits)

lemma reachable_families: "reachable h t \<Longrightarrow> families_ok h ow (bucketOf t ow)"
  by (rule bucket_okD(1)[OF bucketOf_ok[OF reachable_ok]])

lemma reachable_record:
  assumes "reachable h t" and "familyRecordOf t ow aid = Some rec"
  shows "record_ok h ow aid rec"
  using families_okD(2)[OF reachable_families[OF assms(1)]] assms(2)
  by (simp add: familyRecordOf_bucketOf)

lemma later_record:
  assumes "reachable h t" and "familyRecordOf t ow aid = Some rec"
  obtains rec' where "familyRecordOf (runCalls h t cs) ow aid = Some rec'" and "familyLater rec rec'"
proof -
  have "bucketLater (bucketOf t ow) (bucketOf (runCalls h t cs) ow)"
    by (rule bucketOf_later) (rule reachable_later[OF assms(1)])
  then have "map_later familyLater (map_of (families (bucketOf t ow)))
      (map_of (families (bucketOf (runCalls h t cs) ow)))"
    by (simp add: bucketLater_def)
  from map_laterD[OF this assms(2)[unfolded familyRecordOf_bucketOf]] that show thesis
    unfolding familyRecordOf_bucketOf by blast
qed

lemma numbered_sorted: "versionsNumbered vs \<Longrightarrow> sort_key v_version vs = vs"
  by (rule sort_key_id_if_sorted) (simp add: versionsNumbered_def sorted_iff_nth_mono_less)

lemma listVersions_record:
  assumes "reachable h t" and "familyRecordOf t ow aid = Some rec"
  shows "listVersions t ow aid = fr_versions rec"
  using reachable_record[OF assms] assms(2) numbered_sorted
  by (simp add: listVersions_def record_ok_def)

section \<open>Versions\<close>

text \<open>C6. The version history is append-only: whatever is called, the list of published versions
  of an agent is extended at most, never reordered, changed or shortened.\<close>

theorem versions_append_only:
  assumes "reachable h t"
  shows "\<exists>vs. listVersions (runCalls h t cs) ow aid = listVersions t ow aid @ vs"
proof (cases "familyRecordOf t ow aid")
  case None
  then show ?thesis by (simp add: listVersions_def)
next
  case (Some rec)
  from later_record[OF assms Some, of cs] obtain rec' where
    r: "familyRecordOf (runCalls h t cs) ow aid = Some rec'" "familyLater rec rec'" .
  from r(2) have "\<exists>vs. fr_versions rec' = fr_versions rec @ vs" by (auto simp: familyLater_def)
  with listVersions_record[OF assms Some] listVersions_record[OF reachable_runCalls[OF assms] r(1)]
  show ?thesis by simp
qed

theorem versions_append_only_witness:
  "\<exists>vs. listVersions (runCalls exHost exState7 [exPublish]) exOwner ''a'' =
     listVersions exState7 exOwner ''a'' @ vs"
  by (rule versions_append_only[OF exStates_reachable(7)])

text \<open>The versions of an agent are numbered 1 to n in the order of publication, carry pairwise
  different specification ids, and each of them is found again by its id and number.\<close>

theorem versions_numbered:
  assumes "reachable h t"
  shows "map v_version (listVersions t ow aid) =
      map (\<lambda>i. int (Suc i)) [0..<length (listVersions t ow aid)] \<and>
    distinct (map v_specId (listVersions t ow aid)) \<and>
    (\<forall>v \<in> set (listVersions t ow aid). getVersion t ow aid (v_specId v) (v_version v) = Some v)"
proof (cases "familyRecordOf t ow aid")
  case None
  then show ?thesis by (simp add: listVersions_def)
next
  case (Some rec)
  note ok = reachable_record[OF assms Some]
  show ?thesis
    unfolding listVersions_record[OF assms Some]
    using ok Some findVersion_numbered[of "fr_versions rec"]
    by (auto simp: record_ok_def getVersion_def versionsNumbered_def)
qed

theorem versions_numbered_witness:
  "map v_version (listVersions exState8 exOwner ''a'') =
      map (\<lambda>i. int (Suc i)) [0..<length (listVersions exState8 exOwner ''a'')] \<and>
    distinct (map v_specId (listVersions exState8 exOwner ''a'')) \<and>
    getVersion exState8 exOwner ''a'' ''spec'' 1 = Some exVersion"
proof -
  note numbered = versions_numbered[OF exStates_reachable(8), of exOwner "''a''"]
  have "listVersions exState8 exOwner ''a'' = [exVersion]"
    by (simp add: queries exState8_def)
  moreover have "v_specId exVersion = ''spec''" "v_version exVersion = 1"
    by (simp_all add: exVersion_def)
  ultimately show ?thesis using numbered by simp
qed

section \<open>Names\<close>

text \<open>Canonical names are unique within an owner: the names that one family reserves, by its
  draft or by any version it ever published, are reserved by no other family.\<close>

theorem names_unique:
  assumes "reachable h t" and "familyRecordOf t ow a1 = Some r1" and "familyRecordOf t ow a2 = Some r2"
    and "a1 \<noteq> a2"
  shows "\<not> (\<exists>cn. reservesName h r1 cn \<and> reservesName h r2 cn)"
proof -
  have "compatible h r1 r2"
    using families_okD(4)[OF reachable_families[OF assms(1), of ow] assms(4)] assms(2,3)
    by (simp add: familyRecordOf_bucketOf)
  then show ?thesis by (auto simp: compatible_def reservesName_iff)
qed

theorem names_unique_witness:
  "\<not> (\<exists>cn. reservesName exHost \<lparr>fr_family = exPublished, fr_versions = [exVersion]\<rparr> cn \<and>
     reservesName exHost \<lparr>fr_family = exOther, fr_versions = []\<rparr> cn)"
  by (rule names_unique[OF exState9_reachable exFamilies9]) simp

lemma activeRecord_ok:
  assumes "record_ok h ow aid rec"
  obtains r where "activeRecord rec = Inr r"
    and "\<And>x. r = Some x \<Longrightarrow> fam_lifecycle (af_family x) = Active \<and> af_family x = fr_family rec \<and>
      af_activeVersion x \<in> set (fr_versions rec) \<and>
      fam_activeSpecId (af_family x) = Some (v_specId (af_activeVersion x)) \<and>
      fam_activeVersion (af_family x) = Some (v_version (af_activeVersion x))"
proof (cases "fam_activeSpecId (fr_family rec)")
  case None
  then show thesis using that[of None] by (simp add: activeRecord_def)
next
  case (Some sid)
  with assms obtain v where v: "v \<in> set (fr_versions rec)" "v_specId v = sid"
      "fam_activeVersion (fr_family rec) = Some (v_version v)"
    by (auto simp: record_ok_def activePointerValid_def)
  have "findVersion (fr_versions rec) sid (v_version v) = Some v"
    using findVersion_numbered[of "fr_versions rec" v] assms v by (simp add: record_ok_def)
  with Some v have "activeRecord rec =
      Inr (if fam_lifecycle (fr_family rec) = Active
           then Some \<lparr>af_family = fr_family rec, af_activeVersion = v\<rparr> else None)"
    by (simp add: activeRecord_def)
  then show thesis by (rule that) (use Some v in \<open>auto split: if_splits\<close>)
qed

lemma activeRecords_ok:
  assumes "\<And>rec. rec \<in> set recs \<Longrightarrow> \<exists>aid. record_ok h ow aid rec"
  shows "\<exists>xs. activeRecords recs = Inr xs \<and>
    (\<forall>x \<in> set xs. fam_lifecycle (af_family x) = Active \<and>
       fam_activeSpecId (af_family x) = Some (v_specId (af_activeVersion x)) \<and>
       fam_activeVersion (af_family x) = Some (v_version (af_activeVersion x)))"
  using assms
proof (induction recs)
  case Nil
  show ?case by simp
next
  case (Cons rec recs)
  from Cons.prems obtain aid where "record_ok h ow aid rec" by auto
  from activeRecord_ok[OF this] obtain r where r: "activeRecord rec = Inr r"
      "\<And>x. r = Some x \<Longrightarrow> fam_lifecycle (af_family x) = Active \<and>
         fam_activeSpecId (af_family x) = Some (v_specId (af_activeVersion x)) \<and>
         fam_activeVersion (af_family x) = Some (v_version (af_activeVersion x))" by metis
  from Cons obtain xs where xs: "activeRecords recs = Inr xs"
      "\<forall>x \<in> set xs. fam_lifecycle (af_family x) = Active \<and>
         fam_activeSpecId (af_family x) = Some (v_specId (af_activeVersion x)) \<and>
         fam_activeVersion (af_family x) = Some (v_version (af_activeVersion x))" by auto
  show ?case using r xs by (auto split: option.splits)
qed

text \<open>C7. Listing the active families never fails: in every reachable state the version an active
  family points to exists, so the exception of the listing is never raised, and each listed
  family is active and comes with the version its pointer names.\<close>

theorem listing_never_fails:
  assumes "reachable h t"
  shows "\<exists>xs. listActiveFamilies t ow = Inr xs \<and>
    (\<forall>x \<in> set xs. fam_lifecycle (af_family x) = Active \<and>
       fam_activeSpecId (af_family x) = Some (v_specId (af_activeVersion x)) \<and>
       fam_activeVersion (af_family x) = Some (v_version (af_activeVersion x)))"
proof -
  have "listActiveFamilies t ow = activeRecords (values_of (families (bucketOf t ow)))"
    by (simp add: listActiveFamilies_def bucketOf_def emptyBucket_def split: option.splits)
  moreover have "\<exists>aid. record_ok h ow aid rec"
    if "rec \<in> set (values_of (families (bucketOf t ow)))" for rec
    using that reachable_families[OF assms, of ow] families_okD(1,2) in_values_iff by metis
  ultimately show ?thesis using activeRecords_ok by metis
qed

theorem listing_never_fails_witness:
  "\<exists>xs. listActiveFamilies exState8 exOwner = Inr xs \<and>
    (\<forall>x \<in> set xs. fam_lifecycle (af_family x) = Active \<and>
       fam_activeSpecId (af_family x) = Some (v_specId (af_activeVersion x)) \<and>
       fam_activeVersion (af_family x) = Some (v_version (af_activeVersion x)))"
  by (rule listing_never_fails[OF exStates_reachable(8)])

end
