(* ===== verification/Mutation_Properties.thy ===== *)
theory Mutation_Properties
  imports Family_Properties
begin

text \<open>
  The properties of the mutation protocol: idempotence, optimistic concurrency, isolation of
  owners, failure without effect, the quota, and the lifecycle of a family.
\<close>

section \<open>Idempotence and failure\<close>

lemma logged_result:
  assumes "mutate h t m c = (t1, Inr s)"
  obtains r where "map_of (operations (bucketOf t1 (mb_owner m))) (mb_operationId m) = Some r"
    and "op_result r = s" and "op_requestFingerprint r = mb_requestFingerprint m"
proof (cases rule: mutate_cases[of t m h c])
  case (replayed r)
  with assms that show thesis by (auto split: if_splits)
next
  case (refused e)
  with assms show thesis by simp
next
  case (applied b' s')
  with assms have "bucketOf t1 (mb_owner m) = logOperation m s b'" by auto
  then show thesis
    by (intro that[of "\<lparr>op_requestFingerprint = mb_requestFingerprint m, op_result = s\<rparr>"])
      (simp_all add: logOperation_def)
qed

lemma mutation_logged:
  assumes "fresh t m" and "map_of (operations (bucketOf (fst (mutate h t m c)) (mb_owner m)))
      (mb_operationId m) = Some r"
  shows "mutate h t m c = (fst (mutate h t m c), Inr (op_result r))"
proof (cases rule: mutate_cases[of t m h c])
  case (applied b' s')
  with assms(2) have "r = \<lparr>op_requestFingerprint = mb_requestFingerprint m, op_result = s'\<rparr>"
    by (simp add: logOperation_def)
  with applied(4) show ?thesis by simp
qed (use assms in \<open>auto simp: fresh_def\<close>)

lemma operations_later:
  assumes "store_ok h t" and "map_of (operations (bucketOf t ow)) k = Some r"
  shows "map_of (operations (bucketOf (runCalls h t cs) ow)) k = Some r"
  using bucketOf_later[OF runCalls_later[OF assms(1)], of ow cs] assms(2)
  by (auto simp: bucketLater_def dest: map_laterD)

text \<open>C8. Mutations are idempotent for ever: once a mutation has succeeded, the same owner
  repeating its operation id with the same fingerprint gets the same result, whatever was called
  in between and whatever the repeated command says, and no bucket changes; with another
  fingerprint the repetition is refused with the type of the original result.\<close>

theorem mutation_replayed:
  assumes "reachable h t" and "mutate h t m c = (t1, Inr s)"
    and "mb_owner m2 = mb_owner m" and "mb_operationId m2 = mb_operationId m"
  shows "snd (mutate h (runCalls h t1 cs) m2 c2) =
      (if mb_requestFingerprint m2 = mb_requestFingerprint m then Inr s
       else Inl (OPERATION_ID_REUSED (successType s))) \<and>
    bucketOf (fst (mutate h (runCalls h t1 cs) m2 c2)) ow = bucketOf (runCalls h t1 cs) ow"
proof -
  have t1: "store_ok h t1" using mutate_ok[OF reachable_ok[OF assms(1)], of m c] assms(2) by simp
  from logged_result[OF assms(2)] obtain r where r:
    "map_of (operations (bucketOf t1 (mb_owner m))) (mb_operationId m) = Some r"
    "op_result r = s" "op_requestFingerprint r = mb_requestFingerprint m" .
  from operations_later[OF t1 r(1), of cs] r(2,3) assms(3,4) show ?thesis
    by (auto simp: mutate_def Let_def)
qed

theorem mutation_replayed_witness:
  "snd (mutate exHost (runCalls exHost exState9 exApproval) (exBase ''op-create'' ''20'') (CreateFamily exCreate)) =
      Inr (FamilyCreated exOther) \<and>
   snd (mutate exHost (runCalls exHost exState9 exApproval)
      (exBase ''op-create'' ''20'' \<lparr>mb_requestFingerprint := ''other''\<rparr>) (CreateFamily exCreate)) =
      Inl (OPERATION_ID_REUSED (successType (FamilyCreated exOther)))"
  using mutation_replayed[OF exStates_reachable(8) create_mutation, of "exBase ''op-create'' ''20''"
      exApproval "CreateFamily exCreate"]
    mutation_replayed[OF exStates_reachable(8) create_mutation,
      of "exBase ''op-create'' ''20'' \<lparr>mb_requestFingerprint := ''other''\<rparr>" exApproval
      "CreateFamily exCreate"]
  by simp

text \<open>A mutation that fails has no effect: every owner's bucket is what it was, so no partial
  update is ever visible.\<close>

theorem failed_mutation_no_effect:
  assumes "mutate h t m c = (t1, Inl e)"
  shows "bucketOf t1 ow = bucketOf t ow"
  using assms by (cases rule: mutate_cases[of t m h c]) auto

theorem failed_mutation_no_effect_witness:
  "bucketOf (fst (mutate exHost exState8 (exBase ''op-create'' ''xx'') (CreateFamily exCreate))) exOwner =
   bucketOf exState8 exOwner"
proof -
  have "\<not> timestampSchema (exTime ''xx'')" by code_simp
  moreover have "map_of (operations (bucketOf exState8 exOwner)) ''op-create'' = None"
    by (simp add: exState8_def queries exLog_def)
  ultimately have "mutate exHost exState8 (exBase ''op-create'' ''xx'') (CreateFamily exCreate) =
      (ensureBucket exState8 exOwner, Inl STORE_INVARIANT_VIOLATION)"
    by (simp add: mutate_def)
  from failed_mutation_no_effect[OF this] this show ?thesis by simp
qed

text \<open>C9. Owners are isolated: the result of a mutation and the owner's new bucket depend on that
  owner's bucket alone, and no other owner's bucket changes.\<close>

theorem owners_isolated:
  assumes "bucketOf t (mb_owner m) = bucketOf t' (mb_owner m)" and "ow \<noteq> mb_owner m"
  shows "snd (mutate h t m c) = snd (mutate h t' m c) \<and>
    bucketOf (fst (mutate h t m c)) (mb_owner m) = bucketOf (fst (mutate h t' m c)) (mb_owner m) \<and>
    getBucket (fst (mutate h t m c)) ow = getBucket t ow"
  using assms by (auto simp: mutate_def Let_def getBucket_putBucket split: option.splits sum.splits)

theorem owners_isolated_witness:
  "getBucket (fst (mutate exHost exState8 (exBase ''op-create'' ''10'') (CreateFamily exCreate)))
     \<lparr>tenantKey = ''t'', ownerKey = ''v''\<rparr> = None"
proof -
  have "(\<lparr>tenantKey = ''t'', ownerKey = ''v''\<rparr> :: OwnerScope) \<noteq> mb_owner (exBase ''op-create'' ''10'')"
    by (simp add: exOwner_def)
  from owners_isolated[OF refl this, where t = exState8 and h = exHost and c = "CreateFamily exCreate"] show ?thesis
    by (simp add: exState8_def exStore_def getBucket_def)
qed

section \<open>Optimistic concurrency\<close>

text \<open>Two mutations of the example: the archiving of the second family, and the publication.\<close>

definition exLifecycle :: "int \<Rightarrow> LifecycleStoreCommand" where
  "exLifecycle revision = \<lparr>lc_agentId = ''b'', lc_expectedRevision = revision\<rparr>"

definition exArchived :: SavedAgentFamily where
  "exArchived = exOther\<lparr>fam_lifecycle := Archived, fam_archivedAt := Some (exTime ''20''),
     fam_revision := 2, fam_updatedAt := exTime ''20''\<rparr>"

lemma exOther_draft: "fam_draft exOther \<noteq> None"
  by (simp add: exOther_def)

lemma exState9_live:
  "liveRecord (bucketOf exState9 exOwner) ''b'' = Some \<lparr>fr_family = exOther, fr_versions = []\<rparr>"
  using exFamilies9(2) by (simp add: familyRecordOf_bucketOf liveRecord_def exOther_def)

lemma archive_result:
  "apply_command exHost (bucketOf exState9 exOwner) (exBase ''op-archive'' ''20'')
     (ArchiveFamily (exLifecycle 1)) =
   Inr (putRecord ''b'' \<lparr>fr_family = exArchived, fr_versions = []\<rparr> (bucketOf exState9 exOwner),
        FamilyArchived exArchived)"
proof -
  have "archivedFamily (exBase ''op-archive'' ''20'') exOther = exArchived"
    by (simp add: archivedFamily_def exArchived_def exOther_def exBase_def)
  moreover have "checkRevision exOther 1 None = None" "fam_lifecycle exOther = DraftOnly"
    by (simp_all add: checkRevision_def draftRevisionOf_def exOther_def)
  moreover have "validateFamily exHost exArchived = None"
    by (simp add: evaluation scenario exOther_def exOtherFields_def exArchived_def)
  ultimately show ?thesis
    by (simp add: archiveFamily_def exLifecycle_def exState9_live saveFamily_def)
qed

lemma exState9_fresh:
  "fresh exState9 (exBase ''op-archive'' minute)" "fresh exState9 (exBase ''op-restore'' minute)"
  unfolding fresh_def exBase_members exState9_bucket
  by (simp_all add: logOperation_def putRecord_def exState8_def queries exLog_def)

definition exState10 :: Tenants where
  "exState10 = fst (mutate exHost exState9 (exBase ''op-archive'' ''20'') (ArchiveFamily (exLifecycle 1)))"

lemma archive_mutation:
  "mutate exHost exState9 (exBase ''op-archive'' ''20'') (ArchiveFamily (exLifecycle 1)) =
     (exState10, Inr (FamilyArchived exArchived))"
  using mutate_applied[of exState9 "exBase ''op-archive'' ''20''", unfolded exBase_members,
      OF exState9_fresh(1)[unfolded fresh_def exBase_members] _ archive_result]
  by (simp add: exState10_def timestampSchema_def)

text \<open>No lost update on a family: of two commands of an owner that expect the same revision of
  the same family, at most one succeeds, whatever is called between them and however long after
  the first the second arrives (the second has an operation id of its own).\<close>

theorem stale_family_refused:
  assumes "reachable h t" and "fresh t m" and "mutate h t m c = (t1, Inr s)"
    and "familyExpectation c = Some (aid, e)"
    and "mb_owner m2 = mb_owner m" and "familyExpectation c2 = Some (aid, e)"
    and "fresh (runCalls h t1 cs) m2"
  shows "\<exists>err. snd (mutate h (runCalls h t1 cs) m2 c2) = Inl err"
  by (rule stale_family_command[OF reachable_ok[OF assms(1)] assms(2-7)])

lemma exState10_fresh: "fresh exState10 (exBase ''op-restore'' ''20'')"
proof -
  obtain b' where "apply_command exHost (bucketOf exState9 exOwner) (exBase ''op-archive'' ''20'')
      (ArchiveFamily (exLifecycle 1)) = Inr (b', FamilyArchived exArchived)"
    and b': "bucketOf exState10 exOwner =
      logOperation (exBase ''op-archive'' ''20'') (FamilyArchived exArchived) b'"
    using mutate_fresh_Inr[OF exState9_fresh(1) archive_mutation] unfolding exBase_members .
  then have "operations b' = operations (bucketOf exState9 exOwner)"
    using archive_result by (auto simp: putRecord_def)
  with b' exState9_fresh(2)[of "''20''"] show ?thesis
    by (simp add: fresh_def logOperation_def)
qed

theorem stale_family_refused_witness:
  "\<exists>err. snd (mutate exHost exState10 (exBase ''op-restore'' ''20'') (RestoreFamily (exLifecycle 1))) = Inl err"
  using stale_family_refused[OF exState9_reachable exState9_fresh(1) archive_mutation, of "''b''" 1
      "exBase ''op-restore'' ''20''" "RestoreFamily (exLifecycle 1)" "[]"] exState10_fresh
  by (simp add: exLifecycle_def)

text \<open>No lost update on a workflow: of two commands of an owner that expect the same revision
  of the same workflow, at most one succeeds, whatever is called between them.\<close>

theorem stale_workflow_refused:
  assumes "reachable h t" and "fresh t m" and "mutate h t m c = (t1, Inr s)"
    and "workflowExpectation c = Some (wid, e)"
    and "mb_owner m2 = mb_owner m" and "workflowExpectation c2 = Some (wid, e)"
    and "fresh (runCalls h t1 cs) m2"
  shows "\<exists>err. snd (mutate h (runCalls h t1 cs) m2 c2) = Inl err"
  by (rule stale_workflow_command[OF reachable_ok[OF assms(1)] assms(2-7)])

definition exPublishCommand :: PublishBuildWorkflowStoreCommand where
  "exPublishCommand = \<lparr>pw_workflowId = ''w'', pw_expectedWorkflowRevision = 6, pw_agentId = ''a'',
     pw_expectedRevision = 3, pw_expectedDraftRevision = 3, pw_specId = ''spec'',
     pw_publishedBy = ''user-1''\<rparr>"

lemma exState7_fresh: "fresh exState7 (exBase ''op-publish'' minute)"
  by (simp add: fresh_def exState7_def queries exLog_def)

lemma publish_mutation:
  "mutate exHost exState7 (exBase ''op-publish'' ''10'') (PublishBuildWorkflow exPublishCommand) =
     (exState8, Inr (WorkflowPublished exPublished exWorkflow7 exVersion))"
proof -
  have st: "fst (mutate exHost exState7 (exBase ''op-publish'' ''10'') (PublishBuildWorkflow exPublishCommand)) =
      exState8"
    using stage8 by (simp add: exPublish_def exPublishCommand_def)
  have "map_of (operations (bucketOf exState8 exOwner)) ''op-publish'' = Some exOp7"
    by (simp add: exState8_def queries exLog_def)
  with mutation_logged[OF exState7_fresh, of exHost "''10''" "PublishBuildWorkflow exPublishCommand" exOp7] st
  show ?thesis by (simp add: exOp7_def)
qed

definition exReopenCommand :: ReopenBuildWorkflowStoreCommand where
  "exReopenCommand = \<lparr>ro_workflowId = ''w'', ro_expectedWorkflowRevision = 6, ro_agentId = ''a'',
     ro_expectedRevision = 3, ro_expectedDraftRevision = 3\<rparr>"

theorem stale_workflow_refused_witness:
  "\<exists>err. snd (mutate exHost exState8 (exBase ''op-reopen'' ''20'') (ReopenBuildWorkflow exReopenCommand)) = Inl err"
proof -
  have "fresh exState8 (exBase ''op-reopen'' ''20'')"
    by (simp add: fresh_def exState8_def queries exLog_def)
  with stale_workflow_refused[OF exStates_reachable(7) exState7_fresh publish_mutation, of "''w''" 6
      "exBase ''op-reopen'' ''20''" "ReopenBuildWorkflow exReopenCommand" "[]"]
  show ?thesis by (simp add: exPublishCommand_def exReopenCommand_def)
qed

text \<open>The revision identifies the state: if an agent has the same revision before and after
  any calls, its family record and its versions have not changed in between, and a revision
  never goes back.\<close>

theorem revision_identifies_state:
  assumes "reachable h t" and "getFamily t ow aid = Some f"
  shows "\<exists>f'. getFamily (runCalls h t cs) ow aid = Some f' \<and>
    (fam_revision f < fam_revision f' \<or>
     f' = f \<and> listVersions (runCalls h t cs) ow aid = listVersions t ow aid)"
proof -
  from assms(2) obtain rec where rec: "familyRecordOf t ow aid = Some rec" "fr_family rec = f"
    by (auto simp: getFamily_def)
  from later_record[OF assms(1) rec(1), of cs] obtain rec' where
    r: "familyRecordOf (runCalls h t cs) ow aid = Some rec'" "familyLater rec rec'" .
  with rec show ?thesis by (auto simp: getFamily_def listVersions_def familyLater_def)
qed

theorem revision_identifies_state_witness:
  "\<exists>f'. getFamily (runCalls exHost exState7 [exPublish]) exOwner ''a'' = Some f' \<and>
    (fam_revision (exFamily exFields2 3 ''04'') < fam_revision f' \<or>
     f' = exFamily exFields2 3 ''04'' \<and>
     listVersions (runCalls exHost exState7 [exPublish]) exOwner ''a'' = listVersions exState7 exOwner ''a'')"
  by (rule revision_identifies_state[OF exStates_reachable(7)])
    (simp add: exState7_def queries)

end
