(* ===== verification/Lifecycle_Properties.thy ===== *)
theory Lifecycle_Properties
  imports Mutation_Properties
begin

text \<open>
  The properties of the lifecycle of a family: deletion is final, archiving and restoring is a
  round trip, creation respects the quota, and an edit takes an approval back.
\<close>

lemma mutation_applied:
  assumes "fresh t m" and "mutate h t m c = (t1, Inr s)"
  obtains b' where "apply_command h (bucketOf t (mb_owner m)) m c = Inr (b', s)"
    and "families (bucketOf t1 (mb_owner m)) = families b'"
    and "workflows (bucketOf t1 (mb_owner m)) = workflows b'"
proof -
  obtain b' where "apply_command h (bucketOf t (mb_owner m)) m c = Inr (b', s)"
    "bucketOf t1 (mb_owner m) = logOperation m s b'"
    using mutate_fresh_Inr[OF assms] .
  then show thesis by (intro that) (simp_all add: logOperation_def)
qed

text \<open>Deletion is final: a deleted family is never changed by anything, its version history
  stays as it is, and its names stay reserved.\<close>

theorem deleted_family_final:
  assumes "reachable h t" and "familyRecordOf t ow aid = Some rec"
    and "fam_lifecycle (fr_family rec) = Deleted"
  shows "familyRecordOf (runCalls h t cs) ow aid = Some rec"
proof -
  from later_record[OF assms(1,2), of cs] obtain rec' where
    "familyRecordOf (runCalls h t cs) ow aid = Some rec'" "familyLater rec rec'" .
  with assms(3) show ?thesis by (simp add: familyLater_def)
qed

definition exDeleted :: SavedAgentFamily where
  "exDeleted = exOther\<lparr>fam_lifecycle := Deleted, fam_deletedAt := Some (exTime ''20''),
     fam_revision := 2, fam_updatedAt := exTime ''20''\<rparr>"

definition exState11 :: Tenants where
  "exState11 = runCalls exHost exState9
     [Mutate (exBase ''op-archive'' ''20'') (DeleteFamily (exLifecycle 1))]"

lemma delete_result:
  "apply_command exHost (bucketOf exState9 exOwner) (exBase ''op-archive'' ''20'')
     (DeleteFamily (exLifecycle 1)) =
   Inr (putRecord ''b'' \<lparr>fr_family = exDeleted, fr_versions = []\<rparr> (bucketOf exState9 exOwner),
        FamilyDeleted exDeleted DraftOnly)"
proof -
  have "deletedFamily (exBase ''op-archive'' ''20'') exOther = exDeleted"
    by (simp add: deletedFamily_def exDeleted_def exOther_def exBase_def)
  moreover have "checkRevision exOther 1 None = None" "fam_lifecycle exOther = DraftOnly"
    by (simp_all add: checkRevision_def draftRevisionOf_def exOther_def)
  moreover have "validateFamily exHost exDeleted = None"
    by (simp add: evaluation scenario exOther_def exOtherFields_def exDeleted_def)
  ultimately show ?thesis
    by (simp add: deleteFamily_def exLifecycle_def exState9_live saveFamily_def)
qed

lemma exState11_family:
  "familyRecordOf exState11 exOwner ''b'' = Some \<lparr>fr_family = exDeleted, fr_versions = []\<rparr>"
proof -
  have "mutate exHost exState9 (exBase ''op-archive'' ''20'') (DeleteFamily (exLifecycle 1)) =
      (exState11, Inr (FamilyDeleted exDeleted DraftOnly))"
    using mutate_applied[of exState9 "exBase ''op-archive'' ''20''", unfolded exBase_members,
      OF exState9_fresh(1)[unfolded fresh_def exBase_members] _ delete_result]
    by (simp add: exState11_def timestampSchema_def)
  then obtain b' where "apply_command exHost (bucketOf exState9 exOwner) (exBase ''op-archive'' ''20'')
      (DeleteFamily (exLifecycle 1)) = Inr (b', FamilyDeleted exDeleted DraftOnly)"
    and f: "families (bucketOf exState11 exOwner) = families b'"
    using mutation_applied[OF exState9_fresh(1)] unfolding exBase_members by metis
  then have b': "b' = putRecord ''b'' \<lparr>fr_family = exDeleted, fr_versions = []\<rparr> (bucketOf exState9 exOwner)"
    unfolding delete_result by simp
  show ?thesis unfolding familyRecordOf_bucketOf f b' by (simp add: putRecord_def)
qed

theorem deleted_family_final_witness:
  "familyRecordOf (runCalls exHost exState11 exCalls) exOwner ''b'' =
     Some \<lparr>fr_family = exDeleted, fr_versions = []\<rparr>"
proof (rule deleted_family_final)
  show "reachable exHost exState11"
    unfolding exState11_def by (rule reachable_runCalls) (rule exState9_reachable)
qed (simp_all add: exState11_family exDeleted_def)

lemma restored_archived:
  assumes ok: "record_ok h ow aid rec" and live: "fam_lifecycle (fr_family rec) \<in> {Active, DraftOnly}"
  shows "restoredFamily m2 (archivedFamily m (fr_family rec)) =
    (fr_family rec)\<lparr>fam_revision := fam_revision (fr_family rec) + 2,
       fam_updatedAt := mb_occurredAt m2\<rparr>" (is "?r = ?f")
    and "\<lbrakk>timestampSchema (mb_occurredAt m2); fam_revision (fr_family rec) + 2 \<le> MAX_SAFE_INTEGER\<rbrakk> \<Longrightarrow>
      validateFamily h (restoredFamily m2 (archivedFamily m (fr_family rec))) = None"
proof -
  have schema: "savedAgentFamilySchema h (fr_family rec)" using ok by (simp add: record_ok_def)
  then have "fam_archivedAt (fr_family rec) = None"
    "fam_lifecycle (fr_family rec) = (if fam_activeSpecId (fr_family rec) = None then DraftOnly else Active)"
    using live by (auto simp: savedAgentFamilySchema_def lifecycleConsistent_def Let_def)
  then show eq: "?r = ?f"
    by (cases "fr_family rec") (simp add: restoredFamily_def archivedFamily_def)
  show "validateFamily h ?r = None"
    if "timestampSchema (mb_occurredAt m2)" "fam_revision (fr_family rec) + 2 \<le> MAX_SAFE_INTEGER"
    unfolding eq using schema that
    by (auto simp: validateFamily_def savedAgentFamilySchema_def lifecycleConsistent_def
        positiveRevisionSchema_def isSafeInteger_def Let_def)
qed

text \<open>Archiving and restoring is a round trip: a restore directly after a successful archiving,
  with the revision that the archiving returned, succeeds, and the family is then what it was
  before, with its draft and its active version, except for the revision and the time of change.\<close>

theorem archive_restore_round_trip:
  assumes "reachable h t" and "fresh t m" and "mutate h t m (ArchiveFamily c) = (t1, Inr s)"
    and "getFamily t (mb_owner m) (lc_agentId c) = Some f"
    and "mb_owner m2 = mb_owner m" and "fresh t1 m2" and "timestampSchema (mb_occurredAt m2)"
    and "lc_agentId c2 = lc_agentId c" and "lc_expectedRevision c2 = lc_expectedRevision c + 1"
    and "lc_expectedRevision c + 2 \<le> MAX_SAFE_INTEGER"
  shows "getFamily (fst (mutate h t1 m2 (RestoreFamily c2))) (mb_owner m) (lc_agentId c) =
    Some (f\<lparr>fam_revision := fam_revision f + 2, fam_updatedAt := mb_occurredAt m2\<rparr>)"
proof -
  let ?b = "bucketOf t (mb_owner m)" and ?b1 = "bucketOf t1 (mb_owner m)"
  from mutation_applied[OF assms(2,3)] obtain b' where
    b': "archiveFamily h ?b m c = Inr (b', s)" "families ?b1 = families b'" by auto
  from archiveFamily_Inr[OF b'(1)] obtain rec where
    rec: "map_of (families ?b) (lc_agentId c) = Some rec"
    "fam_lifecycle (fr_family rec) \<in> {Active, DraftOnly}"
    "fam_revision (fr_family rec) = lc_expectedRevision c"
    "b' = putRecord (lc_agentId c) (rec\<lparr>fr_family := archivedFamily m (fr_family rec)\<rparr>) ?b" .
  have f: "fr_family rec = f"
    using assms(4) rec(1) by (simp add: getFamily_def familyRecordOf_bucketOf)
  have "record_ok h (mb_owner m) (lc_agentId c) rec"
    by (rule reachable_record[OF assms(1)]) (simp add: familyRecordOf_bucketOf rec(1))
  note restored = restored_archived[OF this rec(2), of m2 m]
  let ?rec = "rec\<lparr>fr_family := archivedFamily m (fr_family rec)\<rparr>"
  have r: "liveRecord ?b1 (lc_agentId c) = Some ?rec"
    using b'(2) rec(4) by (simp add: liveRecord_def putRecord_def archivedFamily_def)
  have "restoreFamily h ?b1 m2 c2 = Inr (putRecord (lc_agentId c)
      (?rec\<lparr>fr_family := restoredFamily m2 (archivedFamily m (fr_family rec))\<rparr>) ?b1,
      FamilyRestored (restoredFamily m2 (archivedFamily m (fr_family rec))))"
    using restored(2)[OF assms(7)] r rec(3) assms(8-10)
    by (simp add: restoreFamily_def checkRevision_def archivedFamily_def saveFamily_def Let_def)
  then have "families (bucketOf (fst (mutate h t1 m2 (RestoreFamily c2))) (mb_owner m)) =
      mapSet (lc_agentId c) (?rec\<lparr>fr_family := restoredFamily m2 (archivedFamily m (fr_family rec))\<rparr>)
        (families ?b1)"
    using mutate_applied[of t1 m2 h "RestoreFamily c2"] assms(5-7)
    by (simp add: fresh_def logOperation_def putRecord_def)
  then show ?thesis by (simp add: getFamily_def familyRecordOf_bucketOf restored(1)[unfolded f] f)
qed

theorem archive_restore_round_trip_witness:
  "getFamily (fst (mutate exHost exState10 (exBase ''op-restore'' ''20'') (RestoreFamily (exLifecycle 2))))
     exOwner ''b'' = Some (exOther\<lparr>fam_revision := fam_revision exOther + 2,
       fam_updatedAt := exTime ''20''\<rparr>)"
proof -
  have "getFamily exState9 exOwner ''b'' = Some exOther"
    by (simp add: getFamily_def exFamilies9)
  with archive_restore_round_trip[OF exState9_reachable exState9_fresh(1) archive_mutation,
      of exOther "exBase ''op-restore'' ''20''" "exLifecycle 2"] exState10_fresh
  show ?thesis by (simp add: exLifecycle_def MAX_SAFE_INTEGER_def timestampSchema_def)
qed

text \<open>A quota is never exceeded by a creation: when a family is created, the number of the
  owner's families that are not deleted grows by one and is at most the quota of the command.\<close>

theorem creation_within_quota:
  assumes "fresh t m" and "mutate h t m (CreateFamily c) = (t1, Inr s)"
  shows "liveFamilyCount (bucketOf t1 (mb_owner m)) = liveFamilyCount (bucketOf t (mb_owner m)) + 1 \<and>
    liveFamilyCount (bucketOf t1 (mb_owner m)) \<le> cf_maxFamilies c"
proof -
  from mutation_applied[OF assms] obtain b' where
    b': "createFamily h (bucketOf t (mb_owner m)) m c = Inr (b', s)"
    "families (bucketOf t1 (mb_owner m)) = families b'" by auto
  note i = createFamily_Inr[OF b'(1)]
  have "cf_agentId c \<notin> fst ` set (families (bucketOf t (mb_owner m)))"
    using i(3) by (simp add: map_of_eq_None_iff)
  then have "families b' = families (bucketOf t (mb_owner m)) @
      [(cf_agentId c, \<lparr>fr_family = createdFamily m c, fr_versions = []\<rparr>)]"
    using i(8) by (simp add: putRecord_def mapSet_new)
  with b'(2) i(5) show ?thesis by (simp add: liveFamilyCount_def createdFamily_def)
qed

theorem creation_within_quota_witness:
  "liveFamilyCount (bucketOf exState9 exOwner) = liveFamilyCount (bucketOf exState8 exOwner) + 1 \<and>
   liveFamilyCount (bucketOf exState9 exOwner) \<le> cf_maxFamilies exCreate"
proof -
  have "fresh exState8 (exBase ''op-create'' ''10'')"
    by (simp add: fresh_def exState8_def queries exLog_def)
  from creation_within_quota[OF this create_mutation] show ?thesis by simp
qed

text \<open>C23. An edit takes approval back: when the draft of an unpublished workflow is patched, the
  workflow loses its test run, its evidence and its QA approval, follows the draft to its new
  revision and goes back to the role whose fields differ from those of the draft that was stored:
  to the PM for a change of the name, kind, description or brief, otherwise to the implementor for
  a change of the instructions, tool requirements or triggers, and otherwise to the QA review.\<close>

theorem patch_invalidates_approval:
  assumes "reachable h t" and "fresh t m" and "mutate h t m (PatchDraft c) = (t1, Inr s)"
    and "getBuildWorkflow t (mb_owner m) (pd_agentId c) = Some w" and "wf_phase w \<noteq> Published"
  shows "\<exists>w' f d f' d'. getBuildWorkflow t1 (mb_owner m) (pd_agentId c) = Some w' \<and>
    getFamily t (mb_owner m) (pd_agentId c) = Some f \<and> fam_draft f = Some d \<and>
    getFamily t1 (mb_owner m) (pd_agentId c) = Some f' \<and> fam_draft f' = Some d' \<and>
    d_fields d' = pd_fields c \<and> d_draftRevision d' = d_draftRevision d + 1 \<and>
    wf_testRunId w' = None \<and> wf_testEvidence w' = None \<and> wf_qaApproval w' = None \<and>
    wf_phase w' =
      (if fld_name (d_fields d) \<noteq> fld_name (pd_fields c) \<or> fld_kind (d_fields d) \<noteq> fld_kind (pd_fields c) \<or>
          fld_description (d_fields d) \<noteq> fld_description (pd_fields c) \<or>
          fld_pmBrief (d_fields d) \<noteq> fld_pmBrief (pd_fields c) then PmWork
       else if fld_instructions (d_fields d) \<noteq> fld_instructions (pd_fields c) \<or>
          fld_toolRequirements (d_fields d) \<noteq> fld_toolRequirements (pd_fields c) \<or>
          fld_triggers (d_fields d) \<noteq> fld_triggers (pd_fields c) then ImplementationWork
       else QaReview) \<and>
    wf_revision w' = wf_revision w + 1 \<and> wf_draftRevision w = d_draftRevision d \<and>
    wf_draftRevision w' = d_draftRevision d'"
proof -
  let ?b = "bucketOf t (mb_owner m)"
  from mutation_applied[OF assms(2,3)] obtain b' where
    b': "patchDraft h ?b m c = Inr (b', s)" "workflows (bucketOf t1 (mb_owner m)) = workflows b'"
      "families (bucketOf t1 (mb_owner m)) = families b'" by auto
  from patchDraft_Inr[OF b'(1)] obtain rec d where
    r: "map_of (families ?b) (pd_agentId c) = Some rec" "fam_draft (fr_family rec) = Some d"
    "b' = (let b1 = putRecord (pd_agentId c)
                      (rec\<lparr>fr_family := patchedFamily m c (fr_family rec) d\<rparr>) ?b
           in case affectedWorkflow ?b (pd_agentId c) d of
                None \<Rightarrow> b1
              | Some w \<Rightarrow> putWorkflow (invalidatedWorkflow m c d w) (pd_agentId c) b1)"
    by metis
  have w: "map_of (workflows ?b) (pd_agentId c) = Some w"
    using assms(4) by (simp add: getBuildWorkflow_bucketOf)
  have ok: "workflows_ok (mb_owner m) ?b"
    by (rule bucket_okD(2)[OF bucketOf_ok[OF reachable_ok[OF assms(1)]]])
  have "drafting rec w"
    using workflow_linked(1)[OF ok w r(1)] assms(5) by (auto simp: delivered_def)
  with r(2) have d: "d_draftId d = wf_draftId w" "d_draftRevision d = wf_draftRevision w"
    by (auto simp: drafting_def)
  then have affected: "affectedWorkflow ?b (pd_agentId c) d = Some w"
    by (simp add: affectedWorkflow_def w)
  have w': "getBuildWorkflow t1 (mb_owner m) (pd_agentId c) = Some (invalidatedWorkflow m c d w)"
    using r(3) b'(2) affected by (simp add: getBuildWorkflow_bucketOf putWorkflow_def)
  have f: "getFamily t (mb_owner m) (pd_agentId c) = Some (fr_family rec)"
    using r(1) by (simp add: getFamily_def familyRecordOf_bucketOf)
  have f': "getFamily t1 (mb_owner m) (pd_agentId c) = Some (patchedFamily m c (fr_family rec) d)"
    using r(3) b'(3) affected
    by (simp add: getFamily_def familyRecordOf_bucketOf putWorkflow_def putRecord_def)
  obtain d' where d': "fam_draft (patchedFamily m c (fr_family rec) d) = Some d'" "d_fields d' = pd_fields c"
      "d_draftRevision d' = d_draftRevision d + 1"
    by (simp add: patchedFamily_def)
  have "wf_phase (invalidatedWorkflow m c d w) = patchPhase (d_fields d) (pd_fields c)"
    "wf_draftRevision (invalidatedWorkflow m c d w) = d_draftRevision d'"
    by (simp_all add: invalidatedWorkflow_def Let_def draftFields_def d'(3))
  then show ?thesis
    unfolding patchPhase_def pmFieldsChanged_def implementationFieldsChanged_def
    using w' f f' r(2) d' d(2) by (fastforce simp: invalidatedWorkflow_def Let_def)
qed

definition exPatch :: PatchDraftStoreCommand where
  "exPatch = \<lparr>pd_agentId = ''a'', pd_expectedRevision = 3, pd_expectedDraftRevision = 3,
     pd_canonicalName = ''mail agent'', pd_fields = exFields2\<lparr>fld_description := ''x''\<rparr>\<rparr>"

lemma patch_result:
  "\<exists>b' s. apply_command exHost (bucketOf exState7 exOwner) (exBase ''op-patch'' ''20'') (PatchDraft exPatch) =
     Inr (b', s)"
  by (simp add: evaluation scenario states exPatch_def)

theorem patch_invalidates_approval_witness:
  "\<exists>t1 s w'. mutate exHost exState7 (exBase ''op-patch'' ''20'') (PatchDraft exPatch) = (t1, Inr s) \<and>
     getBuildWorkflow t1 exOwner ''a'' = Some w' \<and> wf_testEvidence w' = None \<and>
     wf_qaApproval w' = None \<and> wf_revision w' = 7"
proof -
  let ?m = "exBase ''op-patch'' ''20''"
  have fresh: "fresh exState7 ?m" by (simp add: fresh_def exState7_def queries exLog_def)
  from patch_result obtain b' s where
    "apply_command exHost (bucketOf exState7 exOwner) ?m (PatchDraft exPatch) = Inr (b', s)" by blast
  then obtain t1 where t1: "mutate exHost exState7 ?m (PatchDraft exPatch) = (t1, Inr s)"
    using mutate_applied[of exState7 ?m exHost "PatchDraft exPatch" b' s] fresh
    by (simp add: fresh_def timestampSchema_def)
  have "pd_agentId exPatch = ''a''" by (simp add: exPatch_def)
  with patch_invalidates_approval[OF exStates_reachable(7) fresh t1, of exWorkflow6] t1
    exWorkflows(4) exPhases(4)
  show ?thesis by (auto simp: workflow_values)
qed

lemma getExecutionLease_bucketOf: "getExecutionLease t ow child = map_of (leases (bucketOf t ow)) child"
  by (simp add: getExecutionLease_def bucketOf_def emptyBucket_def split: option.splits)

text \<open>The facts of a submission that the store commits.\<close>

lemma submission_committed:
  assumes "reachable h t" and "fresh t m" and "mutate h t m (SubmitBuildRole c) = (t1, Inr s)"
  obtains w l f d f' d' where "getBuildWorkflow t (mb_owner m) (wf_agentId w) = Some w"
    "wf_workflowId w = sb_workflowId c" "wf_revision w = sb_expectedWorkflowRevision c"
    "rolePhaseAllowed (sb_role c) (wf_phase w)"
    "getExecutionLease t (mb_owner m) (sb_childSessionId c) = Some l"
    "ls_role l = executionRoleOf (sb_role c)" "ls_status l = LeaseRunning"
    "ls_executionTurnId l = Some (sb_executionTurnId c)" "\<not> timeGe (mb_occurredAt m) (ls_expiresAt l)"
    "ls_target l = DraftTarget (wf_agentId w) (wf_draftId w) (wf_draftRevision w)"
    "map_option sc_workflowRevision (ls_workflow l) = Some (wf_revision w)"
    "getFamily t (mb_owner m) (wf_agentId w) = Some f" "fam_draft f = Some d"
    "fam_revision f = sb_expectedRevision c" "d_draftId d = wf_draftId w" "d_draftRevision d = wf_draftRevision w"
    "onlyRoleFieldsChanged (sb_role c) (d_fields d) (sb_fields c)"
    "getFamily t1 (mb_owner m) (wf_agentId w) = Some f'" "fam_draft f' = Some d'" "d_fields d' = sb_fields c"
    "getBuildWorkflow t1 (mb_owner m) (wf_agentId w) = Some (workflowAfterSubmission m c w d)"
    "s = WorkflowRoleSubmitted f' (workflowAfterSubmission m c w d)"
proof -
  let ?b = "bucketOf t (mb_owner m)"
  from mutation_applied[OF assms(2,3)] obtain b' where
    b': "submitBuildRole h ?b m c = Inr (b', s)" "families (bucketOf t1 (mb_owner m)) = families b'"
      "workflows (bucketOf t1 (mb_owner m)) = workflows b'"
    by auto
  from submitBuildRole_Inr[OF b'(1)] obtain w rec d where
    r: "workflowById ?b (sb_workflowId c) = Some w" "wf_revision w = sb_expectedWorkflowRevision c"
    "map_of (families ?b) (wf_agentId w) = Some rec"
    "fam_draft (fr_family rec) = Some d" "submissionError h ?b m c w (fr_family rec) d = None"
    "b' = putWorkflow (workflowAfterSubmission m c w d) (wf_agentId w)
            (putRecord (wf_agentId w)
               (rec\<lparr>fr_family := familyAfterSubmission m c (fr_family rec) d\<rparr>) ?b)"
    "s = WorkflowRoleSubmitted (familyAfterSubmission m c (fr_family rec) d) (workflowAfterSubmission m c w d)"
    by metis
  note e = submissionError_None[OF r(5)]
  have ok: "workflows_ok (mb_owner m) ?b"
    by (rule bucket_okD(2)[OF bucketOf_ok[OF reachable_ok[OF assms(1)]]])
  from e(5) obtain l where l: "map_of (leases ?b) (sb_childSessionId c) = Some l"
    "ls_role l = executionRoleOf (sb_role c)" "ls_status l = LeaseRunning"
    "ls_executionTurnId l = Some (sb_executionTurnId c)" "\<not> timeGe (mb_occurredAt m) (ls_expiresAt l)"
    "ls_target l = DraftTarget (wf_agentId w) (wf_draftId w) (wf_draftRevision w)"
    "map_option sc_workflowRevision (ls_workflow l) = Some (wf_revision w)"
    by (auto simp: submissionLeaseValid_def split: option.splits)
  obtain d' where d': "fam_draft (familyAfterSubmission m c (fr_family rec) d) = Some d'"
    "d_fields d' = sb_fields c"
    using r(4) by (cases "submissionChanged c d")
      (auto simp: familyAfterSubmission_def submittedFamily_def submissionChanged_def)
  show thesis
    by (rule that[of w l "fr_family rec" d "familyAfterSubmission m c (fr_family rec) d" d'])
      (use workflowById_map_of[OF ok r(1)] workflowById_Some[OF r(1)] l e(1,3,4,6,11) r d' b' in
        \<open>simp_all add: getBuildWorkflow_bucketOf getExecutionLease_bucketOf getFamily_def familyRecordOf_bucketOf
          putWorkflow_def putRecord_def\<close>)
qed

text \<open>Only the session of a role speaks for it, and only about its own fields: a submission
  succeeds only under a running, unexpired lease of that role, bound to the draft revision and
  the workflow revision it submits against, in a phase of that role; and the draft it leaves
  differs from the one before only in fields of that role.\<close>

theorem role_submission_authorized:
  assumes "reachable h t" and "fresh t m" and "mutate h t m (SubmitBuildRole c) = (t1, Inr s)"
  shows "\<exists>w l f d f' d'. getBuildWorkflow t (mb_owner m) (wf_agentId w) = Some w \<and>
    getExecutionLease t (mb_owner m) (sb_childSessionId c) = Some l \<and>
    ls_role l = executionRoleOf (sb_role c) \<and> ls_status l = LeaseRunning \<and>
    \<not> timeGe (mb_occurredAt m) (ls_expiresAt l) \<and>
    ls_target l = DraftTarget (wf_agentId w) (wf_draftId w) (wf_draftRevision w) \<and>
    map_option sc_workflowRevision (ls_workflow l) = Some (wf_revision w) \<and>
    rolePhaseAllowed (sb_role c) (wf_phase w) \<and>
    getFamily t (mb_owner m) (wf_agentId w) = Some f \<and> fam_draft f = Some d \<and>
    getFamily t1 (mb_owner m) (wf_agentId w) = Some f' \<and> fam_draft f' = Some d' \<and>
    d_fields d' = sb_fields c \<and> onlyRoleFieldsChanged (sb_role c) (d_fields d) (d_fields d')"
proof -
  from submission_committed[OF assms] obtain w l f d f' d' where
    "getBuildWorkflow t (mb_owner m) (wf_agentId w) = Some w" "rolePhaseAllowed (sb_role c) (wf_phase w)"
    "getExecutionLease t (mb_owner m) (sb_childSessionId c) = Some l"
    "ls_role l = executionRoleOf (sb_role c)" "ls_status l = LeaseRunning"
    "\<not> timeGe (mb_occurredAt m) (ls_expiresAt l)"
    "ls_target l = DraftTarget (wf_agentId w) (wf_draftId w) (wf_draftRevision w)"
    "map_option sc_workflowRevision (ls_workflow l) = Some (wf_revision w)"
    "getFamily t (mb_owner m) (wf_agentId w) = Some f" "fam_draft f = Some d"
    "getFamily t1 (mb_owner m) (wf_agentId w) = Some f'" "fam_draft f' = Some d'" "d_fields d' = sb_fields c"
    "onlyRoleFieldsChanged (sb_role c) (d_fields d) (d_fields d')" by metis
  then show ?thesis by blast
qed

definition exApproveCommand :: SubmitBuildRoleStoreCommand where
  "exApproveCommand = \<lparr>sb_workflowId = ''w'', sb_expectedWorkflowRevision = 5, sb_role = BuildQa,
     sb_leaseId = ''lease-5'', sb_childSessionId = ''child-5'', sb_executionTurnId = ''work'',
     sb_expectedRevision = 3, sb_expectedDraftRevision = 3, sb_canonicalName = ''mail agent'',
     sb_fields = exFields2, sb_result = SubApproved, sb_testRunId = None\<rparr>"

lemma exState6a_fresh: "fresh exState6a (exBase ''op-5'' minute)"
  by (simp add: fresh_def exState6a_def queries exLog_def)

lemma approve_mutation:
  "mutate exHost exState6a (exBase ''op-5'' ''04'') (SubmitBuildRole exApproveCommand) =
     (exState7, Inr (WorkflowRoleSubmitted (exFamily exFields2 3 ''04'') exWorkflow6))"
proof -
  have st: "fst (mutate exHost exState6a (exBase ''op-5'' ''04'') (SubmitBuildRole exApproveCommand)) = exState7"
    using stage7 by (simp add: exSubmit_def exApproveCommand_def)
  have "map_of (operations (bucketOf exState7 exOwner)) ''op-5'' = Some exOp6"
    by (simp add: exState7_def queries exLog_def)
  with mutation_logged[OF exState6a_fresh, of exHost "''04''" "SubmitBuildRole exApproveCommand" exOp6] st
  show ?thesis by (simp add: exOp6_def)
qed

theorem role_submission_authorized_witness:
  "\<exists>w l f d f' d'. getBuildWorkflow exState6a exOwner (wf_agentId w) = Some w \<and>
    getExecutionLease exState6a exOwner ''child-5'' = Some l \<and>
    ls_role l = ExQa \<and> ls_status l = LeaseRunning \<and>
    ls_target l = DraftTarget (wf_agentId w) (wf_draftId w) (wf_draftRevision w) \<and>
    map_option sc_workflowRevision (ls_workflow l) = Some (wf_revision w) \<and>
    rolePhaseAllowed BuildQa (wf_phase w) \<and>
    getFamily exState6a exOwner (wf_agentId w) = Some f \<and> fam_draft f = Some d \<and>
    getFamily exState7 exOwner (wf_agentId w) = Some f' \<and> fam_draft f' = Some d' \<and>
    onlyRoleFieldsChanged BuildQa (d_fields d) (d_fields d')"
proof -
  have "sb_childSessionId exApproveCommand = ''child-5''" "sb_role exApproveCommand = BuildQa"
    by (simp_all add: exApproveCommand_def)
  with role_submission_authorized[OF exState6a_reachable exState6a_fresh approve_mutation]
  show ?thesis unfolding exBase_members by (metis executionRoleOf.simps(3))
qed

end
