(* ===== verification/Session_Properties.thy ===== *)
theory Session_Properties
  imports Lifecycle_Properties
begin

text \<open>
  The properties of the sessions of roles: bootstrap tokens, execution leases, parent turns, and
  the approvals and executions of consequential test steps.
\<close>

lemma reachable_sessions: "reachable h t \<Longrightarrow> sessions_ok ow (bucketOf t ow)"
  by (rule bucket_okD(3)[OF bucketOf_ok[OF reachable_ok]])

lemma reachable_executions: "reachable h t \<Longrightarrow> executions_ok ow (bucketOf t ow)"
  by (rule bucket_okD(4)[OF bucketOf_ok[OF reachable_ok]])

section \<open>The example's first session\<close>

text \<open>The first session of the example, call by call.\<close>

definition exGranted :: Tenants where
  "exGranted = exStore ((exBucket 0 1 (exFamily exFields0 1 ''00'') [] exWorkflow1)
     \<lparr>grants := [(exToken ''1'', exGrant ''1'' ExPm 1 1 None)]\<rparr>)"

definition exReady :: ExecutionLeaseRecord where
  "exReady = (exLease ''1'' ExPm 1 1 None None)\<lparr>ls_status := LeaseReady, ls_executionTurnId := None\<rparr>"

definition exRedeemed :: Tenants where
  "exRedeemed = exStore ((exBucket 0 1 (exFamily exFields0 1 ''00'') [] exWorkflow1)
     \<lparr>grants := [(exToken ''1'', exUsed ''1'' ExPm 1 1 None)], leases := [(''child-1'', exReady)]\<rparr>)"

lemma exGranted_result:
  "createBootstrapGrant exState1 (exGrant ''1'' ExPm 1 1 None) = (exGranted, Inr (exGrant ''1'' ExPm 1 1 None))"
  by (simp add: evaluation scenario states exGranted_def)

lemma exRedeemed_result:
  "redeemBootstrapGrant exGranted (exRedeem ''1'' ExPm) = (exRedeemed, Inr exReady)"
  by (simp add: evaluation scenario states exGranted_def exRedeemed_def exReady_def)

lemma exGranted_reachable: "reachable exHost exGranted"
  using reachable_call[OF exStates_reachable(1), of "CreateGrant (exGrant ''1'' ExPm 1 1 None)"]
    exGranted_result by simp

lemma exSessions:
  "getExecutionLease exState8 exOwner ''child-4'' = Some exLease4"
  "getExecutionLease exState5 exOwner ''child-4'' = Some exLease4"
  by (simp_all add: queries exState8_def exState5_def exLeases_def)

section \<open>Tokens\<close>

text \<open>C24. A bootstrap token is good for one session: once it has been redeemed, every later
  redemption of the same token is refused, by whomever and whatever is called in between.\<close>

theorem token_redeemed_once:
  assumes "reachable h t" and "redeemBootstrapGrant t c = (t1, Inr l)"
    and "rd_tokenHash c2 = rd_tokenHash c"
  shows "snd (redeemBootstrapGrant (runCalls h t1 cs) c2) \<in> {Inl OWNER_MISMATCH, Inl BOOTSTRAP_REPLAYED}"
proof -
  have t1: "store_ok h t1"
    using callState_ok[OF reachable_ok[OF assms(1)], of "RedeemGrant c"] assms(2) by simp
  obtain b g where g: "getBucket t1 (rd_owner c) = Some b" "map_of (grants b) (rd_tokenHash c) = Some g"
    "gr_redeemedAt g = Some (rd_occurredAt c)"
    by (rule redeemed_grant[OF reachable_ok[OF assms(1)] assms(2)])
  obtain b' g' where g': "getBucket (runCalls h t1 cs) (rd_owner c) = Some b'"
    "map_of (grants b') (rd_tokenHash c) = Some g'" "grantLater g g'"
    by (rule stored_grant_later[OF t1 g(1,2)])
  from g(3) g'(3) have "gr_redeemedAt g' \<noteq> None" by (auto simp: grantLater_def)
  then show ?thesis
    using redeemed_token_refused[OF runCalls_ok[OF t1] g'(1), of c2 g'] g'(2) assms(3) by simp
qed

theorem token_redeemed_once_witness:
  "snd (redeemBootstrapGrant (runCalls exHost exRedeemed exApproval) (exRedeem ''1'' ExQa)) \<in>
     {Inl OWNER_MISMATCH, Inl BOOTSTRAP_REPLAYED}"
  by (rule token_redeemed_once[OF exGranted_reachable exRedeemed_result]) (simp add: exRedeem_def)

text \<open>A child session belongs to one owner and has one lease: no two owners have a lease for the
  same child session.\<close>

theorem child_session_unique:
  assumes "reachable h t" and "getExecutionLease t o1 child = Some l1"
    and "getExecutionLease t o2 child = Some l2"
  shows "o1 = o2 \<and> l1 = l2"
proof -
  from assms(2,3) obtain b1 b2 where b: "getBucket t o1 = Some b1" "map_of (leases b1) child = Some l1"
    "getBucket t o2 = Some b2" "map_of (leases b2) child = Some l2"
    by (auto simp: getExecutionLease_def split: option.splits)
  have "o1 = o2"
  proof (rule ccontr)
    assume "o1 \<noteq> o2"
    with store_okD(3)[OF reachable_ok[OF assms(1)]] b(1,3) have "separate b1 b2" by blast
    from separateD(2)[OF this b(2)] b(4) show False by simp
  qed
  with assms(2,3) show ?thesis by simp
qed

theorem child_session_unique_witness:
  "getExecutionLease exState8 \<lparr>tenantKey = ''t'', ownerKey = ''v''\<rparr> ''child-4'' = None"
proof (rule ccontr)
  assume "getExecutionLease exState8 \<lparr>tenantKey = ''t'', ownerKey = ''v''\<rparr> ''child-4'' \<noteq> None"
  then obtain l where "getExecutionLease exState8 \<lparr>tenantKey = ''t'', ownerKey = ''v''\<rparr> ''child-4'' = Some l"
    by blast
  from child_session_unique[OF exStates_reachable(8) exSessions(1) this] show False
    by (simp add: exOwner_def)
qed

text \<open>A lease keeps what it was issued for and its status only moves forward: whatever is
  called, it still exists with the same binding (role, target, workflow scope, parent, child and
  expiry), a status at least as late, and, once claimed, the same turn and capability plan.\<close>

theorem lease_moves_forward:
  assumes "reachable h t" and "getExecutionLease t ow child = Some l"
  shows "\<exists>l'. getExecutionLease (runCalls h t cs) ow child = Some l' \<and> sameBinding l l' \<and>
    ls_status l \<le> ls_status l' \<and>
    ls_executionTurnId l \<in> {None, ls_executionTurnId l'} \<and>
    (ls_status l = LeaseReady \<or> ls_capabilityPlan l' = ls_capabilityPlan l)"
proof -
  have "bucketLater (bucketOf t ow) (bucketOf (runCalls h t cs) ow)"
    by (rule bucketOf_later) (rule reachable_later[OF assms(1)])
  then have "map_later leaseLater (map_of (leases (bucketOf t ow)))
      (map_of (leases (bucketOf (runCalls h t cs) ow)))"
    by (simp add: bucketLater_def)
  from map_laterD[OF this assms(2)[unfolded getExecutionLease_bucketOf]] show ?thesis
    unfolding getExecutionLease_bucketOf leaseLater_def by fastforce
qed

theorem lease_moves_forward_witness:
  "\<exists>l'. getExecutionLease (runCalls exHost exState5 exApproval) exOwner ''child-4'' = Some l' \<and>
    sameBinding exLease4 l' \<and> ls_status exLease4 \<le> ls_status l' \<and>
    ls_executionTurnId exLease4 \<in> {None, ls_executionTurnId l'} \<and>
    (ls_status exLease4 = LeaseReady \<or> ls_capabilityPlan l' = ls_capabilityPlan exLease4)"
  by (rule lease_moves_forward[OF exStates_reachable(5) exSessions(2)])

text \<open>Every lease was paid for with a grant: the store holds the redeemed grant it came from,
  with the same role, target, workflow scope and parent, redeemed for exactly this child session
  at the time the lease was issued, before the grant expired.\<close>

theorem lease_from_grant:
  assumes "reachable h t" and "getExecutionLease t ow child = Some l"
  shows "\<exists>th g. map_of (grants (bucketOf t ow)) th = Some g \<and> gr_tokenHash g = th \<and>
    gr_owner g = ow \<and> gr_role g = ls_role l \<and> gr_target g = ls_target l \<and>
    gr_workflow g = ls_workflow l \<and> gr_parentSessionId g = ls_parentSessionId l \<and>
    gr_childSessionId g = Some child \<and> gr_redeemedAt g = Some (ls_issuedAt l) \<and>
    \<not> timeGe (ls_issuedAt l) (gr_expiresAt g)"
proof -
  note ok = reachable_sessions[OF assms(1), of ow]
  note l = assms(2)[unfolded getExecutionLease_bucketOf]
  from sessions_okD(6)[OF ok l] obtain th g where
    g: "map_of (grants (bucketOf t ow)) th = Some g" "leaseOfGrant g l" by blast
  with sessions_okD(3)[OF ok g(1)] sessions_okD(4)[OF ok l] show ?thesis
    by (auto simp: leaseOfGrant_def grant_ok_def lease_ok_def)
qed

theorem lease_from_grant_witness:
  "\<exists>th g. map_of (grants (bucketOf exState8 exOwner)) th = Some g \<and> gr_tokenHash g = th \<and>
    gr_owner g = exOwner \<and> gr_role g = ls_role exLease4 \<and> gr_target g = ls_target exLease4 \<and>
    gr_workflow g = ls_workflow exLease4 \<and> gr_parentSessionId g = ls_parentSessionId exLease4 \<and>
    gr_childSessionId g = Some ''child-4'' \<and> gr_redeemedAt g = Some (ls_issuedAt exLease4) \<and>
    \<not> timeGe (ls_issuedAt exLease4) (gr_expiresAt g)"
  by (rule lease_from_grant[OF exStates_reachable(8) exSessions(1)])

section \<open>Parent turns\<close>

text \<open>Closing a parent turn leaves no child of that turn open: afterwards every lease of the
  turn is terminal.\<close>

theorem parent_turn_closes_children:
  assumes "closeParentTurnExecutionLeases t c = (t1, Inr ls)"
  shows "\<not> (\<exists>child l. getExecutionLease t1 (cp_owner c) child = Some l \<and>
    ls_parentSessionId l = cp_parentSessionId c \<and> ls_parentTurnId l = Some (cp_parentTurnId c) \<and>
    \<not> isTerminalStatus (ls_status l))"
proof (cases rule: closeParentTurn_cases[of c t])
  case (closed ls')
  with assms have b: "bucketOf t1 (cp_owner c) = parentClosedBucket (bucketOf t (cp_owner c)) c" by auto
  have terminal: "isTerminalStatus s \<longleftrightarrow> s \<noteq> LeaseReady \<and> s \<noteq> LeaseRunning" for s
    by (cases s) (simp_all add: isTerminalStatus_def)
  have "parentLeaseStatus (cp_status c) \<notin> {LeaseReady, LeaseRunning}"
    by (cases "cp_status c") simp_all
  then show ?thesis
    by (auto simp: b getExecutionLease_bucketOf parentClosedBucket_def Let_def map_of_map_values
        closedByParent_def parentTerminalLease_def terminal)
qed (use assms in simp)

definition exClose :: CloseParentTurnLeasesStoreCommand where
  "exClose = \<lparr>cp_owner = exOwner, cp_parentSessionId = ''parent'', cp_parentTurnId = ''turn'',
     cp_status = ParentCancelled, cp_occurredAt = exTime ''03'',
     cp_terminalCode = ''PARENT_CANCELLED''\<rparr>"

definition exClosed :: Tenants where
  "exClosed = fst (closeParentTurnExecutionLeases exRedeemed exClose)"

lemma exClosed_result:
  "closeParentTurnExecutionLeases exRedeemed exClose = (exClosed, Inr [parentTerminalLease exClose exReady])"
proof -
  have "timestampSchema (cp_occurredAt exClose)" by (simp add: exClose_def timestampSchema_def)
  moreover have "values_of (leases (bucketOf exRedeemed exOwner)) = [exReady]"
    by (simp add: exRedeemed_def queries)
  moreover have "closedByParent exClose exReady"
    by (simp add: closedByParent_def exClose_def exReady_def exLease_def)
  moreover have "cp_owner exClose = exOwner" by (simp add: exClose_def)
  ultimately show ?thesis
    by (simp add: exClosed_def closeParentTurnExecutionLeases_def Let_def)
qed

theorem parent_turn_closes_children_witness:
  "\<not> (\<exists>child l. getExecutionLease exClosed (cp_owner exClose) child = Some l \<and>
    ls_parentSessionId l = cp_parentSessionId exClose \<and>
    ls_parentTurnId l = Some (cp_parentTurnId exClose) \<and> \<not> isTerminalStatus (ls_status l))"
  by (rule parent_turn_closes_children[OF exClosed_result])

text \<open>A closed parent turn admits no new child: after the turn was closed, no grant issued for it
  that expires within the grant lifetime of the closing can be redeemed any more, whatever is
  called in between with clocks that do not run backwards past the closing.\<close>

theorem closed_turn_not_redeemable:
  assumes "closeParentTurnExecutionLeases t c = (t1, Inr ls)"
    and "dateParse (cp_occurredAt c) = Some lo" and "list_all (clockBetween lo hi) cs"
    and "findGrant (runCalls h t1 cs) (rd_tokenHash r) = Some (cp_owner c, g)"
    and "gr_parentSessionId g = cp_parentSessionId c" and "gr_parentTurnId g = Some (cp_parentTurnId c)"
    and "dateParse (gr_expiresAt g) = Some x" and "x \<le> lo + DEFAULT_BOOTSTRAP_GRANT_TTL_MS"
    and "dateParse (rd_occurredAt r) = Some hi"
  shows "\<exists>e. snd (redeemBootstrapGrant (runCalls h t1 cs) r) = Inl e"
proof (rule closed_turn_refused[OF _ assms(4,6-9)])
  show "turnClosed (cp_owner c) (gr_parentSessionId g, cp_parentTurnId c) lo hi (runCalls h t1 cs)"
    unfolding assms(5)
    by (rule runCalls_turnClosed[OF closeParentTurn_turnClosed[OF assms(1,2)] assms(3)])
qed

lemma exGranted_closed:
  "\<exists>t1. closeParentTurnExecutionLeases exGranted exClose = (t1, Inr []) \<and>
     findGrant t1 (exToken ''1'') = Some (exOwner, exGrant ''1'' ExPm 1 1 None)"
  by (simp add: evaluation states scenario exGranted_def exClose_def)

theorem closed_turn_not_redeemable_witness:
  "\<exists>e. snd (redeemBootstrapGrant (fst (closeParentTurnExecutionLeases exGranted exClose))
     (exRedeem ''1'' ExPm\<lparr>rd_occurredAt := exTime ''04''\<rparr>)) = Inl e"
proof -
  from exGranted_closed obtain t1 where t1: "closeParentTurnExecutionLeases exGranted exClose = (t1, Inr [])"
    "findGrant t1 (exToken ''1'') = Some (exOwner, exGrant ''1'' ExPm 1 1 None)" by blast
  show ?thesis
    using closed_turn_not_redeemable[OF t1(1), of _ _ "[]" exHost
        "exRedeem ''1'' ExPm\<lparr>rd_occurredAt := exTime ''04''\<rparr>" "exGrant ''1'' ExPm 1 1 None"] t1
    by (simp add: exClose_def exGrant_def exRedeem_def DEFAULT_BOOTSTRAP_GRANT_TTL_MS_def)
qed

section \<open>Liveness\<close>

text \<open>Bootstrapping makes progress: a grant that was just created can be redeemed by its owner
  under its own binding before it expires, for a child session that is not in use, and the child
  then has its lease.\<close>

theorem fresh_grant_is_redeemable:
  assumes "reachable h t" and "createBootstrapGrant t g = (t1, Inr g)"
    and "rd_tokenHash r = gr_tokenHash g" and "rd_owner r = gr_owner g"
    and "\<not> timeGe (rd_occurredAt r) (gr_expiresAt g)" and "\<not> bindingMismatch g r"
    and "findLease t (rd_childSessionId r) = None"
    and "timestampSchema (rd_occurredAt r)" and "timestampSchema (rd_leaseExpiresAt r)"
    and "\<not> timeLe (rd_leaseExpiresAt r) (rd_occurredAt r)"
    and "executionLeaseRecordSchema (leaseFromGrant g r)"
  shows "snd (redeemBootstrapGrant t1 r) = Inr (leaseFromGrant g r) \<and>
    getExecutionLease (fst (redeemBootstrapGrant t1 r)) (gr_owner g) (rd_childSessionId r) =
      Some (leaseFromGrant g r)"
  using fresh_grant_redeemable[OF reachable_ok[OF assms(1)] assms(2-11)] by blast

theorem fresh_grant_is_redeemable_witness:
  "snd (redeemBootstrapGrant exGranted (exRedeem ''1'' ExPm)) =
     Inr (leaseFromGrant (exGrant ''1'' ExPm 1 1 None) (exRedeem ''1'' ExPm))"
proof -
  let ?g = "exGrant ''1'' ExPm 1 1 None" and ?r = "exRedeem ''1'' ExPm"
  have "leaseFromGrant ?g ?r = exReady"
    by (simp add: leaseFromGrant_def exGrant_def exRedeem_def exReady_def exLease_def)
  moreover have "executionLeaseRecordSchema exReady"
    by (simp add: evaluation scenario exReady_def exLease_def)
  moreover have "findLease exState1 (rd_childSessionId ?r) = None"
    by (simp add: evaluation exState1_def exStore_def exBucket_def exRedeem_def)
  moreover have "\<not> bindingMismatch ?g ?r" by (simp add: bindingMismatch_def exGrant_def exRedeem_def)
  ultimately show ?thesis
    using fresh_grant_is_redeemable[OF exStates_reachable(1) exGranted_result, of ?r]
    by (simp add: exGrant_def exRedeem_def timeLe_def timestampSchema_def)
qed

section \<open>Consequential test steps\<close>

text \<open>No consequential step runs without its approval: an execution recorded as verified has an
  input grant under the very same step key, consumed at the moment the execution started, with
  the same step fingerprint, capability and schema.\<close>

theorem verified_execution_has_approval:
  assumes "reachable h t" and "map_of (testExecutions (bucketOf t ow)) k = Some x"
    and "tx_approval x = Verified"
  shows "\<exists>g. map_of (testInputGrants (bucketOf t ow)) k = Some g \<and>
    ig_consumedAt g = Some (tx_startedAt x) \<and> testStepKey (ig_step g) = testStepKey (tx_step x) \<and>
    st_stepFingerprint (ig_step g) = st_stepFingerprint (tx_step x) \<and>
    st_capabilityId (ig_step g) = st_capabilityId (tx_step x) \<and>
    st_schemaFingerprint (ig_step g) = st_schemaFingerprint (tx_step x)"
proof -
  note ok = reachable_executions[OF assms(1), of ow]
  from executions_okD(4)[OF ok assms(2,3)] obtain g where
    g: "map_of (testInputGrants (bucketOf t ow)) k = Some g" "consumedBy g x" by blast
  with executions_okD(3)[OF ok assms(2)] executions_okD(5)[OF ok g(1)] show ?thesis
    by (auto simp: consumedBy_def)
qed

theorem verified_execution_has_approval_witness:
  "\<exists>g. map_of (testInputGrants (bucketOf exState8 exOwner)) exKey = Some g \<and>
    ig_consumedAt g = Some (tx_startedAt exExecution) \<and>
    testStepKey (ig_step g) = testStepKey (tx_step exExecution) \<and>
    st_stepFingerprint (ig_step g) = st_stepFingerprint (tx_step exExecution) \<and>
    st_capabilityId (ig_step g) = st_capabilityId (tx_step exExecution) \<and>
    st_schemaFingerprint (ig_step g) = st_schemaFingerprint (tx_step exExecution)"
  by (rule verified_execution_has_approval[OF exStates_reachable(8)])
    (simp_all add: exState8_def queries exExecution_def)

text \<open>A test step runs at most once: after an execution of a step has been started, no further
  start of the same step succeeds, whatever is called in between.\<close>

theorem step_started_once:
  assumes "reachable h t" and "beginTestCapabilityExecution t c = (t1, Inr x)"
    and "st_owner (be_step c2) = st_owner (be_step c)"
    and "testStepKey (be_step c2) = testStepKey (be_step c)"
  shows "\<exists>e. snd (beginTestCapabilityExecution (runCalls h t1 cs) c2) = Inl e"
proof -
  let ?ow = "st_owner (be_step c)" and ?k = "testStepKey (be_step c)"
  have t1: "store_ok h t1"
    using callState_ok[OF reachable_ok[OF assms(1)], of "BeginTestExecution c"] assms(2) by simp
  have "map_of (testExecutions (bucketOf t1 ?ow)) ?k = Some x"
    using assms(2) by (cases rule: beginTestCapabilityExecution_cases[of t c]) auto
  moreover have "bucketLater (bucketOf t1 ?ow) (bucketOf (runCalls h t1 cs) ?ow)"
    by (rule bucketOf_later) (rule runCalls_later[OF t1])
  then have "map_later executionLater (map_of (testExecutions (bucketOf t1 ?ow)))
      (map_of (testExecutions (bucketOf (runCalls h t1 cs) ?ow)))"
    by (simp add: bucketLater_def)
  ultimately have "map_of (testExecutions (bucketOf (runCalls h t1 cs) ?ow)) ?k \<noteq> None"
    by (auto dest: map_laterD)
  then show ?thesis
    using assms(3,4)
    by (cases rule: beginTestCapabilityExecution_cases[of "runCalls h t1 cs" c2])
      (auto dest: bucketOf_Some)
qed

definition exAuthorized :: Tenants where
  "exAuthorized = callState exHost exState5 (AuthorizeInput exAuthorize)"

lemma exAuthorized_begin: "\<exists>t1 x. beginTestCapabilityExecution exAuthorized exBeginTest = (t1, Inr x)"
  by (simp add: evaluation scenario states exAuthorized_def exLease4_def)

theorem step_started_once_witness:
  "\<exists>e. snd (beginTestCapabilityExecution
     (runCalls exHost (fst (beginTestCapabilityExecution exAuthorized exBeginTest)) exApproval) exBeginTest) = Inl e"
proof -
  from exAuthorized_begin obtain t1 x where
    t1: "beginTestCapabilityExecution exAuthorized exBeginTest = (t1, Inr x)" by blast
  have "reachable exHost exAuthorized"
    unfolding exAuthorized_def by (rule reachable_call) (rule exStates_reachable)
  from step_started_once[OF this t1 refl refl, of exApproval] show ?thesis by (simp add: t1)
qed

section \<open>Findings\<close>

text \<open>Finding. A late start overwrites a terminal lease: beginning a lease at or after its expiry marks it
  as expired and closed at that moment, whatever its status was, so the record of a session that
  had succeeded is lost.\<close>

theorem late_begin_overwrites:
  assumes "reachable h t" and "getExecutionLease t (bl_owner c) (bl_childSessionId c) = Some l"
    and "timeGe (bl_occurredAt c) (ls_expiresAt l)"
  shows "\<exists>l'. getExecutionLease (fst (beginExecutionLease t c)) (bl_owner c) (bl_childSessionId c) = Some l' \<and>
    ls_status l' = LeaseExpired \<and> ls_closedAt l' = Some (bl_occurredAt c)"
proof -
  from assms(2) obtain b where b: "getBucket t (bl_owner c) = Some b"
    "map_of (leases b) (bl_childSessionId c) = Some l"
    by (auto simp: getExecutionLease_def split: option.splits)
  note found = map_of_findLease[OF reachable_ok[OF assms(1)] b]
  have "ls_owner l = bl_owner c"
    using sessions_okD(4)[OF reachable_sessions[OF assms(1), of "bl_owner c"]] bucketOf_Some[OF b(1)] b(2)
    by (simp add: lease_ok_def)
  with found assms(3) show ?thesis
    by (simp add: beginExecutionLease_def putLease_def getExecutionLease_bucketOf Let_def)
qed

definition exDone :: ExecutionLeaseRecord where
  "exDone = (exLease ''1'' ExPm 1 1 None None)\<lparr>ls_status := LeaseSucceeded,
     ls_closedAt := Some (exTime ''04'')\<rparr>"

definition exFinished :: Tenants where
  "exFinished = runCalls exHost exRedeemed
     [BeginLease (exBegin ''1'' None),
      CloseLease \<lparr>cl_owner = exOwner, cl_childSessionId = ''child-1'', cl_executionTurnId = ''work'',
        cl_status = CloseSucceeded, cl_occurredAt = exTime ''04'', cl_terminalCode = None\<rparr>]"

lemma exFinished_lease: "getExecutionLease exFinished exOwner ''child-1'' = Some exDone"
  by (simp add: evaluation scenario states exFinished_def exRedeemed_def exReady_def exDone_def)

theorem late_begin_overwrites_witness:
  "ls_status exDone = LeaseSucceeded \<and>
   (\<exists>l'. getExecutionLease (fst (beginExecutionLease exFinished
        (exBegin ''1'' None\<lparr>bl_occurredAt := exTime ''20''\<rparr>))) exOwner ''child-1'' = Some l' \<and>
      ls_status l' = LeaseExpired \<and> ls_closedAt l' = Some (exTime ''20''))"
proof -
  have "reachable exHost exRedeemed"
    using reachable_call[OF exGranted_reachable, of "RedeemGrant (exRedeem ''1'' ExPm)"]
      exRedeemed_result by simp
  then have "reachable exHost exFinished" unfolding exFinished_def by (rule reachable_runCalls)
  from late_begin_overwrites[OF this, of "exBegin ''1'' None\<lparr>bl_occurredAt := exTime ''20''\<rparr>" exDone]
    exFinished_lease
  show ?thesis by (simp add: exBegin_def exDone_def exLease_def timeLe_def)
qed

end
