(* ===== verification/Program.thy ===== *)
theory Program
  imports Store_Concurrency
begin

text \<open>
  Asynchronous service code over the store. A service method is a sequence of awaited store
  operations with pure code between them; at each \<open>await\<close> other callers may run. A method is a
  \<open>program\<close>: it returns, reads the store, or performs one store operation and continues with the
  operation's answer. Running a program takes a schedule: before the n-th store operation of the
  program, the calls of the n-th entry are made by others (no entry: none). Every property that
  holds for all schedules holds for every interleaving with other services.
\<close>

datatype 'a program =
    Return 'a
  | Query "Tenants \<Rightarrow> 'a program"
  | DoMutate StoreMutationBase AgentBuilderStoreCommand
      "AgentBuilderStoreMutationSuccess StoreResult \<Rightarrow> 'a program"
  | DoCreateGrant BootstrapGrantRecord "BootstrapGrantRecord BootstrapStoreResult \<Rightarrow> 'a program"
  | DoRedeemGrant RedeemBootstrapGrantStoreCommand
      "ExecutionLeaseRecord BootstrapStoreResult \<Rightarrow> 'a program"
  | DoBeginLease BeginExecutionLeaseStoreCommand
      "ExecutionLeaseRecord BootstrapStoreResult \<Rightarrow> 'a program"
  | DoCloseLease CloseExecutionLeaseStoreCommand
      "ExecutionLeaseRecord BootstrapStoreResult \<Rightarrow> 'a program"
  | DoCloseParentTurn CloseParentTurnLeasesStoreCommand
      "ExecutionLeaseRecord list BootstrapStoreResult \<Rightarrow> 'a program"
  | DoAuthorizeInput AuthorizeTestInputStoreCommand
      "TestInputGrantRecord TestPolicyResult \<Rightarrow> 'a program"
  | DoBeginTest BeginTestCapabilityExecutionStoreCommand
      "TestCapabilityExecutionRecord TestPolicyResult \<Rightarrow> 'a program"
  | DoCompleteTest CompleteTestCapabilityExecutionStoreCommand
      "TestCapabilityExecutionRecord TestPolicyResult \<Rightarrow> 'a program"

type_synonym schedule = "StoreCall list list"

type_synonym machine = "schedule \<times> Tenants"

text \<open>The calls made by others before the next store operation.\<close>

definition others :: "host \<Rightarrow> machine \<Rightarrow> machine" where
  "others h s = (tl (fst s), runCalls h (snd s) (case fst s of [] \<Rightarrow> [] | cs # _ \<Rightarrow> cs))"

primrec runProgram :: "'a program \<Rightarrow> host \<Rightarrow> machine \<Rightarrow> machine \<times> 'a" where
  "runProgram (Return x) h s = (s, x)"
| "runProgram (Query k) h s = (let s' = others h s in runProgram (k (snd s')) h s')"
| "runProgram (DoMutate m c k) h s =
     (let s' = others h s; r = mutate h (snd s') m c in runProgram (k (snd r)) h (fst s', fst r))"
| "runProgram (DoCreateGrant g k) h s =
     (let s' = others h s; r = createBootstrapGrant (snd s') g
      in runProgram (k (snd r)) h (fst s', fst r))"
| "runProgram (DoRedeemGrant c k) h s =
     (let s' = others h s; r = redeemBootstrapGrant (snd s') c
      in runProgram (k (snd r)) h (fst s', fst r))"
| "runProgram (DoBeginLease c k) h s =
     (let s' = others h s; r = beginExecutionLease (snd s') c
      in runProgram (k (snd r)) h (fst s', fst r))"
| "runProgram (DoCloseLease c k) h s =
     (let s' = others h s; r = closeExecutionLease (snd s') c
      in runProgram (k (snd r)) h (fst s', fst r))"
| "runProgram (DoCloseParentTurn c k) h s =
     (let s' = others h s; r = closeParentTurnExecutionLeases (snd s') c
      in runProgram (k (snd r)) h (fst s', fst r))"
| "runProgram (DoAuthorizeInput c k) h s =
     (let s' = others h s; r = authorizeTestInput (snd s') c
      in runProgram (k (snd r)) h (fst s', fst r))"
| "runProgram (DoBeginTest c k) h s =
     (let s' = others h s; r = beginTestCapabilityExecution (snd s') c
      in runProgram (k (snd r)) h (fst s', fst r))"
| "runProgram (DoCompleteTest c k) h s =
     (let s' = others h s; r = completeTestCapabilityExecution (snd s') c
      in runProgram (k (snd r)) h (fst s', fst r))"

text \<open>\<open>await p\<close> and continue with its result.\<close>

primrec andThen :: "'a program \<Rightarrow> ('a \<Rightarrow> 'b program) \<Rightarrow> 'b program" where
  "andThen (Return x) f = f x"
| "andThen (Query k) f = Query (\<lambda>t. andThen (k t) f)"
| "andThen (DoMutate m c k) f = DoMutate m c (\<lambda>r. andThen (k r) f)"
| "andThen (DoCreateGrant g k) f = DoCreateGrant g (\<lambda>r. andThen (k r) f)"
| "andThen (DoRedeemGrant c k) f = DoRedeemGrant c (\<lambda>r. andThen (k r) f)"
| "andThen (DoBeginLease c k) f = DoBeginLease c (\<lambda>r. andThen (k r) f)"
| "andThen (DoCloseLease c k) f = DoCloseLease c (\<lambda>r. andThen (k r) f)"
| "andThen (DoCloseParentTurn c k) f = DoCloseParentTurn c (\<lambda>r. andThen (k r) f)"
| "andThen (DoAuthorizeInput c k) f = DoAuthorizeInput c (\<lambda>r. andThen (k r) f)"
| "andThen (DoBeginTest c k) f = DoBeginTest c (\<lambda>r. andThen (k r) f)"
| "andThen (DoCompleteTest c k) f = DoCompleteTest c (\<lambda>r. andThen (k r) f)"

lemma runProgram_andThen:
  "runProgram (andThen p f) h s = (let (s', x) = runProgram p h s in runProgram (f x) h s')"
  by (induction p arbitrary: s) (simp_all add: Let_def)

text \<open>A sum result is passed on as a refusal or continued with its value.\<close>

definition andThenOk :: "('e + 'a) program \<Rightarrow> ('a \<Rightarrow> ('e + 'b) program) \<Rightarrow> ('e + 'b) program" where
  "andThenOk p f = andThen p (\<lambda>r. case r of Inl e \<Rightarrow> Return (Inl e) | Inr x \<Rightarrow> f x)"

section \<open>What a run does to the store\<close>

text \<open>A run is a sequence of store calls, the program's own and the others'.\<close>

lemma others_calls: "\<exists>cs. snd (others h s) = runCalls h (snd s) cs"
  by (auto simp: others_def)

lemma others_fst [simp]: "fst (others h s) = tl (fst s)"
  by (simp add: others_def)

lemma runs_after_call:
  assumes "\<exists>cs. t = runCalls h (callState h (snd (others h s)) c) cs"
  shows "\<exists>cs. t = runCalls h (snd s) cs"
  using assms others_calls[of h s] by (metis runCalls_append runCalls.simps(2))

lemma runProgram_calls: "\<exists>cs. snd (fst (runProgram p h s)) = runCalls h (snd s) cs"
proof (induction p arbitrary: s)
  case (Return x)
  show ?case by (rule exI[of _ "[]"]) simp
next
  case (Query k)
  show ?case
    using others_calls[of h s] Query[OF rangeI, of "snd (others h s)" "others h s"]
    by (auto simp: Let_def simp flip: runCalls_append)
next
  case (DoMutate m c k)
  show ?case
    by (rule runs_after_call[of _ _ _ "Mutate m c"]) (use DoMutate[OF rangeI] in \<open>fastforce simp: Let_def\<close>)
next
  case (DoCreateGrant g k)
  show ?case
    by (rule runs_after_call[of _ _ _ "CreateGrant g"]) (use DoCreateGrant[OF rangeI] in \<open>fastforce simp: Let_def\<close>)
next
  case (DoRedeemGrant c k)
  show ?case
    by (rule runs_after_call[of _ _ _ "RedeemGrant c"]) (use DoRedeemGrant[OF rangeI] in \<open>fastforce simp: Let_def\<close>)
next
  case (DoBeginLease c k)
  show ?case
    by (rule runs_after_call[of _ _ _ "BeginLease c"]) (use DoBeginLease[OF rangeI] in \<open>fastforce simp: Let_def\<close>)
next
  case (DoCloseLease c k)
  show ?case
    by (rule runs_after_call[of _ _ _ "CloseLease c"]) (use DoCloseLease[OF rangeI] in \<open>fastforce simp: Let_def\<close>)
next
  case (DoCloseParentTurn c k)
  show ?case
    by (rule runs_after_call[of _ _ _ "CloseParentTurn c"]) (use DoCloseParentTurn[OF rangeI] in \<open>fastforce simp: Let_def\<close>)
next
  case (DoAuthorizeInput c k)
  show ?case
    by (rule runs_after_call[of _ _ _ "AuthorizeInput c"]) (use DoAuthorizeInput[OF rangeI] in \<open>fastforce simp: Let_def\<close>)
next
  case (DoBeginTest c k)
  show ?case
    by (rule runs_after_call[of _ _ _ "BeginTestExecution c"]) (use DoBeginTest[OF rangeI] in \<open>fastforce simp: Let_def\<close>)
next
  case (DoCompleteTest c k)
  show ?case
    by (rule runs_after_call[of _ _ _ "CompleteTestExecution c"]) (use DoCompleteTest[OF rangeI] in \<open>fastforce simp: Let_def\<close>)
qed

text \<open>So whatever the schedule, a run keeps the store reachable and never undoes anything.\<close>

lemma runProgram_reachable: "reachable h (snd s) \<Longrightarrow> reachable h (snd (fst (runProgram p h s)))"
  using runProgram_calls[of p h s] by (metis reachable_runCalls)

lemma runProgram_later: "reachable h (snd s) \<Longrightarrow> storeLater (snd s) (snd (fst (runProgram p h s)))"
  using runProgram_calls[of p h s] by (metis reachable_later)

lemma others_reachable: "reachable h (snd s) \<Longrightarrow> reachable h (snd (others h s))"
  by (simp add: others_def reachable_runCalls)

lemma others_later: "reachable h (snd s) \<Longrightarrow> storeLater (snd s) (snd (others h s))"
  by (simp add: others_def reachable_later)

text \<open>Nobody else running: the empty schedule.\<close>

lemma others_alone [simp]: "others h ([], t) = ([], t)"
  by (simp add: others_def)

end
