(* ===== verification/Instants.thy ===== *)
theory Instants
  imports Timestamps
begin

text \<open>
  \<open>new Date(epoch).toISOString()\<close> for the instants it writes with four digits of year, as used by
  \<open>asTimestamp\<close> of \<open>packages/eve-agent-builder/extension/lib/bootstrap.ts\<close> and by the refinement of
  \<open>timestampSchema\<close>. Years outside 0000..9999 are written in another format, which
  \<open>timestampSchema.parse\<close> rejects with an exception: \<open>None\<close>. Writing and parsing are inverse.
\<close>

definition digitChar :: "int \<Rightarrow> char" where
  "digitChar d = char_of (48 + nat d)"

text \<open>The last \<open>n\<close> decimal digits, \<open>padStart(n, "0")\<close>.\<close>

fun paddedDigits :: "nat \<Rightarrow> int \<Rightarrow> string" where
  "paddedDigits 0 v = []"
| "paddedDigits (Suc n) v = paddedDigits n (v div 10) @ [digitChar (v mod 10)]"

text \<open>The year of a day, counted from 0000-01-01: an estimate that is off by at most one.\<close>

definition yearOfDay :: "int \<Rightarrow> int" where
  "yearOfDay d =
     (let y = (400 * d) div 146097
      in if d < daysBeforeYear y then y - 1
         else if daysBeforeYear (y + 1) \<le> d then y + 1 else y)"

text \<open>Month (from 1) and day of the month (from 1) of a day of the year, given month lengths.\<close>

fun monthDay :: "int \<Rightarrow> int list \<Rightarrow> int \<Rightarrow> int \<times> int" where
  "monthDay m [] r = (m, r + 1)"
| "monthDay m (l # ls) r = (if r < l then (m, r + 1) else monthDay (m + 1) ls (r - l))"

definition toISOString :: "int \<Rightarrow> string" where
  "toISOString e =
     (let day = e div 86400000 + EPOCH_DAYS; t = e mod 86400000;
          y = yearOfDay day; md = monthDay 1 (monthLengths y) (day - daysBeforeYear y)
      in paddedDigits 4 y @ ''-'' @ paddedDigits 2 (fst md) @ ''-'' @ paddedDigits 2 (snd md) @ ''T'' @
         paddedDigits 2 (t div 3600000) @ '':'' @ paddedDigits 2 (t div 60000 mod 60) @ '':'' @
         paddedDigits 2 (t div 1000 mod 60) @ ''.'' @ paddedDigits 3 (t mod 1000) @ ''Z'')"

definition MIN_FOUR_DIGIT_EPOCH :: int where
  "MIN_FOUR_DIGIT_EPOCH = - 62167219200000"

definition MAX_FOUR_DIGIT_EPOCH :: int where
  "MAX_FOUR_DIGIT_EPOCH = 253402300799999"

definition asTimestamp :: "int \<Rightarrow> Timestamp option" where
  "asTimestamp e =
     (if MIN_FOUR_DIGIT_EPOCH \<le> e \<and> e \<le> MAX_FOUR_DIGIT_EPOCH \<and> timestampSchema (toISOString e)
      then Some (toISOString e) else None)"

lemma div_between: "0 < k \<Longrightarrow> k * (x div k) \<le> x \<and> x < k * (x div k + 1)" for x k :: int
proof -
  assume "0 < k"
  then have "0 \<le> x mod k" "x mod k < k" by simp_all
  then show ?thesis using mult_div_mod_eq[of k x] unfolding distrib_left mult_1_right by linarith
qed

section \<open>Digits\<close>

lemma digitChar_code: "0 \<le> d \<Longrightarrow> d \<le> 9 \<Longrightarrow> of_char (digitChar d) = (48 + nat d :: nat)"
  by (simp add: digitChar_def)

lemma digitChar_isDigit: "0 \<le> d \<Longrightarrow> d \<le> 9 \<Longrightarrow> isDigit (digitChar d)"
  by (simp add: isDigit_def digitChar_code)

lemma digitChar_value: "0 \<le> d \<Longrightarrow> d \<le> 9 \<Longrightarrow> digitValue (digitChar d) = d"
  by (simp add: digitValue_def digitChar_code)

lemma paddedDigits_length [simp]: "length (paddedDigits n v) = n"
  by (induction n v rule: paddedDigits.induct) simp_all

lemma paddedDigits_digits: "list_all isDigit (paddedDigits n v)"
  by (induction n v rule: paddedDigits.induct) (simp_all add: digitChar_isDigit)

lemma digitsValue_snoc: "digitsValue (s @ [c]) = 10 * digitsValue s + digitValue c"
  by (simp add: digitsValue_def)

lemma paddedDigits_value: "0 \<le> v \<Longrightarrow> v < 10 ^ n \<Longrightarrow> digitsValue (paddedDigits n v) = v"
proof (induction n v rule: paddedDigits.induct)
  case (1 v)
  then show ?case by (simp add: digitsValue_def)
next
  case (2 n v)
  have "v div 10 < 10 ^ n" using 2(3) div_between[of 10 v] by simp
  moreover have "0 \<le> v div 10" using 2(2) by simp
  ultimately have "digitsValue (paddedDigits n (v div 10)) = v div 10" by (rule 2(1)[rotated])
  then show ?case by (simp add: digitsValue_snoc digitChar_value)
qed

section \<open>Calendar\<close>

text \<open>The rounded terms of \<open>daysBeforeYear\<close> differ from the exact ones by less than two days.\<close>

lemma daysBeforeYear_bounds:
  "146097 * y - 396 \<le> 400 * daysBeforeYear y" "400 * daysBeforeYear y \<le> 146097 * y + 699"
proof -
  have q: "k * ((y + (k - 1)) div k) \<le> y + (k - 1)" "y \<le> k * ((y + (k - 1)) div k)" if "0 < k" for k :: int
  proof -
    have "(y + (k - 1)) mod k < k" "0 \<le> (y + (k - 1)) mod k" using that by simp_all
    then show "k * ((y + (k - 1)) div k) \<le> y + (k - 1)" "y \<le> k * ((y + (k - 1)) div k)"
      using mult_div_mod_eq[of k "y + (k - 1)"] by linarith+
  qed
  from q[of 4] q[of 100] q[of 400]
  show "146097 * y - 396 \<le> 400 * daysBeforeYear y" "400 * daysBeforeYear y \<le> 146097 * y + 699"
    by (simp_all add: daysBeforeYear_def)
qed

lemma yearOfDay_bounds: "daysBeforeYear (yearOfDay d) \<le> d \<and> d < daysBeforeYear (yearOfDay d + 1)"
proof -
  define y where "y = (400 * d) div 146097"
  have y: "146097 * y \<le> 400 * d" "400 * d < 146097 * (y + 1)"
    using div_between[of 146097 "400 * d"] by (simp_all only: y_def)
  have "daysBeforeYear (y - 1) \<le> d" using daysBeforeYear_bounds(2)[of "y - 1"] y(1) by (simp add: algebra_simps)
  moreover have "d < daysBeforeYear (2 + y)" using daysBeforeYear_bounds(1)[of "2 + y"] y(2) by (simp add: algebra_simps)
  ultimately show ?thesis by (simp add: yearOfDay_def Let_def y_def[symmetric])
qed

lemma monthDay_spec:
  assumes "0 \<le> r" and "r < sum_list ls"
  shows "\<exists>i < length ls. monthDay m ls r = (m + int i, r - sum_list (take i ls) + 1) \<and>
    0 \<le> r - sum_list (take i ls) \<and> r - sum_list (take i ls) < ls ! i"
  using assms
proof (induction m ls r rule: monthDay.induct)
  case (2 m l ls r)
  show ?case
  proof (cases "r < l")
    case True
    with 2 show ?thesis by (intro exI[of _ 0]) simp
  next
    case False
    with 2 obtain i where "i < length ls" "monthDay (m + 1) ls (r - l) =
        (m + 1 + int i, r - l - sum_list (take i ls) + 1)"
      "0 \<le> r - l - sum_list (take i ls)" "r - l - sum_list (take i ls) < ls ! i" by auto
    with False show ?thesis by (intro exI[of _ "Suc i"]) (simp add: algebra_simps)
  qed
qed simp

lemma monthLengths_bounds: "i < length (monthLengths y) \<Longrightarrow> monthLengths y ! i \<le> 31"
proof -
  have "list_all (\<lambda>l. l \<le> 31) (monthLengths y)" by (simp add: monthLengths_def)
  then show "i < length (monthLengths y) \<Longrightarrow> monthLengths y ! i \<le> 31" by (simp add: list_all_length)
qed

lemma length_monthLengths [simp]: "length (monthLengths y) = 12"
  by (simp add: monthLengths_def)

lemma yearOfDay_four_digits:
  assumes "0 \<le> d" and "d \<le> 3652424"
  shows "0 \<le> yearOfDay d" "yearOfDay d \<le> 9999"
proof -
  let ?y = "yearOfDay d"
  have mono: "daysBeforeYear a \<le> daysBeforeYear b" if "a \<le> b" for a b :: int
    using that daysBeforeYear_Suc
  proof (induction "nat (b - a)" arbitrary: b)
    case (Suc n)
    then have "daysBeforeYear a \<le> daysBeforeYear (b - 1)" by simp
    moreover have "daysBeforeYear (b - 1) \<le> daysBeforeYear b"
      using daysBeforeYear_Suc[of "b - 1"] by (simp add: monthLengths_def)
    ultimately show ?case by simp
  qed simp
  have zero: "daysBeforeYear 0 = 0" "daysBeforeYear 10000 = 3652425" by (simp_all add: daysBeforeYear_def)
  show "0 \<le> ?y" using yearOfDay_bounds[of d] mono[of "?y + 1" 0] zero assms by linarith
  show "?y \<le> 9999" using yearOfDay_bounds[of d] mono[of 10000 ?y] zero assms by linarith
qed

section \<open>Round trip\<close>

lemma matchesTemplate_digits:
  "matchesTemplate (replicate (length s) (CHR ''d'')) s \<longleftrightarrow> list_all isDigit s"
  by (induction s) (simp_all add: matchesTemplate_def)

lemma matchesTemplate_append:
  "length s = length t \<Longrightarrow> matchesTemplate (t @ t') (s @ s') \<longleftrightarrow> matchesTemplate t s \<and> matchesTemplate t' s'"
  by (simp add: matchesTemplate_def list_all2_append)

text \<open>Seven fields of the right width, parsed back.\<close>

lemma dateParse_fields:
  assumes "list_all2 (\<lambda>n f. length f = n \<and> list_all isDigit f) [4, 2, 2, 2, 2, 2, 3] [y, mo, d, h, mi, s, ms]"
  shows "dateParse (y @ ''-'' @ mo @ ''-'' @ d @ ''T'' @ h @ '':'' @ mi @ '':'' @ s @ ''.'' @ ms @ ''Z'') =
    (let y = digitsValue y; mo = digitsValue mo; d = digitsValue d; h = digitsValue h;
         mi = digitsValue mi; s = digitsValue s; ms = digitsValue ms
     in if 1 \<le> mo \<and> mo \<le> 12 \<and> 1 \<le> d \<and> d \<le> daysInMonth y mo \<and> h \<le> 23 \<and> mi \<le> 59 \<and> s \<le> 59
        then Some (epochMs y mo d h mi s ms) else None)"
proof -
  have t: "CANONICAL_TIMESTAMP = replicate (length y) (CHR ''d'') @ ''-'' @ replicate (length mo) (CHR ''d'') @ ''-'' @
      replicate (length d) (CHR ''d'') @ ''T'' @ replicate (length h) (CHR ''d'') @ '':'' @
      replicate (length mi) (CHR ''d'') @ '':'' @ replicate (length s) (CHR ''d'') @ ''.'' @
      replicate (length ms) (CHR ''d'') @ ''Z''"
    using assms by (simp add: CANONICAL_TIMESTAMP_def numeral_eq_Suc)
  have lit: "matchesTemplate (c # t') (c # s') \<longleftrightarrow> matchesTemplate t' s'" if "c \<noteq> CHR ''d''" for c t' s'
    using that by (simp add: matchesTemplate_def)
  have nil: "matchesTemplate [] []" by (simp add: matchesTemplate_def)
  have "matchesTemplate CANONICAL_TIMESTAMP
      (y @ ''-'' @ mo @ ''-'' @ d @ ''T'' @ h @ '':'' @ mi @ '':'' @ s @ ''.'' @ ms @ ''Z'')"
    unfolding t using assms by (simp add: matchesTemplate_append lit nil del: replicate.simps)
      (metis matchesTemplate_digits)
  with assms show ?thesis
    by (simp add: dateParse_def numberAt_def)
qed

lemma epochMs_sum:
  "epochMs y mo d h mi s ms =
     (daysBeforeYear y + daysBeforeMonth y mo + d - 1 - EPOCH_DAYS) * 86400000 +
     ((h * 60 + mi) * 60000 + s * 1000 + ms)"
  by (simp add: epochMs_def algebra_simps)

lemma dateParse_toISOString:
  assumes "MIN_FOUR_DIGIT_EPOCH \<le> e" and "e \<le> MAX_FOUR_DIGIT_EPOCH"
  shows "dateParse (toISOString e) = Some e"
proof -
  define day t where "day = e div 86400000 + EPOCH_DAYS" and "t = e mod 86400000"
  have t: "0 \<le> t" "t < 86400000" by (simp_all add: t_def)
  have day: "0 \<le> day" "day \<le> 3652424"
    using assms by (simp_all add: day_def EPOCH_DAYS_def MIN_FOUR_DIGIT_EPOCH_def MAX_FOUR_DIGIT_EPOCH_def)
  define y r where "y = yearOfDay day" and "r = day - daysBeforeYear y"
  have r: "0 \<le> r" "r < sum_list (monthLengths y)"
    using yearOfDay_bounds[of day] daysBeforeYear_Suc[of y] by (simp_all add: r_def y_def)
  from monthDay_spec[OF r, of 1] obtain i where i: "i < 12"
    "monthDay 1 (monthLengths y) r = (1 + int i, r - sum_list (take i (monthLengths y)) + 1)"
    "0 \<le> r - sum_list (take i (monthLengths y))" "r - sum_list (take i (monthLengths y)) < monthLengths y ! i"
    by auto
  define d where "d = r - sum_list (take i (monthLengths y)) + 1"
  have d: "1 \<le> d" "d \<le> daysInMonth y (1 + int i)" "d \<le> 31"
    using i monthLengths_bounds[of i y] by (simp_all add: d_def daysInMonth_def)
  have y: "0 \<le> y" "y < 10 ^ 4" using yearOfDay_four_digits[OF day] by (simp_all add: y_def)
  have iso: "toISOString e = paddedDigits 4 y @ ''-'' @ paddedDigits 2 (1 + int i) @ ''-'' @ paddedDigits 2 d @ ''T'' @
         paddedDigits 2 (t div 3600000) @ '':'' @ paddedDigits 2 (t div 60000 mod 60) @ '':'' @
         paddedDigits 2 (t div 1000 mod 60) @ ''.'' @ paddedDigits 3 (t mod 1000) @ ''Z''"
    using i(2) by (simp add: toISOString_def Let_def day_def[symmetric] t_def[symmetric] y_def[symmetric]
        r_def[symmetric] d_def)
  have mod_60: "x mod 60 \<le> 59 \<longleftrightarrow> True" "0 \<le> x mod 60 \<longleftrightarrow> True" "x mod 60 < 10 ^ 2 \<longleftrightarrow> True"
    "0 \<le> x mod 1000 \<longleftrightarrow> True" "x mod 1000 < 10 ^ 3 \<longleftrightarrow> True" for x :: int
    using pos_mod_bound[of 60 x] pos_mod_bound[of 1000 x] by simp_all
  have parts: "0 \<le> t div 3600000" "t div 3600000 \<le> 23" using t by simp_all
  have vals: "digitsValue (paddedDigits 4 y) = y" "digitsValue (paddedDigits 2 (1 + int i)) = 1 + int i"
    "digitsValue (paddedDigits 2 d) = d" "digitsValue (paddedDigits 2 (t div 3600000)) = t div 3600000"
    "digitsValue (paddedDigits 2 (t div 60000 mod 60)) = t div 60000 mod 60"
    "digitsValue (paddedDigits 2 (t div 1000 mod 60)) = t div 1000 mod 60"
    "digitsValue (paddedDigits 3 (t mod 1000)) = t mod 1000"
    using y i(1) d(1,3) parts by (simp_all only: paddedDigits_value mod_60) (simp_all add: paddedDigits_value)
  have clock: "((t div 3600000) * 60 + t div 60000 mod 60) * 60000 + t div 1000 mod 60 * 1000 + t mod 1000 = t"
  proof -
    have "t div 60000 = t div 1000 div 60" "t div 3600000 = t div 1000 div 60 div 60"
      by (simp_all add: zdiv_zmult2_eq[symmetric])
    moreover have "(a4 * 60 + r3) * 60000 + r2 * 1000 + r1 = a1"
      if "1000 * a2 + r1 = a1" "60 * a3 + r2 = a2" "60 * a4 + r3 = a3" for a1 a2 a3 a4 r1 r2 r3 :: int
      unfolding that[symmetric] by (simp add: algebra_simps)
    from this[OF mult_div_mod_eq mult_div_mod_eq mult_div_mod_eq, of t]
    have "(t div 1000 div 60 div 60 * 60 + t div 1000 div 60 mod 60) * 60000 +
      t div 1000 mod 60 * 1000 + t mod 1000 = t" .
    ultimately show ?thesis by simp
  qed
  have "epochMs y (1 + int i) d (t div 3600000) (t div 60000 mod 60) (t div 1000 mod 60) (t mod 1000) = e"
  proof -
    have "daysBeforeYear y + daysBeforeMonth y (1 + int i) + d - 1 = day"
      by (simp add: daysBeforeMonth_def d_def r_def)
    then show ?thesis unfolding epochMs_sum clock by (simp only:) (simp add: day_def t_def)
  qed
  moreover have "1 + int i \<le> 12" "(1::int) \<le> 1 + int i" "t div 60000 mod 60 \<le> 59" "t div 1000 mod 60 \<le> 59"
    using i(1) by (simp_all only: mod_60)
  moreover have "list_all2 (\<lambda>n f. length f = n \<and> list_all isDigit f) [4, 2, 2, 2, 2, 2, 3]
      [paddedDigits 4 y, paddedDigits 2 (1 + int i), paddedDigits 2 d, paddedDigits 2 (t div 3600000),
       paddedDigits 2 (t div 60000 mod 60), paddedDigits 2 (t div 1000 mod 60), paddedDigits 3 (t mod 1000)]"
    by (simp only: list.rel_inject list_all2_Nil paddedDigits_length paddedDigits_digits simp_thms)
  ultimately show ?thesis
    unfolding iso using d parts(2)
    by (simp only: dateParse_fields vals Let_def simp_thms if_True)
qed

lemma asTimestamp_parse: "asTimestamp e = Some s \<Longrightarrow> dateParse s = Some e"
  by (auto simp: asTimestamp_def dateParse_toISOString split: if_splits)

lemma asTimestamp_total:
  "MIN_FOUR_DIGIT_EPOCH \<le> e \<Longrightarrow> e \<le> MAX_FOUR_DIGIT_EPOCH \<Longrightarrow> asTimestamp e = Some (toISOString e)"
  by (simp add: asTimestamp_def timestampSchema_def dateParse_toISOString)

end
