(* ===== verification/Json_Text.thy ===== *)
theory Json_Text
  imports Domain Instants
begin

text \<open>
  JSON text: \<open>JSON.stringify\<close> and \<open>JSON.parse\<close> of the language's library, and \<open>canonicalJson\<close> of
  \<open>packages/eve-agent-builder/extension/lib/service.ts\<close>, the text whose hash identifies a
  mutation request. The text of a number that is not an integer below \<open>10^21\<close> is left to the
  argument \<open>numText\<close>. \<open>JSON.parse\<close> is a recursive descent parser; every nested call has read a
  character, so fuel for the length of the text is enough. A parsed number is its exact decimal
  value (JavaScript rounds it to a double), and an escape beyond the 256 characters of \<open>char\<close> is
  not representable and parsed as an error.
\<close>

section \<open>Printing\<close>

fun natText :: "nat \<Rightarrow> string" where
  "natText n = (if n < 10 then [digitChar (int n)] else natText (n div 10) @ [digitChar (int (n mod 10))])"

declare natText.simps [simp del]

definition intText :: "int \<Rightarrow> string" where
  "intText i = (if i < 0 then CHR ''-'' # natText (nat (- i)) else natText (nat i))"

definition numberText :: "(rat \<Rightarrow> string) \<Rightarrow> rat \<Rightarrow> string" where
  "numberText numText q =
     (let (n, d) = quotient_of q in if d = 1 \<and> \<bar>n\<bar> < 10 ^ 21 then intText n else numText q)"

definition QUOTE :: char where "QUOTE = CHR 0x22"

definition BACKSLASH :: char where "BACKSLASH = CHR 0x5C"

definition hexChar :: "nat \<Rightarrow> char" where
  "hexChar n = (if n < 10 then char_of (48 + n) else char_of (87 + n))"

definition escapeChar :: "char \<Rightarrow> string" where
  "escapeChar c =
     (if c = QUOTE \<or> c = BACKSLASH then [BACKSLASH, c]
      else if c = CHR 0x08 then [BACKSLASH, CHR ''b'']
      else if c = CHR 0x09 then [BACKSLASH, CHR ''t'']
      else if c = CHR 0x0A then [BACKSLASH, CHR ''n'']
      else if c = CHR 0x0C then [BACKSLASH, CHR ''f'']
      else if c = CHR 0x0D then [BACKSLASH, CHR ''r'']
      else if (of_char c :: nat) < 32 then
        [BACKSLASH, CHR ''u'', CHR ''0'', CHR ''0'', hexChar (of_char c div 16), hexChar (of_char c mod 16)]
      else [c])"

definition jsonString :: "string \<Rightarrow> string" where
  "jsonString s = QUOTE # concat (map escapeChar s) @ [QUOTE]"

fun joinComma :: "string list \<Rightarrow> string" where
  "joinComma [] = []"
| "joinComma [s] = s"
| "joinComma (s # ss) = s @ CHR '','' # joinComma ss"

fun jsonText :: "(rat \<Rightarrow> string) \<Rightarrow> JsonValue \<Rightarrow> string" where
  "jsonText numText JNull = ''null''"
| "jsonText numText (JBool b) = (if b then ''true'' else ''false'')"
| "jsonText numText (JNumber q) = numberText numText q"
| "jsonText numText (JString s) = jsonString s"
| "jsonText numText (JArray vs) = CHR ''['' # joinComma (map (jsonText numText) vs) @ '']''"
| "jsonText numText (JObject kvs) =
     CHR ''{'' # joinComma (map (\<lambda>kv. jsonString (fst kv) @ CHR '':'' # jsonText numText (snd kv)) kvs) @ ''}''"

section \<open>Parsing\<close>

definition isJsonSpace :: "char \<Rightarrow> bool" where
  "isJsonSpace c \<longleftrightarrow> c \<in> {CHR '' '', CHR 0x09, CHR 0x0A, CHR 0x0D}"

abbreviation skipSpace :: "string \<Rightarrow> string" where
  "skipSpace \<equiv> dropWhile isJsonSpace"

definition hexValue :: "char \<Rightarrow> nat option" where
  "hexValue c =
     (let n = of_char c :: nat
      in if 48 \<le> n \<and> n \<le> 57 then Some (n - 48)
         else if 97 \<le> n \<and> n \<le> 102 then Some (n - 87)
         else if 65 \<le> n \<and> n \<le> 70 then Some (n - 55) else None)"

definition escapedChar :: "char \<Rightarrow> char option" where
  "escapedChar c =
     (if c = QUOTE \<or> c = BACKSLASH \<or> c = CHR ''/'' then Some c
      else if c = CHR ''b'' then Some (CHR 0x08) else if c = CHR ''t'' then Some (CHR 0x09)
      else if c = CHR ''n'' then Some (CHR 0x0A) else if c = CHR ''f'' then Some (CHR 0x0C)
      else if c = CHR ''r'' then Some (CHR 0x0D) else None)"

definition unicodeChar :: "char \<Rightarrow> char \<Rightarrow> char \<Rightarrow> char \<Rightarrow> char option" where
  "unicodeChar a b c d =
     (case (hexValue a, hexValue b, hexValue c, hexValue d) of
        (Some a, Some b, Some c, Some d) \<Rightarrow>
          if a = 0 \<and> b = 0 then Some (char_of (16 * c + d)) else None
      | _ \<Rightarrow> None)"

definition consChar :: "char option \<Rightarrow> (string \<times> string) option \<Rightarrow> (string \<times> string) option" where
  "consChar c r = (case (c, r) of (Some c, Some (s, rest)) \<Rightarrow> Some (c # s, rest) | _ \<Rightarrow> None)"

text \<open>The rest of a string after its opening quote: its characters and what follows it.\<close>

fun parseString :: "string \<Rightarrow> (string \<times> string) option" where
  "parseString [] = None"
| "parseString (x # r) =
     (if x = QUOTE then Some ([], r)
      else if x = BACKSLASH then
        (case r of
           [] \<Rightarrow> None
         | e # r1 \<Rightarrow>
           if e = CHR ''u'' then
             (case r1 of
                a # b # c # d # r2 \<Rightarrow> consChar (unicodeChar a b c d) (parseString r2)
              | _ \<Rightarrow> None)
           else consChar (escapedChar e) (parseString r1))
      else if (of_char x :: nat) < 32 then None
      else consChar (Some x) (parseString r))"

definition natOf :: "string \<Rightarrow> rat" where
  "natOf ds = of_int (digitsValue ds)"

text \<open>The optional fraction and exponent of a number: its value and what follows it.\<close>

definition parseFraction :: "string \<Rightarrow> (rat \<times> string) option" where
  "parseFraction s =
     (if take 1 s = ''.'' then
        (let ds = takeWhile isDigit (tl s)
         in if ds = [] then None else Some (natOf ds / 10 ^ length ds, dropWhile isDigit (tl s)))
      else Some (0, s))"

definition parseExponent :: "string \<Rightarrow> (rat \<times> string) option" where
  "parseExponent s =
     (case s of
        e # r \<Rightarrow>
          if e = CHR ''e'' \<or> e = CHR ''E'' then
            (let sgn = (case r of c # _ \<Rightarrow> c = CHR ''-'' | [] \<Rightarrow> False);
                 r1 = (case r of c # r' \<Rightarrow> if c = CHR ''-'' \<or> c = CHR ''+'' then r' else r | [] \<Rightarrow> r);
                 ds = takeWhile isDigit r1; n = nat (digitsValue ds)
             in if ds = [] then None
                else Some (if sgn then 1 / 10 ^ n else 10 ^ n, dropWhile isDigit r1))
          else Some (1, s)
      | [] \<Rightarrow> Some (1, s))"

definition parseUnsigned :: "string \<Rightarrow> (rat \<times> string) option" where
  "parseUnsigned s =
     (let ds = takeWhile isDigit s
      in if ds = [] \<or> (length ds > 1 \<and> hd ds = CHR ''0'') then None
         else (case parseFraction (dropWhile isDigit s) of
                 None \<Rightarrow> None
               | Some (f, r) \<Rightarrow>
                 (case parseExponent r of
                    None \<Rightarrow> None
                  | Some (x, r') \<Rightarrow> Some ((natOf ds + f) * x, r'))))"

definition parseNumber :: "string \<Rightarrow> (rat \<times> string) option" where
  "parseNumber s =
     (case s of
        [] \<Rightarrow> None
      | c # r \<Rightarrow>
        if c = CHR ''-'' then map_option (\<lambda>(q, r'). (- q, r')) (parseUnsigned r) else parseUnsigned s)"

definition parseLiteral :: "string \<Rightarrow> JsonValue \<Rightarrow> string \<Rightarrow> (JsonValue \<times> string) option" where
  "parseLiteral word v s =
     (if take (length word) s = word then Some (v, drop (length word) s) else None)"

text \<open>A repeated key keeps its first place and takes its last value.\<close>

definition objectOf :: "(string \<times> JsonValue) list \<Rightarrow> (string \<times> JsonValue) list" where
  "objectOf kvs = foldl (\<lambda>acc kv. mapSet (fst kv) (snd kv) acc) [] kvs"

fun parseValue :: "nat \<Rightarrow> string \<Rightarrow> (JsonValue \<times> string) option"
  and parseElements :: "nat \<Rightarrow> string \<Rightarrow> (JsonValue list \<times> string) option"
  and parseMembers :: "nat \<Rightarrow> string \<Rightarrow> ((string \<times> JsonValue) list \<times> string) option" where
  "parseValue 0 s = None"
| "parseValue (Suc n) s =
     (case skipSpace s of
        [] \<Rightarrow> None
      | c # r \<Rightarrow>
        if c = CHR ''n'' then parseLiteral ''null'' JNull (c # r)
        else if c = CHR ''t'' then parseLiteral ''true'' (JBool True) (c # r)
        else if c = CHR ''f'' then parseLiteral ''false'' (JBool False) (c # r)
        else if c = QUOTE then map_option (\<lambda>(str, r'). (JString str, r')) (parseString r)
        else if c = CHR ''['' then
          (if take 1 (skipSpace r) = '']'' then Some (JArray [], tl (skipSpace r))
           else map_option (\<lambda>(vs, r'). (JArray vs, r')) (parseElements n r))
        else if c = CHR ''{'' then
          (if take 1 (skipSpace r) = ''}'' then Some (JObject [], tl (skipSpace r))
           else map_option (\<lambda>(kvs, r'). (JObject (objectOf kvs), r')) (parseMembers n r))
        else map_option (\<lambda>(q, r'). (JNumber q, r')) (parseNumber (c # r)))"
| "parseElements 0 s = None"
| "parseElements (Suc n) s =
     (case parseValue n s of
        None \<Rightarrow> None
      | Some (v, r) \<Rightarrow>
        (case skipSpace r of
           [] \<Rightarrow> None
         | c # r' \<Rightarrow>
           if c = CHR '','' then map_option (\<lambda>(vs, r''). (v # vs, r'')) (parseElements n r')
           else if c = CHR '']'' then Some ([v], r') else None))"
| "parseMembers 0 s = None"
| "parseMembers (Suc n) s =
     (case skipSpace s of
        [] \<Rightarrow> None
      | c # r \<Rightarrow>
        if c \<noteq> QUOTE then None
        else
          (case parseString r of
             None \<Rightarrow> None
           | Some (k, r1) \<Rightarrow>
             (case skipSpace r1 of
                [] \<Rightarrow> None
              | c1 # r2 \<Rightarrow>
                if c1 \<noteq> CHR '':'' then None
                else
                  (case parseValue n r2 of
                     None \<Rightarrow> None
                   | Some (v, r3) \<Rightarrow>
                     (case skipSpace r3 of
                        [] \<Rightarrow> None
                      | c2 # r4 \<Rightarrow>
                        if c2 = CHR '','' then map_option (\<lambda>(kvs, r5). ((k, v) # kvs, r5)) (parseMembers n r4)
                        else if c2 = CHR ''}'' then Some ([(k, v)], r4) else None)))))"

definition jsonParse :: "string \<Rightarrow> JsonValue option" where
  "jsonParse s =
     (case parseValue (Suc (length s)) s of
        Some (v, r) \<Rightarrow> if skipSpace r = [] then Some v else None
      | None \<Rightarrow> None)"

end
