(* ===== verification/Json_Roundtrip.thy ===== *)
theory Json_Roundtrip
  imports Json_Text
begin

text \<open>
  \<open>JSON.parse\<close> reads back what \<open>JSON.stringify\<close> writes, so two values have the same text only if
  they are equal: for values whose numbers are integers below \<open>10^21\<close> and whose objects have
  distinct keys, as every object of the language has.
\<close>

definition integral :: "rat \<Rightarrow> bool" where
  "integral q \<longleftrightarrow> snd (quotient_of q) = 1 \<and> \<bar>fst (quotient_of q)\<bar> < 10 ^ 21"

fun plainJson :: "JsonValue \<Rightarrow> bool" where
  "plainJson (JNumber q) \<longleftrightarrow> integral q"
| "plainJson (JArray vs) \<longleftrightarrow> list_all plainJson vs"
| "plainJson (JObject kvs) \<longleftrightarrow> keys_distinct kvs \<and> list_all (\<lambda>kv. plainJson (snd kv)) kvs"
| "plainJson _ \<longleftrightarrow> True"

section \<open>Numbers\<close>

lemma natText_digits: "list_all isDigit (natText n)"
proof (induction n rule: natText.induct)
  case (1 n)
  then show ?case by (subst natText.simps) (auto simp: digitChar_isDigit)
qed

lemma natText_not_Nil [simp]: "natText n \<noteq> []"
  by (subst natText.simps) simp

lemma natText_value: "digitsValue (natText n) = int n"
proof (induction n rule: natText.induct)
  case (1 n)
  show ?case
  proof (cases "n < 10")
    case True
    then show ?thesis by (subst natText.simps) (simp add: digitsValue_def digitChar_value)
  next
    case False
    with 1 have "digitsValue (natText (n div 10)) = int (n div 10)" by simp
    then show ?thesis
      using False div_mult_mod_eq[of "int n" 10]
      by (subst natText.simps) (simp add: digitsValue_snoc digitChar_value of_nat_div of_nat_mod)
  qed
qed

lemma digitChar_zero: "0 \<le> d \<Longrightarrow> d \<le> 9 \<Longrightarrow> digitChar d = CHR ''0'' \<Longrightarrow> d = 0"
  using digitChar_value[of d] by (simp add: digitValue_def)

lemma natText_leading: "n \<noteq> 0 \<Longrightarrow> hd (natText n) \<noteq> CHR ''0''"
proof (induction n rule: natText.induct)
  case (1 n)
  then show ?case
    by (subst natText.simps) (auto dest: digitChar_zero[of "int n", rotated 2])
qed

lemma natText_zero: "natText 0 = ''0''"
proof -
  have "digitChar 0 = CHR ''0''" by code_simp
  then show ?thesis by (subst natText.simps) simp
qed

definition delimited :: "string \<Rightarrow> bool" where
  "delimited r \<longleftrightarrow> r = [] \<or> hd r \<in> {CHR '','', CHR '']'', CHR ''}''}"

lemma takeWhile_digits:
  assumes "list_all isDigit ds" and "delimited r"
  shows "takeWhile isDigit (ds @ r) = ds" "dropWhile isDigit (ds @ r) = r"
  using assms by (induction ds; cases r; auto simp: delimited_def isDigit_def)+

lemma parseUnsigned_natText:
  assumes "delimited r"
  shows "parseUnsigned (natText n @ r) = Some (of_nat n, r)"
proof -
  note tw = takeWhile_digits[OF natText_digits assms]
  have "length (natText n) > 1 \<Longrightarrow> hd (natText n) \<noteq> CHR ''0''"
    by (cases "n = 0") (auto simp: natText_zero natText_leading)
  moreover have "parseFraction r = Some (0, r)" "parseExponent r = Some (1, r)"
    using assms by (cases r; auto simp: parseFraction_def parseExponent_def delimited_def)+
  ultimately show ?thesis by (simp add: parseUnsigned_def tw natOf_def natText_value Let_def)
qed

lemma isDigit_minus: "isDigit c \<Longrightarrow> c \<noteq> CHR ''-''"
  by (auto simp: isDigit_def)

lemma natText_Cons: obtains c cs where "natText n = c # cs" "isDigit c"
  using natText_digits[of n] by (cases "natText n") auto

lemma parseNumber_intText: "delimited r \<Longrightarrow> parseNumber (intText i @ r) = Some (of_int i, r)"
proof (cases "i < 0")
  case True
  then have "rat_of_nat (nat (- i)) = - of_int i" by (simp flip: of_int_minus add: of_nat_nat)
  moreover assume "delimited r"
  ultimately show ?thesis using True by (simp add: parseNumber_def intText_def parseUnsigned_natText)
next
  case False
  obtain c cs where c: "natText (nat i) = c # cs" "isDigit c" by (rule natText_Cons)
  assume "delimited r"
  with parseUnsigned_natText[of r "nat i"] c False show ?thesis
    by (simp add: parseNumber_def intText_def isDigit_minus of_nat_nat)
qed

lemma numberText_integral:
  assumes "integral q"
  obtains i where "numberText numText q = intText i" "q = of_int i"
proof
  show "numberText numText q = intText (fst (quotient_of q))"
    using assms by (simp add: numberText_def integral_def split_beta)
  show "q = of_int (fst (quotient_of q))"
    using assms quotient_of_div[of q "fst (quotient_of q)" 1]
    by (simp add: integral_def prod_eq_iff)
qed

section \<open>Strings\<close>

lemma hexValue_hexChar: "n < 16 \<Longrightarrow> hexValue (hexChar n) = Some n"
  by (simp add: hexValue_def hexChar_def Let_def)

lemma parseString_escapeChar: "parseString (escapeChar c @ r) = consChar (Some c) (parseString r)"
proof (cases "(of_char c :: nat) < 32 \<and> c \<notin> {CHR 0x08, CHR 0x09, CHR 0x0A, CHR 0x0C, CHR 0x0D}")
  case True
  have "(of_char QUOTE :: nat) = 34" "(of_char BACKSLASH :: nat) = 92"
    by (simp_all add: QUOTE_def BACKSLASH_def)
  with True have special: "c \<noteq> QUOTE" "c \<noteq> BACKSLASH" by auto
  from True have c: "escapeChar c = [BACKSLASH, CHR ''u'', CHR ''0'', CHR ''0'',
      hexChar (of_char c div 16), hexChar (of_char c mod 16)]"
    using special by (simp add: escapeChar_def)
  have "hexValue (hexChar (of_char c div 16)) = Some (of_char c div 16)"
    "hexValue (hexChar (of_char c mod 16)) = Some (of_char c mod 16)"
    using True by (intro hexValue_hexChar; simp)+
  moreover have "hexValue (CHR ''0'') = Some 0" by (simp add: hexValue_def)
  ultimately have "unicodeChar (CHR ''0'') (CHR ''0'') (hexChar (of_char c div 16)) (hexChar (of_char c mod 16)) = Some c"
    by (simp add: unicodeChar_def)
  then show ?thesis by (simp add: c QUOTE_def BACKSLASH_def)
next
  case False
  then show ?thesis
    by (auto simp: escapeChar_def QUOTE_def BACKSLASH_def escapedChar_def)
qed

lemma parseString_jsonString:
  "parseString (concat (map escapeChar s) @ QUOTE # r) = Some (s, r)"
  by (induction s) (simp_all add: parseString_escapeChar consChar_def del: parseString.simps(2), simp)

section \<open>Values\<close>

text \<open>A text starts with a character that is neither a space nor one that closes a structure.\<close>

definition startsValue :: "string \<Rightarrow> bool" where
  "startsValue s \<longleftrightarrow> s \<noteq> [] \<and> \<not> isJsonSpace (hd s) \<and> hd s \<noteq> CHR '']'' \<and> hd s \<noteq> CHR ''}''"

lemma isDigit_not: "isDigit c \<Longrightarrow> c \<notin> {CHR ''n'', CHR ''t'', CHR ''f'', QUOTE, CHR ''['', CHR ''{'', CHR '']'', CHR ''}''} \<and>
    \<not> isJsonSpace c"
  by (auto simp: isDigit_def QUOTE_def isJsonSpace_def)

lemma numeric_minus: "CHR ''-'' \<notin> {CHR ''n'', CHR ''t'', CHR ''f'', QUOTE, CHR ''['', CHR ''{''}"
  "\<not> isJsonSpace (CHR ''-'')"
  by (simp_all add: QUOTE_def isJsonSpace_def)

lemma intText_Cons: obtains c cs where "intText i = c # cs" "isDigit c \<or> c = CHR ''-''"
proof (cases "i < 0")
  case True
  then show ?thesis by (intro that[of "CHR ''-''"]) (simp_all add: intText_def)
next
  case False
  then show ?thesis by (cases rule: natText_Cons[of "nat i"]) (auto simp: intText_def intro: that)
qed

lemma startsValue_append: "startsValue s \<Longrightarrow> startsValue (s @ r)"
  by (auto simp: startsValue_def)

lemma skipSpace_starts: "startsValue s \<Longrightarrow> skipSpace s = s"
  by (cases s) (auto simp: startsValue_def)

lemma jsonString_starts: "startsValue (jsonString s)"
  by (simp add: startsValue_def jsonString_def QUOTE_def isJsonSpace_def)

lemma jsonText_starts: "plainJson v \<Longrightarrow> startsValue (jsonText numText v)"
proof (cases v)
  case (JNumber q)
  assume "plainJson v"
  with JNumber obtain i where i: "jsonText numText v = intText i"
    by (auto elim: numberText_integral)
  obtain c cs where c: "intText i = c # cs" "isDigit c \<or> c = CHR ''-''" by (rule intText_Cons)
  have "\<not> isJsonSpace (CHR ''-'')" by (simp add: isJsonSpace_def)
  with c(2) isDigit_not[of c] have "\<not> isJsonSpace c \<and> c \<noteq> CHR '']'' \<and> c \<noteq> CHR ''}''" by auto
  then show ?thesis by (simp add: startsValue_def i c(1))
qed (auto simp: startsValue_def isJsonSpace_def jsonString_def QUOTE_def)

lemma joinComma_Cons: "ss \<noteq> [] \<Longrightarrow> joinComma (s # ss) = s @ CHR '','' # joinComma ss"
  by (cases ss) simp_all

lemma delimited_simps [simp]: "delimited []" "delimited (CHR '','' # r)" "delimited (CHR '']'' # r)"
  "delimited (CHR ''}'' # r)"
  by (simp_all add: delimited_def)

text \<open>Reading a printed value returns it and what follows; the induction step of the theorem.\<close>

definition readsBack :: "(rat \<Rightarrow> string) \<Rightarrow> JsonValue \<Rightarrow> bool" where
  "readsBack numText v \<longleftrightarrow>
     (\<forall>n r. delimited r \<longrightarrow> length (jsonText numText v) \<le> n \<longrightarrow>
        parseValue n (jsonText numText v @ r) = Some (v, r))"

lemma isJsonSpace_simps [simp]:
  "\<not> isJsonSpace (CHR '','')" "\<not> isJsonSpace (CHR '':'')" "\<not> isJsonSpace (CHR '']'')"
  "\<not> isJsonSpace (CHR ''}'')" "\<not> isJsonSpace QUOTE"
  by (simp_all add: isJsonSpace_def QUOTE_def)

lemma parseElements_joinComma:
  assumes "vs \<noteq> []" and "\<forall>v \<in> set vs. readsBack numText v"
    and "length (joinComma (map (jsonText numText) vs)) < n"
  shows "parseElements n (joinComma (map (jsonText numText) vs) @ CHR '']'' # r) = Some (vs, r)"
  using assms
proof (induction vs arbitrary: n)
  case (Cons v vs)
  from Cons.prems(3) obtain m where n: "n = Suc m" by (cases n) auto
  show ?case
  proof (cases "vs = []")
    case True
    with Cons.prems n have "parseValue m (jsonText numText v @ CHR '']'' # r) = Some (v, CHR '']'' # r)"
      by (simp add: readsBack_def)
    with True show ?thesis by (simp add: n)
  next
    case False
    let ?rest = "joinComma (map (jsonText numText) vs) @ CHR '']'' # r"
    from Cons.prems False n have "parseValue m (jsonText numText v @ CHR '','' # ?rest) = Some (v, CHR '','' # ?rest)"
      by (simp add: readsBack_def joinComma_Cons)
    moreover from Cons.prems False n have "parseElements m ?rest = Some (vs, r)"
      by (intro Cons.IH) (simp_all add: joinComma_Cons)
    ultimately show ?thesis using False by (simp add: n joinComma_Cons)
  qed
qed simp

abbreviation memberText :: "(rat \<Rightarrow> string) \<Rightarrow> string \<times> JsonValue \<Rightarrow> string" where
  "memberText numText kv \<equiv> jsonString (fst kv) @ CHR '':'' # jsonText numText (snd kv)"

lemma parseMembers_joinComma:
  assumes "kvs \<noteq> []" and "\<forall>kv \<in> set kvs. readsBack numText (snd kv)"
    and "length (joinComma (map (memberText numText) kvs)) < n"
  shows "parseMembers n (joinComma (map (memberText numText) kvs) @ CHR ''}'' # r) = Some (kvs, r)"
  using assms
proof (induction kvs arbitrary: n)
  case (Cons kv kvs)
  from Cons.prems(3) obtain m where n: "n = Suc m" by (cases n) auto
  obtain k v where kv: "kv = (k, v)" by (cases kv)
  show ?case
  proof (cases "kvs = []")
    case True
    with Cons.prems n have "parseValue m (jsonText numText v @ CHR ''}'' # r) = Some (v, CHR ''}'' # r)"
      by (simp add: readsBack_def kv)
    with True show ?thesis by (simp add: n kv jsonString_def parseString_jsonString)
  next
    case False
    let ?rest = "joinComma (map (memberText numText) kvs) @ CHR ''}'' # r"
    from Cons.prems False n have "parseValue m (jsonText numText v @ CHR '','' # ?rest) = Some (v, CHR '','' # ?rest)"
      by (simp add: readsBack_def joinComma_Cons kv)
    moreover from Cons.prems False n have "parseMembers m ?rest = Some (kvs, r)"
      by (intro Cons.IH) (simp_all add: joinComma_Cons kv)
    ultimately show ?thesis
      using False by (simp add: n joinComma_Cons kv jsonString_def parseString_jsonString)
  qed
qed simp

lemma objectOf_append:
  "keys_distinct (kvs @ kvs') \<Longrightarrow> foldl (\<lambda>acc kv. mapSet (fst kv) (snd kv) acc) kvs kvs' = kvs @ kvs'"
proof (induction kvs' arbitrary: kvs)
  case (Cons kv kvs')
  have "mapSet k v kvs = kvs @ [(k, v)]" if "k \<notin> fst ` set kvs" for k and v :: 'b and kvs :: "('a \<times> 'b) list"
    using that by (induction kvs) auto
  with Cons.prems have "mapSet (fst kv) (snd kv) kvs = kvs @ [kv]" by auto
  with Cons.IH[of "kvs @ [kv]"] Cons.prems show ?case by simp
qed simp

lemma objectOf_distinct: "keys_distinct kvs \<Longrightarrow> objectOf kvs = kvs"
  using objectOf_append[of "[]" kvs] by (simp add: objectOf_def)

lemma joinComma_starts: "ss \<noteq> [] \<Longrightarrow> startsValue (hd ss) \<Longrightarrow> startsValue (joinComma ss @ r)"
  by (cases ss rule: joinComma.cases) (simp_all add: startsValue_append)

lemma startsValue_take: "startsValue s \<Longrightarrow> take 1 s \<noteq> '']'' \<and> take 1 s \<noteq> ''}''"
  by (cases s) (auto simp: startsValue_def)

lemma plainJson_readsBack: "plainJson v \<Longrightarrow> readsBack numText v"
proof (induction v)
  case (JNumber q)
  then obtain i where i: "numberText numText q = intText i" "q = of_int i"
    by (auto elim: numberText_integral)
  obtain c cs where c: "intText i = c # cs" "isDigit c \<or> c = CHR ''-''" by (rule intText_Cons)
  from c(2) have "c \<notin> {CHR ''n'', CHR ''t'', CHR ''f'', QUOTE, CHR ''['', CHR ''{''} \<and> \<not> isJsonSpace c"
  proof (elim disjE)
    assume "isDigit c"
    from isDigit_not[OF this] show ?thesis by simp
  next
    assume "c = CHR ''-''"
    then show ?thesis using numeric_minus by simp
  qed
  then have "c \<notin> {CHR ''n'', CHR ''t'', CHR ''f'', QUOTE, CHR ''['', CHR ''{''}" "\<not> isJsonSpace c" by simp_all
  then show ?case
    unfolding readsBack_def
  proof (intro allI impI)
    fix n r assume r: "delimited r" "length (jsonText numText (JNumber q)) \<le> n"
    then obtain m where n: "n = Suc m" using i c by (cases n) auto
    from parseNumber_intText[OF r(1), of i] show "parseValue n (jsonText numText (JNumber q) @ r) = Some (JNumber q, r)"
      using \<open>c \<notin> _\<close> \<open>\<not> isJsonSpace c\<close> by (simp add: n i(1)[unfolded i(2)] i(2) c(1))
  qed
next
  case (JArray vs)
  then have vs: "\<forall>v \<in> set vs. readsBack numText v" "vs \<noteq> [] \<Longrightarrow> plainJson (hd vs)"
    by (auto simp: list_all_iff)
  show ?case
    unfolding readsBack_def
  proof (intro allI impI)
    fix n r assume r: "delimited r" "length (jsonText numText (JArray vs)) \<le> n"
    then obtain m where n: "n = Suc m" by (cases n) auto
    show "parseValue n (jsonText numText (JArray vs) @ r) = Some (JArray vs, r)"
    proof (cases "vs = []")
      case True
      then show ?thesis by (simp add: n isJsonSpace_def QUOTE_def)
    next
      case False
      let ?s = "joinComma (map (jsonText numText) vs) @ CHR '']'' # r"
      have "startsValue ?s"
        using False vs(2) by (intro joinComma_starts) (simp_all add: hd_map jsonText_starts)
      from skipSpace_starts[OF this] startsValue_take[OF this] parseElements_joinComma[OF False vs(1), of m r] r(2)
      show ?thesis by (simp add: n isJsonSpace_def[of "CHR ''[''"] QUOTE_def)
    qed
  qed
next
  case (JObject kvs)
  then have kvs: "\<forall>kv \<in> set kvs. readsBack numText (snd kv)" "keys_distinct kvs"
    by (auto simp: list_all_iff)
  show ?case
    unfolding readsBack_def
  proof (intro allI impI)
    fix n r assume r: "delimited r" "length (jsonText numText (JObject kvs)) \<le> n"
    then obtain m where n: "n = Suc m" by (cases n) auto
    show "parseValue n (jsonText numText (JObject kvs) @ r) = Some (JObject kvs, r)"
    proof (cases "kvs = []")
      case True
      then show ?thesis by (simp add: n isJsonSpace_def QUOTE_def objectOf_def)
    next
      case False
      let ?s = "joinComma (map (memberText numText) kvs) @ CHR ''}'' # r"
      have "startsValue ?s"
        using False by (intro joinComma_starts) (simp_all add: hd_map startsValue_append jsonString_starts)
      from skipSpace_starts[OF this] startsValue_take[OF this] parseMembers_joinComma[OF False kvs(1), of m r] r(2)
      show ?thesis by (simp add: n isJsonSpace_def[of "CHR ''{''"] QUOTE_def objectOf_distinct[OF kvs(2)])
    qed
  qed
next
  case (JString s)
  show ?case
    unfolding readsBack_def
  proof (intro allI impI)
    fix n r assume "delimited r" "length (jsonText numText (JString s)) \<le> n"
    then obtain m where n: "n = Suc m" by (cases n) (auto simp: jsonString_def)
    have "QUOTE \<notin> {CHR ''n'', CHR ''t'', CHR ''f''}" by (simp add: QUOTE_def)
    then show "parseValue n (jsonText numText (JString s) @ r) = Some (JString s, r)"
      by (simp add: n jsonString_def parseString_jsonString)
  qed
next
  case JNull
  show ?case
    unfolding readsBack_def
  proof (intro allI impI)
    fix n r assume "delimited r" "length (jsonText numText JNull) \<le> n"
    then obtain m where "n = Suc m" by (cases n) auto
    then show "parseValue n (jsonText numText JNull @ r) = Some (JNull, r)"
      by (simp add: isJsonSpace_def parseLiteral_def)
  qed
next
  case (JBool b)
  show ?case
    unfolding readsBack_def
  proof (intro allI impI)
    fix n r assume "delimited r" "length (jsonText numText (JBool b)) \<le> n"
    then obtain m where "n = Suc m" by (cases n; cases b) auto
    then show "parseValue n (jsonText numText (JBool b) @ r) = Some (JBool b, r)"
      by (cases b) (simp_all add: isJsonSpace_def parseLiteral_def)
  qed
qed

text \<open>The round trip.\<close>

lemma jsonParse_jsonText: "plainJson v \<Longrightarrow> jsonParse (jsonText numText v) = Some v"
proof -
  assume "plainJson v"
  from plainJson_readsBack[OF this, of numText]
  have "parseValue (Suc (length (jsonText numText v))) (jsonText numText v @ []) = Some (v, [])"
    by (simp add: readsBack_def del: parseValue.simps append_Nil2)
  then show ?thesis by (simp add: jsonParse_def del: parseValue.simps)
qed

lemma jsonText_inject:
  "plainJson v \<Longrightarrow> plainJson w \<Longrightarrow> jsonText numText v = jsonText numText w \<longleftrightarrow> v = w"
  by (metis jsonParse_jsonText option.inject)

end
