(* ===== verification/Fingerprint.thy ===== *)
theory Fingerprint
  imports Json_Roundtrip "HOL-Library.Multiset" "HOL-Library.Char_ord" "HOL-Library.List_Lexorder"
begin

text \<open>
  The identity of a mutation request (\<open>packages/eve-agent-builder/extension/lib/service.ts\<close>):
  \<open>canonicalJson\<close>, a JSON text in which the members of every object are sorted by key, and
  \<open>fingerprintMutationRequest\<close>, its hash. A value of the datatype is finite, acyclic and has no
  \<open>undefined\<close> member, so of the exceptions of the code only the bound on the length remains.
  SHA-256 over the UTF-8 text (64 hexadecimal digits) is the argument \<open>sha256\<close> of a \<open>texts\<close>
  record, beside the texts of numbers that are not integers.
\<close>

record texts =
  sha256Text :: "string \<Rightarrow> string"
  otherNumberText :: "rat \<Rightarrow> string"

function canonicalJson :: "texts \<Rightarrow> JsonValue \<Rightarrow> string" where
  "canonicalJson x JNull = ''null''"
| "canonicalJson x (JBool b) = jsonText (otherNumberText x) (JBool b)"
| "canonicalJson x (JNumber q) = numberText (otherNumberText x) q"
| "canonicalJson x (JString s) = jsonString s"
| "canonicalJson x (JArray vs) = ''['' @ joinComma (map (canonicalJson x) vs) @ '']''"
| "canonicalJson x (JObject kvs) =
     ''{'' @ joinComma (map (\<lambda>kv. jsonString (fst kv) @ '':'' @ canonicalJson x (snd kv))
                         (sort_key fst kvs)) @ ''}''"
  by pat_completeness auto

termination
proof (relation "measure (\<lambda>(x, v). jsonNodes v)")
  fix x :: texts and vs :: "JsonValue list" and v
  assume "v \<in> set vs"
  then show "((x, v), (x, JArray vs)) \<in> measure (\<lambda>(x, v). jsonNodes v)"
    by (simp add: member_le_sum_list le_imp_less_Suc)
next
  fix x :: texts and kvs :: "(string \<times> JsonValue) list" and kv
  assume "kv \<in> set (sort_key fst kvs)"
  then have "jsonNodes (snd kv) \<le> sum_list (map (\<lambda>kv. jsonNodes (snd kv)) kvs)"
    by (auto intro!: member_le_sum_list)
  then show "((x, snd kv), (x, JObject kvs)) \<in> measure (\<lambda>(x, v). jsonNodes v)"
    by (simp add: le_imp_less_Suc)
qed simp

definition MAX_CANONICAL_LENGTH :: nat where
  "MAX_CANONICAL_LENGTH = 256000"

definition fingerprintMutationRequest :: "texts \<Rightarrow> JsonValue \<Rightarrow> string option" where
  "fingerprintMutationRequest x value =
     (let canonical = ''eve-agent-builder-mutation-v1:'' @ canonicalJson x value
      in if length canonical > MAX_CANONICAL_LENGTH then None
         else Some (''sha256:'' @ sha256Text x canonical))"

section \<open>What the canonical text identifies\<close>

text \<open>A value up to the order of the members of its objects.\<close>

function sortMembers :: "JsonValue \<Rightarrow> JsonValue" where
  "sortMembers (JArray vs) = JArray (map sortMembers vs)"
| "sortMembers (JObject kvs) = JObject (map (\<lambda>kv. (fst kv, sortMembers (snd kv))) (sort_key fst kvs))"
| "sortMembers JNull = JNull"
| "sortMembers (JBool b) = JBool b"
| "sortMembers (JNumber q) = JNumber q"
| "sortMembers (JString s) = JString s"
  by pat_completeness auto

termination
proof (relation "measure jsonNodes")
  fix vs :: "JsonValue list" and v
  assume "v \<in> set vs"
  then show "(v, JArray vs) \<in> measure jsonNodes" by (simp add: member_le_sum_list le_imp_less_Suc)
next
  fix kvs :: "(string \<times> JsonValue) list" and kv
  assume "kv \<in> set (sort_key fst kvs)"
  then have "jsonNodes (snd kv) \<le> sum_list (map (\<lambda>kv. jsonNodes (snd kv)) kvs)"
    by (auto intro!: member_le_sum_list)
  then show "(snd kv, JObject kvs) \<in> measure jsonNodes" by (simp add: le_imp_less_Suc)
qed simp

lemma canonicalJson_sorted: "canonicalJson x v = jsonText (otherNumberText x) (sortMembers v)"
proof (induction x v rule: canonicalJson.induct)
  case (5 x vs)
  then show ?case by (auto intro!: arg_cong[of _ _ joinComma])
next
  case (6 x kvs)
  then show ?case by (auto intro!: arg_cong[of _ _ joinComma])
qed simp_all

lemma distinct_sort_key: "distinct (map f xs) \<Longrightarrow> distinct (map f (sort_key g xs))"
  by (simp add: distinct_map)

lemma plainJson_sortMembers: "plainJson v \<Longrightarrow> plainJson (sortMembers v)"
proof (induction v rule: sortMembers.induct)
  case (2 kvs)
  then show ?case by (auto simp: list_all_iff comp_def intro: distinct_sort_key)
qed (auto simp: list_all_iff)

lemma canonicalJson_eq_iff:
  "plainJson v \<Longrightarrow> plainJson w \<Longrightarrow>
     canonicalJson x v = canonicalJson x w \<longleftrightarrow> sortMembers v = sortMembers w"
  by (simp add: canonicalJson_sorted jsonText_inject plainJson_sortMembers)

text \<open>The order in which the members of an object were given does not matter.\<close>

lemma sort_key_permuted:
  assumes "mset kvs = mset kvs'" and "keys_distinct kvs"
  shows "sort_key fst kvs = sort_key fst kvs'"
  using assms by (intro sort_key_eq_sort_key) (simp_all add: distinct_map)

lemma canonicalJson_permuted:
  "mset kvs = mset kvs' \<Longrightarrow> keys_distinct kvs \<Longrightarrow> canonicalJson x (JObject kvs) = canonicalJson x (JObject kvs')"
  by (simp add: sort_key_permuted)

end
