(* ===== verification/Encoding.thy ===== *)
theory Encoding
  imports Fingerprint "HOL-Library.Word"
begin

text \<open>
  Byte encodings of the language's library (\<open>Buffer\<close>, \<open>TextEncoder\<close>): UTF-8 for the characters
  below 256, and base64url, with their decoders. The base64url decoder ignores characters outside
  the alphabet; the UTF-8 decoder gives \<open>None\<close> for every other byte sequence, whose text has
  characters that \<open>char\<close> does not represent. Decoding inverts encoding.
\<close>

type_synonym byte = "8 word"

section \<open>base64url\<close>

definition BASE64URL :: string where
  "BASE64URL = ''ABCDEFGHIJKLMNOPQRSTUVWXYZabcdefghijklmnopqrstuvwxyz0123456789-_''"

definition sextet :: "nat \<Rightarrow> char" where
  "sextet n = BASE64URL ! (n mod 64)"

fun base64url :: "byte list \<Rightarrow> string" where
  "base64url [] = []"
| "base64url [a] = [sextet (unat a div 4), sextet (unat a * 16)]"
| "base64url [a, b] =
     [sextet (unat a div 4), sextet (unat a * 16 + unat b div 16), sextet (unat b * 4)]"
| "base64url (a # b # c # bs) =
     [sextet (unat a div 4), sextet (unat a * 16 + unat b div 16),
      sextet (unat b * 4 + unat c div 64), sextet (unat c)] @ base64url bs"

fun sextetValue :: "char \<Rightarrow> string \<Rightarrow> nat \<Rightarrow> nat option" where
  "sextetValue c [] n = None"
| "sextetValue c (a # as) n = (if c = a then Some n else sextetValue c as (n + 1))"

fun decodeSextets :: "nat list \<Rightarrow> byte list" where
  "decodeSextets (a # b # c # d # rest) =
     [of_nat (a * 4 + b div 16), of_nat (b * 16 + c div 4), of_nat (c * 64 + d)] @ decodeSextets rest"
| "decodeSextets [a, b, c] = [of_nat (a * 4 + b div 16), of_nat (b * 16 + c div 4)]"
| "decodeSextets [a, b] = [of_nat (a * 4 + b div 16)]"
| "decodeSextets _ = []"

definition base64urlDecode :: "string \<Rightarrow> byte list" where
  "base64urlDecode s =
     decodeSextets (concat (map (\<lambda>c. case sextetValue c BASE64URL 0 of None \<Rightarrow> [] | Some n \<Rightarrow> [n]) s))"

lemma length_BASE64URL [simp]: "length BASE64URL = 64"
  by (simp add: BASE64URL_def)

lemma distinct_BASE64URL: "distinct BASE64URL"
  by code_simp

lemma length_base64url: "length (base64url bs) = (4 * length bs + 2) div 3"
  by (induction bs rule: base64url.induct) simp_all

lemma sextet_alphabet: "sextet n \<in> set BASE64URL"
  unfolding sextet_def by (rule nth_mem) simp

lemma base64url_alphabet: "list_all (\<lambda>c. c \<in> set BASE64URL) (base64url bs)"
  by (induction bs rule: base64url.induct) (simp_all add: sextet_alphabet)

lemma sextetValue_nth: "distinct s \<Longrightarrow> i < length s \<Longrightarrow> sextetValue (s ! i) s n = Some (n + i)"
proof (induction s arbitrary: n i)
  case (Cons a s)
  then show ?case by (cases i) auto
qed simp

lemma sextetValue_sextet: "sextetValue (sextet n) BASE64URL 0 = Some (n mod 64)"
  using sextetValue_nth[OF distinct_BASE64URL, of "n mod 64" 0] by (simp add: sextet_def)

text \<open>The bits of a sextet, for bytes split where the sextets split them.\<close>

lemma sextet_bits:
  fixes x y u v p q :: nat
  assumes "x < 64" "y < 4" "u < 16" "v < 16" "p < 4" "q < 64"
  shows "((4 * x + y) div 4) mod 64 = x" "(4 * x + y) * 16 mod 64 = 16 * y"
    "((4 * x + y) * 16 + (16 * u + v) div 16) mod 64 = 16 * y + u"
    "(16 * u + v) * 4 mod 64 = 4 * v" "((16 * u + v) * 4 + (64 * p + q) div 64) mod 64 = 4 * v + p"
    "(64 * p + q) mod 64 = q"
proof -
  have "(4 * x + y) * 16 = 16 * y + 64 * x" "(16 * u + v) * 4 = 4 * v + 64 * u" by simp_all
  then show "(4 * x + y) * 16 mod 64 = 16 * y" "(16 * u + v) * 4 mod 64 = 4 * v"
    using assms by simp_all
  have "(64 * n + m) mod 64 = m" if "m < 64" for n m :: nat using that by simp
  from this[of "16 * y + u" x] this[of "4 * v + p" u]
  show "((4 * x + y) * 16 + (16 * u + v) div 16) mod 64 = 16 * y + u"
    "((16 * u + v) * 4 + (64 * p + q) div 64) mod 64 = 4 * v + p"
    using assms by (simp_all add: algebra_simps)
qed (use assms in simp_all)

lemma unat_byte: "unat (a :: byte) < 256"
proof -
  have "unat a < 2 ^ LENGTH(8)" by (rule unsigned_less)
  then show ?thesis by simp
qed

lemma word_256 [simp]: "(of_nat (256 * n + m) :: byte) = of_nat m"
proof -
  have "(256 :: byte) = 0" by transfer (simp add: take_bit_eq_mod)
  then show ?thesis
    by (simp only: of_nat_add of_nat_mult of_nat_numeral mult_zero_left add_0)
qed

lemma decode_parts:
  fixes a b c :: byte
  defines "s1 \<equiv> unat a div 4 mod 64" and "s2 \<equiv> (unat a * 16 + unat b div 16) mod 64"
    and "s3 \<equiv> (unat b * 4 + unat c div 64) mod 64" and "s4 \<equiv> unat c mod 64"
  shows "(of_nat (s1 * 4 + s2 div 16) :: byte) = a" "(of_nat (s2 * 16 + s3 div 4) :: byte) = b"
    "(of_nat (s3 * 64 + s4) :: byte) = c"
    "(of_nat (s1 * 4 + unat a * 16 mod 64 div 16) :: byte) = a"
    "(of_nat (s2 * 16 + unat b * 4 mod 64 div 4) :: byte) = b"
proof -
  define x y u v p q where "x = unat a div 4" and "y = unat a mod 4" and "u = unat b div 16"
    and "v = unat b mod 16" and "p = unat c div 64" and "q = unat c mod 64"
  have abc: "unat a = 4 * x + y" "unat b = 16 * u + v" "unat c = 64 * p + q"
    by (simp_all add: x_def y_def u_def v_def p_def q_def)
  have bounds: "x < 64" "y < 4" "u < 16" "v < 16" "p < 4" "q < 64"
    using unat_byte[of a] unat_byte[of b] unat_byte[of c]
    by (simp_all add: x_def y_def u_def v_def p_def q_def)
  note bits = sextet_bits[OF bounds]
  have words: "(of_nat (4 * x + y) :: byte) = a" "(of_nat (16 * u + v) :: byte) = b" "(of_nat (64 * p + q) :: byte) = c"
    by (simp_all flip: abc)
  have s: "s1 = x" "s2 = 16 * y + u" "s3 = 4 * v + p" "s4 = q"
    unfolding s1_def s2_def s3_def s4_def abc by (rule bits)+
  have sums: "x * 4 + (16 * y + u) div 16 = 4 * x + y" "x * 4 + 16 * y div 16 = 4 * x + y"
    "(16 * y + u) * 16 + (4 * v + p) div 4 = 256 * y + (16 * u + v)"
    "(16 * y + u) * 16 + 4 * v div 4 = 256 * y + (16 * u + v)"
    "(4 * v + p) * 64 + q = 256 * v + (64 * p + q)"
    using bounds by simp_all
  show "(of_nat (s1 * 4 + s2 div 16) :: byte) = a" "(of_nat (s2 * 16 + s3 div 4) :: byte) = b"
    "(of_nat (s3 * 64 + s4) :: byte) = c"
    unfolding s sums word_256 by (rule words)+
  show "(of_nat (s1 * 4 + unat a * 16 mod 64 div 16) :: byte) = a"
    "(of_nat (s2 * 16 + unat b * 4 mod 64 div 4) :: byte) = b"
    unfolding s abc bits sums word_256 by (rule words)+
qed

lemma base64urlDecode_base64url: "base64urlDecode (base64url bs) = bs"
  unfolding base64urlDecode_def
proof (induction bs rule: base64url.induct)
  case (4 a b c bs)
  then show ?case using decode_parts(1)[of a b] decode_parts(2)[of a b c] decode_parts(3)[of b c] by (simp add: sextetValue_sextet)
next
  case (3 a b)
  then show ?case using decode_parts(1,5)[of a b] by (simp add: sextetValue_sextet)
next
  case (2 a)
  then show ?case using decode_parts(4)[of a] by (simp add: sextetValue_sextet)
qed simp

section \<open>UTF-8\<close>

definition utf8Char :: "char \<Rightarrow> byte list" where
  "utf8Char c =
     (let n = of_char c :: nat
      in if n < 128 then [of_nat n] else [of_nat (192 + n div 64), of_nat (128 + n mod 64)])"

definition utf8 :: "string \<Rightarrow> byte list" where
  "utf8 s = concat (map utf8Char s)"

fun utf8Decode :: "byte list \<Rightarrow> string option" where
  "utf8Decode [] = Some []"
| "utf8Decode (a # bs) =
     (if unat a < 128 then map_option ((#) (char_of (unat a))) (utf8Decode bs)
      else
        (case bs of
           b # bs' \<Rightarrow>
             if (unat a = 194 \<or> unat a = 195) \<and> 128 \<le> unat b \<and> unat b < 192
             then map_option ((#) (char_of (64 * (unat a - 192) + (unat b - 128)))) (utf8Decode bs')
             else None
         | [] \<Rightarrow> None))"

lemma utf8Decode_utf8: "utf8Decode (utf8 s) = Some s"
proof (induction s)
  case (Cons c s)
  let ?n = "of_char c :: nat"
  have n: "?n < 256" by simp
  have small: "unat (of_nat k :: byte) = k" if "k < 256" for k
    using that by (simp add: unat_of_nat)
  show ?case
  proof (cases "?n < 128")
    case True
    with Cons small[of ?n] show ?thesis by (simp add: utf8_def utf8Char_def)
  next
    case False
    with n have "2 \<le> ?n div 64" by simp
    moreover have "?n div 64 < 4" using n by (intro less_mult_imp_div_less) simp
    ultimately have lead: "?n div 64 = 2 \<or> ?n div 64 = 3" by linarith
    have "128 + ?n mod 64 = ?n" if "?n div 64 = 2" using mult_div_mod_eq[of 64 ?n] that by linarith
    then have two: "?n div 64 = 2 \<Longrightarrow> char_of (128 + ?n mod 64) = c" by (metis char_of_char)
    have "192 + ?n mod 64 = ?n" if "?n div 64 = 3" using mult_div_mod_eq[of 64 ?n] that by linarith
    then have three: "?n div 64 = 3 \<Longrightarrow> char_of (192 + ?n mod 64) = c" by (metis char_of_char)
    from Cons False lead small[of "192 + ?n div 64"] small[of "128 + ?n mod 64"] show ?thesis
      by (auto simp: utf8_def utf8Char_def Let_def two three)
  qed
qed (simp add: utf8_def)

section \<open>Digests\<close>

text \<open>The bytes of a digest given by its hexadecimal digits.\<close>

fun hexBytes :: "string \<Rightarrow> byte list" where
  "hexBytes (a # b # rest) =
     (case (hexValue a, hexValue b) of
        (Some x, Some y) \<Rightarrow> of_nat (16 * x + y) # hexBytes rest
      | _ \<Rightarrow> hexBytes rest)"
| "hexBytes _ = []"

lemma hexBytes_length: "list_all isLowerHex s \<Longrightarrow> length (hexBytes s) = length s div 2"
proof (induction s rule: hexBytes.induct)
  case (1 a b rest)
  have "\<exists>x. hexValue c = Some x" if "isLowerHex c" for c
    using that by (simp add: hexValue_def isLowerHex_def isDigit_def Let_def) linarith
  from this[of a] this[of b] 1 show ?case by auto
qed simp_all

end
