(* ===== verification/Bootstrap_Service.thy ===== *)
theory Bootstrap_Service
  imports Program Encoding
begin

text \<open>
  The bootstrap service (\<open>packages/eve-agent-builder/extension/lib/bootstrap.ts\<close>,
  \<open>BootstrapService\<close>) and the message that carries a token to a child session. The injected
  clock, identifier factory and token source answer with arbitrary values, the members of a
  \<open>BootstrapDependencies\<close> record; SHA-256 is its member \<open>bd_texts\<close>. A rejected promise (an
  exception of \<open>timestampSchema.parse\<close>) is the error \<open>BootstrapThrown\<close>.
\<close>

section \<open>Tokens\<close>

text \<open>The regular expression \<open>/^ab1_[A-Za-z0-9_-]{22,252}$/u\<close>.\<close>

definition bootstrapToken :: "string \<Rightarrow> bool" where
  "bootstrapToken s \<longleftrightarrow>
     take 4 s = ''ab1_'' \<and> 26 \<le> length s \<and> length s \<le> 256 \<and>
     list_all (\<lambda>c. c \<in> set BASE64URL) (drop 4 s)"

definition hashBootstrapToken :: "texts \<Rightarrow> string \<Rightarrow> string" where
  "hashBootstrapToken x token =
     ''sha256:'' @ sha256Text x (''eve-agent-builder-bootstrap-v1:'' @ token)"

section \<open>The message of a child session\<close>

definition formatBootstrapMessage :: "string \<Rightarrow> string" where
  "formatBootstrapMessage token =
     jsonText (\<lambda>_. []) (JObject
       [(''protocolVersion'', JNumber (of_int AGENT_BUILDER_BOOTSTRAP_PROTOCOL_VERSION)),
        (''token'', JString token)])"

definition indexOf :: "string \<Rightarrow> string \<Rightarrow> nat option" where
  "indexOf s p = List.find (\<lambda>i. startsWith (drop i s) p) [0..<Suc (length s)]"

definition lastIndexOf :: "string \<Rightarrow> string \<Rightarrow> nat option" where
  "lastIndexOf s p = List.find (\<lambda>i. startsWith (drop i s) p) (rev [0..<Suc (length s)])"

definition NEWLINE :: string where "NEWLINE = [CHR 0x0A]"

definition callerMessageMarker :: string where
  "callerMessageMarker = ''Caller message:'' @ NEWLINE"

text \<open>
  The regular expression \<open>fixedWrapper\<close>, matched from the start: the text after the match. Each
  class stops at the character that must follow it and the optional line starts with a \<open>D\<close>, so
  there is nothing to backtrack.
\<close>

definition expect :: "string \<Rightarrow> string \<Rightarrow> string option" where
  "expect p s = (if startsWith s p then Some (drop (length p) s) else None)"

definition expectName :: "string \<Rightarrow> string option" where
  "expectName s =
     (let inName = (\<lambda>c. c \<noteq> QUOTE \<and> c \<noteq> CHR 0x0A)
      in if takeWhile inName s = [] then None else expect ([QUOTE] @ ''.'' @ NEWLINE) (dropWhile inName s))"

definition skipDescription :: "string \<Rightarrow> string" where
  "skipDescription s =
     (case expect ''Description: '' s of
        None \<Rightarrow> s
      | Some r \<Rightarrow> (case expect NEWLINE (dropWhile (\<lambda>c. c \<noteq> CHR 0x0A) r) of None \<Rightarrow> s | Some r' \<Rightarrow> r'))"

definition WRAPPER_TASK :: string where
  "WRAPPER_TASK =
     ''The caller delegated the following task to you. Complete it and return the ''"

definition WRAPPER_REPLY :: string where
  "WRAPPER_REPLY =
     ''result directly. The caller may send follow-up messages after you answer.''"

definition WRAPPER_FINAL :: string where
  "WRAPPER_FINAL = ''final result directly.''"

definition fixedWrapper :: "string \<Rightarrow> string option" where
  "fixedWrapper s =
     Option.bind (expect (''You are the subagent '' @ [QUOTE]) s) (\<lambda>s.
     Option.bind (expectName s) (\<lambda>s.
     Option.bind (expect (NEWLINE @ WRAPPER_TASK) (skipDescription s)) (\<lambda>s.
     Option.bind (case expect WRAPPER_REPLY s of Some r \<Rightarrow> Some r | None \<Rightarrow> expect WRAPPER_FINAL s) (\<lambda>s.
     expect (NEWLINE @ NEWLINE @ callerMessageMarker) s))))"

definition tokenOf :: "JsonValue \<Rightarrow> string option" where
  "tokenOf v =
     (case v of
        JObject record \<Rightarrow>
          if length record \<noteq> 2 \<or>
             map_of record ''protocolVersion'' \<noteq>
               Some (JNumber (of_int AGENT_BUILDER_BOOTSTRAP_PROTOCOL_VERSION))
          then None
          else (case map_of record ''token'' of
                  Some (JString token) \<Rightarrow> if bootstrapToken token then Some token else None
                | _ \<Rightarrow> None)
      | _ \<Rightarrow> None)"

definition parseBootstrapMessage :: "string \<Rightarrow> string option" where
  "parseBootstrapMessage message =
     (let candidate =
        (case indexOf message callerMessageMarker of
           None \<Rightarrow> Some message
         | Some firstMarker \<Rightarrow>
             (case fixedWrapper message of
                None \<Rightarrow> None
              | Some r \<Rightarrow>
                if length message - length r \<noteq> firstMarker + length callerMessageMarker \<or>
                   Some firstMarker \<noteq> lastIndexOf message callerMessageMarker
                then None
                else Some (drop (firstMarker + length callerMessageMarker) message)))
      in case candidate of
           None \<Rightarrow> None
         | Some c \<Rightarrow> (case jsonParse (trim c) of None \<Rightarrow> None | Some v \<Rightarrow> tokenOf v))"

section \<open>The service\<close>

datatype BootstrapError =
    BootstrapStore BootstrapStoreErrorCode
  | BOOTSTRAP_INVALID_INPUT
  | BOOTSTRAP_DEPENDENCY_CONTRACT_VIOLATION
  | BOOTSTRAP_REQUIRED
  | REQUIRED_CAPABILITY_UNAVAILABLE string string CapabilityUnavailableReason
  | CAPABILITY_REGISTRY_CONTRACT_VIOLATION
  | BootstrapThrown

type_synonym 'a BootstrapResult = "BootstrapError + 'a"

record BootstrapServiceOptions =
  bs_maxGrantTtlMs :: int
  bs_executionLeaseTtlMs :: int

definition newBootstrapService :: "int option \<Rightarrow> int option \<Rightarrow> BootstrapServiceOptions option" where
  "newBootstrapService maxGrantTtlMs executionLeaseTtlMs =
     (let maxTtl = (case maxGrantTtlMs of None \<Rightarrow> DEFAULT_BOOTSTRAP_GRANT_TTL_MS | Some v \<Rightarrow> v);
          leaseTtl = (case executionLeaseTtlMs of None \<Rightarrow> DEFAULT_EXECUTION_LEASE_TTL_MS | Some v \<Rightarrow> v)
      in if \<not> isSafeInteger maxTtl \<or> maxTtl < 1 \<or> \<not> isSafeInteger leaseTtl \<or> leaseTtl < 1 then None
         else if maxTtl > DEFAULT_BOOTSTRAP_GRANT_TTL_MS then None
         else Some \<lparr>bs_maxGrantTtlMs = maxTtl, bs_executionLeaseTtlMs = leaseTtl\<rparr>)"

text \<open>
  The answers of the dependencies during one call; the token source and the grant identifiers
  are asked once per attempt. \<open>None\<close> stands for bytes that are not a \<open>Uint8Array\<close>.
\<close>

record BootstrapDependencies =
  bd_now :: string
  bd_tokenBytes :: "nat \<Rightarrow> 8 word list option"
  bd_grantId :: "nat \<Rightarrow> string"
  bd_leaseId :: string
  bd_texts :: texts

definition parseNow :: "BootstrapDependencies \<Rightarrow> Timestamp BootstrapResult" where
  "parseNow d =
     (if timestampSchema (bd_now d) then Inr (bd_now d)
      else Inl BOOTSTRAP_DEPENDENCY_CONTRACT_VIOLATION)"

definition validOpaqueId :: "string \<Rightarrow> bool" where
  "validOpaqueId s \<longleftrightarrow> 1 \<le> length s \<and> length s \<le> 512 \<and> NUL \<notin> set s"

record IssueBootstrapGrantInput =
  ii_owner :: OwnerScope
  ii_role :: ExecutionRole
  ii_target :: BootstrapTarget
  ii_workflow :: "BuildExecutionScope option"
  ii_parentSessionId :: string
  ii_parentTurnId :: "string option"
  ii_parentCallId :: "string option"
  ii_ttlMs :: "int option"

definition issueInputSchema :: "IssueBootstrapGrantInput \<Rightarrow> bool" where
  "issueInputSchema i \<longleftrightarrow>
     ownerScopeSchema (ii_owner i) \<and> bootstrapTargetSchema (ii_target i) \<and>
     optionally buildExecutionScopeSchema (ii_workflow i) \<and>
     boundedString 1 512 (ii_parentSessionId i) \<and>
     optionally (boundedString 1 512) (ii_parentTurnId i) \<and>
     optionally (boundedString 1 512) (ii_parentCallId i) \<and>
     optionally (\<lambda>n. isSafeInteger n \<and> n > 0) (ii_ttlMs i)"

record IssuedBootstrapGrant =
  ib_protocolVersion :: int
  ib_token :: string
  ib_role :: ExecutionRole
  ib_target :: BootstrapTarget
  ib_workflow :: "BuildExecutionScope option"
  ib_expiresAt :: Timestamp

fun roleAcceptsTarget :: "ExecutionRole \<Rightarrow> BootstrapTarget \<Rightarrow> bool" where
  "roleAcceptsTarget role (DraftTarget _ _ _) \<longleftrightarrow> role \<noteq> ExActiveRunner"
| "roleAcceptsTarget role (PublishedTarget _ _ _) \<longleftrightarrow> role = ExActiveRunner"

definition targetExists :: "OwnerScope \<Rightarrow> BootstrapTarget \<Rightarrow> bool program" where
  "targetExists ow target = Query (\<lambda>t.
     case getFamily t ow (tgt_agentId target) of
       None \<Rightarrow> Return False
     | Some f \<Rightarrow>
       if fam_lifecycle f = Deleted then Return False
       else
         (case target of
            DraftTarget _ draftId draftRevision \<Rightarrow>
              Return (map_option d_draftId (fam_draft f) = Some draftId \<and>
                map_option d_draftRevision (fam_draft f) = Some draftRevision \<and>
                fam_lifecycle f \<noteq> Archived)
          | PublishedTarget agentId specId specVersion \<Rightarrow>
              if fam_lifecycle f \<noteq> Active then Return False
              else Query (\<lambda>t'.
                Return (getVersion t' ow agentId specId specVersion \<noteq> None \<and>
                  fam_activeSpecId f = Some specId \<and> fam_activeVersion f = Some specVersion))))"

definition grantOf ::
  "IssueBootstrapGrantInput \<Rightarrow> string \<Rightarrow> string \<Rightarrow> Timestamp \<Rightarrow> Timestamp \<Rightarrow> BootstrapGrantRecord" where
  "grantOf i grantId tokenHash now expiresAt =
     \<lparr>gr_grantId = grantId, gr_tokenHash = tokenHash, gr_owner = ii_owner i, gr_role = ii_role i,
      gr_target = ii_target i, gr_workflow = ii_workflow i,
      gr_parentSessionId = ii_parentSessionId i, gr_parentTurnId = ii_parentTurnId i,
      gr_parentCallId = ii_parentCallId i, gr_issuedAt = now, gr_expiresAt = expiresAt,
      gr_redeemedAt = None, gr_childSessionId = None\<rparr>"

definition epochOf :: "Timestamp \<Rightarrow> int" where
  "epochOf s = (case dateParse s of Some e \<Rightarrow> e | None \<Rightarrow> 0)"

definition tokenOfBytes :: "8 word list \<Rightarrow> string" where
  "tokenOfBytes bytes = ''ab1_'' @ base64url bytes"

text \<open>The loop over the remaining attempts; the current attempt has number \<open>3 - n\<close>.\<close>

fun issueAttempts ::
  "BootstrapDependencies \<Rightarrow> IssueBootstrapGrantInput \<Rightarrow> Timestamp \<Rightarrow> int \<Rightarrow> nat \<Rightarrow>
   IssuedBootstrapGrant BootstrapResult program" where
  "issueAttempts d i now ttlMs 0 = Return (Inl BOOTSTRAP_DEPENDENCY_CONTRACT_VIOLATION)"
| "issueAttempts d i now ttlMs (Suc n) =
     (case bd_tokenBytes d (3 - Suc n) of
        None \<Rightarrow> Return (Inl BOOTSTRAP_DEPENDENCY_CONTRACT_VIOLATION)
      | Some tokenBytes \<Rightarrow>
        if length tokenBytes < MINIMUM_BOOTSTRAP_TOKEN_BYTES
        then Return (Inl BOOTSTRAP_DEPENDENCY_CONTRACT_VIOLATION)
        else
          let token = tokenOfBytes tokenBytes;
              tokenHash = hashBootstrapToken (bd_texts d) token;
              grantId = bd_grantId d (3 - Suc n)
          in if \<not> validOpaqueId grantId then Return (Inl BOOTSTRAP_DEPENDENCY_CONTRACT_VIOLATION)
             else
               (case asTimestamp (epochOf now + ttlMs) of
                  None \<Rightarrow> Return (Inl BootstrapThrown)
                | Some expiresAt \<Rightarrow>
                    DoCreateGrant (grantOf i grantId tokenHash now expiresAt) (\<lambda>created.
                      case created of
                        Inr _ \<Rightarrow> Return (Inr
                          \<lparr>ib_protocolVersion = AGENT_BUILDER_BOOTSTRAP_PROTOCOL_VERSION,
                           ib_token = token, ib_role = ii_role i, ib_target = ii_target i,
                           ib_workflow = ii_workflow i, ib_expiresAt = expiresAt\<rparr>)
                      | Inl e \<Rightarrow>
                          if e \<noteq> BOOTSTRAP_STORE_INVARIANT_VIOLATION then Return (Inl (BootstrapStore e))
                          else issueAttempts d i now ttlMs n)))"

definition issue ::
  "BootstrapServiceOptions \<Rightarrow> BootstrapDependencies \<Rightarrow> IssueBootstrapGrantInput \<Rightarrow>
   IssuedBootstrapGrant BootstrapResult program" where
  "issue options d i =
     (if \<not> issueInputSchema i then Return (Inl BOOTSTRAP_INVALID_INPUT)
      else if \<not> roleAcceptsTarget (ii_role i) (ii_target i) then Return (Inl BOOTSTRAP_INVALID_INPUT)
      else andThen (targetExists (ii_owner i) (ii_target i)) (\<lambda>exact.
        if \<not> exact then Return (Inl (BootstrapStore TARGET_CHANGED))
        else
          (case parseNow d of
             Inl e \<Rightarrow> Return (Inl e)
           | Inr now \<Rightarrow>
             let ttlMs = (case ii_ttlMs i of None \<Rightarrow> bs_maxGrantTtlMs options | Some v \<Rightarrow> v)
             in if ttlMs > bs_maxGrantTtlMs options then Return (Inl BOOTSTRAP_INVALID_INPUT)
                else issueAttempts d i now ttlMs 3)))"

record RedeemBootstrapGrantInput =
  ri_token :: string
  ri_owner :: OwnerScope
  ri_role :: ExecutionRole
  ri_expectedTarget :: "BootstrapTarget option"
  ri_expectedWorkflow :: "BuildExecutionScope option"
  ri_parentSessionId :: string
  ri_parentTurnId :: "string option"
  ri_parentCallId :: string
  ri_childSessionId :: string
  ri_bootstrapTurnId :: string

definition redeemInputSchema :: "RedeemBootstrapGrantInput \<Rightarrow> bool" where
  "redeemInputSchema i \<longleftrightarrow>
     boundedString 24 256 (ri_token i) \<and> ownerScopeSchema (ri_owner i) \<and>
     optionally bootstrapTargetSchema (ri_expectedTarget i) \<and>
     optionally buildExecutionScopeSchema (ri_expectedWorkflow i) \<and>
     boundedString 1 512 (ri_parentSessionId i) \<and>
     optionally (boundedString 1 512) (ri_parentTurnId i) \<and>
     boundedString 1 512 (ri_parentCallId i) \<and> boundedString 1 512 (ri_childSessionId i) \<and>
     boundedString 1 512 (ri_bootstrapTurnId i)"

record BootstrapReadyReceipt =
  rr_protocolVersion :: int
  rr_leaseId :: string
  rr_role :: ExecutionRole
  rr_target :: BootstrapTarget
  rr_childSessionId :: string
  rr_expiresAt :: Timestamp

definition redeemCommand ::
  "BootstrapDependencies \<Rightarrow> RedeemBootstrapGrantInput \<Rightarrow> Timestamp \<Rightarrow> Timestamp \<Rightarrow>
   RedeemBootstrapGrantStoreCommand" where
  "redeemCommand d i now leaseExpiresAt =
     \<lparr>rd_tokenHash = hashBootstrapToken (bd_texts d) (ri_token i), rd_owner = ri_owner i,
      rd_role = ri_role i, rd_expectedTarget = ri_expectedTarget i,
      rd_expectedWorkflow = ri_expectedWorkflow i, rd_parentSessionId = ri_parentSessionId i,
      rd_parentTurnId = ri_parentTurnId i, rd_parentCallId = ri_parentCallId i,
      rd_childSessionId = ri_childSessionId i, rd_bootstrapTurnId = ri_bootstrapTurnId i,
      rd_leaseId = bd_leaseId d, rd_occurredAt = now, rd_leaseExpiresAt = leaseExpiresAt\<rparr>"

definition redeem ::
  "BootstrapServiceOptions \<Rightarrow> BootstrapDependencies \<Rightarrow> RedeemBootstrapGrantInput \<Rightarrow>
   BootstrapReadyReceipt BootstrapResult program" where
  "redeem options d i =
     (if \<not> redeemInputSchema i then Return (Inl BOOTSTRAP_INVALID_INPUT)
      else
        (case parseNow d of
           Inl e \<Rightarrow> Return (Inl e)
         | Inr now \<Rightarrow>
           if \<not> validOpaqueId (bd_leaseId d) then Return (Inl BOOTSTRAP_DEPENDENCY_CONTRACT_VIOLATION)
           else
             (case asTimestamp (epochOf now + bs_executionLeaseTtlMs options) of
                None \<Rightarrow> Return (Inl BootstrapThrown)
              | Some leaseExpiresAt \<Rightarrow>
                  DoRedeemGrant (redeemCommand d i now leaseExpiresAt) (\<lambda>result.
                    case result of
                      Inl e \<Rightarrow> Return (Inl (BootstrapStore e))
                    | Inr lease \<Rightarrow> Return (Inr
                        \<lparr>rr_protocolVersion = AGENT_BUILDER_BOOTSTRAP_PROTOCOL_VERSION,
                         rr_leaseId = ls_leaseId lease, rr_role = ls_role lease,
                         rr_target = ls_target lease, rr_childSessionId = ls_childSessionId lease,
                         rr_expiresAt = ls_expiresAt lease\<rparr>)))))"

definition getLease :: "OwnerScope \<Rightarrow> string \<Rightarrow> ExecutionLeaseRecord BootstrapResult program" where
  "getLease ow childSessionId = Query (\<lambda>t. Return
     (case getExecutionLease t ow childSessionId of
        None \<Rightarrow> Inl BOOTSTRAP_REQUIRED | Some lease \<Rightarrow> Inr lease))"

definition storeResult :: "'a BootstrapStoreResult \<Rightarrow> 'a BootstrapResult program" where
  "storeResult r = Return (case r of Inl e \<Rightarrow> Inl (BootstrapStore e) | Inr x \<Rightarrow> Inr x)"

definition beginExecution ::
  "BeginExecutionLeaseStoreCommand \<Rightarrow> ExecutionLeaseRecord BootstrapResult program" where
  "beginExecution c = DoBeginLease c storeResult"

definition closeExecution ::
  "CloseExecutionLeaseStoreCommand \<Rightarrow> ExecutionLeaseRecord BootstrapResult program" where
  "closeExecution c = DoCloseLease c storeResult"

definition closeParentTurn ::
  "CloseParentTurnLeasesStoreCommand \<Rightarrow> ExecutionLeaseRecord list BootstrapResult program" where
  "closeParentTurn c = DoCloseParentTurn c storeResult"

end
