(* ===== verification/Bootstrap_Properties.thy ===== *)
theory Bootstrap_Properties
  imports Bootstrap_Service Session_Properties
begin

text \<open>
  The properties of the bootstrap service: tokens and their message, and grants issued and
  redeemed through the service while other callers use the store.
\<close>

section \<open>Tokens\<close>

lemma tokenOfBytes_valid:
  "MINIMUM_BOOTSTRAP_TOKEN_BYTES \<le> length bs \<Longrightarrow> length bs \<le> 189 \<Longrightarrow> bootstrapToken (tokenOfBytes bs)"
  by (simp add: bootstrapToken_def tokenOfBytes_def length_base64url base64url_alphabet
      MINIMUM_BOOTSTRAP_TOKEN_BYTES_def) linarith

section \<open>Messages\<close>

lemma newline_not_escaped: "CHR 0x0A \<notin> set (escapeChar c)"
proof -
  have hex: "hexChar n \<noteq> CHR 0x0A" if "n < 16" for n
  proof
    assume "hexChar n = CHR 0x0A"
    then have "(of_char (hexChar n) :: nat) = of_char (CHR 0x0A)" by (rule arg_cong)
    then show False using that by (simp add: hexChar_def split: if_splits)
  qed
  have "of_char c div 16 < (16::nat)" if "(of_char c :: nat) < 32" using that by simp
  then have "CHR 0x0A \<noteq> hexChar (of_char c div 16)" if "(of_char c :: nat) < 32"
    using that hex[of "of_char c div 16"] by metis
  moreover have "CHR 0x0A \<noteq> hexChar (of_char c mod 16)" using hex[of "of_char c mod 16"] by simp
  ultimately show ?thesis by (simp add: escapeChar_def QUOTE_def BACKSLASH_def)
qed

lemma format_shape:
  "formatBootstrapMessage token = CHR ''{'' # jsonString ''protocolVersion'' @ '':1,'' @
     jsonString ''token'' @ '':'' @ jsonString token @ ''}''"
proof -
  have "numberText (\<lambda>_. []) 1 = ''1''" by code_simp
  then show ?thesis
    by (simp add: formatBootstrapMessage_def AGENT_BUILDER_BOOTSTRAP_PROTOCOL_VERSION_def)
qed

lemma format_no_newline: "CHR 0x0A \<notin> set (formatBootstrapMessage token)"
  by (auto simp: format_shape jsonString_def newline_not_escaped QUOTE_def)

lemma indexOf_missing: "c \<in> set p \<Longrightarrow> c \<notin> set s \<Longrightarrow> indexOf s p = None"
proof -
  assume c: "c \<in> set p" "c \<notin> set s"
  have "\<not> startsWith (drop i s) p" for i
  proof
    assume "startsWith (drop i s) p"
    then have "set p \<subseteq> set (drop i s)" unfolding startsWith_def by (metis set_take_subset)
    with c show False using set_drop_subset[of i s] by blast
  qed
  then show ?thesis by (simp add: indexOf_def find_None_iff)
qed

lemma trim_enclosed:
  "\<not> isTrimmed a \<Longrightarrow> \<not> isTrimmed b \<Longrightarrow> trim (a # s @ [b]) = a # s @ [b]"
  by (simp add: trim_def)

lemma trim_format: "trim (formatBootstrapMessage token) = formatBootstrapMessage token"
proof -
  have "\<not> isTrimmed (CHR ''{'')" "\<not> isTrimmed (CHR ''}'')" by (simp_all add: isTrimmed_def)
  from trim_enclosed[OF this] show ?thesis
    unfolding format_shape by (metis append.assoc append_Cons)
qed

lemma jsonParse_format: "jsonParse (formatBootstrapMessage token) =
    Some (JObject [(''protocolVersion'', JNumber (of_int AGENT_BUILDER_BOOTSTRAP_PROTOCOL_VERSION)),
      (''token'', JString token)])"
proof -
  have "integral (of_int AGENT_BUILDER_BOOTSTRAP_PROTOCOL_VERSION)" by code_simp
  then show ?thesis unfolding formatBootstrapMessage_def by (intro jsonParse_jsonText) simp
qed

text \<open>A bootstrap message carries its token, whatever characters the token has, and is understood
  exactly for well-formed tokens: parsing a formatted message gives the token back if it matches
  the token grammar, and nothing otherwise.\<close>

theorem bootstrap_message_roundtrip:
  "parseBootstrapMessage (formatBootstrapMessage token) = (if bootstrapToken token then Some token else None)"
proof -
  have "indexOf (formatBootstrapMessage token) callerMessageMarker = None"
    by (rule indexOf_missing[of "CHR 0x0A"])
      (simp_all add: format_no_newline callerMessageMarker_def NEWLINE_def)
  then show ?thesis
    by (simp add: parseBootstrapMessage_def trim_format jsonParse_format tokenOf_def)
qed

section \<open>Issuing\<close>

lemma created_grant:
  assumes "createBootstrapGrant t g = (t1, Inr g')"
  shows "g' = g" "map_of (grants (bucketOf t1 (gr_owner g))) (gr_tokenHash g) = Some g"
    "bootstrapGrantRecordSchema g" "\<not> timeLe (gr_expiresAt g) (gr_issuedAt g)"
  using assms by (cases rule: createBootstrapGrant_cases[of t g]; auto)+

lemma parseNow_Inr: "parseNow d = Inr now \<longleftrightarrow> now = bd_now d \<and> timestampSchema (bd_now d)"
  by (auto simp: parseNow_def)

text \<open>A successful attempt: the store operation that ended the loop.\<close>

lemma issueAttempts_Inr:
  assumes "runProgram (issueAttempts d i now ttl n) h s = (s', Inr g)" and "reachable h (snd s)"
  obtains t bytes grantId where "reachable h t" "MINIMUM_BOOTSTRAP_TOKEN_BYTES \<le> length bytes"
    "ib_token g = tokenOfBytes bytes"
    "asTimestamp (epochOf now + ttl) = Some (ib_expiresAt g)"
    "\<exists>g'. createBootstrapGrant t
        (grantOf i grantId (hashBootstrapToken (bd_texts d) (ib_token g)) now (ib_expiresAt g)) = (snd s', Inr g')"
    "ib_role g = ii_role i" "ib_target g = ii_target i" "ib_workflow g = ii_workflow i"
  using assms
proof (induction n arbitrary: s thesis)
  case (Suc n)
  from Suc.prems(2) obtain bytes where bytes: "bd_tokenBytes d (3 - Suc n) = Some bytes"
    "MINIMUM_BOOTSTRAP_TOKEN_BYTES \<le> length bytes" "validOpaqueId (bd_grantId d (3 - Suc n))"
    by (auto simp: Let_def not_less split: option.splits if_splits)
  from Suc.prems(2) bytes obtain x where x: "asTimestamp (epochOf now + ttl) = Some x"
    by (auto simp: Let_def not_less split: option.splits if_splits)
  let ?g = "grantOf i (bd_grantId d (3 - Suc n)) (hashBootstrapToken (bd_texts d) (tokenOfBytes bytes)) now x"
  let ?s = "others h s"
  obtain t1 r where r: "createBootstrapGrant (snd ?s) ?g = (t1, r)" by fastforce
  have reach: "reachable h (snd ?s)" by (rule others_reachable[OF Suc.prems(3)])
  then have "reachable h t1" using reachable_call[of h "snd ?s" "CreateGrant ?g"] r by simp
  show thesis
  proof (cases r)
    case (Inr g')
    with Suc.prems(2) bytes x r have s': "snd s' = t1" and g: "ib_token g = tokenOfBytes bytes"
      "ib_expiresAt g = x" "ib_role g = ii_role i" "ib_target g = ii_target i" "ib_workflow g = ii_workflow i"
      by (auto simp: Let_def not_less)
    show thesis
      by (rule Suc.prems(1)[OF reach bytes(2) g(1)]) (use x g r s' Inr in auto)
  next
    case (Inl e)
    with Suc.prems(2) bytes x r have "runProgram (issueAttempts d i now ttl n) h (tl (fst s), t1) = (s', Inr g)"
      by (auto simp: Let_def not_less split: if_splits)
    from Suc.IH[OF _ this] \<open>reachable h t1\<close> Suc.prems(1) show thesis by simp blast
  qed
qed simp

lemma issue_Inr:
  assumes "runProgram (issue options d i) h s = (s', Inr g)"
  obtains s1 ttl where "issueInputSchema i" "roleAcceptsTarget (ii_role i) (ii_target i)"
    "runProgram (targetExists (ii_owner i) (ii_target i)) h s = (s1, True)"
    "timestampSchema (bd_now d)" "ttl \<le> bs_maxGrantTtlMs options"
    "runProgram (issueAttempts d i (bd_now d) ttl 3) h s1 = (s', Inr g)"
proof -
  obtain s1 exact where e: "runProgram (targetExists (ii_owner i) (ii_target i)) h s = (s1, exact)"
    by (cases "runProgram (targetExists (ii_owner i) (ii_target i)) h s")
  let ?ttl = "case ii_ttlMs i of None \<Rightarrow> bs_maxGrantTtlMs options | Some v \<Rightarrow> v"
  have "issueInputSchema i" "roleAcceptsTarget (ii_role i) (ii_target i)"
    using assms by (simp_all add: issue_def split: if_splits)
  moreover from this have "exact" "timestampSchema (bd_now d)" "?ttl \<le> bs_maxGrantTtlMs options"
    "runProgram (issueAttempts d i (bd_now d) ?ttl 3) h s1 = (s', Inr g)"
    using assms e
    by (simp_all add: issue_def runProgram_andThen Let_def parseNow_def del: issueAttempts.simps split: if_splits)
  ultimately show thesis using e by (intro that) simp_all
qed

lemma targetExists_reachable:
  "reachable h (snd s) \<Longrightarrow> runProgram (targetExists ow target) h s = (s1, x) \<Longrightarrow> reachable h (snd s1)"
  using runProgram_reachable[of h s "targetExists ow target"] by simp

lemma newBootstrapService_bounds:
  "newBootstrapService a b = Some options \<Longrightarrow>
     1 \<le> bs_maxGrantTtlMs options \<and> bs_maxGrantTtlMs options \<le> DEFAULT_BOOTSTRAP_GRANT_TTL_MS \<and>
     1 \<le> bs_executionLeaseTtlMs options"
  by (auto simp: newBootstrapService_def Let_def split: if_splits)

lemma issue_stores_grant:
  assumes "reachable h t" and "newBootstrapService a b = Some options"
    and "runProgram (issue options d i) h (sched, t) = ((sched', t'), Inr g)"
  shows "\<exists>gr issued expires.
    map_of (grants (bucketOf t' (ii_owner i))) (hashBootstrapToken (bd_texts d) (ib_token g)) = Some gr \<and>
    gr_tokenHash gr = hashBootstrapToken (bd_texts d) (ib_token g) \<and> 26 \<le> length (ib_token g) \<and>
    gr_owner gr = ii_owner i \<and> gr_role gr = ii_role i \<and> gr_target gr = ii_target i \<and>
    gr_workflow gr = ii_workflow i \<and> gr_parentSessionId gr = ii_parentSessionId i \<and>
    gr_parentTurnId gr = ii_parentTurnId i \<and> gr_redeemedAt gr = None \<and>
    roleAcceptsTarget (gr_role gr) (gr_target gr) \<and> gr_expiresAt gr = ib_expiresAt g \<and>
    dateParse (gr_issuedAt gr) = Some issued \<and> dateParse (gr_expiresAt gr) = Some expires \<and>
    issued < expires \<and> expires \<le> issued + DEFAULT_BOOTSTRAP_GRANT_TTL_MS"
proof -
  from issue_Inr[OF assms(3)] obtain s1 ttl where
    i: "roleAcceptsTarget (ii_role i) (ii_target i)" "timestampSchema (bd_now d)" "ttl \<le> bs_maxGrantTtlMs options"
    and exact: "runProgram (targetExists (ii_owner i) (ii_target i)) h (sched, t) = (s1, True)"
    and run: "runProgram (issueAttempts d i (bd_now d) ttl 3) h s1 = ((sched', t'), Inr g)" .
  have "reachable h (snd s1)" using targetExists_reachable[OF _ exact] assms(1) by simp
  from issueAttempts_Inr[OF run this] obtain t1 bytes grantId g' where
    bytes: "MINIMUM_BOOTSTRAP_TOKEN_BYTES \<le> length bytes" "ib_token g = tokenOfBytes bytes"
    and x: "asTimestamp (epochOf (bd_now d) + ttl) = Some (ib_expiresAt g)"
    and created: "createBootstrapGrant t1 (grantOf i grantId (hashBootstrapToken (bd_texts d) (ib_token g))
        (bd_now d) (ib_expiresAt g)) = (t', Inr g')"
    by (metis snd_conv)
  from i(2) obtain issued where issued: "dateParse (bd_now d) = Some issued"
    by (auto simp: timestampSchema_def)
  with asTimestamp_parse[OF x] have expires: "dateParse (ib_expiresAt g) = Some (issued + ttl)"
    by (simp add: epochOf_def)
  have "0 < ttl" using created_grant(4)[OF created] issued expires by (simp add: grantOf_def timeLe_def)
  moreover have "ttl \<le> DEFAULT_BOOTSTRAP_GRANT_TTL_MS"
    using i(3) newBootstrapService_bounds[OF assms(2)] by simp
  moreover have "26 \<le> length (ib_token g)"
    using bytes by (simp add: tokenOfBytes_def length_base64url MINIMUM_BOOTSTRAP_TOKEN_BYTES_def)
  ultimately show ?thesis
    using created_grant(2)[OF created] i(1) issued expires by (simp add: grantOf_def)
qed

text \<open>What \<open>issue\<close> leaves behind, however its store operations interleave with those of other
  callers: the store holds one unredeemed grant under the hash of the returned token (never the
  token itself), with the requested owner, role, target, scope and parent, a role that may use
  the target, and a lifetime between one millisecond and five minutes.\<close>

theorem issued_grant_stored:
  assumes "reachable h t" and "newBootstrapService a b = Some options"
    and "runProgram (issue options d i) h (sched, t) = ((sched', t'), Inr g)"
  shows "\<exists>gr issued expires.
    map_of (grants (bucketOf t' (ii_owner i))) (hashBootstrapToken (bd_texts d) (ib_token g)) = Some gr \<and>
    gr_tokenHash gr = hashBootstrapToken (bd_texts d) (ib_token g) \<and> 26 \<le> length (ib_token g) \<and>
    gr_owner gr = ii_owner i \<and> gr_role gr = ii_role i \<and> gr_target gr = ii_target i \<and>
    gr_workflow gr = ii_workflow i \<and> gr_parentSessionId gr = ii_parentSessionId i \<and>
    gr_parentTurnId gr = ii_parentTurnId i \<and> gr_redeemedAt gr = None \<and>
    roleAcceptsTarget (gr_role gr) (gr_target gr) \<and> gr_expiresAt gr = ib_expiresAt g \<and>
    dateParse (gr_issuedAt gr) = Some issued \<and> dateParse (gr_expiresAt gr) = Some expires \<and>
    issued < expires \<and> expires \<le> issued + DEFAULT_BOOTSTRAP_GRANT_TTL_MS"
  by (rule issue_stores_grant[OF assms])

section \<open>From issue to redemption\<close>

lemma unused_child_earlier:
  assumes "reachable h t" and "storeLater t t'" and "reachable h t'" and "findLease t' child = None"
  shows "findLease t child = None"
proof (rule ccontr)
  assume "findLease t child \<noteq> None"
  then obtain ow l where "findLease t child = Some (ow, l)" by auto
  from findLease_Some[OF store_okD(1)[OF reachable_ok[OF assms(1)]] this] obtain b where
    b: "getBucket t ow = Some b" "map_of (leases b) child = Some l" .
  have "bucketLater (bucketOf t ow) (bucketOf t' ow)" by (rule bucketOf_later[OF assms(2)])
  then have "map_of (leases (bucketOf t' ow)) child \<noteq> None"
    using b by (auto simp: bucketLater_def bucketOf_Some dest!: map_laterD)
  with assms(4) findLease_None[OF store_okD(1)[OF reachable_ok[OF assms(3)]]] show False
    by (cases "getBucket t' ow") (auto simp: bucketOf_def emptyBucket_def)
qed

lemma asTimestamp_schema: "asTimestamp e = Some s \<Longrightarrow> timestampSchema s"
  using asTimestamp_parse[of e s] by (simp add: timestampSchema_def)

lemma redeemed_lease_schema:
  assumes "bootstrapGrantRecordSchema g" and "redeemInputSchema i" and "validOpaqueId (bd_leaseId d)"
    and "timestampSchema now" and "timestampSchema expires"
  shows "executionLeaseRecordSchema (leaseFromGrant g (redeemCommand d i now expires))"
  using assms
  by (simp add: executionLeaseRecordSchema_def leaseFromGrant_def redeemCommand_def
      bootstrapGrantRecordSchema_def redeemInputSchema_def validOpaqueId_def boundedString_def)

text \<open>An issued grant can be redeemed: right after \<open>issue\<close>, whatever happened before, the same
  owner and parent redeem the token before it expires, for a child session that has no lease
  yet, and receive a receipt; the child session then has its lease, ready, for the role and
  target of the grant.\<close>

theorem issued_grant_redeemable:
  assumes "reachable h t" and "newBootstrapService a b = Some options"
    and "runProgram (issue options d i) h (sched, t) = ((sched', t'), Inr g)"
    and "redeemInputSchema j" and "ri_token j = ib_token g" and "ri_owner j = ii_owner i"
    and "ri_role j = ii_role i" and "ri_expectedTarget j \<in> {None, Some (ii_target i)}"
    and "ri_expectedWorkflow j \<in> {None, ii_workflow i}"
    and "ri_parentSessionId j = ii_parentSessionId i"
    and "ii_parentTurnId i \<in> {None, ri_parentTurnId j}"
    and "ii_parentCallId i \<in> {None, Some (ri_parentCallId j)}"
    and "findLease t' (ri_childSessionId j) = None"
    and "bd_texts d' = bd_texts d" and "validOpaqueId (bd_leaseId d')" and "timestampSchema (bd_now d')"
    and "\<not> timeGe (bd_now d') (ib_expiresAt g)"
    and "MIN_FOUR_DIGIT_EPOCH \<le> epochOf (bd_now d')"
    and "epochOf (bd_now d') + bs_executionLeaseTtlMs options \<le> MAX_FOUR_DIGIT_EPOCH"
  shows "\<exists>t2 receipt lease. runProgram (redeem options d' j) h ([], t') = (([], t2), Inr receipt) \<and>
    rr_leaseId receipt = bd_leaseId d' \<and> rr_role receipt = ii_role i \<and> rr_target receipt = ii_target i \<and>
    getExecutionLease t2 (ii_owner i) (ri_childSessionId j) = Some lease \<and>
    ls_leaseId lease = bd_leaseId d' \<and> ls_status lease = LeaseReady \<and>
    ls_role lease = ii_role i \<and> ls_target lease = ii_target i"
proof -
  from issue_Inr[OF assms(3)] obtain s1 ttl where
    exact: "runProgram (targetExists (ii_owner i) (ii_target i)) h (sched, t) = (s1, True)"
    and run: "runProgram (issueAttempts d i (bd_now d) ttl 3) h s1 = ((sched', t'), Inr g)" .
  have "reachable h (snd s1)" using targetExists_reachable[OF _ exact] assms(1) by simp
  from issueAttempts_Inr[OF run this] obtain t1 grantId g' where t1: "reachable h t1"
    and created: "createBootstrapGrant t1 (grantOf i grantId (hashBootstrapToken (bd_texts d) (ib_token g))
        (bd_now d) (ib_expiresAt g)) = (t', Inr g')"
    by (metis snd_conv)
  let ?g = "grantOf i grantId (hashBootstrapToken (bd_texts d) (ib_token g)) (bd_now d) (ib_expiresAt g)"
  have g: "createBootstrapGrant t1 ?g = (t', Inr ?g)" using created created_grant(1)[OF created] by simp
  have t': "reachable h t'" using reachable_call[OF t1, of "CreateGrant ?g"] g by simp
  have "storeLater t1 t'" using callState_later[OF reachable_ok[OF t1], of "CreateGrant ?g"] g by simp
  from unused_child_earlier[OF t1 this t' assms(13)] have unused: "findLease t1 (ri_childSessionId j) = None" .
  define x where "x = toISOString (epochOf (bd_now d') + bs_executionLeaseTtlMs options)"
  have x: "asTimestamp (epochOf (bd_now d') + bs_executionLeaseTtlMs options) = Some x"
    unfolding x_def using assms(18,19) newBootstrapService_bounds[OF assms(2)] by (intro asTimestamp_total) simp_all
  let ?r = "redeemCommand d' j (bd_now d') x"
  obtain now where now: "dateParse (bd_now d') = Some now" using assms(16) by (auto simp: timestampSchema_def)
  have later: "\<not> timeLe x (bd_now d')"
    using asTimestamp_parse[OF x] now newBootstrapService_bounds[OF assms(2)]
    by (simp add: timeLe_def epochOf_def)
  have schema: "executionLeaseRecordSchema (leaseFromGrant ?g ?r)"
    using created_grant(3)[OF created] assms(4,15,16) asTimestamp_schema[OF x]
    by (rule redeemed_lease_schema)
  have binding: "\<not> bindingMismatch ?g ?r"
    using assms(7-12) by (auto simp: bindingMismatch_def redeemCommand_def grantOf_def split: option.splits)
  have command: "rd_tokenHash ?r = gr_tokenHash ?g" "rd_owner ?r = gr_owner ?g"
    "\<not> timeGe (rd_occurredAt ?r) (gr_expiresAt ?g)" "findLease t1 (rd_childSessionId ?r) = None"
    "timestampSchema (rd_occurredAt ?r)" "timestampSchema (rd_leaseExpiresAt ?r)"
    "\<not> timeLe (rd_leaseExpiresAt ?r) (rd_occurredAt ?r)"
    using assms(5,6,14,16,17) later unused asTimestamp_schema[OF x]
    by (simp_all add: redeemCommand_def grantOf_def)
  note lease = fresh_grant_redeemable[OF reachable_ok[OF t1] g command(1-3) binding command(4-7) schema]
  obtain t2 where t2: "redeemBootstrapGrant t' ?r = (t2, Inr (leaseFromGrant ?g ?r))"
    using lease by (metis prod.collapse)
  have "runProgram (redeem options d' j) h ([], t') = (([], t2), Inr
      \<lparr>rr_protocolVersion = AGENT_BUILDER_BOOTSTRAP_PROTOCOL_VERSION, rr_leaseId = bd_leaseId d',
       rr_role = ii_role i, rr_target = ii_target i, rr_childSessionId = ri_childSessionId j, rr_expiresAt = x\<rparr>)"
    using assms(4,15,16) x t2
    by (simp add: redeem_def parseNow_def leaseFromGrant_def grantOf_def)
      (simp add: redeemCommand_def)
  moreover have "getExecutionLease t2 (ii_owner i) (ri_childSessionId j) = Some (leaseFromGrant ?g ?r)"
    using lease t2 by (simp add: grantOf_def redeemCommand_def)
  ultimately show ?thesis by (auto simp: leaseFromGrant_def grantOf_def redeemCommand_def)
qed

section \<open>Example\<close>

definition exTexts :: texts where
  "exTexts = \<lparr>sha256Text = (\<lambda>_. replicate 64 (CHR ''a'')), otherNumberText = (\<lambda>_. ''0'')\<rparr>"

definition exDependencies :: "string \<Rightarrow> BootstrapDependencies" where
  "exDependencies minute = \<lparr>bd_now = exTime minute, bd_tokenBytes = (\<lambda>_. Some (replicate 16 0)),
     bd_grantId = (\<lambda>_. ''grant-9''), bd_leaseId = ''lease-9'', bd_texts = exTexts\<rparr>"

definition exOptions :: BootstrapServiceOptions where
  "exOptions = \<lparr>bs_maxGrantTtlMs = 300000, bs_executionLeaseTtlMs = 900000\<rparr>"

definition exIssue :: IssueBootstrapGrantInput where
  "exIssue = \<lparr>ii_owner = exOwner, ii_role = ExPm, ii_target = DraftTarget ''a'' ''d'' 1,
     ii_workflow = Some \<lparr>sc_workflowId = ''w'', sc_workflowRevision = 1, sc_testRunId = None\<rparr>,
     ii_parentSessionId = ''parent'', ii_parentTurnId = Some ''turn'', ii_parentCallId = None,
     ii_ttlMs = None\<rparr>"

definition exToken9 :: string where
  "exToken9 = ''ab1_AAAAAAAAAAAAAAAAAAAAAA''"

definition exIssued :: IssuedBootstrapGrant where
  "exIssued = \<lparr>ib_protocolVersion = 1, ib_token = exToken9, ib_role = ExPm,
     ib_target = DraftTarget ''a'' ''d'' 1,
     ib_workflow = Some \<lparr>sc_workflowId = ''w'', sc_workflowRevision = 1, sc_testRunId = None\<rparr>,
     ib_expiresAt = exTime ''06''\<rparr>"

definition exRedeemInput :: RedeemBootstrapGrantInput where
  "exRedeemInput = \<lparr>ri_token = exToken9, ri_owner = exOwner, ri_role = ExPm, ri_expectedTarget = None,
     ri_expectedWorkflow = None, ri_parentSessionId = ''parent'', ri_parentTurnId = Some ''turn'',
     ri_parentCallId = ''call'', ri_childSessionId = ''child-9'', ri_bootstrapTurnId = ''bootstrap''\<rparr>"

lemma exOptions_new: "newBootstrapService None None = Some exOptions"
  by (simp add: newBootstrapService_def exOptions_def DEFAULT_BOOTSTRAP_GRANT_TTL_MS_def
      DEFAULT_EXECUTION_LEASE_TTL_MS_def isSafeInteger_def MAX_SAFE_INTEGER_def)

lemma exToken9_bytes: "tokenOfBytes (replicate 16 0) = exToken9"
  by code_simp

lemma exExpiry: "asTimestamp (1735689660000 + 300000) = Some (exTime ''06'')"
  by code_simp

definition exIssuedState :: Tenants where
  "exIssuedState = fst (createBootstrapGrant exState1 (grantOf exIssue ''grant-9''
     (hashBootstrapToken exTexts exToken9) (exTime ''01'') (exTime ''06'')))"

lemma exHash [simp]: "hashBootstrapToken exTexts token = exFingerprintA"
  by (simp add: hashBootstrapToken_def exTexts_def exFingerprintA_def)

lemma exCreated: "\<exists>g. createBootstrapGrant exState1 (grantOf exIssue ''grant-9''
    (hashBootstrapToken exTexts exToken9) (exTime ''01'') (exTime ''06'')) = (exIssuedState, Inr g) \<and>
  findLease exIssuedState ''child-9'' = None"
  by (simp add: evaluation scenario states exIssuedState_def grantOf_def exIssue_def)

lemma exIssue_run: "runProgram (issue exOptions (exDependencies ''01'') exIssue) exHost ([], exState1) =
    (([], exIssuedState), Inr exIssued)"
proof -
  have exact: "runProgram (targetExists exOwner (DraftTarget ''a'' ''d'' 1)) exHost ([], exState1) = (([], exState1), True)"
    by (simp add: targetExists_def queries exState1_def exFamily_def exDraft_def)
  have "issueInputSchema exIssue" by code_simp
  moreover have "roleAcceptsTarget (ii_role exIssue) (ii_target exIssue)" by (simp add: exIssue_def)
  moreover from exCreated obtain g where "createBootstrapGrant exState1 (grantOf exIssue ''grant-9''
    (hashBootstrapToken exTexts exToken9) (exTime ''01'') (exTime ''06'')) = (exIssuedState, Inr g)" by blast
  moreover have "validOpaqueId ''grant-9''" by code_simp
  ultimately show ?thesis
    using exact exExpiry exToken9_bytes unfolding exIssue_def
    by (simp add: issue_def Let_def runProgram_andThen exDependencies_def exOptions_def parseNow_def timestampSchema_def epochOf_def
        MINIMUM_BOOTSTRAP_TOKEN_BYTES_def exIssued_def AGENT_BUILDER_BOOTSTRAP_PROTOCOL_VERSION_def numeral_3_eq_3)
qed

theorem issued_grant_stored_witness:
  "\<exists>gr. map_of (grants (bucketOf exIssuedState exOwner)) exFingerprintA = Some gr \<and>
    gr_role gr = ExPm \<and> gr_redeemedAt gr = None \<and> gr_expiresAt gr = exTime ''06''"
  using issued_grant_stored[OF exStates_reachable(1) exOptions_new exIssue_run]
  by (auto simp: exIssue_def exDependencies_def exIssued_def)

theorem issued_grant_redeemable_witness:
  "\<exists>t2 receipt lease. runProgram (redeem exOptions (exDependencies ''03'') exRedeemInput) exHost ([], exIssuedState) =
      (([], t2), Inr receipt) \<and> rr_leaseId receipt = ''lease-9'' \<and>
    getExecutionLease t2 exOwner ''child-9'' = Some lease \<and> ls_status lease = LeaseReady"
proof -
  have "redeemInputSchema exRedeemInput" "validOpaqueId ''lease-9''" by code_simp+
  then show ?thesis
    using issued_grant_redeemable[OF exStates_reachable(1) exOptions_new exIssue_run, of exRedeemInput "exDependencies ''03''"]
      exCreated
    by (simp add: exRedeemInput_def exIssue_def exIssued_def exDependencies_def timestampSchema_def timeLe_def
        epochOf_def exOptions_def MIN_FOUR_DIGIT_EPOCH_def MAX_FOUR_DIGIT_EPOCH_def) blast
qed

end
