(* ===== verification/Capabilities.thy ===== *)
theory Capabilities
  imports Bootstrap "HOL-Library.Char_ord" "HOL-Library.List_Lexorder" "HOL-Library.Product_Lexorder"
begin

text \<open>
  Runner capabilities (\<open>packages/eve-agent-builder/extension/lib/capabilities.ts\<close>): the registry of
  a host answers with tools for the capabilities a saved agent requires, and the capability
  service turns the answer into the plan of a run. The registry's answers are arguments. Of a
  tool only what the checks read is modelled: its description, its schemas and its brands. A
  schema emits data that is JSON (\<open>Some\<close>) or not (\<open>None\<close>).
\<close>

section \<open>Descriptors and tools\<close>

datatype RunnerCapabilityClassification = ReadOnlySideEffectFree | ConsequentialEffect | UnknownEffect

record RunnerCapabilityDescriptor =
  cd_capabilityId :: string
  cd_displayName :: string
  cd_description :: string
  cd_schemaFingerprint :: string
  cd_classification :: RunnerCapabilityClassification
  cd_supportsUnattended :: bool

definition runnerCapabilityDescriptorSchema :: "RunnerCapabilityDescriptor \<Rightarrow> bool" where
  "runnerCapabilityDescriptorSchema d \<longleftrightarrow>
     identifierSchema (cd_capabilityId d) \<and> boundedString 1 256 (cd_displayName d) \<and>
     boundedString 1 8000 (cd_description d) \<and> boundedString 1 512 (cd_schemaFingerprint d)"

datatype SchemaDirection = InputSchema | OutputSchema

text \<open>A schema: \<open>undefined\<close>, not an object, a JSON Schema, or a Standard Schema
  with what its converter for each direction emits (\<open>None\<close>: it has no such converter).\<close>

datatype RunnerSchema =
    UndefinedSchema
  | NoObjectSchema
  | PlainSchema "JsonValue option"
  | StandardSchema (inputConverter: "JsonValue option option") (outputConverter: "JsonValue option option")

fun isJsonValue :: "JsonValue \<Rightarrow> nat \<Rightarrow> bool" where
  "isJsonValue (JArray vs) depth \<longleftrightarrow> depth \<le> 64 \<and> list_all (\<lambda>v. isJsonValue v (depth + 1)) vs"
| "isJsonValue (JObject kvs) depth \<longleftrightarrow>
     depth \<le> 64 \<and> list_all (\<lambda>kv. isJsonValue (snd kv) (depth + 1)) kvs"
| "isJsonValue v depth \<longleftrightarrow> depth \<le> 64"

definition emittedSchema :: "JsonValue option \<Rightarrow> JsonValue option" where
  "emittedSchema emitted =
     (case emitted of
        Some v \<Rightarrow> if isJsonObject v \<and> isJsonValue v 0 then Some v else None
      | None \<Rightarrow> None)"

text \<open>The JSON Schema of a source: \<open>None\<close> is the exception, \<open>Some None\<close> is \<open>undefined\<close>.\<close>

definition serializeRunnerSchema :: "RunnerSchema \<Rightarrow> SchemaDirection \<Rightarrow> JsonValue option option" where
  "serializeRunnerSchema source direction =
     (case source of
        UndefinedSchema \<Rightarrow> if direction = OutputSchema then Some None else None
      | NoObjectSchema \<Rightarrow> None
      | PlainSchema emitted \<Rightarrow> map_option Some (emittedSchema emitted)
      | StandardSchema input output \<Rightarrow>
          (case (if direction = InputSchema then input else output) of
             None \<Rightarrow> None
           | Some v \<Rightarrow> map_option Some (emittedSchema v)))"

record RunnerToolAdapter =
  ta_description :: string
  ta_hasExecute :: bool
  ta_inputSchema :: RunnerSchema
  ta_outputSchema :: RunnerSchema
  ta_eveBrand :: bool

definition assertRunnerToolAdapter :: "RunnerToolAdapter \<Rightarrow> bool" where
  "assertRunnerToolAdapter tool \<longleftrightarrow>
     ta_description tool \<noteq> [] \<and> ta_hasExecute tool \<and>
     serializeRunnerSchema (ta_inputSchema tool) InputSchema \<noteq> None \<and>
     serializeRunnerSchema (ta_outputSchema tool) OutputSchema \<noteq> None"

record ResolvedRunnerCapability =
  rc_descriptor :: RunnerCapabilityDescriptor
  rc_modelToolName :: string
  rc_tool :: RunnerToolAdapter
  rc_compatibleSchemaFingerprints :: "string list option"
  rc_capabilityBrand :: bool

text \<open>The regular expression \<open>/^[A-Za-z_][A-Za-z0-9_.:-]{0,255}$/u\<close> and the reserved prefix.\<close>

definition isLetter :: "char \<Rightarrow> bool" where
  "isLetter c \<longleftrightarrow> (let n = of_char c :: nat in (65 \<le> n \<and> n \<le> 90) \<or> (97 \<le> n \<and> n \<le> 122))"

definition isToolNameChar :: "char \<Rightarrow> bool" where
  "isToolNameChar c \<longleftrightarrow> isLetter c \<or> isDigit c \<or> c \<in> {CHR ''_'', CHR ''.'', CHR '':'', CHR ''-''}"

definition validateModelToolName :: "string \<Rightarrow> string \<Rightarrow> bool" where
  "validateModelToolName modelToolName capabilityId \<longleftrightarrow>
     (case modelToolName of
        [] \<Rightarrow> False
      | c # cs \<Rightarrow> (isLetter c \<or> c = CHR ''_'') \<and> list_all isToolNameChar cs \<and> length cs \<le> 255) \<and>
     \<not> startsWith modelToolName ''agent_builder__'' \<and> modelToolName \<noteq> capabilityId"

text \<open>\<open>defineRunnerCapability\<close>: \<open>None\<close> is the exception. \<open>defineTool\<close> sets the brand of Eve.\<close>

definition defineRunnerCapability ::
  "RunnerCapabilityDescriptor \<Rightarrow> string \<Rightarrow> RunnerToolAdapter \<Rightarrow> string list option \<Rightarrow>
   ResolvedRunnerCapability option" where
  "defineRunnerCapability descriptor modelToolName tool compatible =
     (if runnerCapabilityDescriptorSchema descriptor \<and>
         validateModelToolName modelToolName (cd_capabilityId descriptor) \<and>
         assertRunnerToolAdapter tool \<and> optionally (list_all (boundedString 1 512)) compatible
      then Some \<lparr>rc_descriptor = descriptor, rc_modelToolName = modelToolName,
        rc_tool = tool\<lparr>ta_eveBrand := True\<rparr>, rc_compatibleSchemaFingerprints = compatible,
        rc_capabilityBrand = True\<rparr>
      else None)"

section \<open>Listing\<close>

fun parseDescriptors ::
  "RunnerCapabilityDescriptor list \<Rightarrow> string set \<Rightarrow> RunnerCapabilityDescriptor list option" where
  "parseDescriptors [] seen = Some []"
| "parseDescriptors (d # ds) seen =
     (if \<not> runnerCapabilityDescriptorSchema d \<or> cd_capabilityId d \<in> seen then None
      else map_option ((#) d) (parseDescriptors ds (insert (cd_capabilityId d) seen)))"

definition listCapabilities ::
  "RunnerCapabilityDescriptor list \<Rightarrow> OwnerScope \<Rightarrow> RunnerCapabilityDescriptor list option" where
  "listCapabilities raw ow =
     (if \<not> ownerScopeSchema ow then None
      else map_option (sort_key (\<lambda>d. (cd_displayName d, cd_capabilityId d))) (parseDescriptors raw {}))"

section \<open>Preparation\<close>

text \<open>A resolution with a reason outside the four documented ones has \<open>None\<close>.\<close>

datatype RunnerCapabilityResolution =
    Resolved ResolvedRunnerCapability
  | Unavailable string "CapabilityUnavailableReason option"

fun resolutionId :: "RunnerCapabilityResolution \<Rightarrow> string" where
  "resolutionId (Resolved r) = cd_capabilityId (rc_descriptor r)"
| "resolutionId (Unavailable c _) = c"

definition acceptResolution ::
  "PlanMode \<Rightarrow> RunnerCapabilityResolution \<Rightarrow> RunnerCapabilityResolution option" where
  "acceptResolution mode resolution =
     (case resolution of
        Resolved r \<Rightarrow>
          if \<not> runnerCapabilityDescriptorSchema (rc_descriptor r) \<or>
             \<not> validateModelToolName (rc_modelToolName r) (cd_capabilityId (rc_descriptor r)) \<or>
             \<not> rc_capabilityBrand r \<or> \<not> ta_eveBrand (rc_tool r) \<or>
             \<not> assertRunnerToolAdapter (rc_tool r)
          then None
          else if mode = ModeUnattended \<and> \<not> cd_supportsUnattended (rc_descriptor r)
          then Some (Unavailable (cd_capabilityId (rc_descriptor r)) (Some Disabled))
          else Some resolution
      | Unavailable c reason \<Rightarrow> if reason = None then None else Some resolution)"

fun collectResolutions ::
  "PlanMode \<Rightarrow> string list \<Rightarrow> RunnerCapabilityResolution list \<Rightarrow>
   (string \<times> RunnerCapabilityResolution) list \<Rightarrow> (string \<times> RunnerCapabilityResolution) list option" where
  "collectResolutions mode requested [] byId = Some byId"
| "collectResolutions mode requested (r # rs) byId =
     (if resolutionId r \<notin> set requested \<or> map_of byId (resolutionId r) \<noteq> None then None
      else
        (case acceptResolution mode r of
           None \<Rightarrow> None
         | Some r' \<Rightarrow> collectResolutions mode requested rs (mapSet (resolutionId r) r' byId)))"

definition effectiveConsequential :: "RunnerCapabilityDescriptor \<Rightarrow> SavedToolRequirement \<Rightarrow> bool" where
  "effectiveConsequential d q \<longleftrightarrow>
     req_consequential q \<or> cd_classification d \<noteq> ReadOnlySideEffectFree"

definition fingerprintCompatible :: "ResolvedRunnerCapability \<Rightarrow> SavedToolRequirement \<Rightarrow> bool" where
  "fingerprintCompatible r q \<longleftrightarrow>
     cd_schemaFingerprint (rc_descriptor r) = req_schemaFingerprint q \<or>
     (case rc_compatibleSchemaFingerprints r of
        None \<Rightarrow> False | Some fs \<Rightarrow> req_schemaFingerprint q \<in> set fs)"

text \<open>The capability that serves a requirement, or why there is none.\<close>

definition chooseCapability ::
  "(string \<times> RunnerCapabilityResolution) list \<Rightarrow> SavedToolRequirement \<Rightarrow>
   CapabilityUnavailableReason + ResolvedRunnerCapability" where
  "chooseCapability byId q =
     (case map_of byId (req_capabilityId q) of
        None \<Rightarrow> Inl Missing
      | Some (Unavailable _ reason) \<Rightarrow> Inl (case reason of None \<Rightarrow> Missing | Some r \<Rightarrow> r)
      | Some (Resolved r) \<Rightarrow> if fingerprintCompatible r q then Inr r else Inl Incompatible)"

datatype CapabilityPreparationError =
    RequiredCapabilityUnavailable string string CapabilityUnavailableReason
  | CapabilityRegistryContractViolation

definition planEntry :: "ResolvedRunnerCapability \<Rightarrow> SavedToolRequirement \<Rightarrow> ExecutionCapabilityPlanEntry" where
  "planEntry r q =
     \<lparr>pe_capabilityId = cd_capabilityId (rc_descriptor r), pe_modelToolName = rc_modelToolName r,
      pe_schemaFingerprint = cd_schemaFingerprint (rc_descriptor r),
      pe_consequential = effectiveConsequential (rc_descriptor r) q\<rparr>"

definition omission :: "SavedToolRequirement \<Rightarrow> CapabilityUnavailableReason \<Rightarrow> ExecutionCapabilityOmission" where
  "omission q reason =
     \<lparr>po_capabilityId = req_capabilityId q, po_displayNameSnapshot = req_displayNameSnapshot q,
      po_reason = reason\<rparr>"

text \<open>The loop over the requirements: selected tools, their plan entries, and the omissions.\<close>

fun selectCapabilities ::
  "(string \<times> RunnerCapabilityResolution) list \<Rightarrow> string set \<Rightarrow> SavedToolRequirement list \<Rightarrow>
   CapabilityPreparationError +
   ResolvedRunnerCapability list \<times> ExecutionCapabilityPlanEntry list \<times> ExecutionCapabilityOmission list" where
  "selectCapabilities byId modelNames [] = Inr ([], [], [])"
| "selectCapabilities byId modelNames (q # qs) =
     (case chooseCapability byId q of
        Inl reason \<Rightarrow>
          if req_level q = Required
          then Inl (RequiredCapabilityUnavailable (req_capabilityId q) (req_displayNameSnapshot q) reason)
          else
            (case selectCapabilities byId modelNames qs of
               Inl e \<Rightarrow> Inl e
             | Inr (selected, entries, omissions) \<Rightarrow> Inr (selected, entries, omission q reason # omissions))
      | Inr r \<Rightarrow>
          if rc_modelToolName r \<in> modelNames then Inl CapabilityRegistryContractViolation
          else
            (case selectCapabilities byId (insert (rc_modelToolName r) modelNames) qs of
               Inl e \<Rightarrow> Inl e
             | Inr (selected, entries, omissions) \<Rightarrow> Inr (r # selected, planEntry r q # entries, omissions)))"

definition joinLines :: "string list \<Rightarrow> string" where
  "joinLines ls = (case ls of [] \<Rightarrow> [] | l # rest \<Rightarrow> l @ concat (map (\<lambda>m. CHR 0x0A # m) rest))"

definition omissionNote :: "ExecutionCapabilityOmission list \<Rightarrow> string option" where
  "omissionNote omissions =
     (if omissions = [] then None
      else Some (joinLines
        ([''Optional capabilities unavailable for this run:''] @
         map (\<lambda>e. ''- '' @ po_displayNameSnapshot e @ '' ('' @ po_capabilityId e @ ''): '' @
                   reasonText (po_reason e)) omissions @
         [''Do not substitute an unselected tool. Disclose any material effect in the final result.''])))"

record CapabilityPreparation =
  prep_plan :: ExecutionCapabilityPlan
  prep_resolved :: "ResolvedRunnerCapability list"
  prep_optionalOmissionNote :: "string option"
  prep_disclosureRequired :: bool

text \<open>\<open>prepare\<close>; the registry's answer is \<open>None\<close> when it throws.\<close>

definition prepareCapabilities ::
  "(OwnerScope \<Rightarrow> string list \<Rightarrow> PlanMode \<Rightarrow> RunnerCapabilityResolution list option) \<Rightarrow>
   OwnerScope \<Rightarrow> SavedToolRequirement list \<Rightarrow> PlanMode \<Rightarrow>
   CapabilityPreparationError + CapabilityPreparation" where
  "prepareCapabilities registry ow requirements mode =
     (if \<not> ownerScopeSchema ow \<or> \<not> list_all savedToolRequirementSchema requirements \<or>
         length requirements > 256
      then Inl CapabilityRegistryContractViolation
      else
        (case registry ow (map req_capabilityId requirements) mode of
           None \<Rightarrow> Inl CapabilityRegistryContractViolation
         | Some raw \<Rightarrow>
           (case collectResolutions mode (map req_capabilityId requirements) raw [] of
              None \<Rightarrow> Inl CapabilityRegistryContractViolation
            | Some byId \<Rightarrow>
              (case selectCapabilities byId {} requirements of
                 Inl e \<Rightarrow> Inl e
               | Inr (selected, entries, omissions) \<Rightarrow>
                   Inr \<lparr>prep_plan = \<lparr>plan_mode = mode, plan_selected = entries,
                          plan_optionalOmissions = omissions\<rparr>,
                        prep_resolved = selected, prep_optionalOmissionNote = omissionNote omissions,
                        prep_disclosureRequired = length omissions > 0\<rparr>))))"

text \<open>\<open>lowerResolvedCapabilities\<close>: the names of the lowered tools; \<open>None\<close> is the exception.\<close>

fun lowerResolvedCapabilities ::
  "ResolvedRunnerCapability list \<Rightarrow> string list \<Rightarrow> string list option" where
  "lowerResolvedCapabilities [] lowered = Some lowered"
| "lowerResolvedCapabilities (r # rs) lowered =
     (if \<not> validateModelToolName (rc_modelToolName r) (cd_capabilityId (rc_descriptor r)) \<or>
         rc_modelToolName r \<in> set lowered
      then None
      else lowerResolvedCapabilities rs (lowered @ [rc_modelToolName r]))"

section \<open>The plan as a filter of the requirements\<close>

definition choices ::
  "(string \<times> RunnerCapabilityResolution) list \<Rightarrow> SavedToolRequirement list \<Rightarrow>
   (SavedToolRequirement \<times> ResolvedRunnerCapability) list" where
  "choices byId qs =
     concat (map (\<lambda>q. case chooseCapability byId q of Inl _ \<Rightarrow> [] | Inr r \<Rightarrow> [(q, r)]) qs)"

definition refusals ::
  "(string \<times> RunnerCapabilityResolution) list \<Rightarrow> SavedToolRequirement list \<Rightarrow>
   (SavedToolRequirement \<times> CapabilityUnavailableReason) list" where
  "refusals byId qs =
     concat (map (\<lambda>q. case chooseCapability byId q of Inl e \<Rightarrow> [(q, e)] | Inr r \<Rightarrow> []) qs)"

lemma choices_simps [simp]:
  "choices byId [] = []"
  "choices byId (q # qs) =
     (case chooseCapability byId q of Inl _ \<Rightarrow> choices byId qs | Inr r \<Rightarrow> (q, r) # choices byId qs)"
  "refusals byId [] = []"
  "refusals byId (q # qs) =
     (case chooseCapability byId q of Inl e \<Rightarrow> (q, e) # refusals byId qs | Inr r \<Rightarrow> refusals byId qs)"
  by (simp_all add: choices_def refusals_def split: sum.split)

lemma selectCapabilities_Inr:
  "selectCapabilities byId names qs = Inr x \<longleftrightarrow>
     x = (map snd (choices byId qs), map (\<lambda>(q, r). planEntry r q) (choices byId qs),
          map (\<lambda>(q, e). omission q e) (refusals byId qs)) \<and>
     list_all (\<lambda>(q, e). req_level q = Optional) (refusals byId qs) \<and>
     distinct (map (\<lambda>(q, r). rc_modelToolName r) (choices byId qs)) \<and>
     names \<inter> (\<lambda>(q, r). rc_modelToolName r) ` set (choices byId qs) = {}"
proof (induction byId names qs arbitrary: x rule: selectCapabilities.induct)
  case (2 byId names q qs)
  show ?case
  proof (cases "chooseCapability byId q")
    case (Inl e)
    have level: "req_level q \<noteq> Required \<longleftrightarrow> req_level q = Optional" by (cases "req_level q") simp_all
    have "selectCapabilities byId names (q # qs) = Inr x \<longleftrightarrow> req_level q \<noteq> Required \<and>
        (\<exists>s es os. selectCapabilities byId names qs = Inr (s, es, os) \<and> x = (s, es, omission q e # os))"
      using Inl by (auto split: sum.splits)
    also have "\<dots> \<longleftrightarrow> req_level q = Optional \<and>
        (\<exists>s es os. selectCapabilities byId names qs = Inr (s, es, os) \<and> x = (s, es, omission q e # os))"
      by (simp only: level)
    finally show ?thesis
      using 2(1)[OF Inl] Inl by (cases "req_level q = Optional") auto
  next
    case (Inr r)
    have "selectCapabilities byId names (q # qs) = Inr x \<longleftrightarrow> rc_modelToolName r \<notin> names \<and>
        (\<exists>s es os. selectCapabilities byId (insert (rc_modelToolName r) names) qs = Inr (s, es, os) \<and>
           x = (r # s, planEntry r q # es, os))"
      using Inr by (auto split: sum.splits)
    then show ?thesis
      using 2(2)[OF Inr] Inr by (cases "rc_modelToolName r \<in> names") auto
  qed
qed auto

text \<open>What the service has checked of a resolution it keeps.\<close>

definition acceptedFor :: "PlanMode \<Rightarrow> string \<Rightarrow> ResolvedRunnerCapability \<Rightarrow> bool" where
  "acceptedFor mode c r \<longleftrightarrow>
     cd_capabilityId (rc_descriptor r) = c \<and> runnerCapabilityDescriptorSchema (rc_descriptor r) \<and>
     validateModelToolName (rc_modelToolName r) c \<and> rc_capabilityBrand r \<and> ta_eveBrand (rc_tool r) \<and>
     assertRunnerToolAdapter (rc_tool r) \<and>
     (mode = ModeUnattended \<longrightarrow> cd_supportsUnattended (rc_descriptor r))"

lemma acceptResolution_Resolved:
  "acceptResolution mode x = Some (Resolved r) \<Longrightarrow> x = Resolved r \<and> acceptedFor mode (resolutionId x) r"
  by (cases x) (auto simp: acceptResolution_def acceptedFor_def split: if_splits)

lemma acceptResolution_supported:
  "acceptResolution mode (Resolved r) \<noteq> None \<Longrightarrow> mode = ModeUnattended \<longrightarrow> cd_supportsUnattended (rc_descriptor r) \<Longrightarrow>
   acceptResolution mode (Resolved r) = Some (Resolved r)"
  by (auto simp: acceptResolution_def split: if_splits)

text \<open>The map of the resolutions holds what was accepted of the registry's answer, each under its id.\<close>

lemma collectResolutions_lookup:
  assumes "collectResolutions mode requested rs byId = Some byId'"
  shows "\<And>c x. map_of byId c = Some x \<Longrightarrow> map_of byId' c = Some x"
    and "\<And>x. x \<in> set rs \<Longrightarrow> acceptResolution mode x \<noteq> None \<and> map_of byId' (resolutionId x) = acceptResolution mode x"
    and "\<And>c y. map_of byId' c = Some y \<Longrightarrow>
      map_of byId c = Some y \<or> (\<exists>x \<in> set rs. resolutionId x = c \<and> acceptResolution mode x = Some y)"
  using assms
proof (induction mode requested rs byId rule: collectResolutions.induct)
  case (2 mode requested z rs byId)
  have step: "\<exists>z'. acceptResolution mode z = Some z' \<and> map_of byId (resolutionId z) = None \<and>
      \<not> (resolutionId z \<notin> set requested \<or> map_of byId (resolutionId z) \<noteq> None) \<and>
      collectResolutions mode requested rs (mapSet (resolutionId z) z' byId) = Some byId'"
    if "collectResolutions mode requested (z # rs) byId = Some byId'"
    using that by (auto split: option.splits if_splits)
  {
    case (1 c x)
    from step[OF 1(2)] obtain z' where z: "acceptResolution mode z = Some z'" "map_of byId (resolutionId z) = None"
      "\<not> (resolutionId z \<notin> set requested \<or> map_of byId (resolutionId z) \<noteq> None)"
      "collectResolutions mode requested rs (mapSet (resolutionId z) z' byId) = Some byId'" by blast
    show ?case by (rule 2(1)[OF z(3,1) _ z(4)]) (use 1(1) z(2) in auto)
  next
    case (2 x)
    from step[OF 2(2)] obtain z' where z: "acceptResolution mode z = Some z'" "map_of byId (resolutionId z) = None"
      "\<not> (resolutionId z \<notin> set requested \<or> map_of byId (resolutionId z) \<noteq> None)"
      "collectResolutions mode requested rs (mapSet (resolutionId z) z' byId) = Some byId'" by blast
    have "map_of byId' (resolutionId z) = Some z'" by (rule "2.IH"(1)[OF z(3,1) _ z(4)]) simp
    then show ?case using "2.IH"(2)[OF z(3,1) _ z(4), of x] 2(1) z(1) by auto
  next
    case (3 c y)
    from step[OF 3(2)] obtain z' where z: "acceptResolution mode z = Some z'" "map_of byId (resolutionId z) = None"
      "\<not> (resolutionId z \<notin> set requested \<or> map_of byId (resolutionId z) \<noteq> None)"
      "collectResolutions mode requested rs (mapSet (resolutionId z) z' byId) = Some byId'" by blast
    show ?case using "2.IH"(3)[OF z(3,1) 3(1) z(4)] z(1) by (auto split: if_splits)
  }
qed auto

text \<open>A tool of the registry's answer that can serve a requirement in a mode.\<close>

definition usable ::
  "PlanMode \<Rightarrow> RunnerCapabilityResolution list \<Rightarrow> SavedToolRequirement \<Rightarrow> ResolvedRunnerCapability \<Rightarrow> bool" where
  "usable mode raw q r \<longleftrightarrow> Resolved r \<in> set raw \<and> cd_capabilityId (rc_descriptor r) = req_capabilityId q \<and>
     (mode = ModeUnattended \<longrightarrow> cd_supportsUnattended (rc_descriptor r)) \<and> fingerprintCompatible r q"

lemma chooseCapability_Inr:
  "chooseCapability byId q = Inr r \<Longrightarrow>
     map_of byId (req_capabilityId q) = Some (Resolved r) \<and> fingerprintCompatible r q"
  by (auto simp: chooseCapability_def split: option.splits RunnerCapabilityResolution.splits if_splits)

lemma set_choices: "(q, r) \<in> set (choices byId qs) \<longleftrightarrow> q \<in> set qs \<and> chooseCapability byId q = Inr r"
  by (auto simp: choices_def split: sum.splits)

lemma set_refusals: "(q, e) \<in> set (refusals byId qs) \<longleftrightarrow> q \<in> set qs \<and> chooseCapability byId q = Inl e"
  by (auto simp: refusals_def split: sum.splits)

lemma choose_usable:
  assumes "collectResolutions mode requested raw [] = Some byId"
  shows "chooseCapability byId q = Inr r \<longleftrightarrow> usable mode raw q r"
    and "usable mode raw q r \<Longrightarrow> acceptedFor mode (req_capabilityId q) r"
proof -
  note lookup = collectResolutions_lookup[OF assms]
  have found: "map_of byId (req_capabilityId q) = Some (Resolved r) \<longleftrightarrow>
      Resolved r \<in> set raw \<and> cd_capabilityId (rc_descriptor r) = req_capabilityId q \<and>
      (mode = ModeUnattended \<longrightarrow> cd_supportsUnattended (rc_descriptor r))"
    and accepted: "map_of byId (req_capabilityId q) = Some (Resolved r) \<Longrightarrow> acceptedFor mode (req_capabilityId q) r"
    using lookup(3)[of "req_capabilityId q" "Resolved r"] lookup(2)[of "Resolved r"] acceptResolution_Resolved[of mode _ r]
      acceptResolution_supported[of mode r] by (auto simp: acceptedFor_def) metis+
  then show "usable mode raw q r \<Longrightarrow> acceptedFor mode (req_capabilityId q) r" by (simp add: usable_def)
  show "chooseCapability byId q = Inr r \<longleftrightarrow> usable mode raw q r"
    using found by (auto simp: usable_def chooseCapability_def split: option.splits RunnerCapabilityResolution.splits)
qed

lemma prepareCapabilities_Inr:
  assumes "prepareCapabilities registry ow qs mode = Inr p"
  obtains raw byId where
    "registry ow (map req_capabilityId qs) mode = Some raw"
    "collectResolutions mode (map req_capabilityId qs) raw [] = Some byId"
    "prep_plan p = \<lparr>plan_mode = mode, plan_selected = map (\<lambda>(q, r). planEntry r q) (choices byId qs),
        plan_optionalOmissions = map (\<lambda>(q, e). omission q e) (refusals byId qs)\<rparr>"
    "prep_resolved p = map snd (choices byId qs)"
    "list_all (\<lambda>(q, e). req_level q = Optional) (refusals byId qs)"
    "distinct (map (\<lambda>(q, r). rc_modelToolName r) (choices byId qs))"
    "prep_disclosureRequired p \<longleftrightarrow> refusals byId qs \<noteq> []"
proof -
  from assms obtain raw byId selected entries omissions where
    "registry ow (map req_capabilityId qs) mode = Some raw"
    "collectResolutions mode (map req_capabilityId qs) raw [] = Some byId"
    and s: "selectCapabilities byId {} qs = Inr (selected, entries, omissions)"
    and p: "p = \<lparr>prep_plan = \<lparr>plan_mode = mode, plan_selected = entries, plan_optionalOmissions = omissions\<rparr>,
        prep_resolved = selected, prep_optionalOmissionNote = omissionNote omissions,
        prep_disclosureRequired = length omissions > 0\<rparr>"
    by (auto simp: prepareCapabilities_def split: if_splits option.splits sum.splits)
  with s[unfolded selectCapabilities_Inr] show thesis
    by (intro that) simp_all
qed

definition servedBy ::
  "PlanMode \<Rightarrow> SavedToolRequirement \<Rightarrow> ResolvedRunnerCapability \<Rightarrow> ExecutionCapabilityPlanEntry \<Rightarrow> bool" where
  "servedBy mode q r e \<longleftrightarrow>
     pe_capabilityId e = req_capabilityId q \<and> pe_modelToolName e = rc_modelToolName r \<and>
     pe_schemaFingerprint e = cd_schemaFingerprint (rc_descriptor r) \<and>
     (pe_consequential e \<longleftrightarrow>
        req_consequential q \<or> cd_classification (rc_descriptor r) \<noteq> ReadOnlySideEffectFree) \<and>
     fingerprintCompatible r q \<and> acceptedFor mode (req_capabilityId q) r"

lemma choices_filter: "map fst (choices byId qs) = filter (\<lambda>q. \<not> isl (chooseCapability byId q)) qs"
  by (induction qs) (simp_all split: sum.split)

lemma refusals_filter: "map fst (refusals byId qs) = filter (\<lambda>q. isl (chooseCapability byId q)) qs"
  by (induction qs) (simp_all split: sum.split)

definition available :: "PlanMode \<Rightarrow> RunnerCapabilityResolution list \<Rightarrow> SavedToolRequirement \<Rightarrow> bool" where
  "available mode raw q \<longleftrightarrow> (\<exists>r. usable mode raw q r)"

text \<open>C38. A prepared run is exactly what the saved agent asked for and the registry answered: the
  requirements split into those for which the answer has a usable tool (of that capability, with a
  compatible schema, and for an unattended run with support for it), which are served by such a
  tool, in order, and the others, which are all optional and disclosed as omissions. A serving tool
  has a valid descriptor, both brands, an adapter that passed its check (description, execution and
  schemas that can be serialized), and a valid name that no other selected tool has; its step is
  consequential whenever the requirement says so or the tool is not known to be free of side effects.\<close>

theorem prepared_plan_correct:
  assumes "prepareCapabilities registry ow qs mode = Inr p"
  shows "\<exists>raw. registry ow (map req_capabilityId qs) mode = Some raw \<and>
    plan_mode (prep_plan p) = mode \<and>
    length (prep_resolved p) = length (filter (available mode raw) qs) \<and>
    list_all2 (\<lambda>(q, r) e. usable mode raw q r \<and> servedBy mode q r e)
      (zip (filter (available mode raw) qs) (prep_resolved p)) (plan_selected (prep_plan p)) \<and>
    list_all2 (\<lambda>q m. req_level q = Optional \<and> po_capabilityId m = req_capabilityId q \<and>
        po_displayNameSnapshot m = req_displayNameSnapshot q)
      (filter (\<lambda>q. \<not> available mode raw q) qs) (plan_optionalOmissions (prep_plan p)) \<and>
    distinct (map pe_modelToolName (plan_selected (prep_plan p))) \<and>
    (prep_disclosureRequired p \<longleftrightarrow> (\<exists>q. q \<in> set qs \<and> \<not> available mode raw q))"
proof (rule prepareCapabilities_Inr[OF assms])
  fix raw byId
  assume raw: "registry ow (map req_capabilityId qs) mode = Some raw"
    and byId: "collectResolutions mode (map req_capabilityId qs) raw [] = Some byId"
    and p: "prep_plan p = \<lparr>plan_mode = mode, plan_selected = map (\<lambda>(q, r). planEntry r q) (choices byId qs),
        plan_optionalOmissions = map (\<lambda>(q, e). omission q e) (refusals byId qs)\<rparr>"
      "prep_resolved p = map snd (choices byId qs)"
      "list_all (\<lambda>(q, e). req_level q = Optional) (refusals byId qs)"
      "distinct (map (\<lambda>(q, r). rc_modelToolName r) (choices byId qs))"
      "prep_disclosureRequired p \<longleftrightarrow> refusals byId qs \<noteq> []"
  note choose = choose_usable[OF byId]
  have isl: "isl (chooseCapability byId q) = (\<not> available mode raw q)" for q
    using choose(1)[of q] by (cases "chooseCapability byId q") (auto simp: available_def)
  have kept: "map fst (choices byId qs) = filter (available mode raw) qs"
    "map fst (refusals byId qs) = filter (\<lambda>q. \<not> available mode raw q) qs"
    by (simp_all add: choices_filter refusals_filter isl)
  have zip: "zip (filter (available mode raw) qs) (map snd (choices byId qs)) = choices byId qs"
    by (simp add: zip_map_fst_snd flip: kept(1))
  have served: "usable mode raw q r \<and> servedBy mode q r (planEntry r q)" if "(q, r) \<in> set (choices byId qs)" for q r
  proof -
    from that choose(1)[of q r] have "usable mode raw q r" by (simp add: set_choices)
    with choose(2)[OF this] show ?thesis
      by (simp add: servedBy_def planEntry_def effectiveConsequential_def acceptedFor_def usable_def)
  qed
  have "length (map snd (choices byId qs)) = length (filter (available mode raw) qs)"
    by (simp flip: kept(1))
  moreover have "list_all2 (\<lambda>(q, r) e. usable mode raw q r \<and> servedBy mode q r e) (choices byId qs)
      (map (\<lambda>(q, r). planEntry r q) (choices byId qs))"
    using served by (auto simp: list_all2_conv_all_nth split_beta)
  moreover have "list_all2 (\<lambda>q m. req_level q = Optional \<and> po_capabilityId m = req_capabilityId q \<and>
        po_displayNameSnapshot m = req_displayNameSnapshot q)
      (map fst (refusals byId qs)) (map (\<lambda>(q, e). omission q e) (refusals byId qs))"
    using p(3) by (auto simp: list_all2_conv_all_nth list_all_length split_beta omission_def)
  moreover have "map pe_modelToolName (map (\<lambda>(q, r). planEntry r q) (choices byId qs)) =
      map (\<lambda>(q, r). rc_modelToolName r) (choices byId qs)"
    by (simp add: planEntry_def split_beta)
  moreover have "refusals byId qs \<noteq> [] \<longleftrightarrow> (\<exists>q. q \<in> set qs \<and> \<not> available mode raw q)"
    using kept(2) filter_empty_conv[of "\<lambda>q. \<not> available mode raw q" qs] by (metis list.map_disc_iff)
  ultimately show ?thesis
    using raw p zip by (intro exI[of _ raw]) (simp add: kept(2) del: map_map)
qed

definition exDescriptor :: RunnerCapabilityDescriptor where
  "exDescriptor = \<lparr>cd_capabilityId = ''mail'', cd_displayName = ''Mail'', cd_description = ''Sends mail'',
     cd_schemaFingerprint = ''f2'', cd_classification = UnknownEffect, cd_supportsUnattended = False\<rparr>"

definition exAdapter :: RunnerToolAdapter where
  "exAdapter = \<lparr>ta_description = ''Sends mail'', ta_hasExecute = True,
     ta_inputSchema = PlainSchema (Some (JObject [])), ta_outputSchema = UndefinedSchema,
     ta_eveBrand = False\<rparr>"

definition exRequirements :: "SavedToolRequirement list" where
  "exRequirements =
     [\<lparr>req_capabilityId = ''mail'', req_level = Required, req_displayNameSnapshot = ''Mail'',
       req_schemaFingerprint = ''f1'', req_consequential = False\<rparr>,
      \<lparr>req_capabilityId = ''chat'', req_level = Optional, req_displayNameSnapshot = ''Chat'',
       req_schemaFingerprint = ''f1'', req_consequential = False\<rparr>]"

definition exRegistry ::
  "OwnerScope \<Rightarrow> string list \<Rightarrow> PlanMode \<Rightarrow> RunnerCapabilityResolution list option" where
  "exRegistry ow ids mode =
     map_option (\<lambda>r. [Resolved r]) (defineRunnerCapability exDescriptor ''mail_tool'' exAdapter (Some [''f1'']))"

definition exPrepared :: CapabilityPreparation where
  "exPrepared = \<lparr>prep_plan = \<lparr>plan_mode = ModeTest,
       plan_selected = [\<lparr>pe_capabilityId = ''mail'', pe_modelToolName = ''mail_tool'',
         pe_schemaFingerprint = ''f2'', pe_consequential = True\<rparr>],
       plan_optionalOmissions = [\<lparr>po_capabilityId = ''chat'', po_displayNameSnapshot = ''Chat'',
         po_reason = Missing\<rparr>]\<rparr>,
     prep_resolved = [the (defineRunnerCapability exDescriptor ''mail_tool'' exAdapter (Some [''f1'']))],
     prep_optionalOmissionNote = omissionNote [\<lparr>po_capabilityId = ''chat'', po_displayNameSnapshot = ''Chat'',
         po_reason = Missing\<rparr>],
     prep_disclosureRequired = True\<rparr>"

lemma exPrepared_run:
  "prepareCapabilities exRegistry \<lparr>tenantKey = ''t'', ownerKey = ''u''\<rparr> exRequirements ModeTest = Inr exPrepared"
  by code_simp

theorem prepared_plan_correct_witness:
  "\<exists>raw. exRegistry \<lparr>tenantKey = ''t'', ownerKey = ''u''\<rparr> [''mail'', ''chat''] ModeTest = Some raw \<and>
    length (prep_resolved exPrepared) = length (filter (available ModeTest raw) exRequirements) \<and>
    (\<exists>q. q \<in> set exRequirements \<and> \<not> available ModeTest raw q)"
proof -
  have "map req_capabilityId exRequirements = [''mail'', ''chat'']" by (simp add: exRequirements_def)
  then show ?thesis using prepared_plan_correct[OF exPrepared_run] by (auto simp: exPrepared_def)
qed

end
