(* ===== verification/Discovery.thy ===== *)
theory Discovery
  imports Program Encoding Capabilities
begin

text \<open>
  Discovery of active saved agents (\<open>packages/eve-agent-builder/extension/lib/discovery.ts\<close>): the
  sorted list of an owner's active agents, the roster shown to a model, search with pages and
  cursors, and the admission of a run. One call reads the store once, so an operation is a
  function of the store at that moment; only \<open>admitRun\<close> reads it twice. An exception is
  \<open>None\<close> or \<open>DiscoveryThrown\<close>.
\<close>

definition DEFAULT_MAX_ROSTER_ENTRIES :: int where "DEFAULT_MAX_ROSTER_ENTRIES = 25"
definition DEFAULT_MAX_ROSTER_CHARACTERS :: int where "DEFAULT_MAX_ROSTER_CHARACTERS = 12000"
definition DEFAULT_SEARCH_PAGE_SIZE :: int where "DEFAULT_SEARCH_PAGE_SIZE = 10"
definition MAX_SEARCH_PAGE_SIZE :: int where "MAX_SEARCH_PAGE_SIZE = 20"

record ActiveAgentEntry =
  ae_agentId :: string
  ae_specId :: string
  ae_version :: int
  ae_name :: string
  ae_canonicalName :: string
  ae_kind :: SavedAgentKind
  ae_description :: string
  ae_familyRevision :: int

definition toEntry :: "host \<Rightarrow> ActiveFamilyStoreRecord \<Rightarrow> ActiveAgentEntry" where
  "toEntry h r =
     (let v = af_activeVersion r; f = af_family r
      in \<lparr>ae_agentId = fam_agentId f, ae_specId = v_specId v, ae_version = v_version v,
          ae_name = v_name v, ae_canonicalName = canonicalizeAgentName h (v_name v),
          ae_kind = v_kind v, ae_description = v_description v, ae_familyRevision = fam_revision f\<rparr>)"

text \<open>\<open>compareEntries\<close>: by canonical name, then by identifier.\<close>

definition entryKey :: "ActiveAgentEntry \<Rightarrow> string \<times> string" where
  "entryKey e = (ae_canonicalName e, ae_agentId e)"

text \<open>\<open>\p{Letter}\<close> and \<open>\p{Number}\<close> on the characters below 256.\<close>

definition isLetterOrNumber :: "char \<Rightarrow> bool" where
  "isLetterOrNumber c \<longleftrightarrow>
     (let n = of_char c :: nat
      in (48 \<le> n \<and> n \<le> 57) \<or> (65 \<le> n \<and> n \<le> 90) \<or> (97 \<le> n \<and> n \<le> 122) \<or>
         n \<in> {170, 178, 179, 181, 185, 186, 188, 189, 190} \<or>
         (192 \<le> n \<and> n \<noteq> 215 \<and> n \<noteq> 247))"

function splitTokens :: "string \<Rightarrow> string list" where
  "splitTokens s =
     (case dropWhile (\<lambda>c. \<not> isLetterOrNumber c) s of
        [] \<Rightarrow> []
      | c # r \<Rightarrow> (c # takeWhile isLetterOrNumber r) # splitTokens (dropWhile isLetterOrNumber r))"
  by pat_completeness auto

termination
proof (relation "measure length")
  fix s c r
  assume "dropWhile (\<lambda>c. \<not> isLetterOrNumber c) s = c # r"
  then have "length (c # r) \<le> length s" by (metis length_dropWhile_le)
  moreover have "length (dropWhile isLetterOrNumber r) \<le> length r" by (rule length_dropWhile_le)
  ultimately show "(dropWhile isLetterOrNumber r, s) \<in> measure length" by simp
qed simp

declare splitTokens.simps [simp del]

definition tokens :: "host \<Rightarrow> string \<Rightarrow> string list" where
  "tokens h s = splitTokens (canonicalizeAgentName h s)"

definition matchesQuery :: "host \<Rightarrow> string \<Rightarrow> ActiveAgentEntry \<Rightarrow> bool" where
  "matchesQuery h normalizedQuery e \<longleftrightarrow>
     normalizedQuery = [] \<or> startsWith (ae_canonicalName e) normalizedQuery \<or>
     startsWith (canonicalizeAgentName h (ae_agentId e)) normalizedQuery \<or>
     (let haystack = tokens h (ae_name e @ '' '' @ ae_description e)
      in list_all (\<lambda>needle. list_ex (\<lambda>candidate. startsWith candidate needle) haystack)
           (tokens h normalizedQuery))"

section \<open>The list and the roster\<close>

definition listAgents :: "host \<Rightarrow> Tenants \<Rightarrow> OwnerScope \<Rightarrow> ActiveAgentEntry list option" where
  "listAgents h t ow =
     (if \<not> ownerScopeSchema ow then None
      else (case listActiveFamilies t ow of
              Inl _ \<Rightarrow> None
            | Inr records \<Rightarrow> Some (sort_key entryKey (map (toEntry h) records))))"

definition rosterLine :: "ActiveAgentEntry \<Rightarrow> string" where
  "rosterLine e = jsonText (\<lambda>_. [])
     (JObject [(''agentId'', JString (ae_agentId e)), (''name'', JString (ae_name e)),
               (''description'', JString (ae_description e))])"

definition ROSTER_TITLE :: string where
  "ROSTER_TITLE =
     ''Active saved agents for the current user. Run by stable agentId, not by name.''"

definition ROSTER_HINT :: string where
  "ROSTER_HINT =
     ''Use agent_builder__agent_search or agent_builder__agent_get for omitted or ambiguous entries.''"

definition renderRosterContent :: "ActiveAgentEntry list \<Rightarrow> nat \<Rightarrow> string" where
  "renderRosterContent entries omittedCount =
     joinLines ([ROSTER_TITLE, ROSTER_HINT] @ map rosterLine entries @
       (if omittedCount = 0 then [] else [''Omitted active agents: '' @ natText omittedCount]))"

record DiscoveryOptions =
  do_maxRosterEntries :: int
  do_maxRosterCharacters :: int

definition newDiscoveryService :: "int option \<Rightarrow> int option \<Rightarrow> DiscoveryOptions option" where
  "newDiscoveryService maxEntries maxCharacters =
     (let n = (case maxEntries of None \<Rightarrow> DEFAULT_MAX_ROSTER_ENTRIES | Some v \<Rightarrow> v);
          c = (case maxCharacters of None \<Rightarrow> DEFAULT_MAX_ROSTER_CHARACTERS | Some v \<Rightarrow> v)
      in if \<not> isSafeInteger n \<or> n < 1 \<or> \<not> isSafeInteger c \<or> c < 256 then None
         else Some \<lparr>do_maxRosterEntries = n, do_maxRosterCharacters = c\<rparr>)"

text \<open>The loop of \<open>roster\<close>: entries still to consider, and those included so far.\<close>

fun fillRoster ::
  "DiscoveryOptions \<Rightarrow> nat \<Rightarrow> ActiveAgentEntry list \<Rightarrow> ActiveAgentEntry list \<Rightarrow> ActiveAgentEntry list" where
  "fillRoster options number [] included = included"
| "fillRoster options number (e # es) included =
     (if int (length included) \<ge> do_maxRosterEntries options then included
      else
        let candidate = included @ [e]
        in if int (length (renderRosterContent candidate (number - length candidate)))
              > do_maxRosterCharacters options
           then included
           else fillRoster options number es candidate)"

record RenderedAgentRoster =
  ro_content :: string
  ro_included :: "ActiveAgentEntry list"
  ro_omittedCount :: nat
  ro_characterCount :: nat

definition roster ::
  "host \<Rightarrow> DiscoveryOptions \<Rightarrow> Tenants \<Rightarrow> OwnerScope \<Rightarrow> RenderedAgentRoster option" where
  "roster h options t ow =
     (case listAgents h t ow of
        None \<Rightarrow> None
      | Some entries \<Rightarrow>
        let activeAgents = filter (\<lambda>e. ae_kind e = KindAgent) entries;
            included = fillRoster options (length activeAgents) activeAgents [];
            omittedCount = length activeAgents - length included;
            content = renderRosterContent included omittedCount
        in Some \<lparr>ro_content = content, ro_included = included, ro_omittedCount = omittedCount,
             ro_characterCount = length content\<rparr>)"

section \<open>Search\<close>

record CursorPayload =
  cu_ownerHash :: string
  cu_query :: string
  cu_afterCanonicalName :: string
  cu_afterAgentId :: string

definition hashOwner :: "texts \<Rightarrow> OwnerScope \<Rightarrow> string" where
  "hashOwner x ow = base64url (hexBytes (sha256Text x
     (''eve-agent-builder-owner-v1:'' @
      jsonText (\<lambda>_. []) (JArray [JString (tenantKey ow), JString (ownerKey ow)]))))"

definition cursorJson :: "CursorPayload \<Rightarrow> JsonValue" where
  "cursorJson c = JObject
     [(''version'', JNumber 1), (''ownerHash'', JString (cu_ownerHash c)),
      (''query'', JString (cu_query c)), (''afterCanonicalName'', JString (cu_afterCanonicalName c)),
      (''afterAgentId'', JString (cu_afterAgentId c))]"

definition encodeCursor :: "CursorPayload \<Rightarrow> string" where
  "encodeCursor c = base64url (utf8 (jsonText (\<lambda>_. []) (cursorJson c)))"

definition MAX_CURSOR :: nat where "MAX_CURSOR = 4096"

text \<open>The schema of a decoded cursor, on the members of the parsed object.\<close>

definition cursorOf :: "(string \<times> JsonValue) list \<Rightarrow> CursorPayload option" where
  "cursorOf kvs =
     (case map (map_of kvs) [''version'', ''ownerHash'', ''query'', ''afterCanonicalName'', ''afterAgentId''] of
        [Some (JNumber v), Some (JString ownerHash), Some (JString query),
         Some (JString afterCanonicalName), Some (JString afterAgentId)] \<Rightarrow>
          if length kvs = 5 \<and> v = 1 \<and> length ownerHash = 43 \<and>
             list_all (\<lambda>c. c \<in> set BASE64URL) ownerHash \<and> length query \<le> 512 \<and>
             length afterCanonicalName \<le> 128 \<and> boundedString 1 512 afterAgentId
          then Some \<lparr>cu_ownerHash = ownerHash, cu_query = query,
            cu_afterCanonicalName = afterCanonicalName, cu_afterAgentId = afterAgentId\<rparr>
          else None
      | _ \<Rightarrow> None)"

definition decodeCursor :: "string \<Rightarrow> CursorPayload option" where
  "decodeCursor raw =
     (if raw = [] \<or> length raw > MAX_CURSOR then None
      else
        (case utf8Decode (base64urlDecode raw) of
           None \<Rightarrow> None
         | Some text \<Rightarrow>
           (case jsonParse text of
              Some (JObject kvs) \<Rightarrow> cursorOf kvs
            | _ \<Rightarrow> None)))"

record SearchActiveAgentsInput =
  se_query :: "string option"
  se_cursor :: "string option"
  se_limit :: "int option"

record SearchActiveAgentsPage =
  pg_entries :: "ActiveAgentEntry list"
  pg_nextCursor :: "string option"

datatype DiscoveryError = DISCOVERY_INVALID_INPUT | INVALID_CURSOR | DiscoveryThrown

definition searchInputSchema :: "SearchActiveAgentsInput \<Rightarrow> bool" where
  "searchInputSchema i \<longleftrightarrow>
     optionally (maxString 512) (se_query i) \<and> optionally (maxString MAX_CURSOR) (se_cursor i) \<and>
     optionally (\<lambda>n. isSafeInteger n \<and> 1 \<le> n \<and> n \<le> MAX_SEARCH_PAGE_SIZE) (se_limit i)"

fun findIndex :: "('a \<Rightarrow> bool) \<Rightarrow> 'a list \<Rightarrow> nat option" where
  "findIndex p [] = None"
| "findIndex p (x # xs) = (if p x then Some 0 else map_option Suc (findIndex p xs))"

definition pageAfter ::
  "string \<Rightarrow> string \<Rightarrow> ActiveAgentEntry list \<Rightarrow> nat \<Rightarrow> nat \<Rightarrow> SearchActiveAgentsPage" where
  "pageAfter ownerHash query entries afterIndex limit =
     (let page = take limit (drop afterIndex entries);
          hasMore = afterIndex + length page < length entries
      in \<lparr>pg_entries = page,
          pg_nextCursor =
            (if hasMore \<and> page \<noteq> []
             then Some (encodeCursor
               \<lparr>cu_ownerHash = ownerHash, cu_query = query,
                cu_afterCanonicalName = ae_canonicalName (last page),
                cu_afterAgentId = ae_agentId (last page)\<rparr>)
             else None)\<rparr>)"

definition searchAgents ::
  "host \<Rightarrow> texts \<Rightarrow> Tenants \<Rightarrow> OwnerScope \<Rightarrow> SearchActiveAgentsInput \<Rightarrow>
   DiscoveryError + SearchActiveAgentsPage" where
  "searchAgents h x t ow i =
     (if \<not> searchInputSchema i \<or> \<not> ownerScopeSchema ow then Inl DISCOVERY_INVALID_INPUT
      else
        let query = canonicalizeAgentName h (case se_query i of None \<Rightarrow> [] | Some q \<Rightarrow> q);
            ownerHash = hashOwner x ow;
            cursor = (case se_cursor i of None \<Rightarrow> None | Some c \<Rightarrow> decodeCursor c)
        in if se_cursor i \<noteq> None \<and>
              (case cursor of None \<Rightarrow> True | Some c \<Rightarrow> cu_ownerHash c \<noteq> ownerHash \<or> cu_query c \<noteq> query)
           then Inl INVALID_CURSOR
           else
             (case listAgents h t ow of
                None \<Rightarrow> Inl DiscoveryThrown
              | Some all \<Rightarrow>
                let entries = filter (matchesQuery h query) all;
                    afterIndex =
                      (case cursor of
                         None \<Rightarrow> 0
                       | Some c \<Rightarrow>
                         (case findIndex (\<lambda>e. ae_canonicalName e = cu_afterCanonicalName c \<and>
                                              ae_agentId e = cu_afterAgentId c) entries of
                            None \<Rightarrow> 0 | Some n \<Rightarrow> n + 1))
                in if cursor \<noteq> None \<and> afterIndex = 0 then Inl INVALID_CURSOR
                   else Inr (pageAfter ownerHash query entries afterIndex
                     (nat (case se_limit i of None \<Rightarrow> DEFAULT_SEARCH_PAGE_SIZE | Some n \<Rightarrow> n)))))"

section \<open>One agent\<close>

datatype ActiveAgentGetResult = AgentFound ActiveAgentEntry | AgentNotFound

definition getAgent :: "host \<Rightarrow> Tenants \<Rightarrow> OwnerScope \<Rightarrow> string \<Rightarrow> ActiveAgentGetResult option" where
  "getAgent h t ow agentId =
     (if \<not> identifierSchema agentId then Some AgentNotFound
      else map_option (\<lambda>entries.
        case List.find (\<lambda>e. ae_agentId e = agentId) entries of
          None \<Rightarrow> AgentNotFound | Some e \<Rightarrow> AgentFound e) (listAgents h t ow))"

datatype ActiveAgentRunAdmission =
    RunReady ActiveAgentEntry PublishedAgentVersion
  | LoadSkillRequired string string
  | RunNotFound

text \<open>\<open>None\<close> is the exception of the list.\<close>

definition admitRun ::
  "host \<Rightarrow> OwnerScope \<Rightarrow> string \<Rightarrow> ActiveAgentRunAdmission option program" where
  "admitRun h ow agentId = Query (\<lambda>t.
     case getAgent h t ow agentId of
       None \<Rightarrow> Return None
     | Some AgentNotFound \<Rightarrow> Return (Some RunNotFound)
     | Some (AgentFound e) \<Rightarrow>
       if ae_kind e = KindSkill then Return (Some (LoadSkillRequired (ae_agentId e) (ae_name e)))
       else Query (\<lambda>t'. Return (Some
         (case getVersion t' ow (ae_agentId e) (ae_specId e) (ae_version e) of
            None \<Rightarrow> RunNotFound
          | Some v \<Rightarrow> if v_kind v \<noteq> KindAgent then RunNotFound else RunReady e v))))"

end
