(* ===== verification/Discovery_Properties.thy ===== *)
theory Discovery_Properties
  imports Discovery Family_Properties
begin

text \<open>
  The properties of discovery: the pages of a search, and the size of the roster.
\<close>

section \<open>Cursors\<close>

definition digestsAreHex :: "texts \<Rightarrow> bool" where
  "digestsAreHex x \<longleftrightarrow> (\<forall>s. length (sha256Text x s) = 64 \<and> list_all isLowerHex (sha256Text x s))"

lemma hashOwner_shape:
  assumes "digestsAreHex x"
  shows "length (hashOwner x ow) = 43 \<and> list_all (\<lambda>c. c \<in> set BASE64URL) (hashOwner x ow)"
proof -
  let ?d = "sha256Text x (''eve-agent-builder-owner-v1:'' @
      jsonText (\<lambda>_. []) (JArray [JString (tenantKey ow), JString (ownerKey ow)]))"
  have "length ?d = 64" "list_all isLowerHex ?d" using assms by (auto simp: digestsAreHex_def)
  then have "length (hexBytes ?d) = 32" by (simp add: hexBytes_length)
  then show ?thesis by (simp add: hashOwner_def length_base64url base64url_alphabet)
qed

lemma plainJson_cursor: "plainJson (cursorJson c)"
proof -
  have "integral 1" by code_simp
  then show ?thesis by (simp add: cursorJson_def)
qed

lemma cursorOf_cursor:
  assumes "length (cu_ownerHash c) = 43" and "list_all (\<lambda>ch. ch \<in> set BASE64URL) (cu_ownerHash c)"
    and "length (cu_query c) \<le> 512" and "length (cu_afterCanonicalName c) \<le> 128"
    and "boundedString 1 512 (cu_afterAgentId c)"
  shows "\<exists>kvs. cursorJson c = JObject kvs \<and> cursorOf kvs = Some c"
  using assms by (simp add: cursorJson_def cursorOf_def)

lemma decodeCursor_encodeCursor:
  assumes "length (cu_ownerHash c) = 43" and "list_all (\<lambda>ch. ch \<in> set BASE64URL) (cu_ownerHash c)"
    and "length (cu_query c) \<le> 512" and "length (cu_afterCanonicalName c) \<le> 128"
    and "boundedString 1 512 (cu_afterAgentId c)" and "length (encodeCursor c) \<le> MAX_CURSOR"
  shows "decodeCursor (encodeCursor c) = Some c"
proof -
  from cursorOf_cursor[OF assms(1-5)] obtain kvs where kvs: "cursorJson c = JObject kvs" "cursorOf kvs = Some c"
    by blast
  have "jsonParse (jsonText (\<lambda>_. []) (cursorJson c)) = Some (JObject kvs)"
    using jsonParse_jsonText[OF plainJson_cursor, of _ c] kvs(1) by metis
  moreover have "encodeCursor c \<noteq> []"
  proof
    assume "encodeCursor c = []"
    then have "utf8Decode (base64urlDecode []) = Some (jsonText (\<lambda>_. []) (cursorJson c))"
      by (metis encodeCursor_def base64urlDecode_base64url utf8Decode_utf8)
    then have "jsonText (\<lambda>_. []) (cursorJson c) = []" by (simp add: base64urlDecode_def)
    then show False by (simp add: cursorJson_def)
  qed
  ultimately show ?thesis
    using assms(6) kvs(2)
    by (simp add: decodeCursor_def encodeCursor_def base64urlDecode_base64url utf8Decode_utf8)
qed

section \<open>Pages\<close>

lemma findIndex_nth:
  assumes "distinct (map entryKey es)" and "k < length es"
  shows "findIndex (\<lambda>e. ae_canonicalName e = ae_canonicalName (es ! k) \<and> ae_agentId e = ae_agentId (es ! k)) es =
    Some k"
  using assms
proof (induction es arbitrary: k)
  case (Cons e es)
  show ?case
  proof (cases k)
    case (Suc n)
    with Cons.prems have "entryKey (es ! n) \<in> set (map entryKey es)" by simp
    with Cons.prems(1) have "entryKey e \<noteq> entryKey (es ! n)" by auto
    with Suc Cons show ?thesis by (auto simp: entryKey_def)
  qed simp
qed simp

text \<open>All pages of a search, one request after the other, as long as there is a next cursor.\<close>

fun allPages ::
  "nat \<Rightarrow> (string option \<Rightarrow> DiscoveryError + SearchActiveAgentsPage) \<Rightarrow> string option \<Rightarrow>
   ActiveAgentEntry list option" where
  "allPages 0 request cursor = None"
| "allPages (Suc n) request cursor =
     (case request cursor of
        Inl _ \<Rightarrow> None
      | Inr page \<Rightarrow>
        (case pg_nextCursor page of
           None \<Rightarrow> Some (pg_entries page)
         | Some next \<Rightarrow> map_option ((@) (pg_entries page)) (allPages n request (Some next))))"

definition cursorAfter :: "string \<Rightarrow> string \<Rightarrow> ActiveAgentEntry \<Rightarrow> CursorPayload" where
  "cursorAfter ownerHash query e =
     \<lparr>cu_ownerHash = ownerHash, cu_query = query, cu_afterCanonicalName = ae_canonicalName e,
      cu_afterAgentId = ae_agentId e\<rparr>"

lemma pageAfter_next:
  assumes "0 < limit" and "k < length es"
  shows "pg_nextCursor (pageAfter oh q es k limit) =
    (if k + limit < length es then Some (encodeCursor (cursorAfter oh q (es ! (k + limit - 1)))) else None)"
proof (cases "k + limit < length es")
  case True
  then have "last (take limit (drop k es)) = es ! (k + limit - 1)"
    using assms by (subst last_conv_nth) auto
  with True assms show ?thesis by (auto simp: pageAfter_def cursorAfter_def)
next
  case False
  with assms show ?thesis by (simp add: pageAfter_def)
qed

lemma allPages_from:
  assumes "\<And>k. 0 < k \<Longrightarrow> k < length es \<Longrightarrow>
      request (Some (encodeCursor (cursorAfter oh q (es ! (k - 1))))) = Inr (pageAfter oh q es k limit)"
    and "0 < limit" and "k < length es" and "length es - k \<le> n * limit"
    and "request c = Inr (pageAfter oh q es k limit)"
  shows "allPages n request c = Some (drop k es)"
  using assms(3-5)
proof (induction n arbitrary: k c)
  case (Suc n)
  note next_cursor = pageAfter_next[OF assms(2) Suc.prems(1), of oh q]
  have entries: "pg_entries (pageAfter oh q es k limit) = take limit (drop k es)"
    by (simp add: pageAfter_def Let_def)
  show ?case
  proof (cases "k + limit < length es")
    case True
    have "allPages n request (Some (encodeCursor (cursorAfter oh q (es ! (k + limit - 1))))) = Some (drop (k + limit) es)"
      using True Suc.prems(2) assms(2) by (intro Suc.IH assms(1)) simp_all
    moreover have "take limit (drop k es) @ drop (k + limit) es = drop k es"
      by (metis append_take_drop_id drop_drop add.commute)
    ultimately show ?thesis using True Suc.prems(3) next_cursor entries by simp
  next
    case False
    then show ?thesis using Suc.prems(3) next_cursor entries by simp
  qed
qed simp

lemma activeRecord_Some:
  "activeRecord rec = Inr (Some y) \<Longrightarrow> af_family y = fr_family rec \<and> af_activeVersion y \<in> set (fr_versions rec)"
  by (auto simp: activeRecord_def Let_def findVersion_def dest: find_SomeD split: option.splits if_splits)

lemma activeRecords_listed:
  assumes "activeRecords recs = Inr xs"
  shows "\<And>x. x \<in> set xs \<Longrightarrow> \<exists>rec \<in> set recs. af_family x = fr_family rec \<and> af_activeVersion x \<in> set (fr_versions rec)"
    and "distinct (map (\<lambda>rec. fam_agentId (fr_family rec)) recs) \<Longrightarrow> distinct (map (\<lambda>x. fam_agentId (af_family x)) xs)"
  using assms
proof (induction recs arbitrary: xs)
  case (Cons rec recs)
  {
    case 1
    from 1(2) obtain r rs where r: "activeRecord rec = Inr r" "activeRecords recs = Inr rs"
      "xs = (case r of None \<Rightarrow> rs | Some x \<Rightarrow> x # rs)"
      by (auto split: sum.splits)
    have "af_family y = fr_family rec \<and> af_activeVersion y \<in> set (fr_versions rec)" if "r = Some y" for y
      using activeRecord_Some[of rec y] r(1) that by simp
    moreover have "x \<in> set rs \<or> r = Some x" using r(3) 1(1) by (cases r) auto
    ultimately show ?case using Cons.IH(1)[OF _ r(2), of x] by (elim disjE) simp_all
  next
    case 2
    from 2(2) obtain r rs where r: "activeRecord rec = Inr r" "activeRecords recs = Inr rs"
      "xs = (case r of None \<Rightarrow> rs | Some x \<Rightarrow> x # rs)"
      by (auto split: sum.splits)
    have "af_family y = fr_family rec" if "r = Some y" for y
      using activeRecord_Some[of rec y] r(1) that by simp
    moreover have "fam_agentId (fr_family rec) \<notin> (\<lambda>x. fam_agentId (af_family x)) ` set rs"
      using Cons.IH(1)[OF _ r(2)] 2(1) by force
    moreover have "distinct (map (\<lambda>x. fam_agentId (af_family x)) rs)" using Cons.IH(2)[OF _ r(2)] 2(1) by simp
    ultimately show ?case by (cases r) (simp_all add: r(3))
  }
qed simp_all

lemma listAgents_ok:
  assumes "reachable h t" and "listAgents h t ow = Some all"
  shows "distinct (map entryKey all)"
    and "\<And>e. e \<in> set all \<Longrightarrow> length (ae_canonicalName e) \<le> 128 \<and> identifierSchema (ae_agentId e)"
proof -
  let ?recs = "values_of (families (bucketOf t ow))"
  from assms(2) obtain xs where xs: "activeRecords ?recs = Inr xs" "all = sort_key entryKey (map (toEntry h) xs)"
    by (auto simp: listAgents_def listActiveFamilies_def bucketOf_def emptyBucket_def split: if_splits option.splits sum.splits)
  have rec: "record_ok h ow aid rec" if "(aid, rec) \<in> set (families (bucketOf t ow))" for aid rec
    using that families_okD(1,2)[OF reachable_families[OF assms(1), of ow]] keys_distinct_lookup by metis
  have "map (\<lambda>rec. fam_agentId (fr_family rec)) ?recs = map fst (families (bucketOf t ow))"
    using rec by (auto simp: record_ok_def)
  then have "distinct (map (\<lambda>rec. fam_agentId (fr_family rec)) ?recs)"
    using families_okD(1)[OF reachable_families[OF assms(1), of ow]] by (simp only:)
  from activeRecords_listed(2)[OF xs(1) this] have "distinct (map (\<lambda>x. ae_agentId (toEntry h x)) xs)"
    by (simp add: toEntry_def Let_def)
  then have "distinct (map entryKey (map (toEntry h) xs))"
    by (simp add: distinct_map entryKey_def comp_def inj_on_def)
  then show "distinct (map entryKey all)"
    unfolding xs(2) by (rule distinct_sort_key)
  fix e assume "e \<in> set all"
  then obtain x where x: "x \<in> set xs" "e = toEntry h x" by (auto simp: xs(2))
  from activeRecords_listed(1)[OF xs(1) x(1)] obtain aid rec where r: "(aid, rec) \<in> set (families (bucketOf t ow))"
    "af_family x = fr_family rec" "af_activeVersion x \<in> set (fr_versions rec)" by auto
  from rec[OF r(1)] r(2,3) show "length (ae_canonicalName e) \<le> 128 \<and> identifierSchema (ae_agentId e)"
    by (auto simp: x(2) toEntry_def Let_def record_ok_def publishedAgentVersionSchema_def savedAgentNameSchema_def
        savedAgentFamilySchema_def)
qed

text \<open>Without control characters a cursor is short: JSON text and UTF-8 take at most two bytes for a character.\<close>

definition printable :: "string \<Rightarrow> bool" where
  "printable s \<longleftrightarrow> list_all (\<lambda>c. (32 :: nat) \<le> of_char c) s"

lemma utf8_append [simp]: "utf8 (s @ s') = utf8 s @ utf8 s'"
  by (simp add: utf8_def)

lemma utf8_Cons: "length (utf8 (c # s)) \<le> 2 + length (utf8 s)"
  by (simp add: utf8_def utf8Char_def Let_def)

lemma escapeChar_bytes:
  assumes "(32 :: nat) \<le> of_char c" shows "length (utf8 (escapeChar c)) \<le> 2"
proof (cases "c = QUOTE \<or> c = BACKSLASH")
  case True
  then have "escapeChar c = [BACKSLASH, c]" by (simp add: escapeChar_def)
  moreover have "length (utf8 [BACKSLASH, QUOTE]) = 2" "length (utf8 [BACKSLASH, BACKSLASH]) = 2" by code_simp+
  ultimately show ?thesis using True by auto
next
  case False
  then have "escapeChar c = [c]" using assms by (auto simp: escapeChar_def)
  then show ?thesis using utf8_Cons[of c "[]"] by (simp add: utf8_def)
qed

lemma jsonString_bytes:
  assumes "printable s" shows "length (utf8 (jsonString s)) \<le> 2 * length s + 2"
proof -
  have "length (utf8 [QUOTE]) = 1" by code_simp
  moreover have "length (utf8 (concat (map escapeChar s))) \<le> 2 * length s"
    using assms by (induction s) (auto simp: printable_def utf8_def dest!: escapeChar_bytes)
  ultimately show ?thesis
    using utf8_append[of "[QUOTE]" "concat (map escapeChar s) @ [QUOTE]"] by (simp add: jsonString_def)
qed

lemma cursor_fits:
  assumes "printable (cu_query c)" "printable (cu_afterCanonicalName c)" "printable (cu_afterAgentId c)"
    and "printable (cu_ownerHash c)" "length (cu_ownerHash c) = 43" "length (cu_query c) \<le> 512"
    and "length (cu_afterCanonicalName c) \<le> 128" "length (cu_afterAgentId c) \<le> 512"
  shows "length (encodeCursor c) \<le> MAX_CURSOR"
proof -
  let ?t = "jsonText (\<lambda>_. []) (cursorJson c)" and ?n = "jsonString"
  define a b d e f where "a = ''{'' @ ?n ''version'' @ '':'' @ numberText (\<lambda>_. []) 1 @ '','' @ ?n ''ownerHash'' @ '':''"
    and "b = '','' @ ?n ''query'' @ '':''" and "d = '','' @ ?n ''afterCanonicalName'' @ '':''"
    and "e = '','' @ ?n ''afterAgentId'' @ '':''" and "f = ''}''"
  have t: "?t = a @ ?n (cu_ownerHash c) @ b @ ?n (cu_query c) @ d @ ?n (cu_afterCanonicalName c) @ e @
      ?n (cu_afterAgentId c) @ f"
    by (simp add: cursorJson_def a_def b_def d_def e_def f_def)
  have "length (utf8 a) + length (utf8 b) + length (utf8 d) + length (utf8 e) + length (utf8 f) \<le> 100"
    unfolding a_def b_def d_def e_def f_def by code_simp
  then have "length (utf8 ?t) \<le> 3072"
    using assms(1-4)[THEN jsonString_bytes] assms(5-8) unfolding t by simp
  then show ?thesis by (simp add: encodeCursor_def length_base64url MAX_CURSOR_def)
qed

lemma base64url_printable: "list_all (\<lambda>ch. ch \<in> set BASE64URL) s \<Longrightarrow> printable s"
proof -
  have "list_all (\<lambda>c. (32 :: nat) \<le> of_char c) BASE64URL" by code_simp
  then show "list_all (\<lambda>ch. ch \<in> set BASE64URL) s \<Longrightarrow> printable s"
    by (auto simp: printable_def list_all_iff)
qed

text \<open>C39. The pages of a search are complete: following the cursors from the first page on, while the
  store does not change, ends after one page per full page size of matching agents (at least one
  page) and gives exactly the matching active agents, in order, each once. The condition is that
  the query in its canonical form has at most 512 characters and that neither it nor the names and
  ids of the agents have control characters; then every cursor has the length that the service
  accepts, which it may exceed otherwise.\<close>

theorem search_pages_complete:
  assumes "reachable h t" and "digestsAreHex x" and "listAgents h t ow = Some all"
    and "length query \<le> 512" and "length (canonicalizeAgentName h query) \<le> 512"
    and "1 \<le> limit" and "limit \<le> MAX_SEARCH_PAGE_SIZE"
    and "printable (canonicalizeAgentName h query)"
    and "list_all (\<lambda>e. printable (ae_canonicalName e) \<and> printable (ae_agentId e)) all"
    and "matching = filter (matchesQuery h (canonicalizeAgentName h query)) all"
  shows "allPages (max 1 ((length matching + nat limit - 1) div nat limit))
    (\<lambda>c. searchAgents h x t ow \<lparr>se_query = Some query, se_cursor = c, se_limit = Some limit\<rparr>) None =
    Some matching"
proof -
  let ?q = "canonicalizeAgentName h query" and ?oh = "hashOwner x ow"
  let ?request = "\<lambda>c. searchAgents h x t ow \<lparr>se_query = Some query, se_cursor = c, se_limit = Some limit\<rparr>"
  define es where "es = filter (matchesQuery h ?q) all"
  have ow: "ownerScopeSchema ow" using assms(3) by (auto simp: listAgents_def split: if_splits)
  have limit: "isSafeInteger limit" "0 < nat limit"
    using assms(6,7) by (simp_all add: MAX_SEARCH_PAGE_SIZE_def isSafeInteger_def MAX_SAFE_INTEGER_def)
  have first: "?request None = Inr (pageAfter ?oh ?q es 0 (nat limit))"
    using ow assms(3-7) limit by (simp add: searchAgents_def searchInputSchema_def maxString_def es_def Let_def)
  have later: "?request (Some (encodeCursor (cursorAfter ?oh ?q (es ! (k - 1))))) =
      Inr (pageAfter ?oh ?q es k (nat limit))" if k: "0 < k" "k < length es" for k
  proof -
    let ?e = "es ! (k - 1)"
    have e: "?e \<in> set all" "?e \<in> set es" using k nth_mem[of "k - 1" es] by (auto simp: es_def)
    then have len: "length (encodeCursor (cursorAfter ?oh ?q ?e)) \<le> MAX_CURSOR"
      using assms(5,8,9) hashOwner_shape[OF assms(2), of ow] listAgents_ok(2)[OF assms(1,3) e(1)]
      by (intro cursor_fits) (simp_all add: cursorAfter_def list_all_iff identifierSchema_def boundedString_def
          base64url_printable[unfolded list_all_iff])
    have "decodeCursor (encodeCursor (cursorAfter ?oh ?q ?e)) = Some (cursorAfter ?oh ?q ?e)"
      using len hashOwner_shape[OF assms(2), of ow] listAgents_ok(2)[OF assms(1,3) e(1)] assms(5)
      by (intro decodeCursor_encodeCursor) (simp_all add: cursorAfter_def identifierSchema_def)
    moreover have "findIndex (\<lambda>e. ae_canonicalName e = ae_canonicalName ?e \<and> ae_agentId e = ae_agentId ?e) es = Some (k - 1)"
      using listAgents_ok(1)[OF assms(1,3)] k by (intro findIndex_nth) (simp_all add: es_def distinct_map_filter)
    ultimately show ?thesis
      using ow assms(3-7) limit len k
      by (simp add: searchAgents_def searchInputSchema_def maxString_def Let_def cursorAfter_def flip: es_def)
  qed
  have matching: "matching = es" by (simp add: assms(10) es_def)
  show ?thesis
  proof (cases "es = []")
    case True
    moreover have "(nat limit - Suc 0) div nat limit = 0" using limit(2) by simp
    ultimately show ?thesis using first by (simp add: matching pageAfter_def)
  next
    case False
    let ?l = "nat limit" and ?n = "(length es + nat limit - 1) div nat limit"
    have "length es + ?l - 1 < Suc ?n * ?l"
      using dividend_less_div_times[OF limit(2), of "length es + ?l - 1"] by simp
    then have "length es \<le> ?n * ?l" using limit(2) unfolding mult_Suc by linarith
    moreover have "0 < length es" using False by simp
    then have "?l \<le> length es + ?l - 1" by linarith
    then have "0 < ?n" using limit(2) by (simp add: div_greater_zero_iff)
    ultimately have "allPages ?n ?request None = Some (drop 0 es)"
      using False limit(2) by (intro allPages_from[OF later _ _ _ first]) simp_all
    moreover have "max 1 ?n = ?n" using \<open>0 < ?n\<close> by simp
    ultimately show ?thesis by (simp add: matching)
  qed
qed

section \<open>The roster\<close>

lemma natText_length: "n < 10 ^ k \<Longrightarrow> 0 < k \<Longrightarrow> length (natText n) \<le> k"
proof (induction n arbitrary: k rule: natText.induct)
  case (1 n)
  show ?case
  proof (cases "n < 10")
    case True
    then show ?thesis using 1(3) by (subst natText.simps) simp
  next
    case False
    then obtain j where j: "k = Suc j" "0 < j" using 1(2,3) by (cases k; cases "k - 1") auto
    have "n div 10 < 10 ^ j" using 1(2) by (simp add: j(1) less_mult_imp_div_less mult.commute)
    from 1(1)[OF False this j(2)] False show ?thesis by (subst natText.simps) (simp add: j(1))
  qed
qed

lemma fillRoster_spec:
  "\<exists>k. fillRoster options n es inc = inc @ take k es \<and>
    (fillRoster options n es inc = inc \<or>
     int (length (renderRosterContent (fillRoster options n es inc) (n - length (fillRoster options n es inc))))
       \<le> do_maxRosterCharacters options) \<and>
    (int (length inc) \<le> do_maxRosterEntries options \<longrightarrow>
     int (length (fillRoster options n es inc)) \<le> do_maxRosterEntries options)"
proof (induction options n es inc rule: fillRoster.induct)
  case (2 options n e es inc)
  let ?stop = "int (length inc) \<ge> do_maxRosterEntries options"
  let ?full = "int (length (renderRosterContent (inc @ [e]) (n - length (inc @ [e])))) > do_maxRosterCharacters options"
  show ?case
  proof (cases "?stop \<or> ?full")
    case True
    then have "fillRoster options n (e # es) inc = inc" by auto
    then show ?thesis by (intro exI[of _ 0]) (simp del: fillRoster.simps)
  next
    case False
    then have next_step: "fillRoster options n (e # es) inc = fillRoster options n es (inc @ [e])" by auto
    let ?r = "fillRoster options n es (inc @ [e])"
    have go: "\<not> ?stop" "\<not> ?full" using False by simp_all
    obtain k where k: "?r = (inc @ [e]) @ take k es"
      "?r = inc @ [e] \<or> int (length (renderRosterContent ?r (n - length ?r))) \<le> do_maxRosterCharacters options"
      "int (length (inc @ [e])) \<le> do_maxRosterEntries options \<longrightarrow> int (length ?r) \<le> do_maxRosterEntries options"
      using 2[OF go(1) refl go(2)] by (elim exE conjE) (rule that)
    from k(2) go have "int (length (renderRosterContent ?r (n - length ?r))) \<le> do_maxRosterCharacters options"
      by (elim disjE) simp_all
    moreover have "int (length ?r) \<le> do_maxRosterEntries options" using k(3) go by simp
    moreover have "?r = inc @ take (Suc k) (e # es)" using k(1) by simp
    ultimately show ?thesis unfolding next_step by blast
  qed
qed (intro exI[of _ 0], simp)

lemma empty_roster_length: "n < 2 ^ 32 \<Longrightarrow> length (renderRosterContent [] n) \<le> 256"
proof -
  assume "n < 2 ^ 32"
  then have "length (natText n) \<le> 10" by (intro natText_length) simp_all
  then show ?thesis by (simp add: renderRosterContent_def joinLines_def ROSTER_TITLE_def ROSTER_HINT_def)
qed

text \<open>C40. The roster respects its budget: its text is never longer than the configured number of
  characters and names at most the configured number of agents; the agents named are the first of
  the sorted list, and all others are counted as omitted.\<close>

theorem roster_within_budget:
  assumes "newDiscoveryService a b = Some options" and "roster h options t ow = Some r"
    and "length (ro_included r) + ro_omittedCount r < 2 ^ 32"
  shows "int (ro_characterCount r) \<le> do_maxRosterCharacters options \<and>
    int (length (ro_included r)) \<le> do_maxRosterEntries options \<and>
    ro_characterCount r = length (ro_content r) \<and>
    (\<exists>entries rest. listAgents h t ow = Some entries \<and>
       filter (\<lambda>e. ae_kind e = KindAgent) entries = ro_included r @ rest \<and> ro_omittedCount r = length rest)"
proof -
  from assms(2) obtain entries where entries: "listAgents h t ow = Some entries"
    by (auto simp: roster_def split: option.splits)
  define es where "es = filter (\<lambda>e. ae_kind e = KindAgent) entries"
  let ?inc = "fillRoster options (length es) es []"
  have r: "ro_included r = ?inc" "ro_omittedCount r = length es - length ?inc"
    "ro_content r = renderRosterContent ?inc (length es - length ?inc)"
    "ro_characterCount r = length (ro_content r)"
    using assms(2) entries by (auto simp: roster_def es_def Let_def)
  have options: "1 \<le> do_maxRosterEntries options" "256 \<le> do_maxRosterCharacters options"
    using assms(1) by (auto simp: newDiscoveryService_def Let_def split: if_splits)
  obtain k where k: "?inc = [] @ take k es"
    "?inc = [] \<or> int (length (ro_content r)) \<le> do_maxRosterCharacters options"
    "int (length ([] :: ActiveAgentEntry list)) \<le> do_maxRosterEntries options \<longrightarrow>
       int (length ?inc) \<le> do_maxRosterEntries options"
    using fillRoster_spec[of options "length es" es "[]", folded r(3)] by (elim exE conjE)
  have "int (length (ro_content r)) \<le> do_maxRosterCharacters options"
  proof (cases "?inc = []")
    case True
    then have "ro_content r = renderRosterContent [] (length es)" by (simp add: r(3))
    moreover have "length es < 2 ^ 32" using assms(3) True by (simp add: r(1,2))
    ultimately show ?thesis using empty_roster_length[of "length es"] options(2) by simp
  qed (use k(2) in blast)
  moreover have "es = ?inc @ drop k es" "length es - length ?inc = length (drop k es)" by (simp_all add: k(1))
  moreover have "int (length ?inc) \<le> do_maxRosterEntries options" using k(3) options(1) by simp
  ultimately show ?thesis
    unfolding r(1,2,4) using entries es_def by metis
qed

section \<open>Finding\<close>

lemma symbols_match: "tokens h q = [] \<Longrightarrow> matchesQuery h q e"
  by (simp add: matchesQuery_def)

lemma splitTokens_none: "list_all (\<lambda>c. \<not> isLetterOrNumber c) s \<Longrightarrow> splitTokens s = []"
  by (subst splitTokens.simps) (simp add: list_all_iff dropWhile_eq_Nil_conv[THEN iffD2])

definition controlQuery :: string where
  "controlQuery = replicate 512 (CHR 0x01)"

lemma length_utf8: "length s \<le> length (utf8 s)"
  by (induction s) (auto simp: utf8_def utf8Char_def Let_def)

lemma control_cursor_long: "cu_query c = controlQuery \<Longrightarrow> MAX_CURSOR < length (encodeCursor c)"
proof -
  assume q: "cu_query c = controlQuery"
  have "escapeChar (CHR 0x01) = [BACKSLASH, CHR ''u'', CHR ''0'', CHR ''0'', CHR ''0'', CHR ''1'']" by code_simp
  then have "length (concat (map escapeChar (replicate n (CHR 0x01)))) = 6 * n" for n
    by (induction n) simp_all
  then have "3072 \<le> length (jsonString (cu_query c))" by (simp add: q controlQuery_def jsonString_def)
  then have "3072 \<le> length (jsonText (\<lambda>_. []) (cursorJson c))" by (simp add: cursorJson_def)
  moreover have "length (jsonText (\<lambda>_. []) (cursorJson c)) \<ge> length (jsonString (cu_query c)) + 2"
    by (simp add: cursorJson_def)
  ultimately show ?thesis
    using \<open>3072 \<le> length (jsonString (cu_query c))\<close> length_utf8[of "jsonText (\<lambda>_. []) (cursorJson c)"]
    by (simp add: encodeCursor_def length_base64url MAX_CURSOR_def)
qed

text \<open>Finding. The service refuses a cursor of its own: a query of 512 control characters is accepted and,
  having no letter or digit, matches every agent; but when there is a next page, its cursor is
  longer than the 4096 characters that a search accepts, so the remaining agents cannot be reached.\<close>

theorem own_cursor_refused:
  assumes "canonicalizeAgentName h controlQuery = controlQuery" and "listAgents h t ow = Some all"
    and "1 \<le> limit" and "limit \<le> MAX_SEARCH_PAGE_SIZE" and "nat limit < length all"
  shows "\<exists>page c.
    searchAgents h x t ow \<lparr>se_query = Some controlQuery, se_cursor = None, se_limit = Some limit\<rparr> = Inr page \<and>
    pg_entries page = take (nat limit) all \<and> pg_nextCursor page = Some c \<and>
    searchAgents h x t ow \<lparr>se_query = Some controlQuery, se_cursor = Some c, se_limit = Some limit\<rparr> =
      Inl DISCOVERY_INVALID_INPUT"
proof -
  have ow: "ownerScopeSchema ow" using assms(2) by (auto simp: listAgents_def split: if_splits)
  have limit: "isSafeInteger limit" "0 < nat limit"
    using assms(3,4) by (simp_all add: MAX_SEARCH_PAGE_SIZE_def isSafeInteger_def MAX_SAFE_INTEGER_def)
  have len: "length controlQuery \<le> 512" by (simp add: controlQuery_def)
  have "\<not> isLetterOrNumber (CHR 0x01)" by code_simp
  then have "tokens h controlQuery = []"
    unfolding tokens_def assms(1) by (intro splitTokens_none) (simp add: controlQuery_def list_all_iff)
  then have "filter (matchesQuery h controlQuery) all = all"
    by (simp add: symbols_match)
  then have first: "searchAgents h x t ow \<lparr>se_query = Some controlQuery, se_cursor = None, se_limit = Some limit\<rparr> =
      Inr (pageAfter (hashOwner x ow) controlQuery all 0 (nat limit))"
    using ow assms limit len by (simp add: searchAgents_def searchInputSchema_def maxString_def Let_def)
  let ?c = "encodeCursor (cursorAfter (hashOwner x ow) controlQuery (all ! (nat limit - 1)))"
  have "pg_nextCursor (pageAfter (hashOwner x ow) controlQuery all 0 (nat limit)) = Some ?c"
    using pageAfter_next[OF limit(2), of 0 all] assms(5) by (cases all) simp_all
  moreover have "MAX_CURSOR < length ?c" by (rule control_cursor_long) (simp add: cursorAfter_def)
  then have "searchAgents h x t ow \<lparr>se_query = Some controlQuery, se_cursor = Some ?c, se_limit = Some limit\<rparr> =
      Inl DISCOVERY_INVALID_INPUT"
    by (simp add: searchAgents_def searchInputSchema_def maxString_def)
  moreover have "pg_entries (pageAfter (hashOwner x ow) controlQuery all 0 (nat limit)) = take (nat limit) all"
    by (simp add: pageAfter_def Let_def)
  ultimately show ?thesis using first by blast
qed

section \<open>Examples\<close>

definition exDigests :: texts where
  "exDigests = \<lparr>sha256Text = (\<lambda>_. replicate 64 (CHR ''a'')), otherNumberText = (\<lambda>_. ''0'')\<rparr>"

definition exEntry :: ActiveAgentEntry where
  "exEntry = \<lparr>ae_agentId = ''a'', ae_specId = ''spec'', ae_version = 1, ae_name = ''Mail agent'',
     ae_canonicalName = ''mail agent'', ae_kind = KindAgent, ae_description = [], ae_familyRevision = 4\<rparr>"

lemma exEntry_listed: "listAgents exHost exState8 exOwner = Some [exEntry]"
  by code_simp

lemma exDigests_hex: "digestsAreHex exDigests"
  by (simp add: digestsAreHex_def exDigests_def isLowerHex_def isDigit_def list_all_iff)

theorem search_pages_complete_witness:
  "allPages 1 (\<lambda>c. searchAgents exHost exDigests exState8 exOwner
      \<lparr>se_query = Some ''mai'', se_cursor = c, se_limit = Some 1\<rparr>) None = Some [exEntry]"
proof -
  have "canonicalizeAgentName exHost ''mai'' = ''mai''" "matchesQuery exHost ''mai'' exEntry" "printable ''mai''"
    "printable (ae_canonicalName exEntry)" "printable (ae_agentId exEntry)" by code_simp+
  then show ?thesis
    using search_pages_complete[OF exStates_reachable(8) exDigests_hex exEntry_listed, of "''mai''" 1 "[exEntry]"]
    by (simp add: MAX_SEARCH_PAGE_SIZE_def)
qed

definition exDiscovery :: DiscoveryOptions where
  "exDiscovery = \<lparr>do_maxRosterEntries = 25, do_maxRosterCharacters = 12000\<rparr>"

definition exRoster :: RenderedAgentRoster where
  "exRoster = \<lparr>ro_content = renderRosterContent [exEntry] 0, ro_included = [exEntry],
     ro_omittedCount = 0, ro_characterCount = length (renderRosterContent [exEntry] 0)\<rparr>"

theorem roster_within_budget_witness:
  "int (length (renderRosterContent [exEntry] 0)) \<le> 12000"
proof -
  have "newDiscoveryService None None = Some exDiscovery" by code_simp
  moreover have "fillRoster exDiscovery 1 [exEntry] [] = [exEntry]" by code_simp
  then have "roster exHost exDiscovery exState8 exOwner = Some exRoster"
    by (simp add: roster_def exEntry_listed exRoster_def exEntry_def Let_def del: fillRoster.simps)
  ultimately show ?thesis
    using roster_within_budget[of None None exDiscovery exHost exState8 exOwner exRoster]
    by (simp add: exRoster_def exDiscovery_def)
qed

definition exTwoAgents :: Tenants where
  "exTwoAgents = exStore ((exBucket 0 0 exPublished [exVersion] exWorkflow7)
     \<lparr>families := [(''a'', \<lparr>fr_family = exPublished, fr_versions = [exVersion]\<rparr>),
        (''b'', \<lparr>fr_family = exPublished\<lparr>fam_agentId := ''b''\<rparr>, fr_versions = [exVersion\<lparr>v_agentId := ''b''\<rparr>]\<rparr>)]\<rparr>)"

lemma controlQuery_canonical: "canonicalizeAgentName exHost controlQuery = controlQuery"
proof -
  have c: "\<not> isWhiteSpace (CHR 0x01)" "\<not> isTrimmed (CHR 0x01)" "lowerChar (CHR 0x01) = CHR 0x01" by code_simp+
  have "collapseWhiteSpace (replicate n (CHR 0x01)) = replicate n (CHR 0x01)" for n
    using c(1) by (induction n) simp_all
  moreover have "dropWhile isTrimmed (replicate n (CHR 0x01)) = replicate n (CHR 0x01)" for n
    using c(2) by (cases n) simp_all
  ultimately show ?thesis by (simp add: canonicalizeAgentName_def controlQuery_def exHost_def trim_def c(3))
qed

theorem own_cursor_refused_witness:
  "\<exists>page c.
    searchAgents exHost exDigests exTwoAgents exOwner
      \<lparr>se_query = Some controlQuery, se_cursor = None, se_limit = Some 1\<rparr> = Inr page \<and>
    pg_entries page = [exEntry] \<and> pg_nextCursor page = Some c \<and>
    searchAgents exHost exDigests exTwoAgents exOwner
      \<lparr>se_query = Some controlQuery, se_cursor = Some c, se_limit = Some 1\<rparr> = Inl DISCOVERY_INVALID_INPUT"
proof -
  have "listAgents exHost exTwoAgents exOwner = Some [exEntry, exEntry\<lparr>ae_agentId := ''b''\<rparr>]"
    by code_simp
  from own_cursor_refused[OF controlQuery_canonical this, of 1 exDigests] show ?thesis by (simp add: MAX_SEARCH_PAGE_SIZE_def)
qed

end
