(* ===== verification/Service_Input.thy ===== *)
theory Service_Input
  imports Program Fingerprint
begin

text \<open>
  What every operation of the agent builder service starts with
  (\<open>packages/eve-agent-builder/extension/lib/service.ts\<close> and the input schemas of \<open>domain.ts\<close>): the
  resolution of the owner from the authenticated principal, the parsing of the input, the
  fingerprint of the request, and the look into the log of mutations. An input of the code has
  type \<open>unknown\<close>: here it is \<open>None\<close> when it does not have the shape of its type, and otherwise the
  value, which still has to pass its schema. The texts of errors are left out.
\<close>

section \<open>The owner of an operation\<close>

datatype AuthAttribute = TextAttribute string | ListAttribute "string list"

record SessionAuthContext =
  sa_attributes :: "(string \<times> AuthAttribute) list"
  sa_authenticator :: string
  sa_issuer :: "string option"
  sa_principalId :: string
  sa_principalType :: string
  sa_subject :: "string option"

definition sessionAuthContextSchema :: "SessionAuthContext \<Rightarrow> bool" where
  "sessionAuthContextSchema s \<longleftrightarrow>
     1 \<le> length (sa_authenticator s) \<and> 1 \<le> length (sa_principalId s) \<and> 1 \<le> length (sa_principalType s)"

record OwnerResolutionInput =
  or_current :: "SessionAuthContext option"
  or_initiator :: "SessionAuthContext option"
  or_channelKind :: "string option"
  or_channelMetadata :: "(string \<times> JsonValue) list option"

definition ownerResolutionInputSchema :: "OwnerResolutionInput \<Rightarrow> bool" where
  "ownerResolutionInputSchema i \<longleftrightarrow>
     optionally sessionAuthContextSchema (or_current i) \<and>
     optionally sessionAuthContextSchema (or_initiator i)"

text \<open>What the host's owner resolver does: it throws, returns \<open>null\<close>, a value that is no owner
  scope at all, or an owner scope (which may break the schema).\<close>

datatype ResolverAnswer = ResolverThrows | ResolverNull | ResolverMalformed | ResolverOwner OwnerScope

type_synonym ResolveOwner = "OwnerResolutionInput \<Rightarrow> ResolverAnswer"

datatype AgentBuilderError =
    INVALID_OWNER_CONTEXT
  | OWNER_RESOLUTION_FAILED
  | USER_PRINCIPAL_REQUIRED
  | SERVICE_INVALID_INPUT
  | SERVICE_DEPENDENCY_CONTRACT_VIOLATION
  | SERVICE_OWNER_MISMATCH
  | StoreFailure AgentBuilderStoreError

type_synonym 'a AgentBuilderResult = "AgentBuilderError + 'a"

definition resolveCurrentOwner ::
  "OwnerResolutionInput option \<Rightarrow> ResolveOwner \<Rightarrow> (OwnerScope \<times> SessionAuthContext) AgentBuilderResult" where
  "resolveCurrentOwner rawInput resolver =
     (case rawInput of
        None \<Rightarrow> Inl INVALID_OWNER_CONTEXT
      | Some i \<Rightarrow>
        if \<not> ownerResolutionInputSchema i then Inl INVALID_OWNER_CONTEXT
        else
          (case or_current i of
             None \<Rightarrow> Inl USER_PRINCIPAL_REQUIRED
           | Some actor \<Rightarrow>
             if sa_principalType actor \<noteq> ''user'' then Inl USER_PRINCIPAL_REQUIRED
             else
               (case resolver i of
                  ResolverThrows \<Rightarrow> Inl OWNER_RESOLUTION_FAILED
                | ResolverNull \<Rightarrow> Inl USER_PRINCIPAL_REQUIRED
                | ResolverMalformed \<Rightarrow> Inl OWNER_RESOLUTION_FAILED
                | ResolverOwner ow \<Rightarrow>
                    if \<not> ownerScopeSchema ow then Inl OWNER_RESOLUTION_FAILED else Inr (ow, actor))))"

section \<open>Requests as JSON\<close>

text \<open>The members of an object that are not \<open>undefined\<close>.\<close>

definition optMember :: "string \<Rightarrow> ('a \<Rightarrow> JsonValue) \<Rightarrow> 'a option \<Rightarrow> (string \<times> JsonValue) list" where
  "optMember k f x = (case x of None \<Rightarrow> [] | Some v \<Rightarrow> [(k, f v)])"

abbreviation intJson :: "int \<Rightarrow> JsonValue" where
  "intJson n \<equiv> JNumber (of_int n)"

definition stringsJson :: "string list \<Rightarrow> JsonValue" where
  "stringsJson ss = JArray (map JString ss)"

fun kindText :: "SavedAgentKind \<Rightarrow> string" where
  "kindText KindAgent = ''agent''"
| "kindText KindSkill = ''skill''"

fun levelText :: "RequirementLevel \<Rightarrow> string" where
  "levelText Required = ''required''"
| "levelText Optional = ''optional''"

definition requirementJson :: "SavedToolRequirement \<Rightarrow> JsonValue" where
  "requirementJson r = JObject
     [(''capabilityId'', JString (req_capabilityId r)), (''level'', JString (levelText (req_level r))),
      (''displayNameSnapshot'', JString (req_displayNameSnapshot r)),
      (''schemaFingerprint'', JString (req_schemaFingerprint r)),
      (''consequential'', JBool (req_consequential r))]"

definition destinationJson :: "InvocationDestination \<Rightarrow> JsonValue" where
  "destinationJson d = JObject
     ([(''channelKind'', JString (dst_channelKind d)), (''address'', JString (dst_address d))] @
      optMember ''threadKey'' JString (dst_threadKey d))"

fun triggerJson :: "SavedTriggerDefinition \<Rightarrow> JsonValue" where
  "triggerJson (ScheduleTrigger tid disp tz sched dest) = JObject
     [(''kind'', JString ''schedule''), (''triggerId'', JString tid), (''displaySchedule'', JString disp),
      (''timezone'', JString tz), (''normalizedSchedule'', sched), (''destination'', destinationJson dest)]"
| "triggerJson (EventTrigger tid src filt dest) = JObject
     [(''kind'', JString ''event''), (''triggerId'', JString tid), (''sourceId'', JString src),
      (''filter'', filt), (''destination'', destinationJson dest)]"

definition fieldsJson :: "SavedAgentEditableFields \<Rightarrow> JsonValue" where
  "fieldsJson f = JObject
     [(''name'', JString (fld_name f)), (''kind'', JString (kindText (fld_kind f))),
      (''description'', JString (fld_description f)), (''pmBrief'', JString (fld_pmBrief f)),
      (''instructions'', JString (fld_instructions f)),
      (''toolRequirements'', JArray (map requirementJson (fld_toolRequirements f))),
      (''triggers'', JArray (map triggerJson (fld_triggers f))),
      (''testChecklist'', stringsJson (fld_testChecklist f)),
      (''qaFindings'', stringsJson (fld_qaFindings f))]"

section \<open>Creation inputs and patches\<close>

record CreateSavedAgentDraftInput =
  ci_name :: string
  ci_kind :: SavedAgentKind
  ci_description :: "string option"
  ci_pmBrief :: "string option"
  ci_instructions :: "string option"
  ci_toolRequirements :: "SavedToolRequirement list option"
  ci_triggers :: "SavedTriggerDefinition list option"
  ci_testChecklist :: "string list option"
  ci_qaFindings :: "string list option"

definition boundedList :: "nat \<Rightarrow> ('a \<Rightarrow> bool) \<Rightarrow> 'a list \<Rightarrow> bool" where
  "boundedList n p xs \<longleftrightarrow> length xs \<le> n \<and> list_all p xs"

definition createSavedAgentDraftInputSchema :: "host \<Rightarrow> CreateSavedAgentDraftInput \<Rightarrow> bool" where
  "createSavedAgentDraftInputSchema h i \<longleftrightarrow>
     savedAgentNameSchema h (ci_name i) \<and> optionally (maxString 8000) (ci_description i) \<and>
     optionally (maxString 32000) (ci_pmBrief i) \<and> optionally (maxString 128000) (ci_instructions i) \<and>
     optionally (boundedList 256 savedToolRequirementSchema) (ci_toolRequirements i) \<and>
     optionally (boundedList 256 (savedTriggerDefinitionSchema h)) (ci_triggers i) \<and>
     optionally (boundedList 256 (boundedString 1 4000)) (ci_testChecklist i) \<and>
     optionally (boundedList 256 (boundedString 1 8000)) (ci_qaFindings i)"

definition getOr :: "'a option \<Rightarrow> 'a \<Rightarrow> 'a" where
  "getOr x y = (case x of None \<Rightarrow> y | Some v \<Rightarrow> v)"

definition editableFieldsFromCreate :: "CreateSavedAgentDraftInput \<Rightarrow> SavedAgentEditableFields" where
  "editableFieldsFromCreate i =
     \<lparr>fld_name = ci_name i, fld_kind = ci_kind i, fld_description = getOr (ci_description i) [],
      fld_pmBrief = getOr (ci_pmBrief i) [], fld_instructions = getOr (ci_instructions i) [],
      fld_toolRequirements = getOr (ci_toolRequirements i) [], fld_triggers = getOr (ci_triggers i) [],
      fld_testChecklist = getOr (ci_testChecklist i) [], fld_qaFindings = getOr (ci_qaFindings i) []\<rparr>"

record SavedAgentDraftPatch =
  pt_name :: "string option"
  pt_kind :: "SavedAgentKind option"
  pt_description :: "string option"
  pt_pmBrief :: "string option"
  pt_instructions :: "string option"
  pt_toolRequirements :: "SavedToolRequirement list option"
  pt_triggers :: "SavedTriggerDefinition list option"
  pt_testChecklist :: "string list option"
  pt_qaFindings :: "string list option"

definition savedAgentDraftPatchSchema :: "host \<Rightarrow> SavedAgentDraftPatch \<Rightarrow> bool" where
  "savedAgentDraftPatchSchema h p \<longleftrightarrow>
     optionally (savedAgentNameSchema h) (pt_name p) \<and> optionally (maxString 8000) (pt_description p) \<and>
     optionally (maxString 32000) (pt_pmBrief p) \<and> optionally (maxString 128000) (pt_instructions p) \<and>
     optionally (boundedList 256 savedToolRequirementSchema) (pt_toolRequirements p) \<and>
     optionally (boundedList 256 (savedTriggerDefinitionSchema h)) (pt_triggers p) \<and>
     optionally (boundedList 256 (boundedString 1 4000)) (pt_testChecklist p) \<and>
     optionally (boundedList 256 (boundedString 1 8000)) (pt_qaFindings p)"

definition patchMembers :: "SavedAgentDraftPatch \<Rightarrow> (string \<times> JsonValue) list" where
  "patchMembers p =
     optMember ''name'' JString (pt_name p) @ optMember ''kind'' (\<lambda>k. JString (kindText k)) (pt_kind p) @
     optMember ''description'' JString (pt_description p) @ optMember ''pmBrief'' JString (pt_pmBrief p) @
     optMember ''instructions'' JString (pt_instructions p) @
     optMember ''toolRequirements'' (\<lambda>rs. JArray (map requirementJson rs)) (pt_toolRequirements p) @
     optMember ''triggers'' (\<lambda>ts. JArray (map triggerJson ts)) (pt_triggers p) @
     optMember ''testChecklist'' stringsJson (pt_testChecklist p) @
     optMember ''qaFindings'' stringsJson (pt_qaFindings p)"

definition applyPatch ::
  "SavedAgentEditableFields \<Rightarrow> SavedAgentDraftPatch \<Rightarrow> SavedAgentEditableFields" where
  "applyPatch f p =
     \<lparr>fld_name = getOr (pt_name p) (fld_name f), fld_kind = getOr (pt_kind p) (fld_kind f),
      fld_description = getOr (pt_description p) (fld_description f),
      fld_pmBrief = getOr (pt_pmBrief p) (fld_pmBrief f),
      fld_instructions = getOr (pt_instructions p) (fld_instructions f),
      fld_toolRequirements = getOr (pt_toolRequirements p) (fld_toolRequirements f),
      fld_triggers = getOr (pt_triggers p) (fld_triggers f),
      fld_testChecklist = getOr (pt_testChecklist p) (fld_testChecklist f),
      fld_qaFindings = getOr (pt_qaFindings p) (fld_qaFindings f)\<rparr>"

section \<open>Preparation and replay\<close>

text \<open>The answers of the dependencies during one call; each is asked at most once.\<close>

record ServiceDependencies =
  sd_resolveOwner :: ResolveOwner
  sd_now :: string
  sd_agentId :: string
  sd_draftId :: string
  sd_specId :: string
  sd_texts :: texts

record AgentBuilderMutationContext =
  mc_ownerResolution :: "OwnerResolutionInput option"
  mc_operationId :: string

record PreparedMutation =
  pm_owner :: OwnerScope
  pm_principal :: SessionAuthContext
  pm_operationId :: string
  pm_requestFingerprint :: string

definition requestJson :: "string \<Rightarrow> SessionAuthContext \<Rightarrow> JsonValue \<Rightarrow> JsonValue" where
  "requestJson action actor input = JObject
     [(''action'', JString action), (''actor'', JString (sa_principalId actor)),
      (''input'', input), (''schema'', JString ''pr02'')]"

definition prepareMutation ::
  "ServiceDependencies \<Rightarrow> AgentBuilderMutationContext \<Rightarrow> 'i option \<Rightarrow> ('i \<Rightarrow> bool) \<Rightarrow> string \<Rightarrow>
   ('i \<Rightarrow> 'p AgentBuilderResult) \<Rightarrow> ('p \<Rightarrow> JsonValue) \<Rightarrow> (PreparedMutation \<times> 'p) AgentBuilderResult" where
  "prepareMutation d ctx rawInput schema action prepare json =
     (case resolveCurrentOwner (mc_ownerResolution ctx) (sd_resolveOwner d) of
        Inl e \<Rightarrow> Inl e
      | Inr (ow, actor) \<Rightarrow>
        (case rawInput of
           None \<Rightarrow> Inl SERVICE_INVALID_INPUT
         | Some input \<Rightarrow>
           if \<not> identifierSchema (mc_operationId ctx) \<or> \<not> schema input then Inl SERVICE_INVALID_INPUT
           else
             (case prepare input of
                Inl e \<Rightarrow> Inl e
              | Inr value \<Rightarrow>
                (case fingerprintMutationRequest (sd_texts d) (requestJson action actor (json value)) of
                   None \<Rightarrow> Inl SERVICE_INVALID_INPUT
                 | Some fingerprint \<Rightarrow>
                     Inr (\<lparr>pm_owner = ow, pm_principal = actor, pm_operationId = mc_operationId ctx,
                           pm_requestFingerprint = fingerprint\<rparr>, value)))))"

text \<open>\<open>#replay\<close>: the logged answer, or the rest of the operation.\<close>

definition replayOr ::
  "PreparedMutation \<Rightarrow> AgentBuilderStoreMutationSuccess AgentBuilderResult program \<Rightarrow>
   AgentBuilderStoreMutationSuccess AgentBuilderResult program" where
  "replayOr p rest = Query (\<lambda>t.
     case getMutationReplay t (pm_owner p) (pm_operationId p) (pm_requestFingerprint p) of
       ReplayMiss \<Rightarrow> rest
     | Replay success \<Rightarrow> Return (Inr success)
     | ReplayOperationIdReused prior \<Rightarrow> Return (Inl (StoreFailure (OPERATION_ID_REUSED prior))))"

definition mutationBase :: "PreparedMutation \<Rightarrow> Timestamp \<Rightarrow> StoreMutationBase" where
  "mutationBase p now =
     \<lparr>mb_owner = pm_owner p, mb_operationId = pm_operationId p,
      mb_requestFingerprint = pm_requestFingerprint p, mb_occurredAt = now\<rparr>"

definition mutateStore ::
  "PreparedMutation \<Rightarrow> Timestamp \<Rightarrow> AgentBuilderStoreCommand \<Rightarrow>
   AgentBuilderStoreMutationSuccess AgentBuilderResult program" where
  "mutateStore p now c = DoMutate (mutationBase p now) c (\<lambda>r. Return
     (case r of Inl e \<Rightarrow> Inl (StoreFailure e) | Inr success \<Rightarrow> Inr success))"

definition serviceNow :: "ServiceDependencies \<Rightarrow> Timestamp AgentBuilderResult" where
  "serviceNow d =
     (if timestampSchema (sd_now d) then Inr (sd_now d) else Inl SERVICE_DEPENDENCY_CONTRACT_VIOLATION)"

definition serviceId :: "string \<Rightarrow> string AgentBuilderResult" where
  "serviceId raw =
     (if identifierSchema raw then Inr raw else Inl SERVICE_DEPENDENCY_CONTRACT_VIOLATION)"

text \<open>\<open>if (!x.ok) return x\<close>, for a pure \<open>x\<close>.\<close>

definition orReturn :: "'e + 'a \<Rightarrow> ('a \<Rightarrow> ('e + 'b) program) \<Rightarrow> ('e + 'b) program" where
  "orReturn x k = (case x of Inl e \<Rightarrow> Return (Inl e) | Inr v \<Rightarrow> k v)"

end
