(* ===== verification/Service.thy ===== *)
theory Service
  imports Service_Input
begin

text \<open>
  The agent builder service (\<open>packages/eve-agent-builder/extension/lib/service.ts\<close>,
  \<open>AgentBuilderService\<close>): its queries and its eight mutations, as programs over the store. A
  mutation prepares the request, looks for a logged answer, checks the family it read, and then
  performs one store command; between these steps other callers may run.
\<close>

definition DEFAULT_MAX_AGENT_FAMILIES_PER_OWNER :: int where
  "DEFAULT_MAX_AGENT_FAMILIES_PER_OWNER = 25"

text \<open>The constructor: the quota, or the exception.\<close>

definition newAgentBuilderService :: "int option \<Rightarrow> int option" where
  "newAgentBuilderService maxAgentFamiliesPerOwner =
     (let maxFamilies = getOr maxAgentFamiliesPerOwner DEFAULT_MAX_AGENT_FAMILIES_PER_OWNER
      in if \<not> isSafeInteger maxFamilies \<or> maxFamilies < 1 then None else Some maxFamilies)"

section \<open>Inputs\<close>

record GetVersionInput =
  gv_agentId :: string
  gv_specId :: string
  gv_version :: int

definition getVersionInputSchema :: "GetVersionInput \<Rightarrow> bool" where
  "getVersionInputSchema i \<longleftrightarrow>
     identifierSchema (gv_agentId i) \<and> identifierSchema (gv_specId i) \<and> positiveVersionSchema (gv_version i)"

text \<open>\<open>BeginRevisionInput\<close> and \<open>FamilyLifecycleInput\<close> have the same members.\<close>

record FamilyLifecycleInput =
  fi_agentId :: string
  fi_expectedRevision :: int

definition familyLifecycleInputSchema :: "FamilyLifecycleInput \<Rightarrow> bool" where
  "familyLifecycleInputSchema i \<longleftrightarrow>
     identifierSchema (fi_agentId i) \<and> positiveRevisionSchema (fi_expectedRevision i)"

definition familyLifecycleJson :: "FamilyLifecycleInput \<Rightarrow> JsonValue" where
  "familyLifecycleJson i = JObject
     [(''agentId'', JString (fi_agentId i)), (''expectedRevision'', intJson (fi_expectedRevision i))]"

record PatchDraftInput =
  pi_agentId :: string
  pi_expectedRevision :: int
  pi_expectedDraftRevision :: int
  pi_patch :: SavedAgentDraftPatch

definition patchDraftInputSchema :: "host \<Rightarrow> PatchDraftInput \<Rightarrow> bool" where
  "patchDraftInputSchema h i \<longleftrightarrow>
     identifierSchema (pi_agentId i) \<and> positiveRevisionSchema (pi_expectedRevision i) \<and>
     positiveRevisionSchema (pi_expectedDraftRevision i) \<and>
     savedAgentDraftPatchSchema h (pi_patch i) \<and> length (patchMembers (pi_patch i)) > 0"

definition patchDraftJson :: "PatchDraftInput \<Rightarrow> JsonValue" where
  "patchDraftJson i = JObject
     [(''agentId'', JString (pi_agentId i)), (''expectedRevision'', intJson (pi_expectedRevision i)),
      (''expectedDraftRevision'', intJson (pi_expectedDraftRevision i)),
      (''patch'', JObject (patchMembers (pi_patch i)))]"

record PublishDraftInput =
  ui_agentId :: string
  ui_expectedRevision :: int
  ui_expectedDraftRevision :: int

definition publishDraftInputSchema :: "PublishDraftInput \<Rightarrow> bool" where
  "publishDraftInputSchema i \<longleftrightarrow>
     identifierSchema (ui_agentId i) \<and> positiveRevisionSchema (ui_expectedRevision i) \<and>
     positiveRevisionSchema (ui_expectedDraftRevision i)"

definition publishDraftJson :: "PublishDraftInput \<Rightarrow> JsonValue" where
  "publishDraftJson i = JObject
     [(''agentId'', JString (ui_agentId i)), (''expectedRevision'', intJson (ui_expectedRevision i)),
      (''expectedDraftRevision'', intJson (ui_expectedDraftRevision i))]"

record ActivateVersionInput =
  vi_agentId :: string
  vi_expectedRevision :: int
  vi_specId :: string
  vi_version :: int

definition activateVersionInputSchema :: "ActivateVersionInput \<Rightarrow> bool" where
  "activateVersionInputSchema i \<longleftrightarrow>
     identifierSchema (vi_agentId i) \<and> positiveRevisionSchema (vi_expectedRevision i) \<and>
     identifierSchema (vi_specId i) \<and> positiveVersionSchema (vi_version i)"

definition activateVersionJson :: "ActivateVersionInput \<Rightarrow> JsonValue" where
  "activateVersionJson i = JObject
     [(''agentId'', JString (vi_agentId i)), (''expectedRevision'', intJson (vi_expectedRevision i)),
      (''specId'', JString (vi_specId i)), (''version'', intJson (vi_version i))]"

section \<open>Queries\<close>

definition publicFamily :: "SavedAgentFamily option \<Rightarrow> SavedAgentFamily option" where
  "publicFamily family =
     (case family of None \<Rightarrow> None | Some f \<Rightarrow> if fam_lifecycle f = Deleted then None else Some f)"

definition serviceNotFound :: "'a AgentBuilderResult" where
  "serviceNotFound = Inl (StoreFailure NOT_FOUND)"

text \<open>The three queries resolve the owner, parse the input and read the public family first.\<close>

definition withPublicFamily ::
  "ServiceDependencies \<Rightarrow> OwnerResolutionInput option \<Rightarrow> 'i option \<Rightarrow> ('i \<Rightarrow> bool) \<Rightarrow> ('i \<Rightarrow> string) \<Rightarrow>
   (OwnerScope \<Rightarrow> 'i \<Rightarrow> SavedAgentFamily \<Rightarrow> 'a AgentBuilderResult program) \<Rightarrow>
   'a AgentBuilderResult program" where
  "withPublicFamily d ownerInput rawInput schema agentIdOf k =
     orReturn (resolveCurrentOwner ownerInput (sd_resolveOwner d)) (\<lambda>(ow, _).
       case rawInput of
         None \<Rightarrow> Return (Inl SERVICE_INVALID_INPUT)
       | Some input \<Rightarrow>
         if \<not> schema input then Return (Inl SERVICE_INVALID_INPUT)
         else Query (\<lambda>t.
           case publicFamily (getFamily t ow (agentIdOf input)) of
             None \<Rightarrow> Return serviceNotFound
           | Some family \<Rightarrow> k ow input family))"

definition serviceGetFamily ::
  "ServiceDependencies \<Rightarrow> OwnerResolutionInput option \<Rightarrow> string option \<Rightarrow>
   SavedAgentFamily AgentBuilderResult program" where
  "serviceGetFamily d ownerInput agentId =
     withPublicFamily d ownerInput agentId identifierSchema (\<lambda>i. i) (\<lambda>ow i family. Return (Inr family))"

definition serviceGetVersion ::
  "ServiceDependencies \<Rightarrow> OwnerResolutionInput option \<Rightarrow> GetVersionInput option \<Rightarrow>
   PublishedAgentVersion AgentBuilderResult program" where
  "serviceGetVersion d ownerInput rawInput =
     withPublicFamily d ownerInput rawInput getVersionInputSchema gv_agentId (\<lambda>ow i _. Query (\<lambda>t.
       case getVersion t ow (gv_agentId i) (gv_specId i) (gv_version i) of
         None \<Rightarrow> Return serviceNotFound
       | Some v \<Rightarrow> Return (Inr v)))"

definition serviceListVersions ::
  "ServiceDependencies \<Rightarrow> OwnerResolutionInput option \<Rightarrow> string option \<Rightarrow>
   PublishedAgentVersion list AgentBuilderResult program" where
  "serviceListVersions d ownerInput agentId =
     withPublicFamily d ownerInput agentId identifierSchema (\<lambda>i. i) (\<lambda>ow i _. Query (\<lambda>t.
       Return (Inr (listVersions t ow i))))"

section \<open>Mutations\<close>

definition createDraft ::
  "host \<Rightarrow> int \<Rightarrow> ServiceDependencies \<Rightarrow> AgentBuilderMutationContext \<Rightarrow> CreateSavedAgentDraftInput option \<Rightarrow>
   AgentBuilderStoreMutationSuccess AgentBuilderResult program" where
  "createDraft h maxFamilies d ctx rawInput =
     orReturn (prepareMutation d ctx rawInput (createSavedAgentDraftInputSchema h) ''create_draft''
       (\<lambda>i. let fields = editableFieldsFromCreate i
            in if savedAgentEditableFieldsSchema h fields then Inr fields else Inl SERVICE_INVALID_INPUT)
       fieldsJson) (\<lambda>(p, fields).
     replayOr p (
       orReturn (serviceNow d) (\<lambda>now.
       orReturn (serviceId (sd_agentId d)) (\<lambda>agentId.
       orReturn (serviceId (sd_draftId d)) (\<lambda>draftId.
         mutateStore p now (CreateFamily
           \<lparr>cf_agentId = agentId, cf_draftId = draftId, cf_maxFamilies = maxFamilies,
            cf_canonicalName = canonicalizeAgentName h (fld_name fields), cf_fields = fields\<rparr>))))))"

text \<open>The family a mutation works on: not found, not at the expected revision, or the rest.\<close>

definition serviceRevisionConflict :: "SavedAgentFamily \<Rightarrow> 'a AgentBuilderResult" where
  "serviceRevisionConflict f =
     Inl (StoreFailure (REVISION_CONFLICT (fam_revision f) (map_option d_draftRevision (fam_draft f))))"

definition serviceInvalidTransition :: "SavedAgentFamily \<Rightarrow> StoreOperation \<Rightarrow> 'a AgentBuilderResult" where
  "serviceInvalidTransition f operation = Inl (StoreFailure (INVALID_TRANSITION (fam_lifecycle f) operation))"

definition withLiveFamily ::
  "PreparedMutation \<Rightarrow> string \<Rightarrow> (SavedAgentFamily \<Rightarrow> bool) \<Rightarrow>
   (SavedAgentFamily \<Rightarrow> 'a AgentBuilderResult program) \<Rightarrow> 'a AgentBuilderResult program" where
  "withLiveFamily p agentId expected k = Query (\<lambda>t.
     case getFamily t (pm_owner p) agentId of
       None \<Rightarrow> Return serviceNotFound
     | Some f \<Rightarrow>
       if fam_lifecycle f = Deleted then Return serviceNotFound
       else if \<not> expected f then Return (serviceRevisionConflict f)
       else k f)"

definition serviceBeginRevision ::
  "ServiceDependencies \<Rightarrow> AgentBuilderMutationContext \<Rightarrow> FamilyLifecycleInput option \<Rightarrow>
   AgentBuilderStoreMutationSuccess AgentBuilderResult program" where
  "serviceBeginRevision d ctx rawInput =
     orReturn (prepareMutation d ctx rawInput familyLifecycleInputSchema ''begin_revision'' Inr familyLifecycleJson)
       (\<lambda>(p, i).
     replayOr p (
       withLiveFamily p (fi_agentId i) (\<lambda>f. fam_revision f = fi_expectedRevision i) (\<lambda>f.
         if fam_lifecycle f \<noteq> Active \<or> fam_draft f \<noteq> None then Return (serviceInvalidTransition f OpBeginRevision)
         else
           (case (fam_activeSpecId f, fam_activeVersion f) of
              (Some specId, Some version) \<Rightarrow> Query (\<lambda>t.
                case getVersion t (pm_owner p) (fam_agentId f) specId version of
                  None \<Rightarrow> Return (Inl SERVICE_DEPENDENCY_CONTRACT_VIOLATION)
                | Some v \<Rightarrow>
                  orReturn (serviceNow d) (\<lambda>now.
                  orReturn (serviceId (sd_draftId d)) (\<lambda>draftId.
                    mutateStore p now (BeginRevision
                      \<lparr>br_agentId = fam_agentId f, br_expectedRevision = fi_expectedRevision i,
                       br_draftId = draftId, br_basedOnSpecId = v_specId v, br_basedOnVersion = v_version v,
                       br_fields = editableFieldsFromVersion v\<rparr>))))
            | _ \<Rightarrow> Return (Inl SERVICE_DEPENDENCY_CONTRACT_VIOLATION)))))"

text \<open>The patch and the publication of a draft check both revisions and the draft.\<close>

definition withDraft ::
  "PreparedMutation \<Rightarrow> string \<Rightarrow> int \<Rightarrow> int \<Rightarrow> StoreOperation \<Rightarrow>
   (SavedAgentFamily \<Rightarrow> SavedAgentDraft \<Rightarrow> 'a AgentBuilderResult program) \<Rightarrow>
   'a AgentBuilderResult program" where
  "withDraft p agentId expectedRevision expectedDraftRevision operation k =
     withLiveFamily p agentId
       (\<lambda>f. fam_revision f = expectedRevision \<and>
            map_option d_draftRevision (fam_draft f) = Some expectedDraftRevision)
       (\<lambda>f. case fam_draft f of
              None \<Rightarrow> Return (serviceInvalidTransition f operation)
            | Some draft \<Rightarrow>
              if fam_lifecycle f = Archived then Return (serviceInvalidTransition f operation) else k f draft)"

definition patchCommand :: "host \<Rightarrow> PatchDraftInput \<Rightarrow> SavedAgentFamily \<Rightarrow> SavedAgentDraft \<Rightarrow> PatchDraftStoreCommand" where
  "patchCommand h i f draft =
     \<lparr>pd_agentId = fam_agentId f, pd_expectedRevision = pi_expectedRevision i,
      pd_expectedDraftRevision = pi_expectedDraftRevision i,
      pd_canonicalName = canonicalizeAgentName h (fld_name (applyPatch (d_fields draft) (pi_patch i))),
      pd_fields = applyPatch (d_fields draft) (pi_patch i)\<rparr>"

definition servicePatchDraft ::
  "host \<Rightarrow> ServiceDependencies \<Rightarrow> AgentBuilderMutationContext \<Rightarrow> PatchDraftInput option \<Rightarrow>
   AgentBuilderStoreMutationSuccess AgentBuilderResult program" where
  "servicePatchDraft h d ctx rawInput =
     orReturn (prepareMutation d ctx rawInput (patchDraftInputSchema h) ''patch_draft'' Inr patchDraftJson)
       (\<lambda>(p, i).
     replayOr p (
       withDraft p (pi_agentId i) (pi_expectedRevision i) (pi_expectedDraftRevision i) OpPatchDraft (\<lambda>f draft.
         let fields = applyPatch (d_fields draft) (pi_patch i)
         in if \<not> savedAgentEditableFieldsSchema h fields then Return (Inl SERVICE_INVALID_INPUT)
            else
              orReturn (serviceNow d) (\<lambda>now.
                mutateStore p now (PatchDraft (patchCommand h i f draft))))))"

definition servicePublishDraft ::
  "host \<Rightarrow> ServiceDependencies \<Rightarrow> AgentBuilderMutationContext \<Rightarrow> PublishDraftInput option \<Rightarrow>
   AgentBuilderStoreMutationSuccess AgentBuilderResult program" where
  "servicePublishDraft h d ctx rawInput =
     orReturn (prepareMutation d ctx rawInput publishDraftInputSchema ''publish_draft'' Inr publishDraftJson)
       (\<lambda>(p, i).
     replayOr p (
       withDraft p (ui_agentId i) (ui_expectedRevision i) (ui_expectedDraftRevision i) OpPublishDraft (\<lambda>f draft.
         if \<not> savedAgentEditableFieldsSchema h (d_fields draft) then Return (Inl SERVICE_INVALID_INPUT)
         else
           let publishedBy = sa_principalId (pm_principal p)
           in if length publishedBy = 0 \<or> length publishedBy > 1024
              then Return (Inl SERVICE_DEPENDENCY_CONTRACT_VIOLATION)
              else
                orReturn (serviceNow d) (\<lambda>now.
                orReturn (serviceId (sd_specId d)) (\<lambda>specId.
                  mutateStore p now (PublishDraft
                    \<lparr>pu_agentId = fam_agentId f, pu_expectedRevision = ui_expectedRevision i,
                     pu_expectedDraftRevision = ui_expectedDraftRevision i, pu_specId = specId,
                     pu_publishedBy = publishedBy\<rparr>))))))"

definition serviceActivateVersion ::
  "ServiceDependencies \<Rightarrow> AgentBuilderMutationContext \<Rightarrow> ActivateVersionInput option \<Rightarrow>
   AgentBuilderStoreMutationSuccess AgentBuilderResult program" where
  "serviceActivateVersion d ctx rawInput =
     orReturn (prepareMutation d ctx rawInput activateVersionInputSchema ''activate_version'' Inr activateVersionJson)
       (\<lambda>(p, i).
     replayOr p (
       withLiveFamily p (vi_agentId i) (\<lambda>f. fam_revision f = vi_expectedRevision i) (\<lambda>f.
         if fam_lifecycle f \<noteq> Active then Return (serviceInvalidTransition f OpActivateVersion)
         else Query (\<lambda>t.
           case getVersion t (pm_owner p) (vi_agentId i) (vi_specId i) (vi_version i) of
             None \<Rightarrow> Return (Inl (StoreFailure VERSION_NOT_FOUND))
           | Some _ \<Rightarrow>
             orReturn (serviceNow d) (\<lambda>now.
               mutateStore p now (ActivateVersion
                 \<lparr>av_agentId = vi_agentId i, av_expectedRevision = vi_expectedRevision i,
                  av_specId = vi_specId i, av_version = vi_version i\<rparr>))))))"

text \<open>\<open>#lifecycleMutation\<close>, and its three uses.\<close>

definition lifecycleMutation ::
  "ServiceDependencies \<Rightarrow> AgentBuilderMutationContext \<Rightarrow> FamilyLifecycleInput option \<Rightarrow> string \<Rightarrow> StoreOperation \<Rightarrow>
   (LifecycleStoreCommand \<Rightarrow> AgentBuilderStoreCommand) \<Rightarrow> AgentLifecycle list \<Rightarrow>
   AgentBuilderStoreMutationSuccess AgentBuilderResult program" where
  "lifecycleMutation d ctx rawInput action operation command allowed =
     orReturn (prepareMutation d ctx rawInput familyLifecycleInputSchema action Inr familyLifecycleJson)
       (\<lambda>(p, i).
     replayOr p (
       withLiveFamily p (fi_agentId i) (\<lambda>f. fam_revision f = fi_expectedRevision i) (\<lambda>f.
         if fam_lifecycle f \<notin> set allowed then Return (serviceInvalidTransition f operation)
         else
           orReturn (serviceNow d) (\<lambda>now.
             mutateStore p now (command
               \<lparr>lc_agentId = fam_agentId f, lc_expectedRevision = fi_expectedRevision i\<rparr>)))))"

definition serviceArchiveFamily ::
  "ServiceDependencies \<Rightarrow> AgentBuilderMutationContext \<Rightarrow> FamilyLifecycleInput option \<Rightarrow>
   AgentBuilderStoreMutationSuccess AgentBuilderResult program" where
  "serviceArchiveFamily d ctx rawInput =
     lifecycleMutation d ctx rawInput ''archive_family'' OpArchiveFamily ArchiveFamily [DraftOnly, Active]"

definition serviceRestoreFamily ::
  "ServiceDependencies \<Rightarrow> AgentBuilderMutationContext \<Rightarrow> FamilyLifecycleInput option \<Rightarrow>
   AgentBuilderStoreMutationSuccess AgentBuilderResult program" where
  "serviceRestoreFamily d ctx rawInput =
     lifecycleMutation d ctx rawInput ''restore_family'' OpRestoreFamily RestoreFamily [Archived]"

definition serviceDeleteFamily ::
  "ServiceDependencies \<Rightarrow> AgentBuilderMutationContext \<Rightarrow> FamilyLifecycleInput option \<Rightarrow>
   AgentBuilderStoreMutationSuccess AgentBuilderResult program" where
  "serviceDeleteFamily d ctx rawInput =
     lifecycleMutation d ctx rawInput ''delete_family'' OpDeleteFamily DeleteFamily [DraftOnly, Active, Archived]"

end
