(* ===== verification/Coordinator.thy ===== *)
theory Coordinator
  imports Service Bootstrap_Service
begin

text \<open>
  The coordinator of the build process
  (\<open>packages/eve-agent-builder/extension/lib/workflow-service.ts\<close>, \<open>BuildWorkflowCoordinator\<close>): it
  allocates a workflow, tells which role is next and issues its bootstrap grant, and takes the
  submissions of the roles, as programs over the store. The identities of a submission (workflow,
  draft, lease) come from the stored lease of the calling session, never from the input.
\<close>

section \<open>Inputs\<close>

text \<open>The input of an operation without input is the empty object (\<open>Some ()\<close>) or anything else
  (\<open>None\<close>). The patch of a role is a patch without the members of the other roles.\<close>

definition pmPatchSchema :: "SavedAgentDraftPatch \<Rightarrow> bool" where
  "pmPatchSchema p \<longleftrightarrow>
     optionally (boundedString 1 256) (pt_name p) \<and> optionally (maxString 8000) (pt_description p) \<and>
     optionally (maxString 32000) (pt_pmBrief p) \<and> pt_instructions p = None \<and>
     pt_toolRequirements p = None \<and> pt_triggers p = None \<and> pt_testChecklist p = None \<and> pt_qaFindings p = None"

definition implementorPatchSchema :: "host \<Rightarrow> SavedAgentDraftPatch \<Rightarrow> bool" where
  "implementorPatchSchema h p \<longleftrightarrow>
     optionally (maxString 128000) (pt_instructions p) \<and>
     optionally (boundedList 256 savedToolRequirementSchema) (pt_toolRequirements p) \<and>
     optionally (boundedList 256 (savedTriggerDefinitionSchema h)) (pt_triggers p) \<and>
     pt_name p = None \<and> pt_kind p = None \<and> pt_description p = None \<and> pt_pmBrief p = None \<and>
     pt_testChecklist p = None \<and> pt_qaFindings p = None"

definition qaPatchSchema :: "SavedAgentDraftPatch \<Rightarrow> bool" where
  "qaPatchSchema p \<longleftrightarrow>
     optionally (boundedList 256 (boundedString 1 4000)) (pt_testChecklist p) \<and>
     optionally (boundedList 256 (boundedString 1 8000)) (pt_qaFindings p) \<and>
     pt_name p = None \<and> pt_kind p = None \<and> pt_description p = None \<and> pt_pmBrief p = None \<and>
     pt_instructions p = None \<and> pt_toolRequirements p = None \<and> pt_triggers p = None"

record BuildSubmissionInput =
  bsi_patch :: SavedAgentDraftPatch
  bsi_result :: SubmissionResult

definition pmBuildSubmissionInputSchema :: "BuildSubmissionInput \<Rightarrow> bool" where
  "pmBuildSubmissionInputSchema i \<longleftrightarrow>
     pmPatchSchema (bsi_patch i) \<and> bsi_result i \<in> {SubCompletedHandoff, SubNeedsUserInput, SubFailed}"

definition implementorBuildSubmissionInputSchema :: "host \<Rightarrow> BuildSubmissionInput \<Rightarrow> bool" where
  "implementorBuildSubmissionInputSchema h i \<longleftrightarrow>
     implementorPatchSchema h (bsi_patch i) \<and>
     bsi_result i \<in> {SubCompletedHandoff, SubNeedsUserInput, SubFailed}"

definition qaBuildSubmissionInputSchema :: "BuildSubmissionInput \<Rightarrow> bool" where
  "qaBuildSubmissionInputSchema i \<longleftrightarrow>
     qaPatchSchema (bsi_patch i) \<and>
     bsi_result i \<in> {SubNeedsTest, SubChangesRequested, SubApproved, SubNeedsUserInput, SubFailed}"

fun submissionSchema :: "host \<Rightarrow> BuildRole \<Rightarrow> BuildSubmissionInput \<Rightarrow> bool" where
  "submissionSchema h BuildPm = pmBuildSubmissionInputSchema"
| "submissionSchema h BuildImplementor = implementorBuildSubmissionInputSchema h"
| "submissionSchema h BuildQa = qaBuildSubmissionInputSchema"

record RecordBuildTestInput =
  rbi_status :: BuildTestStatus
  rbi_errorCodes :: "string list"

definition recordBuildTestInputSchema :: "RecordBuildTestInput \<Rightarrow> bool" where
  "recordBuildTestInputSchema i \<longleftrightarrow> boundedList 256 (boundedString 1 256) (rbi_errorCodes i)"

section \<open>Requests as JSON\<close>

fun submissionResultText :: "SubmissionResult \<Rightarrow> string" where
  "submissionResultText SubCompletedHandoff = ''completed_handoff''"
| "submissionResultText SubNeedsTest = ''needs_test''"
| "submissionResultText SubChangesRequested = ''changes_requested''"
| "submissionResultText SubApproved = ''approved''"
| "submissionResultText SubNeedsUserInput = ''needs_user_input''"
| "submissionResultText SubFailed = ''failed''"

fun testStatusText :: "BuildTestStatus \<Rightarrow> string" where
  "testStatusText TestPassed = ''passed''"
| "testStatusText TestInputRequired = ''input_required''"
| "testStatusText TestFailed = ''failed''"

fun buildRoleText :: "BuildRole \<Rightarrow> string" where
  "buildRoleText BuildPm = ''pm''"
| "buildRoleText BuildImplementor = ''implementor''"
| "buildRoleText BuildQa = ''qa''"

definition submissionJson :: "BuildSubmissionInput \<Rightarrow> JsonValue" where
  "submissionJson i = JObject
     [(''patch'', JObject (patchMembers (bsi_patch i))),
      (''result'', JString (submissionResultText (bsi_result i)))]"

definition recordBuildTestJson :: "RecordBuildTestInput \<Rightarrow> JsonValue" where
  "recordBuildTestJson i = JObject
     [(''status'', JString (testStatusText (rbi_status i))), (''errorCodes'', stringsJson (rbi_errorCodes i))]"

definition workflowRequestJson :: "string \<Rightarrow> SessionAuthContext \<Rightarrow> JsonValue \<Rightarrow> JsonValue \<Rightarrow> JsonValue" where
  "workflowRequestJson action actor input trustedTarget = JObject
     [(''action'', JString action), (''actor'', JString (sa_principalId actor)), (''input'', input),
      (''schema'', JString ''pr04-workflow-v2''), (''trustedTarget'', trustedTarget)]"

section \<open>Results and errors\<close>

datatype BuildWorkflowCoordinatorError =
    OfService AgentBuilderError
  | OfBootstrap BootstrapError
  | COORDINATOR_WORKFLOW_NOT_FOUND
  | CoordinatorThrown \<comment> \<open>the promise is rejected\<close>

type_synonym 'a CoordinatorResult = "BuildWorkflowCoordinatorError + 'a"

abbreviation (input) invalidInput :: "'a CoordinatorResult" where
  "invalidInput \<equiv> Inl (OfService SERVICE_INVALID_INPUT)"

abbreviation (input) targetChanged :: "'a CoordinatorResult" where
  "targetChanged \<equiv> Inl (OfBootstrap (BootstrapStore TARGET_CHANGED))"

abbreviation (input) dependencyViolation :: "'a CoordinatorResult" where
  "dependencyViolation \<equiv> Inl (OfService SERVICE_DEPENDENCY_CONTRACT_VIOLATION)"

text \<open>The answers of the dependencies during one call. The clock is asked up to twice.\<close>

record CoordinatorDependencies =
  wd_resolveOwner :: ResolveOwner
  wd_now :: "nat \<Rightarrow> string"
  wd_agentId :: string
  wd_draftId :: string
  wd_specId :: string
  wd_workflowId :: string
  wd_testRunId :: string
  wd_texts :: texts
  wd_bootstrapOptions :: BootstrapServiceOptions
  wd_bootstrap :: BootstrapDependencies

text \<open>The constructor: the quota, or the exception.\<close>

definition newBuildWorkflowCoordinator :: "int option \<Rightarrow> int option" where
  "newBuildWorkflowCoordinator maxAgentFamiliesPerOwner =
     (let maxFamilies = getOr maxAgentFamiliesPerOwner 25
      in if \<not> isSafeInteger maxFamilies \<or> maxFamilies < 1 then None else Some maxFamilies)"

definition coordinatorNow :: "CoordinatorDependencies \<Rightarrow> nat \<Rightarrow> Timestamp CoordinatorResult" where
  "coordinatorNow d k = (if timestampSchema (wd_now d k) then Inr (wd_now d k) else dependencyViolation)"

definition coordinatorId :: "string \<Rightarrow> string CoordinatorResult" where
  "coordinatorId raw = (if identifierSchema raw then Inr raw else dependencyViolation)"

definition coordinatorOwner ::
  "CoordinatorDependencies \<Rightarrow> OwnerResolutionInput option \<Rightarrow> (OwnerScope \<times> SessionAuthContext) CoordinatorResult" where
  "coordinatorOwner d i =
     (case resolveCurrentOwner i (wd_resolveOwner d) of Inl e \<Rightarrow> Inl (OfService e) | Inr x \<Rightarrow> Inr x)"

section \<open>Snapshots and steps\<close>

record BuildWorkflowSnapshot =
  sn_workflow :: BuildWorkflowRecord
  sn_family :: SavedAgentFamily

text \<open>\<open>#snapshot\<close>: the two reads are started together and may be answered at different times.\<close>

definition snapshot ::
  "CoordinatorDependencies \<Rightarrow> OwnerResolutionInput option \<Rightarrow> string \<Rightarrow> BuildWorkflowSnapshot CoordinatorResult program" where
  "snapshot d ownerResolution agentId =
     orReturn (coordinatorOwner d ownerResolution) (\<lambda>(ow, _).
       if \<not> identifierSchema agentId then Return invalidInput
       else Query (\<lambda>t. let workflow = getBuildWorkflow t ow agentId in Query (\<lambda>t.
         case workflow of
           None \<Rightarrow> Return (Inl COORDINATOR_WORKFLOW_NOT_FOUND)
         | Some w \<Rightarrow>
           (case getFamily t ow agentId of
              None \<Rightarrow> Return (Inl (OfService (StoreFailure NOT_FOUND)))
            | Some f \<Rightarrow>
              if fam_lifecycle f = Deleted then Return (Inl (OfService (StoreFailure NOT_FOUND)))
              else if wf_phase w \<noteq> Published \<and>
                   (case fam_draft f of
                      None \<Rightarrow> True
                    | Some draft \<Rightarrow> d_draftId draft \<noteq> wf_draftId w \<or> d_draftRevision draft \<noteq> wf_draftRevision w)
              then Return targetChanged
              else Return (Inr \<lparr>sn_workflow = w, sn_family = f\<rparr>)))))"

text \<open>\<open>nextRole\<close>: the role of a phase; its mode is \<open>test\<close> for the test runner and \<open>direct\<close> otherwise.\<close>

fun nextRole :: "BuildWorkflowPhase \<Rightarrow> (ExecutionRole \<times> PlanMode) option" where
  "nextRole PmWork = Some (ExPm, ModeDirect)"
| "nextRole PmInput = Some (ExPm, ModeDirect)"
| "nextRole ImplementationWork = Some (ExImplementor, ModeDirect)"
| "nextRole ImplementationInput = Some (ExImplementor, ModeDirect)"
| "nextRole QaReview = Some (ExQa, ModeDirect)"
| "nextRole QaInput = Some (ExQa, ModeDirect)"
| "nextRole TestPending = Some (ExTestRunner, ModeTest)"
| "nextRole _ = None"

datatype BuildWorkflowNextStep =
    RoleRequired BuildWorkflowSnapshot ExecutionRole
  | TestRequired BuildWorkflowSnapshot
  | StepPublishReady BuildWorkflowSnapshot
  | StepPublished BuildWorkflowSnapshot
  | StepTerminalFailure BuildWorkflowSnapshot

definition nextStep :: "BuildWorkflowSnapshot \<Rightarrow> BuildWorkflowNextStep" where
  "nextStep sn =
     (case nextRole (wf_phase (sn_workflow sn)) of
        Some (role, _) \<Rightarrow> if role = ExTestRunner then TestRequired sn else RoleRequired sn role
      | None \<Rightarrow>
          if wf_phase (sn_workflow sn) = PublishReady then StepPublishReady sn
          else if wf_phase (sn_workflow sn) = Published then StepPublished sn
          else StepTerminalFailure sn)"

definition getNext ::
  "CoordinatorDependencies \<Rightarrow> OwnerResolutionInput option \<Rightarrow> string \<Rightarrow> unit option \<Rightarrow>
   BuildWorkflowNextStep CoordinatorResult program" where
  "getNext d ownerResolution agentId rawInput =
     (case rawInput of
        None \<Rightarrow> Return invalidInput
      | Some _ \<Rightarrow> andThenOk (snapshot d ownerResolution agentId) (\<lambda>sn. Return (Inr (nextStep sn))))"

record BuildWorkflowPrepareContext =
  pc_ownerResolution :: "OwnerResolutionInput option"
  pc_agentId :: string
  pc_parentSessionId :: string
  pc_parentTurnId :: "string option"
  pc_parentCallId :: "string option"

datatype PreparedBuildWorkflowStep =
    BootstrapRequired BuildWorkflowSnapshot ExecutionRole PlanMode IssuedBootstrapGrant
  | NoRoleRequired BuildWorkflowNextStep

definition scopeOf :: "BuildWorkflowRecord \<Rightarrow> BuildExecutionScope" where
  "scopeOf w = \<lparr>sc_workflowId = wf_workflowId w, sc_workflowRevision = wf_revision w,
     sc_testRunId = wf_testRunId w\<rparr>"

definition grantInput ::
  "BuildWorkflowPrepareContext \<Rightarrow> BuildWorkflowSnapshot \<Rightarrow> SavedAgentDraft \<Rightarrow> ExecutionRole \<Rightarrow> IssueBootstrapGrantInput" where
  "grantInput ctx sn draft role =
     \<lparr>ii_owner = wf_owner (sn_workflow sn), ii_role = role,
      ii_target = DraftTarget (fam_agentId (sn_family sn)) (d_draftId draft) (d_draftRevision draft),
      ii_workflow = Some (scopeOf (sn_workflow sn)), ii_parentSessionId = pc_parentSessionId ctx,
      ii_parentTurnId = pc_parentTurnId ctx, ii_parentCallId = None, ii_ttlMs = None\<rparr>"

definition prepareNext ::
  "CoordinatorDependencies \<Rightarrow> BuildWorkflowPrepareContext \<Rightarrow> unit option \<Rightarrow>
   PreparedBuildWorkflowStep CoordinatorResult program" where
  "prepareNext d ctx rawInput =
     (case rawInput of
        None \<Rightarrow> Return invalidInput
      | Some _ \<Rightarrow>
        andThenOk (snapshot d (pc_ownerResolution ctx) (pc_agentId ctx)) (\<lambda>sn.
          case nextRole (wf_phase (sn_workflow sn)) of
            None \<Rightarrow> Return (Inr (NoRoleRequired (nextStep sn)))
          | Some (role, mode) \<Rightarrow>
            (case fam_draft (sn_family sn) of
               None \<Rightarrow> Return targetChanged
             | Some draft \<Rightarrow>
                 andThen (issue (wd_bootstrapOptions d) (wd_bootstrap d) (grantInput ctx sn draft role)) (\<lambda>grant.
                   Return (case grant of
                     Inl e \<Rightarrow> Inl (OfBootstrap e)
                   | Inr g \<Rightarrow> Inr (BootstrapRequired sn role mode g))))))"

section \<open>Mutations\<close>

record PreparedWorkflowMutation =
  wm_owner :: OwnerScope
  wm_principalId :: string
  wm_operationId :: string
  wm_requestFingerprint :: string

definition prepareWorkflowMutation ::
  "CoordinatorDependencies \<Rightarrow> AgentBuilderMutationContext \<Rightarrow> string \<Rightarrow> JsonValue \<Rightarrow> JsonValue \<Rightarrow>
   PreparedWorkflowMutation CoordinatorResult" where
  "prepareWorkflowMutation d ctx action input trustedTarget =
     (case coordinatorOwner d (mc_ownerResolution ctx) of
        Inl e \<Rightarrow> Inl e
      | Inr (ow, actor) \<Rightarrow>
        if \<not> identifierSchema (mc_operationId ctx) then invalidInput
        else
          (case fingerprintMutationRequest (wd_texts d) (workflowRequestJson action actor input trustedTarget) of
             None \<Rightarrow> invalidInput
           | Some fingerprint \<Rightarrow>
               Inr \<lparr>wm_owner = ow, wm_principalId = sa_principalId actor, wm_operationId = mc_operationId ctx,
                    wm_requestFingerprint = fingerprint\<rparr>))"

definition ofType :: "SuccessType \<Rightarrow> AgentBuilderStoreMutationSuccess \<Rightarrow> AgentBuilderStoreMutationSuccess CoordinatorResult" where
  "ofType expectedType x = (if successType x \<noteq> expectedType then dependencyViolation else Inr x)"

definition workflowReplayOr ::
  "PreparedWorkflowMutation \<Rightarrow> SuccessType \<Rightarrow> AgentBuilderStoreMutationSuccess CoordinatorResult program \<Rightarrow>
   AgentBuilderStoreMutationSuccess CoordinatorResult program" where
  "workflowReplayOr p expectedType rest = Query (\<lambda>t.
     case getMutationReplay t (wm_owner p) (wm_operationId p) (wm_requestFingerprint p) of
       ReplayMiss \<Rightarrow> rest
     | Replay x \<Rightarrow> Return (ofType expectedType x)
     | ReplayOperationIdReused prior \<Rightarrow>
         Return (Inl (OfService (StoreFailure (OPERATION_ID_REUSED prior)))))"

definition mutateWorkflow ::
  "PreparedWorkflowMutation \<Rightarrow> SuccessType \<Rightarrow> Timestamp \<Rightarrow> AgentBuilderStoreCommand \<Rightarrow>
   AgentBuilderStoreMutationSuccess CoordinatorResult program" where
  "mutateWorkflow p expectedType now c =
     DoMutate \<lparr>mb_owner = wm_owner p, mb_operationId = wm_operationId p,
         mb_requestFingerprint = wm_requestFingerprint p, mb_occurredAt = now\<rparr> c (\<lambda>r. Return
       (case r of Inl e \<Rightarrow> Inl (OfService (StoreFailure e)) | Inr x \<Rightarrow> ofType expectedType x))"

text \<open>The placeholder of a new workflow: its name ends in the last 16 digits of a digest.\<close>

definition untitledFields :: "string \<Rightarrow> SavedAgentEditableFields" where
  "untitledFields placeholderDigest =
     \<lparr>fld_name = ''Untitled build '' @ drop (length placeholderDigest - 16) placeholderDigest,
      fld_kind = KindAgent, fld_description = [], fld_pmBrief = [], fld_instructions = [],
      fld_toolRequirements = [], fld_triggers = [], fld_testChecklist = [], fld_qaFindings = []\<rparr>"

definition allocate ::
  "host \<Rightarrow> int \<Rightarrow> CoordinatorDependencies \<Rightarrow> AgentBuilderMutationContext \<Rightarrow> unit option \<Rightarrow>
   AgentBuilderStoreMutationSuccess CoordinatorResult program" where
  "allocate h maxFamilies d ctx rawInput =
     (case rawInput of
        None \<Rightarrow> Return invalidInput
      | Some _ \<Rightarrow>
        orReturn (prepareWorkflowMutation d ctx ''workflow_allocate'' (JObject []) (JObject [])) (\<lambda>p.
        workflowReplayOr p TWorkflowAllocated (
          orReturn (coordinatorNow d 0) (\<lambda>now.
          orReturn (coordinatorId (wd_agentId d)) (\<lambda>agentId.
          orReturn (coordinatorId (wd_draftId d)) (\<lambda>draftId.
          orReturn (coordinatorId (wd_workflowId d)) (\<lambda>workflowId.
            case fingerprintMutationRequest (wd_texts d) (JObject
                [(''agentId'', JString agentId), (''draftId'', JString draftId), (''workflowId'', JString workflowId)]) of
              None \<Rightarrow> Return (Inl CoordinatorThrown)
            | Some placeholderDigest \<Rightarrow>
              let fields = untitledFields placeholderDigest
              in if \<not> savedAgentEditableFieldsSchema h fields then Return (Inl CoordinatorThrown)
                 else mutateWorkflow p TWorkflowAllocated now (AllocateBuildWorkflow
                   \<lparr>al_workflowId = workflowId, al_agentId = agentId, al_draftId = draftId,
                    al_maxFamilies = maxFamilies, al_canonicalName = canonicalizeAgentName h (fld_name fields),
                    al_fields = fields\<rparr>))))))))"

text \<open>\<open>#execution\<close>: the running lease of the calling session, and the workflow and family it targets.\<close>

record BuildWorkflowExecutionContext = AgentBuilderMutationContext +
  xc_childSessionId :: string
  xc_executionTurnId :: string

record BuildExecution =
  be_workflow :: BuildWorkflowRecord
  be_family :: SavedAgentFamily
  be_draft :: SavedAgentDraft
  be_lease :: ExecutionLeaseRecord

definition exactRunningLease ::
  "OwnerScope \<Rightarrow> BuildWorkflowExecutionContext \<Rightarrow> ExecutionRole \<Rightarrow> ExecutionLeaseRecord \<Rightarrow> bool" where
  "exactRunningLease ow ctx role lease \<longleftrightarrow>
     sameOwner ow (ls_owner lease) \<and> ls_role lease = role \<and> ls_status lease = LeaseRunning \<and>
     ls_executionTurnId lease = Some (xc_executionTurnId ctx) \<and> ls_workflow lease \<noteq> None \<and>
     (case ls_target lease of DraftTarget _ _ _ \<Rightarrow> True | PublishedTarget _ _ _ \<Rightarrow> False)"

definition execution ::
  "CoordinatorDependencies \<Rightarrow> OwnerScope \<Rightarrow> BuildWorkflowExecutionContext \<Rightarrow> ExecutionRole \<Rightarrow>
   BuildExecution CoordinatorResult program" where
  "execution d ow ctx role = Query (\<lambda>t.
     case getExecutionLease t ow (xc_childSessionId ctx) of
       None \<Rightarrow> Return (Inl (OfBootstrap BOOTSTRAP_REQUIRED))
     | Some lease \<Rightarrow>
       if \<not> exactRunningLease ow ctx role lease then Return (Inl (OfBootstrap BOOTSTRAP_REQUIRED))
       else
         orReturn (coordinatorNow d 0) (\<lambda>now.
           if timeGe now (ls_expiresAt lease) then Return (Inl (OfBootstrap (BootstrapStore LEASE_EXPIRED)))
           else Query (\<lambda>t. let workflow = getBuildWorkflow t ow (tgt_agentId (ls_target lease)) in Query (\<lambda>t.
             case (workflow, getFamily t ow (tgt_agentId (ls_target lease))) of
               (Some w, Some f) \<Rightarrow>
                 (case fam_draft f of
                    None \<Rightarrow> Return targetChanged
                  | Some draft \<Rightarrow>
                    if \<not> bootstrapTargetsEqual (ls_target lease)
                           (DraftTarget (fam_agentId f) (d_draftId draft) (d_draftRevision draft)) \<or>
                       \<not> buildExecutionScopesEqual (ls_workflow lease) (Some (scopeOf w))
                    then Return targetChanged
                    else Return (Inr \<lparr>be_workflow = w, be_family = f, be_draft = draft, be_lease = lease\<rparr>))
             | _ \<Rightarrow> Return targetChanged))))"

text \<open>The trusted target of a request of a session: the session and its turn.\<close>

definition sessionTargetJson :: "BuildWorkflowExecutionContext \<Rightarrow> JsonValue" where
  "sessionTargetJson ctx = JObject
     [(''childSessionId'', JString (xc_childSessionId ctx)), (''executionTurnId'', JString (xc_executionTurnId ctx))]"

abbreviation (input) mutationContext :: "BuildWorkflowExecutionContext \<Rightarrow> AgentBuilderMutationContext" where
  "mutationContext ctx \<equiv> \<lparr>mc_ownerResolution = mc_ownerResolution ctx, mc_operationId = mc_operationId ctx\<rparr>"

definition submissionCommand ::
  "host \<Rightarrow> BuildRole \<Rightarrow> BuildWorkflowExecutionContext \<Rightarrow> BuildSubmissionInput \<Rightarrow> BuildExecution \<Rightarrow>
   SavedAgentEditableFields \<Rightarrow> string option \<Rightarrow> SubmitBuildRoleStoreCommand" where
  "submissionCommand h role ctx i x edited testRunId =
     \<lparr>sb_workflowId = wf_workflowId (be_workflow x), sb_expectedWorkflowRevision = wf_revision (be_workflow x),
      sb_role = role, sb_leaseId = ls_leaseId (be_lease x), sb_childSessionId = ls_childSessionId (be_lease x),
      sb_executionTurnId = xc_executionTurnId ctx, sb_expectedRevision = fam_revision (be_family x),
      sb_expectedDraftRevision = d_draftRevision (be_draft x),
      sb_canonicalName = canonicalizeAgentName h (fld_name edited), sb_fields = edited,
      sb_result = bsi_result i, sb_testRunId = testRunId\<rparr>"

definition submitRole ::
  "host \<Rightarrow> CoordinatorDependencies \<Rightarrow> BuildRole \<Rightarrow> BuildWorkflowExecutionContext \<Rightarrow> BuildSubmissionInput option \<Rightarrow>
   AgentBuilderStoreMutationSuccess CoordinatorResult program" where
  "submitRole h d role ctx rawInput =
     (case rawInput of
        None \<Rightarrow> Return invalidInput
      | Some i \<Rightarrow>
        if \<not> submissionSchema h role i then Return invalidInput
        else
          orReturn (prepareWorkflowMutation d (mutationContext ctx) (''workflow_role_submit:'' @ buildRoleText role)
              (submissionJson i) (sessionTargetJson ctx)) (\<lambda>p.
          workflowReplayOr p TWorkflowRoleSubmitted (
            andThenOk (execution d (wm_owner p) ctx (executionRoleOf role)) (\<lambda>x.
              let edited = applyPatch (d_fields (be_draft x)) (bsi_patch i)
              in if \<not> savedAgentEditableFieldsSchema h edited then Return invalidInput
                 else
                   orReturn (coordinatorNow d 1) (\<lambda>now.
                   orReturn (if role = BuildQa \<and> bsi_result i = SubNeedsTest
                       then map_sum id Some (coordinatorId (wd_testRunId d)) else Inr None) (\<lambda>testRunId.
                     mutateWorkflow p TWorkflowRoleSubmitted now
                       (SubmitBuildRole (submissionCommand h role ctx i x edited testRunId))))))))"

definition recordTestResult ::
  "CoordinatorDependencies \<Rightarrow> BuildWorkflowExecutionContext \<Rightarrow> RecordBuildTestInput option \<Rightarrow>
   AgentBuilderStoreMutationSuccess CoordinatorResult program" where
  "recordTestResult d ctx rawInput =
     (case rawInput of
        None \<Rightarrow> Return invalidInput
      | Some i \<Rightarrow>
        if \<not> recordBuildTestInputSchema i then Return invalidInput
        else
          orReturn (prepareWorkflowMutation d (mutationContext ctx) ''workflow_test_result''
              (recordBuildTestJson i) (sessionTargetJson ctx)) (\<lambda>p.
          workflowReplayOr p TWorkflowTestRecorded (
            andThenOk (execution d (wm_owner p) ctx ExTestRunner) (\<lambda>x.
              case wf_testRunId (be_workflow x) of
                None \<Rightarrow> Return targetChanged
              | Some testRunId \<Rightarrow>
                orReturn (coordinatorNow d 1) (\<lambda>now.
                  mutateWorkflow p TWorkflowTestRecorded now (RecordBuildTest
                    \<lparr>rt_workflowId = wf_workflowId (be_workflow x),
                     rt_expectedWorkflowRevision = wf_revision (be_workflow x), rt_testRunId = testRunId,
                     rt_leaseId = ls_leaseId (be_lease x), rt_childSessionId = ls_childSessionId (be_lease x),
                     rt_executionTurnId = xc_executionTurnId ctx, rt_status = rbi_status i,
                     rt_errorCodes = rbi_errorCodes i\<rparr>))))))"

definition agentTargetJson :: "string \<Rightarrow> JsonValue" where
  "agentTargetJson agentId = JObject [(''agentId'', JString agentId)]"

definition publish ::
  "CoordinatorDependencies \<Rightarrow> AgentBuilderMutationContext \<Rightarrow> string \<Rightarrow> unit option \<Rightarrow>
   AgentBuilderStoreMutationSuccess CoordinatorResult program" where
  "publish d ctx agentId rawInput =
     (case rawInput of
        None \<Rightarrow> Return invalidInput
      | Some _ \<Rightarrow>
        orReturn (prepareWorkflowMutation d ctx ''workflow_publish'' (JObject []) (agentTargetJson agentId)) (\<lambda>p.
        workflowReplayOr p TWorkflowPublished (
          andThenOk (snapshot d (mc_ownerResolution ctx) agentId) (\<lambda>sn.
            case fam_draft (sn_family sn) of
              None \<Rightarrow> Return targetChanged
            | Some draft \<Rightarrow>
              orReturn (coordinatorNow d 0) (\<lambda>now.
              orReturn (coordinatorId (wd_specId d)) (\<lambda>specId.
                if length (wm_principalId p) < 1 \<or> length (wm_principalId p) > 1024
                then Return dependencyViolation
                else mutateWorkflow p TWorkflowPublished now (PublishBuildWorkflow
                  \<lparr>pw_workflowId = wf_workflowId (sn_workflow sn),
                   pw_expectedWorkflowRevision = wf_revision (sn_workflow sn),
                   pw_agentId = fam_agentId (sn_family sn), pw_expectedRevision = fam_revision (sn_family sn),
                   pw_expectedDraftRevision = d_draftRevision draft, pw_specId = specId,
                   pw_publishedBy = wm_principalId p\<rparr>)))))))"

definition reopen ::
  "CoordinatorDependencies \<Rightarrow> AgentBuilderMutationContext \<Rightarrow> string \<Rightarrow> unit option \<Rightarrow>
   AgentBuilderStoreMutationSuccess CoordinatorResult program" where
  "reopen d ctx agentId rawInput =
     (case rawInput of
        None \<Rightarrow> Return invalidInput
      | Some _ \<Rightarrow>
        orReturn (prepareWorkflowMutation d ctx ''workflow_reopen'' (JObject []) (agentTargetJson agentId)) (\<lambda>p.
        workflowReplayOr p TWorkflowReopened (
          andThenOk (snapshot d (mc_ownerResolution ctx) agentId) (\<lambda>sn.
            case fam_draft (sn_family sn) of
              None \<Rightarrow> Return targetChanged
            | Some draft \<Rightarrow>
              orReturn (coordinatorNow d 0) (\<lambda>now.
                mutateWorkflow p TWorkflowReopened now (ReopenBuildWorkflow
                  \<lparr>ro_workflowId = wf_workflowId (sn_workflow sn),
                   ro_expectedWorkflowRevision = wf_revision (sn_workflow sn),
                   ro_agentId = fam_agentId (sn_family sn), ro_expectedRevision = fam_revision (sn_family sn),
                   ro_expectedDraftRevision = d_draftRevision draft\<rparr>))))))"

end
