(* ===== verification/Roles.thy ===== *)
theory Roles
  imports Coordinator Capabilities
begin

text \<open>
  What a role may do (\<open>packages/eve-agent-builder/extension/lib/roles.ts\<close>): the permission matrix
  and \<open>RoleScopedAgentBuilderService\<close>, which lets the session of a role read and patch its draft
  under its lease, as programs over the store. The clock is asked once per call.
\<close>

section \<open>The permission matrix\<close>

datatype AgentBuilderRoleOperation =
    RoleDraftCreate | RoleWorkflowAllocate | RoleWorkflowReopen | RoleBootstrapIssue | RoleDraftRead
  | RolePmPatch | RoleImplementorPatch | RoleQaPatch | RolePmSubmit | RoleImplementorSubmit | RoleQaSubmit
  | RoleTestSubmit | RoleCapabilityMetadata | RoleCapabilityExecute | RoleTestRequest | RolePublish
  | RoleActivate | RoleArchive | RoleRestore | RoleDelete | RoleProvision | RoleAgentDiscovery

text \<open>The role \<open>root\<close> is \<open>None\<close>.\<close>

fun rolePermissionMatrix :: "ExecutionRole option \<Rightarrow> AgentBuilderRoleOperation set" where
  "rolePermissionMatrix None =
     {RoleDraftCreate, RoleWorkflowAllocate, RoleWorkflowReopen, RoleBootstrapIssue, RoleAgentDiscovery,
      RoleTestRequest, RolePublish, RoleActivate, RoleArchive, RoleRestore, RoleDelete}"
| "rolePermissionMatrix (Some ExPm) = {RoleDraftRead, RolePmPatch, RolePmSubmit}"
| "rolePermissionMatrix (Some ExImplementor) =
     {RoleDraftRead, RoleImplementorPatch, RoleImplementorSubmit, RoleCapabilityMetadata}"
| "rolePermissionMatrix (Some ExQa) = {RoleDraftRead, RoleQaPatch, RoleQaSubmit, RoleTestRequest}"
| "rolePermissionMatrix (Some ExTestRunner) = {RoleDraftRead, RoleCapabilityExecute, RoleTestSubmit}"
| "rolePermissionMatrix (Some ExActiveRunner) = {RoleCapabilityExecute}"

definition roleMayPerform :: "ExecutionRole option \<Rightarrow> AgentBuilderRoleOperation \<Rightarrow> bool" where
  "roleMayPerform role operation \<longleftrightarrow> operation \<in> rolePermissionMatrix role"

section \<open>The service of a role\<close>

datatype RoleServiceError =
    RoleForbidden
  | RoleBootstrapRequired
  | RoleOwnerMismatch
  | RoleTargetChanged
  | RoleInvalidInput
  | RoleOfService AgentBuilderError

type_synonym 'a RoleServiceResult = "RoleServiceError + 'a"

text \<open>The patch of a role: as in a submission, but not empty.\<close>

fun rolePatchSchema :: "host \<Rightarrow> BuildRole \<Rightarrow> SavedAgentDraftPatch \<Rightarrow> bool" where
  "rolePatchSchema h BuildPm p \<longleftrightarrow> pmPatchSchema p \<and> patchMembers p \<noteq> []"
| "rolePatchSchema h BuildImplementor p \<longleftrightarrow> implementorPatchSchema h p \<and> patchMembers p \<noteq> []"
| "rolePatchSchema h BuildQa p \<longleftrightarrow> qaPatchSchema p \<and> patchMembers p \<noteq> []"

fun patchOperation :: "BuildRole \<Rightarrow> AgentBuilderRoleOperation" where
  "patchOperation BuildPm = RolePmPatch"
| "patchOperation BuildImplementor = RoleImplementorPatch"
| "patchOperation BuildQa = RoleQaPatch"

text \<open>The stored lease against the claimed one.\<close>

definition leaseAuthorizes :: "string \<Rightarrow> ExecutionRole \<Rightarrow> ExecutionLeaseRecord \<Rightarrow> ExecutionLeaseRecord \<Rightarrow> bool" where
  "leaseAuthorizes now role claimed lease \<longleftrightarrow>
     ls_leaseId lease = ls_leaseId claimed \<and> ls_role lease = role \<and> ls_status lease = LeaseRunning \<and>
     ls_executionTurnId lease \<noteq> None \<and> ls_executionTurnId lease = ls_executionTurnId claimed \<and>
     \<not> timeGe now (ls_expiresAt lease) \<and> bootstrapTargetsEqual (ls_target lease) (ls_target claimed)"

definition authorize ::
  "string \<Rightarrow> ExecutionRole \<Rightarrow> AgentBuilderRoleOperation \<Rightarrow> OwnerScope \<Rightarrow> ExecutionLeaseRecord \<Rightarrow>
   BootstrapTarget RoleServiceResult program" where
  "authorize now role operation ow claimed =
     (if \<not> roleMayPerform (Some role) operation then Return (Inl RoleForbidden)
      else if \<not> sameOwner ow (ls_owner claimed) then Return (Inl RoleOwnerMismatch)
      else Query (\<lambda>t. Return
        (case getExecutionLease t ow (ls_childSessionId claimed) of
           None \<Rightarrow> Inl RoleBootstrapRequired
         | Some lease \<Rightarrow>
           if \<not> leaseAuthorizes now role claimed lease then Inl RoleBootstrapRequired
           else
             (case ls_target lease of
                DraftTarget agentId draftId draftRevision \<Rightarrow> Inr (DraftTarget agentId draftId draftRevision)
              | PublishedTarget _ _ _ \<Rightarrow> Inl RoleTargetChanged))))"

definition ofService :: "'a AgentBuilderResult \<Rightarrow> 'a RoleServiceResult" where
  "ofService r = map_sum RoleOfService id r"

definition roleOwner ::
  "ServiceDependencies \<Rightarrow> OwnerResolutionInput option \<Rightarrow> (OwnerScope \<times> SessionAuthContext) RoleServiceResult" where
  "roleOwner d ownerInput = ofService (resolveCurrentOwner ownerInput (sd_resolveOwner d))"

definition readDraft ::
  "ServiceDependencies \<Rightarrow> string \<Rightarrow> ExecutionRole \<Rightarrow> OwnerResolutionInput option \<Rightarrow> ExecutionLeaseRecord \<Rightarrow>
   SavedAgentFamily RoleServiceResult program" where
  "readDraft d now role ownerInput lease =
     orReturn (roleOwner d ownerInput) (\<lambda>(ow, _).
     andThenOk (authorize now role RoleDraftRead ow lease) (\<lambda>target.
     andThen (serviceGetFamily d ownerInput (Some (tgt_agentId target))) (\<lambda>r. Return
       (case r of
          Inl e \<Rightarrow> Inl (RoleOfService e)
        | Inr f \<Rightarrow>
          if map_option d_draftId (fam_draft f) \<noteq> Some (tgt_draftId target) \<or>
             map_option d_draftRevision (fam_draft f) \<noteq> Some (tgt_draftRevision target)
          then Inl RoleTargetChanged else Inr f))))"

text \<open>The registry's listing is \<open>None\<close> when the registry throws.\<close>

definition listCapabilityMetadata ::
  "ServiceDependencies \<Rightarrow> string \<Rightarrow> RunnerCapabilityDescriptor list option \<Rightarrow> OwnerResolutionInput option \<Rightarrow>
   ExecutionLeaseRecord \<Rightarrow> RunnerCapabilityDescriptor list RoleServiceResult program" where
  "listCapabilityMetadata d now listing ownerInput lease =
     orReturn (roleOwner d ownerInput) (\<lambda>(ow, _).
     andThenOk (authorize now ExImplementor RoleCapabilityMetadata ow lease) (\<lambda>_. Return
       (case Option.bind listing (\<lambda>raw. listCapabilities raw ow) of
          None \<Rightarrow> Inl RoleInvalidInput
        | Some descriptors \<Rightarrow> Inr descriptors)))"

definition leasedFamilyRevision ::
  "ServiceDependencies \<Rightarrow> AgentBuilderMutationContext \<Rightarrow> string \<Rightarrow> int program" where
  "leasedFamilyRevision d ctx agentId =
     andThen (serviceGetFamily d (mc_ownerResolution ctx) (Some agentId))
       (\<lambda>r. Return (case r of Inl _ \<Rightarrow> 0 | Inr f \<Rightarrow> fam_revision f))"

definition rolePatch ::
  "host \<Rightarrow> ServiceDependencies \<Rightarrow> string \<Rightarrow> BuildRole \<Rightarrow> ExecutionLeaseRecord \<Rightarrow>
   AgentBuilderMutationContext \<Rightarrow> SavedAgentDraftPatch option \<Rightarrow>
   AgentBuilderStoreMutationSuccess RoleServiceResult program" where
  "rolePatch h d now role lease ctx rawPatch =
     (if ls_workflow lease \<noteq> None then Return (Inl RoleForbidden)
      else
        orReturn (roleOwner d (mc_ownerResolution ctx)) (\<lambda>(ow, _).
        andThenOk (authorize now (executionRoleOf role) (patchOperation role) ow lease) (\<lambda>target.
          case rawPatch of
            None \<Rightarrow> Return (Inl RoleInvalidInput)
          | Some p \<Rightarrow>
            if \<not> rolePatchSchema h role p then Return (Inl RoleInvalidInput)
            else
              andThen (leasedFamilyRevision d ctx (tgt_agentId target)) (\<lambda>revision.
              andThen (servicePatchDraft h d ctx (Some
                  \<lparr>pi_agentId = tgt_agentId target, pi_expectedRevision = revision,
                   pi_expectedDraftRevision = tgt_draftRevision target, pi_patch = p\<rparr>))
                (\<lambda>r. Return (ofService r))))))"

end
