(* ===== verification/Operation_Log.thy ===== *)
theory Operation_Log
  imports Program Mutation_Properties
begin

text \<open>
  The protocol shared by the two services that write to the store (\<open>service.ts\<close> and
  \<open>workflow-service.ts\<close>): an operation has an identity (owner, operation id, fingerprint of the
  request); it first looks for a logged answer under this identity, then reads, and at last
  performs at most one store command under the same identity. The locale states the protocol and
  what every service that follows it promises.
\<close>

section \<open>The store at the n-th access of a run\<close>

definition seen :: "host \<Rightarrow> machine \<Rightarrow> nat \<Rightarrow> Tenants" where
  "seen h s n = runCalls h (snd s) (concat (take n (fst s)))"

lemma seen_0 [simp]: "seen h s 0 = snd s"
  by (simp add: seen_def)

lemma seen_others [simp]: "seen h (others h s) n = seen h s (Suc n)"
  by (cases "fst s") (simp_all add: seen_def others_def runCalls_append)

lemma snd_others: "snd (others h s) = seen h s 1"
  by (cases "fst s") (simp_all add: seen_def others_def)

lemma seen_reachable: "reachable h (snd s) \<Longrightarrow> reachable h (seen h s n)"
  by (simp add: seen_def reachable_runCalls)

lemma seen_later: "m \<le> n \<Longrightarrow> \<exists>cs. seen h s n = runCalls h (seen h s m) cs"
proof -
  assume "m \<le> n"
  then have "take n (fst s) = take m (fst s) @ take (n - m) (drop m (fst s))"
    by (metis le_add_diff_inverse take_add)
  then show ?thesis by (auto simp: seen_def runCalls_append)
qed

lemma seen_alone [simp]: "seen h ([], t) n = t"
  by (simp add: seen_def)

section \<open>The protocol\<close>

record MutationIdentity =
  id_owner :: OwnerScope
  id_operationId :: string
  id_requestFingerprint :: string

definition identified :: "MutationIdentity \<Rightarrow> StoreMutationBase \<Rightarrow> bool" where
  "identified p m \<longleftrightarrow> mb_owner m = id_owner p \<and> mb_operationId m = id_operationId p \<and>
     mb_requestFingerprint m = id_requestFingerprint p"

text \<open>The log of an owner has an answer for the operation.\<close>

definition loggedAs :: "Tenants \<Rightarrow> MutationIdentity \<Rightarrow> AgentBuilderStoreMutationSuccess \<Rightarrow> bool" where
  "loggedAs t p x \<longleftrightarrow> map_of (operations (bucketOf t (id_owner p))) (id_operationId p) =
     Some \<lparr>op_requestFingerprint = id_requestFingerprint p, op_result = x\<rparr>"

inductive commits ::
  "MutationIdentity \<Rightarrow> (AgentBuilderStoreMutationSuccess \<Rightarrow> 'e + 'a) \<Rightarrow> ('e + 'a) program \<Rightarrow> bool"
  for p accept where
  refuses: "commits p accept (Return (Inl e))"
| reads: "(\<And>t. commits p accept (k t)) \<Longrightarrow> commits p accept (Query k)"
| writes: "identified p m \<Longrightarrow> (\<And>x. k (Inr x) = Return (accept x)) \<Longrightarrow> (\<And>e. \<exists>e'. k (Inl e) = Return (Inl e')) \<Longrightarrow>
     commits p accept (DoMutate m c k)"

lemma commits_run:
  assumes "commits p accept q" and "runProgram q h s = (s', Inr y)"
  shows "\<exists>n m c x. fst s' = drop n (fst s) \<and> identified p m \<and> accept x = Inr y \<and>
    mutate h (seen h s n) m c = (snd s', Inr x)"
  using assms
proof (induction arbitrary: s rule: commits.induct)
  case (reads k)
  from reads.IH[of "snd (others h s)" "others h s"] reads.prems obtain n m c x where
    "fst s' = drop n (fst (others h s))" "identified p m" "accept x = Inr y"
    "mutate h (seen h (others h s) n) m c = (snd s', Inr x)" by (auto simp: Let_def)
  then show ?case by (intro exI[of _ "Suc n"] exI[of _ m]) (auto simp: drop_Suc)
next
  case (writes m k c)
  let ?r = "mutate h (snd (others h s)) m c"
  show ?case
  proof (cases "snd ?r")
    case (Inl e)
    with writes.hyps(3)[of e] writes.prems show ?thesis by (auto simp: Let_def)
  next
    case (Inr x)
    with writes.hyps(2)[of x] writes.prems have "s' = (tl (fst s), fst ?r)" "accept x = Inr y"
      by (auto simp: Let_def)
    moreover have "mutate h (seen h s 1) m c = (fst ?r, Inr x)"
      using Inr by (metis snd_others prod.collapse)
    ultimately show ?thesis
      using writes.hyps(1) by (intro exI[of _ 1] exI[of _ m] exI[of _ c] exI[of _ x]) (simp add: drop_Suc)
  qed
qed simp

text \<open>Running alone, it writes to the bucket of its owner only.\<close>

lemma commits_alone:
  assumes "commits p accept q" and "runProgram q h ([], t) = (s', y)" and "ow \<noteq> id_owner p"
  shows "fst s' = [] \<and> bucketOf (snd s') ow = bucketOf t ow"
  using assms
proof (induction rule: commits.induct)
  case (writes m k c)
  let ?r = "mutate h t m c"
  have "bucketOf (fst ?r) ow = bucketOf t ow"
    using writes.hyps(1) writes.prems(2)
    by (cases rule: mutate_cases[of t m h c]) (auto simp: identified_def bucketOf_putBucket)
  moreover have "s' = ([], fst ?r)"
    using writes.prems(1) writes.hyps(2,3) by (cases "snd ?r") (auto simp: Let_def, metis prod.inject runProgram.simps(1))
  ultimately show ?case by simp
qed (auto simp: Let_def)

locale logged_operation =
  fixes identity :: "'r \<Rightarrow> 'e + MutationIdentity"
    and accept :: "'r \<Rightarrow> AgentBuilderStoreMutationSuccess \<Rightarrow> 'e + 'a"
    and reused :: "SuccessType \<Rightarrow> 'e"
    and operation :: "'r \<Rightarrow> ('e + 'a) program"
  assumes unidentified: "identity r = Inl e \<Longrightarrow> operation r = Return (Inl e)"
    and protocol: "identity r = Inr p \<Longrightarrow> \<exists>rest. commits p (accept r) rest \<and>
      operation r = Query (\<lambda>t.
        case getMutationReplay t (id_owner p) (id_operationId p) (id_requestFingerprint p) of
          ReplayMiss \<Rightarrow> rest
        | Replay x \<Rightarrow> Return (accept r x)
        | ReplayOperationIdReused prior \<Rightarrow> Return (Inl (reused prior)))"
begin

lemma replay_bucket:
  "getMutationReplay t ow k f =
     (case map_of (operations (bucketOf t ow)) k of
        None \<Rightarrow> ReplayMiss
      | Some r \<Rightarrow> if op_requestFingerprint r \<noteq> f then ReplayOperationIdReused (successType (op_result r))
                 else Replay (op_result r))"
  by (auto simp: getMutationReplay_def bucketOf_def emptyBucket_def split: option.split)

text \<open>A success is in the log of the owner, under the identity of the operation.\<close>

lemma success_logged:
  assumes "identity r = Inr p" and "runProgram (operation r) h s = (s', Inr y)"
  shows "\<exists>x. loggedAs (snd s') p x \<and> accept r x = Inr y"
proof -
  from protocol[OF assms(1)] obtain rest where rest: "commits p (accept r) rest"
    "operation r = Query (\<lambda>t.
        case getMutationReplay t (id_owner p) (id_operationId p) (id_requestFingerprint p) of
          ReplayMiss \<Rightarrow> rest
        | Replay x \<Rightarrow> Return (accept r x)
        | ReplayOperationIdReused prior \<Rightarrow> Return (Inl (reused prior)))" by blast
  show ?thesis
  proof (cases "map_of (operations (bucketOf (snd (others h s)) (id_owner p))) (id_operationId p)")
    case None
    then have "runProgram rest h (others h s) = (s', Inr y)"
      using assms(2) by (simp add: rest(2) Let_def replay_bucket)
    from commits_run[OF rest(1) this] obtain n m c x where
      "identified p m" "accept r x = Inr y" "mutate h (seen h (others h s) n) m c = (snd s', Inr x)" by blast
    moreover obtain e where
      "map_of (operations (bucketOf (snd s') (mb_owner m))) (mb_operationId m) = Some e"
      "op_result e = x" "op_requestFingerprint e = mb_requestFingerprint m"
      using logged_result[OF calculation(3)] .
    ultimately show ?thesis by (intro exI[of _ x]) (cases e, simp add: loggedAs_def identified_def)
  next
    case (Some e)
    then show ?thesis
      using assms(2) by (cases e) (auto simp: rest(2) Let_def replay_bucket loggedAs_def split: if_splits)
  qed
qed

text \<open>What is logged stays logged.\<close>

lemma logged_later: "store_ok h t \<Longrightarrow> loggedAs t p x \<Longrightarrow> loggedAs (runCalls h t cs) p x"
  unfolding loggedAs_def by (rule operations_later)

text \<open>An operation whose identity is logged returns the logged answer and writes nothing.\<close>

lemma answered_from_log:
  assumes "loggedAs (snd (others h s)) p x" and "identity r = Inr p"
  shows "runProgram (operation r) h s = (others h s, accept r x)"
  using protocol[OF assms(2)] assms(1) by (auto simp: Let_def replay_bucket loggedAs_def)

lemma refused_from_log:
  assumes "loggedAs (snd (others h s)) p x" and "identity r = Inr p'"
    and "id_owner p' = id_owner p" and "id_operationId p' = id_operationId p"
    and "id_requestFingerprint p' \<noteq> id_requestFingerprint p"
  shows "runProgram (operation r) h s = (others h s, Inl (reused (successType x)))"
  using protocol[OF assms(2)] assms(1,3-5) by (auto simp: Let_def replay_bucket loggedAs_def)

text \<open>Once it has succeeded, repeating an operation is answered from the log for ever, and another
  request under its operation id is refused for ever.\<close>

lemma succeeded_once:
  assumes "reachable h (snd s)" and "identity r = Inr p" and "runProgram (operation r) h s = (s', Inr y)"
    and "snd s2 = runCalls h (snd s') cs" and "identity r2 = Inr p2"
    and "id_owner p2 = id_owner p" and "id_operationId p2 = id_operationId p"
  shows "\<exists>x. accept r x = Inr y \<and> runProgram (operation r2) h s2 =
    (others h s2, if id_requestFingerprint p2 = id_requestFingerprint p then accept r2 x
       else Inl (reused (successType x)))"
proof -
  from success_logged[OF assms(2,3)] obtain x where x: "loggedAs (snd s') p x" "accept r x = Inr y" by blast
  have "reachable h (snd s')" using runProgram_reachable[OF assms(1), of "operation r"] assms(3) by simp
  moreover have "snd (others h s2) = runCalls h (snd s') (cs @ (case fst s2 of [] \<Rightarrow> [] | c # _ \<Rightarrow> c))"
    by (simp add: others_def assms(4) runCalls_append)
  ultimately have logged: "loggedAs (snd (others h s2)) p x"
    using x(1) logged_later reachable_ok by metis
  show ?thesis
  proof (cases "id_requestFingerprint p2 = id_requestFingerprint p")
    case True
    then have "p2 = p" using assms(6,7) by simp
    with answered_from_log[OF logged] assms(5) x(2) show ?thesis by auto
  next
    case False
    with refused_from_log[OF logged assms(5-7)] x(2) show ?thesis by auto
  qed
qed

text \<open>Nothing happens without an identity; with one, only the bucket of its owner changes.\<close>

lemma confined:
  assumes "runProgram (operation r) h ([], t) = (s', y)"
  shows "case identity r of
      Inl e \<Rightarrow> s' = ([], t) \<and> y = Inl e
    | Inr p \<Rightarrow> (\<forall>ow. ow \<noteq> id_owner p \<longrightarrow> bucketOf (snd s') ow = bucketOf t ow)"
proof (cases "identity r")
  case (Inl e)
  then show ?thesis using assms unidentified[OF Inl] by simp
next
  case (Inr p)
  from protocol[OF Inr] obtain rest where rest: "commits p (accept r) rest"
    "operation r = Query (\<lambda>t.
        case getMutationReplay t (id_owner p) (id_operationId p) (id_requestFingerprint p) of
          ReplayMiss \<Rightarrow> rest
        | Replay x \<Rightarrow> Return (accept r x)
        | ReplayOperationIdReused prior \<Rightarrow> Return (Inl (reused prior)))" by blast
  have "bucketOf (snd s') ow = bucketOf t ow" if "ow \<noteq> id_owner p" for ow
  proof (cases "map_of (operations (bucketOf t (id_owner p))) (id_operationId p)")
    case None
    then have "runProgram rest h ([], t) = (s', y)" using assms by (simp add: rest(2) replay_bucket)
    from commits_alone[OF rest(1) this that] show ?thesis by simp
  next
    case (Some e)
    then show ?thesis using assms by (auto simp: rest(2) replay_bucket split: if_splits)
  qed
  then show ?thesis by (simp add: Inr)
qed

end

end
