(* ===== verification/Service_Properties.thy ===== *)
theory Service_Properties
  imports Service Operation_Log Lifecycle_Properties
begin

text \<open>
  The properties of the agent builder service: it follows the protocol of theory
  \<open>Operation_Log\<close>, so an operation takes effect once; it is confined to the authenticated owner;
  and a patch is never lost.
\<close>

section \<open>The service follows the protocol\<close>

text \<open>The eight mutations as requests.\<close>

datatype ServiceRequest =
    CreateDraftRequest "CreateSavedAgentDraftInput option"
  | BeginRevisionRequest "FamilyLifecycleInput option"
  | PatchDraftRequest "PatchDraftInput option"
  | PublishDraftRequest "PublishDraftInput option"
  | ActivateVersionRequest "ActivateVersionInput option"
  | ArchiveFamilyRequest "FamilyLifecycleInput option"
  | RestoreFamilyRequest "FamilyLifecycleInput option"
  | DeleteFamilyRequest "FamilyLifecycleInput option"

fun serve ::
  "host \<Rightarrow> int \<Rightarrow> ServiceDependencies \<Rightarrow> AgentBuilderMutationContext \<Rightarrow> ServiceRequest \<Rightarrow>
   AgentBuilderStoreMutationSuccess AgentBuilderResult program" where
  "serve h n d ctx (CreateDraftRequest i) = createDraft h n d ctx i"
| "serve h n d ctx (BeginRevisionRequest i) = serviceBeginRevision d ctx i"
| "serve h n d ctx (PatchDraftRequest i) = servicePatchDraft h d ctx i"
| "serve h n d ctx (PublishDraftRequest i) = servicePublishDraft h d ctx i"
| "serve h n d ctx (ActivateVersionRequest i) = serviceActivateVersion d ctx i"
| "serve h n d ctx (ArchiveFamilyRequest i) = serviceArchiveFamily d ctx i"
| "serve h n d ctx (RestoreFamilyRequest i) = serviceRestoreFamily d ctx i"
| "serve h n d ctx (DeleteFamilyRequest i) = serviceDeleteFamily d ctx i"

definition identityOf :: "PreparedMutation \<Rightarrow> MutationIdentity" where
  "identityOf p = \<lparr>id_owner = pm_owner p, id_operationId = pm_operationId p,
     id_requestFingerprint = pm_requestFingerprint p\<rparr>"

definition identityIn :: "(PreparedMutation \<times> 'p) AgentBuilderResult \<Rightarrow> MutationIdentity AgentBuilderResult" where
  "identityIn x = map_sum id (\<lambda>(p, _). identityOf p) x"

fun serviceIdentity ::
  "host \<Rightarrow> ServiceDependencies \<Rightarrow> AgentBuilderMutationContext \<Rightarrow> ServiceRequest \<Rightarrow>
   MutationIdentity AgentBuilderResult" where
  "serviceIdentity h d ctx (CreateDraftRequest i) = identityIn
     (prepareMutation d ctx i (createSavedAgentDraftInputSchema h) ''create_draft''
       (\<lambda>i. let fields = editableFieldsFromCreate i
            in if savedAgentEditableFieldsSchema h fields then Inr fields else Inl SERVICE_INVALID_INPUT)
       fieldsJson)"
| "serviceIdentity h d ctx (BeginRevisionRequest i) = identityIn
     (prepareMutation d ctx i familyLifecycleInputSchema ''begin_revision'' Inr familyLifecycleJson)"
| "serviceIdentity h d ctx (PatchDraftRequest i) = identityIn
     (prepareMutation d ctx i (patchDraftInputSchema h) ''patch_draft'' Inr patchDraftJson)"
| "serviceIdentity h d ctx (PublishDraftRequest i) = identityIn
     (prepareMutation d ctx i publishDraftInputSchema ''publish_draft'' Inr publishDraftJson)"
| "serviceIdentity h d ctx (ActivateVersionRequest i) = identityIn
     (prepareMutation d ctx i activateVersionInputSchema ''activate_version'' Inr activateVersionJson)"
| "serviceIdentity h d ctx (ArchiveFamilyRequest i) = identityIn
     (prepareMutation d ctx i familyLifecycleInputSchema ''archive_family'' Inr familyLifecycleJson)"
| "serviceIdentity h d ctx (RestoreFamilyRequest i) = identityIn
     (prepareMutation d ctx i familyLifecycleInputSchema ''restore_family'' Inr familyLifecycleJson)"
| "serviceIdentity h d ctx (DeleteFamilyRequest i) = identityIn
     (prepareMutation d ctx i familyLifecycleInputSchema ''delete_family'' Inr familyLifecycleJson)"

text \<open>The steps of the operations after the preparation.\<close>

named_theorems commit_steps "steps that keep an operation within the protocol"

lemma commits_return [commit_steps]: "commits p accept (Return (Inl e))"
  by (rule commits.refuses)

lemma commits_query [commit_steps]: "(\<And>t. commits p accept (k t)) \<Longrightarrow> commits p accept (Query k)"
  by (rule commits.reads)

lemma commits_mutate [commit_steps]: "commits (identityOf p) Inr (mutateStore p now c)"
  unfolding mutateStore_def
  by (rule commits.writes) (simp_all add: identified_def identityOf_def mutationBase_def)

lemma commits_orReturn [commit_steps]:
  "(\<And>v. commits p accept (k v)) \<Longrightarrow> commits p accept (orReturn x k)"
  by (cases x) (simp_all add: orReturn_def commits.refuses)

lemma commits_if [commit_steps]:
  "commits p accept a \<Longrightarrow> commits p accept b \<Longrightarrow> commits p accept (if c then a else b)"
  by simp

lemma commits_option [commit_steps]:
  "commits p accept a \<Longrightarrow> (\<And>v. commits p accept (k v)) \<Longrightarrow>
   commits p accept (case x of None \<Rightarrow> a | Some v \<Rightarrow> k v)"
  by (cases x) simp_all

lemma commits_prod [commit_steps]:
  "(\<And>a b. commits p accept (k a b)) \<Longrightarrow> commits p accept (case x of (a, b) \<Rightarrow> k a b)"
  by (cases x) simp

lemma commits_let [commit_steps]:
  "(\<And>v. commits p accept (k v)) \<Longrightarrow> commits p accept (let v = x in k v)"
  by simp

lemma commits_refusals [commit_steps]:
  "commits p accept (Return serviceNotFound)" "commits p accept (Return (serviceRevisionConflict f))"
  "commits p accept (Return (serviceInvalidTransition f operation))"
  by (simp_all add: serviceNotFound_def serviceRevisionConflict_def serviceInvalidTransition_def commits.refuses)

lemma commits_withLiveFamily [commit_steps]:
  "(\<And>f. commits q accept (k f)) \<Longrightarrow> commits q accept (withLiveFamily p agentId expected k)"
  unfolding withLiveFamily_def by (intro commit_steps)

lemma commits_withDraft [commit_steps]:
  "(\<And>f draft. commits q accept (k f draft)) \<Longrightarrow> commits q accept (withDraft p agentId n m operation k)"
  unfolding withDraft_def by (intro commit_steps)

lemma prepared_protocol:
  assumes "\<And>p x. commits (identityOf p) Inr (rest p x)"
  shows "identityIn prep = Inl e \<Longrightarrow> orReturn prep (\<lambda>(p, x). replayOr p (rest p x)) = Return (Inl e)"
    and "identityIn prep = Inr q \<Longrightarrow> \<exists>rest'. commits q Inr rest' \<and>
      orReturn prep (\<lambda>(p, x). replayOr p (rest p x)) = Query (\<lambda>t.
        case getMutationReplay t (id_owner q) (id_operationId q) (id_requestFingerprint q) of
          ReplayMiss \<Rightarrow> rest'
        | Replay x \<Rightarrow> Return (Inr x)
        | ReplayOperationIdReused prior \<Rightarrow> Return (Inl (StoreFailure (OPERATION_ID_REUSED prior))))"
proof -
  show "identityIn prep = Inl e \<Longrightarrow> orReturn prep (\<lambda>(p, x). replayOr p (rest p x)) = Return (Inl e)"
    by (cases prep) (auto simp: identityIn_def orReturn_def)
  assume "identityIn prep = Inr q"
  then obtain p x where "prep = Inr (p, x)" "q = identityOf p"
    by (cases prep) (auto simp: identityIn_def)
  with assms[of p x] show "\<exists>rest'. commits q Inr rest' \<and>
      orReturn prep (\<lambda>(p, x). replayOr p (rest p x)) = Query (\<lambda>t.
        case getMutationReplay t (id_owner q) (id_operationId q) (id_requestFingerprint q) of
          ReplayMiss \<Rightarrow> rest'
        | Replay x \<Rightarrow> Return (Inr x)
        | ReplayOperationIdReused prior \<Rightarrow> Return (Inl (StoreFailure (OPERATION_ID_REUSED prior))))"
    by (intro exI[of _ "rest p x"]) (simp add: orReturn_def replayOr_def identityOf_def)
qed

lemmas service_operations = createDraft_def serviceBeginRevision_def servicePatchDraft_def
  servicePublishDraft_def serviceActivateVersion_def serviceArchiveFamily_def
  serviceRestoreFamily_def serviceDeleteFamily_def lifecycleMutation_def

interpretation service: logged_operation
  "\<lambda>(n, d, ctx, r). serviceIdentity h d ctx r" "\<lambda>_. Inr"
  "\<lambda>prior. StoreFailure (OPERATION_ID_REUSED prior)" "\<lambda>(n, d, ctx, r). serve h n d ctx r" for h
proof (unfold_locales, goal_cases)
  case (1 ndcr e)
  obtain n d ctx r where ndcr: "ndcr = (n, d, ctx, r)" by (cases ndcr)
  from 1 show ?case
    unfolding ndcr prod.case
    by (cases r; hypsubst; unfold serve.simps serviceIdentity.simps service_operations)
      (rule prepared_protocol(1); (intro commit_steps)?; assumption)+
next
  case (2 ndcr p)
  obtain n d ctx r where ndcr: "ndcr = (n, d, ctx, r)" by (cases ndcr)
  from 2 show ?case
    unfolding ndcr prod.case
    by (cases r; hypsubst; unfold serve.simps serviceIdentity.simps service_operations)
      (rule prepared_protocol(2); (intro commit_steps)?; assumption)+
qed

section \<open>Operations take effect once\<close>

lemma prepareMutation_cong:
  assumes "sd_resolveOwner d2 = sd_resolveOwner d" and "sd_texts d2 = sd_texts d"
  shows "prepareMutation d2 ctx i schema action prepare json = prepareMutation d ctx i schema action prepare json"
  unfolding prepareMutation_def assms ..

lemma serviceIdentity_cong:
  assumes "sd_resolveOwner d2 = sd_resolveOwner d" and "sd_texts d2 = sd_texts d"
  shows "serviceIdentity h d2 ctx r = serviceIdentity h d ctx r"
  by (cases r) (simp_all only: serviceIdentity.simps prepareMutation_cong[OF assms])

lemma succeeded_identity:
  assumes "runProgram (serve h n d ctx r) h s = (s', Inr x)"
  obtains p where "serviceIdentity h d ctx r = Inr p"
proof (cases "serviceIdentity h d ctx r")
  case (Inl e)
  with assms service.unidentified[where r = "(n, d, ctx, r)" and h = h] show thesis by simp
qed (rule that)

text \<open>C27. Operations of the service take effect once: after an operation has succeeded, repeating it
  (the same request by the same principal under the same operation id) at any later time, after
  any other calls, with any clock, identifiers and quota, returns the same result and makes no
  change of its own.\<close>

theorem operation_takes_effect_once:
  assumes "reachable h (snd s)" and "runProgram (serve h n d ctx r) h s = (s', Inr x)"
    and "snd s2 = runCalls h (snd s') cs"
    and "sd_resolveOwner d2 = sd_resolveOwner d" and "sd_texts d2 = sd_texts d"
  shows "runProgram (serve h n2 d2 ctx r) h s2 = (others h s2, Inr x)"
proof -
  from assms(2) obtain p where p: "serviceIdentity h d ctx r = Inr p" by (rule succeeded_identity)
  then have p2: "serviceIdentity h d2 ctx r = Inr p" by (simp only: serviceIdentity_cong[OF assms(4,5)])
  show ?thesis
    using service.succeeded_once[OF assms(1), where r = "(n, d, ctx, r)" and p = p and s' = s' and y = x
      and ?r2.0 = "(n2, d2, ctx, r)" and ?s2.0 = s2 and cs = cs and ?p2.0 = p] p p2 assms(2,3) by simp
qed

text \<open>What the fingerprint of a request stands for: its action, its actor and its input.\<close>

fun requestInput :: "ServiceRequest \<Rightarrow> (string \<times> JsonValue) option" where
  "requestInput (CreateDraftRequest i) =
     map_option (\<lambda>i. (''create_draft'', fieldsJson (editableFieldsFromCreate i))) i"
| "requestInput (BeginRevisionRequest i) = map_option (\<lambda>i. (''begin_revision'', familyLifecycleJson i)) i"
| "requestInput (PatchDraftRequest i) = map_option (\<lambda>i. (''patch_draft'', patchDraftJson i)) i"
| "requestInput (PublishDraftRequest i) = map_option (\<lambda>i. (''publish_draft'', publishDraftJson i)) i"
| "requestInput (ActivateVersionRequest i) = map_option (\<lambda>i. (''activate_version'', activateVersionJson i)) i"
| "requestInput (ArchiveFamilyRequest i) = map_option (\<lambda>i. (''archive_family'', familyLifecycleJson i)) i"
| "requestInput (RestoreFamilyRequest i) = map_option (\<lambda>i. (''restore_family'', familyLifecycleJson i)) i"
| "requestInput (DeleteFamilyRequest i) = map_option (\<lambda>i. (''delete_family'', familyLifecycleJson i)) i"

lemma prepareMutation_Inr:
  assumes "prepareMutation d ctx i schema action prepare json = Inr (p, v)"
  obtains x ow actor where "i = Some x" "prepare x = Inr v" "schema x"
    "resolveCurrentOwner (mc_ownerResolution ctx) (sd_resolveOwner d) = Inr (ow, actor)"
    "pm_owner p = ow" "pm_principal p = actor" "pm_operationId p = mc_operationId ctx"
    "fingerprintMutationRequest (sd_texts d) (requestJson action actor (json v)) = Some (pm_requestFingerprint p)"
  using assms by (auto simp: prepareMutation_def split: sum.splits option.splits if_splits)

lemma identityIn_prepared:
  assumes "identityIn (prepareMutation d ctx i schema action prepare json) = Inr q"
  obtains x v ow actor where "i = Some x" "prepare x = Inr v"
    "resolveCurrentOwner (mc_ownerResolution ctx) (sd_resolveOwner d) = Inr (ow, actor)"
    "id_owner q = ow" "id_operationId q = mc_operationId ctx"
    "fingerprintMutationRequest (sd_texts d) (requestJson action actor (json v)) = Some (id_requestFingerprint q)"
proof -
  from assms obtain p v where "prepareMutation d ctx i schema action prepare json = Inr (p, v)" "q = identityOf p"
    by (cases "prepareMutation d ctx i schema action prepare json") (auto simp: identityIn_def)
  with that prepareMutation_Inr[OF this(1)] show thesis by (simp add: identityOf_def) metis
qed

lemma serviceIdentity_Inr:
  assumes "serviceIdentity h d ctx r = Inr q"
  obtains action input ow actor where "requestInput r = Some (action, input)"
    "resolveCurrentOwner (mc_ownerResolution ctx) (sd_resolveOwner d) = Inr (ow, actor)"
    "id_owner q = ow" "id_operationId q = mc_operationId ctx"
    "fingerprintMutationRequest (sd_texts d) (requestJson action actor input) = Some (id_requestFingerprint q)"
  using assms
  by (cases r; hypsubst; unfold serviceIdentity.simps; elim identityIn_prepared)
    (auto simp: Let_def split: if_splits)

text \<open>The text that is hashed for a request.\<close>

definition mutationText :: "texts \<Rightarrow> JsonValue \<Rightarrow> string" where
  "mutationText x v = ''eve-agent-builder-mutation-v1:'' @ canonicalJson x v"

lemma fingerprint_inject:
  assumes "sha256Text x (mutationText x v) = sha256Text x (mutationText x w) \<longrightarrow> mutationText x v = mutationText x w"
    and "fingerprintMutationRequest x v = Some f" and "fingerprintMutationRequest x w = Some f"
  shows "canonicalJson x v = canonicalJson x w"
proof -
  define q where "q = ''sha256:''"
  have shape: "f = q @ sha256Text x (mutationText x u)" if "fingerprintMutationRequest x u = Some f" for u
    using that unfolding fingerprintMutationRequest_def Let_def q_def mutationText_def
    by (metis option.distinct(1) option.inject)
  from shape[OF assms(2)] shape[OF assms(3)] have
    "sha256Text x (mutationText x v) = sha256Text x (mutationText x w)" by simp
  with assms(1) show ?thesis by (simp add: mutationText_def)
qed

lemma requestJson_sorted:
  assumes "sortMembers (requestJson a x i) = sortMembers (requestJson b y j)"
  shows "a = b" and "sa_principalId x = sa_principalId y" and "sortMembers i = sortMembers j"
proof -
  have keys: "sort_key fst [(''action'', JString a), (''actor'', JString u), (''input'', v), (''schema'', JString w)] =
      [(''action'', JString a), (''actor'', JString u), (''input'', v), (''schema'', JString w)]" for a u v w
  proof (rule sort_key_id_if_sorted)
    have "sorted [''action'', ''actor'', ''input'', ''schema'']" by code_simp
    then show "sorted (map fst [(''action'', JString a), (''actor'', JString u), (''input'', v), (''schema'', JString w)])"
      by (simp only: list.map fst_conv)
  qed
  show "a = b" "sa_principalId x = sa_principalId y" "sortMembers i = sortMembers j"
    using assms by (simp_all add: requestJson_def keys)
qed

text \<open>C28. An operation id is bound to its request: after an operation has succeeded, any request of
  the same owner under the same operation id that differs in its action, its principal or its
  input (beyond the order of object members) fails and makes no change of its own, for ever,
  provided the digests of the texts of these two requests do not collide and every number in
  the two inputs is an integer.\<close>

theorem operation_id_bound_to_request:
  assumes "reachable h (snd s)" and "runProgram (serve h n d ctx r) h s = (s', Inr x)"
    and "snd s2 = runCalls h (snd s') cs"
    and "resolveCurrentOwner (mc_ownerResolution ctx) (sd_resolveOwner d) = Inr (ow, actor)"
    and "resolveCurrentOwner (mc_ownerResolution ctx2) (sd_resolveOwner d2) = Inr (ow, actor2)"
    and "mc_operationId ctx2 = mc_operationId ctx" and "sd_texts d2 = sd_texts d"
    and "requestInput r = Some (a, i)" and "requestInput r2 = Some (a2, i2)"
    and "sha256Text (sd_texts d) (mutationText (sd_texts d) (requestJson a2 actor2 i2)) =
        sha256Text (sd_texts d) (mutationText (sd_texts d) (requestJson a actor i)) \<longrightarrow>
      mutationText (sd_texts d) (requestJson a2 actor2 i2) = mutationText (sd_texts d) (requestJson a actor i)"
    and "plainJson i" and "plainJson i2"
    and "(a2, sa_principalId actor2, sortMembers i2) \<noteq> (a, sa_principalId actor, sortMembers i)"
  shows "\<exists>e. snd (runProgram (serve h n2 d2 ctx2 r2) h s2) = Inl e \<and>
    fst (runProgram (serve h n2 d2 ctx2 r2) h s2) \<in> {s2, others h s2}"
proof (cases "serviceIdentity h d2 ctx2 r2")
  case (Inl e)
  then show ?thesis using service.unidentified[where r = "(n2, d2, ctx2, r2)" and h = h] by simp
next
  case (Inr p2)
  from assms(2) obtain p where p: "serviceIdentity h d ctx r = Inr p" by (rule succeeded_identity)
  have f: "id_owner p = ow" "id_operationId p = mc_operationId ctx"
    "fingerprintMutationRequest (sd_texts d) (requestJson a actor i) = Some (id_requestFingerprint p)"
    using serviceIdentity_Inr[OF p] assms(4,8) by (metis Pair_inject option.inject sum.inject(2))+
  have f2: "id_owner p2 = ow" "id_operationId p2 = mc_operationId ctx"
    "fingerprintMutationRequest (sd_texts d) (requestJson a2 actor2 i2) = Some (id_requestFingerprint p2)"
    using serviceIdentity_Inr[OF Inr] assms(5,6,7,9) by (metis Pair_inject option.inject sum.inject(2))+
  have plain: "plainJson (requestJson a actor i)" "plainJson (requestJson a2 actor2 i2)"
    using assms(11,12) by (simp_all add: requestJson_def)
  have "id_requestFingerprint p2 \<noteq> id_requestFingerprint p"
  proof
    assume "id_requestFingerprint p2 = id_requestFingerprint p"
    then have "canonicalJson (sd_texts d) (requestJson a2 actor2 i2) = canonicalJson (sd_texts d) (requestJson a actor i)"
      using f(3) f2(3) by (intro fingerprint_inject[OF assms(10)]) simp_all
    then have "sortMembers (requestJson a2 actor2 i2) = sortMembers (requestJson a actor i)"
      using plain by (simp add: canonicalJson_eq_iff)
    from requestJson_sorted[OF this] assms(13) show False by simp
  qed
  with service.succeeded_once[OF assms(1), where r = "(n, d, ctx, r)" and p = p and s' = s' and y = x
      and ?r2.0 = "(n2, d2, ctx2, r2)" and ?s2.0 = s2 and cs = cs and ?p2.0 = p2] assms(2,3) p Inr f f2
  show ?thesis by auto
qed


section \<open>No lost updates\<close>

text \<open>The steps of a run that succeeds.\<close>

lemma orReturn_run:
  assumes "runProgram (orReturn x k) h s = (s', Inr y)"
  obtains v where "x = Inr v" "runProgram (k v) h s = (s', Inr y)"
  using assms by (cases x) (simp_all add: orReturn_def)

lemma replayOr_run:
  assumes "runProgram (replayOr p rest) h s = (s', Inr y)"
    and "map_of (operations (bucketOf (seen h s 1) (pm_owner p))) (pm_operationId p) = None"
  shows "runProgram rest h (others h s) = (s', Inr y)"
  using assms by (simp add: replayOr_def service.replay_bucket Let_def snd_others)

lemma withLiveFamily_run:
  assumes "runProgram (withLiveFamily p a expected k) h s = (s', Inr y)"
  obtains f where "getFamily (seen h s 1) (pm_owner p) a = Some f" "fam_lifecycle f \<noteq> Deleted" "expected f"
    "runProgram (k f) h (others h s) = (s', Inr y)"
  using assms
  by (auto simp: withLiveFamily_def Let_def snd_others serviceNotFound_def serviceRevisionConflict_def
      split: option.splits if_splits)

lemma withDraft_run:
  assumes "runProgram (withDraft p a n m operation k) h s = (s', Inr y)"
  obtains f draft where "getFamily (seen h s 1) (pm_owner p) a = Some f" "fam_revision f = n"
    "fam_draft f = Some draft" "d_draftRevision draft = m" "fam_lifecycle f \<noteq> Archived"
    "runProgram (k f draft) h (others h s) = (s', Inr y)"
  using assms unfolding withDraft_def
  by (elim withLiveFamily_run) (auto simp: serviceInvalidTransition_def split: option.splits if_splits)

lemma mutateStore_run:
  assumes "runProgram (mutateStore p now c) h s = (s', Inr y)"
  shows "mutate h (seen h s 1) (mutationBase p now) c = (snd s', Inr y)"
proof -
  let ?r = "mutate h (snd (others h s)) (mutationBase p now) c"
  have "snd ?r = Inr y" "snd s' = fst ?r"
    using assms by (auto simp: mutateStore_def Let_def split: sum.splits)
  then show ?thesis unfolding snd_others by (metis prod.collapse)
qed

lemma servicePatchDraft_run:
  assumes "runProgram (servicePatchDraft h d ctx (Some i)) h s = (s', Inr x)"
    and "resolveCurrentOwner (mc_ownerResolution ctx) (sd_resolveOwner d) = Inr (ow, actor)"
    and "map_of (operations (bucketOf (seen h s 1) ow)) (mc_operationId ctx) = None"
  obtains f draft m where "getFamily (seen h s 2) ow (pi_agentId i) = Some f"
    "fam_revision f = pi_expectedRevision i" "fam_draft f = Some draft"
    "d_draftRevision draft = pi_expectedDraftRevision i"
    "mb_owner m = ow" "mb_operationId m = mc_operationId ctx"
    "mutate h (seen h s 3) m (PatchDraft (patchCommand h i f draft)) = (snd s', Inr x)"
proof -
  from assms(1) obtain p v where
    prep: "prepareMutation d ctx (Some i) (patchDraftInputSchema h) ''patch_draft'' Inr patchDraftJson = Inr (p, v)"
    and run: "runProgram (replayOr p (
       withDraft p (pi_agentId v) (pi_expectedRevision v) (pi_expectedDraftRevision v) OpPatchDraft (\<lambda>f draft.
         let fields = applyPatch (d_fields draft) (pi_patch v)
         in if \<not> savedAgentEditableFieldsSchema h fields then Return (Inl SERVICE_INVALID_INPUT)
            else
              orReturn (serviceNow d) (\<lambda>now.
                mutateStore p now (PatchDraft (patchCommand h v f draft)))))) h s = (s', Inr x)"
    unfolding servicePatchDraft_def by (elim orReturn_run) (auto split: prod.splits)
  from prepareMutation_Inr[OF prep] assms(2) have p: "v = i" "pm_owner p = ow" "pm_operationId p = mc_operationId ctx"
    by (metis Pair_inject option.inject sum.inject(2))+
  have "map_of (operations (bucketOf (seen h s 1) (pm_owner p))) (pm_operationId p) = None"
    using assms(3) by (simp add: p)
  from replayOr_run[OF run this] obtain f draft where f: "getFamily (seen h s 2) ow (pi_agentId i) = Some f"
    "fam_revision f = pi_expectedRevision i" "fam_draft f = Some draft"
    "d_draftRevision draft = pi_expectedDraftRevision i"
    and rest: "runProgram (orReturn (serviceNow d) (\<lambda>now. mutateStore p now (PatchDraft (patchCommand h i f draft))))
        h (others h (others h s)) = (s', Inr x)"
    by (elim withDraft_run) (auto simp: p Let_def numeral_2_eq_2 split: if_splits)
  from rest obtain now where
    "mutate h (seen h s 3) (mutationBase p now) (PatchDraft (patchCommand h i f draft)) = (snd s', Inr x)"
    by (elim orReturn_run) (auto dest: mutateStore_run simp: numeral_3_eq_3)
  with f show thesis by (intro that) (simp_all add: mutationBase_def p)
qed

lemma patch_committed:
  assumes "reachable h (snd s)" and "runProgram (servicePatchDraft h d ctx (Some i)) h s = (s', Inr x)"
    and "resolveCurrentOwner (mc_ownerResolution ctx) (sd_resolveOwner d) = Inr (ow, actor)"
    and "\<forall>k. map_of (operations (bucketOf (seen h s k) ow)) (mc_operationId ctx) = None"
  shows "\<exists>f draft f' draft'.
    getFamily (seen h s 3) ow (pi_agentId i) = Some f \<and> fam_draft f = Some draft \<and>
    x = DraftPatched f' \<and> getFamily (snd s') ow (pi_agentId i) = Some f' \<and> fam_draft f' = Some draft' \<and>
    fam_revision f' = pi_expectedRevision i + 1 \<and> fam_revision f = pi_expectedRevision i \<and>
    d_draftRevision draft' = pi_expectedDraftRevision i + 1 \<and> d_draftRevision draft = pi_expectedDraftRevision i \<and>
    d_fields draft' = applyPatch (d_fields draft) (pi_patch i)"
proof -
  obtain f draft m where f: "getFamily (seen h s 2) ow (pi_agentId i) = Some f"
    "fam_revision f = pi_expectedRevision i" "fam_draft f = Some draft"
    "d_draftRevision draft = pi_expectedDraftRevision i"
    and m: "mb_owner m = ow" "mb_operationId m = mc_operationId ctx"
    "mutate h (seen h s 3) m (PatchDraft (patchCommand h i f draft)) = (snd s', Inr x)"
    using servicePatchDraft_run[OF assms(2,3)] assms(4) by metis
  have "fresh (seen h s 3) m" using assms(4) by (simp add: fresh_def m)
  from mutation_applied[OF this m(3)] obtain b' where
    b': "patchDraft h (bucketOf (seen h s 3) ow) m (patchCommand h i f draft) = Inr (b', x)"
      "families (bucketOf (snd s') ow) = families b'" by (auto simp: m)
  have "fam_agentId f = pi_agentId i"
    using reachable_record[OF seen_reachable[OF assms(1)]] f(1) by (auto simp: getFamily_def record_ok_def)
  then have c: "pd_agentId (patchCommand h i f draft) = pi_agentId i"
    "pd_fields (patchCommand h i f draft) = applyPatch (d_fields draft) (pi_patch i)"
    "pd_expectedRevision (patchCommand h i f draft) = pi_expectedRevision i"
    by (simp_all add: patchCommand_def)
  obtain rec draft3 where rec:
    "map_of (families (bucketOf (seen h s 3) ow)) (pi_agentId i) = Some rec"
    "fam_revision (fr_family rec) = pi_expectedRevision i" "fam_draft (fr_family rec) = Some draft3"
    "map_of (families b') (pi_agentId i) = Some
       (rec\<lparr>fr_family := patchedFamily m (patchCommand h i f draft) (fr_family rec) draft3\<rparr>)"
    "x = DraftPatched (patchedFamily m (patchCommand h i f draft) (fr_family rec) draft3)"
    by (rule patchDraft_Inr[OF b'(1)], rule that)
      (auto simp: c putRecord_def putWorkflow_def Let_def split: option.splits)
  from seen_later[of 2 3 h s] obtain cs where "seen h s 3 = runCalls h (seen h s 2) cs" by auto
  with revision_identifies_state[OF seen_reachable[OF assms(1)] f(1), of cs] rec(1,2) f(2)
  have "fr_family rec = f" by (auto simp: getFamily_def familyRecordOf_bucketOf)
  with rec f b'(2) c(2) show ?thesis
    by (auto simp: getFamily_def familyRecordOf_bucketOf patchedFamily_def)
qed

text \<open>C30. No update is lost: when a patch succeeds, with any other calls in between its steps, the
  draft that the commit replaces is the draft the patch was computed from. The stored draft is
  the draft of the store immediately before the commit with exactly the patched members changed,
  and both revisions are one higher. (The hypothesis leaves out answers from the log: nobody has
  used the operation id.)\<close>

theorem patch_never_lost:
  assumes "reachable h (snd s)" and "runProgram (servicePatchDraft h d ctx (Some i)) h s = (s', Inr x)"
    and "resolveCurrentOwner (mc_ownerResolution ctx) (sd_resolveOwner d) = Inr (ow, actor)"
    and "\<forall>k. map_of (operations (bucketOf (seen h s k) ow)) (mc_operationId ctx) = None"
  shows "\<exists>f draft f' draft'.
    getFamily (seen h s 3) ow (pi_agentId i) = Some f \<and> fam_draft f = Some draft \<and>
    x = DraftPatched f' \<and> getFamily (snd s') ow (pi_agentId i) = Some f' \<and> fam_draft f' = Some draft' \<and>
    fam_revision f' = pi_expectedRevision i + 1 \<and> fam_revision f = pi_expectedRevision i \<and>
    d_draftRevision draft' = pi_expectedDraftRevision i + 1 \<and> d_draftRevision draft = pi_expectedDraftRevision i \<and>
    d_fields draft' = applyPatch (d_fields draft) (pi_patch i)"
  by (rule patch_committed[OF assms])

section \<open>Example\<close>

text \<open>The user patches the draft of the example build shortly before its publication.\<close>

definition exActor :: SessionAuthContext where
  "exActor = \<lparr>sa_attributes = [], sa_authenticator = ''host'', sa_issuer = None, sa_principalId = ''user-1'',
     sa_principalType = ''user'', sa_subject = None\<rparr>"

definition exContext :: AgentBuilderMutationContext where
  "exContext = \<lparr>mc_ownerResolution = Some \<lparr>or_current = Some exActor, or_initiator = None,
      or_channelKind = None, or_channelMetadata = None\<rparr>, mc_operationId = ''op-patch''\<rparr>"

text \<open>A digest of 64 hexadecimal digits, which tells two texts apart by a parity.\<close>

definition exDigest :: "string \<Rightarrow> string" where
  "exDigest s = replicate 63 (CHR ''0'') @ [if even (length (filter (\<lambda>c. c = CHR ''y'') s)) then CHR ''a'' else CHR ''b'']"

definition exService :: "string \<Rightarrow> ServiceDependencies" where
  "exService minute = \<lparr>sd_resolveOwner = (\<lambda>_. ResolverOwner exOwner), sd_now = exTime minute,
     sd_agentId = ''new'', sd_draftId = ''new'', sd_specId = ''new'',
     sd_texts = \<lparr>sha256Text = exDigest, otherNumberText = (\<lambda>_. [])\<rparr>\<rparr>"

definition exPatchInput :: "string \<Rightarrow> PatchDraftInput" where
  "exPatchInput description = \<lparr>pi_agentId = ''a'', pi_expectedRevision = 3, pi_expectedDraftRevision = 3,
     pi_patch = \<lparr>pt_name = None, pt_kind = None, pt_description = Some description, pt_pmBrief = None,
       pt_instructions = None, pt_toolRequirements = None, pt_triggers = None, pt_testChecklist = None,
       pt_qaFindings = None\<rparr>\<rparr>"

lemma exResolved:
  "resolveCurrentOwner (mc_ownerResolution exContext) (sd_resolveOwner (exService minute)) = Inr (exOwner, exActor)"
  by code_simp

lemma exPatch_input: "patchDraftInputSchema exHost (exPatchInput ''x'')"
  by (simp add: patchDraftInputSchema_def exPatchInput_def savedAgentDraftPatchSchema_def patchMembers_def
      optMember_def positiveRevisionSchema_def isSafeInteger_def MAX_SAFE_INTEGER_def identifierSchema_def
      boundedString_def maxString_def NUL_char)

lemma fingerprint_short:
  assumes "length (''eve-agent-builder-mutation-v1:'' @ canonicalJson x v) \<le> n" and "n \<le> 256000"
  shows "fingerprintMutationRequest x v \<noteq> None"
  using le_trans[OF assms]
  unfolding fingerprintMutationRequest_def Let_def MAX_CANONICAL_LENGTH_def not_less[symmetric] by (simp only: if_False) blast

lemma exPatch_prepared:
  "\<exists>p. prepareMutation (exService ''20'') exContext (Some (exPatchInput ''x'')) (patchDraftInputSchema exHost)
      ''patch_draft'' Inr patchDraftJson = Inr (p, exPatchInput ''x'') \<and>
    pm_owner p = exOwner \<and> pm_operationId p = ''op-patch''"
proof -
  have "length (''eve-agent-builder-mutation-v1:'' @ canonicalJson (sd_texts (exService ''20''))
      (requestJson ''patch_draft'' exActor (patchDraftJson (exPatchInput ''x'')))) \<le> 1000" by code_simp
  then have "fingerprintMutationRequest (sd_texts (exService ''20''))
      (requestJson ''patch_draft'' exActor (patchDraftJson (exPatchInput ''x''))) \<noteq> None"
    by (rule fingerprint_short) simp
  moreover have "mc_operationId exContext = ''op-patch''" by (simp add: exContext_def)
  moreover have "identifierSchema ''op-patch''" by code_simp
  ultimately show ?thesis
    using exPatch_input by (auto simp: prepareMutation_def exResolved)
qed

lemma exPatch_command:
  "patchCommand exHost (exPatchInput ''x'') (exFamily exFields2 3 ''04'') (exDraft exFields2 3 ''04'') = exPatch"
  by (simp add: patchCommand_def exPatch_def exPatchInput_def exFamily_def exDraft_def applyPatch_def getOr_def
      exFields2_def exFields1_def exFields0_def)

lemma exPatch_applied:
  "\<exists>b' x. apply_command exHost (bucketOf exState7 exOwner) (mutationBase p (exTime ''20'')) (PatchDraft exPatch) = Inr (b', x)"
  if "pm_owner p = exOwner" "pm_operationId p = ''op-patch''"
  using that by (simp add: mutationBase_def evaluation scenario states exPatch_def)

lemma exPatch_members:
  "pi_agentId (exPatchInput c) = ''a''" "pi_expectedRevision (exPatchInput c) = 3"
  "pi_expectedDraftRevision (exPatchInput c) = 3" "fam_lifecycle (exFamily flds n minute) = DraftOnly"
  "fam_revision (exFamily flds n minute) = n" "fam_draft (exFamily flds n minute) = Some (exDraft flds n minute)"
  "d_draftRevision (exDraft flds n minute) = n" "d_fields (exDraft flds n minute) = flds"
  "serviceNow (exService ''20'') = Inr (exTime ''20'')"
  by (simp_all add: exPatchInput_def exFamily_def exDraft_def serviceNow_def exService_def timestampSchema_def)

lemma exPatch_run:
  "\<exists>t x. runProgram (servicePatchDraft exHost (exService ''20'') exContext (Some (exPatchInput ''x''))) exHost
     ([], exState7) = (([], t), Inr x)"
proof -
  from exPatch_prepared obtain p where p: "prepareMutation (exService ''20'') exContext (Some (exPatchInput ''x''))
      (patchDraftInputSchema exHost) ''patch_draft'' Inr patchDraftJson = Inr (p, exPatchInput ''x'')"
    "pm_owner p = exOwner" "pm_operationId p = ''op-patch''" by blast
  have "getMutationReplay exState7 exOwner ''op-patch'' f = ReplayMiss" for f
    by (simp add: getMutationReplay_def exState7_def queries exLog_def)
  moreover have "getFamily exState7 exOwner ''a'' = Some (exFamily exFields2 3 ''04'')"
    by (simp add: exState7_def queries)
  moreover have "timestampSchema (exTime ''20'')" by (simp add: timestampSchema_def)
  moreover from exPatch_applied[OF p(2,3)] obtain b' x where
    "apply_command exHost (bucketOf exState7 exOwner) (mutationBase p (exTime ''20'')) (PatchDraft exPatch) = Inr (b', x)"
    by blast
  moreover have "map_of (operations (bucketOf exState7 exOwner)) ''op-patch'' = None"
    by (simp add: exState7_def queries exLog_def)
  moreover have "savedAgentEditableFieldsSchema exHost (applyPatch exFields2 (pi_patch (exPatchInput ''x'')))"
    by (simp add: evaluation scenario exPatchInput_def applyPatch_def getOr_def)
  ultimately show ?thesis
    using exPatch_command p
    by (simp add: servicePatchDraft_def orReturn_def replayOr_def withDraft_def withLiveFamily_def exPatch_members
        mutateStore_def mutate_def mutationBase_def Let_def)
qed

lemma exPatch_served:
  "\<exists>t x. runProgram (serve exHost 25 (exService ''20'') exContext (PatchDraftRequest (Some (exPatchInput ''x'')))) exHost
     ([], exState7) = (([], t), Inr x)"
  using exPatch_run by simp

lemma exSameDependencies:
  "sd_resolveOwner (exService minute) = sd_resolveOwner (exService ''20'')"
  "sd_texts (exService minute) = sd_texts (exService ''20'')"
  by (simp_all add: exService_def)

theorem operation_takes_effect_once_witness:
  "\<exists>t x. runProgram (serve exHost 25 (exService ''20'') exContext (PatchDraftRequest (Some (exPatchInput ''x'')))) exHost
      ([], exState7) = (([], t), Inr x) \<and>
    runProgram (serve exHost 5 (exService ''10'') exContext (PatchDraftRequest (Some (exPatchInput ''x'')))) exHost
      ([], runCalls exHost t exApproval) = (([], runCalls exHost t exApproval), Inr x)"
proof -
  from exPatch_served obtain t x where run: "runProgram (serve exHost 25 (exService ''20'') exContext
      (PatchDraftRequest (Some (exPatchInput ''x'')))) exHost ([], exState7) = (([], t), Inr x)" by blast
  have t: "reachable exHost (snd ([], exState7))" by (simp add: exStates_reachable)
  have "snd ([], runCalls exHost t exApproval) = runCalls exHost (snd ([], t)) exApproval" by simp
  from operation_takes_effect_once[OF t run this exSameDependencies] run show ?thesis by auto
qed

theorem operation_id_bound_to_request_witness:
  "\<exists>t x e. runProgram (serve exHost 25 (exService ''20'') exContext (PatchDraftRequest (Some (exPatchInput ''x'')))) exHost
      ([], exState7) = (([], t), Inr x) \<and>
    runProgram (serve exHost 25 (exService ''10'') exContext (PatchDraftRequest (Some (exPatchInput ''y'')))) exHost
      ([], t) = (([], t), Inl e)"
proof -
  from exPatch_served obtain t x where run: "runProgram (serve exHost 25 (exService ''20'') exContext
      (PatchDraftRequest (Some (exPatchInput ''x'')))) exHost ([], exState7) = (([], t), Inr x)" by blast
  have t: "reachable exHost (snd ([], exState7))" by (simp add: exStates_reachable)
  have s2: "snd ([], t) = runCalls exHost (snd ([], t)) []" by simp
  have hash: "sha256Text (sd_texts (exService ''20'')) (mutationText (sd_texts (exService ''20''))
        (requestJson ''patch_draft'' exActor (patchDraftJson (exPatchInput ''y'')))) \<noteq>
      sha256Text (sd_texts (exService ''20'')) (mutationText (sd_texts (exService ''20''))
        (requestJson ''patch_draft'' exActor (patchDraftJson (exPatchInput ''x''))))" by code_simp
  have numbers: "integral 3" by code_simp
  have plain: "plainJson (patchDraftJson (exPatchInput c))" for c
    using numbers by (simp add: patchDraftJson_def exPatchInput_def patchMembers_def optMember_def)
  have differ: "sortMembers (patchDraftJson (exPatchInput ''y'')) \<noteq> sortMembers (patchDraftJson (exPatchInput ''x''))"
    by code_simp
  note bound = operation_id_bound_to_request[OF t run s2 exResolved exResolved[of "''10''"] refl exSameDependencies(2)]
  have "\<exists>e. snd (runProgram (serve exHost 25 (exService ''10'') exContext (PatchDraftRequest (Some (exPatchInput ''y''))))
      exHost ([], t)) = Inl e \<and>
    fst (runProgram (serve exHost 25 (exService ''10'') exContext (PatchDraftRequest (Some (exPatchInput ''y''))))
      exHost ([], t)) \<in> {([], t), others exHost ([], t)}"
    by (rule bound[where a = "''patch_draft''" and ?a2.0 = "''patch_draft''", OF _ _ _ plain[of "''x''"] plain[of "''y''"]])
      (simp_all add: differ hash)
  then obtain e where "runProgram (serve exHost 25 (exService ''10'') exContext (PatchDraftRequest (Some (exPatchInput ''y''))))
      exHost ([], t) = (([], t), Inl e)" by (auto simp: prod_eq_iff)
  with run show ?thesis by blast
qed


theorem patch_never_lost_witness:
  "\<exists>t f'. runProgram (servicePatchDraft exHost (exService ''20'') exContext (Some (exPatchInput ''x''))) exHost
      ([], exState7) = (([], t), Inr (DraftPatched f')) \<and>
    getFamily t exOwner ''a'' = Some f' \<and> fam_revision f' = 4 \<and>
    map_option d_fields (fam_draft f') = Some (exFields2\<lparr>fld_description := ''x''\<rparr>)"
proof -
  from exPatch_run obtain t x where run: "runProgram (servicePatchDraft exHost (exService ''20'') exContext
      (Some (exPatchInput ''x''))) exHost ([], exState7) = (([], t), Inr x)" by blast
  have unused: "\<forall>k. map_of (operations (bucketOf (seen exHost ([], exState7) k) exOwner)) (mc_operationId exContext) = None"
    by (simp add: exState7_def queries exLog_def exContext_def)
  have "reachable exHost (snd ([], exState7))" by (simp add: exStates_reachable)
  from patch_never_lost[OF this run exResolved unused] obtain f draft f' draft' where f:
    "getFamily exState7 exOwner ''a'' = Some f" "fam_draft f = Some draft" "x = DraftPatched f'"
    "getFamily t exOwner ''a'' = Some f'" "fam_draft f' = Some draft'" "fam_revision f' = 4"
    "d_fields draft' = applyPatch (d_fields draft) (pi_patch (exPatchInput ''x''))"
    by (auto simp: exPatch_members)
  moreover have "getFamily exState7 exOwner ''a'' = Some (exFamily exFields2 3 ''04'')"
    by (simp add: exState7_def queries)
  with f(1,2) have "d_fields draft = exFields2" by (auto simp: exPatch_members)
  then have "applyPatch (d_fields draft) (pi_patch (exPatchInput ''x'')) = exFields2\<lparr>fld_description := ''x''\<rparr>"
    by (simp add: applyPatch_def exPatchInput_def getOr_def exFields2_def exFields1_def exFields0_def)
  ultimately show ?thesis using run by auto
qed

end
