(* ===== verification/Coordinator_Properties.thy ===== *)
theory Coordinator_Properties
  imports Coordinator Service_Properties Bootstrap_Properties
begin

text \<open>
  The properties of the coordinator: it follows the protocol of theory \<open>Operation_Log\<close>; a
  submission is bound to the running session that calls it and is applied to the current draft;
  and the grants it issues are for the next role of the process and the exact draft.
\<close>

section \<open>The coordinator follows the protocol\<close>

datatype CoordinatorRequest =
    AllocateRequest "unit option"
  | SubmitRequest BuildRole BuildWorkflowExecutionContext "BuildSubmissionInput option"
  | RecordTestRequest BuildWorkflowExecutionContext "RecordBuildTestInput option"
  | PublishRequest string "unit option"
  | ReopenRequest string "unit option"

text \<open>The context of a session replaces the plain one (\<open>ctx\<close> is used by the other requests).\<close>

fun coordinate ::
  "host \<Rightarrow> int \<Rightarrow> CoordinatorDependencies \<Rightarrow> AgentBuilderMutationContext \<Rightarrow> CoordinatorRequest \<Rightarrow>
   AgentBuilderStoreMutationSuccess CoordinatorResult program" where
  "coordinate h n d ctx (AllocateRequest i) = allocate h n d ctx i"
| "coordinate h n d ctx (SubmitRequest role sess i) = submitRole h d role sess i"
| "coordinate h n d ctx (RecordTestRequest sess i) = recordTestResult d sess i"
| "coordinate h n d ctx (PublishRequest agentId i) = publish d ctx agentId i"
| "coordinate h n d ctx (ReopenRequest agentId i) = reopen d ctx agentId i"

fun resultType :: "CoordinatorRequest \<Rightarrow> SuccessType" where
  "resultType (AllocateRequest i) = TWorkflowAllocated"
| "resultType (SubmitRequest role sess i) = TWorkflowRoleSubmitted"
| "resultType (RecordTestRequest sess i) = TWorkflowTestRecorded"
| "resultType (PublishRequest agentId i) = TWorkflowPublished"
| "resultType (ReopenRequest agentId i) = TWorkflowReopened"

definition workflowIdentity :: "PreparedWorkflowMutation \<Rightarrow> MutationIdentity" where
  "workflowIdentity p = \<lparr>id_owner = wm_owner p, id_operationId = wm_operationId p,
     id_requestFingerprint = wm_requestFingerprint p\<rparr>"

text \<open>A request is prepared from its context, its action, its input and its trusted target.\<close>

fun requestContext :: "AgentBuilderMutationContext \<Rightarrow> CoordinatorRequest \<Rightarrow> AgentBuilderMutationContext" where
  "requestContext ctx (SubmitRequest role sess i) = mutationContext sess"
| "requestContext ctx (RecordTestRequest sess i) = mutationContext sess"
| "requestContext ctx r = ctx"

fun requestParts :: "host \<Rightarrow> CoordinatorRequest \<Rightarrow> (string \<times> JsonValue \<times> JsonValue) option" where
  "requestParts h (AllocateRequest i) = map_option (\<lambda>_. (''workflow_allocate'', JObject [], JObject [])) i"
| "requestParts h (SubmitRequest role sess i) =
     (case i of
        None \<Rightarrow> None
      | Some i \<Rightarrow>
          if submissionSchema h role i
          then Some (''workflow_role_submit:'' @ buildRoleText role, submissionJson i, sessionTargetJson sess)
          else None)"
| "requestParts h (RecordTestRequest sess i) =
     (case i of
        None \<Rightarrow> None
      | Some i \<Rightarrow>
          if recordBuildTestInputSchema i
          then Some (''workflow_test_result'', recordBuildTestJson i, sessionTargetJson sess) else None)"
| "requestParts h (PublishRequest agentId i) =
     map_option (\<lambda>_. (''workflow_publish'', JObject [], agentTargetJson agentId)) i"
| "requestParts h (ReopenRequest agentId i) =
     map_option (\<lambda>_. (''workflow_reopen'', JObject [], agentTargetJson agentId)) i"

definition coordinatorIdentity ::
  "host \<Rightarrow> CoordinatorDependencies \<Rightarrow> AgentBuilderMutationContext \<Rightarrow> CoordinatorRequest \<Rightarrow>
   MutationIdentity CoordinatorResult" where
  "coordinatorIdentity h d ctx r =
     (case requestParts h r of
        None \<Rightarrow> invalidInput
      | Some (action, input, target) \<Rightarrow>
          map_sum id workflowIdentity (prepareWorkflowMutation d (requestContext ctx r) action input target))"

text \<open>Programs that only read.\<close>

inductive readOnly :: "'a program \<Rightarrow> bool" where
  answers: "readOnly (Return x)"
| asks: "(\<And>t. readOnly (k t)) \<Longrightarrow> readOnly (Query k)"

named_theorems read_steps "steps that keep a program from writing"

lemma readOnly_orReturn [read_steps]: "(\<And>v. readOnly (k v)) \<Longrightarrow> readOnly (orReturn x k)"
  by (cases x) (simp_all add: orReturn_def readOnly.answers)

lemma readOnly_if [read_steps]: "readOnly a \<Longrightarrow> readOnly b \<Longrightarrow> readOnly (if c then a else b)"
  by simp

lemma readOnly_option [read_steps]:
  "readOnly a \<Longrightarrow> (\<And>v. readOnly (k v)) \<Longrightarrow> readOnly (case x of None \<Rightarrow> a | Some v \<Rightarrow> k v)"
  by (cases x) simp_all

lemma readOnly_prod [read_steps]:
  "(\<And>a b. readOnly (k a b)) \<Longrightarrow> readOnly (case x of (a, b) \<Rightarrow> k a b)"
  by (cases x) simp

lemma readOnly_let [read_steps]: "(\<And>v. readOnly (k v)) \<Longrightarrow> readOnly (let v = x in k v)"
  by simp

lemmas [read_steps] = readOnly.intros

lemma readOnly_snapshot: "readOnly (snapshot d ownerResolution agentId)"
  unfolding snapshot_def by (intro read_steps)

lemma readOnly_execution: "readOnly (execution d ow ctx role)"
  unfolding execution_def by (intro read_steps)

lemma commits_andThenOk [commit_steps]:
  assumes "readOnly q" and "\<And>x. commits p accept (f x)"
  shows "commits p accept (andThenOk q f)"
  using assms(1) unfolding andThenOk_def
proof (induction)
  case (answers x)
  then show ?case using assms(2) by (cases x) (simp_all add: commits.refuses)
next
  case (asks k)
  then show ?case by (simp add: commits.reads)
qed

lemma commits_mutateWorkflow [commit_steps]:
  "commits (workflowIdentity p) (ofType expected) (mutateWorkflow p expected now c)"
  unfolding mutateWorkflow_def
  by (rule commits.writes) (simp_all add: identified_def workflowIdentity_def)

lemmas [commit_steps] = readOnly_snapshot readOnly_execution

lemma workflow_protocol:
  assumes "\<And>p. commits (workflowIdentity p) (ofType expected) (rest p)"
  shows "map_sum id workflowIdentity prep = Inl e \<Longrightarrow>
      orReturn prep (\<lambda>p. workflowReplayOr p expected (rest p)) = Return (Inl e)"
    and "map_sum id workflowIdentity prep = Inr q \<Longrightarrow> \<exists>rest'. commits q (ofType expected) rest' \<and>
      orReturn prep (\<lambda>p. workflowReplayOr p expected (rest p)) = Query (\<lambda>t.
        case getMutationReplay t (id_owner q) (id_operationId q) (id_requestFingerprint q) of
          ReplayMiss \<Rightarrow> rest'
        | Replay x \<Rightarrow> Return (ofType expected x)
        | ReplayOperationIdReused prior \<Rightarrow> Return (Inl (OfService (StoreFailure (OPERATION_ID_REUSED prior)))))"
proof -
  show "map_sum id workflowIdentity prep = Inl e \<Longrightarrow>
      orReturn prep (\<lambda>p. workflowReplayOr p expected (rest p)) = Return (Inl e)"
    by (cases prep) (simp_all add: orReturn_def)
  assume "map_sum id workflowIdentity prep = Inr q"
  then obtain p where "prep = Inr p" "q = workflowIdentity p" by (cases prep) auto
  with assms[of p] show "\<exists>rest'. commits q (ofType expected) rest' \<and>
      orReturn prep (\<lambda>p. workflowReplayOr p expected (rest p)) = Query (\<lambda>t.
        case getMutationReplay t (id_owner q) (id_operationId q) (id_requestFingerprint q) of
          ReplayMiss \<Rightarrow> rest'
        | Replay x \<Rightarrow> Return (ofType expected x)
        | ReplayOperationIdReused prior \<Rightarrow> Return (Inl (OfService (StoreFailure (OPERATION_ID_REUSED prior)))))"
    by (intro exI[of _ "rest p"]) (simp add: orReturn_def workflowReplayOr_def workflowIdentity_def)
qed

lemmas coordinator_operations = allocate_def submitRole_def recordTestResult_def publish_def reopen_def

text \<open>An operation is its preparation and then a program within the protocol.\<close>

lemma shapeI:
  assumes "q = orReturn prep (\<lambda>p. workflowReplayOr p expected (rest p))"
    and "\<And>p. commits (workflowIdentity p) (ofType expected) (rest p)"
  shows "\<exists>rest. (\<forall>p. commits (workflowIdentity p) (ofType expected) (rest p)) \<and>
    q = orReturn prep (\<lambda>p. workflowReplayOr p expected (rest p))"
  using assms by blast

lemma coordinate_shape:
  "case requestParts h r of
     None \<Rightarrow> coordinate h n d ctx r = Return invalidInput
   | Some (action, input, target) \<Rightarrow> \<exists>rest.
       (\<forall>p. commits (workflowIdentity p) (ofType (resultType r)) (rest p)) \<and>
       coordinate h n d ctx r =
         orReturn (prepareWorkflowMutation d (requestContext ctx r) action input target)
           (\<lambda>p. workflowReplayOr p (resultType r) (rest p))"
proof (cases "requestParts h r")
  case None
  then show ?thesis
    by (cases r) (auto simp: coordinator_operations split: option.splits if_splits)
next
  case (Some parts)
  note unfolded = coordinate.simps requestParts.simps resultType.simps requestContext.simps coordinator_operations
    option.case option.map prod.case if_True not_True_eq_False if_False
  show ?thesis
  proof (cases r)
    case (AllocateRequest i)
    with Some obtain x where x: "i = Some x" by auto
    show ?thesis
      by (simp only: AllocateRequest x unfolded) (rule shapeI, rule refl, intro commit_steps)
  next
    case (SubmitRequest role sess i)
    with Some obtain x where x: "i = Some x" "submissionSchema h role x" by (auto split: option.splits if_splits)
    show ?thesis
      by (simp only: SubmitRequest x unfolded) (rule shapeI, rule refl, intro commit_steps)
  next
    case (RecordTestRequest sess i)
    with Some obtain x where x: "i = Some x" "recordBuildTestInputSchema x" by (auto split: option.splits if_splits)
    show ?thesis
      by (simp only: RecordTestRequest x unfolded) (rule shapeI, rule refl, intro commit_steps)
  next
    case (PublishRequest agentId i)
    with Some obtain x where x: "i = Some x" by auto
    show ?thesis
      by (simp only: PublishRequest x unfolded) (rule shapeI, rule refl, intro commit_steps)
  next
    case (ReopenRequest agentId i)
    with Some obtain x where x: "i = Some x" by auto
    show ?thesis
      by (simp only: ReopenRequest x unfolded) (rule shapeI, rule refl, intro commit_steps)
  qed
qed

interpretation coordinator: logged_operation
  "\<lambda>(n, d, ctx, r). coordinatorIdentity h d ctx r" "\<lambda>(n, d, ctx, r). ofType (resultType r)"
  "\<lambda>prior. OfService (StoreFailure (OPERATION_ID_REUSED prior))" "\<lambda>(n, d, ctx, r). coordinate h n d ctx r" for h
proof (unfold_locales, goal_cases)
  case (1 ndcr e)
  obtain n d ctx r where ndcr: "ndcr = (n, d, ctx, r)" by (cases ndcr)
  from 1 coordinate_shape[where h = h and r = r and n = n and d = d and ctx = ctx] show ?case
    by (auto simp: ndcr coordinatorIdentity_def workflow_protocol(1) split: option.splits)
next
  case (2 ndcr p)
  obtain n d ctx r where ndcr: "ndcr = (n, d, ctx, r)" by (cases ndcr)
  from 2 have p: "coordinatorIdentity h d ctx r = Inr p" by (simp add: ndcr)
  then obtain action input trusted where parts: "requestParts h r = Some (action, input, trusted)"
    by (auto simp: coordinatorIdentity_def split: option.splits)
  with p have prep: "map_sum id workflowIdentity
      (prepareWorkflowMutation d (requestContext ctx r) action input trusted) = Inr p"
    by (simp add: coordinatorIdentity_def)
  from parts coordinate_shape[where h = h and r = r and n = n and d = d and ctx = ctx] obtain rest where rest:
    "\<And>p. commits (workflowIdentity p) (ofType (resultType r)) (rest p)"
    "coordinate h n d ctx r = orReturn (prepareWorkflowMutation d (requestContext ctx r) action input trusted)
           (\<lambda>p. workflowReplayOr p (resultType r) (rest p))" by auto
  show ?case
    unfolding ndcr prod.case rest(2) by (rule workflow_protocol(2)[OF rest(1) prep])
qed

section \<open>Operations take effect once\<close>

lemma prepareWorkflowMutation_cong:
  assumes "wd_resolveOwner d2 = wd_resolveOwner d" and "wd_texts d2 = wd_texts d"
  shows "prepareWorkflowMutation d2 ctx action input trusted = prepareWorkflowMutation d ctx action input trusted"
  unfolding prepareWorkflowMutation_def coordinatorOwner_def assms ..

text \<open>Operations of the coordinator take effect once: after a submission (or any other operation)
  has succeeded, repeating it at any later time, after any other calls, with any clock,
  identifiers and quota, returns the same result and makes no change of its own, even though the
  lease it was made under has been used up and the draft and the workflow have moved on.\<close>

theorem coordinator_takes_effect_once:
  assumes "reachable h (snd s)" and "runProgram (coordinate h n d ctx r) h s = (s', Inr x)"
    and "snd s2 = runCalls h (snd s') cs"
    and "wd_resolveOwner d2 = wd_resolveOwner d" and "wd_texts d2 = wd_texts d"
  shows "runProgram (coordinate h n2 d2 ctx r) h s2 = (others h s2, Inr x)"
proof -
  obtain p where p: "coordinatorIdentity h d ctx r = Inr p"
  proof (cases "coordinatorIdentity h d ctx r")
    case (Inl e)
    with assms(2) coordinator.unidentified[where r = "(n, d, ctx, r)" and h = h] show thesis by simp
  qed (rule that)
  then have p2: "coordinatorIdentity h d2 ctx r = Inr p"
    by (simp only: coordinatorIdentity_def prepareWorkflowMutation_cong[OF assms(4,5)])
  from coordinator.succeeded_once[OF assms(1), where ha = h and r = "(n, d, ctx, r)" and p = p and s' = s' and y = x
      and ?r2.0 = "(n2, d2, ctx, r)" and ?s2.0 = s2 and cs = cs and ?p2.0 = p] p p2 assms(2,3)
  show ?thesis by auto
qed

section \<open>Submissions\<close>

text \<open>The steps of a run that succeeds.\<close>

lemma andThenOk_run:
  assumes "runProgram (andThenOk q f) h s = (s', Inr y)"
  obtains s1 x where "runProgram q h s = (s1, Inr x)" "runProgram (f x) h s1 = (s', Inr y)"
proof -
  obtain s1 r where r: "runProgram q h s = (s1, r)" by (cases "runProgram q h s")
  with assms that show thesis by (cases r) (simp_all add: andThenOk_def runProgram_andThen)
qed

lemma workflowReplayOr_run:
  assumes "runProgram (workflowReplayOr p expected rest) h s = (s', Inr y)"
    and "map_of (operations (bucketOf (seen h s 1) (wm_owner p))) (wm_operationId p) = None"
  shows "runProgram rest h (others h s) = (s', Inr y)"
  using assms by (simp add: workflowReplayOr_def coordinator.replay_bucket Let_def snd_others)

lemma mutateWorkflow_run:
  assumes "runProgram (mutateWorkflow p expected now c) h s = (s', Inr y)"
  obtains m where "mb_owner m = wm_owner p" "mb_operationId m = wm_operationId p" "mb_occurredAt m = now"
    "mutate h (seen h s 1) m c = (snd s', Inr y)" "successType y = expected"
proof -
  let ?m = "\<lparr>mb_owner = wm_owner p, mb_operationId = wm_operationId p,
         mb_requestFingerprint = wm_requestFingerprint p, mb_occurredAt = now\<rparr>"
  let ?r = "mutate h (snd (others h s)) ?m c"
  have "snd ?r = Inr y" "snd s' = fst ?r" "successType y = expected"
    using assms by (auto simp: mutateWorkflow_def ofType_def Let_def split: sum.splits if_splits)
  then show thesis unfolding snd_others by (intro that[of ?m]) (simp_all add: prod_eq_iff)
qed

lemma execution_run:
  assumes "runProgram (execution d ow ctx role) h s = (s', Inr x)"
  shows "s' = others h (others h (others h s))"
    and "getExecutionLease (seen h s 1) ow (xc_childSessionId ctx) = Some (be_lease x)"
    and "exactRunningLease ow ctx role (be_lease x)"
    and "getBuildWorkflow (seen h s 2) ow (tgt_agentId (ls_target (be_lease x))) = Some (be_workflow x)"
    and "getFamily (seen h s 3) ow (tgt_agentId (ls_target (be_lease x))) = Some (be_family x)"
    and "fam_draft (be_family x) = Some (be_draft x)"
    and "bootstrapTargetsEqual (ls_target (be_lease x))
      (DraftTarget (fam_agentId (be_family x)) (d_draftId (be_draft x)) (d_draftRevision (be_draft x)))"
    and "buildExecutionScopesEqual (ls_workflow (be_lease x)) (Some (scopeOf (be_workflow x)))"
  using assms
  by (auto simp: execution_def orReturn_def Let_def snd_others numeral_2_eq_2 numeral_3_eq_3
      split: option.splits if_splits sum.splits)

lemma prepareWorkflowMutation_Inr:
  assumes "prepareWorkflowMutation d ctx action input trusted = Inr p"
  obtains ow actor where "coordinatorOwner d (mc_ownerResolution ctx) = Inr (ow, actor)" "wm_owner p = ow"
    "wm_principalId p = sa_principalId actor" "wm_operationId p = mc_operationId ctx"
  using assms by (auto simp: prepareWorkflowMutation_def split: sum.splits option.splits if_splits)

lemma submitRole_run:
  assumes "runProgram (submitRole h d role ctx (Some i)) h s = (s', Inr x)"
    and "coordinatorOwner d (mc_ownerResolution ctx) = Inr (ow, actor)"
    and "map_of (operations (bucketOf (seen h s 1) ow)) (mc_operationId ctx) = None"
  obtains e m testRunId where "submissionSchema h role i" "mb_owner m = ow" "mb_operationId m = mc_operationId ctx"
    "mutate h (seen h s 5) m (SubmitBuildRole (submissionCommand h role ctx i e
        (applyPatch (d_fields (be_draft e)) (bsi_patch i)) testRunId)) = (snd s', Inr x)"
    "getExecutionLease (seen h s 2) ow (xc_childSessionId ctx) = Some (be_lease e)"
    "exactRunningLease ow ctx (executionRoleOf role) (be_lease e)"
    "getBuildWorkflow (seen h s 3) ow (tgt_agentId (ls_target (be_lease e))) = Some (be_workflow e)"
    "getFamily (seen h s 4) ow (tgt_agentId (ls_target (be_lease e))) = Some (be_family e)"
    "fam_draft (be_family e) = Some (be_draft e)"
    "buildExecutionScopesEqual (ls_workflow (be_lease e)) (Some (scopeOf (be_workflow e)))"
proof -
  have schema: "submissionSchema h role i" using assms(1) by (simp add: submitRole_def split: if_splits)
  let ?rest = "\<lambda>p. andThenOk (execution d (wm_owner p) ctx (executionRoleOf role)) (\<lambda>x.
      let edited = applyPatch (d_fields (be_draft x)) (bsi_patch i)
      in if \<not> savedAgentEditableFieldsSchema h edited then Return invalidInput
         else orReturn (coordinatorNow d 1) (\<lambda>now.
              orReturn (if role = BuildQa \<and> bsi_result i = SubNeedsTest
                  then map_sum id Some (coordinatorId (wd_testRunId d)) else Inr None) (\<lambda>testRunId.
                mutateWorkflow p TWorkflowRoleSubmitted now
                  (SubmitBuildRole (submissionCommand h role ctx i x edited testRunId)))))"
  from assms(1) obtain p where
    prep: "prepareWorkflowMutation d (mutationContext ctx) (''workflow_role_submit:'' @ buildRoleText role)
        (submissionJson i) (sessionTargetJson ctx) = Inr p"
    and run: "runProgram (workflowReplayOr p TWorkflowRoleSubmitted (?rest p)) h s = (s', Inr x)"
    using schema unfolding submitRole_def by (auto elim: orReturn_run)
  from prepareWorkflowMutation_Inr[OF prep] assms(2) have p: "wm_owner p = ow" "wm_operationId p = mc_operationId ctx"
    by auto
  have "map_of (operations (bucketOf (seen h s 1) (wm_owner p))) (wm_operationId p) = None"
    using assms(3) by (simp add: p)
  from workflowReplayOr_run[OF run this] obtain s1 e where
    e: "runProgram (execution d ow ctx (executionRoleOf role)) h (others h s) = (s1, Inr e)"
    and rest: "runProgram (let edited = applyPatch (d_fields (be_draft e)) (bsi_patch i)
      in if \<not> savedAgentEditableFieldsSchema h edited then Return invalidInput
         else orReturn (coordinatorNow d 1) (\<lambda>now.
              orReturn (if role = BuildQa \<and> bsi_result i = SubNeedsTest
                  then map_sum id Some (coordinatorId (wd_testRunId d)) else Inr None) (\<lambda>testRunId.
                mutateWorkflow p TWorkflowRoleSubmitted now
                  (SubmitBuildRole (submissionCommand h role ctx i e edited testRunId))))) h s1 = (s', Inr x)"
    unfolding p by (rule andThenOk_run)
  note e = execution_run[OF e]
  from rest obtain now testRunId where "runProgram (mutateWorkflow p TWorkflowRoleSubmitted now
      (SubmitBuildRole (submissionCommand h role ctx i e
        (applyPatch (d_fields (be_draft e)) (bsi_patch i)) testRunId))) h s1 = (s', Inr x)"
    by (auto simp: Let_def split: if_splits elim!: orReturn_run)
  then obtain m where "mb_owner m = ow" "mb_operationId m = mc_operationId ctx"
    "mutate h (seen h s1 1) m (SubmitBuildRole (submissionCommand h role ctx i e
        (applyPatch (d_fields (be_draft e)) (bsi_patch i)) testRunId)) = (snd s', Inr x)"
    by (rule mutateWorkflow_run) (simp add: p)
  with schema e show thesis
    by (intro that) (simp_all add: numeral_eq_Suc)
qed

lemma lease_kept:
  assumes "reachable h t" and "getExecutionLease t ow child = Some l"
    and "getExecutionLease (runCalls h t cs) ow child = Some l'"
  shows "leaseLater l l'"
proof -
  have "bucketLater (bucketOf t ow) (bucketOf (runCalls h t cs) ow)"
    by (rule bucketOf_later) (rule reachable_later[OF assms(1)])
  then have "map_later leaseLater (map_of (leases (bucketOf t ow))) (map_of (leases (bucketOf (runCalls h t cs) ow)))"
    by (simp add: bucketLater_def)
  from map_laterD[OF this assms(2)[unfolded getExecutionLease_bucketOf]] assms(3) show ?thesis
    by (auto simp: getExecutionLease_bucketOf)
qed

lemma lease_child:
  "reachable h t \<Longrightarrow> getExecutionLease t ow child = Some l \<Longrightarrow> ls_childSessionId l = child"
  using sessions_okD(4)[OF reachable_sessions] by (auto simp: getExecutionLease_bucketOf lease_ok_def)

text \<open>C31. A submission is applied to the current draft by the session it was started for: when it
  succeeds, with any other calls in between its steps, then at the commit the calling session has
  a running, unexpired lease of the role, in its execution turn, for exactly the current draft and
  workflow revision; the draft that is replaced is the one the patch was computed from; and
  exactly the patched members are changed, all of them members of the role. (The hypothesis
  leaves out answers from the log: nobody has used the operation id.)\<close>

theorem submission_applies_patch:
  assumes "reachable h (snd s)" and "runProgram (submitRole h d role ctx (Some i)) h s = (s', Inr x)"
    and "coordinatorOwner d (mc_ownerResolution ctx) = Inr (ow, actor)"
    and "\<forall>k. map_of (operations (bucketOf (seen h s k) ow)) (mc_operationId ctx) = None"
  shows "\<exists>w l f draft f' draft' w'.
    getBuildWorkflow (seen h s 5) ow (wf_agentId w) = Some w \<and> rolePhaseAllowed role (wf_phase w) \<and>
    getExecutionLease (seen h s 5) ow (xc_childSessionId ctx) = Some l \<and>
    ls_role l = executionRoleOf role \<and> ls_status l = LeaseRunning \<and>
    ls_executionTurnId l = Some (xc_executionTurnId ctx) \<and>
    ls_target l = DraftTarget (wf_agentId w) (wf_draftId w) (wf_draftRevision w) \<and>
    map_option sc_workflowRevision (ls_workflow l) = Some (wf_revision w) \<and>
    getFamily (seen h s 5) ow (wf_agentId w) = Some f \<and> fam_draft f = Some draft \<and>
    getFamily (snd s') ow (wf_agentId w) = Some f' \<and> fam_draft f' = Some draft' \<and>
    d_fields draft' = applyPatch (d_fields draft) (bsi_patch i) \<and>
    onlyRoleFieldsChanged role (d_fields draft) (d_fields draft') \<and>
    getBuildWorkflow (snd s') ow (wf_agentId w) = Some w' \<and> wf_revision w' = wf_revision w + 1 \<and>
    wf_phase w' = nextRolePhase role (bsi_result i) \<and> x = WorkflowRoleSubmitted f' w'"
proof -
  have unused: "map_of (operations (bucketOf (seen h s 1) ow)) (mc_operationId ctx) = None" using assms(4) ..
  from submitRole_run[OF assms(2,3) unused] obtain e m testRunId where
    m: "mb_owner m = ow" "mb_operationId m = mc_operationId ctx"
    and run: "mutate h (seen h s 5) m (SubmitBuildRole (submissionCommand h role ctx i e
        (applyPatch (d_fields (be_draft e)) (bsi_patch i)) testRunId)) = (snd s', Inr x)"
    and e: "getExecutionLease (seen h s 2) ow (xc_childSessionId ctx) = Some (be_lease e)"
    "getFamily (seen h s 4) ow (tgt_agentId (ls_target (be_lease e))) = Some (be_family e)"
    "fam_draft (be_family e) = Some (be_draft e)"
    by metis
  let ?c = "submissionCommand h role ctx i e (applyPatch (d_fields (be_draft e)) (bsi_patch i)) testRunId"
  note reach = seen_reachable[OF assms(1)]
  have c: "sb_role ?c = role" "sb_childSessionId ?c = ls_childSessionId (be_lease e)"
    "sb_executionTurnId ?c = xc_executionTurnId ctx" "sb_expectedRevision ?c = fam_revision (be_family e)"
    "sb_fields ?c = applyPatch (d_fields (be_draft e)) (bsi_patch i)"
    by (simp_all add: submissionCommand_def)
  have fresh: "fresh (seen h s 5) m" using assms(4) by (simp add: fresh_def m)
  obtain w l f draft f' draft' where
    w: "getBuildWorkflow (seen h s 5) ow (wf_agentId w) = Some w" "rolePhaseAllowed role (wf_phase w)"
    and l: "getExecutionLease (seen h s 5) ow (ls_childSessionId (be_lease e)) = Some l"
      "ls_role l = executionRoleOf role" "ls_status l = LeaseRunning"
      "ls_executionTurnId l = Some (xc_executionTurnId ctx)"
      "ls_target l = DraftTarget (wf_agentId w) (wf_draftId w) (wf_draftRevision w)"
      "map_option sc_workflowRevision (ls_workflow l) = Some (wf_revision w)"
    and f: "getFamily (seen h s 5) ow (wf_agentId w) = Some f" "fam_draft f = Some draft"
      "fam_revision f = fam_revision (be_family e)"
      "onlyRoleFieldsChanged role (d_fields draft) (applyPatch (d_fields (be_draft e)) (bsi_patch i))"
      "getFamily (snd s') ow (wf_agentId w) = Some f'" "fam_draft f' = Some draft'"
      "d_fields draft' = applyPatch (d_fields (be_draft e)) (bsi_patch i)"
    and w': "getBuildWorkflow (snd s') ow (wf_agentId w) = Some (workflowAfterSubmission m ?c w draft)"
      "x = WorkflowRoleSubmitted f' (workflowAfterSubmission m ?c w draft)"
    by (rule submission_committed[OF reach fresh run, unfolded m c], rule that)
  have child: "ls_childSessionId (be_lease e) = xc_childSessionId ctx" by (rule lease_child[OF reach e(1)])
  from seen_later[of 2 5 h s] obtain cs where cs: "seen h s 5 = runCalls h (seen h s 2) cs" by auto
  have target: "tgt_agentId (ls_target (be_lease e)) = wf_agentId w"
    using lease_kept[OF reach e(1), of cs l] l(1) l(5)[symmetric] cs child
    by (metis BootstrapTarget.sel(1) leaseLater_def sameBinding_def)
  from seen_later[of 4 5 h s] obtain cs' where "seen h s 5 = runCalls h (seen h s 4) cs'" by auto
  with revision_identifies_state[OF reach e(2), of cs'] f(1,3) target have "f = be_family e" by auto
  then have "draft = be_draft e" using e(3) f(2) by simp
  moreover have "sb_result ?c = bsi_result i" by (simp add: submissionCommand_def)
  ultimately show ?thesis
    using w l f w' child c
    by (intro exI[of _ w] exI[of _ l] exI[of _ f] exI[of _ draft] exI[of _ f'] exI[of _ draft']
        exI[of _ "workflowAfterSubmission m ?c w draft"])
      (simp add: workflowAfterSubmission_def del: onlyRoleFieldsChanged.simps)
qed

section \<open>Grants for the next role\<close>

lemma snapshot_run:
  assumes "runProgram (snapshot d ownerResolution agentId) h s = (s', Inr sn)"
  obtains ow actor where "coordinatorOwner d ownerResolution = Inr (ow, actor)" "s' = others h (others h s)"
    "getBuildWorkflow (seen h s 1) ow agentId = Some (sn_workflow sn)"
    "getFamily (seen h s 2) ow agentId = Some (sn_family sn)" "fam_lifecycle (sn_family sn) \<noteq> Deleted"
    "wf_phase (sn_workflow sn) \<noteq> Published \<Longrightarrow> \<exists>draft. fam_draft (sn_family sn) = Some draft \<and>
       d_draftId draft = wf_draftId (sn_workflow sn) \<and> d_draftRevision draft = wf_draftRevision (sn_workflow sn)"
  using assms
  by (auto simp: snapshot_def orReturn_def Let_def snd_others numeral_2_eq_2
      split: option.splits if_splits sum.splits prod.splits)

lemma nextRole_published: "nextRole phase = Some x \<Longrightarrow> phase \<noteq> Published"
  by auto

text \<open>C32. The coordinator hands out work as the process asks for it: when it prepares a step, with any
  other calls in between its own, the grant it issues is for the role of the phase the workflow
  was in, for exactly the revision of the workflow and of the draft that were read, for the
  authenticated owner and the calling parent session; the store holds it, not redeemed, under the
  hash of the returned token, for at most five minutes.\<close>

theorem prepared_step_granted:
  assumes "reachable h t" and "newBootstrapService a b = Some (wd_bootstrapOptions d)"
    and "runProgram (prepareNext d ctx i) h (sched, t) = ((sched', t'), Inr (BootstrapRequired sn role mode g))"
  shows "\<exists>ow actor w gr issued expires. coordinatorOwner d (pc_ownerResolution ctx) = Inr (ow, actor) \<and>
    sn_workflow sn = w \<and> getBuildWorkflow (seen h (sched, t) 1) ow (pc_agentId ctx) = Some w \<and>
    nextRole (wf_phase w) = Some (role, mode) \<and>
    map_of (grants (bucketOf t' ow)) (hashBootstrapToken (bd_texts (wd_bootstrap d)) (ib_token g)) = Some gr \<and>
    gr_owner gr = ow \<and> gr_role gr = role \<and>
    gr_target gr = DraftTarget (pc_agentId ctx) (wf_draftId w) (wf_draftRevision w) \<and>
    gr_workflow gr = Some (scopeOf w) \<and> gr_redeemedAt gr = None \<and>
    gr_parentSessionId gr = pc_parentSessionId ctx \<and> gr_parentTurnId gr = pc_parentTurnId ctx \<and>
    dateParse (gr_issuedAt gr) = Some issued \<and> dateParse (gr_expiresAt gr) = Some expires \<and>
    issued < expires \<and> expires \<le> issued + DEFAULT_BOOTSTRAP_GRANT_TTL_MS"
proof -
  from assms(3) obtain s1 draft where
    sn: "runProgram (snapshot d (pc_ownerResolution ctx) (pc_agentId ctx)) h (sched, t) = (s1, Inr sn)"
    and role: "nextRole (wf_phase (sn_workflow sn)) = Some (role, mode)" "fam_draft (sn_family sn) = Some draft"
    and run: "runProgram (issue (wd_bootstrapOptions d) (wd_bootstrap d) (grantInput ctx sn draft role)) h s1 =
      ((sched', t'), Inr g)"
    unfolding prepareNext_def
    by (auto elim!: andThenOk_run simp: runProgram_andThen split: option.splits prod.splits sum.splits)
  obtain ow actor where
    ow: "coordinatorOwner d (pc_ownerResolution ctx) = Inr (ow, actor)" "s1 = others h (others h (sched, t))"
    and w: "getBuildWorkflow (seen h (sched, t) 1) ow (pc_agentId ctx) = Some (sn_workflow sn)"
    and f: "getFamily (seen h (sched, t) 2) ow (pc_agentId ctx) = Some (sn_family sn)"
      "d_draftId draft = wf_draftId (sn_workflow sn)" "d_draftRevision draft = wf_draftRevision (sn_workflow sn)"
    by (rule snapshot_run[OF sn], rule that) (use role(2) nextRole_published[OF role(1)] in auto)
  have reach: "reachable h (seen h (sched, t) k)" for k by (rule seen_reachable) (simp add: assms(1))
  have "wf_owner (sn_workflow sn) = ow"
    using stored_workflow[OF reach w] by (auto simp: workflow_ok_def)
  moreover from f(1) obtain rec where rec: "familyRecordOf (seen h (sched, t) 2) ow (pc_agentId ctx) = Some rec"
    "fr_family rec = sn_family sn" by (auto simp: getFamily_def)
  have "fam_agentId (sn_family sn) = pc_agentId ctx"
    using reachable_record[OF reach rec(1)] rec(2) by (simp add: record_ok_def)
  moreover have "reachable h (snd s1)" using others_reachable assms(1) by (simp add: ow(2))
  ultimately show ?thesis
    using issue_stores_grant[OF _ assms(2), of h "snd s1" "wd_bootstrap d" "grantInput ctx sn draft role" "fst s1"
        sched' t' g] run ow(1) w f(2,3) role(1)
    by (auto simp: grantInput_def)
qed

section \<open>Example\<close>

text \<open>The QA session of the example build approves the draft through the coordinator.\<close>

definition exCoordinator :: "string \<Rightarrow> CoordinatorDependencies" where
  "exCoordinator minute = \<lparr>wd_resolveOwner = (\<lambda>_. ResolverOwner exOwner), wd_now = (\<lambda>_. exTime minute),
     wd_agentId = ''new'', wd_draftId = ''new'', wd_specId = ''new'', wd_workflowId = ''new'', wd_testRunId = ''new'',
     wd_texts = \<lparr>sha256Text = (\<lambda>s. s), otherNumberText = (\<lambda>_. [])\<rparr>, wd_bootstrapOptions = exOptions,
     wd_bootstrap = exDependencies minute\<rparr>"

definition exQaSession :: BuildWorkflowExecutionContext where
  "exQaSession = \<lparr>mc_ownerResolution = mc_ownerResolution exContext, mc_operationId = ''op-5'',
     xc_childSessionId = ''child-5'', xc_executionTurnId = ''work''\<rparr>"

definition exApproving :: BuildSubmissionInput where
  "exApproving = \<lparr>bsi_patch = \<lparr>pt_name = None, pt_kind = None, pt_description = None, pt_pmBrief = None,
       pt_instructions = None, pt_toolRequirements = None, pt_triggers = None, pt_testChecklist = None,
       pt_qaFindings = None\<rparr>, bsi_result = SubApproved\<rparr>"

definition exQaExecution :: BuildExecution where
  "exQaExecution = \<lparr>be_workflow = exWorkflow5, be_family = exFamily exFields2 3 ''04'',
     be_draft = exDraft exFields2 3 ''04'', be_lease = exLease5\<rparr>"

lemma exCoordinator_members [simp]:
  "coordinatorNow (exCoordinator ''04'') k = Inr (exTime ''04'')"
  "coordinatorOwner (exCoordinator minute) (mc_ownerResolution exContext) = Inr (exOwner, exActor)"
  using exResolved[of minute]
  by (simp_all add: coordinatorNow_def coordinatorOwner_def exCoordinator_def exService_def timestampSchema_def)

lemma exApproving_schema: "submissionSchema exHost BuildQa exApproving"
  by (simp add: exApproving_def qaBuildSubmissionInputSchema_def qaPatchSchema_def)

lemma exApproving_prepared:
  "\<exists>p. prepareWorkflowMutation (exCoordinator ''04'') (mutationContext exQaSession) ''workflow_role_submit:qa''
      (submissionJson exApproving) (sessionTargetJson exQaSession) = Inr p \<and>
    wm_owner p = exOwner \<and> wm_operationId p = ''op-5''"
proof -
  have "length (''eve-agent-builder-mutation-v1:'' @ canonicalJson (wd_texts (exCoordinator ''04''))
      (workflowRequestJson ''workflow_role_submit:qa'' exActor (submissionJson exApproving)
        (sessionTargetJson exQaSession))) \<le> 1000" by code_simp
  then have "fingerprintMutationRequest (wd_texts (exCoordinator ''04''))
      (workflowRequestJson ''workflow_role_submit:qa'' exActor (submissionJson exApproving)
        (sessionTargetJson exQaSession)) \<noteq> None"
    by (rule fingerprint_short) simp
  moreover have "mc_operationId exQaSession = ''op-5''" "mc_ownerResolution exQaSession = mc_ownerResolution exContext"
    by (simp_all add: exQaSession_def)
  moreover have "identifierSchema ''op-5''" by code_simp
  ultimately show ?thesis by (auto simp: prepareWorkflowMutation_def)
qed

lemma exQa_execution:
  "runProgram (execution (exCoordinator ''04'') exOwner exQaSession ExQa) exHost ([], exState6a) =
     (([], exState6a), Inr exQaExecution)"
  by (simp add: execution_def exactRunningLease_def orReturn_def exQaSession_def exQaExecution_def evaluation scenario
      states exLease5_def scopeOf_def)

lemma exQa_command:
  "submissionCommand exHost BuildQa exQaSession exApproving exQaExecution
     (applyPatch (d_fields (be_draft exQaExecution)) (bsi_patch exApproving)) None = exApproveCommand"
  by (simp add: submissionCommand_def exApproveCommand_def exQaExecution_def exApproving_def applyPatch_def getOr_def
      exQaSession_def evaluation scenario states exLease5_def)

lemma exQa_applied:
  "\<exists>b' x. apply_command exHost (bucketOf exState6a exOwner) \<lparr>mb_owner = exOwner, mb_operationId = ''op-5'',
     mb_requestFingerprint = f, mb_occurredAt = exTime ''04''\<rparr> (SubmitBuildRole exApproveCommand) = Inr (b', x) \<and>
     successType x = TWorkflowRoleSubmitted"
  by (simp add: exApproveCommand_def evaluation scenario states exLease5_def)

lemma exQa_run:
  "\<exists>t x. runProgram (submitRole exHost (exCoordinator ''04'') BuildQa exQaSession (Some exApproving)) exHost
     ([], exState6a) = (([], t), Inr x)"
proof -
  from exApproving_prepared obtain p where p: "prepareWorkflowMutation (exCoordinator ''04'')
      (mutationContext exQaSession) ''workflow_role_submit:qa'' (submissionJson exApproving)
      (sessionTargetJson exQaSession) = Inr p" "wm_owner p = exOwner" "wm_operationId p = ''op-5''" by blast
  have log: "map_of (operations (bucketOf exState6a exOwner)) ''op-5'' = None"
    by (simp add: exState6a_def queries exLog_def)
  have "getMutationReplay exState6a exOwner ''op-5'' f = ReplayMiss" for f
    by (simp add: getMutationReplay_def exState6a_def queries exLog_def)
  moreover from exQa_applied obtain b' x where
    "apply_command exHost (bucketOf exState6a exOwner) \<lparr>mb_owner = exOwner, mb_operationId = ''op-5'',
       mb_requestFingerprint = wm_requestFingerprint p, mb_occurredAt = exTime ''04''\<rparr>
       (SubmitBuildRole exApproveCommand) = Inr (b', x)" "successType x = TWorkflowRoleSubmitted"
    by blast
  moreover have "savedAgentEditableFieldsSchema exHost
      (applyPatch (d_fields (be_draft exQaExecution)) (bsi_patch exApproving))"
    by (simp add: exQaExecution_def exApproving_def applyPatch_def getOr_def evaluation scenario states)
  moreover have "bsi_result exApproving = SubApproved" by (simp add: exApproving_def)
  ultimately show ?thesis
    using exApproving_schema exQa_execution exQa_command p log
    by (simp add: submitRole_def orReturn_def workflowReplayOr_def andThenOk_def runProgram_andThen mutateWorkflow_def
        ofType_def mutate_def Let_def timestampSchema_def del: submissionSchema.simps)
qed

theorem coordinator_takes_effect_once_witness:
  "\<exists>t x. runProgram (coordinate exHost 25 (exCoordinator ''04'') exContext
      (SubmitRequest BuildQa exQaSession (Some exApproving))) exHost ([], exState6a) = (([], t), Inr x) \<and>
    runProgram (coordinate exHost 5 (exCoordinator ''30'') exContext
      (SubmitRequest BuildQa exQaSession (Some exApproving))) exHost ([], runCalls exHost t [exPublish]) =
      (([], runCalls exHost t [exPublish]), Inr x)"
proof -
  from exQa_run obtain t x where run: "runProgram (coordinate exHost 25 (exCoordinator ''04'') exContext
      (SubmitRequest BuildQa exQaSession (Some exApproving))) exHost ([], exState6a) = (([], t), Inr x)" by auto
  have t: "reachable exHost (snd ([], exState6a))" by (simp add: exState6a_reachable)
  have s2: "snd ([], runCalls exHost t [exPublish]) = runCalls exHost (snd ([], t)) [exPublish]" by simp
  have same: "wd_resolveOwner (exCoordinator ''30'') = wd_resolveOwner (exCoordinator ''04'')"
    "wd_texts (exCoordinator ''30'') = wd_texts (exCoordinator ''04'')" by (simp_all add: exCoordinator_def)
  from coordinator_takes_effect_once[OF t run s2 same, of 5] run show ?thesis by auto
qed

theorem submission_applies_patch_witness:
  "\<exists>t f' w'. runProgram (submitRole exHost (exCoordinator ''04'') BuildQa exQaSession (Some exApproving)) exHost
      ([], exState6a) = (([], t), Inr (WorkflowRoleSubmitted f' w')) \<and>
    wf_phase w' = PublishReady \<and> getFamily t exOwner (wf_agentId exWorkflow5) = Some f' \<and>
    map_option d_fields (fam_draft f') = Some exFields2"
proof -
  from exQa_run obtain t x where run: "runProgram (submitRole exHost (exCoordinator ''04'') BuildQa exQaSession
      (Some exApproving)) exHost ([], exState6a) = (([], t), Inr x)" by blast
  have unused: "\<forall>k. map_of (operations (bucketOf (seen exHost ([], exState6a) k) exOwner)) (mc_operationId exQaSession) = None"
    by (simp add: exState6a_def queries exLog_def exQaSession_def)
  have t: "reachable exHost (snd ([], exState6a))" by (simp add: exState6a_reachable)
  have "coordinatorOwner (exCoordinator ''04'') (mc_ownerResolution exQaSession) = Inr (exOwner, exActor)"
    by (simp add: exQaSession_def)
  from submission_applies_patch[OF t run this unused] obtain w l f draft f' draft' w' where
    w: "getBuildWorkflow exState6a exOwner (wf_agentId w) = Some w"
      "getExecutionLease exState6a exOwner ''child-5'' = Some l"
      "ls_target l = DraftTarget (wf_agentId w) (wf_draftId w) (wf_draftRevision w)"
    and f: "getFamily exState6a exOwner (wf_agentId w) = Some f" "fam_draft f = Some draft"
      "getFamily t exOwner (wf_agentId w) = Some f'" "fam_draft f' = Some draft'"
      "d_fields draft' = applyPatch (d_fields draft) (bsi_patch exApproving)"
      "wf_phase w' = nextRolePhase BuildQa (bsi_result exApproving)" "x = WorkflowRoleSubmitted f' w'"
    by (auto simp: exQaSession_def)
  from w(2) have "ls_target l = DraftTarget ''a'' ''d'' 3"
    by (auto simp: evaluation scenario states exLease5_def)
  with w(3) have "wf_agentId w = ''a''" by simp
  moreover have "wf_agentId exWorkflow5 = ''a''" by (simp add: workflow_values)
  moreover have "getFamily exState6a exOwner ''a'' = Some (exFamily exFields2 3 ''04'')"
    by (simp add: exState6a_def queries)
  moreover have "applyPatch exFields2 (bsi_patch exApproving) = exFields2"
    by (simp add: applyPatch_def getOr_def exApproving_def)
  ultimately show ?thesis
    using run f by (auto simp: exPatch_members exApproving_def)
qed

text \<open>The parent session prepares the first step of the example build.\<close>

definition exPrepare :: BuildWorkflowPrepareContext where
  "exPrepare = \<lparr>pc_ownerResolution = mc_ownerResolution exContext, pc_agentId = ''a'',
     pc_parentSessionId = ''parent'', pc_parentTurnId = Some ''turn'', pc_parentCallId = Some ''call''\<rparr>"

definition exSnapshot :: BuildWorkflowSnapshot where
  "exSnapshot = \<lparr>sn_workflow = exWorkflow1, sn_family = exFamily exFields0 1 ''00''\<rparr>"

lemma exCoordinator_bootstrap:
  "wd_bootstrapOptions (exCoordinator minute) = exOptions" "wd_bootstrap (exCoordinator minute) = exDependencies minute"
  by (simp_all add: exCoordinator_def)

lemma exPrepare_run:
  "runProgram (prepareNext (exCoordinator ''01'') exPrepare (Some ())) exHost ([], exState1) =
     (([], exIssuedState), Inr (BootstrapRequired exSnapshot ExPm ModeDirect exIssued))"
proof -
  have "identifierSchema ''a''" by code_simp
  moreover have "getBuildWorkflow exState1 exOwner ''a'' = Some exWorkflow1"
    "getFamily exState1 exOwner ''a'' = Some (exFamily exFields0 1 ''00'')"
    by (simp_all add: exState1_def queries)
  moreover have "wf_draftId exWorkflow1 = ''d''" "wf_draftRevision exWorkflow1 = 1" "wf_phase exWorkflow1 = PmWork"
    "d_draftId (exDraft flds 1 minute) = ''d''" for flds minute
    by (simp_all add: exWorkflow1_def exDraft_def)
  ultimately have snapshot: "runProgram (snapshot (exCoordinator ''01'') (mc_ownerResolution exContext) ''a'') exHost
      ([], exState1) = (([], exState1), Inr exSnapshot)"
    by (simp add: snapshot_def orReturn_def Let_def exPatch_members exSnapshot_def)
  have "grantInput exPrepare exSnapshot (exDraft exFields0 1 ''00'') ExPm = exIssue"
    by (simp add: grantInput_def exPrepare_def exSnapshot_def exIssue_def scopeOf_def exWorkflow1_def exFamily_def
        exDraft_def)
  moreover have "pc_ownerResolution exPrepare = mc_ownerResolution exContext" "pc_agentId exPrepare = ''a''"
    by (simp_all add: exPrepare_def)
  moreover have "nextRole (wf_phase (sn_workflow exSnapshot)) = Some (ExPm, ModeDirect)"
    "fam_draft (sn_family exSnapshot) = Some (exDraft exFields0 1 ''00'')"
    by (simp_all add: exSnapshot_def exWorkflow1_def exPatch_members)
  ultimately show ?thesis
    using snapshot exIssue_run exCoordinator_bootstrap[of "''01''"]
    by (simp add: prepareNext_def andThenOk_def runProgram_andThen)
qed

theorem prepared_step_granted_witness:
  "\<exists>gr. map_of (grants (bucketOf exIssuedState exOwner)) exFingerprintA = Some gr \<and>
    gr_role gr = ExPm \<and> gr_target gr = DraftTarget ''a'' ''d'' 1 \<and> gr_redeemedAt gr = None"
proof -
  have "newBootstrapService None None = Some (wd_bootstrapOptions (exCoordinator ''01''))"
    by (simp add: exCoordinator_bootstrap exOptions_new)
  from prepared_step_granted[OF exStates_reachable(1) this exPrepare_run] obtain ow actor gr where
    "coordinatorOwner (exCoordinator ''01'') (mc_ownerResolution exContext) = Inr (ow, actor)"
    "map_of (grants (bucketOf exIssuedState ow)) exFingerprintA = Some gr" "gr_role gr = ExPm"
    "gr_target gr = DraftTarget ''a'' (wf_draftId exWorkflow1) (wf_draftRevision exWorkflow1)" "gr_redeemedAt gr = None"
    by (auto simp: exPrepare_def exSnapshot_def exCoordinator_bootstrap exDependencies_def)
  then show ?thesis by (auto simp: exWorkflow1_def)
qed

end
