(* ===== verification/Roles_Properties.thy ===== *)
theory Roles_Properties
  imports Roles Coordinator_Properties
begin

text \<open>
  The properties of the role-scoped service: a patch by a role needs its running lease and changes
  only members of the role; and what the lease does not protect.
\<close>

lemma rolePatch_members:
  "rolePatchSchema h role p \<Longrightarrow> onlyRoleFieldsChanged role f (applyPatch f p)"
  by (cases role) (simp_all add: pmPatchSchema_def implementorPatchSchema_def qaPatchSchema_def applyPatch_def getOr_def)

lemma authorize_run:
  assumes "runProgram (authorize now role operation ow claimed) h s = (s', Inr target)"
  obtains lease where "s' = others h s" "roleMayPerform (Some role) operation"
    "getExecutionLease (seen h s 1) ow (ls_childSessionId claimed) = Some lease"
    "leaseAuthorizes now role claimed lease" "ls_target lease = target"
    "target = DraftTarget (tgt_agentId target) (tgt_draftId target) (tgt_draftRevision target)"
proof -
  from assms obtain lease where lease: "s' = others h s" "roleMayPerform (Some role) operation"
    "getExecutionLease (seen h s 1) ow (ls_childSessionId claimed) = Some lease" "leaseAuthorizes now role claimed lease"
    and "(case ls_target lease of
        DraftTarget agentId draftId draftRevision \<Rightarrow> Inr (DraftTarget agentId draftId draftRevision)
      | PublishedTarget _ _ _ \<Rightarrow> Inl RoleTargetChanged) = Inr target"
    by (auto simp: authorize_def Let_def snd_others split: if_splits option.splits)
  from this(5) have "ls_target lease = target"
    "target = DraftTarget (tgt_agentId target) (tgt_draftId target) (tgt_draftRevision target)"
    by (cases "ls_target lease"; auto)+
  with lease show thesis by (rule that)
qed

lemma ofService_Inr: "ofService r = Inr x \<longleftrightarrow> r = Inr x"
  by (cases r) (simp_all add: ofService_def)

lemma roleOwner_Inr:
  "roleOwner d i = Inr x \<longleftrightarrow> resolveCurrentOwner i (sd_resolveOwner d) = Inr x"
  by (cases "resolveCurrentOwner i (sd_resolveOwner d)") (simp_all add: roleOwner_def ofService_def)

lemma leasedFamilyRevision_run:
  assumes "resolveCurrentOwner (mc_ownerResolution ctx) (sd_resolveOwner d) = Inr (ow, actor)"
    and "identifierSchema agentId"
  shows "fst (runProgram (leasedFamilyRevision d ctx agentId) h s) = others h s"
  using assms
  by (auto simp: leasedFamilyRevision_def serviceGetFamily_def withPublicFamily_def orReturn_def runProgram_andThen
      serviceNotFound_def Let_def split: option.splits)

lemma servicePatchDraft_schema:
  assumes "runProgram (servicePatchDraft h d ctx (Some i)) h s = (s', Inr x)"
  shows "identifierSchema (pi_agentId i)"
proof -
  from assms obtain p v where
    "prepareMutation d ctx (Some i) (patchDraftInputSchema h) ''patch_draft'' Inr patchDraftJson = Inr (p, v)"
    unfolding servicePatchDraft_def by (elim orReturn_run) (auto split: prod.splits)
  from prepareMutation_Inr[OF this] show ?thesis by (auto simp: patchDraftInputSchema_def)
qed

text \<open>C33. A role patches its draft only under its lease: when a patch by a role succeeds, with any other
  calls in between its steps, the caller's session had a running, unexpired lease of that role,
  not part of a workflow, for the revision of the draft that the patch replaced; and the new
  draft differs from it only in the patched members, all of them members of the role. (The
  hypothesis leaves out answers from the log: nobody has used the operation id.)\<close>

theorem role_patch_under_lease:
  assumes "reachable h (snd s)" and "runProgram (rolePatch h d now role claimed ctx rawPatch) h s = (s', Inr x)"
    and "resolveCurrentOwner (mc_ownerResolution ctx) (sd_resolveOwner d) = Inr (ow, actor)"
    and "\<forall>k. map_of (operations (bucketOf (seen h s k) ow)) (mc_operationId ctx) = None"
  shows "\<exists>p l f draft f' draft'. rawPatch = Some p \<and> ls_workflow claimed = None \<and>
    getExecutionLease (seen h s 1) ow (ls_childSessionId claimed) = Some l \<and>
    ls_role l = executionRoleOf role \<and> ls_status l = LeaseRunning \<and> \<not> timeGe now (ls_expiresAt l) \<and>
    ls_target l = DraftTarget (tgt_agentId (ls_target l)) (tgt_draftId (ls_target l)) (d_draftRevision draft) \<and>
    getFamily (seen h s 5) ow (tgt_agentId (ls_target l)) = Some f \<and> fam_draft f = Some draft \<and>
    getFamily (snd s') ow (tgt_agentId (ls_target l)) = Some f' \<and> fam_draft f' = Some draft' \<and>
    d_fields draft' = applyPatch (d_fields draft) p \<and>
    onlyRoleFieldsChanged role (d_fields draft) (d_fields draft')"
proof -
  from assms(2,3) obtain s1 target p where plain: "ls_workflow claimed = None" "rawPatch = Some p"
    and auth: "runProgram (authorize now (executionRoleOf role) (patchOperation role) ow claimed) h s = (s1, Inr target)"
    and schema: "rolePatchSchema h role p"
    and run: "runProgram (andThen (leasedFamilyRevision d ctx (tgt_agentId target)) (\<lambda>revision.
        andThen (servicePatchDraft h d ctx (Some
            \<lparr>pi_agentId = tgt_agentId target, pi_expectedRevision = revision,
             pi_expectedDraftRevision = tgt_draftRevision target, pi_patch = p\<rparr>))
          (\<lambda>r. Return (ofService r)))) h s1 = (s', Inr x)"
    unfolding rolePatch_def
    by (auto simp: roleOwner_Inr elim!: orReturn_run andThenOk_run split: if_splits option.splits)
  from authorize_run[OF auth] obtain l where l: "s1 = others h s"
    "getExecutionLease (seen h s 1) ow (ls_childSessionId claimed) = Some l"
    "leaseAuthorizes now (executionRoleOf role) claimed l" "ls_target l = target"
    "target = DraftTarget (tgt_agentId target) (tgt_draftId target) (tgt_draftRevision target)" by metis
  note reach = seen_reachable[OF assms(1)]
  from run obtain s2 n y where revision: "runProgram (leasedFamilyRevision d ctx (tgt_agentId target)) h s1 = (s2, n)"
    and patch: "runProgram (servicePatchDraft h d ctx (Some
       \<lparr>pi_agentId = tgt_agentId target, pi_expectedRevision = n,
        pi_expectedDraftRevision = tgt_draftRevision target, pi_patch = p\<rparr>)) h s2 = (s', Inr y)"
    by (auto simp: runProgram_andThen ofService_Inr split: prod.splits)
  have "s2 = others h (others h s)"
    using leasedFamilyRevision_run[OF assms(3), of "tgt_agentId target" h s1] servicePatchDraft_schema[OF patch]
      revision l(1) by simp
  then have s2: "seen h s2 k = seen h s (k + 2)" "snd s2 = seen h s 2" for k
    by (simp_all add: snd_others numeral_2_eq_2)
  from patch_committed[OF _ patch assms(3)] obtain f draft f' draft' where
    "getFamily (seen h s 5) ow (tgt_agentId target) = Some f" "fam_draft f = Some draft"
    "getFamily (snd s') ow (tgt_agentId target) = Some f'" "fam_draft f' = Some draft'"
    "d_draftRevision draft = tgt_draftRevision target" "d_fields draft' = applyPatch (d_fields draft) p"
    using assms(4) reach[of 2] by (auto simp: s2)
  moreover have "onlyRoleFieldsChanged role (d_fields draft) (applyPatch (d_fields draft) p)"
    by (rule rolePatch_members[OF schema])
  ultimately show ?thesis
    using plain l by (auto simp: leaseAuthorizes_def simp del: onlyRoleFieldsChanged.simps) 
qed

section \<open>Example\<close>

text \<open>A family without a workflow, and the PM session for its draft.\<close>

definition exRoleGrant :: BootstrapGrantRecord where
  "exRoleGrant = (exGrant ''c'' ExPm 1 1 None)\<lparr>gr_target := DraftTarget ''b'' ''d2'' 1, gr_workflow := None\<rparr>"

definition exRoleLease :: ExecutionLeaseRecord where
  "exRoleLease = (exLease ''c'' ExPm 1 1 None None)\<lparr>ls_target := DraftTarget ''b'' ''d2'' 1, ls_workflow := None\<rparr>"

definition exRoleCalls :: "StoreCall list" where
  "exRoleCalls = [Mutate (exBase ''op-create'' ''10'') (CreateFamily exCreate), CreateGrant exRoleGrant,
     RedeemGrant (exRedeem ''c'' ExPm), BeginLease (exBegin ''c'' None)]"

definition exRoleBucket :: "SavedAgentFamily \<Rightarrow> PublishedAgentVersion list \<Rightarrow> string set \<Rightarrow>
    (string \<times> OperationRecord) list \<Rightarrow> OwnerBucket" where
  "exRoleBucket f versions drafts later =
     \<lparr>allocatedDraftIds = drafts, closedParentTurns = [], families = [(''b'', \<lparr>fr_family = f, fr_versions = versions\<rparr>)],
      grants = [(exToken ''c'', exRoleGrant\<lparr>gr_redeemedAt := Some (exTime ''02''),
        gr_childSessionId := Some ''child-c''\<rparr>)],
      leases = [(''child-c'', exRoleLease)],
      operations = (''op-create'', \<lparr>op_requestFingerprint = ''op-create'', op_result = FamilyCreated exOther\<rparr>) # later,
      workflows = [], testInputGrants = [], testExecutions = []\<rparr>"

definition exRoleState :: Tenants where
  "exRoleState = exStore (exRoleBucket exOther [] {''d2''} [])"

lemmas role_values = exRoleGrant_def exRoleLease_def exRoleCalls_def exRoleBucket_def exRoleState_def exCreate_def
  exOtherFields_def exOther_def

lemma exRoleState_run: "runCalls exHost [] exRoleCalls = exRoleState"
  by (simp add: evaluation scenario states role_values)

lemma exRoleState_reachable: "reachable exHost exRoleState"
  using reachable_runCalls[OF reachable.initial, of exHost exRoleCalls] by (simp add: exRoleState_run)

definition exRolePatch :: SavedAgentDraftPatch where
  "exRolePatch = pi_patch (exPatchInput ''x'')"

definition exRoleInput :: "int \<Rightarrow> PatchDraftInput" where
  "exRoleInput n = \<lparr>pi_agentId = ''b'', pi_expectedRevision = n, pi_expectedDraftRevision = 1, pi_patch = exRolePatch\<rparr>"

lemma exRoleInput_fingerprint:
  assumes "n = 1 \<or> n = 3"
  shows "fingerprintMutationRequest (sd_texts (exService ''10''))
    (requestJson ''patch_draft'' exActor (patchDraftJson (exRoleInput n))) \<noteq> None"
proof -
  have "length (''eve-agent-builder-mutation-v1:'' @ canonicalJson (sd_texts (exService ''10''))
      (requestJson ''patch_draft'' exActor (patchDraftJson (exRoleInput 1)))) \<le> 1000"
    "length (''eve-agent-builder-mutation-v1:'' @ canonicalJson (sd_texts (exService ''10''))
      (requestJson ''patch_draft'' exActor (patchDraftJson (exRoleInput 3)))) \<le> 1000" by code_simp+
  with assms have "length (''eve-agent-builder-mutation-v1:'' @ canonicalJson (sd_texts (exService ''10''))
      (requestJson ''patch_draft'' exActor (patchDraftJson (exRoleInput n)))) \<le> 1000" by blast
  then show ?thesis by (rule fingerprint_short) simp
qed

lemma exRoleInput_schema: "n = 1 \<or> n = 3 \<Longrightarrow> patchDraftInputSchema exHost (exRoleInput n)"
  by (auto simp: patchDraftInputSchema_def exRoleInput_def exRolePatch_def exPatchInput_def savedAgentDraftPatchSchema_def
      patchMembers_def optMember_def positiveRevisionSchema_def isSafeInteger_def MAX_SAFE_INTEGER_def
      identifierSchema_def boundedString_def maxString_def NUL_char)

lemma exRoleInput_prepared:
  assumes "n = 1 \<or> n = 3"
  obtains p where "prepareMutation (exService ''10'') exContext (Some (exRoleInput n)) (patchDraftInputSchema exHost)
      ''patch_draft'' Inr patchDraftJson = Inr (p, exRoleInput n)"
    "pm_owner p = exOwner" "pm_operationId p = ''op-patch''"
proof -
  have "mc_operationId exContext = ''op-patch''" by (simp add: exContext_def)
  moreover have "identifierSchema ''op-patch''" by code_simp
  ultimately show thesis
    using that exRoleInput_fingerprint[OF assms] exRoleInput_schema[OF assms] by (auto simp: prepareMutation_def exResolved)
qed

text \<open>Patching the draft of the family as it is in some state.\<close>

lemma exRolePatch_run:
  assumes "n = 1 \<or> n = 3" and "bucketOf t exOwner = exRoleBucket f versions drafts later"
    and "map_of later ''op-patch'' = None" and "getBucket t exOwner \<noteq> None"
    and "fam_revision f = n" "fam_draft f = Some draft" "d_draftRevision draft = 1" "d_fields draft = exOtherFields"
      "fam_lifecycle f \<in> {DraftOnly, Active}" "fam_agentId f = ''b''"
    and "\<And>p. pm_owner p = exOwner \<Longrightarrow> pm_operationId p = ''op-patch'' \<Longrightarrow>
      \<exists>b'. apply_command exHost (exRoleBucket f versions drafts later) (mutationBase p (exTime ''10''))
        (PatchDraft (patchCommand exHost (exRoleInput n) f draft)) = Inr (b', x)"
  shows "\<exists>t'. runProgram (rolePatch exHost (exService ''10'') (exTime ''10'') BuildPm exRoleLease exContext
      (Some exRolePatch)) exHost ([], t) = (([], t'), Inr x)"
proof -
  from exRoleInput_prepared[OF assms(1)] obtain p where p: "prepareMutation (exService ''10'') exContext
      (Some (exRoleInput n)) (patchDraftInputSchema exHost) ''patch_draft'' Inr patchDraftJson = Inr (p, exRoleInput n)"
    "pm_owner p = exOwner" "pm_operationId p = ''op-patch''" .
  from assms(11)[OF p(2,3)] obtain b' where applied:
    "apply_command exHost (exRoleBucket f versions drafts later) (mutationBase p (exTime ''10''))
      (PatchDraft (patchCommand exHost (exRoleInput n) f draft)) = Inr (b', x)" by blast
  have lease: "getExecutionLease t exOwner ''child-c'' = Some exRoleLease"
    by (simp add: getExecutionLease_bucketOf assms(2) exRoleBucket_def)
  have family: "getFamily t exOwner ''b'' = Some f"
    by (simp add: getFamily_def familyRecordOf_bucketOf assms(2) exRoleBucket_def)
  have log: "map_of (operations (bucketOf t exOwner)) ''op-patch'' = None"
    using assms(3) by (simp add: assms(2) exRoleBucket_def)
  have miss: "getMutationReplay t exOwner ''op-patch'' k = ReplayMiss" for k
    by (simp add: service.replay_bucket log)
  have auth: "leaseAuthorizes (exTime ''10'') ExPm exRoleLease exRoleLease" "ls_childSessionId exRoleLease = ''child-c''"
    "ls_owner exRoleLease = exOwner" "ls_target exRoleLease = DraftTarget ''b'' ''d2'' 1" "ls_workflow exRoleLease = None"
    by (simp_all add: leaseAuthorizes_def exRoleLease_def exLease_def timeLe_def)
  have schema: "rolePatchSchema exHost BuildPm exRolePatch"
    by (simp add: exRolePatch_def exPatchInput_def pmPatchSchema_def patchMembers_def optMember_def maxString_def)
  have edited: "savedAgentEditableFieldsSchema exHost (applyPatch exOtherFields exRolePatch)"
    by (simp add: evaluation scenario exOtherFields_def exRolePatch_def exPatchInput_def applyPatch_def getOr_def)
  have input: "exRoleInput n = \<lparr>pi_agentId = ''b'', pi_expectedRevision = n, pi_expectedDraftRevision = 1,
      pi_patch = exRolePatch\<rparr>" by (simp add: exRoleInput_def)
  have members: "pi_agentId (exRoleInput k) = ''b''" "pi_expectedRevision (exRoleInput k) = k"
    "pi_expectedDraftRevision (exRoleInput k) = 1" "pi_patch (exRoleInput k) = exRolePatch"
    "serviceNow (exService ''10'') = Inr (exTime ''10'')" "timestampSchema (exTime ''10'')" for k
    by (simp_all add: exRoleInput_def serviceNow_def exService_def timestampSchema_def)
  have "identifierSchema ''b''" by code_simp
  then show ?thesis
    using assms(2,5-10) p lease family log miss auth schema edited applied exResolved
    by (auto simp: rolePatch_def roleOwner_def ofService_def orReturn_def authorize_def roleMayPerform_def andThenOk_def
        runProgram_andThen leasedFamilyRevision_def serviceGetFamily_def withPublicFamily_def publicFamily_def
        servicePatchDraft_def replayOr_def withDraft_def withLiveFamily_def mutateStore_def mutate_def mutationBase_def
        Let_def members input[symmetric])
qed

definition exPatchedOther :: SavedAgentFamily where
  "exPatchedOther = exOther\<lparr>fam_draft := Some \<lparr>d_draftId = ''d2'', d_basedOnSpecId = None, d_basedOnVersion = None,
     d_fields = exOtherFields\<lparr>fld_description := ''x''\<rparr>, d_draftRevision = 2, d_createdAt = exTime ''10'',
     d_updatedAt = exTime ''10''\<rparr>, fam_revision := 2\<rparr>"

definition exOtherDraft :: SavedAgentDraft where
  "exOtherDraft = \<lparr>d_draftId = ''d2'', d_basedOnSpecId = None, d_basedOnVersion = None,
     d_fields = exOtherFields, d_draftRevision = 1, d_createdAt = exTime ''10'', d_updatedAt = exTime ''10''\<rparr>"

lemmas patch_values = exRoleInput_def exRolePatch_def exPatchInput_def applyPatch_def getOr_def patchCommand_def
  mutationBase_def

lemma exRoleState_patch:
  "\<exists>t. runProgram (rolePatch exHost (exService ''10'') (exTime ''10'') BuildPm exRoleLease exContext (Some exRolePatch))
     exHost ([], exRoleState) = (([], t), Inr (DraftPatched exPatchedOther))"
proof (rule exRolePatch_run[where n = 1 and f = exOther and draft = exOtherDraft and versions = "[]" and later = "[]"
      and drafts = "{''d2''}"])
  show "\<exists>b'. apply_command exHost (exRoleBucket exOther [] {''d2''} []) (mutationBase p (exTime ''10''))
      (PatchDraft (patchCommand exHost (exRoleInput 1) exOther exOtherDraft)) = Inr (b', DraftPatched exPatchedOther)"
    if "pm_owner p = exOwner" "pm_operationId p = ''op-patch''" for p
    using that
    by (simp add: patch_values evaluation scenario states role_values exOtherDraft_def exPatchedOther_def)
qed (simp_all add: exRoleState_def queries exOther_def exOtherDraft_def)

theorem role_patch_under_lease_witness:
  "\<exists>t f'. runProgram (rolePatch exHost (exService ''10'') (exTime ''10'') BuildPm exRoleLease exContext
      (Some exRolePatch)) exHost ([], exRoleState) = (([], t), Inr (DraftPatched exPatchedOther)) \<and>
    getFamily t exOwner ''b'' = Some f' \<and> map_option d_fields (fam_draft f') = Some (exOtherFields\<lparr>fld_description := ''x''\<rparr>)"
proof -
  from exRoleState_patch obtain t where run: "runProgram (rolePatch exHost (exService ''10'') (exTime ''10'') BuildPm
      exRoleLease exContext (Some exRolePatch)) exHost ([], exRoleState) = (([], t), Inr (DraftPatched exPatchedOther))"
    by blast
  have t: "reachable exHost (snd ([], exRoleState))" by (simp add: exRoleState_reachable)
  have unused: "\<forall>k. map_of (operations (bucketOf (seen exHost ([], exRoleState) k) exOwner)) (mc_operationId exContext) = None"
    by (simp add: exRoleState_def queries exRoleBucket_def exContext_def)
  have "ls_target exRoleLease = DraftTarget ''b'' ''d2'' 1" "ls_childSessionId exRoleLease = ''child-c''"
    "getExecutionLease exRoleState exOwner ''child-c'' = Some exRoleLease"
    "getFamily exRoleState exOwner ''b'' = Some exOther" "fam_draft exOther = Some exOtherDraft"
    "d_fields exOtherDraft = exOtherFields"
    by (simp_all add: exRoleLease_def exLease_def getExecutionLease_bucketOf exRoleState_def queries exRoleBucket_def
        exOther_def exOtherDraft_def)
  with role_patch_under_lease[OF t run exResolved unused] obtain f' draft' where
    "getFamily t exOwner ''b'' = Some f'" "fam_draft f' = Some draft'" "d_fields draft' = applyPatch exOtherFields exRolePatch"
    by auto
  then show ?thesis using run by (auto simp: patch_values exOtherFields_def exFields0_def)
qed

section \<open>Finding\<close>

text \<open>The draft is published and a new revision is begun, while the session of the old draft runs on.\<close>

definition exOtherVersion :: PublishedAgentVersion where
  "exOtherVersion = \<lparr>v_specId = ''s2'', v_agentId = ''b'', v_version = 1, v_name = ''Other'', v_kind = KindAgent,
     v_description = [], v_pmBrief = [], v_instructions = [], v_toolRequirements = [], v_triggers = [],
     v_testChecklist = [], v_publishedAt = exTime ''08'', v_publishedBy = ''user-1''\<rparr>"

definition exNextDraft :: SavedAgentDraft where
  "exNextDraft = \<lparr>d_draftId = ''d3'', d_basedOnSpecId = Some ''s2'', d_basedOnVersion = Some 1,
     d_fields = exOtherFields, d_draftRevision = 1, d_createdAt = exTime ''10'', d_updatedAt = exTime ''10''\<rparr>"

definition exRevised :: SavedAgentFamily where
  "exRevised = exOther\<lparr>fam_lifecycle := Active, fam_activeSpecId := Some ''s2'', fam_activeVersion := Some 1,
     fam_draft := Some exNextDraft, fam_revision := 3\<rparr>"

definition exReplaceCalls :: "StoreCall list" where
  "exReplaceCalls =
     [Mutate (exBase ''op-publish'' ''08'') (PublishDraft \<lparr>pu_agentId = ''b'', pu_expectedRevision = 1,
        pu_expectedDraftRevision = 1, pu_specId = ''s2'', pu_publishedBy = ''user-1''\<rparr>),
      Mutate (exBase ''op-revise'' ''10'') (BeginRevision \<lparr>br_agentId = ''b'', br_expectedRevision = 2,
        br_draftId = ''d3'', br_basedOnSpecId = ''s2'', br_basedOnVersion = 1, br_fields = exOtherFields\<rparr>)]"

definition exReplaceLog :: "(string \<times> OperationRecord) list" where
  "exReplaceLog =
     [(''op-publish'', \<lparr>op_requestFingerprint = ''op-publish'', op_result = DraftPublished
        (exRevised\<lparr>fam_draft := None, fam_revision := 2, fam_updatedAt := exTime ''08''\<rparr>) exOtherVersion\<rparr>),
      (''op-revise'', \<lparr>op_requestFingerprint = ''op-revise'', op_result = RevisionBegun exRevised\<rparr>)]"

definition exReplaced :: Tenants where
  "exReplaced = exStore (exRoleBucket exRevised [exOtherVersion] {''d2'', ''d3''} exReplaceLog)"

lemma exReplaced_run: "runCalls exHost exRoleState exReplaceCalls = exReplaced"
  by (simp add: evaluation scenario states role_values exReplaceCalls_def exReplaced_def exReplaceLog_def exRevised_def
      exNextDraft_def exOtherVersion_def insert_commute)

text \<open>Finding. The lease of a published draft reaches its successor: a patch by a role compares the
  revision of the draft with the lease, not its identifier, and the revisions of a new draft start
  again at 1. In a reachable store, the running PM session for draft \<open>d2\<close> changes draft \<open>d3\<close>, which was
  begun after \<open>d2\<close> had been published.\<close>

theorem old_lease_patches_new_draft:
  "reachable exHost exReplaced \<and>
   getExecutionLease exReplaced exOwner ''child-c'' = Some exRoleLease \<and> ls_target exRoleLease = DraftTarget ''b'' ''d2'' 1 \<and>
   (\<exists>t f. runProgram (rolePatch exHost (exService ''10'') (exTime ''10'') BuildPm exRoleLease exContext (Some exRolePatch))
      exHost ([], exReplaced) = (([], t), Inr (DraftPatched f)) \<and> map_option d_draftId (fam_draft f) = Some ''d3'')"
proof -
  let ?f = "exRevised\<lparr>fam_draft := Some (exNextDraft\<lparr>d_fields := exOtherFields\<lparr>fld_description := ''x''\<rparr>,
      d_draftRevision := 2\<rparr>), fam_revision := 4\<rparr>"
  have "\<exists>t. runProgram (rolePatch exHost (exService ''10'') (exTime ''10'') BuildPm exRoleLease exContext
      (Some exRolePatch)) exHost ([], exReplaced) = (([], t), Inr (DraftPatched ?f))"
  proof (rule exRolePatch_run[where n = 3 and f = exRevised and draft = exNextDraft and versions = "[exOtherVersion]"
        and later = exReplaceLog and drafts = "{''d2'', ''d3''}"])
    show "\<exists>b'. apply_command exHost (exRoleBucket exRevised [exOtherVersion] {''d2'', ''d3''} exReplaceLog)
        (mutationBase p (exTime ''10'')) (PatchDraft (patchCommand exHost (exRoleInput 3) exRevised exNextDraft)) =
        Inr (b', DraftPatched ?f)" if "pm_owner p = exOwner" "pm_operationId p = ''op-patch''" for p
      using that
      by (simp add: patch_values evaluation scenario states role_values exRevised_def exNextDraft_def exOtherVersion_def
          exReplaceLog_def)
  qed (simp_all add: exReplaced_def queries exRevised_def exNextDraft_def exOther_def exReplaceLog_def)
  moreover have "reachable exHost exReplaced"
    using reachable_runCalls[OF exRoleState_reachable, of exReplaceCalls] by (simp add: exReplaced_run)
  moreover have "getExecutionLease exReplaced exOwner ''child-c'' = Some exRoleLease"
    "ls_target exRoleLease = DraftTarget ''b'' ''d2'' 1"
    by (simp_all add: getExecutionLease_bucketOf exReplaced_def queries exRoleBucket_def exRoleLease_def exLease_def)
  moreover have "map_option d_draftId (fam_draft ?f) = Some ''d3''" by (simp add: exNextDraft_def)
  ultimately show ?thesis by blast
qed

end
