(* ===== verification/Turns.thy ===== *)
theory Turns
  imports Coordinator Capabilities
begin

text \<open>
  A turn of a role session (\<open>packages/eve-agent-builder/extension/lib/runtime/\<close> and the hooks and the
  guarded model of \<open>lib/mounts/\<close>): who acts, the lease it acts under, the saved agent it serves, and
  the end of the turn, as programs over the store. The answers of the host (clock, owner resolver,
  capability registry) are arguments; the clock is asked up to three times per call.
\<close>

section \<open>Sessions and owners\<close>

record RuntimeChannel =
  ch_kind :: "string option"
  ch_metadata :: "(string \<times> JsonValue) list option"

record SessionParent =
  sp_sessionId :: string
  sp_turnId :: string
  sp_callId :: string

record SessionContext =
  sx_current :: "SessionAuthContext option"
  sx_initiator :: "SessionAuthContext option"
  sx_sessionId :: string
  sx_turnId :: string
  sx_parent :: "SessionParent option"

definition ownerInputFromSession :: "SessionContext \<Rightarrow> RuntimeChannel \<Rightarrow> OwnerResolutionInput" where
  "ownerInputFromSession ctx channel =
     \<lparr>or_current = sx_current ctx, or_initiator = sx_initiator ctx, or_channelKind = ch_kind channel,
      or_channelMetadata = ch_metadata channel\<rparr>"

definition ownersEqual :: "OwnerScope \<Rightarrow> OwnerScope \<Rightarrow> bool" where
  "ownersEqual left right \<longleftrightarrow> tenantKey left = tenantKey right \<and> ownerKey left = ownerKey right"

lemma ownersEqual_iff [simp]: "ownersEqual a b \<longleftrightarrow> a = b"
  by (simp add: ownersEqual_def flip: sameOwner_def)

text \<open>The context of a dynamic definition: the turn may be missing.\<close>

record DynamicContext =
  dx_current :: "SessionAuthContext option"
  dx_initiator :: "SessionAuthContext option"
  dx_sessionId :: string
  dx_turnId :: "string option"
  dx_channel :: RuntimeChannel

definition ownerInputFromDynamic :: "DynamicContext \<Rightarrow> OwnerResolutionInput" where
  "ownerInputFromDynamic ctx =
     \<lparr>or_current = dx_current ctx, or_initiator = dx_initiator ctx, or_channelKind = ch_kind (dx_channel ctx),
      or_channelMetadata = ch_metadata (dx_channel ctx)\<rparr>"

text \<open>What a tool, a hook or a dynamic definition throws.\<close>

datatype RunnerException =
    OwnerUnresolved AgentBuilderError
  | RunnerOwnerMismatch
  | EveTurnContextRequired
  | BootstrapRefused BootstrapError
  | PolicyRefused TestPolicyErrorCode
  | CapabilityUnprepared CapabilityPreparationError
  | CapabilitySchemaChanged
  | CapabilityNotSelected
  | CapabilitySchemaMissing
  | ClockThrew \<comment> \<open>the timestamp does not parse\<close>
  | HostThrew "string option" \<comment> \<open>a tool or policy of the host threw; the name when it is an \<open>Error\<close>\<close>

type_synonym 'a RunnerResult = "RunnerException + 'a"

text \<open>The runtime's view of the host during one call.\<close>

type_synonym CapabilityRegistry =
  "OwnerScope \<Rightarrow> string list \<Rightarrow> PlanMode \<Rightarrow> RunnerCapabilityResolution list option"

record RuntimeHost =
  rh_resolveOwner :: ResolveOwner
  rh_now :: "nat \<Rightarrow> string"
  rh_registry :: CapabilityRegistry

definition runtimeTimestamp :: "RuntimeHost \<Rightarrow> nat \<Rightarrow> Timestamp RunnerResult" where
  "runtimeTimestamp d k = (if timestampSchema (rh_now d k) then Inr (rh_now d k) else Inl ClockThrew)"

definition requiredTurnId :: "DynamicContext \<Rightarrow> string RunnerResult" where
  "requiredTurnId ctx =
     (case dx_turnId ctx of
        None \<Rightarrow> Inl EveTurnContextRequired
      | Some turnId \<Rightarrow> if turnId = [] then Inl EveTurnContextRequired else Inr turnId)"

definition resolveDynamicOwner :: "RuntimeHost \<Rightarrow> DynamicContext \<Rightarrow> OwnerScope RunnerResult" where
  "resolveDynamicOwner d ctx =
     (case resolveCurrentOwner (Some (ownerInputFromDynamic ctx)) (rh_resolveOwner d) of
        Inl e \<Rightarrow> Inl (OwnerUnresolved e) | Inr (ow, _) \<Rightarrow> Inr ow)"

text \<open>The operation identifier of a tool call.\<close>

definition scopedToolOperationId :: "texts \<Rightarrow> SessionContext \<Rightarrow> string \<Rightarrow> string option" where
  "scopedToolOperationId x ctx callId = fingerprintMutationRequest x (JObject
     [(''sessionId'', JString (sx_sessionId ctx)), (''turnId'', JString (sx_turnId ctx)),
      (''callId'', JString callId), (''schema'', JString ''eve-tool-operation-v1'')])"

section \<open>Preparing a turn\<close>

datatype SavedTarget = SavedDraft SavedAgentDraft | SavedVersion PublishedAgentVersion

fun savedRequirements :: "SavedTarget \<Rightarrow> SavedToolRequirement list" where
  "savedRequirements (SavedDraft d) = fld_toolRequirements (d_fields d)"
| "savedRequirements (SavedVersion v) = v_toolRequirements v"

record PreparedRunnerTurn =
  pt_owner :: OwnerScope
  pt_lease :: ExecutionLeaseRecord
  pt_saved :: SavedTarget
  pt_capabilities :: CapabilityPreparation

definition savedAt :: "Tenants \<Rightarrow> ExecutionLeaseRecord \<Rightarrow> SavedTarget option" where
  "savedAt t lease =
     (case ls_target lease of
        DraftTarget agentId draftId draftRevision \<Rightarrow>
          (case Option.bind (getFamily t (ls_owner lease) agentId) fam_draft of
             None \<Rightarrow> None
           | Some draft \<Rightarrow>
             if d_draftId draft = draftId \<and> d_draftRevision draft = draftRevision
             then Some (SavedDraft draft) else None)
      | PublishedTarget agentId specId specVersion \<Rightarrow>
          map_option SavedVersion (getVersion t (ls_owner lease) agentId specId specVersion))"

definition loadSaved :: "ExecutionLeaseRecord \<Rightarrow> SavedTarget option program" where
  "loadSaved lease = Query (\<lambda>t. Return (savedAt t lease))"

definition ofPreparation :: "CapabilityPreparationError \<Rightarrow> BootstrapError" where
  "ofPreparation e =
     (case e of
        RequiredCapabilityUnavailable c name reason \<Rightarrow> REQUIRED_CAPABILITY_UNAVAILABLE c name reason
      | CapabilityRegistryContractViolation \<Rightarrow> CAPABILITY_REGISTRY_CONTRACT_VIOLATION)"

definition beginTurn ::
  "RuntimeHost \<Rightarrow> OwnerScope \<Rightarrow> string \<Rightarrow> string \<Rightarrow> ExecutionCapabilityPlan \<Rightarrow>
   (ExecutionLeaseRecord BootstrapResult) RunnerResult program" where
  "beginTurn d ow childSessionId turnId plan =
     orReturn (runtimeTimestamp d 0) (\<lambda>now. andThen (beginExecution
       \<lparr>bl_owner = ow, bl_childSessionId = childSessionId, bl_executionTurnId = turnId, bl_occurredAt = now,
        bl_capabilityPlan = Some plan\<rparr>) (\<lambda>r. Return (Inr r)))"

text \<open>
  \<open>inspectRunnerTurn\<close>. The result of a turn is kept in a map under the owner, session and turn; \<open>cached\<close>
  is the entry of this turn. Every path that does not throw leaves its result as the entry.
\<close>

definition inspectRunnerTurn ::
  "RuntimeHost \<Rightarrow> ExecutionRole \<Rightarrow> PlanMode \<Rightarrow> DynamicContext \<Rightarrow> bool \<Rightarrow> PreparedRunnerTurn BootstrapResult option \<Rightarrow>
   (PreparedRunnerTurn BootstrapResult) RunnerResult program" where
  "inspectRunnerTurn d role mode ctx begin cached =
     orReturn (resolveDynamicOwner d ctx) (\<lambda>ow.
     orReturn (requiredTurnId ctx) (\<lambda>turnId.
       case cached of
         Some (Inl e) \<Rightarrow> Return (Inr (Inl e))
       | Some (Inr turn) \<Rightarrow>
           if \<not> begin \<or> ls_status (pt_lease turn) = LeaseRunning then Return (Inr (Inr turn))
           else andThenOk (beginTurn d ow (dx_sessionId ctx) turnId (prep_plan (pt_capabilities turn))) (\<lambda>claimed.
             Return (Inr (map_sum id (\<lambda>lease. turn\<lparr>pt_lease := lease\<rparr>) claimed)))
       | None \<Rightarrow>
         andThen (getLease ow (dx_sessionId ctx)) (\<lambda>leaseResult.
           case leaseResult of
             Inl e \<Rightarrow> Return (Inr (Inl e))
           | Inr lease \<Rightarrow>
             if ls_role lease \<noteq> role then Return (Inr (Inl (BootstrapStore BOOTSTRAP_BINDING_MISMATCH)))
             else if ls_bootstrapTurnId lease = turnId then Return (Inr (Inl (BootstrapStore LEASE_NOT_READY)))
             else andThen (loadSaved lease) (\<lambda>saved.
               case saved of
                 None \<Rightarrow> Return (Inr (Inl (BootstrapStore TARGET_CHANGED)))
               | Some s \<Rightarrow>
                 (case prepareCapabilities (rh_registry d) ow
                     (if role = ExTestRunner \<or> role = ExActiveRunner then savedRequirements s else []) mode of
                    Inl e \<Rightarrow> Return (Inr (Inl (ofPreparation e)))
                  | Inr prepared \<Rightarrow>
                    andThenOk (if begin then beginTurn d ow (dx_sessionId ctx) turnId (prep_plan prepared)
                        else Return (Inr leaseResult)) (\<lambda>claimed.
                      Return (Inr (map_sum id (\<lambda>l. \<lparr>pt_owner = ow, pt_lease = l, pt_saved = s,
                        pt_capabilities = prepared\<rparr>) claimed))))))))"

definition cachedRunnerTurn ::
  "RuntimeHost \<Rightarrow> ExecutionRole \<Rightarrow> PlanMode \<Rightarrow> DynamicContext \<Rightarrow> PreparedRunnerTurn BootstrapResult option \<Rightarrow>
   (PreparedRunnerTurn BootstrapResult) RunnerResult program" where
  "cachedRunnerTurn d role mode ctx cached =
     orReturn (resolveDynamicOwner d ctx) (\<lambda>_.
     orReturn (requiredTurnId ctx) (\<lambda>_.
       case cached of
         None \<Rightarrow> inspectRunnerTurn d role mode ctx False None
       | Some r \<Rightarrow> Return (Inr r)))"

section \<open>The guarded model\<close>

datatype MessagePart = TextPart string | OtherPart

datatype MessageContent = TextContent string | PartsContent "MessagePart list" | OtherContent

fun messageText :: "MessageContent \<Rightarrow> string" where
  "messageText (TextContent s) = s"
| "messageText (PartsContent ps) = concat (map (\<lambda>p. case p of TextPart s \<Rightarrow> s | OtherPart \<Rightarrow> []) ps)"
| "messageText OtherContent = []"

text \<open>A message: its role and its content.\<close>

definition latestUserMessage :: "(string \<times> MessageContent) list \<Rightarrow> string" where
  "latestUserMessage messages =
     (case List.find (\<lambda>m. fst m = ''user'') (rev messages) of None \<Rightarrow> [] | Some m \<Rightarrow> messageText (snd m))"

text \<open>Choosing the model of a role agent admits its turn. The selection itself is the host's value: here
  \<open>()\<close>.\<close>

definition guardedModel ::
  "RuntimeHost \<Rightarrow> ExecutionRole \<Rightarrow> PlanMode \<Rightarrow> DynamicContext \<Rightarrow> (string \<times> MessageContent) list \<Rightarrow>
   PreparedRunnerTurn BootstrapResult option \<Rightarrow> unit RunnerResult program" where
  "guardedModel d role mode ctx messages cached =
     orReturn (resolveDynamicOwner d ctx) (\<lambda>ow. Query (\<lambda>t.
       case getExecutionLease t ow (dx_sessionId ctx) of
         None \<Rightarrow>
           if parseBootstrapMessage (latestUserMessage messages) = None
           then Return (Inl (BootstrapRefused BOOTSTRAP_REQUIRED))
           else Return (Inr ())
       | Some lease \<Rightarrow>
         orReturn (requiredTurnId ctx) (\<lambda>turnId.
           if ls_role lease \<noteq> role then Return (Inl (BootstrapRefused (BootstrapStore BOOTSTRAP_BINDING_MISMATCH)))
           else if ls_bootstrapTurnId lease = turnId \<and> ls_status lease = LeaseReady then Return (Inr ())
           else andThenOk (inspectRunnerTurn d role mode ctx True cached) (\<lambda>prepared. Return
             (case prepared of Inl e \<Rightarrow> Inl (BootstrapRefused e) | Inr _ \<Rightarrow> Inr ())))))"

section \<open>The end of a turn\<close>

datatype TurnOutcome = TurnCompleted | TurnFailed | TurnCancelled

fun outcomeStatus :: "TurnOutcome \<Rightarrow> CloseStatus" where
  "outcomeStatus TurnCompleted = CloseSucceeded"
| "outcomeStatus TurnFailed = CloseFailed"
| "outcomeStatus TurnCancelled = CloseCancelled"

fun outcomeCode :: "TurnOutcome \<Rightarrow> string" where
  "outcomeCode TurnCompleted = ''TURN_COMPLETED''"
| "outcomeCode TurnFailed = ''TURN_FAILED''"
| "outcomeCode TurnCancelled = ''TURN_CANCELLED''"

definition terminalTurnMatches :: "string \<Rightarrow> TurnOutcome \<Rightarrow> ExecutionLeaseRecord \<Rightarrow> bool" where
  "terminalTurnMatches turnId outcome lease \<longleftrightarrow>
     (if ls_status lease = LeaseRunning then ls_executionTurnId lease = Some turnId
      else ls_status lease = LeaseReady \<and> (ls_bootstrapTurnId lease \<noteq> turnId \<or> outcomeStatus outcome \<noteq> CloseSucceeded))"

text \<open>The hook of a role session on \<open>turn.settled\<close>. It also drops the entry of the turn.\<close>

definition leaseHook ::
  "RuntimeHost \<Rightarrow> ExecutionRole \<Rightarrow> SessionContext \<Rightarrow> RuntimeChannel \<Rightarrow> TurnOutcome \<Rightarrow> unit RunnerResult program" where
  "leaseHook d role ctx channel outcome =
     (case resolveCurrentOwner (Some (ownerInputFromSession ctx channel)) (rh_resolveOwner d) of
        Inl _ \<Rightarrow> Return (Inr ())
      | Inr (ow, _) \<Rightarrow> Query (\<lambda>t.
          case getExecutionLease t ow (sx_sessionId ctx) of
            None \<Rightarrow> Return (Inr ())
          | Some lease \<Rightarrow>
            if ls_role lease \<noteq> role \<or> \<not> terminalTurnMatches (sx_turnId ctx) outcome lease then Return (Inr ())
            else
              orReturn (runtimeTimestamp d 0) (\<lambda>now. andThen (closeExecution
                \<lparr>cl_owner = ow, cl_childSessionId = sx_sessionId ctx, cl_executionTurnId = sx_turnId ctx,
                 cl_status = outcomeStatus outcome, cl_occurredAt = now, cl_terminalCode = Some (outcomeCode outcome)\<rparr>)
                (\<lambda>r. Return (case r of Inl e \<Rightarrow> Inl (BootstrapRefused e) | Inr _ \<Rightarrow> Inr ())))))"

fun parentOutcomeStatus :: "TurnOutcome \<Rightarrow> ParentCloseStatus" where
  "parentOutcomeStatus TurnFailed = ParentFailed"
| "parentOutcomeStatus _ = ParentCancelled"

fun parentOutcomeCode :: "TurnOutcome \<Rightarrow> string" where
  "parentOutcomeCode TurnFailed = ''PARENT_TURN_FAILED''"
| "parentOutcomeCode TurnCancelled = ''PARENT_TURN_CANCELLED''"
| "parentOutcomeCode TurnCompleted = ''PARENT_TURN_COMPLETED_WITHOUT_EXECUTION''"

text \<open>The hook of the root session on \<open>turn.settled\<close>.\<close>

definition rootHook ::
  "RuntimeHost \<Rightarrow> SessionContext \<Rightarrow> RuntimeChannel \<Rightarrow> TurnOutcome \<Rightarrow> unit RunnerResult program" where
  "rootHook d ctx channel outcome =
     (case resolveCurrentOwner (Some (ownerInputFromSession ctx channel)) (rh_resolveOwner d) of
        Inl _ \<Rightarrow> Return (Inr ())
      | Inr (ow, _) \<Rightarrow>
          orReturn (runtimeTimestamp d 0) (\<lambda>now. andThen (closeParentTurn
            \<lparr>cp_owner = ow, cp_parentSessionId = sx_sessionId ctx, cp_parentTurnId = sx_turnId ctx,
             cp_status = parentOutcomeStatus outcome, cp_occurredAt = now, cp_terminalCode = parentOutcomeCode outcome\<rparr>)
            (\<lambda>r. Return (case r of Inl e \<Rightarrow> Inl (BootstrapRefused e) | Inr _ \<Rightarrow> Inr ()))))"

section \<open>The user's words of a turn\<close>

text \<open>\<open>user-input.ts\<close>: the module's map, from the joined key to the message.\<close>

definition inputKey :: "string \<Rightarrow> string \<Rightarrow> string" where
  "inputKey sessionId turnId = sessionId @ '':'' @ turnId"

definition rememberUserInput :: "(string \<rightharpoonup> string) \<Rightarrow> string \<Rightarrow> string \<Rightarrow> string \<Rightarrow> string \<rightharpoonup> string" where
  "rememberUserInput m sessionId turnId message =
     (if startsWith message ''<task_result '' \<or> startsWith message ''[Tasks]'' then m
      else m(inputKey sessionId turnId \<mapsto> message))"

definition currentUserInput :: "(string \<rightharpoonup> string) \<Rightarrow> string \<Rightarrow> string \<Rightarrow> string option" where
  "currentUserInput m sessionId turnId = m (inputKey sessionId turnId)"

definition forgetUserInput :: "(string \<rightharpoonup> string) \<Rightarrow> string \<Rightarrow> string \<Rightarrow> string \<rightharpoonup> string" where
  "forgetUserInput m sessionId turnId = m(inputKey sessionId turnId := None)"

end
