(* ===== verification/Runner.thy ===== *)
theory Runner
  imports Turns
begin

text \<open>
  The capability tools of a runner session
  (\<open>packages/eve-agent-builder/extension/lib/mounts/runner-tools.ts\<close>) and the approval policy of a
  consequential test step (\<open>lib/test-policy.ts\<close>). A tool of the host is only called through these
  definitions: its approval is composed with the builder's own, and its execution is claimed in the
  store before it runs and recorded afterwards.
\<close>

section \<open>The exact step\<close>

text \<open>The canonical text of a step: as for requests, but the members of an object are sorted by
  \<open>localeCompare\<close>, given by the sort key of the host's collation.\<close>

record stepTexts =
  stt_texts :: texts
  stt_collate :: "string \<Rightarrow> nat list"

function canonicalStep :: "stepTexts \<Rightarrow> JsonValue \<Rightarrow> string" where
  "canonicalStep x JNull = ''null''"
| "canonicalStep x (JBool b) = jsonText (otherNumberText (stt_texts x)) (JBool b)"
| "canonicalStep x (JNumber q) = numberText (otherNumberText (stt_texts x)) q"
| "canonicalStep x (JString s) = jsonString s"
| "canonicalStep x (JArray vs) = ''['' @ joinComma (map (canonicalStep x) vs) @ '']''"
| "canonicalStep x (JObject kvs) =
     ''{'' @ joinComma (map (\<lambda>kv. jsonString (fst kv) @ '':'' @ canonicalStep x (snd kv))
                         (sort_key (\<lambda>kv. stt_collate x (fst kv)) kvs)) @ ''}''"
  by pat_completeness auto

termination
proof (relation "measure (\<lambda>(x, v). jsonNodes v)")
  fix x :: stepTexts and vs :: "JsonValue list" and v
  assume "v \<in> set vs"
  then show "((x, v), (x, JArray vs)) \<in> measure (\<lambda>(x, v). jsonNodes v)"
    by (simp add: member_le_sum_list le_imp_less_Suc)
next
  fix x :: stepTexts and kvs :: "(string \<times> JsonValue) list" and kv
  assume "kv \<in> set (sort_key (\<lambda>kv. stt_collate x (fst kv)) kvs)"
  then have "jsonNodes (snd kv) \<le> sum_list (map (\<lambda>kv. jsonNodes (snd kv)) kvs)"
    by (auto intro!: member_le_sum_list)
  then show "((x, snd kv), (x, JObject kvs)) \<in> measure (\<lambda>(x, v). jsonNodes v)"
    by (simp add: le_imp_less_Suc)
qed simp

definition fingerprintTestStep :: "stepTexts \<Rightarrow> JsonValue \<Rightarrow> string" where
  "fingerprintTestStep x v = ''sha256:'' @ sha256Text (stt_texts x) (canonicalStep x v)"

record DurableCapabilityReference =
  dr_descriptor :: RunnerCapabilityDescriptor
  dr_modelToolName :: string
  dr_mode :: PlanMode
  dr_consequential :: bool

text \<open>A call of a tool: the session that makes it, its call id, the tool's name, and its input.\<close>

record ToolCall =
  to_session :: SessionContext
  to_callId :: string
  to_toolName :: string
  to_toolInput :: JsonValue

definition planSelects :: "DurableCapabilityReference \<Rightarrow> ExecutionCapabilityPlanEntry \<Rightarrow> bool" where
  "planSelects reference e \<longleftrightarrow>
     pe_capabilityId e = cd_capabilityId (dr_descriptor reference) \<and> pe_modelToolName e = dr_modelToolName reference \<and>
     pe_schemaFingerprint e = cd_schemaFingerprint (dr_descriptor reference)"

definition stepIdentityJson :: "TestCapabilityStepScope \<Rightarrow> JsonValue \<Rightarrow> JsonValue" where
  "stepIdentityJson s toolInput = JObject
     [(''owner'', JObject [(''tenantKey'', JString (tenantKey (st_owner s))), (''ownerKey'', JString (ownerKey (st_owner s)))]),
      (''workflowId'', JString (st_workflowId s)), (''workflowRevision'', intJson (st_workflowRevision s)),
      (''testRunId'', JString (st_testRunId s)), (''agentId'', JString (st_agentId s)),
      (''draftId'', JString (st_draftId s)), (''draftRevision'', intJson (st_draftRevision s)),
      (''leaseId'', JString (st_leaseId s)), (''childSessionId'', JString (st_childSessionId s)),
      (''executionTurnId'', JString (st_executionTurnId s)), (''capabilityId'', JString (st_capabilityId s)),
      (''schemaFingerprint'', JString (st_schemaFingerprint s)), (''modelToolName'', JString (st_modelToolName s)),
      (''callId'', JString (st_callId s)), (''toolInput'', toolInput)]"

text \<open>\<open>testStep\<close>: the step with an empty fingerprint serves to compute its fingerprint.\<close>

definition testStep ::
  "stepTexts \<Rightarrow> ExecutionLeaseRecord \<Rightarrow> DurableCapabilityReference \<Rightarrow> OwnerScope \<Rightarrow> ToolCall \<Rightarrow>
   TestCapabilityStepScope TestPolicyResult" where
  "testStep x lease reference ow call =
     (case (ls_target lease, ls_workflow lease) of
        (DraftTarget agentId draftId draftRevision, Some w) \<Rightarrow>
          (case sc_testRunId w of
             None \<Rightarrow> Inl TP_WORKFLOW_CHANGED
           | Some testRunId \<Rightarrow>
             if ls_role lease \<noteq> ExTestRunner \<or> ls_executionTurnId lease \<noteq> Some (sx_turnId (to_session call))
             then Inl TP_WORKFLOW_CHANGED
             else
               (case ls_capabilityPlan lease of
                  None \<Rightarrow> Inl TP_CAPABILITY_NOT_SELECTED
                | Some plan \<Rightarrow>
                  if \<not> list_ex (planSelects reference) (plan_selected plan) \<or> plan_mode plan \<noteq> ModeTest
                  then Inl TP_CAPABILITY_NOT_SELECTED
                  else
                    let s = \<lparr>st_owner = ow, st_workflowId = sc_workflowId w, st_workflowRevision = sc_workflowRevision w,
                          st_testRunId = testRunId, st_agentId = agentId, st_draftId = draftId,
                          st_draftRevision = draftRevision, st_leaseId = ls_leaseId lease,
                          st_childSessionId = sx_sessionId (to_session call),
                          st_executionTurnId = sx_turnId (to_session call),
                          st_capabilityId = cd_capabilityId (dr_descriptor reference),
                          st_schemaFingerprint = cd_schemaFingerprint (dr_descriptor reference),
                          st_modelToolName = to_toolName call, st_callId = to_callId call,
                          st_stepFingerprint = [], st_expiresAt = ls_expiresAt lease\<rparr>
                    in Inr (s\<lparr>st_stepFingerprint := fingerprintTestStep x (stepIdentityJson s (to_toolInput call))\<rparr>)))
      | _ \<Rightarrow> Inl TP_WORKFLOW_CHANGED)"

section \<open>Resolving a capability again\<close>

definition referenceRequirement :: "DurableCapabilityReference \<Rightarrow> SavedToolRequirement" where
  "referenceRequirement reference =
     \<lparr>req_capabilityId = cd_capabilityId (dr_descriptor reference), req_level = Required,
      req_displayNameSnapshot = cd_displayName (dr_descriptor reference),
      req_schemaFingerprint = cd_schemaFingerprint (dr_descriptor reference),
      req_consequential = dr_consequential reference\<rparr>"

definition resolveDurableCapability ::
  "RuntimeHost \<Rightarrow> OwnerScope \<Rightarrow> DurableCapabilityReference \<Rightarrow> ResolvedRunnerCapability RunnerResult" where
  "resolveDurableCapability d ow reference =
     (case prepareCapabilities (rh_registry d) ow [referenceRequirement reference] (dr_mode reference) of
        Inl e \<Rightarrow> Inl (CapabilityUnprepared e)
      | Inr prepared \<Rightarrow>
        (case (prep_resolved prepared, plan_selected (prep_plan prepared)) of
           ([capability], [selected]) \<Rightarrow>
             if cd_capabilityId (rc_descriptor capability) \<noteq> cd_capabilityId (dr_descriptor reference) \<or>
                cd_schemaFingerprint (rc_descriptor capability) \<noteq> cd_schemaFingerprint (dr_descriptor reference) \<or>
                rc_modelToolName capability \<noteq> dr_modelToolName reference \<or>
                pe_modelToolName selected \<noteq> dr_modelToolName reference \<or>
                pe_schemaFingerprint selected \<noteq> cd_schemaFingerprint (dr_descriptor reference)
             then Inl CapabilitySchemaChanged else Inr capability
         | _ \<Rightarrow> Inl CapabilitySchemaChanged))"

section \<open>Approvals\<close>

text \<open>An approval status: the denials and the two statuses the builder itself answers, or any other
  status of the host. A decision on a response is an admission or a refusal with its reason.\<close>

datatype 's ApprovalStatus =
    DeniedFlag | DeniedText | DeniedObject "string option" | UserApproval | NotApplicable | HostStatus 's

datatype ResponseDecision = ResponseAllowed | ResponseRejected string

fun approvalDenied :: "'s ApprovalStatus option \<Rightarrow> bool" where
  "approvalDenied (Some DeniedFlag) = True"
| "approvalDenied (Some DeniedText) = True"
| "approvalDenied (Some (DeniedObject _)) = True"
| "approvalDenied _ = False"

text \<open>The policy of the host for verified inputs, and what the tool's own approval answers in this call
  (\<open>None\<close>: it has none; \<open>Inl\<close>: it throws).\<close>

datatype TestInputAvailability = InputAvailable | InputNotAvailable string

record VerifiedTestInputPolicy =
  ip_availability :: "TestCapabilityStepScope \<Rightarrow> TestInputAvailability RunnerResult"
  ip_authorizeResponse :: "(TestCapabilityStepScope \<Rightarrow> ResponseDecision RunnerResult) option"

definition hostAnswer :: "'a RunnerResult option \<Rightarrow> 'a option RunnerResult" where
  "hostAnswer a = (case a of None \<Rightarrow> Inr None | Some r \<Rightarrow> map_sum id Some r)"

definition policyCode :: "TestPolicyErrorCode \<Rightarrow> string" where
  "policyCode e =
     (case e of
        TP_INPUT_REQUIRED \<Rightarrow> ''INPUT_REQUIRED'' | TP_INPUT_UNAVAILABLE \<Rightarrow> ''INPUT_UNAVAILABLE''
      | TP_INPUT_DENIED \<Rightarrow> ''INPUT_DENIED'' | TP_INPUT_CANCELLED \<Rightarrow> ''INPUT_CANCELLED''
      | TP_INPUT_TIMEOUT \<Rightarrow> ''INPUT_TIMEOUT'' | TP_INPUT_STALE \<Rightarrow> ''INPUT_STALE''
      | TP_INPUT_MALFORMED \<Rightarrow> ''INPUT_MALFORMED'' | TP_INPUT_AMBIGUOUS \<Rightarrow> ''INPUT_AMBIGUOUS''
      | TP_UNATTENDED_INPUT_FORBIDDEN \<Rightarrow> ''UNATTENDED_INPUT_FORBIDDEN''
      | TP_OWNER_MISMATCH \<Rightarrow> ''OWNER_MISMATCH'' | TP_BOOTSTRAP_REQUIRED \<Rightarrow> ''BOOTSTRAP_REQUIRED''
      | TP_LEASE_CLOSED \<Rightarrow> ''LEASE_CLOSED'' | TP_LEASE_EXPIRED \<Rightarrow> ''LEASE_EXPIRED''
      | TP_TARGET_CHANGED \<Rightarrow> ''TARGET_CHANGED'' | TP_WORKFLOW_CHANGED \<Rightarrow> ''WORKFLOW_CHANGED''
      | TP_CAPABILITY_NOT_SELECTED \<Rightarrow> ''CAPABILITY_NOT_SELECTED''
      | TP_CAPABILITY_SCHEMA_CHANGED \<Rightarrow> ''CAPABILITY_SCHEMA_CHANGED''
      | TP_INPUT_REPLAYED \<Rightarrow> ''INPUT_REPLAYED'' | TP_TEST_STEP_REPLAYED \<Rightarrow> ''TEST_STEP_REPLAYED''
      | TP_TEST_POLICY_STORE_INVARIANT_VIOLATION \<Rightarrow> ''TEST_POLICY_STORE_INVARIANT_VIOLATION'')"

text \<open>\<open>composeConsequentialTestApproval\<close>, its two functions.\<close>

definition inputAvailability :: "VerifiedTestInputPolicy option \<Rightarrow> TestCapabilityStepScope \<Rightarrow> 's ApprovalStatus" where
  "inputAvailability inputPolicy step =
     (case inputPolicy of
        None \<Rightarrow> DeniedObject (Some ''INPUT_UNAVAILABLE'')
      | Some p \<Rightarrow>
        (case ip_availability p step of
           Inl _ \<Rightarrow> DeniedObject (Some ''INPUT_UNAVAILABLE'')
         | Inr InputAvailable \<Rightarrow> UserApproval
         | Inr (InputNotAvailable code) \<Rightarrow> DeniedObject (Some code)))"

definition composedRequest ::
  "'s ApprovalStatus RunnerResult option \<Rightarrow> TestCapabilityStepScope TestPolicyResult \<Rightarrow>
   VerifiedTestInputPolicy option \<Rightarrow> 's ApprovalStatus RunnerResult" where
  "composedRequest hostRequest getStep inputPolicy =
     (case hostAnswer hostRequest of
        Inl e \<Rightarrow> Inl e
      | Inr original \<Rightarrow>
        if approvalDenied original then Inr (the original)
        else
          (case getStep of
             Inl e \<Rightarrow> Inr (DeniedObject (Some (policyCode e)))
           | Inr step \<Rightarrow> Inr (inputAvailability inputPolicy step)))"

definition policyResponse ::
  "VerifiedTestInputPolicy option \<Rightarrow> TestCapabilityStepScope \<Rightarrow> ResponseDecision RunnerResult" where
  "policyResponse inputPolicy step =
     (case Option.bind inputPolicy ip_authorizeResponse of
        None \<Rightarrow> Inr ResponseAllowed
      | Some f \<Rightarrow> f step)"

definition composedResponse ::
  "ResponseDecision RunnerResult option \<Rightarrow> TestCapabilityStepScope TestPolicyResult \<Rightarrow>
   VerifiedTestInputPolicy option \<Rightarrow>
   (TestCapabilityStepScope \<Rightarrow> TestInputGrantRecord TestPolicyResult RunnerResult program) \<Rightarrow>
   ResponseDecision RunnerResult program" where
  "composedResponse hostResponse getResponseStep inputPolicy authorize =
     orReturn (hostAnswer hostResponse) (\<lambda>original.
       case original of
         Some (ResponseRejected reason) \<Rightarrow> Return (Inr (ResponseRejected reason))
       | _ \<Rightarrow>
         (case getResponseStep of
            Inl e \<Rightarrow> Return (Inr (ResponseRejected (policyCode e)))
          | Inr step \<Rightarrow>
            orReturn (policyResponse inputPolicy step) (\<lambda>decision.
              case decision of
                ResponseRejected reason \<Rightarrow> Return (Inr (ResponseRejected reason))
              | ResponseAllowed \<Rightarrow> andThenOk (authorize step) (\<lambda>authorized. Return (Inr
                  (case authorized of Inl e \<Rightarrow> ResponseRejected (policyCode e) | Inr _ \<Rightarrow> ResponseAllowed))))))"

text \<open>The approvals of a lowered tool. \<open>hostRequest\<close> and \<open>hostResponse\<close> belong to the tool that is resolved
  in this call.\<close>

definition requestDurableCapabilityApproval ::
  "RuntimeHost \<Rightarrow> stepTexts \<Rightarrow> VerifiedTestInputPolicy option \<Rightarrow> 's ApprovalStatus RunnerResult option \<Rightarrow>
   DurableCapabilityReference \<Rightarrow> ExecutionLeaseRecord \<Rightarrow> ExecutionRole \<Rightarrow> RuntimeChannel \<Rightarrow> ToolCall \<Rightarrow>
   's ApprovalStatus RunnerResult" where
  "requestDurableCapabilityApproval d x inputPolicy hostRequest reference lease role channel call =
     (case resolveCurrentOwner (Some (ownerInputFromSession (to_session call) channel)) (rh_resolveOwner d) of
        Inl _ \<Rightarrow> Inr (DeniedObject (Some ''OWNER_MISMATCH''))
      | Inr (ow, _) \<Rightarrow>
        if \<not> ownersEqual ow (ls_owner lease) then Inr (DeniedObject (Some ''OWNER_MISMATCH''))
        else
          (case resolveDurableCapability d ow reference of
             Inl e \<Rightarrow> Inl e
           | Inr capability \<Rightarrow>
             (case hostAnswer hostRequest of
                Inl e \<Rightarrow> Inl e
              | Inr original \<Rightarrow>
                if approvalDenied original then Inr (the original)
                else if role \<noteq> ExTestRunner \<or> \<not> dr_consequential reference
                then Inr (getOr original NotApplicable)
                else
                  (case testStep x lease reference ow call of
                     Inl e \<Rightarrow> Inr (DeniedObject (Some (policyCode e)))
                   | Inr step \<Rightarrow>
                     (case inputPolicy of
                        None \<Rightarrow> Inr (DeniedObject (Some ''INPUT_UNAVAILABLE''))
                      | Some p \<Rightarrow>
                        (case ip_availability p step of
                           Inl _ \<Rightarrow> Inr (DeniedObject (Some ''INPUT_UNAVAILABLE''))
                         | Inr InputAvailable \<Rightarrow> Inr UserApproval
                         | Inr (InputNotAvailable code) \<Rightarrow> Inr (DeniedObject (Some code))))))))"

text \<open>The response of a user: who responds, to which interaction and call.\<close>

record ApprovalResponse =
  re_principal :: SessionAuthContext
  re_interactionId :: string

definition respondDurableCapabilityApproval ::
  "RuntimeHost \<Rightarrow> stepTexts \<Rightarrow> VerifiedTestInputPolicy option \<Rightarrow> ResponseDecision RunnerResult option \<Rightarrow>
   DurableCapabilityReference \<Rightarrow> ExecutionLeaseRecord \<Rightarrow> ExecutionRole \<Rightarrow> RuntimeChannel \<Rightarrow> ToolCall \<Rightarrow> ApprovalResponse \<Rightarrow>
   ResponseDecision RunnerResult program" where
  "respondDurableCapabilityApproval d x inputPolicy hostResponse reference lease role channel call response =
     (case resolveCurrentOwner (Some ((ownerInputFromSession (to_session call) channel)
            \<lparr>or_current := Some (re_principal response)\<rparr>)) (rh_resolveOwner d) of
        Inl _ \<Rightarrow> Return (Inr (ResponseRejected ''OWNER_MISMATCH''))
      | Inr (ow, _) \<Rightarrow>
        if \<not> ownersEqual ow (ls_owner lease) then Return (Inr (ResponseRejected ''OWNER_MISMATCH''))
        else
          orReturn (resolveDurableCapability d ow reference) (\<lambda>capability.
          orReturn (hostAnswer hostResponse) (\<lambda>original.
            case original of
              Some (ResponseRejected reason) \<Rightarrow> Return (Inr (ResponseRejected reason))
            | _ \<Rightarrow>
              if role \<noteq> ExTestRunner \<or> \<not> dr_consequential reference then Return (Inr ResponseAllowed)
              else
                (case testStep x lease reference ow call of
                   Inl e \<Rightarrow> Return (Inr (ResponseRejected (policyCode e)))
                 | Inr step \<Rightarrow>
                   orReturn (policyResponse inputPolicy step) (\<lambda>decision.
                     case decision of
                       ResponseRejected reason \<Rightarrow> Return (Inr (ResponseRejected reason))
                     | ResponseAllowed \<Rightarrow>
                       orReturn (runtimeTimestamp d 0) (\<lambda>now. DoAuthorizeInput
                         \<lparr>au_step = step, au_requestId = re_interactionId response,
                          au_principalId = sa_principalId (re_principal response),
                          au_principalType = sa_principalType (re_principal response), au_occurredAt = now\<rparr>
                         (\<lambda>authorized. Return (Inr (case authorized of
                            Inl e \<Rightarrow> ResponseRejected (policyCode e) | Inr _ \<Rightarrow> ResponseAllowed)))))))))"

section \<open>Executing a capability\<close>

definition executeOwner ::
  "RuntimeHost \<Rightarrow> SessionContext \<Rightarrow> ExecutionLeaseRecord \<Rightarrow> RuntimeChannel \<Rightarrow> OwnerScope RunnerResult" where
  "executeOwner d ctx lease channel =
     (case resolveCurrentOwner (Some (ownerInputFromSession ctx channel)) (rh_resolveOwner d) of
        Inl e \<Rightarrow> Inl (OwnerUnresolved e)
      | Inr (ow, _) \<Rightarrow> if \<not> ownersEqual ow (ls_owner lease) then Inl RunnerOwnerMismatch else Inr ow)"

text \<open>The stored lease still admits the call.\<close>

definition leaseAdmits ::
  "ExecutionLeaseRecord \<Rightarrow> DurableCapabilityReference \<Rightarrow> SessionContext \<Rightarrow> ExecutionLeaseRecord \<Rightarrow> bool" where
  "leaseAdmits lease reference ctx authoritative \<longleftrightarrow>
     ls_leaseId authoritative = ls_leaseId lease \<and> ls_status authoritative = LeaseRunning \<and>
     ls_executionTurnId authoritative = Some (sx_turnId ctx) \<and>
     bootstrapTargetsEqual (ls_target authoritative) (ls_target lease) \<and>
     (case ls_capabilityPlan authoritative of
        None \<Rightarrow> False | Some plan \<Rightarrow> list_ex (planSelects reference) (plan_selected plan))"

definition planConsequential :: "ExecutionLeaseRecord \<Rightarrow> DurableCapabilityReference \<Rightarrow> bool" where
  "planConsequential lease reference =
     (case Option.bind (ls_capabilityPlan lease)
         (\<lambda>plan. List.find (\<lambda>e. pe_capabilityId e = cd_capabilityId (dr_descriptor reference)) (plan_selected plan)) of
        None \<Rightarrow> True | Some e \<Rightarrow> pe_consequential e)"

definition expiredClose :: "OwnerScope \<Rightarrow> SessionContext \<Rightarrow> Timestamp \<Rightarrow> CloseExecutionLeaseStoreCommand" where
  "expiredClose ow ctx now =
     \<lparr>cl_owner = ow, cl_childSessionId = sx_sessionId ctx, cl_executionTurnId = sx_turnId ctx,
      cl_status = CloseFailed, cl_occurredAt = now, cl_terminalCode = Some ''LEASE_EXPIRED''\<rparr>"

text \<open>The step of a test run, started in the store; no step outside of a test run.\<close>

definition startStep ::
  "stepTexts \<Rightarrow> DurableCapabilityReference \<Rightarrow> ExecutionLeaseRecord \<Rightarrow> ExecutionRole \<Rightarrow> OwnerScope \<Rightarrow> ToolCall \<Rightarrow> Timestamp \<Rightarrow>
   TestCapabilityStepScope option RunnerResult program" where
  "startStep x reference authoritative role ow call now =
     (if role \<noteq> ExTestRunner then Return (Inr None)
      else
        orReturn (map_sum PolicyRefused id
            (testStep x authoritative reference ow (call\<lparr>to_toolName := dr_modelToolName reference\<rparr>))) (\<lambda>step.
          DoBeginTest \<lparr>be_step = step, be_consequential = planConsequential authoritative reference, be_occurredAt = now\<rparr>
            (\<lambda>started. Return (case started of Inl e \<Rightarrow> Inl (PolicyRefused e) | Inr _ \<Rightarrow> Inr (Some step)))))"

text \<open>\<open>executeDurableCapability\<close> up to the call of the tool.\<close>

definition claimExecution ::
  "RuntimeHost \<Rightarrow> stepTexts \<Rightarrow> DurableCapabilityReference \<Rightarrow> ExecutionLeaseRecord \<Rightarrow> ExecutionRole \<Rightarrow> RuntimeChannel \<Rightarrow>
   ToolCall \<Rightarrow> (TestCapabilityStepScope option \<times> ResolvedRunnerCapability) RunnerResult program" where
  "claimExecution d x reference lease role channel call =
     orReturn (executeOwner d (to_session call) lease channel) (\<lambda>ow. Query (\<lambda>t.
       case getExecutionLease t ow (sx_sessionId (to_session call)) of
         None \<Rightarrow> Return (Inl (BootstrapRefused (BootstrapStore LEASE_CLOSED)))
       | Some authoritative \<Rightarrow>
         if \<not> leaseAdmits lease reference (to_session call) authoritative
         then Return (Inl (BootstrapRefused (BootstrapStore LEASE_CLOSED)))
         else
           orReturn (runtimeTimestamp d 0) (\<lambda>now.
             if timeGe now (ls_expiresAt authoritative)
             then andThen (closeExecution (expiredClose ow (to_session call) now))
                    (\<lambda>_. Return (Inl (BootstrapRefused (BootstrapStore LEASE_EXPIRED))))
             else
               andThenOk (startStep x reference authoritative role ow call now) (\<lambda>step.
                 orReturn (resolveDurableCapability d ow reference) (\<lambda>capability.
                   Return (Inr (step, capability)))))))"

datatype 'r ToolOutcome = ToolReturned 'r | ToolThrew "string option"

definition completion ::
  "TestCapabilityStepScope \<Rightarrow> CompleteStatus \<Rightarrow> Timestamp \<Rightarrow> string option \<Rightarrow> CompleteTestCapabilityExecutionStoreCommand" where
  "completion s status now errorCode =
     \<lparr>ce_owner = st_owner s, ce_workflowId = st_workflowId s, ce_testRunId = st_testRunId s, ce_leaseId = st_leaseId s,
      ce_childSessionId = st_childSessionId s, ce_executionTurnId = st_executionTurnId s, ce_callId = st_callId s,
      ce_status = status, ce_occurredAt = now, ce_errorCode = errorCode\<rparr>"

text \<open>The name of what was thrown; \<open>parseErrorName\<close> is that of the schema library's exception.\<close>

definition thrownCode :: "string \<Rightarrow> RunnerException \<Rightarrow> string" where
  "thrownCode parseErrorName e =
     (case e of
        HostThrew name \<Rightarrow> (case name of None \<Rightarrow> ''CAPABILITY_EXECUTION_FAILED''
          | Some n \<Rightarrow> if n = [] then ''CAPABILITY_EXECUTION_FAILED'' else n)
      | ClockThrew \<Rightarrow> parseErrorName
      | _ \<Rightarrow> ''Error'')"

text \<open>The \<open>catch\<close> block.\<close>

definition recordFailure ::
  "RuntimeHost \<Rightarrow> string \<Rightarrow> TestCapabilityStepScope option \<Rightarrow> RunnerException \<Rightarrow> 'r RunnerResult program" where
  "recordFailure d parseErrorName step e =
     (case step of
        None \<Rightarrow> Return (Inl e)
      | Some s \<Rightarrow>
          orReturn (runtimeTimestamp d 2) (\<lambda>now.
            DoCompleteTest (completion s CompleteFailed now (Some (thrownCode parseErrorName e)))
              (\<lambda>completed. Return (Inl (case completed of Inl e' \<Rightarrow> PolicyRefused e' | Inr _ \<Rightarrow> e)))))"

text \<open>The rest of \<open>executeDurableCapability\<close>, from what the tool did.\<close>

definition recordOutcome ::
  "RuntimeHost \<Rightarrow> string \<Rightarrow> TestCapabilityStepScope option \<Rightarrow> 'r ToolOutcome \<Rightarrow> 'r RunnerResult program" where
  "recordOutcome d parseErrorName step outcome =
     (case outcome of
        ToolThrew name \<Rightarrow> recordFailure d parseErrorName step (HostThrew name)
      | ToolReturned r \<Rightarrow>
        (case step of
           None \<Rightarrow> Return (Inr r)
         | Some s \<Rightarrow>
           (case runtimeTimestamp d 1 of
              Inl e \<Rightarrow> recordFailure d parseErrorName step e
            | Inr now \<Rightarrow>
                DoCompleteTest (completion s CompleteSucceeded now None)
                  (\<lambda>completed. case completed of
                     Inl e \<Rightarrow> recordFailure d parseErrorName step (PolicyRefused e)
                   | Inr _ \<Rightarrow> Return (Inr r)))))"

text \<open>The tool of the host is any function from the resolved capability to what it does.\<close>

definition executeDurableCapability ::
  "RuntimeHost \<Rightarrow> stepTexts \<Rightarrow> string \<Rightarrow> (ResolvedRunnerCapability \<Rightarrow> 'r ToolOutcome) \<Rightarrow> DurableCapabilityReference \<Rightarrow>
   ExecutionLeaseRecord \<Rightarrow> ExecutionRole \<Rightarrow> RuntimeChannel \<Rightarrow> ToolCall \<Rightarrow> 'r RunnerResult program" where
  "executeDurableCapability d x parseErrorName run reference lease role channel call =
     andThenOk (claimExecution d x reference lease role channel call)
       (\<lambda>(step, capability). recordOutcome d parseErrorName step (run capability))"

end
