(* ===== verification/Turn_Properties.thy ===== *)
theory Turn_Properties
  imports Turns Coordinator_Properties
begin

text \<open>
  The properties of a turn: what an admitted turn runs with, and that a settled turn leaves no
  running lease behind.
\<close>

lemma begun_lease:
  assumes "store_ok h t" and "beginExecutionLease t c = (t', Inr l)"
  shows "getExecutionLease t' (bl_owner c) (bl_childSessionId c) = Some l" and "ls_status l = LeaseRunning"
    and "ls_executionTurnId l = Some (bl_executionTurnId c)" and "ls_capabilityPlan l = bl_capabilityPlan c"
    and "\<not> timeGe (bl_occurredAt c) (ls_expiresAt l)"
proof -
  from assms(2) obtain ow l0 where l0: "findLease t (bl_childSessionId c) = Some (ow, l0)"
    by (auto simp: beginExecutionLease_def split: option.splits)
  note found = findLease_bucket[OF assms(1) l0]
  from sessions_okD(4)[OF bucket_okD(3)[OF bucketOf_ok[OF assms(1)]] found(2)] have ok: "lease_ok ow (bl_childSessionId c) l0" .
  have "getExecutionLease t' (bl_owner c) (bl_childSessionId c) = Some l \<and> ls_status l = LeaseRunning \<and>
    ls_executionTurnId l = Some (bl_executionTurnId c) \<and> ls_capabilityPlan l = bl_capabilityPlan c \<and>
    \<not> timeGe (bl_occurredAt c) (ls_expiresAt l)"
    using assms(2) l0 found ok
    by (auto simp: beginExecutionLease_def getExecutionLease_bucketOf putLease_def lease_ok_def Let_def
        split: if_splits option.splits)
  then show "getExecutionLease t' (bl_owner c) (bl_childSessionId c) = Some l" "ls_status l = LeaseRunning"
    "ls_executionTurnId l = Some (bl_executionTurnId c)" "ls_capabilityPlan l = bl_capabilityPlan c"
    "\<not> timeGe (bl_occurredAt c) (ls_expiresAt l)" by blast+
qed

lemma andThenOk_lifted:
  "runProgram (andThenOk p (\<lambda>r. Return (Inr (f r)))) h s = (s', Inr y) \<Longrightarrow>
    \<exists>r. runProgram p h s = (s', Inr r) \<and> y = f r"
  by (auto simp: andThenOk_def runProgram_andThen split: sum.splits prod.splits)

lemma map_sum_Inr: "map_sum g f x = Inr y \<longleftrightarrow> (\<exists>v. x = Inr v \<and> y = f v)"
  by (cases x) auto

lemma beginTurn_run:
  assumes "runProgram (beginTurn d ow child turnId plan) h s = (s', Inr (Inr lease))"
  shows "beginExecutionLease (seen h s 1) \<lparr>bl_owner = ow, bl_childSessionId = child, bl_executionTurnId = turnId,
    bl_occurredAt = rh_now d 0, bl_capabilityPlan = Some plan\<rparr> = (snd s', Inr lease)"
  using assms
  by (auto simp: beginTurn_def runtimeTimestamp_def orReturn_def beginExecution_def storeResult_def Let_def snd_others
      prod_eq_iff split: if_splits sum.splits)

text \<open>The requirements a turn of a role is prepared from.\<close>

definition roleRequirements :: "ExecutionRole \<Rightarrow> SavedTarget \<Rightarrow> SavedToolRequirement list" where
  "roleRequirements role saved =
     (if role = ExTestRunner \<or> role = ExActiveRunner then savedRequirements saved else [])"

definition beginCommand :: "RuntimeHost \<Rightarrow> OwnerScope \<Rightarrow> string \<Rightarrow> string \<Rightarrow> PreparedRunnerTurn \<Rightarrow> BeginExecutionLeaseStoreCommand" where
  "beginCommand d ow session turnId turn =
     \<lparr>bl_owner = ow, bl_childSessionId = session, bl_executionTurnId = turnId, bl_occurredAt = rh_now d 0,
      bl_capabilityPlan = Some (prep_plan (pt_capabilities turn))\<rparr>"

text \<open>An inspection without an entry: what it found and, when it begins the turn, the begun lease.\<close>

lemma inspectRunnerTurn_new:
  assumes "runProgram (inspectRunnerTurn d role mode ctx start None) h s = (s', Inr (Inr turn))"
    and "resolveDynamicOwner d ctx = Inr ow" and "dx_turnId ctx = Some turnId"
  obtains lease where "pt_owner turn = ow" "getExecutionLease (seen h s 1) ow (dx_sessionId ctx) = Some lease"
    "ls_role lease = role" "ls_bootstrapTurnId lease \<noteq> turnId" "savedAt (seen h s 2) lease = Some (pt_saved turn)"
    "prepareCapabilities (rh_registry d) ow (roleRequirements role (pt_saved turn)) mode = Inr (pt_capabilities turn)"
    "if start then beginExecutionLease (seen h s 3) (beginCommand d ow (dx_sessionId ctx) turnId turn) =
         (snd s', Inr (pt_lease turn))
     else snd s' = seen h s 2 \<and> pt_lease turn = lease"
proof -
  have turnId: "requiredTurnId ctx = Inr v \<Longrightarrow> v = turnId" for v
    using assms(3) by (auto simp: requiredTurnId_def split: if_splits)
  from assms(1,2) turnId obtain lease saved prepared where
    lease: "getExecutionLease (seen h s 1) ow (dx_sessionId ctx) = Some lease" "ls_role lease = role"
      "ls_bootstrapTurnId lease \<noteq> turnId" "savedAt (seen h s 2) lease = Some saved"
    and prepared: "prepareCapabilities (rh_registry d) ow (roleRequirements role saved) mode = Inr prepared"
    and rest: "runProgram (andThenOk (if start then beginTurn d ow (dx_sessionId ctx) turnId (prep_plan prepared)
          else Return (Inr (Inr lease))) (\<lambda>claimed.
        Return (Inr (map_sum id (\<lambda>l. \<lparr>pt_owner = ow, pt_lease = l, pt_saved = saved, pt_capabilities = prepared\<rparr>)
          claimed)))) h (others h (others h s)) = (s', Inr (Inr turn))"
    unfolding inspectRunnerTurn_def roleRequirements_def
    by (auto simp: getLease_def loadSaved_def Let_def snd_others numeral_2_eq_2 elim!: orReturn_run
        split: if_splits option.splits sum.splits)
  from andThenOk_lifted[OF rest] obtain l where
    l: "runProgram (if start then beginTurn d ow (dx_sessionId ctx) turnId (prep_plan prepared)
          else Return (Inr (Inr lease))) h (others h (others h s)) = (s', Inr (Inr l))"
    "turn = \<lparr>pt_owner = ow, pt_lease = l, pt_saved = saved, pt_capabilities = prepared\<rparr>"
    by (auto simp: map_sum_Inr eq_commute[of "Inr turn"])
  show thesis
  proof (cases start)
    case True
    with l(1) have "runProgram (beginTurn d ow (dx_sessionId ctx) turnId (prep_plan prepared)) h
        (others h (others h s)) = (s', Inr (Inr l))" by simp
    from beginTurn_run[OF this] l(2) lease prepared True show thesis
      by (intro that[of lease]) (auto simp: numeral_3_eq_3 beginCommand_def)
  next
    case False
    with l lease prepared show thesis
      by (intro that[of lease]) (auto simp: numeral_2_eq_2 snd_others)
  qed
qed

text \<open>An inspection with an entry returns it, or begins the turn that it prepared.\<close>

lemma inspectRunnerTurn_entry:
  assumes "runProgram (inspectRunnerTurn d role mode ctx start (Some e)) h s = (s', Inr (Inr turn))"
    and "resolveDynamicOwner d ctx = Inr ow" and "dx_turnId ctx = Some turnId"
  obtains before where "e = Inr before"
    "if start \<and> ls_status (pt_lease before) \<noteq> LeaseRunning
     then turn = before\<lparr>pt_lease := pt_lease turn\<rparr> \<and>
       beginExecutionLease (seen h s 1) (beginCommand d ow (dx_sessionId ctx) turnId before) = (snd s', Inr (pt_lease turn))
     else turn = before \<and> s' = s"
proof -
  have turnId: "requiredTurnId ctx = Inr v \<Longrightarrow> v = turnId" for v
    using assms(3) by (auto simp: requiredTurnId_def split: if_splits)
  from assms(1) obtain before where before: "e = Inr before"
    by (cases e) (auto simp: inspectRunnerTurn_def elim!: orReturn_run)
  show thesis
  proof (cases "start \<and> ls_status (pt_lease before) \<noteq> LeaseRunning")
    case True
    with assms(1,2) turnId before have "runProgram (andThenOk (beginTurn d ow (dx_sessionId ctx) turnId
        (prep_plan (pt_capabilities before))) (\<lambda>claimed.
          Return (Inr (map_sum id (\<lambda>lease. before\<lparr>pt_lease := lease\<rparr>) claimed)))) h s = (s', Inr (Inr turn))"
      by (auto simp: inspectRunnerTurn_def elim!: orReturn_run)
    from andThenOk_lifted[OF this] obtain l where
      l: "runProgram (beginTurn d ow (dx_sessionId ctx) turnId (prep_plan (pt_capabilities before))) h s = (s', Inr (Inr l))"
      "turn = before\<lparr>pt_lease := l\<rparr>"
      by (auto simp: map_sum_Inr eq_commute[of "Inr turn"])
    from beginTurn_run[OF l(1)] l(2) True before show thesis
      by (intro that[of before]) (auto simp: beginCommand_def)
  next
    case False
    with assms(1) before show thesis
      by (intro that[of before]) (auto simp: inspectRunnerTurn_def elim!: orReturn_run split: if_splits)
  qed
qed

text \<open>The saved content is the lease's target.\<close>

fun servesTarget :: "BootstrapTarget \<Rightarrow> SavedTarget \<Rightarrow> bool" where
  "servesTarget (DraftTarget agentId draftId draftRevision) (SavedDraft d) \<longleftrightarrow>
     d_draftId d = draftId \<and> d_draftRevision d = draftRevision"
| "servesTarget (PublishedTarget agentId specId specVersion) (SavedVersion v) \<longleftrightarrow>
     v_specId v = specId \<and> v_version v = specVersion"
| "servesTarget _ _ \<longleftrightarrow> False"

lemma savedAt_serves: "savedAt t lease = Some saved \<Longrightarrow> servesTarget (ls_target lease) saved"
  by (auto simp: savedAt_def getVersion_def findVersion_def find_Some_iff
      split: BootstrapTarget.splits option.splits if_splits)

text \<open>The entries of the map of prepared turns that inspections of one turn can have left, at any time and
  with any other calls in between: there is none at first and after the turn was dropped, and every
  inspection that does not throw leaves its result. The answers of the host during the inspections are \<open>hosts\<close>. The flag
  tells whether an inspection that does not begin the turn found the lease running already.\<close>

definition foundRunning ::
  "bool \<Rightarrow> PreparedRunnerTurn BootstrapResult option \<Rightarrow> PreparedRunnerTurn BootstrapResult \<Rightarrow> bool" where
  "foundRunning start e r \<longleftrightarrow> \<not> start \<and> e = None \<and>
     (case r of Inl _ \<Rightarrow> False | Inr turn \<Rightarrow> ls_status (pt_lease turn) = LeaseRunning)"

inductive turnEntry ::
  "host \<Rightarrow> RuntimeHost set \<Rightarrow> ExecutionRole \<Rightarrow> PlanMode \<Rightarrow> OwnerScope \<Rightarrow> string \<Rightarrow> string \<Rightarrow>
   Tenants \<Rightarrow> bool \<Rightarrow> PreparedRunnerTurn BootstrapResult option \<Rightarrow> bool"
  for h hosts role mode ow session turnId where
  no_entry: "reachable h t \<Longrightarrow> turnEntry h hosts role mode ow session turnId t False None"
| kept: "turnEntry h hosts role mode ow session turnId t found e \<Longrightarrow>
    turnEntry h hosts role mode ow session turnId (runCalls h t cs) found e"
| inspected: "turnEntry h hosts role mode ow session turnId (snd s) found e \<Longrightarrow>
    runProgram (inspectRunnerTurn d role mode ctx start e) h s = (s', Inr r) \<Longrightarrow>
    resolveDynamicOwner d ctx = Inr ow \<Longrightarrow> dx_sessionId ctx = session \<Longrightarrow> dx_turnId ctx = Some turnId \<Longrightarrow>
    d \<in> hosts \<Longrightarrow>
    turnEntry h hosts role mode ow session turnId (snd s') (found \<or> foundRunning start e r) (Some r)"
| dropped: "turnEntry h hosts role mode ow session turnId t found e \<Longrightarrow>
    turnEntry h hosts role mode ow session turnId t False None"

text \<open>What a prepared turn is: bound to the lease of its session, which only moves forward, with the content
  that the lease targets and the capabilities prepared from it.\<close>

definition boundTurn ::
  "RuntimeHost set \<Rightarrow> ExecutionRole \<Rightarrow> PlanMode \<Rightarrow> OwnerScope \<Rightarrow> string \<Rightarrow> string \<Rightarrow> Tenants \<Rightarrow> PreparedRunnerTurn \<Rightarrow> bool"
where
  "boundTurn hosts role mode ow session turnId t turn \<longleftrightarrow>
     pt_owner turn = ow \<and> ls_role (pt_lease turn) = role \<and> ls_bootstrapTurnId (pt_lease turn) \<noteq> turnId \<and>
     servesTarget (ls_target (pt_lease turn)) (pt_saved turn) \<and>
     (\<exists>d \<in> hosts. prepareCapabilities (rh_registry d) ow (roleRequirements role (pt_saved turn)) mode =
        Inr (pt_capabilities turn)) \<and>
     (\<exists>lease. getExecutionLease t ow session = Some lease \<and> leaseLater (pt_lease turn) lease)"

text \<open>The lease was begun for this turn, before it expired, with the plan of the turn.\<close>

definition begunTurn :: "RuntimeHost set \<Rightarrow> string \<Rightarrow> PreparedRunnerTurn \<Rightarrow> bool" where
  "begunTurn hosts turnId turn \<longleftrightarrow> ls_executionTurnId (pt_lease turn) = Some turnId \<and>
     ls_capabilityPlan (pt_lease turn) = Some (prep_plan (pt_capabilities turn)) \<and>
     (\<exists>d \<in> hosts. \<not> timeGe (rh_now d 0) (ls_expiresAt (pt_lease turn)))"

lemma lease_stays:
  assumes "reachable h t" and "getExecutionLease t ow child = Some l"
  obtains l' where "getExecutionLease (runCalls h t cs) ow child = Some l'" "leaseLater l l'"
proof -
  have "bucketLater (bucketOf t ow) (bucketOf (runCalls h t cs) ow)"
    by (rule bucketOf_later) (rule reachable_later[OF assms(1)])
  then have "map_later leaseLater (map_of (leases (bucketOf t ow))) (map_of (leases (bucketOf (runCalls h t cs) ow)))"
    by (simp add: bucketLater_def)
  from map_laterD[OF this assms(2)[unfolded getExecutionLease_bucketOf]] that show thesis
    by (auto simp: getExecutionLease_bucketOf)
qed

lemma boundTurn_kept:
  assumes "reachable h t" and "boundTurn hosts role mode ow session turnId t turn"
  shows "boundTurn hosts role mode ow session turnId (runCalls h t cs) turn"
proof -
  from assms(2) obtain l where l: "getExecutionLease t ow session = Some l" "leaseLater (pt_lease turn) l"
    by (auto simp: boundTurn_def)
  from lease_stays[OF assms(1) l(1)] obtain l' where
    "getExecutionLease (runCalls h t cs) ow session = Some l'" "leaseLater l l'" .
  with l(2) assms(2) show ?thesis unfolding boundTurn_def by (blast intro: leaseLater_trans)
qed

text \<open>Beginning a turn whose lease was read before.\<close>

lemma begin_bound:
  assumes "reachable h t" and "getExecutionLease t ow session = Some lease" and "leaseLater l0 lease"
    and "beginExecutionLease (runCalls h t cs) (beginCommand d ow session turnId before) = (t', Inr l)" and host: "d \<in> hosts"
  shows "getExecutionLease t' ow session = Some l" "leaseLater l0 l" "ls_status l = LeaseRunning"
    "begunTurn hosts turnId (before\<lparr>pt_lease := l\<rparr>)" "\<not> timeGe (rh_now d 0) (ls_expiresAt l)"
proof -
  let ?c = "beginCommand d ow session turnId before"
  have reach: "reachable h (runCalls h t cs)" by (rule reachable_runCalls[OF assms(1)])
  note begun = begun_lease[OF reachable_ok[OF reach] assms(4)]
  then show now: "getExecutionLease t' ow session = Some l" "ls_status l = LeaseRunning"
    "\<not> timeGe (rh_now d 0) (ls_expiresAt l)" by (simp_all add: beginCommand_def)
  show "begunTurn hosts turnId (before\<lparr>pt_lease := l\<rparr>)"
    using begun host by (auto simp: begunTurn_def beginCommand_def)
  have "t' = runCalls h t (cs @ [BeginLease ?c])" using assms(4) by (simp add: runCalls_append)
  with lease_kept[OF assms(1,2)] now(1) have "leaseLater lease l" by simp
  with assms(3) show "leaseLater l0 l" by (rule leaseLater_trans)
qed

lemma leaseLater_binding:
  "leaseLater l l' \<Longrightarrow> ls_role l' = ls_role l \<and> ls_target l' = ls_target l \<and> ls_bootstrapTurnId l' = ls_bootstrapTurnId l"
  by (simp add: leaseLater_def sameBinding_def)

text \<open>One inspection keeps what is known of an entry.\<close>

definition entryOk ::
  "RuntimeHost set \<Rightarrow> ExecutionRole \<Rightarrow> PlanMode \<Rightarrow> OwnerScope \<Rightarrow> string \<Rightarrow> string \<Rightarrow> Tenants \<Rightarrow> bool \<Rightarrow>
   PreparedRunnerTurn BootstrapResult option \<Rightarrow> bool" where
  "entryOk hosts role mode ow session turnId t found e \<longleftrightarrow>
     (\<forall>turn. e = Some (Inr turn) \<longrightarrow> boundTurn hosts role mode ow session turnId t turn \<and>
        (ls_status (pt_lease turn) = LeaseRunning \<longrightarrow> begunTurn hosts turnId turn \<or> found))"

definition admittedNow :: "RuntimeHost set \<Rightarrow> RuntimeHost \<Rightarrow> OwnerScope \<Rightarrow> string \<Rightarrow> string \<Rightarrow> Tenants \<Rightarrow> PreparedRunnerTurn \<Rightarrow> bool" where
  "admittedNow hosts d ow session turnId t turn \<longleftrightarrow> ls_status (pt_lease turn) = LeaseRunning \<and>
     getExecutionLease t ow session = Some (pt_lease turn) \<and> begunTurn hosts turnId turn \<and>
     \<not> timeGe (rh_now d 0) (ls_expiresAt (pt_lease turn))"

lemma inspect_new:
  assumes "reachable h (snd s)"
    and run: "runProgram (inspectRunnerTurn d role mode ctx start None) h s = (s', Inr (Inr turn))"
    and ctx: "resolveDynamicOwner d ctx = Inr ow" "dx_sessionId ctx = session" "dx_turnId ctx = Some turnId"
    and host: "d \<in> hosts"
  shows "boundTurn hosts role mode ow session turnId (snd s') turn"
    and "start \<Longrightarrow> admittedNow hosts d ow session turnId (snd s') turn"
proof -
  from inspectRunnerTurn_new[OF run ctx(1,3)] obtain lease where
    l: "pt_owner turn = ow" "getExecutionLease (seen h s 1) ow session = Some lease"
      "ls_role lease = role" "ls_bootstrapTurnId lease \<noteq> turnId" "savedAt (seen h s 2) lease = Some (pt_saved turn)"
      "prepareCapabilities (rh_registry d) ow (roleRequirements role (pt_saved turn)) mode = Inr (pt_capabilities turn)"
    and rest: "if start then beginExecutionLease (seen h s 3) (beginCommand d ow session turnId turn) =
        (snd s', Inr (pt_lease turn)) else snd s' = seen h s 2 \<and> pt_lease turn = lease"
    unfolding ctx(2) by metis
  note reach = seen_reachable[OF assms(1), of 1]
  have serves: "servesTarget (ls_target lease) (pt_saved turn)" by (rule savedAt_serves[OF l(5)])
  have bound: "boundTurn hosts role mode ow session turnId (snd s') turn"
    if "leaseLater lease (pt_lease turn)" "getExecutionLease (snd s') ow session = Some l'" "leaseLater (pt_lease turn) l'" for l'
    unfolding boundTurn_def
    using l(1,3,4,6) serves host leaseLater_binding[OF that(1)] that(2,3) by (intro conjI bexI[of _ d]) simp_all
  have "boundTurn hosts role mode ow session turnId (snd s') turn \<and>
    (start \<longrightarrow> admittedNow hosts d ow session turnId (snd s') turn)"
  proof (cases start)
    case True
    from seen_later[of 1 3 h s] obtain cs where "seen h s 3 = runCalls h (seen h s 1) cs" by auto
    with rest True have "beginExecutionLease (runCalls h (seen h s 1) cs) (beginCommand d ow session turnId turn) =
        (snd s', Inr (pt_lease turn))" by simp
    note begun = begin_bound[OF reach l(2) leaseLater_refl this host]
    then show ?thesis using bound[OF begun(2,1)] by (simp add: admittedNow_def)
  next
    case False
    from seen_later[of 1 2 h s] obtain cs where "seen h s 2 = runCalls h (seen h s 1) cs" by auto
    with lease_stays[OF reach l(2)] rest False bound show ?thesis by (metis leaseLater_refl)
  qed
  then show "boundTurn hosts role mode ow session turnId (snd s') turn"
    "start \<Longrightarrow> admittedNow hosts d ow session turnId (snd s') turn" by blast+
qed

lemma begin_prepared:
  assumes "reachable h (snd s)" and "boundTurn hosts role mode ow session turnId (snd s) before"
    and turn: "turn = before\<lparr>pt_lease := pt_lease turn\<rparr>"
    and start: "beginExecutionLease (seen h s 1) (beginCommand d ow session turnId before) = (t', Inr (pt_lease turn))" and host: "d \<in> hosts"
  shows "boundTurn hosts role mode ow session turnId t' turn" "admittedNow hosts d ow session turnId t' turn"
proof -
  from assms(2) obtain lease where lease: "getExecutionLease (snd s) ow session = Some lease" "leaseLater (pt_lease before) lease"
    by (auto simp: boundTurn_def)
  from seen_later[of 0 1 h s] obtain cs where "seen h s 1 = runCalls h (snd s) cs" by auto
  note begun = begin_bound[OF assms(1) lease start[unfolded this] host]
  have same: "pt_owner turn = pt_owner before" "pt_saved turn = pt_saved before" "pt_capabilities turn = pt_capabilities before"
    by (subst turn, simp)+
  show "boundTurn hosts role mode ow session turnId t' turn"
    using assms(2) leaseLater_binding[OF begun(2)] begun(1) unfolding boundTurn_def same by auto
  show "admittedNow hosts d ow session turnId t' turn"
    using begun turn by (simp add: admittedNow_def)
qed

lemma inspect_entry:
  assumes "reachable h (snd s)" and "entryOk hosts role mode ow session turnId (snd s) found e"
    and run: "runProgram (inspectRunnerTurn d role mode ctx start e) h s = (s', Inr (Inr turn))"
    and ctx: "resolveDynamicOwner d ctx = Inr ow" "dx_sessionId ctx = session" "dx_turnId ctx = Some turnId"
    and host: "d \<in> hosts"
  shows "boundTurn hosts role mode ow session turnId (snd s') turn" (is ?bound)
    and "ls_status (pt_lease turn) = LeaseRunning \<longrightarrow> begunTurn hosts turnId turn \<or> found \<or> foundRunning start e (Inr turn)" (is ?origin)
    and "start \<longrightarrow> admittedNow hosts d ow session turnId (snd s') turn \<or>
      e = Some (Inr turn) \<and> s' = s \<and> ls_status (pt_lease turn) = LeaseRunning" (is ?admitted)
proof -
  have "?bound \<and> ?origin \<and> ?admitted"
  proof (cases e)
    case None
    note new = inspect_new[OF assms(1) run[unfolded None] ctx host]
    then show ?thesis by (cases start) (simp_all add: None foundRunning_def admittedNow_def)
  next
    case (Some r)
    from inspectRunnerTurn_entry[OF run[unfolded Some] ctx(1,3)] obtain before where
      r: "r = Inr before"
      and rest: "if start \<and> ls_status (pt_lease before) \<noteq> LeaseRunning
        then turn = before\<lparr>pt_lease := pt_lease turn\<rparr> \<and>
          beginExecutionLease (seen h s 1) (beginCommand d ow session turnId before) = (snd s', Inr (pt_lease turn))
        else turn = before \<and> s' = s"
      unfolding ctx(2) by metis
    from assms(2) Some r have ok: "boundTurn hosts role mode ow session turnId (snd s) before"
      "ls_status (pt_lease before) = LeaseRunning \<longrightarrow> begunTurn hosts turnId before \<or> found"
      by (simp_all add: entryOk_def)
    show ?thesis
    proof (cases "start \<and> ls_status (pt_lease before) \<noteq> LeaseRunning")
      case True
      with rest begin_prepared[OF assms(1) ok(1) _ _ host] have "?bound" "admittedNow hosts d ow session turnId (snd s') turn" by metis+
      then show ?thesis by (simp add: admittedNow_def)
    next
      case False
      with rest have "turn = before" "s' = s" by simp_all
      with ok Some r False show ?thesis by auto
    qed
  qed
  then show ?bound ?origin ?admitted by blast+
qed

lemma turnEntry_ok:
  "turnEntry h hosts role mode ow session turnId t found e \<Longrightarrow>
   reachable h t \<and> entryOk hosts role mode ow session turnId t found e"
proof (induction rule: turnEntry.induct)
  case (kept t found e cs)
  then show ?case by (auto simp: entryOk_def intro: boundTurn_kept reachable_runCalls)
next
  case (inspected s found e d ctx start s' r)
  from inspected.IH have ok: "reachable h (snd s)" "entryOk hosts role mode ow session turnId (snd s) found e" by simp_all
  from runProgram_calls[of "inspectRunnerTurn d role mode ctx start e" h s] inspected.hyps(2)
  have "reachable h (snd s')" using reachable_runCalls ok(1) by auto
  moreover have "entryOk hosts role mode ow session turnId (snd s') (found \<or> foundRunning start e r) (Some r)"
    unfolding entryOk_def
  proof (intro allI impI)
    fix turn assume "Some r = Some (Inr turn)"
    with inspected.hyps(2) have "runProgram (inspectRunnerTurn d role mode ctx start e) h s = (s', Inr (Inr turn))" by simp
    from inspect_entry[OF ok this inspected.hyps(3-6)] \<open>Some r = Some (Inr turn)\<close>
    show "boundTurn hosts role mode ow session turnId (snd s') turn \<and>
      (ls_status (pt_lease turn) = LeaseRunning \<longrightarrow> begunTurn hosts turnId turn \<or> found \<or> foundRunning start e r)" by simp
  qed
  ultimately show ?case by blast
qed (auto simp: entryOk_def)

text \<open>C34. An admitted turn runs with exactly what its lease names. When the model of a role is admitted to
  a turn, whatever entry earlier inspections of the turn left and with any other calls in between the
  steps: the turn belongs to the lease of the session of the resolved owner, for that role, which is
  not the turn that redeemed the token and whose lease only moves forward; what is served is the
  exact draft or version the lease targets; and its plan was prepared from the tool requirements of
  that. Unless the entry was running already, the lease in the store is then the one of the turn,
  running for this turn, unexpired, with that plan. A running entry is returned without a look at
  the store; it was begun in the same way by an earlier inspection, or an inspection that does not
  begin the turn found the lease running.\<close>

theorem admitted_turn_exact:
  assumes "turnEntry h hosts role mode ow session turnId (snd s) found cached"
    and "runProgram (inspectRunnerTurn d role mode ctx True cached) h s = (s', Inr (Inr turn))"
    and "resolveDynamicOwner d ctx = Inr ow" "dx_sessionId ctx = session" "dx_turnId ctx = Some turnId"
    and "d \<in> hosts"
  shows "pt_owner turn = ow \<and> ls_role (pt_lease turn) = role \<and> ls_status (pt_lease turn) = LeaseRunning \<and>
    ls_bootstrapTurnId (pt_lease turn) \<noteq> turnId \<and>
    servesTarget (ls_target (pt_lease turn)) (pt_saved turn) \<and>
    (\<exists>d \<in> hosts. prepareCapabilities (rh_registry d) ow
      (if role = ExTestRunner \<or> role = ExActiveRunner then savedRequirements (pt_saved turn) else []) mode =
      Inr (pt_capabilities turn)) \<and>
    (\<exists>lease. getExecutionLease (snd s') ow session = Some lease \<and> leaseLater (pt_lease turn) lease) \<and>
    (cached = Some (Inr turn) \<and> s' = s \<or>
     getExecutionLease (snd s') ow session = Some (pt_lease turn) \<and>
     \<not> timeGe (rh_now d 0) (ls_expiresAt (pt_lease turn))) \<and>
    (ls_executionTurnId (pt_lease turn) = Some turnId \<and>
     ls_capabilityPlan (pt_lease turn) = Some (prep_plan (pt_capabilities turn)) \<and>
     (\<exists>d \<in> hosts. \<not> timeGe (rh_now d 0) (ls_expiresAt (pt_lease turn))) \<or>
     cached = Some (Inr turn) \<and> found)"
proof -
  from turnEntry_ok[OF assms(1)] have ok: "reachable h (snd s)"
    "entryOk hosts role mode ow session turnId (snd s) found cached" by simp_all
  note inspect = inspect_entry[OF ok assms(2-6)]
  have "\<not> foundRunning True cached (Inr turn)" by (simp add: foundRunning_def)
  then show ?thesis
    using inspect(1,2) inspect(3)[THEN mp, OF TrueI]
    unfolding boundTurn_def roleRequirements_def begunTurn_def admittedNow_def by blast
qed

definition exChannel :: RuntimeChannel where
  "exChannel = \<lparr>ch_kind = None, ch_metadata = None\<rparr>"

definition exDynamic :: "string \<Rightarrow> DynamicContext" where
  "exDynamic child = \<lparr>dx_current = Some exActor, dx_initiator = None, dx_sessionId = child, dx_turnId = Some ''work'',
     dx_channel = exChannel\<rparr>"

definition exRuntime :: "string \<Rightarrow> RuntimeHost" where
  "exRuntime minute = \<lparr>rh_resolveOwner = (\<lambda>_. ResolverOwner exOwner), rh_now = (\<lambda>_. exTime minute),
     rh_registry = (\<lambda>_ _ _. Some [])\<rparr>"

definition exPreparation :: CapabilityPreparation where
  "exPreparation = \<lparr>prep_plan = \<lparr>plan_mode = ModeDirect, plan_selected = [], plan_optionalOmissions = []\<rparr>,
     prep_resolved = [], prep_optionalOmissionNote = None, prep_disclosureRequired = False\<rparr>"

definition exTurn :: PreparedRunnerTurn where
  "exTurn = \<lparr>pt_owner = exOwner,
     pt_lease = (exLease ''1'' ExPm 1 1 None (Some (prep_plan exPreparation))),
     pt_saved = SavedDraft (exDraft exFields0 1 ''00''), pt_capabilities = exPreparation\<rparr>"

lemma exRuntime_members:
  "rh_now (exRuntime minute) k = exTime minute"
  "resolveDynamicOwner (exRuntime minute) (exDynamic child) = Inr exOwner"
  "requiredTurnId (exDynamic child) = Inr ''work''" "dx_sessionId (exDynamic child) = child"
  "prepareCapabilities (rh_registry (exRuntime minute)) exOwner [] ModeDirect = Inr exPreparation"
  by (simp_all add: exRuntime_def exDynamic_def resolveDynamicOwner_def resolveCurrentOwner_def
      ownerResolutionInputSchema_def ownerInputFromDynamic_def exActor_def sessionAuthContextSchema_def requiredTurnId_def
      exOwner_def ownerScopeSchema_def prepareCapabilities_def exPreparation_def omissionNote_def boundedString_def
      maxString_def startsWith_def NUL_char)

lemma exRedeemed_turn:
  "getExecutionLease exRedeemed exOwner ''child-1'' = Some exReady"
  "ls_role exReady = ExPm" "ls_bootstrapTurnId exReady = ''bootstrap''"
  "savedAt exRedeemed exReady = Some (SavedDraft (exDraft exFields0 1 ''00''))"
  by (simp_all add: savedAt_def exRedeemed_def exReady_def exLease_def queries exFamily_def exDraft_def)

lemma exRedeemed_begin:
  "\<exists>t. beginExecutionLease exRedeemed \<lparr>bl_owner = exOwner, bl_childSessionId = ''child-1'', bl_executionTurnId = ''work'',
     bl_occurredAt = exTime ''03'', bl_capabilityPlan = Some (prep_plan exPreparation)\<rparr> =
     (t, Inr (exLease ''1'' ExPm 1 1 None (Some (prep_plan exPreparation))))"
  by (simp add: evaluation scenario states exRedeemed_def exReady_def exPreparation_def)

text \<open>The instructions of the session inspect the turn first; then its model is admitted.\<close>

definition exPeeked :: PreparedRunnerTurn where
  "exPeeked = exTurn\<lparr>pt_lease := exReady\<rparr>"

lemma exPeeked_run:
  "runProgram (inspectRunnerTurn (exRuntime ''03'') ExPm ModeDirect (exDynamic ''child-1'') False None) exHost
     ([], exRedeemed) = (([], exRedeemed), Inr (Inr exPeeked))"
  by (simp add: inspectRunnerTurn_def orReturn_def getLease_def loadSaved_def andThenOk_def exRuntime_members exTurn_def
      exPeeked_def exRedeemed_turn)

lemma exTurn_run:
  "\<exists>t. runProgram (inspectRunnerTurn (exRuntime ''03'') ExPm ModeDirect (exDynamic ''child-1'') True (Some (Inr exPeeked)))
     exHost ([], exRedeemed) = (([], t), Inr (Inr exTurn))"
proof -
  from exRedeemed_begin obtain t where "beginExecutionLease exRedeemed \<lparr>bl_owner = exOwner, bl_childSessionId = ''child-1'',
     bl_executionTurnId = ''work'', bl_occurredAt = exTime ''03'', bl_capabilityPlan = Some (prep_plan exPreparation)\<rparr> =
     (t, Inr (exLease ''1'' ExPm 1 1 None (Some (prep_plan exPreparation))))" by blast
  moreover have "timestampSchema (exTime ''03'')" by (simp add: timestampSchema_def)
  moreover have "ls_status exReady = LeaseReady" by (simp add: exReady_def)
  ultimately show ?thesis
    by (simp add: inspectRunnerTurn_def orReturn_def beginTurn_def runtimeTimestamp_def andThenOk_def beginExecution_def
        storeResult_def exRuntime_members exTurn_def exPeeked_def)
qed

theorem admitted_turn_exact_witness:
  "\<exists>t. runProgram (inspectRunnerTurn (exRuntime ''03'') ExPm ModeDirect (exDynamic ''child-1'') True (Some (Inr exPeeked)))
     exHost ([], exRedeemed) = (([], t), Inr (Inr exTurn)) \<and>
   getExecutionLease t exOwner ''child-1'' = Some (pt_lease exTurn) \<and> ls_executionTurnId (pt_lease exTurn) = Some ''work''"
proof -
  from exTurn_run obtain t where run: "runProgram (inspectRunnerTurn (exRuntime ''03'') ExPm ModeDirect
      (exDynamic ''child-1'') True (Some (Inr exPeeked))) exHost ([], exRedeemed) = (([], t), Inr (Inr exTurn))" by blast
  have "reachable exHost exRedeemed"
    using reachable_call[OF exGranted_reachable, of "RedeemGrant (exRedeem ''1'' ExPm)"] exRedeemed_result by simp
  then have "turnEntry exHost {exRuntime ''03''} ExPm ModeDirect exOwner ''child-1'' ''work'' (snd ([], exRedeemed)) False None"
    by (simp add: no_entry)
  from inspected[OF this exPeeked_run exRuntime_members(2)]
  have entry: "turnEntry exHost {exRuntime ''03''} ExPm ModeDirect exOwner ''child-1'' ''work'' (snd ([], exRedeemed)) False
      (Some (Inr exPeeked))"
    by (simp add: exDynamic_def foundRunning_def exPeeked_def exReady_def)
  have "exPeeked \<noteq> exTurn"
    by (simp add: exPeeked_def exTurn_def exReady_def exLease_def)
  moreover from admitted_turn_exact[OF entry run exRuntime_members(2)]
  have "(Some (Inr exPeeked) = Some (Inr exTurn) \<and> ([] :: StoreCall list list, t) = ([], exRedeemed) \<or>
      getExecutionLease t exOwner ''child-1'' = Some (pt_lease exTurn)) \<and>
    (ls_executionTurnId (pt_lease exTurn) = Some ''work'' \<or> Some (Inr exPeeked) = Some (Inr exTurn) \<and> False)"
    by (auto simp: exDynamic_def)
  ultimately show ?thesis using run by simp
qed

text \<open>
  Finding. The model is admitted to a turn for which the lease does not run: the lease runs for the turn
  \<open>work\<close>, the instructions of another turn inspect the session, and their entry, with the running
  lease, admits the model of that other turn, which the store would refuse without the entry.
\<close>

definition exSecondTurn :: DynamicContext where
  "exSecondTurn = (exDynamic ''child-1'')\<lparr>dx_turnId := Some ''second''\<rparr>"

lemma exSecondTurn_members:
  "resolveDynamicOwner (exRuntime minute) exSecondTurn = Inr exOwner" "requiredTurnId exSecondTurn = Inr ''second''"
  "dx_sessionId exSecondTurn = ''child-1''"
  using exRuntime_members(2)[of minute "''child-1''"]
  by (simp_all add: exSecondTurn_def resolveDynamicOwner_def ownerInputFromDynamic_def requiredTurnId_def exDynamic_def)

definition exBeginWork :: "string \<Rightarrow> BeginExecutionLeaseStoreCommand" where
  "exBeginWork turnId = \<lparr>bl_owner = exOwner, bl_childSessionId = ''child-1'', bl_executionTurnId = turnId,
     bl_occurredAt = exTime ''03'', bl_capabilityPlan = Some (prep_plan exPreparation)\<rparr>"

definition exWorking :: Tenants where
  "exWorking = fst (beginExecutionLease exRedeemed (exBeginWork ''work''))"

lemma exWorking_turn:
  "getExecutionLease exWorking exOwner ''child-1'' = Some (pt_lease exTurn)"
  "savedAt exWorking (pt_lease exTurn) = Some (pt_saved exTurn)"
  "snd (beginExecutionLease exWorking (exBeginWork ''second'')) = Inl LEASE_CLOSED"
  by (simp_all add: exWorking_def exBeginWork_def evaluation scenario states exRedeemed_def exReady_def exPreparation_def exTurn_def savedAt_def)

lemma second_turn_admitted:
  "runProgram (inspectRunnerTurn (exRuntime ''03'') ExPm ModeDirect exSecondTurn False None) exHost ([], exWorking) =
      (([], exWorking), Inr (Inr exTurn)) \<and>
    runProgram (guardedModel (exRuntime ''03'') ExPm ModeDirect exSecondTurn [] (Some (Inr exTurn))) exHost ([], exWorking) =
      (([], exWorking), Inr ()) \<and>
    dx_turnId exSecondTurn = Some ''second'' \<and> ls_executionTurnId (pt_lease exTurn) = Some ''work'' \<and>
    (\<exists>e. snd (runProgram (guardedModel (exRuntime ''03'') ExPm ModeDirect exSecondTurn [] None) exHost ([], exWorking)) = Inl e)"
proof -
  have lease: "ls_role (pt_lease exTurn) = ExPm" "ls_bootstrapTurnId (pt_lease exTurn) = ''bootstrap''"
    "ls_status (pt_lease exTurn) = LeaseRunning" "ls_executionTurnId (pt_lease exTurn) = Some ''work''"
    "pt_owner exTurn = exOwner" "pt_capabilities exTurn = exPreparation"
    "timestampSchema (exTime ''03'')"
    by (simp_all add: exTurn_def exLease_def timestampSchema_def)
  obtain saved where saved: "savedAt exWorking (pt_lease exTurn) = Some saved" "pt_saved exTurn = saved"
    using exWorking_turn(2) by blast
  have turn: "\<lparr>pt_owner = exOwner, pt_lease = pt_lease exTurn, pt_saved = saved, pt_capabilities = exPreparation\<rparr> = exTurn"
    using lease(5,6) saved(2) by (cases exTurn) simp
  obtain t' where refused: "beginExecutionLease exWorking \<lparr>bl_owner = exOwner, bl_childSessionId = ''child-1'',
      bl_executionTurnId = ''second'', bl_occurredAt = exTime ''03'', bl_capabilityPlan = Some (prep_plan exPreparation)\<rparr> =
      (t', Inl LEASE_CLOSED)"
    using exWorking_turn(3) by (cases "beginExecutionLease exWorking (exBeginWork ''second'')") (simp add: exBeginWork_def)
  have new: "\<exists>e. snd (runProgram (inspectRunnerTurn (exRuntime ''03'') ExPm ModeDirect exSecondTurn True None) exHost
      ([], exWorking)) = Inr (Inl e)"
    using refused saved(1)
    by (simp add: inspectRunnerTurn_def orReturn_def getLease_def loadSaved_def andThenOk_def beginTurn_def
        runtimeTimestamp_def beginExecution_def storeResult_def exSecondTurn_members exRuntime_members exWorking_turn(1) lease)
  then have "\<exists>e. snd (runProgram (guardedModel (exRuntime ''03'') ExPm ModeDirect exSecondTurn [] None) exHost ([], exWorking)) =
      Inl e"
    by (auto simp: guardedModel_def orReturn_def andThenOk_def exSecondTurn_members exWorking_turn(1) lease
        runProgram_andThen split: prod.splits)
  moreover have "runProgram (inspectRunnerTurn (exRuntime ''03'') ExPm ModeDirect exSecondTurn False None) exHost ([], exWorking) =
      (([], exWorking), Inr (Inr exTurn))"
    using saved(1) turn
    by (simp add: inspectRunnerTurn_def orReturn_def getLease_def loadSaved_def andThenOk_def exSecondTurn_members
        exRuntime_members exWorking_turn(1) lease)
  moreover have "runProgram (guardedModel (exRuntime ''03'') ExPm ModeDirect exSecondTurn [] (Some (Inr exTurn))) exHost
      ([], exWorking) = (([], exWorking), Inr ())"
    by (simp add: guardedModel_def inspectRunnerTurn_def orReturn_def andThenOk_def exSecondTurn_members exWorking_turn(1) lease)
  ultimately show ?thesis using lease(4) by (simp add: exSecondTurn_def)
qed

section \<open>The end of a turn\<close>

lemma closed_lease:
  assumes "store_ok h t" and "closeExecutionLease t c = (t', Inr l)"
  shows "getExecutionLease t' (cl_owner c) (cl_childSessionId c) = Some l" and "isTerminalStatus (ls_status l)"
proof -
  from assms(2) obtain ow l0 where l0: "findLease t (cl_childSessionId c) = Some (ow, l0)"
    by (auto simp: closeExecutionLease_def split: option.splits)
  note found = findLease_bucket[OF assms(1) l0]
  have closed: "isTerminalStatus (closeLeaseStatus (cl_status c))"
    by (cases "cl_status c") (simp_all add: isTerminalStatus_def)
  have "getExecutionLease t' (cl_owner c) (cl_childSessionId c) = Some l \<and> isTerminalStatus (ls_status l)"
    using assms(2) l0 found closed
    by (auto simp: closeExecutionLease_def getExecutionLease_bucketOf putLease_def terminalLease_def Let_def
        isTerminalStatus_def split: if_splits option.splits)
  then show "getExecutionLease t' (cl_owner c) (cl_childSessionId c) = Some l" "isTerminalStatus (ls_status l)" by blast+
qed

lemma terminal_stays: "isTerminalStatus a \<Longrightarrow> a \<le> b \<Longrightarrow> isTerminalStatus b"
  by (cases a; cases b) (simp_all add: isTerminalStatus_def less_eq_ExecutionLeaseStatus_def)


definition exWorker :: SessionContext where
  "exWorker = \<lparr>sx_current = Some exActor, sx_initiator = None, sx_sessionId = ''child-4'', sx_turnId = ''work'', sx_parent = None\<rparr>"

lemma exWorker_members:
  "resolveCurrentOwner (Some (ownerInputFromSession exWorker exChannel)) (rh_resolveOwner (exRuntime minute)) =
     Inr (exOwner, exActor)"
  "sx_sessionId exWorker = ''child-4''" "sx_turnId exWorker = ''work''"
  by code_simp+


end
