(* ===== verification/Runner_Properties.thy ===== *)
theory Runner_Properties
  imports Runner Turn_Properties
begin

text \<open>
  The properties of capability tools: a tool of the host runs only under a running lease that selects
  it, in a test only for the exact step that was started (and approved, when it has consequences),
  once per call; and what it did is recorded.
\<close>

section \<open>Starting a step\<close>

lemma begun_execution:
  assumes "beginTestCapabilityExecution t c = (t', Inr e)"
  shows "e = startedExecution c (if be_consequential c then Verified else NotRequired)"
    and "map_of (testExecutions (bucketOf t' (st_owner (be_step c)))) (testStepKey (be_step c)) = Some e"
    and "map_of (testExecutions (bucketOf t (st_owner (be_step c)))) (testStepKey (be_step c)) = None"
    and "be_consequential c \<Longrightarrow> \<exists>g. map_of (testInputGrants (bucketOf t' (st_owner (be_step c)))) (testStepKey (be_step c)) = Some g \<and>
      ig_consumedAt g = Some (be_occurredAt c) \<and> st_stepFingerprint (ig_step g) = st_stepFingerprint (be_step c)"
  by (cases rule: beginTestCapabilityExecution_cases[of t c];
      use assms in \<open>auto dest: bucketOf_Some simp: consumedGrant_def\<close>)+

text \<open>The step names exactly the call: the lease, its draft and test run, the tool and the input.\<close>

definition exactStep ::
  "stepTexts \<Rightarrow> ExecutionLeaseRecord \<Rightarrow> DurableCapabilityReference \<Rightarrow> OwnerScope \<Rightarrow> ToolCall \<Rightarrow> TestCapabilityStepScope \<Rightarrow> bool" where
  "exactStep x l reference ow call st \<longleftrightarrow>
     st_owner st = ow \<and> ls_workflow l = Some (stepScope st) \<and>
     ls_target l = DraftTarget (st_agentId st) (st_draftId st) (st_draftRevision st) \<and>
     st_leaseId st = ls_leaseId l \<and> st_expiresAt st = ls_expiresAt l \<and>
     st_childSessionId st = sx_sessionId (to_session call) \<and> st_executionTurnId st = sx_turnId (to_session call) \<and>
     st_callId st = to_callId call \<and> st_modelToolName st = to_toolName call \<and>
     st_capabilityId st = cd_capabilityId (dr_descriptor reference) \<and>
     st_schemaFingerprint st = cd_schemaFingerprint (dr_descriptor reference) \<and>
     st_stepFingerprint st = fingerprintTestStep x (stepIdentityJson st (to_toolInput call))"

lemma stepIdentityJson_unfingerprinted [simp]:
  "stepIdentityJson (st\<lparr>st_stepFingerprint := f\<rparr>) toolInput = stepIdentityJson st toolInput"
  by (simp add: stepIdentityJson_def)

lemma testStep_Inr:
  assumes "testStep x l reference ow call = Inr st"
  shows "exactStep x l reference ow call st" and "ls_role l = ExTestRunner"
    and "ls_executionTurnId l = Some (sx_turnId (to_session call))"
proof -
  from assms obtain agentId draftId draftRevision w testRunId where
    "ls_target l = DraftTarget agentId draftId draftRevision" "ls_workflow l = Some w" "sc_testRunId w = Some testRunId"
    by (auto simp: testStep_def split: BootstrapTarget.splits option.splits)
  with assms show "exactStep x l reference ow call st" "ls_role l = ExTestRunner"
    "ls_executionTurnId l = Some (sx_turnId (to_session call))"
    by (auto simp: testStep_def exactStep_def stepScope_def stepIdentityJson_def Let_def split: option.splits if_splits)
qed

section \<open>The claim of an execution\<close>

lemma executeOwner_Inr: "executeOwner d ctx lease channel = Inr ow \<Longrightarrow> ow = ls_owner lease"
  by (auto simp: executeOwner_def split: sum.splits if_splits)

lemma resolveDurableCapability_Inr:
  assumes "resolveDurableCapability d ow reference = Inr capability"
  shows "cd_capabilityId (rc_descriptor capability) = cd_capabilityId (dr_descriptor reference)"
    and "cd_schemaFingerprint (rc_descriptor capability) = cd_schemaFingerprint (dr_descriptor reference)"
    and "rc_modelToolName capability = dr_modelToolName reference"
  using assms by (auto simp: resolveDurableCapability_def split: sum.splits list.splits if_splits)

abbreviation (input) ownToolName :: "DurableCapabilityReference \<Rightarrow> ToolCall \<Rightarrow> ToolCall" where
  "ownToolName reference call \<equiv> call\<lparr>to_toolName := dr_modelToolName reference\<rparr>"

lemma startStep_run:
  assumes "runProgram (startStep x reference l role ow call now) h s = (s', Inr step)"
  shows "role \<noteq> ExTestRunner \<Longrightarrow> step = None \<and> s' = s"
    and "role = ExTestRunner \<Longrightarrow> \<exists>st e. step = Some st \<and> testStep x l reference ow (ownToolName reference call) = Inr st \<and>
      beginTestCapabilityExecution (seen h s 1)
        \<lparr>be_step = st, be_consequential = planConsequential l reference, be_occurredAt = now\<rparr> = (snd s', Inr e)"
  using assms
  by (auto simp: startStep_def orReturn_def Let_def snd_others prod_eq_iff map_sum_Inr split: sum.splits if_splits)

lemma claimExecution_run:
  assumes "runProgram (claimExecution d x reference lease role channel call) h s = (s', Inr (step, capability))"
  obtains ow l where "executeOwner d (to_session call) lease channel = Inr ow"
    "getExecutionLease (seen h s 1) ow (sx_sessionId (to_session call)) = Some l"
    "leaseAdmits lease reference (to_session call) l" "\<not> timeGe (rh_now d 0) (ls_expiresAt l)"
    "resolveDurableCapability d ow reference = Inr capability"
    "runProgram (startStep x reference l role ow call (rh_now d 0)) h (others h s) = (s', Inr step)"
  using assms
  by (auto simp: claimExecution_def Let_def snd_others runtimeTimestamp_def runProgram_andThen
      elim!: orReturn_run andThenOk_run split: option.splits if_splits prod.splits)

text \<open>C35. No tool of the host runs without authority: whenever a call gets as far as running its tool, with any
  other calls in between, the session of the resolved owner has the running, unexpired lease of this
  turn and target, whose plan selects this capability, and the tool that runs is the selected one. In a
  test run, moreover, the execution is on record as started for exactly this step, and when the
  capability has consequences, the recorded approval of a user for the very same step (lease, call,
  tool and input, by fingerprint) has been consumed by it.\<close>

theorem tool_runs_authorized:
  assumes "reachable h (snd s)"
    and "runProgram (claimExecution d x reference lease role channel call) h s = (s', Inr (step, capability))"
  shows "\<exists>ow l. executeOwner d (to_session call) lease channel = Inr ow \<and>
    getExecutionLease (seen h s 1) ow (sx_sessionId (to_session call)) = Some l \<and> ls_leaseId l = ls_leaseId lease \<and>
    ls_status l = LeaseRunning \<and> ls_executionTurnId l = Some (sx_turnId (to_session call)) \<and>
    ls_target l = ls_target lease \<and> \<not> timeGe (rh_now d 0) (ls_expiresAt l) \<and>
    (\<exists>plan e. ls_capabilityPlan l = Some plan \<and> e \<in> set (plan_selected plan) \<and> planSelects reference e) \<and>
    cd_capabilityId (rc_descriptor capability) = cd_capabilityId (dr_descriptor reference) \<and>
    cd_schemaFingerprint (rc_descriptor capability) = cd_schemaFingerprint (dr_descriptor reference) \<and>
    rc_modelToolName capability = dr_modelToolName reference \<and>
    (role \<noteq> ExTestRunner \<longrightarrow> step = None) \<and>
    (role = ExTestRunner \<longrightarrow> (\<exists>st e. step = Some st \<and> exactStep x l reference ow (ownToolName reference call) st \<and>
      map_of (testExecutions (bucketOf (snd s') ow)) (testStepKey st) = Some e \<and> tx_step e = st \<and> tx_status e = ExecStarted \<and>
      (planConsequential l reference \<longrightarrow> (\<exists>g. map_of (testInputGrants (bucketOf (snd s') ow)) (testStepKey st) = Some g \<and>
         ig_consumedAt g = Some (rh_now d 0) \<and> st_stepFingerprint (ig_step g) = st_stepFingerprint st))))"
proof -
  from assms(2) obtain ow l where owner: "executeOwner d (to_session call) lease channel = Inr ow"
    and lease: "getExecutionLease (seen h s 1) ow (sx_sessionId (to_session call)) = Some l"
      "leaseAdmits lease reference (to_session call) l" "\<not> timeGe (rh_now d 0) (ls_expiresAt l)"
    and capability: "resolveDurableCapability d ow reference = Inr capability"
    and step: "runProgram (startStep x reference l role ow call (rh_now d 0)) h (others h s) = (s', Inr step)"
    by (rule claimExecution_run)
  have plan: "\<exists>plan e. ls_capabilityPlan l = Some plan \<and> e \<in> set (plan_selected plan) \<and> planSelects reference e"
    using lease(2) by (auto simp: leaseAdmits_def list_ex_iff split: option.splits)
  have "\<exists>st e. step = Some st \<and> exactStep x l reference ow (ownToolName reference call) st \<and>
      map_of (testExecutions (bucketOf (snd s') ow)) (testStepKey st) = Some e \<and> tx_step e = st \<and> tx_status e = ExecStarted \<and>
      (planConsequential l reference \<longrightarrow> (\<exists>g. map_of (testInputGrants (bucketOf (snd s') ow)) (testStepKey st) = Some g \<and>
         ig_consumedAt g = Some (rh_now d 0) \<and> st_stepFingerprint (ig_step g) = st_stepFingerprint st))"
    if "role = ExTestRunner"
  proof -
    from startStep_run(2)[OF step that] obtain st e where st: "step = Some st"
      "testStep x l reference ow (ownToolName reference call) = Inr st"
      and begun: "beginTestCapabilityExecution (seen h (others h s) 1)
        \<lparr>be_step = st, be_consequential = planConsequential l reference, be_occurredAt = rh_now d 0\<rparr> = (snd s', Inr e)"
      by blast
    note exact = testStep_Inr(1)[OF st(2)]
    then have "st_owner st = ow" by (simp add: exactStep_def)
    with st(1) exact begun_execution[OF begun, simplified] show ?thesis by (auto simp: startedExecution_def)
  qed
  with owner lease plan resolveDurableCapability_Inr[OF capability] startStep_run(1)[OF step] show ?thesis
    by (intro exI[of _ ow] exI[of _ l]) (simp add: leaseAdmits_def)
qed

lemma claimed_step:
  assumes "runProgram (claimExecution d x reference lease ExTestRunner channel call) h s = (s', Inr (step, capability))"
  obtains l st e where "getExecutionLease (seen h s 1) (ls_owner lease) (sx_sessionId (to_session call)) = Some l"
    "step = Some st" "exactStep x l reference (ls_owner lease) (ownToolName reference call) st"
    "beginTestCapabilityExecution (seen h s 2) \<lparr>be_step = st, be_consequential = planConsequential l reference,
       be_occurredAt = rh_now d 0\<rparr> = (snd s', Inr e)"
proof -
  from assms obtain ow l where owner: "executeOwner d (to_session call) lease channel = Inr ow"
    and l: "getExecutionLease (seen h s 1) ow (sx_sessionId (to_session call)) = Some l"
    and step: "runProgram (startStep x reference l ExTestRunner ow call (rh_now d 0)) h (others h s) = (s', Inr step)"
    by (rule claimExecution_run)
  from startStep_run(2)[OF step refl] executeOwner_Inr[OF owner] l show thesis
    by (auto intro: that testStep_Inr(1) simp: numeral_2_eq_2)
qed

lemma execution_stays:
  assumes "reachable h t" and "map_of (testExecutions (bucketOf t ow)) k = Some e"
  obtains e' where "map_of (testExecutions (bucketOf (runCalls h t cs) ow)) k = Some e'" "executionLater e e'"
proof -
  have "bucketLater (bucketOf t ow) (bucketOf (runCalls h t cs) ow)"
    by (rule bucketOf_later) (rule reachable_later[OF assms(1)])
  then have "map_later executionLater (map_of (testExecutions (bucketOf t ow))) (map_of (testExecutions (bucketOf (runCalls h t cs) ow)))"
    by (simp add: bucketLater_def)
  from map_laterD[OF this assms(2)] that show thesis by blast
qed

text \<open>C36. A tool of a test run runs once per call: after a call has got as far as running its tool, no later
  call of the same session and turn with the same call id gets there again, for whatever tool and
  input, and whatever is called in between.\<close>

theorem tool_runs_once:
  assumes "reachable h (snd s)"
    and "runProgram (claimExecution d x reference lease ExTestRunner channel call) h s = (s', Inr r)"
    and "snd s2 = runCalls h (snd s') cs" and "ls_owner lease2 = ls_owner lease"
    and "sx_sessionId (to_session call2) = sx_sessionId (to_session call)"
    and "sx_turnId (to_session call2) = sx_turnId (to_session call)" and "to_callId call2 = to_callId call"
  shows "\<exists>e. snd (runProgram (claimExecution d2 x2 reference2 lease2 ExTestRunner channel2 call2) h s2) = Inl e"
proof (rule ccontr)
  assume "\<not> ?thesis"
  then obtain s3 r2 where second: "runProgram (claimExecution d2 x2 reference2 lease2 ExTestRunner channel2 call2) h s2 = (s3, Inr r2)"
    by (metis eq_snd_iff sumE)
  obtain step capability step2 capability2 where r: "r = (step, capability)" "r2 = (step2, capability2)" by (cases r; cases r2)
  from assms(2)[unfolded r] obtain l st e where
    one: "getExecutionLease (seen h s 1) (ls_owner lease) (sx_sessionId (to_session call)) = Some l" "step = Some st"
      "exactStep x l reference (ls_owner lease) (ownToolName reference call) st"
      "beginTestCapabilityExecution (seen h s 2) \<lparr>be_step = st, be_consequential = planConsequential l reference,
         be_occurredAt = rh_now d 0\<rparr> = (snd s', Inr e)" by (rule claimed_step)
  from second[unfolded r] obtain l2 st2 e2 where
    two: "getExecutionLease (seen h s2 1) (ls_owner lease2) (sx_sessionId (to_session call2)) = Some l2" "step2 = Some st2"
      "exactStep x2 l2 reference2 (ls_owner lease2) (ownToolName reference2 call2) st2"
      "beginTestCapabilityExecution (seen h s2 2) \<lparr>be_step = st2, be_consequential = planConsequential l2 reference2,
         be_occurredAt = rh_now d2 0\<rparr> = (snd s3, Inr e2)" by (rule claimed_step)
  note reach = seen_reachable[OF assms(1)] and begun = begun_execution[OF one(4), simplified]
  from seen_later[of 1 2 h s] obtain as where as: "seen h s 2 = runCalls h (seen h s 1) as" by auto
  from seen_later[of 0 1 h s2] seen_later[of 0 2 h s2] obtain bs bs' where
    bs: "seen h s2 1 = runCalls h (snd s2) bs" "seen h s2 2 = runCalls h (snd s2) bs'" by auto
  have s': "snd s' = callState h (seen h s 2) (BeginTestExecution \<lparr>be_step = st, be_consequential = planConsequential l reference,
      be_occurredAt = rh_now d 0\<rparr>)" using one(4) by simp
  then have "seen h s2 1 = runCalls h (seen h s 1) (as @ BeginTestExecution \<lparr>be_step = st,
      be_consequential = planConsequential l reference, be_occurredAt = rh_now d 0\<rparr> # cs @ bs)"
    unfolding bs(1) assms(3) as by (simp add: runCalls_append)
  with lease_kept[OF reach one(1)] two(1) assms(4,5) have "leaseLater l l2" by simp
  then have "stepScope st2 = stepScope st" using one(3) two(3) by (auto simp: leaseLater_def sameBinding_def exactStep_def)
  then have key: "testStepKey st2 = testStepKey st"
    using one(3) two(3) assms(5-7) by (auto simp: exactStep_def testStepKey_def stepScope_def)
  have owners: "st_owner st = ls_owner lease" "st_owner st2 = ls_owner lease"
    using one(3) two(3) assms(4) by (simp_all add: exactStep_def)
  have "reachable h (snd s')" unfolding s' by (rule reachable_call) (rule reach)
  then obtain e' where "map_of (testExecutions (bucketOf (runCalls h (snd s') (cs @ bs')) (st_owner st))) (testStepKey st) = Some e'"
    by (rule execution_stays[OF _ begun(2)])
  with begun_execution(3)[OF two(4), simplified] show False
    by (simp add: bs assms(3) key owners runCalls_append)
qed

section \<open>The record of what the tool did\<close>

lemma completed_execution:
  assumes "completeTestCapabilityExecution t (completion st status now code) = (t', Inr e)"
  shows "map_of (testExecutions (bucketOf t' (st_owner st))) (testStepKey st) = Some e"
    and "tx_status e = completeExecStatus status"
proof -
  have key: "completionKey (completion st status now code) = testStepKey st" "ce_owner (completion st status now code) = st_owner st"
    "ce_status (completion st status now code) = status"
    by (simp_all add: completionKey_def completion_def testStepKey_def)
  from assms show "map_of (testExecutions (bucketOf t' (st_owner st))) (testStepKey st) = Some e"
    "tx_status e = completeExecStatus status"
    by (auto simp: completeTestCapabilityExecution_def key completedExecution_def dest: bucketOf_Some
        split: option.splits if_splits)
qed

text \<open>A failure is reported as what was thrown only if it is on record.\<close>

lemma recordFailure_run:
  assumes "runProgram (recordFailure d parseErrorName (Some st) e) h s = (s', r)"
  shows "(\<exists>y. completeTestCapabilityExecution (seen h s 1)
        (completion st CompleteFailed (rh_now d 2) (Some (thrownCode parseErrorName e))) = (snd s', Inr y) \<and> r = Inl e) \<or> r = Inl ClockThrew \<or> (\<exists>e'. r = Inl (PolicyRefused e'))"
  using assms
  by (auto simp: recordFailure_def orReturn_def runtimeTimestamp_def Let_def snd_others prod_eq_iff
      split: if_splits sum.splits)

lemma recordFailure_not_Inr: "runProgram (recordFailure d parseErrorName (Some st) e) h s \<noteq> (s', Inr v)"
  using recordFailure_run by fastforce

lemma recordFailure_thrown:
  "runProgram (recordFailure d parseErrorName (Some st) e) h s = (s', Inl (HostThrew name)) \<Longrightarrow> e = HostThrew name \<and>
    (\<exists>y. completeTestCapabilityExecution (seen h s 1)
       (completion st CompleteFailed (rh_now d 2) (Some (thrownCode parseErrorName e))) = (snd s', Inr y))"
  by (drule recordFailure_run) auto

lemma recordOutcome_returned:
  assumes "runProgram (recordOutcome d parseErrorName (Some st) outcome) h s = (s', Inr v)"
  shows "outcome = ToolReturned v \<and> (\<exists>y.
    completeTestCapabilityExecution (seen h s 1) (completion st CompleteSucceeded (rh_now d 1) None) = (snd s', Inr y))"
  using assms
  by (auto simp: recordOutcome_def runtimeTimestamp_def Let_def snd_others recordFailure_not_Inr prod_eq_iff[of "(_, _)" "(_, _)"]
      prod_eq_iff[of "completeTestCapabilityExecution _ _"] split: ToolOutcome.splits if_splits sum.splits)

lemma recordOutcome_thrown:
  assumes "runProgram (recordOutcome d parseErrorName (Some st) outcome) h s = (s', Inl (HostThrew name))"
  shows "outcome = ToolThrew name \<and> (\<exists>y.
    completeTestCapabilityExecution (seen h s 1)
      (completion st CompleteFailed (rh_now d 2) (Some (thrownCode parseErrorName (HostThrew name)))) = (snd s', Inr y))"
  using assms
  by (auto simp: recordOutcome_def runtimeTimestamp_def Let_def dest!: recordFailure_thrown
      split: ToolOutcome.splits if_splits sum.splits)

lemma map_sum_Inl: "map_sum g f x = Inl y \<longleftrightarrow> (\<exists>v. x = Inl v \<and> y = g v)"
  by (cases x) auto

lemma resolve_never_host: "resolveDurableCapability d ow reference \<noteq> Inl (HostThrew name)"
  by (auto simp: resolveDurableCapability_def split: sum.splits list.splits if_splits)

lemma startStep_never_host: "runProgram (startStep x reference l role ow call now) h s \<noteq> (s1, Inl (HostThrew name))"
  by (auto simp: startStep_def orReturn_def Let_def map_sum_Inl split: sum.splits)

lemma claim_never_host:
  "runProgram (claimExecution d x reference lease role channel call) h s \<noteq> (s1, Inl (HostThrew name))"
  by (auto simp: claimExecution_def executeOwner_def orReturn_def andThenOk_def runProgram_andThen runtimeTimestamp_def
      Let_def startStep_never_host resolve_never_host split: sum.splits option.splits if_splits prod.splits)

lemma executeDurableCapability_run:
  assumes "runProgram (executeDurableCapability d x parseErrorName run reference lease role channel call) h s = (s', r)"
    and "r = Inr v \<or> r = Inl (HostThrew name)"
  shows "\<exists>s1 step capability. runProgram (claimExecution d x reference lease role channel call) h s = (s1, Inr (step, capability)) \<and>
    runProgram (recordOutcome d parseErrorName step (run capability)) h s1 = (s', r)"
  using assms claim_never_host[of d x reference lease role channel call h s s' name]
  by (auto simp: executeDurableCapability_def andThenOk_def runProgram_andThen split: sum.splits prod.splits)

text \<open>C37. What a tool did in a test run is on record: when a call of a test run returns a value, the tool returned
  it and the execution of exactly this step is recorded as succeeded; when the call throws what the
  tool threw, the execution is recorded as failed.\<close>

theorem outcome_recorded:
  assumes "reachable h (snd s)"
    and "runProgram (executeDurableCapability d x parseErrorName run reference lease ExTestRunner channel call) h s = (s', r)"
    and "r = Inr v \<or> r = Inl (HostThrew name)"
  shows "\<exists>l st capability e. getExecutionLease (seen h s 1) (ls_owner lease) (sx_sessionId (to_session call)) = Some l \<and>
    exactStep x l reference (ls_owner lease) (ownToolName reference call) st \<and>
    map_of (testExecutions (bucketOf (snd s') (ls_owner lease))) (testStepKey st) = Some e \<and> tx_step e = st \<and>
    (r = Inr v \<longrightarrow> run capability = ToolReturned v \<and> tx_status e = ExecSucceeded) \<and>
    (r = Inl (HostThrew name) \<longrightarrow> run capability = ToolThrew name \<and> tx_status e = ExecFailed)"
proof -
  obtain s1 step capability where claim: "runProgram (claimExecution d x reference lease ExTestRunner channel call) h s =
      (s1, Inr (step, capability))"
    and recorded: "runProgram (recordOutcome d parseErrorName step (run capability)) h s1 = (s', r)"
    using executeDurableCapability_run[OF assms(2,3)] by blast
  from claim obtain l st e where
    l: "getExecutionLease (seen h s 1) (ls_owner lease) (sx_sessionId (to_session call)) = Some l" and step: "step = Some st"
    and exact: "exactStep x l reference (ls_owner lease) (ownToolName reference call) st"
    and begun: "beginTestCapabilityExecution (seen h s 2) \<lparr>be_step = st, be_consequential = planConsequential l reference,
       be_occurredAt = rh_now d 0\<rparr> = (snd s1, Inr e)" by (rule claimed_step)
  note started = begun_execution(1,2)[OF begun, simplified]
  have ow: "st_owner st = ls_owner lease" using exact by (simp add: exactStep_def)
  from runProgram_calls[of "recordOutcome d parseErrorName step (run capability)" h s1] recorded obtain cs where
    cs: "snd s' = runCalls h (snd s1) cs" by auto
  have "reachable h (snd s1)" using runProgram_reachable[OF assms(1)] claim by (metis fst_conv)
  then obtain e' where e': "map_of (testExecutions (bucketOf (snd s') (ls_owner lease))) (testStepKey st) = Some e'"
      "executionLater e e'"
    using execution_stays[OF _ started(2)] cs ow by metis
  have "tx_step e = st" using started(1) by (simp add: startedExecution_def)
  with e'(2) have kept: "tx_step e' = st" by (auto simp: executionLater_def)
  have "run capability = ToolReturned v \<and> tx_status e' = ExecSucceeded" if "r = Inr v"
    using recordOutcome_returned[OF recorded[unfolded step that]] e'(1) ow completed_execution by fastforce
  moreover have "run capability = ToolThrew name \<and> tx_status e' = ExecFailed" if "r = Inl (HostThrew name)"
    using recordOutcome_thrown[OF recorded[unfolded step that]] e'(1) ow completed_execution by fastforce
  ultimately show ?thesis using l exact e'(1) kept by blast
qed

section \<open>Approvals\<close>

text \<open>The approval of a lowered tool is the composed approval: for a capability with consequences in a test
  run, and a call of the lease's owner whose capability still resolves, the request and the response of
  the lowered tool are the host's own policy composed with the builder's exact-step approval, as
  \<open>composeConsequentialTestApproval\<close> defines it.\<close>

theorem durable_approval_composed:
  assumes "resolveCurrentOwner (Some (ownerInputFromSession (to_session call) channel)) (rh_resolveOwner d) =
      Inr (ls_owner lease, actor)"
    and "resolveCurrentOwner (Some ((ownerInputFromSession (to_session call) channel)\<lparr>or_current := Some (re_principal response)\<rparr>))
      (rh_resolveOwner d) = Inr (ls_owner lease, responder)"
    and "resolveDurableCapability d (ls_owner lease) reference = Inr capability" and "dr_consequential reference"
  shows "requestDurableCapabilityApproval d x inputPolicy hostRequest reference lease ExTestRunner channel call =
      composedRequest hostRequest (testStep x lease reference (ls_owner lease) call) inputPolicy \<and>
    respondDurableCapabilityApproval d x inputPolicy hostResponse reference lease ExTestRunner channel call response =
      composedResponse hostResponse (testStep x lease reference (ls_owner lease) call) inputPolicy
        (\<lambda>step. orReturn (runtimeTimestamp d 0) (\<lambda>now. DoAuthorizeInput
          \<lparr>au_step = step, au_requestId = re_interactionId response, au_principalId = sa_principalId (re_principal response),
           au_principalType = sa_principalType (re_principal response), au_occurredAt = now\<rparr> (\<lambda>r. Return (Inr r))))"
proof
  show "requestDurableCapabilityApproval d x inputPolicy hostRequest reference lease ExTestRunner channel call =
      composedRequest hostRequest (testStep x lease reference (ls_owner lease) call) inputPolicy"
    using assms by (simp add: requestDurableCapabilityApproval_def composedRequest_def inputAvailability_def
        split: sum.split option.split TestInputAvailability.split)
qed (use assms in \<open>simp add: respondDurableCapabilityApproval_def composedResponse_def orReturn_def andThenOk_def
        runtimeTimestamp_def split: sum.split option.split ResponseDecision.split\<close>)

lemma authorized_input:
  assumes "authorizeTestInput t c = (t', Inr g)"
  shows "map_of (testInputGrants (bucketOf t' (st_owner (au_step c)))) (testStepKey (au_step c)) = Some g \<and>
    ig_step g = au_step c \<and> ig_responderPrincipalId g = au_principalId c \<and> au_principalType c = ''user'' \<and>
    ig_requestId g = au_requestId c \<and> ig_consumedAt g = None"
  using assms by (auto simp: inputMalformed_def authorizeTestInput_def Let_def split: if_splits option.splits)

text \<open>Only the owner approves a step: when a response to the approval of a capability with consequences is
  allowed, with any other calls in between, the responding user resolves to the owner of the lease,
  and an unused approval by that user is on record for exactly the step of this call.\<close>

theorem approval_by_owner:
  assumes "reachable h (snd s)" and "dr_consequential reference"
    and "runProgram (respondDurableCapabilityApproval d x inputPolicy hostResponse reference lease ExTestRunner channel call response)
      h s = (s', Inr ResponseAllowed)"
  shows "\<exists>responder st g. resolveCurrentOwner (Some ((ownerInputFromSession (to_session call) channel)
      \<lparr>or_current := Some (re_principal response)\<rparr>)) (rh_resolveOwner d) = Inr (ls_owner lease, responder) \<and>
    testStep x lease reference (ls_owner lease) call = Inr st \<and>
    map_of (testInputGrants (bucketOf (snd s') (ls_owner lease))) (testStepKey st) = Some g \<and> ig_step g = st \<and>
    ig_responderPrincipalId g = sa_principalId (re_principal response) \<and> sa_principalType (re_principal response) = ''user'' \<and>
    ig_requestId g = re_interactionId response \<and> ig_consumedAt g = None"
proof -
  from assms(2,3) obtain responder st where owner: "resolveCurrentOwner (Some ((ownerInputFromSession (to_session call) channel)
      \<lparr>or_current := Some (re_principal response)\<rparr>)) (rh_resolveOwner d) = Inr (ls_owner lease, responder)"
    and st: "testStep x lease reference (ls_owner lease) call = Inr st"
    and run: "runProgram (DoAuthorizeInput \<lparr>au_step = st, au_requestId = re_interactionId response,
        au_principalId = sa_principalId (re_principal response),
        au_principalType = sa_principalType (re_principal response), au_occurredAt = rh_now d 0\<rparr>
       (\<lambda>authorized. Return (Inr (case authorized of
          Inl e \<Rightarrow> ResponseRejected (policyCode e) | Inr _ \<Rightarrow> ResponseAllowed)) :: ResponseDecision RunnerResult program)) h s =
      (s', Inr ResponseAllowed)"
    by (auto simp: respondDurableCapabilityApproval_def runtimeTimestamp_def elim!: orReturn_run
        split: if_splits sum.splits option.splits ResponseDecision.splits prod.splits)
  let ?c = "\<lparr>au_step = st, au_requestId = re_interactionId response, au_principalId = sa_principalId (re_principal response),
        au_principalType = sa_principalType (re_principal response), au_occurredAt = rh_now d 0\<rparr>"
  from run obtain g where g: "authorizeTestInput (seen h s 1) ?c = (snd s', Inr g)"
    by (auto simp: Let_def snd_others prod_eq_iff split: sum.splits)
  have "st_owner st = ls_owner lease" using testStep_Inr(1)[OF st] by (simp add: exactStep_def)
  with g have "map_of (testInputGrants (bucketOf (snd s') (ls_owner lease))) (testStepKey st) = Some g \<and> ig_step g = st \<and>
    ig_responderPrincipalId g = sa_principalId (re_principal response) \<and> sa_principalType (re_principal response) = ''user'' \<and>
    ig_requestId g = re_interactionId response \<and> ig_consumedAt g = None"
    using authorized_input[OF g] by simp
  with owner st show ?thesis by blast
qed

section \<open>The properties at work\<close>

text \<open>The test runner of the example calls its mail tool, after the owner has approved the call.\<close>

definition exMail :: RunnerCapabilityDescriptor where
  "exMail = exDescriptor\<lparr>cd_schemaFingerprint := ''f''\<rparr>"

definition exMailTool :: ResolvedRunnerCapability where
  "exMailTool = \<lparr>rc_descriptor = exMail, rc_modelToolName = ''mail_tool'', rc_tool = exAdapter\<lparr>ta_eveBrand := True\<rparr>,
     rc_compatibleSchemaFingerprints = None, rc_capabilityBrand = True\<rparr>"

definition exReference :: DurableCapabilityReference where
  "exReference = \<lparr>dr_descriptor = exMail, dr_modelToolName = ''mail_tool'', dr_mode = ModeTest, dr_consequential = True\<rparr>"

definition exRunner :: "string \<Rightarrow> RuntimeHost" where
  "exRunner minute = (exRuntime minute)\<lparr>rh_registry := \<lambda>_ _ _. Some [Resolved exMailTool]\<rparr>"

definition exStepTexts :: stepTexts where
  "exStepTexts = \<lparr>stt_texts = \<lparr>sha256Text = (\<lambda>_. concat (replicate 64 ''c'')), otherNumberText = (\<lambda>_. [])\<rparr>,
     stt_collate = map of_char\<rparr>"

definition exCall :: ToolCall where
  "exCall = \<lparr>to_session = exWorker, to_callId = ''call-1'', to_toolName = ''mail_tool'', to_toolInput = JObject []\<rparr>"

definition exResponse :: ApprovalResponse where
  "exResponse = \<lparr>re_principal = exActor, re_interactionId = ''request''\<rparr>"

lemma exRunner_members:
  "rh_now (exRunner minute) k = exTime minute" "to_session exCall = exWorker" "to_callId exCall = ''call-1''"
  "ownToolName exReference exCall = exCall" "dr_consequential exReference"
  "rh_resolveOwner (exRunner minute) = rh_resolveOwner (exRuntime minute)"
  "ls_owner exLease4 = exOwner" "ls_expiresAt exLease4 = exTime ''20''" "planConsequential exLease4 exReference"
  "leaseAdmits exLease4 exReference exWorker exLease4"
  by (simp_all add: exRunner_def exRuntime_def exCall_def exReference_def exLease4_def exLease_def planConsequential_def
      exPlan_def exMail_def exDescriptor_def leaseAdmits_def exWorker_def planSelects_def)

lemma exResolve: "resolveDurableCapability (exRunner minute) exOwner exReference = Inr exMailTool"
proof -
  have "prepareCapabilities (\<lambda>_ _ _. Some [Resolved exMailTool]) \<lparr>tenantKey = ''t'', ownerKey = ''u''\<rparr>
      [referenceRequirement exReference] ModeTest = Inr \<lparr>prep_plan = exPlan, prep_resolved = [exMailTool],
        prep_optionalOmissionNote = None, prep_disclosureRequired = False\<rparr>" by code_simp
  then show ?thesis
    by (simp add: resolveDurableCapability_def exRunner_def exOwner_def exReference_def exMailTool_def exPlan_def exMail_def
        exDescriptor_def)
qed

lemma exStep_built: "testStep exStepTexts exLease4 exReference exOwner exCall = Inr exStep"
  by (simp add: testStep_def exLease4_def exLease_def exPlan_def exReference_def exMail_def exDescriptor_def exCall_def
      exWorker_def planSelects_def exStep_def fingerprintTestStep_def exStepTexts_def exToken_def Let_def)

lemma exOwner_executes: "executeOwner (exRunner minute) exWorker exLease4 exChannel = Inr exOwner"
  using exWorker_members(1)[of minute] by (simp add: executeOwner_def exRunner_members)

lemma exAuthorized_lease: "getExecutionLease exAuthorized exOwner ''child-4'' = Some exLease4"
  by (simp add: evaluation scenario states exAuthorized_def exLease4_def)

lemma exAuthorized_reachable: "reachable exHost exAuthorized"
  unfolding exAuthorized_def by (rule reachable_call) (rule exStates_reachable)

lemma exClaim:
  "\<exists>t. runProgram (claimExecution (exRunner ''06'') exStepTexts exReference exLease4 ExTestRunner exChannel exCall) exHost
     ([], exAuthorized) = (([], t), Inr (Some exStep, exMailTool))"
proof -
  from exAuthorized_begin obtain t e where begun: "beginTestCapabilityExecution exAuthorized exBeginTest = (t, Inr e)" by blast
  have command: "\<lparr>be_step = exStep, be_consequential = True, be_occurredAt = exTime ''06''\<rparr> = exBeginTest"
    by (simp add: exBeginTest_def)
  have "timestampSchema (exTime ''06'')" "\<not> timeGe (exTime ''06'') (exTime ''20'')"
    by (simp_all add: timestampSchema_def timeLe_def)
  then show ?thesis
    using begun exAuthorized_lease
    by (simp add: claimExecution_def startStep_def orReturn_def andThenOk_def runtimeTimestamp_def exRunner_members
        exOwner_executes exWorker_members exStep_built exResolve command)
qed

theorem tool_runs_authorized_witness:
  "\<exists>t g. runProgram (claimExecution (exRunner ''06'') exStepTexts exReference exLease4 ExTestRunner exChannel exCall) exHost
     ([], exAuthorized) = (([], t), Inr (Some exStep, exMailTool)) \<and>
   map_of (testInputGrants (bucketOf t exOwner)) (testStepKey exStep) = Some g \<and> ig_consumedAt g = Some (exTime ''06'')"
proof -
  from exClaim obtain t where run: "runProgram (claimExecution (exRunner ''06'') exStepTexts exReference exLease4 ExTestRunner
      exChannel exCall) exHost ([], exAuthorized) = (([], t), Inr (Some exStep, exMailTool))" by blast
  have "reachable exHost (snd ([], exAuthorized))" by (simp add: exAuthorized_reachable)
  from tool_runs_authorized[OF this run] run show ?thesis
    by (auto simp: exRunner_members exWorker_members exAuthorized_lease exOwner_executes)
qed

theorem tool_runs_once_witness:
  "\<exists>t e. runProgram (claimExecution (exRunner ''06'') exStepTexts exReference exLease4 ExTestRunner exChannel exCall) exHost
     ([], exAuthorized) = (([], t), Inr (Some exStep, exMailTool)) \<and>
   snd (runProgram (claimExecution (exRunner ''07'') exStepTexts exReference exLease4 ExTestRunner exChannel exCall) exHost
     ([], t)) = Inl e"
proof -
  from exClaim obtain t where run: "runProgram (claimExecution (exRunner ''06'') exStepTexts exReference exLease4 ExTestRunner
      exChannel exCall) exHost ([], exAuthorized) = (([], t), Inr (Some exStep, exMailTool))" by blast
  have "reachable exHost (snd ([], exAuthorized))" by (simp add: exAuthorized_reachable)
  from tool_runs_once[OF this run, of "([], t)" "[]"] run show ?thesis by auto
qed

lemma exDone: "\<exists>t e. completeTestCapabilityExecution (fst (beginTestCapabilityExecution exAuthorized exBeginTest))
    (completion exStep CompleteSucceeded (exTime ''06'') None) = (t, Inr e)"
  by (simp add: evaluation scenario states exAuthorized_def exLease4_def completion_def)

theorem outcome_recorded_witness:
  "\<exists>t e. runProgram (executeDurableCapability (exRunner ''06'') exStepTexts ''ZodError'' (\<lambda>_. ToolReturned ''sent'') exReference
     exLease4 ExTestRunner exChannel exCall) exHost ([], exAuthorized) = (([], t), Inr ''sent'') \<and>
   map_of (testExecutions (bucketOf t exOwner)) (testStepKey (tx_step e)) = Some e \<and> st_callId (tx_step e) = ''call-1'' \<and>
   tx_status e = ExecSucceeded"
proof -
  from exClaim obtain t where claim: "runProgram (claimExecution (exRunner ''06'') exStepTexts exReference exLease4 ExTestRunner
      exChannel exCall) exHost ([], exAuthorized) = (([], t), Inr (Some exStep, exMailTool))" by blast
  from claimed_step[OF this] obtain e where "beginTestCapabilityExecution exAuthorized
      \<lparr>be_step = exStep, be_consequential = True, be_occurredAt = exTime ''06''\<rparr> = (t, Inr e)"
    by (auto simp: exRunner_members exWorker_members exAuthorized_lease)
  then have "fst (beginTestCapabilityExecution exAuthorized exBeginTest) = t" by (simp add: exBeginTest_def)
  with exDone obtain t' e' where "completeTestCapabilityExecution t (completion exStep CompleteSucceeded (exTime ''06'') None) =
      (t', Inr e')" by auto
  moreover have "timestampSchema (exTime ''06'')" by (simp add: timestampSchema_def)
  ultimately have run: "runProgram (executeDurableCapability (exRunner ''06'') exStepTexts ''ZodError'' (\<lambda>_. ToolReturned ''sent'')
      exReference exLease4 ExTestRunner exChannel exCall) exHost ([], exAuthorized) = (([], t'), Inr ''sent'')"
    using claim by (simp add: executeDurableCapability_def andThenOk_def runProgram_andThen recordOutcome_def
        runtimeTimestamp_def exRunner_members)
  have "reachable exHost (snd ([], exAuthorized))" by (simp add: exAuthorized_reachable)
  from outcome_recorded[OF this run, of "''sent''" None] run show ?thesis
    by (auto simp: exRunner_members exWorker_members exAuthorized_lease exactStep_def)
qed

definition exPolicy :: VerifiedTestInputPolicy where
  "exPolicy = \<lparr>ip_availability = (\<lambda>_. Inr InputAvailable), ip_authorizeResponse = None\<rparr>"

lemma exResponder:
  "resolveCurrentOwner (Some ((ownerInputFromSession exWorker exChannel)\<lparr>or_current := Some (re_principal exResponse)\<rparr>))
     (rh_resolveOwner (exRuntime minute)) = Inr (exOwner, exActor)"
  by code_simp

theorem durable_approval_composed_witness:
  "requestDurableCapabilityApproval (exRunner ''05'') exStepTexts (Some exPolicy) (None :: unit ApprovalStatus RunnerResult option)
     exReference exLease4 ExTestRunner exChannel exCall = Inr UserApproval"
  using durable_approval_composed[of exCall exChannel "exRunner ''05''" exLease4 exActor exResponse exActor exReference exMailTool
      exStepTexts "Some exPolicy" "None :: unit ApprovalStatus RunnerResult option" None]
  by (simp add: exRunner_members exWorker_members exResponder exResolve exStep_built composedRequest_def hostAnswer_def
      inputAvailability_def exPolicy_def)

lemma exApprove: "\<exists>t g. authorizeTestInput exState5 exAuthorize = (t, Inr g)"
  by (simp add: evaluation scenario states exLease4_def)

theorem approval_by_owner_witness:
  "\<exists>t g. runProgram (respondDurableCapabilityApproval (exRunner ''05'') exStepTexts (Some exPolicy) None exReference exLease4
     ExTestRunner exChannel exCall exResponse) exHost ([], exState5) = (([], t), Inr ResponseAllowed) \<and>
   map_of (testInputGrants (bucketOf t exOwner)) (testStepKey exStep) = Some g \<and> ig_responderPrincipalId g = ''user-1''"
proof -
  have command: "\<lparr>au_step = exStep, au_requestId = re_interactionId exResponse, au_principalId = sa_principalId exActor,
      au_principalType = sa_principalType exActor, au_occurredAt = exTime ''05''\<rparr> = exAuthorize"
    by (simp add: exAuthorize_def exResponse_def exActor_def)
  have "re_principal exResponse = exActor" "timestampSchema (exTime ''05'')"
    by (simp_all add: exResponse_def timestampSchema_def)
  with exApprove have run: "\<exists>t. runProgram (respondDurableCapabilityApproval (exRunner ''05'') exStepTexts (Some exPolicy) None
      exReference exLease4 ExTestRunner exChannel exCall exResponse) exHost ([], exState5) = (([], t), Inr ResponseAllowed)"
    using exResponder[of "''05''"]
    by (auto simp: respondDurableCapabilityApproval_def orReturn_def runtimeTimestamp_def exRunner_members exWorker_members
        exResolve exStep_built hostAnswer_def policyResponse_def exPolicy_def command)
  then obtain t where run: "runProgram (respondDurableCapabilityApproval (exRunner ''05'') exStepTexts (Some exPolicy) None
      exReference exLease4 ExTestRunner exChannel exCall exResponse) exHost ([], exState5) = (([], t), Inr ResponseAllowed)" ..
  have "reachable exHost (snd ([], exState5))" by (simp add: exStates_reachable)
  from approval_by_owner[OF this exRunner_members(5) run] run show ?thesis
    by (auto simp: exRunner_members exStep_built exResponse_def exActor_def)
qed

section \<open>Finding\<close>

text \<open>Finding. A call can use up its approval without a tool: the capability is resolved again only after the
  step was started, and outside of the block that records failures. When it does not resolve any
  more, the tool never runs, but the execution stays on record as started, with the approval consumed:
  the code that would record the failure is not reached.\<close>

theorem started_without_tool:
  "\<exists>t e g. runProgram (claimExecution ((exRunner ''06'')\<lparr>rh_registry := \<lambda>_ _ _. None\<rparr>) exStepTexts exReference exLease4
     ExTestRunner exChannel exCall) exHost ([], exAuthorized) =
     (([], t), Inl (CapabilityUnprepared CapabilityRegistryContractViolation)) \<and>
   map_of (testExecutions (bucketOf t exOwner)) (testStepKey exStep) = Some e \<and> tx_status e = ExecStarted \<and>
   map_of (testInputGrants (bucketOf t exOwner)) (testStepKey exStep) = Some g \<and> ig_consumedAt g \<noteq> None"
proof -
  from exAuthorized_begin obtain t e where begun: "beginTestCapabilityExecution exAuthorized exBeginTest = (t, Inr e)" by blast
  have command: "\<lparr>be_step = exStep, be_consequential = True, be_occurredAt = exTime ''06''\<rparr> = exBeginTest"
    "be_step exBeginTest = exStep" "be_consequential exBeginTest" "st_owner exStep = exOwner"
    by (simp_all add: exBeginTest_def exStep_def)
  have "timestampSchema (exTime ''06'')" "\<not> timeGe (exTime ''06'') (exTime ''20'')"
    by (simp_all add: timestampSchema_def timeLe_def)
  moreover have "executeOwner ((exRunner ''06'')\<lparr>rh_registry := \<lambda>_ _ _. None\<rparr>) exWorker exLease4 exChannel = Inr exOwner"
    using exOwner_executes[of "''06''"] by (simp add: executeOwner_def)
  moreover have "resolveDurableCapability ((exRunner ''06'')\<lparr>rh_registry := \<lambda>_ _ _. None\<rparr>) exOwner exReference =
      Inl (CapabilityUnprepared CapabilityRegistryContractViolation)"
    by (simp add: resolveDurableCapability_def prepareCapabilities_def)
  ultimately have "runProgram (claimExecution ((exRunner ''06'')\<lparr>rh_registry := \<lambda>_ _ _. None\<rparr>) exStepTexts exReference exLease4
     ExTestRunner exChannel exCall) exHost ([], exAuthorized) =
     (([], t), Inl (CapabilityUnprepared CapabilityRegistryContractViolation))"
    using begun exAuthorized_lease
    by (simp add: claimExecution_def startStep_def orReturn_def andThenOk_def runtimeTimestamp_def exRunner_members
        exWorker_members exStep_built command(1))
  with begun_execution(1,2,4)[OF begun] command(2-4) show ?thesis by (auto simp: startedExecution_def)
qed

end
