(* ===== verification/Microvm_Lease.thy ===== *)
theory Microvm_Lease
  imports Json_Roundtrip
begin

text \<open>
  The lease of the Lambda MicroVM backend (\<open>packages/eve-aws-lambda-microvms/src/lease.ts\<close>): one
  JSON object in an object store, taken, renewed and released by conditional writes on its ETag.

  The object store is an argument, the record \<open>Storage\<close> of the three operations of
  \<open>AwsLambdaMicrovmStorage\<close> (\<open>storage.ts\<close>) the lease uses; what the lease relies on is the locale
  \<open>conditional_storage\<close>. A runtime is the state one call of \<open>acquireAwsLambdaMicrovmLease\<close> keeps in
  its closure. Every \<open>await\<close> is a point where other runtimes run: a request is sent, served by the
  store and answered in three steps, an answer may be lost, and a request whose caller gave up
  may still be served later. An instant is a number of milliseconds, \<open>None\<close> is the deadline
  \<open>Infinity\<close>.
\<close>

section \<open>The object store\<close>

type_synonym etag = string

record StoredJson =
  so_etag :: etag
  so_value :: JsonValue

record PutCondition =
  pcn_etag :: "etag option"
  pcn_absent :: bool

text \<open>What \<open>isPreconditionFailed\<close> reads of a thrown value; \<open>None\<close> is a value that is no object.\<close>

record ErrorObject =
  err_name :: "string option"
  err_httpStatusCode :: "int option"
  err_message :: "string option"

fun hasInfix :: "string \<Rightarrow> string \<Rightarrow> bool" where
  "hasInfix needle [] = (needle = [])"
| "hasInfix needle (c # cs) = (startsWith (c # cs) needle \<or> hasInfix needle cs)"

definition isPreconditionFailed :: "ErrorObject option \<Rightarrow> bool" where
  "isPreconditionFailed error = (case error of None \<Rightarrow> False | Some e \<Rightarrow>
     err_name e = Some ''PreconditionFailed'' \<or> err_httpStatusCode e = Some 412 \<or>
     (case err_message e of None \<Rightarrow> False
      | Some m \<Rightarrow> hasInfix ''precondition failed'' (map lowerChar m)))"

record 'o Storage =
  getJson :: "string \<Rightarrow> 'o \<Rightarrow> StoredJson option"
  putJson :: "string \<Rightarrow> JsonValue \<Rightarrow> PutCondition \<Rightarrow> 'o \<Rightarrow> (ErrorObject option + etag) \<times> 'o"
  deleteObject :: "string \<Rightarrow> etag option \<Rightarrow> 'o \<Rightarrow> (ErrorObject option + unit) \<times> 'o"

text \<open>
  The contract. A conditional write or delete happens exactly when its condition holds at that
  moment, a refused one changes nothing, and an ETag the store has issued for an object names
  one content: \<open>issued objects key e v\<close> says that \<open>e\<close> was issued for the content \<open>v\<close>.
\<close>

locale conditional_storage =
  fixes storage :: "'o Storage"
    and valid :: "'o \<Rightarrow> bool"
    and issued :: "'o \<Rightarrow> string \<Rightarrow> etag \<Rightarrow> JsonValue \<Rightarrow> bool"
  assumes put_ok: "putJson storage k v c s = (Inr e, s') \<Longrightarrow> valid s \<Longrightarrow>
      valid s' \<and> getJson storage k s' = Some \<lparr>so_etag = e, so_value = v\<rparr> \<and>
      (pcn_absent c \<longrightarrow> getJson storage k s = None) \<and>
      (\<forall>e0. pcn_etag c = Some e0 \<longrightarrow> (\<exists>v0. getJson storage k s = Some \<lparr>so_etag = e0, so_value = v0\<rparr>))"
    and put_refused: "putJson storage k v c s = (Inl err, s') \<Longrightarrow> s' = s"
    and delete_ok: "deleteObject storage k (Some e) s = (Inr u, s') \<Longrightarrow> valid s \<Longrightarrow>
      valid s' \<and> getJson storage k s' = None \<and>
      (\<exists>v0. getJson storage k s = Some \<lparr>so_etag = e, so_value = v0\<rparr>)"
    and delete_refused: "deleteObject storage k ce s = (Inl err, s') \<Longrightarrow> s' = s"
    and issued_current: "valid s \<Longrightarrow> getJson storage k s = Some stored \<Longrightarrow>
      issued s k (so_etag stored) (so_value stored)"
    and issued_unique: "valid s \<Longrightarrow> getJson storage k s = Some stored \<Longrightarrow>
      issued s k (so_etag stored) v \<Longrightarrow> v = so_value stored"
    and issued_put: "putJson storage k v c s = (Inr e', s') \<Longrightarrow> valid s \<Longrightarrow> issued s k e w \<Longrightarrow>
      issued s' k e w"
    and issued_delete: "deleteObject storage k ce s = (Inr u, s') \<Longrightarrow> valid s \<Longrightarrow> issued s k e w \<Longrightarrow>
      issued s' k e w"
begin

end

section \<open>The lease document\<close>

record LeaseDocument =
  doc_expiresAt :: rat
  doc_generation :: int
  doc_holder :: string
  doc_state :: "JsonValue option"
  doc_version :: nat

datatype LeaseError =
    InvalidLeaseDocument
  | FencingAwareRuntimeRequired
  | LeaseHeldByAnotherRuntime
  | TimedOutAcquiring
  | LeaseReleased
  | LeaseExpired
  | LaunchDeadlineExceeded
  | SignalAborted
  | StorageThrew "ErrorObject option"

text \<open>\<open>JSON.stringify\<close> leaves out a member whose value is undefined.\<close>

definition leaseJson :: "LeaseDocument \<Rightarrow> JsonValue" where
  "leaseJson d = JObject (
     [(''expiresAt'', JNumber (doc_expiresAt d)),
      (''generation'', JNumber (of_int (doc_generation d))),
      (''holder'', JString (doc_holder d))]
     @ (case doc_state d of None \<Rightarrow> [] | Some v \<Rightarrow> [(''state'', v)])
     @ [(''version'', JNumber (of_nat (doc_version d)))])"

text \<open>\<open>parseLease\<close>. \<open>Number.isFinite\<close> holds of every number of the model.\<close>

definition leaseVersion :: "JsonValue option \<Rightarrow> nat option" where
  "leaseVersion v = (if v = Some (JNumber 1) then Some 1
     else if v = Some (JNumber 2) then Some 2 else None)"

definition leaseGeneration :: "JsonValue option \<Rightarrow> int option" where
  "leaseGeneration v = (case v of
     None \<Rightarrow> Some 0
   | Some (JNumber n) \<Rightarrow>
       if of_int \<lfloor>n\<rfloor> = n \<and> isSafeInteger \<lfloor>n\<rfloor> \<and> 1 \<le> \<lfloor>n\<rfloor> then Some \<lfloor>n\<rfloor> else None
   | Some _ \<Rightarrow> None)"

definition parseLease :: "JsonValue \<Rightarrow> LeaseError + LeaseDocument" where
  "parseLease value = (case value of
     JObject members \<Rightarrow>
       (case (leaseVersion (map_of members ''version''), map_of members ''holder'',
              map_of members ''expiresAt'', leaseGeneration (map_of members ''generation'')) of
          (Some version, Some (JString holder), Some (JNumber expiresAt), Some generation) \<Rightarrow>
            Inr \<lparr>doc_expiresAt = expiresAt, doc_generation = generation, doc_holder = holder,
                 doc_state = map_of members ''state'', doc_version = version\<rparr>
        | _ \<Rightarrow> Inl InvalidLeaseDocument)
   | _ \<Rightarrow> Inl InvalidLeaseDocument)"

section \<open>Acquiring\<close>

record LeaseInput =
  lin_ttlMs :: rat
  lin_waitMs :: rat
  lin_deadlineAt :: "rat option"
  lin_durable :: bool

text \<open>\<open>Date.now() >= deadlineAt\<close> and \<open>Math.min(t, deadlineAt)\<close>.\<close>

definition deadlinePassed :: "rat \<Rightarrow> rat option \<Rightarrow> bool" where
  "deadlinePassed now deadlineAt = (case deadlineAt of None \<Rightarrow> False | Some t \<Rightarrow> t \<le> now)"

definition cappedAt :: "rat \<Rightarrow> rat option \<Rightarrow> rat" where
  "cappedAt t deadlineAt = (case deadlineAt of None \<Rightarrow> t | Some d \<Rightarrow> min t d)"

text \<open>\<open>checkDeadline\<close>: the error it throws, given whether the signal is aborted.\<close>

definition checkDeadline :: "rat \<Rightarrow> rat option \<Rightarrow> bool \<Rightarrow> LeaseError option" where
  "checkDeadline now deadlineAt aborted =
     (if aborted then Some SignalAborted
      else if deadlinePassed now deadlineAt then Some LaunchDeadlineExceeded else None)"

text \<open>What one pass of the loop does after the object was read: throw, write a document, or
  sleep and try again.\<close>

datatype Attempt =
    AttemptThrows LeaseError
  | AttemptWrites LeaseDocument PutCondition
  | AttemptSleeps

definition claimDocument :: "LeaseInput \<Rightarrow> string \<Rightarrow> rat \<Rightarrow> LeaseDocument option \<Rightarrow> LeaseDocument" where
  "claimDocument input holder now previous =
     \<lparr>doc_expiresAt = cappedAt (now + lin_ttlMs input) (lin_deadlineAt input),
      doc_generation = (case previous of None \<Rightarrow> 0 | Some p \<Rightarrow> doc_generation p) + 1,
      doc_holder = holder,
      doc_state = (case previous of None \<Rightarrow> None | Some p \<Rightarrow> doc_state p),
      doc_version = (if lin_durable input then 2 else 1)\<rparr>"

definition acquireAttempt ::
  "LeaseInput \<Rightarrow> string \<Rightarrow> rat \<Rightarrow> rat \<Rightarrow> StoredJson option \<Rightarrow> Attempt" where
  "acquireAttempt input holder waitDeadline now stored =
     (case (case stored of None \<Rightarrow> Inr None
            | Some o1 \<Rightarrow> (case parseLease (so_value o1) of Inl e \<Rightarrow> Inl e | Inr d \<Rightarrow> Inr (Some d))) of
        Inl e \<Rightarrow> AttemptThrows e
      | Inr previous \<Rightarrow>
          if map_option doc_version previous = Some 2 \<and> \<not> lin_durable input
          then AttemptThrows FencingAwareRuntimeRequired
          else if (case previous of None \<Rightarrow> True | Some p \<Rightarrow> doc_expiresAt p \<le> now)
          then AttemptWrites (claimDocument input holder now previous)
                 \<lparr>pcn_etag = map_option so_etag stored, pcn_absent = (stored = None)\<rparr>
          else if waitDeadline \<le> now then AttemptThrows LeaseHeldByAnotherRuntime
          else AttemptSleeps)"

text \<open>The catch clause of the write.\<close>

definition claimRefused :: "rat \<Rightarrow> rat \<Rightarrow> ErrorObject option \<Rightarrow> LeaseError option" where
  "claimRefused waitDeadline now error =
     (if \<not> isPreconditionFailed error then Some (StorageThrew error)
      else if waitDeadline \<le> now then Some TimedOutAcquiring else None)"

section \<open>Holding\<close>

text \<open>
  The promise chain \<open>operations\<close> as a queue of thunks: \<open>write(document.state)\<close>, \<open>write(state)\<close> and
  the body of \<open>release\<close>. At most the head is running; \<open>hnd_current\<close> holds it with the document it
  writes and the answer of the store, once there is one.
\<close>

datatype Operation = Renew | UpdateState "JsonValue option" | ReleaseLease

type_synonym reply = "(ErrorObject option + etag) option"

record LeaseHandle =
  hnd_etag :: etag
  hnd_document :: LeaseDocument
  hnd_deadlineAt :: "rat option"
  hnd_released :: bool
  hnd_operations :: "Operation list"
  hnd_current :: "(Operation \<times> LeaseDocument \<times> reply) option"

datatype Phase =
    Starting
  | Fetching
  | Fetched "StoredJson option"
  | Claiming LeaseDocument PutCondition reply
  | Held LeaseHandle
  | Rejected LeaseError

record Runtime =
  rtm_input :: LeaseInput
  rtm_waitDeadline :: rat
  rtm_aborted :: bool
  rtm_phase :: Phase

text \<open>\<open>check\<close>: the error it throws; \<open>checkAborts\<close> says whether the signal is aborted after it.\<close>

definition checkHeld :: "rat \<Rightarrow> bool \<Rightarrow> LeaseHandle \<Rightarrow> LeaseError option" where
  "checkHeld now aborted h =
     (case checkDeadline now (hnd_deadlineAt h) aborted of
        Some e \<Rightarrow> Some e
      | None \<Rightarrow> if hnd_released h then Some LeaseReleased
                else if doc_expiresAt (hnd_document h) \<le> now then Some LeaseExpired
                else None)"

definition checkAborts :: "rat \<Rightarrow> bool \<Rightarrow> LeaseHandle \<Rightarrow> bool" where
  "checkAborts now aborted h =
     (aborted \<or> (case checkHeld now aborted h of None \<Rightarrow> False | Some e \<Rightarrow> e \<noteq> LeaseReleased))"

definition enqueue :: "Operation \<Rightarrow> LeaseHandle \<Rightarrow> LeaseHandle" where
  "enqueue op h = h\<lparr>hnd_operations := hnd_operations h @ [op]\<rparr>"

definition nextDocument :: "LeaseInput \<Rightarrow> rat \<Rightarrow> JsonValue option \<Rightarrow> LeaseHandle \<Rightarrow> LeaseDocument" where
  "nextDocument input now state h = (hnd_document h)
     \<lparr>doc_expiresAt := cappedAt (now + lin_ttlMs input) (hnd_deadlineAt h), doc_state := state\<rparr>"


text \<open>The request a runtime waits for, as long as the store has not served it.\<close>

datatype LeaseRequest = PutLease LeaseDocument PutCondition | DeleteLease etag

definition operationRequest :: "LeaseInput \<Rightarrow> Operation \<Rightarrow> LeaseDocument \<Rightarrow> etag \<Rightarrow> LeaseRequest" where
  "operationRequest input op next e =
     (if op = ReleaseLease \<and> \<not> lin_durable input then DeleteLease e
      else PutLease next \<lparr>pcn_etag = Some e, pcn_absent = False\<rparr>)"

definition awaitedRequest :: "Runtime \<Rightarrow> LeaseRequest option" where
  "awaitedRequest r = (case rtm_phase r of
     Claiming doc condition None \<Rightarrow> Some (PutLease doc condition)
   | Held h \<Rightarrow>
       (case hnd_current h of
          Some (op, next, None) \<Rightarrow> Some (operationRequest (rtm_input r) op next (hnd_etag h))
        | _ \<Rightarrow> None)
   | _ \<Rightarrow> None)"

definition answerRequest :: "ErrorObject option + etag \<Rightarrow> Runtime \<Rightarrow> Runtime" where
  "answerRequest answer r = (case rtm_phase r of
     Claiming doc condition _ \<Rightarrow> r\<lparr>rtm_phase := Claiming doc condition (Some answer)\<rparr>
   | Held h \<Rightarrow>
       (case hnd_current h of
          Some (op, next, _) \<Rightarrow> r\<lparr>rtm_phase := Held (h\<lparr>hnd_current := Some (op, next, Some answer)\<rparr>)\<rparr>
        | None \<Rightarrow> r)
   | _ \<Rightarrow> r)"

definition serveRequest ::
  "'o Storage \<Rightarrow> string \<Rightarrow> LeaseRequest \<Rightarrow> 'o \<Rightarrow> (ErrorObject option + etag) \<times> 'o" where
  "serveRequest storage key request objects = (case request of
     PutLease doc condition \<Rightarrow> putJson storage key (leaseJson doc) condition objects
   | DeleteLease e \<Rightarrow>
       (case deleteObject storage key (Some e) objects of
          (Inl err, objects') \<Rightarrow> (Inl err, objects')
        | (Inr _, objects') \<Rightarrow> (Inr [], objects')))"

section \<open>The steps of a runtime\<close>

text \<open>The call: \<open>acquireAwsLambdaMicrovmLease\<close> up to its loop.\<close>

definition startAcquire :: "LeaseInput \<Rightarrow> rat \<Rightarrow> Runtime" where
  "startAcquire input now = \<lparr>rtm_input = input, rtm_waitDeadline = now + lin_waitMs input,
     rtm_aborted = False, rtm_phase = Starting\<rparr>"

text \<open>The top of the loop, up to the read.\<close>

definition beginAttempt :: "rat \<Rightarrow> Runtime \<Rightarrow> Runtime" where
  "beginAttempt now r = (case rtm_phase r of
     Starting \<Rightarrow>
       (case checkDeadline now (lin_deadlineAt (rtm_input r)) (rtm_aborted r) of
          Some e \<Rightarrow> r\<lparr>rtm_phase := Rejected e\<rparr>
        | None \<Rightarrow> r\<lparr>rtm_phase := Fetching\<rparr>)
   | _ \<Rightarrow> r)"

definition serveRead :: "StoredJson option \<Rightarrow> Runtime \<Rightarrow> Runtime" where
  "serveRead stored r = (case rtm_phase r of
     Fetching \<Rightarrow> r\<lparr>rtm_phase := Fetched stored\<rparr>
   | _ \<Rightarrow> r)"

definition failRead :: "ErrorObject option \<Rightarrow> Runtime \<Rightarrow> Runtime" where
  "failRead error r = (case rtm_phase r of
     Fetching \<Rightarrow> r\<lparr>rtm_phase := Rejected (StorageThrew error)\<rparr>
   | _ \<Rightarrow> r)"

text \<open>From the answer of the read to the write, the sleep or an error.\<close>

definition decideAttempt :: "string \<Rightarrow> rat \<Rightarrow> Runtime \<Rightarrow> Runtime" where
  "decideAttempt holder now r = (case rtm_phase r of
     Fetched stored \<Rightarrow>
       (case checkDeadline now (lin_deadlineAt (rtm_input r)) (rtm_aborted r) of
          Some e \<Rightarrow> r\<lparr>rtm_phase := Rejected e\<rparr>
        | None \<Rightarrow>
            (case acquireAttempt (rtm_input r) holder (rtm_waitDeadline r) now stored of
               AttemptThrows e \<Rightarrow> r\<lparr>rtm_phase := Rejected e\<rparr>
             | AttemptWrites doc condition \<Rightarrow> r\<lparr>rtm_phase := Claiming doc condition None\<rparr>
             | AttemptSleeps \<Rightarrow> r\<lparr>rtm_phase := Starting\<rparr>))
   | _ \<Rightarrow> r)"

text \<open>The head of the queue starts: \<open>write\<close> up to its \<open>putJson\<close>, or the body of \<open>release\<close>.\<close>

definition writtenState :: "Operation \<Rightarrow> LeaseHandle \<Rightarrow> JsonValue option" where
  "writtenState op h = (case op of UpdateState s \<Rightarrow> s | _ \<Rightarrow> doc_state (hnd_document h))"

definition startOperation :: "rat \<Rightarrow> Runtime \<Rightarrow> Runtime" where
  "startOperation now r = (case rtm_phase r of
     Held h \<Rightarrow>
       (case (hnd_current h, hnd_operations h) of
          (None, op # rest) \<Rightarrow>
            if op = ReleaseLease
            then r\<lparr>rtm_phase := Held (h\<lparr>hnd_operations := rest,
                   hnd_current := Some (op, (hnd_document h)\<lparr>doc_expiresAt := 0\<rparr>, None)\<rparr>)\<rparr>
            else if checkHeld now (rtm_aborted r) h \<noteq> None
            then r\<lparr>rtm_aborted := checkAborts now (rtm_aborted r) h,
                   rtm_phase := Held (h\<lparr>hnd_operations := rest\<rparr>)\<rparr>
            else r\<lparr>rtm_phase := Held (h\<lparr>hnd_operations := rest,
                   hnd_current := Some (op, nextDocument (rtm_input r) now (writtenState op h) h, None)\<rparr>)\<rparr>
        | _ \<Rightarrow> r)
   | _ \<Rightarrow> r)"

text \<open>
  The rest of \<open>write\<close> after the answer: the handle as it is then and the error it throws. A request
  that outlived the previous expiry gives no authority, and every error aborts the signal.
\<close>

definition settleWrite ::
  "rat \<Rightarrow> bool \<Rightarrow> LeaseDocument \<Rightarrow> ErrorObject option + etag \<Rightarrow> LeaseHandle \<Rightarrow> LeaseHandle \<times> LeaseError option" where
  "settleWrite now aborted next answer h = (case answer of
     Inl err \<Rightarrow> (h\<lparr>hnd_current := None\<rparr>, Some (StorageThrew err))
   | Inr e \<Rightarrow>
       (let h' = h\<lparr>hnd_etag := e, hnd_document := next, hnd_current := None\<rparr> in
        (h', if doc_expiresAt (hnd_document h) \<le> now then Some LeaseExpired
             else checkHeld now aborted h')))"

definition settleRelease :: "LeaseInput \<Rightarrow> ErrorObject option + etag \<Rightarrow> LeaseHandle \<Rightarrow> LeaseHandle" where
  "settleRelease input answer h = (case answer of
     Inr e \<Rightarrow> if lin_durable input then h\<lparr>hnd_etag := e, hnd_current := None\<rparr>
              else h\<lparr>hnd_current := None\<rparr>
   | Inl _ \<Rightarrow> h\<lparr>hnd_current := None\<rparr>)"

definition settleAnswer :: "rat \<Rightarrow> Runtime \<Rightarrow> Runtime" where
  "settleAnswer now r = (case rtm_phase r of
     Claiming doc condition (Some (Inr e)) \<Rightarrow>
       r\<lparr>rtm_phase := Held \<lparr>hnd_etag = e, hnd_document = doc,
           hnd_deadlineAt = lin_deadlineAt (rtm_input r), hnd_released = False,
           hnd_operations = [], hnd_current = None\<rparr>\<rparr>
   | Claiming doc condition (Some (Inl err)) \<Rightarrow>
       (case claimRefused (rtm_waitDeadline r) now err of
          Some e \<Rightarrow> r\<lparr>rtm_phase := Rejected e\<rparr>
        | None \<Rightarrow> r\<lparr>rtm_phase := Starting\<rparr>)
   | Held h \<Rightarrow>
       (case hnd_current h of
          Some (op, next, Some answer) \<Rightarrow>
            if op = ReleaseLease
            then r\<lparr>rtm_phase := Held (settleRelease (rtm_input r) answer h)\<rparr>
            else (case settleWrite now (rtm_aborted r) next answer h of (h', error) \<Rightarrow>
                    r\<lparr>rtm_aborted := rtm_aborted r \<or> error \<noteq> None, rtm_phase := Held h'\<rparr>)
        | _ \<Rightarrow> r)
   | _ \<Rightarrow> r)"

text \<open>The calls on the handle.\<close>

definition ensureHeld :: "rat \<Rightarrow> Runtime \<Rightarrow> Runtime" where
  "ensureHeld now r = (case rtm_phase r of
     Held h \<Rightarrow>
       if checkHeld now (rtm_aborted r) h \<noteq> None
       then r\<lparr>rtm_aborted := checkAborts now (rtm_aborted r) h\<rparr>
       else r\<lparr>rtm_phase := Held (enqueue Renew h)\<rparr>
   | _ \<Rightarrow> r)"

definition promote :: "rat \<Rightarrow> Runtime \<Rightarrow> Runtime" where
  "promote now r = (case rtm_phase r of
     Held h \<Rightarrow>
       if checkHeld now (rtm_aborted r) h \<noteq> None
       then r\<lparr>rtm_aborted := checkAborts now (rtm_aborted r) h\<rparr>
       else r\<lparr>rtm_phase := Held (h\<lparr>hnd_deadlineAt := None\<rparr>)\<rparr>
   | _ \<Rightarrow> r)"

definition updateState :: "JsonValue option \<Rightarrow> Runtime \<Rightarrow> Runtime" where
  "updateState state r = (case rtm_phase r of
     Held h \<Rightarrow> r\<lparr>rtm_phase := Held (enqueue (UpdateState state) h)\<rparr>
   | _ \<Rightarrow> r)"

definition releaseLease :: "Runtime \<Rightarrow> Runtime" where
  "releaseLease r = (case rtm_phase r of
     Held h \<Rightarrow>
       if hnd_released h then r
       else r\<lparr>rtm_aborted := True,
              rtm_phase := Held (enqueue ReleaseLease (h\<lparr>hnd_released := True\<rparr>))\<rparr>
   | _ \<Rightarrow> r)"

text \<open>
  The timers. The renewal interval and the promotion timer enqueue a renewal; both are cleared when
  the signal is aborted. The expiry timer never runs before the expiry of the current document.
\<close>

definition renewalTimer :: "Runtime \<Rightarrow> Runtime" where
  "renewalTimer r = (case rtm_phase r of
     Held h \<Rightarrow> if rtm_aborted r then r else r\<lparr>rtm_phase := Held (enqueue Renew h)\<rparr>
   | _ \<Rightarrow> r)"

definition expiryTimer :: "rat \<Rightarrow> Runtime \<Rightarrow> Runtime" where
  "expiryTimer now r = (case rtm_phase r of
     Held h \<Rightarrow> if doc_expiresAt (hnd_document h) \<le> now then r\<lparr>rtm_aborted := True\<rparr> else r
   | _ \<Rightarrow> r)"

section \<open>Runtimes that share an object\<close>

datatype RuntimeEvent =
    BeginAttempt
  | ServeRead
  | FailRead "ErrorObject option"
  | DecideAttempt
  | ServeRequest
  | LoseAnswer "ErrorObject option"
  | SettleAnswer
  | StartOperation
  | CallEnsureHeld
  | CallPromote
  | CallUpdateState "JsonValue option"
  | CallRelease
  | RenewalTimer
  | ExpiryTimer
  | CallerAborts

text \<open>The events that concern the runtime alone.\<close>

fun runtimeEvent :: "string \<Rightarrow> rat \<Rightarrow> RuntimeEvent \<Rightarrow> Runtime \<Rightarrow> Runtime" where
  "runtimeEvent holder now BeginAttempt r = beginAttempt now r"
| "runtimeEvent holder now (FailRead e) r = failRead e r"
| "runtimeEvent holder now DecideAttempt r = decideAttempt holder now r"
| "runtimeEvent holder now SettleAnswer r = settleAnswer now r"
| "runtimeEvent holder now StartOperation r = startOperation now r"
| "runtimeEvent holder now CallEnsureHeld r = ensureHeld now r"
| "runtimeEvent holder now CallPromote r = promote now r"
| "runtimeEvent holder now (CallUpdateState s) r = updateState s r"
| "runtimeEvent holder now CallRelease r = releaseLease r"
| "runtimeEvent holder now RenewalTimer r = renewalTimer r"
| "runtimeEvent holder now ExpiryTimer r = expiryTimer now r"
| "runtimeEvent holder now CallerAborts r = r\<lparr>rtm_aborted := True\<rparr>"
| "runtimeEvent holder now ServeRead r = r"
| "runtimeEvent holder now ServeRequest r = r"
| "runtimeEvent holder now (LoseAnswer e) r = r"

text \<open>
  The runtimes are named by their holder, the \<open>randomUUID\<close> of the call, which is new: no runtime
  has it and the stored document does not name it. \<open>sys_strays\<close> holds the requests that are
  still on their way after their caller saw an error.
\<close>

record 'o LeaseSystem =
  sys_objects :: 'o
  sys_clock :: rat
  sys_runtimes :: "string \<rightharpoonup> Runtime"
  sys_strays :: "LeaseRequest list"

datatype LeaseAction =
    StartRuntime string LeaseInput
  | AdvanceClock rat
  | RuntimeActs string RuntimeEvent
  | ServeStray nat

definition storedHolder :: "StoredJson option \<Rightarrow> JsonValue option" where
  "storedHolder stored = (case stored of
     Some o1 \<Rightarrow> (case so_value o1 of JObject members \<Rightarrow> map_of members ''holder'' | _ \<Rightarrow> None)
   | None \<Rightarrow> None)"

definition runtimeActs ::
  "'o Storage \<Rightarrow> string \<Rightarrow> string \<Rightarrow> RuntimeEvent \<Rightarrow> Runtime \<Rightarrow> 'o LeaseSystem \<Rightarrow> 'o LeaseSystem" where
  "runtimeActs storage key holder event r s = (case event of
     ServeRead \<Rightarrow>
       s\<lparr>sys_runtimes := (sys_runtimes s)(holder \<mapsto> serveRead (getJson storage key (sys_objects s)) r)\<rparr>
   | ServeRequest \<Rightarrow>
       (case awaitedRequest r of
          None \<Rightarrow> s
        | Some request \<Rightarrow>
            (case serveRequest storage key request (sys_objects s) of (answer, objects) \<Rightarrow>
               s\<lparr>sys_objects := objects,
                 sys_runtimes := (sys_runtimes s)(holder \<mapsto> answerRequest answer r)\<rparr>))
   | LoseAnswer err \<Rightarrow>
       s\<lparr>sys_runtimes := (sys_runtimes s)(holder \<mapsto> answerRequest (Inl err) r),
         sys_strays := (case awaitedRequest r of None \<Rightarrow> [] | Some request \<Rightarrow> [request]) @ sys_strays s\<rparr>
   | _ \<Rightarrow> s\<lparr>sys_runtimes := (sys_runtimes s)(holder \<mapsto> runtimeEvent holder (sys_clock s) event r)\<rparr>)"

definition leaseStep :: "'o Storage \<Rightarrow> string \<Rightarrow> LeaseAction \<Rightarrow> 'o LeaseSystem \<Rightarrow> 'o LeaseSystem" where
  "leaseStep storage key action s = (case action of
     StartRuntime holder input \<Rightarrow>
       if sys_runtimes s holder = None
          \<and> storedHolder (getJson storage key (sys_objects s)) \<noteq> Some (JString holder)
       then s\<lparr>sys_runtimes := (sys_runtimes s)(holder \<mapsto> startAcquire input (sys_clock s))\<rparr>
       else s
   | AdvanceClock t \<Rightarrow> if sys_clock s \<le> t then s\<lparr>sys_clock := t\<rparr> else s
   | RuntimeActs holder event \<Rightarrow>
       (case sys_runtimes s holder of
          None \<Rightarrow> s
        | Some r \<Rightarrow> runtimeActs storage key holder event r s)
   | ServeStray n \<Rightarrow>
       if n < length (sys_strays s)
       then s\<lparr>sys_objects := snd (serveRequest storage key (sys_strays s ! n) (sys_objects s)),
              sys_strays := take n (sys_strays s) @ drop (Suc n) (sys_strays s)\<rparr>
       else s)"

definition initialSystem :: "'o \<Rightarrow> rat \<Rightarrow> 'o LeaseSystem" where
  "initialSystem objects now = \<lparr>sys_objects = objects, sys_clock = now,
     sys_runtimes = Map.empty, sys_strays = []\<rparr>"

text \<open>Every state the runtimes can bring the shared object into.\<close>

inductive leaseReachable :: "'o Storage \<Rightarrow> string \<Rightarrow> ('o \<Rightarrow> bool) \<Rightarrow> 'o LeaseSystem \<Rightarrow> bool"
  for storage key valid where
  reachable_start: "valid objects \<Longrightarrow> leaseReachable storage key valid (initialSystem objects now)"
| reachable_step: "leaseReachable storage key valid s \<Longrightarrow>
     leaseReachable storage key valid (leaseStep storage key action s)"

text \<open>A runtime has authority when \<open>check\<close> passes at the current time.\<close>

definition hasAuthority :: "rat \<Rightarrow> Runtime \<Rightarrow> bool" where
  "hasAuthority now r = (case rtm_phase r of
     Held h \<Rightarrow> checkHeld now (rtm_aborted r) h = None
   | _ \<Rightarrow> False)"


section \<open>The storage of the test suite\<close>

text \<open>
  \<open>MemoryStorage\<close> of \<open>lease.test.ts\<close>: a \<open>Map\<close> of objects and a counter that gives every write a new
  ETag.
\<close>

record MemoryStorage =
  ms_json :: "(string \<times> StoredJson) list"
  ms_etag :: nat

definition preconditionError :: ErrorObject where
  "preconditionError = \<lparr>err_name = Some ''PreconditionFailed'', err_httpStatusCode = Some 412,
     err_message = Some ''precondition failed''\<rparr>"

definition etagText :: "nat \<Rightarrow> etag" where
  "etagText n = QUOTE # natText n @ [QUOTE]"

definition memoryGetJson :: "string \<Rightarrow> MemoryStorage \<Rightarrow> StoredJson option" where
  "memoryGetJson key s = map_of (ms_json s) key"

definition etagMatches :: "etag option \<Rightarrow> StoredJson option \<Rightarrow> bool" where
  "etagMatches condition current =
     (case condition of None \<Rightarrow> True | Some e \<Rightarrow> map_option so_etag current = Some e)"

definition memoryPutJson ::
  "string \<Rightarrow> JsonValue \<Rightarrow> PutCondition \<Rightarrow> MemoryStorage \<Rightarrow> (ErrorObject option + etag) \<times> MemoryStorage" where
  "memoryPutJson key value condition s =
     (let current = map_of (ms_json s) key in
      if pcn_absent condition \<and> current \<noteq> None \<or> \<not> etagMatches (pcn_etag condition) current
      then (Inl (Some preconditionError), s)
      else let n = ms_etag s + 1; e = etagText n in
        (Inr e, \<lparr>ms_json = mapSet key \<lparr>so_etag = e, so_value = value\<rparr> (ms_json s), ms_etag = n\<rparr>))"

definition memoryDeleteObject ::
  "string \<Rightarrow> etag option \<Rightarrow> MemoryStorage \<Rightarrow> (ErrorObject option + unit) \<times> MemoryStorage" where
  "memoryDeleteObject key condition s =
     (if \<not> etagMatches condition (map_of (ms_json s) key)
      then (Inl (Some preconditionError), s)
      else (Inr (), s\<lparr>ms_json := AList.delete key (ms_json s)\<rparr>))"

definition memoryStorage :: "MemoryStorage Storage" where
  "memoryStorage = \<lparr>getJson = memoryGetJson, putJson = memoryPutJson, deleteObject = memoryDeleteObject\<rparr>"

definition emptyMemory :: MemoryStorage where
  "emptyMemory = \<lparr>ms_json = [], ms_etag = 0\<rparr>"

text \<open>Every stored ETag has been issued, and an issued ETag that is current names what is stored.\<close>

definition memoryValid :: "MemoryStorage \<Rightarrow> bool" where
  "memoryValid s \<longleftrightarrow> (\<forall>k stored. map_of (ms_json s) k = Some stored \<longrightarrow>
     (\<exists>n\<le>ms_etag s. so_etag stored = etagText n))"

definition memoryIssued :: "MemoryStorage \<Rightarrow> string \<Rightarrow> etag \<Rightarrow> JsonValue \<Rightarrow> bool" where
  "memoryIssued s key e v \<longleftrightarrow> (\<exists>n\<le>ms_etag s. e = etagText n) \<and>
     (\<forall>stored. map_of (ms_json s) key = Some stored \<longrightarrow> so_etag stored = e \<longrightarrow> so_value stored = v)"

lemma natText_inject: "natText m = natText n \<longleftrightarrow> m = n"
  by (metis natText_value of_nat_eq_iff)

lemma etagText_inject [simp]: "etagText m = etagText n \<longleftrightarrow> m = n"
  by (simp add: etagText_def natText_inject)

lemma memoryValid_put:
  "memoryValid s \<Longrightarrow> memoryValid \<lparr>ms_json = mapSet k \<lparr>so_etag = etagText (ms_etag s + 1), so_value = v\<rparr> (ms_json s),
     ms_etag = ms_etag s + 1\<rparr>"
  unfolding memoryValid_def by (auto split: if_splits) (meson le_SucI)

interpretation memory: conditional_storage memoryStorage memoryValid memoryIssued
proof (unfold_locales, goal_cases)
  case (1 k v c s e s')
  then show ?case
    by (cases "map_of (ms_json s) k"; cases "the (map_of (ms_json s) k)")
      (auto simp: memoryStorage_def memoryPutJson_def memoryGetJson_def etagMatches_def Let_def
        split: if_splits option.splits dest: memoryValid_put)
next
  case (2 k v c s err s')
  then show ?case by (auto simp: memoryStorage_def memoryPutJson_def Let_def split: if_splits)
next
  case (3 k e s u s')
  then show ?case
    by (cases "map_of (ms_json s) k"; cases "the (map_of (ms_json s) k)")
      (auto simp: memoryStorage_def memoryDeleteObject_def memoryGetJson_def memoryValid_def etagMatches_def
        AList.delete_conv' split: if_splits)
next
  case (4 k ce s err s')
  then show ?case by (auto simp: memoryStorage_def memoryDeleteObject_def split: if_splits)
next
  case (5 s k stored)
  then show ?case by (auto simp: memoryStorage_def memoryGetJson_def memoryValid_def memoryIssued_def)
next
  case (6 s k stored v)
  then show ?case by (auto simp: memoryStorage_def memoryGetJson_def memoryIssued_def)
next
  case (7 k v c s e' s' e w)
  then show ?case
    by (auto simp: memoryStorage_def memoryPutJson_def memoryIssued_def Let_def split: if_splits
        intro: le_SucI)
next
  case (8 k ce s u s' e w)
  then show ?case
    by (auto simp: memoryStorage_def memoryDeleteObject_def memoryIssued_def AList.delete_conv'
        split: if_splits)
qed

end
