(* ===== verification/Microvm_Lease_Safety.thy ===== *)
theory Microvm_Lease_Safety
  imports Microvm_Lease
begin

text \<open>
  The invariant of the lease of the Lambda MicroVM backend, over every interleaving of runtimes,
  store and clock: every request on its way is either a claim on a document that has expired or a
  renewal by the holder of the document it replaces, and a runtime that may believe it holds an
  unexpired lease finds its own document in the store.
\<close>

section \<open>Documents and their JSON\<close>

lemma map_of_leaseJson:
  "leaseJson d = JObject ms \<Longrightarrow> map_of ms ''version'' = Some (JNumber (of_nat (doc_version d)))"
  "leaseJson d = JObject ms \<Longrightarrow> map_of ms ''holder'' = Some (JString (doc_holder d))"
  "leaseJson d = JObject ms \<Longrightarrow> map_of ms ''expiresAt'' = Some (JNumber (doc_expiresAt d))"
  "leaseJson d = JObject ms \<Longrightarrow> map_of ms ''generation'' = Some (JNumber (of_int (doc_generation d)))"
  "leaseJson d = JObject ms \<Longrightarrow> map_of ms ''state'' = doc_state d"
  by (auto simp: leaseJson_def split: option.splits)

lemma leaseJson_inject [simp]: "leaseJson d = leaseJson d' \<longleftrightarrow> d = d'"
proof
  assume eq: "leaseJson d = leaseJson d'"
  obtain ms where ms: "leaseJson d = JObject ms" by (simp add: leaseJson_def)
  with eq have ms': "leaseJson d' = JObject ms" by simp
  show "d = d'"
    using map_of_leaseJson[OF ms] map_of_leaseJson[OF ms'] by (cases d, cases d') simp
qed simp

lemma leaseVersion_number: "leaseVersion (Some (JNumber (of_nat n))) = Some m \<Longrightarrow> m = n"
  by (auto simp: leaseVersion_def split: if_splits)

lemma leaseGeneration_number: "leaseGeneration (Some (JNumber (of_int n))) = Some m \<Longrightarrow> m = n"
  by (auto simp: leaseGeneration_def split: if_splits)

text \<open>Whatever \<open>parseLease\<close> accepts of a written document is that document.\<close>

lemma parseLease_leaseJson: "parseLease (leaseJson d) = Inr d' \<Longrightarrow> d' = d"
proof -
  assume parsed: "parseLease (leaseJson d) = Inr d'"
  obtain ms where ms: "leaseJson d = JObject ms" by (simp add: leaseJson_def)
  note members = map_of_leaseJson[OF ms]
  show "d' = d"
    using parsed unfolding parseLease_def ms
    by (auto simp: members split: option.splits dest!: leaseVersion_number leaseGeneration_number)
qed

lemma parseLease_written:
  assumes "doc_version d = 1 \<or> doc_version d = 2"
    and "1 \<le> doc_generation d" and "isSafeInteger (doc_generation d)"
  shows "parseLease (leaseJson d) = Inr d"
proof -
  obtain ms where ms: "leaseJson d = JObject ms" by (simp add: leaseJson_def)
  note members = map_of_leaseJson[OF ms]
  have v: "leaseVersion (Some (JNumber (of_nat (doc_version d)))) = Some (doc_version d)"
    using assms(1) by (auto simp: leaseVersion_def)
  have g: "leaseGeneration (Some (JNumber (of_int (doc_generation d)))) = Some (doc_generation d)"
    using assms(2,3) by (simp add: leaseGeneration_def)
  show ?thesis unfolding parseLease_def ms by (simp add: members v g)
qed

lemma storedHolder_leaseJson:
  "storedHolder (Some \<lparr>so_etag = e, so_value = leaseJson d\<rparr>) = Some (JString (doc_holder d))"
  by (simp add: storedHolder_def leaseJson_def)

section \<open>What is on its way\<close>

type_synonym issuance = "etag \<Rightarrow> JsonValue \<Rightarrow> bool"

definition claimOf :: "issuance \<Rightarrow> rat \<Rightarrow> LeaseDocument \<Rightarrow> PutCondition \<Rightarrow> bool" where
  "claimOf iss now doc condition \<longleftrightarrow>
     pcn_absent condition \<and> doc_generation doc = 1 \<and> doc_state doc = None \<or>
     (\<exists>e v d. pcn_etag condition = Some e \<and> iss e v \<and> parseLease v = Inr d \<and> doc_expiresAt d \<le> now
        \<and> doc_generation doc = doc_generation d + 1 \<and> doc_state doc = doc_state d)"

definition ownEtag :: "issuance \<Rightarrow> string \<Rightarrow> int \<Rightarrow> etag \<Rightarrow> bool" where
  "ownEtag iss holder generation e \<longleftrightarrow>
     (\<exists>d. iss e (leaseJson d) \<and> doc_holder d = holder \<and> doc_generation d = generation)"

definition bounded :: "rat \<Rightarrow> LeaseInput \<Rightarrow> rat option \<Rightarrow> LeaseDocument \<Rightarrow> bool" where
  "bounded now input deadlineAt doc \<longleftrightarrow>
     doc_expiresAt doc \<le> cappedAt (now + lin_ttlMs input) deadlineAt"

lemma writtenState_updates [simp]:
  "writtenState op (h\<lparr>hnd_operations := ops\<rparr>) = writtenState op h"
  "writtenState op (h\<lparr>hnd_deadlineAt := t\<rparr>) = writtenState op h"
  "writtenState op (h\<lparr>hnd_released := b\<rparr>) = writtenState op h"
  "writtenState op (h\<lparr>hnd_current := c\<rparr>) = writtenState op h"
  by (cases op; simp add: writtenState_def)+

text \<open>The operation a handle runs.\<close>

definition currentOk ::
  "issuance \<Rightarrow> rat \<Rightarrow> LeaseInput \<Rightarrow> LeaseHandle \<Rightarrow> Operation \<Rightarrow> LeaseDocument \<Rightarrow> reply \<Rightarrow> bool" where
  "currentOk iss now input h op nxt answer \<longleftrightarrow>
     doc_holder nxt = doc_holder (hnd_document h) \<and>
     doc_generation nxt = doc_generation (hnd_document h) \<and>
     (op = ReleaseLease \<longrightarrow> hnd_released h) \<and>
     (op \<noteq> ReleaseLease \<longrightarrow> doc_state nxt = writtenState op h) \<and>
     (op \<noteq> ReleaseLease \<longrightarrow> bounded now input (hnd_deadlineAt h) nxt \<and>
        doc_expiresAt (hnd_document h) \<le> doc_expiresAt nxt) \<and>
     (\<forall>e. answer = Some (Inr e) \<longrightarrow> op \<noteq> ReleaseLease \<or> lin_durable input \<longrightarrow> iss e (leaseJson nxt))"

definition handleOk :: "issuance \<Rightarrow> rat \<Rightarrow> LeaseInput \<Rightarrow> bool \<Rightarrow> string \<Rightarrow> LeaseHandle \<Rightarrow> bool" where
  "handleOk iss now input aborted holder h \<longleftrightarrow>
     doc_holder (hnd_document h) = holder \<and>
     bounded now input (hnd_deadlineAt h) (hnd_document h) \<and>
     ownEtag iss holder (doc_generation (hnd_document h)) (hnd_etag h) \<and>
     (ReleaseLease \<in> set (hnd_operations h) \<longrightarrow> hnd_released h) \<and>
     (hnd_released h \<longrightarrow> aborted) \<and>
     (\<forall>op nxt answer. hnd_current h = Some (op, nxt, answer) \<longrightarrow>
        currentOk iss now input h op nxt answer)"

definition runtimeOk :: "issuance \<Rightarrow> rat \<Rightarrow> string \<Rightarrow> Runtime \<Rightarrow> bool" where
  "runtimeOk iss now holder r \<longleftrightarrow> (case rtm_phase r of
     Fetched (Some stored) \<Rightarrow> iss (so_etag stored) (so_value stored)
   | Claiming doc condition answer \<Rightarrow>
       doc_holder doc = holder \<and> bounded now (rtm_input r) (lin_deadlineAt (rtm_input r)) doc \<and>
       claimOf iss now doc condition \<and>
       (\<forall>e. answer = Some (Inr e) \<longrightarrow> iss e (leaseJson doc))
   | Held h \<Rightarrow> handleOk iss now (rtm_input r) (rtm_aborted r) holder h
   | _ \<Rightarrow> True)"

text \<open>
  What the store holds of a runtime that is or may become entitled: its own document, or the one
  its running operation writes, as far as the runtime can know.
\<close>

definition storedForHandle :: "LeaseHandle \<Rightarrow> StoredJson option \<Rightarrow> bool" where
  "storedForHandle h stored \<longleftrightarrow> (case hnd_current h of
     Some (op, nxt, Some (Inr e)) \<Rightarrow> stored = Some \<lparr>so_etag = e, so_value = leaseJson nxt\<rparr>
   | Some (op, nxt, Some (Inl _)) \<Rightarrow>
       map_option so_value stored \<in> {Some (leaseJson (hnd_document h)), Some (leaseJson nxt)}
   | _ \<Rightarrow> stored = Some \<lparr>so_etag = hnd_etag h, so_value = leaseJson (hnd_document h)\<rparr>)"

definition storedFor :: "Runtime \<Rightarrow> StoredJson option \<Rightarrow> rat \<Rightarrow> bool" where
  "storedFor r stored now \<longleftrightarrow> (case rtm_phase r of
     Claiming doc _ (Some (Inr e)) \<Rightarrow>
       now < doc_expiresAt doc \<longrightarrow> stored = Some \<lparr>so_etag = e, so_value = leaseJson doc\<rparr>
   | Held h \<Rightarrow>
       \<not> rtm_aborted r \<longrightarrow> now < doc_expiresAt (hnd_document h) \<longrightarrow> storedForHandle h stored
   | _ \<Rightarrow> True)"

lemma storedForHandle_updates [simp]:
  "storedForHandle (h\<lparr>hnd_operations := ops\<rparr>) stored = storedForHandle h stored"
  "storedForHandle (h\<lparr>hnd_deadlineAt := d\<rparr>) stored = storedForHandle h stored"
  "storedForHandle (h\<lparr>hnd_released := b\<rparr>) stored = storedForHandle h stored"
  by (cases h; simp add: storedForHandle_def cong: option.case_cong)+

text \<open>A request whose caller gave up: what the caller looks like from then on.\<close>

definition gaveUp :: "Runtime option \<Rightarrow> LeaseDocument \<Rightarrow> bool" where
  "gaveUp r doc \<longleftrightarrow> (case r of None \<Rightarrow> False | Some r1 \<Rightarrow> (case rtm_phase r1 of
     Held h \<Rightarrow> rtm_aborted r1 \<or>
       doc_expiresAt (hnd_document h) \<le> doc_expiresAt doc \<and>
       (\<exists>op err. hnd_current h = Some (op, doc, Some (Inl err)))
   | _ \<Rightarrow> False))"

definition retired :: "Runtime \<Rightarrow> bool" where
  "retired r \<longleftrightarrow> rtm_aborted r \<and> (case rtm_phase r of Held _ \<Rightarrow> True | _ \<Rightarrow> False)"

definition strayOk :: "issuance \<Rightarrow> rat \<Rightarrow> (string \<rightharpoonup> Runtime) \<Rightarrow> LeaseRequest \<Rightarrow> bool" where
  "strayOk iss now runtimes request \<longleftrightarrow> (case request of
     PutLease doc condition \<Rightarrow>
       claimOf iss now doc condition \<or>
       (\<exists>e. pcn_etag condition = Some e \<and> ownEtag iss (doc_holder doc) (doc_generation doc) e) \<and>
       gaveUp (runtimes (doc_holder doc)) doc
   | DeleteLease e \<Rightarrow>
       (\<exists>d. iss e (leaseJson d) \<and>
         (\<exists>r. runtimes (doc_holder d) = Some r \<and> retired r \<and>
            \<not> lin_durable (rtm_input r))))"

definition leaseInvariant ::
  "'o Storage \<Rightarrow> ('o \<Rightarrow> bool) \<Rightarrow> ('o \<Rightarrow> string \<Rightarrow> etag \<Rightarrow> JsonValue \<Rightarrow> bool) \<Rightarrow> string \<Rightarrow> 'o LeaseSystem \<Rightarrow> bool" where
  "leaseInvariant storage valid issued key s \<longleftrightarrow>
     valid (sys_objects s) \<and>
     (\<forall>holder r. sys_runtimes s holder = Some r \<longrightarrow>
        runtimeOk (issued (sys_objects s) key) (sys_clock s) holder r \<and>
        storedFor r (getJson storage key (sys_objects s)) (sys_clock s)) \<and>
     (\<forall>request\<in>set (sys_strays s).
        strayOk (issued (sys_objects s) key) (sys_clock s) (sys_runtimes s) request)"

section \<open>Time passes, ETags stay\<close>

lemma cappedAt_mono: "t \<le> t' \<Longrightarrow> cappedAt t d \<le> cappedAt t' d"
  by (auto simp: cappedAt_def split: option.splits)

lemma cappedAt_le: "cappedAt t d \<le> t"
  by (auto simp: cappedAt_def split: option.splits)

lemma bounded_mono: "bounded now input d doc \<Longrightarrow> now \<le> now' \<Longrightarrow> bounded now' input d doc"
  unfolding bounded_def by (meson add_right_mono cappedAt_mono order_trans)

lemma bounded_promoted: "bounded now input d doc \<Longrightarrow> bounded now input None doc"
  unfolding bounded_def using cappedAt_le[of "now + lin_ttlMs input" d] by (simp add: cappedAt_def)

lemma claimOf_mono:
  "claimOf iss now doc c \<Longrightarrow> (\<And>e v. iss e v \<Longrightarrow> iss' e v) \<Longrightarrow> now \<le> now' \<Longrightarrow> claimOf iss' now' doc c"
  unfolding claimOf_def by (meson order_trans)

lemma ownEtag_mono: "ownEtag iss h g e \<Longrightarrow> (\<And>e v. iss e v \<Longrightarrow> iss' e v) \<Longrightarrow> ownEtag iss' h g e"
  unfolding ownEtag_def by blast

lemma currentOk_mono:
  "currentOk iss now input h op nxt answer \<Longrightarrow> (\<And>e v. iss e v \<Longrightarrow> iss' e v) \<Longrightarrow> now \<le> now' \<Longrightarrow>
   currentOk iss' now' input h op nxt answer"
  unfolding currentOk_def by (blast intro: bounded_mono)

lemma handleOk_mono:
  "handleOk iss now input aborted holder h \<Longrightarrow> (\<And>e v. iss e v \<Longrightarrow> iss' e v) \<Longrightarrow> now \<le> now' \<Longrightarrow>
   handleOk iss' now' input aborted holder h"
  unfolding handleOk_def by (blast intro: bounded_mono ownEtag_mono currentOk_mono)

lemma runtimeOk_mono:
  "runtimeOk iss now holder r \<Longrightarrow> (\<And>e v. iss e v \<Longrightarrow> iss' e v) \<Longrightarrow> now \<le> now' \<Longrightarrow>
   runtimeOk iss' now' holder r"
  unfolding runtimeOk_def
  by (auto split: Phase.splits option.splits intro: bounded_mono claimOf_mono handleOk_mono)

lemma storedFor_later: "storedFor r stored now \<Longrightarrow> now \<le> now' \<Longrightarrow> storedFor r stored now'"
  unfolding storedFor_def by (auto split: Phase.splits option.splits sum.splits)

lemma strayOk_mono:
  "strayOk iss now rs request \<Longrightarrow> (\<And>e v. iss e v \<Longrightarrow> iss' e v) \<Longrightarrow> now \<le> now' \<Longrightarrow>
   strayOk iss' now' rs request"
  unfolding strayOk_def
  by (auto split: LeaseRequest.splits intro: claimOf_mono ownEtag_mono)


section \<open>The steps of one runtime\<close>

definition keeps :: "issuance \<Rightarrow> rat \<Rightarrow> string \<Rightarrow> StoredJson option \<Rightarrow> Runtime \<Rightarrow> Runtime \<Rightarrow> bool" where
  "keeps iss now holder stored r r' \<longleftrightarrow>
     runtimeOk iss now holder r' \<and> storedFor r' stored now \<and>
     (\<forall>doc. gaveUp (Some r) doc \<longrightarrow> gaveUp (Some r') doc) \<and>
     (retired r \<longrightarrow> retired r') \<and> rtm_input r' = rtm_input r"

lemma keeps_same: "runtimeOk iss now holder r \<Longrightarrow> storedFor r stored now \<Longrightarrow> keeps iss now holder stored r r"
  by (simp add: keeps_def)

lemma keeps_abort:
  "runtimeOk iss now holder r \<Longrightarrow> storedFor r stored now \<Longrightarrow>
   keeps iss now holder stored r (r\<lparr>rtm_aborted := True\<rparr>)"
  by (auto simp: keeps_def runtimeOk_def storedFor_def gaveUp_def retired_def handleOk_def
      split: Phase.splits option.splits sum.splits)

lemma keeps_beginAttempt:
  "runtimeOk iss now holder r \<Longrightarrow> storedFor r stored now \<Longrightarrow>
   keeps iss now holder stored r (beginAttempt now r)"
  by (auto simp: beginAttempt_def keeps_same intro: keeps_same split: Phase.splits option.splits)
    (auto simp: keeps_def runtimeOk_def storedFor_def gaveUp_def retired_def)

lemma keeps_failRead:
  "runtimeOk iss now holder r \<Longrightarrow> storedFor r stored now \<Longrightarrow>
   keeps iss now holder stored r (failRead e r)"
  by (auto simp: failRead_def intro: keeps_same split: Phase.splits)
    (auto simp: keeps_def runtimeOk_def storedFor_def gaveUp_def retired_def)

lemma keeps_serveRead:
  assumes "runtimeOk iss now holder r" "storedFor r stored now"
    and "\<And>o1. stored = Some o1 \<Longrightarrow> iss (so_etag o1) (so_value o1)"
  shows "keeps iss now holder stored r (serveRead stored r)"
  using assms
  by (auto simp: serveRead_def intro: keeps_same split: Phase.splits)
    (auto simp: keeps_def runtimeOk_def storedFor_def gaveUp_def retired_def split: option.splits)

lemma acquireAttempt_claim:
  assumes "acquireAttempt input holder waitDeadline now stored = AttemptWrites doc condition"
    and "\<And>o1. stored = Some o1 \<Longrightarrow> iss (so_etag o1) (so_value o1)"
  shows "doc_holder doc = holder \<and> bounded now input (lin_deadlineAt input) doc \<and>
    claimOf iss now doc condition"
proof (cases stored)
  case None
  with assms(1) show ?thesis
    by (auto simp: acquireAttempt_def claimDocument_def bounded_def claimOf_def)
next
  case (Some o1)
  with assms(1) obtain d where d: "parseLease (so_value o1) = Inr d" "doc_expiresAt d \<le> now"
    "doc = claimDocument input holder now (Some d)" "pcn_etag condition = Some (so_etag o1)"
    by (auto simp: acquireAttempt_def split: sum.splits if_splits)
  then have "claimOf iss now doc condition"
    unfolding claimOf_def using assms(2)[OF Some] by (force simp: claimDocument_def)
  with d(3) show ?thesis by (simp add: claimDocument_def bounded_def)
qed

lemma keeps_decideAttempt:
  assumes "runtimeOk iss now holder r" "storedFor r stored now"
  shows "keeps iss now holder stored r (decideAttempt holder now r)"
proof (cases "rtm_phase r")
  case (Fetched seen)
  with assms(1) have issued: "\<And>o1. seen = Some o1 \<Longrightarrow> iss (so_etag o1) (so_value o1)"
    by (auto simp: runtimeOk_def)
  have claim: "\<And>doc condition. acquireAttempt (rtm_input r) holder (rtm_waitDeadline r) now seen =
      AttemptWrites doc condition \<Longrightarrow> doc_holder doc = holder \<and>
      bounded now (rtm_input r) (lin_deadlineAt (rtm_input r)) doc \<and> claimOf iss now doc condition"
    by (rule acquireAttempt_claim) (auto intro: issued)
  show ?thesis
    using Fetched claim
    by (auto simp: decideAttempt_def keeps_def runtimeOk_def storedFor_def gaveUp_def retired_def
        split: option.splits Attempt.splits)
qed (use assms in \<open>auto simp: decideAttempt_def intro: keeps_same\<close>)

text \<open>A step of a handle, seen from the runtime.\<close>

lemma keeps_handle:
  assumes "rtm_phase r = Held h" "rtm_aborted r \<longrightarrow> aborted'"
    and "handleOk iss now (rtm_input r) aborted' holder h'"
    and "storedFor (r\<lparr>rtm_aborted := aborted', rtm_phase := Held h'\<rparr>) stored now"
    and "aborted' \<or> hnd_document h' = hnd_document h \<and> hnd_current h' = hnd_current h
      \<or> (\<forall>op nxt err. hnd_current h \<noteq> Some (op, nxt, Some (Inl err)))"
  shows "keeps iss now holder stored r (r\<lparr>rtm_aborted := aborted', rtm_phase := Held h'\<rparr>)"
  using assms by (auto simp: keeps_def runtimeOk_def gaveUp_def retired_def)

lemma keeps_handle_same_signal:
  assumes "rtm_phase r = Held h"
    and "handleOk iss now (rtm_input r) (rtm_aborted r) holder h'"
    and "storedFor (r\<lparr>rtm_phase := Held h'\<rparr>) stored now"
    and "rtm_aborted r \<or> hnd_document h' = hnd_document h \<and> hnd_current h' = hnd_current h
      \<or> (\<forall>op nxt err. hnd_current h \<noteq> Some (op, nxt, Some (Inl err)))"
  shows "keeps iss now holder stored r (r\<lparr>rtm_phase := Held h'\<rparr>)"
  using assms by (auto simp: keeps_def runtimeOk_def gaveUp_def retired_def)

lemma handleOk_enqueue:
  "handleOk iss now input aborted holder h \<Longrightarrow> op \<noteq> ReleaseLease \<or> hnd_released h \<Longrightarrow>
   handleOk iss now input aborted holder (enqueue op h)"
  by (auto simp: handleOk_def enqueue_def currentOk_def)

lemma keeps_enqueue:
  assumes "runtimeOk iss now holder r" "storedFor r stored now" "rtm_phase r = Held h" "op \<noteq> ReleaseLease"
  shows "keeps iss now holder stored r (r\<lparr>rtm_phase := Held (enqueue op h)\<rparr>)"
  using assms
  by (intro keeps_handle_same_signal[of r h] handleOk_enqueue)
    (auto simp: runtimeOk_def storedFor_def enqueue_def)

lemma keeps_signal:
  assumes "runtimeOk iss now holder r" "storedFor r stored now" "rtm_aborted r \<longrightarrow> b"
  shows "keeps iss now holder stored r (r\<lparr>rtm_aborted := b\<rparr>)"
proof (cases b)
  case True
  with keeps_abort[OF assms(1,2)] show ?thesis by simp
next
  case False
  then have "r\<lparr>rtm_aborted := b\<rparr> = r" using assms(3) by (cases r) simp
  with assms show ?thesis by (simp add: keeps_same)
qed

lemma checkAborts_mono: "aborted \<longrightarrow> checkAborts now aborted h"
  by (simp add: checkAborts_def)

lemma keeps_ensureHeld:
  "runtimeOk iss now holder r \<Longrightarrow> storedFor r stored now \<Longrightarrow>
   keeps iss now holder stored r (ensureHeld now r)"
  by (cases "rtm_phase r")
    (auto simp: ensureHeld_def intro!: keeps_same keeps_signal keeps_enqueue checkAborts_mono[rule_format])

lemma handleOk_promoted:
  "handleOk iss now input aborted holder h \<Longrightarrow>
   handleOk iss now input aborted holder (h\<lparr>hnd_deadlineAt := None\<rparr>)"
  by (auto simp: handleOk_def currentOk_def intro: bounded_promoted)

lemma keeps_promote:
  assumes "runtimeOk iss now holder r" "storedFor r stored now"
  shows "keeps iss now holder stored r (promote now r)"
proof (cases "rtm_phase r")
  case (Held h)
  then show ?thesis
    using assms
    by (auto simp: promote_def runtimeOk_def storedFor_def intro!: keeps_signal
        keeps_handle_same_signal[of r h] handleOk_promoted checkAborts_mono[rule_format])
qed (use assms in \<open>auto simp: promote_def intro: keeps_same\<close>)

lemma keeps_updateState:
  "runtimeOk iss now holder r \<Longrightarrow> storedFor r stored now \<Longrightarrow>
   keeps iss now holder stored r (updateState s r)"
  by (cases "rtm_phase r") (auto simp: updateState_def intro!: keeps_same keeps_enqueue)

lemma keeps_renewalTimer:
  "runtimeOk iss now holder r \<Longrightarrow> storedFor r stored now \<Longrightarrow>
   keeps iss now holder stored r (renewalTimer r)"
  by (cases "rtm_phase r") (auto simp: renewalTimer_def intro!: keeps_same keeps_enqueue)

lemma keeps_expiryTimer:
  "runtimeOk iss now holder r \<Longrightarrow> storedFor r stored now \<Longrightarrow>
   keeps iss now holder stored r (expiryTimer now r)"
  by (cases "rtm_phase r") (auto simp: expiryTimer_def intro!: keeps_same keeps_abort)

lemma handleOk_released:
  "handleOk iss now input aborted holder h \<Longrightarrow>
   handleOk iss now input True holder (enqueue ReleaseLease (h\<lparr>hnd_released := True\<rparr>))"
  by (auto simp: handleOk_def enqueue_def currentOk_def)

lemma keeps_releaseLease:
  assumes "runtimeOk iss now holder r" "storedFor r stored now"
  shows "keeps iss now holder stored r (releaseLease r)"
proof (cases "rtm_phase r")
  case (Held h)
  then show ?thesis
    using assms
    by (auto simp: releaseLease_def runtimeOk_def storedFor_def intro!: keeps_same
        keeps_handle[of r h True] handleOk_released)
qed (use assms in \<open>auto simp: releaseLease_def intro: keeps_same\<close>)


lemma handleOk_start:
  assumes "handleOk iss now input aborted holder h" "hnd_operations h = op # rest" "hnd_current h = None"
    and "op = ReleaseLease \<and> nxt = (hnd_document h)\<lparr>doc_expiresAt := 0\<rparr>
      \<or> op \<noteq> ReleaseLease \<and> nxt = nextDocument input now (writtenState op h) h"
  shows "handleOk iss now input aborted holder
    (h\<lparr>hnd_operations := rest, hnd_current := Some (op, nxt, None)\<rparr>)"
  using assms by (auto simp: handleOk_def currentOk_def nextDocument_def bounded_def)

lemma handleOk_skip:
  "handleOk iss now input aborted holder h \<Longrightarrow> hnd_operations h = op # rest \<Longrightarrow>
   handleOk iss now input (aborted \<or> b) holder (h\<lparr>hnd_operations := rest\<rparr>)"
  by (auto simp: handleOk_def currentOk_def)

lemma storedForHandle_start:
  "hnd_current h = None \<Longrightarrow> storedForHandle h stored \<Longrightarrow>
   storedForHandle (h\<lparr>hnd_operations := rest, hnd_current := Some (op, nxt, None)\<rparr>) stored"
  by (simp add: storedForHandle_def)

lemma keeps_startOperation:
  assumes "runtimeOk iss now holder r" "storedFor r stored now"
  shows "keeps iss now holder stored r (startOperation now r)"
proof (cases "rtm_phase r")
  case (Held h)
  note ok = assms(1)[unfolded runtimeOk_def Held, simplified]
  show ?thesis
  proof (cases "hnd_current h = None \<and> hnd_operations h \<noteq> []")
    case True
    then obtain op rest where queue: "hnd_operations h = op # rest" "hnd_current h = None"
      by (cases "hnd_operations h") auto
    have started: "keeps iss now holder stored r
        (r\<lparr>rtm_phase := Held (h\<lparr>hnd_operations := rest, hnd_current := Some (op, nxt, None)\<rparr>)\<rparr>)"
      if "op = ReleaseLease \<and> nxt = (hnd_document h)\<lparr>doc_expiresAt := 0\<rparr>
        \<or> op \<noteq> ReleaseLease \<and> nxt = nextDocument (rtm_input r) now (writtenState op h) h" for nxt
      using Held assms(2) queue handleOk_start[OF ok queue that] storedForHandle_start[OF queue(2)]
      by (intro keeps_handle_same_signal[of r h]) (auto simp: storedFor_def)
    have skipped: "keeps iss now holder stored r
        (r\<lparr>rtm_aborted := checkAborts now (rtm_aborted r) h, rtm_phase := Held (h\<lparr>hnd_operations := rest\<rparr>)\<rparr>)"
      using Held assms(2) queue handleOk_skip[OF ok queue(1), of "checkAborts now (rtm_aborted r) h"]
      by (intro keeps_handle[of r h]) (auto simp: storedFor_def checkAborts_def)
    show ?thesis
      using Held queue started skipped by (auto simp: startOperation_def)
  qed (use Held assms in \<open>auto simp: startOperation_def intro: keeps_same split: option.splits list.splits\<close>)
qed (use assms in \<open>auto simp: startOperation_def intro: keeps_same\<close>)

text \<open>The answers.\<close>

lemma settled_handle:
  assumes ok: "handleOk iss now input aborted holder h"
    and current: "hnd_current h = Some (op, nxt, Some answer)" "op \<noteq> ReleaseLease"
    and settled: "settleWrite now aborted nxt answer h = (h', error)"
  shows "handleOk iss now input (aborted \<or> error \<noteq> None) holder h'"
proof (cases answer)
  case (Inl err)
  with assms show ?thesis by (auto simp: settleWrite_def handleOk_def)
next
  case (Inr e)
  have "currentOk iss now input h op nxt (Some answer)"
    using ok current by (simp add: handleOk_def)
  with Inr current have next_ok: "doc_holder nxt = doc_holder (hnd_document h)"
    "doc_generation nxt = doc_generation (hnd_document h)"
    "bounded now input (hnd_deadlineAt h) nxt" "iss e (leaseJson nxt)"
    by (auto simp: currentOk_def)
  from ok have own: "doc_holder (hnd_document h) = holder" by (simp add: handleOk_def)
  with next_ok have "ownEtag iss holder (doc_generation nxt) e"
    unfolding ownEtag_def by auto
  with own next_ok settled Inr ok show ?thesis
    by (auto simp: settleWrite_def handleOk_def Let_def)
qed

lemma settled_error:
  "settleWrite now aborted nxt (Inl err) h = (h', error) \<Longrightarrow> error \<noteq> None"
  by (auto simp: settleWrite_def)

lemma settled_stored:
  assumes "settleWrite now aborted nxt answer h = (h', None)" "hnd_current h = Some (op, nxt, Some answer)"
    and "now < doc_expiresAt (hnd_document h) \<longrightarrow> storedForHandle h stored"
  shows "storedForHandle h' stored"
  using assms by (auto simp: settleWrite_def storedForHandle_def Let_def split: sum.splits if_splits)

lemma handleOk_settleRelease:
  assumes "handleOk iss now input aborted holder h"
    and "hnd_current h = Some (ReleaseLease, nxt, Some answer)"
  shows "handleOk iss now input aborted holder (settleRelease input answer h)"
  using assms by (auto simp: settleRelease_def handleOk_def currentOk_def ownEtag_def split: sum.splits)

lemma settleRelease_document [simp]:
  "hnd_document (settleRelease input answer h) = hnd_document h"
  "hnd_released (settleRelease input answer h) = hnd_released h"
  by (auto simp: settleRelease_def split: sum.splits)

lemma claimed_handle:
  assumes "doc_holder doc = holder" "bounded now input (lin_deadlineAt input) doc" "iss e (leaseJson doc)"
  shows "handleOk iss now input aborted holder \<lparr>hnd_etag = e, hnd_document = doc,
    hnd_deadlineAt = lin_deadlineAt input, hnd_released = False, hnd_operations = [], hnd_current = None\<rparr>"
  using assms by (auto simp: handleOk_def ownEtag_def)

lemma keeps_settleAnswer:
  assumes "runtimeOk iss now holder r" "storedFor r stored now"
  shows "keeps iss now holder stored r (settleAnswer now r)"
proof (cases "rtm_phase r")
  case (Claiming doc condition answer)
  then show ?thesis
    using assms
    by (auto simp: settleAnswer_def keeps_def runtimeOk_def storedFor_def gaveUp_def retired_def
        storedForHandle_def intro!: claimed_handle split: option.splits sum.splits)
next
  case (Held h)
  note ok = assms(1)[unfolded runtimeOk_def Held, simplified]
  show ?thesis
  proof (cases "\<exists>op nxt answer. hnd_current h = Some (op, nxt, Some answer)")
    case True
    then obtain op nxt answer where current: "hnd_current h = Some (op, nxt, Some answer)" by blast
    show ?thesis
    proof (cases "op = ReleaseLease")
      case True
      with current ok have "rtm_aborted r" by (auto simp: handleOk_def currentOk_def)
      with True current Held handleOk_settleRelease[OF ok] show ?thesis
        by (auto simp: settleAnswer_def storedFor_def intro!: keeps_handle_same_signal[of r h])
    next
      case False
      obtain h' error where settled: "settleWrite now (rtm_aborted r) nxt answer h = (h', error)"
        by (cases "settleWrite now (rtm_aborted r) nxt answer h")
      have "keeps iss now holder stored r (r\<lparr>rtm_aborted := rtm_aborted r \<or> error \<noteq> None, rtm_phase := Held h'\<rparr>)"
        using Held assms(2) current settled settled_handle[OF ok current False settled]
          settled_error[of now "rtm_aborted r" nxt _ h h' error]
          settled_stored[of now "rtm_aborted r" nxt answer h h' op stored]
        by (intro keeps_handle[of r h]) (auto simp: storedFor_def)
      with False current Held settled show ?thesis by (simp add: settleAnswer_def)
    qed
  qed (use Held assms in \<open>auto simp: settleAnswer_def intro: keeps_same split: option.splits\<close>)
qed (use assms in \<open>auto simp: settleAnswer_def intro: keeps_same\<close>)

lemma keeps_runtimeEvent:
  assumes "runtimeOk iss now holder r" "storedFor r stored now"
  shows "keeps iss now holder stored r (runtimeEvent holder now event r)"
  by (cases event)
    (simp_all add: assms keeps_beginAttempt keeps_failRead keeps_decideAttempt keeps_settleAnswer
      keeps_startOperation keeps_ensureHeld keeps_promote keeps_updateState keeps_releaseLease
      keeps_renewalTimer keeps_expiryTimer keeps_abort keeps_same)


section \<open>The steps of the store\<close>

lemma stored_value: "map_option so_value stored = Some v \<Longrightarrow> \<exists>e. stored = Some \<lparr>so_etag = e, so_value = v\<rparr>"
  by (cases stored; cases "the stored") auto

lemma storedForHandle_cases:
  assumes "storedForHandle h stored"
  shows "\<exists>e. stored = Some \<lparr>so_etag = e, so_value = leaseJson (hnd_document h)\<rparr> \<or>
    (\<exists>op nxt answer. hnd_current h = Some (op, nxt, answer) \<and>
       stored = Some \<lparr>so_etag = e, so_value = leaseJson nxt\<rparr>)"
proof (cases "hnd_current h")
  case None
  with assms show ?thesis by (simp add: storedForHandle_def)
next
  case (Some c)
  obtain op nxt answer where c: "c = (op, nxt, answer)" by (cases c)
  show ?thesis
  proof (cases answer)
    case None
    with assms Some c show ?thesis by (auto simp: storedForHandle_def)
  next
    case (Some a)
    note current = \<open>hnd_current h = Some c\<close>[unfolded c Some]
    show ?thesis
    proof (cases a)
      case (Inl err)
      with assms current
      have "map_option so_value stored = Some (leaseJson (hnd_document h)) \<or>
          map_option so_value stored = Some (leaseJson nxt)"
        by (simp add: storedForHandle_def)
      with current show ?thesis using stored_value by blast
    next
      case (Inr e)
      with assms current show ?thesis by (auto simp: storedForHandle_def)
    qed
  qed
qed

lemma answerRequest_input [simp]: "rtm_input (answerRequest answer r) = rtm_input r"
  by (auto simp: answerRequest_def split: Phase.splits option.splits)

text \<open>A runtime either has no stake in the object, or finds its own unexpired document there.\<close>

lemma stake_cases:
  assumes "runtimeOk iss now holder r" "storedFor r stored now"
  obtains "\<And>stored'. storedFor r stored' now"
  | e d where "stored = Some \<lparr>so_etag = e, so_value = leaseJson d\<rparr>" "doc_holder d = holder"
      "now < doc_expiresAt d"
proof (cases "rtm_phase r")
  case (Claiming doc condition answer)
  then show ?thesis
    using assms that by (auto simp: runtimeOk_def storedFor_def split: option.splits sum.splits)
next
  case (Held h)
  note ok = assms(1)[unfolded runtimeOk_def Held, simplified]
  show ?thesis
  proof (cases "rtm_aborted r \<or> doc_expiresAt (hnd_document h) \<le> now")
    case True
    with Held that(1) show ?thesis by (auto simp: storedFor_def)
  next
    case False
    with Held assms(2) have stored: "storedForHandle h stored" by (simp add: storedFor_def)
    have later: "doc_holder nxt = holder \<and> now < doc_expiresAt nxt"
      if "hnd_current h = Some (op, nxt, answer)" for op nxt answer
      using that ok False by (cases "op = ReleaseLease") (auto simp: handleOk_def currentOk_def)
    have "\<exists>e d. stored = Some \<lparr>so_etag = e, so_value = leaseJson d\<rparr> \<and> doc_holder d = holder
        \<and> now < doc_expiresAt d"
      using storedForHandle_cases[OF stored] later ok False by (auto simp: handleOk_def)
    then show ?thesis using that(2) by blast
  qed
qed (use assms that in \<open>auto simp: storedFor_def\<close>)

definition requestBy :: "issuance \<Rightarrow> rat \<Rightarrow> string \<Rightarrow> LeaseRequest \<Rightarrow> bool" where
  "requestBy iss now holder request \<longleftrightarrow> (case request of
     PutLease doc condition \<Rightarrow> claimOf iss now doc condition \<or>
       (\<exists>e g. pcn_etag condition = Some e \<and> ownEtag iss holder g e)
   | DeleteLease e \<Rightarrow> (\<exists>g. ownEtag iss holder g e))"

lemma awaited_by:
  assumes "runtimeOk iss now holder r" "awaitedRequest r = Some request"
  shows "requestBy iss now holder request"
  using assms
  by (auto simp: awaitedRequest_def runtimeOk_def requestBy_def operationRequest_def handleOk_def
      split: Phase.splits option.splits prod.splits)

context conditional_storage
begin

text \<open>A served request touches nobody else's stake.\<close>

lemma served_condition:
  assumes served: "serveRequest storage key request objects = (Inr e, objects')" and valid: "valid objects"
    and source: "requestBy (issued objects key) now holder request"
    and stored: "getJson storage key objects = Some \<lparr>so_etag = e0, so_value = leaseJson d\<rparr>"
    and unexpired: "now < doc_expiresAt d"
  shows "doc_holder d = holder"
proof -
  have unique: "v = leaseJson d" if "issued objects key e0 v" for v
    using issued_unique[OF valid stored, of v] that by simp
  then have own: "d' = d" if "issued objects key e0 (leaseJson d')" for d'
    using that by fastforce
  show ?thesis
  proof (cases request)
    case (PutLease doc condition)
    with served have put: "putJson storage key (leaseJson doc) condition objects = (Inr e, objects')"
      by (simp add: serveRequest_def)
    note condition = put_ok[OF put valid]
    have "\<not> claimOf (issued objects key) now doc condition"
    proof
      assume "claimOf (issued objects key) now doc condition"
      then show False
        using condition stored unexpired unique parseLease_leaseJson
        unfolding claimOf_def by fastforce
    qed
    with source PutLease condition stored show ?thesis
      by (auto simp: requestBy_def ownEtag_def dest: own)
  next
    case (DeleteLease e1)
    with served obtain u where "deleteObject storage key (Some e1) objects = (Inr u, objects')"
      by (auto simp: serveRequest_def split: prod.splits sum.splits)
    from delete_ok[OF this valid] stored have "e1 = e0" by auto
    with source DeleteLease show ?thesis by (auto simp: requestBy_def ownEtag_def dest: own)
  qed
qed

lemma served_refused:
  "serveRequest storage key request objects = (Inl err, objects') \<Longrightarrow> objects' = objects"
  by (auto simp: serveRequest_def split: LeaseRequest.splits prod.splits sum.splits
      dest: put_refused delete_refused)

lemma served_valid:
  "serveRequest storage key request objects = (answer, objects') \<Longrightarrow> valid objects \<Longrightarrow> valid objects'"
  by (cases answer)
    (auto simp: serveRequest_def split: LeaseRequest.splits prod.splits sum.splits
      dest: put_refused delete_refused put_ok delete_ok)

lemma served_issued:
  "serveRequest storage key request objects = (answer, objects') \<Longrightarrow> valid objects \<Longrightarrow>
   issued objects key e v \<Longrightarrow> issued objects' key e v"
  by (cases answer)
    (auto simp: serveRequest_def split: LeaseRequest.splits prod.splits sum.splits
      dest: put_refused delete_refused issued_put issued_delete)

lemma served_others:
  assumes "serveRequest storage key request objects = (answer, objects')" "valid objects"
    and "requestBy (issued objects key) now holder request" "other \<noteq> holder"
    and "runtimeOk iss now other r" "storedFor r (getJson storage key objects) now"
  shows "storedFor r (getJson storage key objects') now"
proof (cases answer)
  case (Inl err)
  with assms(1,6) show ?thesis by (auto dest: served_refused)
next
  case (Inr e)
  from assms(5,6) show ?thesis
  proof (cases rule: stake_cases)
    case (2 e0 d)
    with assms(1,2,3,4) Inr show ?thesis using served_condition[of key request objects e objects' now holder e0 d]
      by auto
  qed
qed

text \<open>The answer recorded by the runtime whose request was served.\<close>

lemma served_self:
  assumes served: "serveRequest storage key request objects = (answer, objects')" and valid: "valid objects"
    and awaited: "awaitedRequest r = Some request"
    and ok: "runtimeOk (issued objects key) now holder r"
    and stored: "storedFor r (getJson storage key objects) now"
  shows "runtimeOk (issued objects' key) now holder (answerRequest answer r)"
    and "storedFor (answerRequest answer r) (getJson storage key objects') now"
proof -
  have mono: "runtimeOk (issued objects' key) now holder r"
    using ok by (rule runtimeOk_mono) (auto intro: served_issued[OF served valid])
  have current: "answer = Inr e \<Longrightarrow> request = PutLease doc condition \<Longrightarrow>
      getJson storage key objects' = Some \<lparr>so_etag = e, so_value = leaseJson doc\<rparr>" for e doc condition
    using served put_ok[OF _ valid] by (auto simp: serveRequest_def)
  have new: "answer = Inr e \<Longrightarrow> request = PutLease doc condition \<Longrightarrow>
      issued objects' key e (leaseJson doc)" for e doc condition
    using current issued_current[OF served_valid[OF served valid]] by fastforce
  have unchanged: "answer = Inl err \<Longrightarrow> objects' = objects" for err
    using served served_refused by blast
  have goal: "runtimeOk (issued objects' key) now holder (answerRequest answer r) \<and>
    storedFor (answerRequest answer r) (getJson storage key objects') now"
  proof (cases "rtm_phase r")
    case (Claiming doc condition reply)
    with mono awaited new current unchanged show ?thesis
      by (cases answer)
        (auto simp: awaitedRequest_def answerRequest_def runtimeOk_def storedFor_def split: option.splits)
  next
    case (Held h)
    with awaited obtain op nxt where c: "hnd_current h = Some (op, nxt, None)"
      and request: "request = operationRequest (rtm_input r) op nxt (hnd_etag h)"
      by (auto simp: awaitedRequest_def split: option.splits prod.splits)
    have put: "request = PutLease nxt \<lparr>pcn_etag = Some (hnd_etag h), pcn_absent = False\<rparr>"
      if "op \<noteq> ReleaseLease \<or> lin_durable (rtm_input r)"
      using that request by (auto simp: operationRequest_def)
    have gone: "op = ReleaseLease \<Longrightarrow> rtm_aborted r"
      using mono Held c by (auto simp: runtimeOk_def handleOk_def currentOk_def)
    show ?thesis
      using Held c mono stored unchanged new[OF _ put] current[OF _ put] gone
      by (cases answer)
        (auto simp: answerRequest_def runtimeOk_def storedFor_def storedForHandle_def handleOk_def
          currentOk_def)
  qed (use mono awaited in \<open>auto simp: awaitedRequest_def\<close>)
  then show "runtimeOk (issued objects' key) now holder (answerRequest answer r)"
    and "storedFor (answerRequest answer r) (getJson storage key objects') now" by auto
qed

end

lemma keeps_answer:
  assumes "runtimeOk iss now holder r" "storedFor r stored now"
  shows "keeps iss now holder stored r (answerRequest (Inl err) r)"
proof (cases "rtm_phase r")
  case (Held h)
  note ok = assms(1)[unfolded runtimeOk_def Held, simplified]
  show ?thesis
  proof (cases "hnd_current h")
    case None
    with Held assms show ?thesis by (simp add: answerRequest_def keeps_same)
  next
    case (Some c)
    obtain op nxt answer where c: "c = (op, nxt, answer)" by (cases c)
    let ?h = "h\<lparr>hnd_current := Some (op, nxt, Some (Inl err))\<rparr>"
    have handle: "handleOk iss now (rtm_input r) (rtm_aborted r) holder ?h"
      using ok Some c by (auto simp: handleOk_def currentOk_def)
    have "storedForHandle h stored \<Longrightarrow> storedForHandle ?h stored"
      using Some c by (auto simp: storedForHandle_def split: option.splits sum.splits)
    with Held assms(2) Some c handle show ?thesis
      by (auto simp: answerRequest_def keeps_def runtimeOk_def storedFor_def gaveUp_def retired_def)
  qed
qed (use assms in \<open>auto simp: answerRequest_def keeps_def runtimeOk_def storedFor_def gaveUp_def
  retired_def\<close>)

lemma stray_lost:
  assumes "runtimeOk iss now holder r" "awaitedRequest r = Some request"
  shows "strayOk iss now (runtimes(holder \<mapsto> answerRequest (Inl err) r)) request"
proof (cases "rtm_phase r")
  case (Claiming doc condition answer)
  with assms show ?thesis
    by (auto simp: awaitedRequest_def runtimeOk_def strayOk_def split: option.splits)
next
  case (Held h)
  with assms(2) obtain op nxt where c: "hnd_current h = Some (op, nxt, None)"
    and request: "request = operationRequest (rtm_input r) op nxt (hnd_etag h)"
    by (auto simp: awaitedRequest_def split: option.splits prod.splits)
  note ok = assms(1)[unfolded runtimeOk_def Held, simplified]
  with c have current: "currentOk iss now (rtm_input r) h op nxt None"
    and own: "ownEtag iss holder (doc_generation (hnd_document h)) (hnd_etag h)"
    and holder: "doc_holder (hnd_document h) = holder" "hnd_released h \<longrightarrow> rtm_aborted r"
    by (auto simp: handleOk_def)
  show ?thesis
  proof (cases "op = ReleaseLease \<and> \<not> lin_durable (rtm_input r)")
    case True
    with current holder have "rtm_aborted r" by (simp add: currentOk_def)
    with True request Held c own show ?thesis
      by (auto simp: operationRequest_def strayOk_def ownEtag_def answerRequest_def retired_def)
  next
    case False
    then have "request = PutLease nxt \<lparr>pcn_etag = Some (hnd_etag h), pcn_absent = False\<rparr>"
      using request by (auto simp: operationRequest_def)
    with current own holder Held c show ?thesis
      by (cases "op = ReleaseLease")
        (auto simp: strayOk_def answerRequest_def gaveUp_def currentOk_def)
  qed
qed (use assms in \<open>auto simp: awaitedRequest_def\<close>)

lemma strayOk_update:
  assumes "strayOk iss now runtimes request" "runtimes holder = Some r"
    and "keeps iss' now' holder stored r r'"
  shows "strayOk iss now (runtimes(holder \<mapsto> r')) request"
  using assms
  by (auto simp: strayOk_def keeps_def gaveUp_def split: LeaseRequest.splits option.splits)

lemma strayOk_new:
  "strayOk iss now runtimes request \<Longrightarrow> runtimes holder = None \<Longrightarrow>
   strayOk iss now (runtimes(holder \<mapsto> r')) request"
  by (auto simp: strayOk_def gaveUp_def split: LeaseRequest.splits option.splits)


section \<open>The invariant\<close>

context conditional_storage
begin

lemma invariant_change:
  assumes inv: "leaseInvariant storage valid issued key s" and r: "sys_runtimes s holder = Some r"
    and keeps: "keeps (issued (sys_objects s) key) (sys_clock s) holder
      (getJson storage key (sys_objects s)) r r'"
  shows "leaseInvariant storage valid issued key (s\<lparr>sys_runtimes := (sys_runtimes s)(holder \<mapsto> r')\<rparr>)"
proof -
  have "strayOk iss now ((sys_runtimes s)(holder \<mapsto> r')) request"
    if "strayOk iss now (sys_runtimes s) request" for iss now request
    using that r keeps by (rule strayOk_update)
  with inv keeps show ?thesis by (auto simp: leaseInvariant_def keeps_def)
qed

lemma invariant_start:
  assumes "leaseInvariant storage valid issued key s" "sys_runtimes s holder = None"
  shows "leaseInvariant storage valid issued key
    (s\<lparr>sys_runtimes := (sys_runtimes s)(holder \<mapsto> startAcquire input (sys_clock s))\<rparr>)"
  using assms
  by (auto simp: leaseInvariant_def startAcquire_def runtimeOk_def storedFor_def intro: strayOk_new)

lemma invariant_clock:
  assumes "leaseInvariant storage valid issued key s" "sys_clock s \<le> t"
  shows "leaseInvariant storage valid issued key (s\<lparr>sys_clock := t\<rparr>)"
  using assms
  by (auto simp: leaseInvariant_def intro: runtimeOk_mono storedFor_later strayOk_mono)

lemma invariant_lost:
  assumes inv: "leaseInvariant storage valid issued key s" and r: "sys_runtimes s holder = Some r"
  shows "leaseInvariant storage valid issued key
    (s\<lparr>sys_runtimes := (sys_runtimes s)(holder \<mapsto> answerRequest (Inl err) r),
       sys_strays := (case awaitedRequest r of None \<Rightarrow> [] | Some request \<Rightarrow> [request]) @ sys_strays s\<rparr>)"
proof -
  let ?s = "s\<lparr>sys_runtimes := (sys_runtimes s)(holder \<mapsto> answerRequest (Inl err) r)\<rparr>"
  from inv r have ok: "runtimeOk (issued (sys_objects s) key) (sys_clock s) holder r"
    "storedFor r (getJson storage key (sys_objects s)) (sys_clock s)"
    by (auto simp: leaseInvariant_def)
  have "leaseInvariant storage valid issued key ?s"
    by (rule invariant_change[OF inv r keeps_answer[OF ok]])
  then show ?thesis
    using stray_lost[OF ok(1)] by (auto simp: leaseInvariant_def split: option.splits)
qed

lemma served_own:
  assumes inv: "leaseInvariant storage valid issued key s" and r: "sys_runtimes s holder = Some r"
    and awaited: "awaitedRequest r = Some request"
    and served: "serveRequest storage key request (sys_objects s) = (answer, objects)"
  shows "leaseInvariant storage valid issued key
    (s\<lparr>sys_objects := objects, sys_runtimes := (sys_runtimes s)(holder \<mapsto> answerRequest answer r)\<rparr>)"
proof -
  let ?iss = "issued (sys_objects s) key" and ?iss' = "issued objects key"
  from inv have valid: "valid (sys_objects s)" by (simp add: leaseInvariant_def)
  note mono = served_issued[OF served valid]
  from inv r have ok: "runtimeOk ?iss (sys_clock s) holder r"
    and stored: "storedFor r (getJson storage key (sys_objects s)) (sys_clock s)"
    by (auto simp: leaseInvariant_def)
  note source = awaited_by[OF ok awaited]
  have others: "runtimeOk ?iss' (sys_clock s) other r' \<and> storedFor r' (getJson storage key objects) (sys_clock s)"
    if "sys_runtimes s other = Some r'" "other \<noteq> holder" for other r'
  proof -
    from inv that(1) have "runtimeOk ?iss (sys_clock s) other r'"
      and "storedFor r' (getJson storage key (sys_objects s)) (sys_clock s)"
      by (auto simp: leaseInvariant_def)
    then show ?thesis
      using served_others[OF served valid source that(2)] mono
      by (auto intro: runtimeOk_mono)
  qed
  have strays: "strayOk ?iss' (sys_clock s) ((sys_runtimes s)(holder \<mapsto> answerRequest answer r)) request'"
    if "request' \<in> set (sys_strays s)" for request'
  proof -
    from inv that have "strayOk ?iss (sys_clock s) (sys_runtimes s) request'"
      by (auto simp: leaseInvariant_def)
    then have "strayOk ?iss' (sys_clock s) (sys_runtimes s) request'"
      by (rule strayOk_mono) (auto intro: mono)
    moreover have "gaveUp (Some r) doc \<Longrightarrow> gaveUp (Some (answerRequest answer r)) doc"
      and "retired r \<Longrightarrow> retired (answerRequest answer r)" for doc
      using awaited
      by (auto simp: answerRequest_def awaitedRequest_def gaveUp_def retired_def
          split: Phase.splits option.splits)
    ultimately show ?thesis
      using r by (auto simp: strayOk_def split: LeaseRequest.splits) fastforce?
  qed
  show ?thesis
    using served_self[OF served valid awaited ok stored] served_valid[OF served valid] others strays
    by (auto simp: leaseInvariant_def)
qed

lemma served_stray:
  assumes inv: "leaseInvariant storage valid issued key s" and stray: "request \<in> set (sys_strays s)"
    and rest: "set strays \<subseteq> set (sys_strays s)"
    and served: "serveRequest storage key request (sys_objects s) = (answer, objects)"
  shows "leaseInvariant storage valid issued key (s\<lparr>sys_objects := objects, sys_strays := strays\<rparr>)"
proof -
  let ?iss = "issued (sys_objects s) key" and ?iss' = "issued objects key"
  from inv have valid: "valid (sys_objects s)" by (simp add: leaseInvariant_def)
  note mono = served_issued[OF served valid]
  from inv stray have strayOk: "strayOk ?iss (sys_clock s) (sys_runtimes s) request"
    by (auto simp: leaseInvariant_def)
  have runtimes: "runtimeOk ?iss' (sys_clock s) other r \<and> storedFor r (getJson storage key objects) (sys_clock s)"
    if r: "sys_runtimes s other = Some r" for other r
  proof -
    from inv r have ok: "runtimeOk ?iss (sys_clock s) other r"
      and stored: "storedFor r (getJson storage key (sys_objects s)) (sys_clock s)"
      by (auto simp: leaseInvariant_def)
    have "storedFor r (getJson storage key objects) (sys_clock s)"
    proof (cases "\<exists>holder. holder \<noteq> other \<and> requestBy ?iss (sys_clock s) holder request")
      case True
      then show ?thesis using served_others[OF served valid _ _ ok stored] by auto
    next
      case False
      then have none: "holder \<noteq> other \<Longrightarrow> \<not> requestBy ?iss (sys_clock s) holder request" for holder
        by blast
      show ?thesis
      proof (cases request)
        case (PutLease doc condition)
        with none[of "other @ ''x''"] have "\<not> claimOf ?iss (sys_clock s) doc condition"
          by (auto simp: requestBy_def)
        with strayOk PutLease obtain e where e: "pcn_etag condition = Some e"
          "ownEtag ?iss (doc_holder doc) (doc_generation doc) e" "gaveUp (sys_runtimes s (doc_holder doc)) doc"
          by (auto simp: strayOk_def)
        with none[of "doc_holder doc"] PutLease have "doc_holder doc = other"
          by (auto simp: requestBy_def)
        with e(3) r have "gaveUp (Some r) doc" by simp
        with stored show ?thesis
          using served PutLease put_ok[OF _ valid]
          by (cases answer)
            (auto simp: gaveUp_def storedFor_def storedForHandle_def serveRequest_def
              split: Phase.splits dest: put_refused)
      next
        case (DeleteLease e)
        with strayOk obtain d r' where d: "?iss e (leaseJson d)" "sys_runtimes s (doc_holder d) = Some r'"
          "retired r'"
          by (auto simp: strayOk_def)
        then have "requestBy ?iss (sys_clock s) (doc_holder d) request"
          using DeleteLease by (auto simp: requestBy_def ownEtag_def)
        with none have "doc_holder d = other" by blast
        with d r have "retired r" by simp
        then show ?thesis by (auto simp: retired_def storedFor_def split: Phase.splits)
      qed
    qed
    with ok mono show ?thesis by (auto intro: runtimeOk_mono)
  qed
  have "strayOk ?iss' (sys_clock s) (sys_runtimes s) request'" if "request' \<in> set strays" for request'
  proof -
    from inv rest that have "strayOk ?iss (sys_clock s) (sys_runtimes s) request'"
      by (auto simp: leaseInvariant_def)
    then show ?thesis by (rule strayOk_mono) (auto intro: mono)
  qed
  with runtimes served_valid[OF served valid] show ?thesis by (auto simp: leaseInvariant_def)
qed

lemma runtimeActs_invariant:
  assumes inv: "leaseInvariant storage valid issued key s" and r: "sys_runtimes s holder = Some r"
  shows "leaseInvariant storage valid issued key (runtimeActs storage key holder event r s)"
proof -
  from inv r have ok: "runtimeOk (issued (sys_objects s) key) (sys_clock s) holder r"
    "storedFor r (getJson storage key (sys_objects s)) (sys_clock s)"
    and valid: "valid (sys_objects s)"
    by (auto simp: leaseInvariant_def)
  note event = invariant_change[OF inv r keeps_runtimeEvent[OF ok, of event]]
  show ?thesis
  proof (cases event)
    case ServeRead
    have "leaseInvariant storage valid issued key (s\<lparr>sys_runtimes :=
      (sys_runtimes s)(holder \<mapsto> serveRead (getJson storage key (sys_objects s)) r)\<rparr>)"
      by (rule invariant_change[OF inv r keeps_serveRead[OF ok]]) (rule issued_current[OF valid])
    with ServeRead show ?thesis by (simp add: runtimeActs_def)
  next
    case ServeRequest
    with inv served_own[OF inv r] show ?thesis
      by (auto simp: runtimeActs_def split: option.splits prod.splits)
  next
    case (LoseAnswer err)
    with invariant_lost[OF inv r] show ?thesis by (simp add: runtimeActs_def)
  qed (use event in \<open>simp_all add: runtimeActs_def\<close>)
qed

lemma leaseStep_invariant:
  assumes inv: "leaseInvariant storage valid issued key s"
  shows "leaseInvariant storage valid issued key (leaseStep storage key action s)"
proof (cases action)
  case (ServeStray n)
  show ?thesis
  proof (cases "n < length (sys_strays s)")
    case True
    obtain answer objects where served:
      "serveRequest storage key (sys_strays s ! n) (sys_objects s) = (answer, objects)" by fastforce
    have "set (take n (sys_strays s) @ drop (Suc n) (sys_strays s)) \<subseteq> set (sys_strays s)"
      by (auto dest: in_set_takeD in_set_dropD)
    from served_stray[OF inv nth_mem[OF True] this served] ServeStray True served show ?thesis
      by (simp add: leaseStep_def)
  qed (use ServeStray inv in \<open>simp add: leaseStep_def\<close>)
qed (use inv in \<open>auto simp: leaseStep_def intro: invariant_start invariant_clock runtimeActs_invariant
  split: option.splits\<close>)

text \<open>It holds in every reachable state.\<close>

lemma reachable_invariant:
  "leaseReachable storage key valid s \<Longrightarrow> leaseInvariant storage valid issued key s"
proof (induction rule: leaseReachable.induct)
  case (reachable_start objects now)
  then show ?case by (simp add: leaseInvariant_def initialSystem_def)
qed (rule leaseStep_invariant)

end

end
