(* ===== verification/Microvm_Lease_Properties.thy ===== *)
theory Microvm_Lease_Properties
  imports Microvm_Lease_Safety
begin

text \<open>
  What the lease of the Lambda MicroVM backend promises: one holder at a time, an object that
  moves from one generation to the next with its state, generations that are never held twice,
  and acknowledged updates that are in the store. \<open>MemoryStorage\<close> of \<open>lease.test.ts\<close> provides the
  contract of the object store.
\<close>

section \<open>The stored lease\<close>

text \<open>The document a stored value is, whether written by the model or only accepted by
  \<open>parseLease\<close>.\<close>

definition leaseOf :: "JsonValue \<Rightarrow> LeaseDocument \<Rightarrow> bool" where
  "leaseOf v d \<longleftrightarrow> v = leaseJson d \<or> parseLease v = Inr d"

definition storedLease :: "'o Storage \<Rightarrow> string \<Rightarrow> 'o LeaseSystem \<Rightarrow> LeaseDocument \<Rightarrow> bool" where
  "storedLease storage key s d \<longleftrightarrow>
     (\<exists>stored. getJson storage key (sys_objects s) = Some stored \<and> leaseOf (so_value stored) d)"

lemma leaseOf_unique: "leaseOf v d \<Longrightarrow> leaseOf v d' \<Longrightarrow> d = d'"
  by (auto simp: leaseOf_def dest: parseLease_leaseJson)

lemma storedLease_unique: "storedLease storage key s d \<Longrightarrow> storedLease storage key s d' \<Longrightarrow> d = d'"
  by (auto simp: storedLease_def dest: leaseOf_unique)

text \<open>One change of the stored lease: the same holding, or a takeover of an expired one that keeps
  its state.\<close>

definition leaseSucceeds :: "rat \<Rightarrow> LeaseDocument \<Rightarrow> LeaseDocument \<Rightarrow> bool" where
  "leaseSucceeds now d d' \<longleftrightarrow>
     doc_generation d' = doc_generation d \<and> doc_holder d' = doc_holder d \<or>
     doc_generation d' = doc_generation d + 1 \<and> doc_state d' = doc_state d \<and> doc_expiresAt d \<le> now"

definition linkedRequest :: "issuance \<Rightarrow> rat \<Rightarrow> LeaseRequest \<Rightarrow> bool" where
  "linkedRequest iss now request \<longleftrightarrow> (case request of
     PutLease doc condition \<Rightarrow> claimOf iss now doc condition \<or>
       (\<exists>e. pcn_etag condition = Some e \<and> ownEtag iss (doc_holder doc) (doc_generation doc) e)
   | DeleteLease e \<Rightarrow> True)"

lemma awaited_linked:
  assumes "runtimeOk iss now holder r" "awaitedRequest r = Some request"
  shows "linkedRequest iss now request"
  using assms
  by (auto simp: awaitedRequest_def runtimeOk_def linkedRequest_def operationRequest_def handleOk_def
      currentOk_def split: Phase.splits option.splits prod.splits if_splits LeaseRequest.splits)

lemma stray_linked: "strayOk iss now runtimes request \<Longrightarrow> linkedRequest iss now request"
  by (auto simp: strayOk_def linkedRequest_def split: LeaseRequest.splits)

definition durableSystem :: "'o LeaseSystem \<Rightarrow> bool" where
  "durableSystem s \<longleftrightarrow> (\<forall>holder r. sys_runtimes s holder = Some r \<longrightarrow> lin_durable (rtm_input r))"

definition durableAction :: "LeaseAction \<Rightarrow> bool" where
  "durableAction action \<longleftrightarrow> (case action of StartRuntime holder input \<Rightarrow> lin_durable input | _ \<Rightarrow> True)"

definition leaseRun :: "'o Storage \<Rightarrow> string \<Rightarrow> LeaseAction list \<Rightarrow> 'o LeaseSystem \<Rightarrow> 'o LeaseSystem" where
  "leaseRun storage key actions s = foldl (\<lambda>s action. leaseStep storage key action s) s actions"

section \<open>Every step of the store\<close>

context conditional_storage
begin

lemma served_transition:
  assumes served: "serveRequest storage key request objects = (answer, objects')" and valid: "valid objects"
    and linked: "linkedRequest (issued objects key) now request"
    and stored: "getJson storage key objects = Some stored" "leaseOf (so_value stored) d"
  shows "objects' = objects \<or> (\<exists>e. request = DeleteLease e) \<or>
    (\<exists>e d'. getJson storage key objects' = Some \<lparr>so_etag = e, so_value = leaseJson d'\<rparr> \<and>
       leaseSucceeds now d d')"
proof (cases answer)
  case (Inl err)
  with served served_refused show ?thesis by blast
next
  case (Inr e)
  show ?thesis
  proof (cases request)
    case (PutLease doc condition)
    with served Inr have put: "putJson storage key (leaseJson doc) condition objects = (Inr e, objects')"
      by (simp add: serveRequest_def)
    note written = put_ok[OF put valid]
    have same: "v = so_value stored" if "pcn_etag condition = Some e0" "issued objects key e0 v" for e0 v
      using that written stored(1) issued_unique[OF valid stored(1), of v] by auto
    from linked PutLease consider
        (claim) "claimOf (issued objects key) now doc condition"
      | (own) e0 where "pcn_etag condition = Some e0"
          "ownEtag (issued objects key) (doc_holder doc) (doc_generation doc) e0"
      by (auto simp: linkedRequest_def)
    then have "leaseSucceeds now d doc"
    proof cases
      case claim
      with written stored(1) obtain e0 v d0 where c: "pcn_etag condition = Some e0" "issued objects key e0 v"
        "parseLease v = Inr d0" "doc_expiresAt d0 \<le> now" "doc_generation doc = doc_generation d0 + 1"
        "doc_state doc = doc_state d0"
        by (auto simp: claimOf_def)
      then have "leaseOf (so_value stored) d0" using same[OF c(1,2)] by (simp add: leaseOf_def)
      with stored(2) have "d = d0" by (rule leaseOf_unique)
      with c show ?thesis by (simp add: leaseSucceeds_def)
    next
      case own
      then obtain d0 where "issued objects key e0 (leaseJson d0)" "doc_holder d0 = doc_holder doc"
        "doc_generation d0 = doc_generation doc"
        by (auto simp: ownEtag_def)
      moreover from this(1) own(1) have "leaseOf (so_value stored) d0"
        using same[OF own(1)] by (metis leaseOf_def)
      with stored(2) have "d = d0" by (rule leaseOf_unique)
      ultimately show ?thesis by (simp add: leaseSucceeds_def)
    qed
    with written show ?thesis by blast
  qed simp
qed

lemma step_transition:
  assumes inv: "leaseInvariant storage valid issued key s" and stored: "storedLease storage key s d"
    and durable: "durableSystem s"
  shows "\<exists>d'. storedLease storage key (leaseStep storage key action s) d' \<and>
    (d' = d \<or> leaseSucceeds (sys_clock s) d d')"
proof -
  from stored obtain o1 where o1: "getJson storage key (sys_objects s) = Some o1" "leaseOf (so_value o1) d"
    by (auto simp: storedLease_def)
  from inv have valid: "valid (sys_objects s)" by (simp add: leaseInvariant_def)
  have served: "\<exists>d'. (\<exists>stored. getJson storage key objects = Some stored \<and> leaseOf (so_value stored) d') \<and>
      (d' = d \<or> leaseSucceeds (sys_clock s) d d')"
    if "serveRequest storage key request (sys_objects s) = (answer, objects)"
      "linkedRequest (issued (sys_objects s) key) (sys_clock s) request" "\<forall>e. request \<noteq> DeleteLease e"
    for request answer objects
    using served_transition[OF that(1) valid that(2) o1] o1 that(3) by (auto simp: leaseOf_def)
  show ?thesis
  proof (cases action)
    case (RuntimeActs holder event)
    show ?thesis
    proof (cases "sys_runtimes s holder")
      case (Some r)
      with inv have ok: "runtimeOk (issued (sys_objects s) key) (sys_clock s) holder r"
        by (auto simp: leaseInvariant_def)
      have "request \<noteq> DeleteLease e" if "awaitedRequest r = Some request" for request e
        using that durable Some
        by (auto simp: awaitedRequest_def operationRequest_def durableSystem_def
            split: Phase.splits option.splits prod.splits)
      with Some RuntimeActs stored awaited_linked[OF ok] served show ?thesis
        by (cases event)
          (auto simp: leaseStep_def runtimeActs_def storedLease_def split: option.splits prod.splits)
    qed (use RuntimeActs stored in \<open>auto simp: leaseStep_def\<close>)
  next
    case (ServeStray n)
    show ?thesis
    proof (cases "n < length (sys_strays s)")
      case True
      then have "strayOk (issued (sys_objects s) key) (sys_clock s) (sys_runtimes s) (sys_strays s ! n)"
        using inv by (auto simp: leaseInvariant_def)
      moreover from this durable have "sys_strays s ! n \<noteq> DeleteLease e" for e
        by (auto simp: strayOk_def durableSystem_def split: LeaseRequest.splits)
      ultimately show ?thesis
        using True ServeStray served stray_linked
        by (cases "serveRequest storage key (sys_strays s ! n) (sys_objects s)")
          (auto simp: leaseStep_def storedLease_def)
    qed (use ServeStray stored in \<open>auto simp: leaseStep_def\<close>)
  qed (use stored in \<open>auto simp: leaseStep_def storedLease_def\<close>)
qed

end


section \<open>One holder\<close>

text \<open>The document that gives a runtime its generation.\<close>

definition grantedDocument :: "Runtime \<Rightarrow> LeaseDocument option" where
  "grantedDocument r = (case rtm_phase r of
     Claiming doc _ (Some (Inr _)) \<Rightarrow> Some doc
   | Held h \<Rightarrow> Some (hnd_document h)
   | _ \<Rightarrow> None)"

lemma grantedDocument_held [simp]: "rtm_phase r = Held h \<Longrightarrow> grantedDocument r = Some (hnd_document h)"
  by (simp add: grantedDocument_def)

lemma authority_held:
  assumes "hasAuthority now r"
  obtains h where "rtm_phase r = Held h" "\<not> rtm_aborted r" "\<not> hnd_released h"
    "now < doc_expiresAt (hnd_document h)" "\<not> deadlinePassed now (hnd_deadlineAt h)"
  using assms
  by (cases "rtm_phase r") (auto simp: hasAuthority_def checkHeld_def checkDeadline_def split: if_splits)

context conditional_storage
begin

text \<open>A runtime with authority finds its own lease in the store.\<close>

lemma authority_stored:
  assumes inv: "leaseInvariant storage valid issued key s" and r: "sys_runtimes s holder = Some r"
    and authority: "hasAuthority (sys_clock s) r"
  shows "\<exists>d doc. storedLease storage key s d \<and> grantedDocument r = Some doc \<and> doc_holder d = holder \<and>
    doc_generation d = doc_generation doc \<and> sys_clock s < doc_expiresAt d"
proof -
  from authority obtain h where h: "rtm_phase r = Held h" "\<not> rtm_aborted r" "\<not> hnd_released h"
    "sys_clock s < doc_expiresAt (hnd_document h)"
    by (rule authority_held)
  from inv r have ok: "runtimeOk (issued (sys_objects s) key) (sys_clock s) holder r"
    and stored: "storedFor r (getJson storage key (sys_objects s)) (sys_clock s)"
    by (auto simp: leaseInvariant_def)
  from ok h(1) have handle: "handleOk (issued (sys_objects s) key) (sys_clock s) (rtm_input r) (rtm_aborted r) holder h"
    by (simp add: runtimeOk_def)
  from stored h have "storedForHandle h (getJson storage key (sys_objects s))" by (simp add: storedFor_def)
  from storedForHandle_cases[OF this] obtain e d where
    d: "getJson storage key (sys_objects s) = Some \<lparr>so_etag = e, so_value = leaseJson d\<rparr>"
    and own: "d = hnd_document h \<or> (\<exists>op answer. hnd_current h = Some (op, d, answer))"
    by blast
  from own have "doc_holder d = holder \<and> doc_generation d = doc_generation (hnd_document h) \<and>
      doc_expiresAt (hnd_document h) \<le> doc_expiresAt d"
  proof
    assume "\<exists>op answer. hnd_current h = Some (op, d, answer)"
    then obtain op answer where "hnd_current h = Some (op, d, answer)" by blast
    with handle h(3) show ?thesis by (cases "op = ReleaseLease") (auto simp: handleOk_def currentOk_def)
  qed (use handle in \<open>auto simp: handleOk_def\<close>)
  with d h show ?thesis by (force simp: storedLease_def leaseOf_def grantedDocument_def)
qed

lemma authority_unique:
  assumes "leaseInvariant storage valid issued key s"
    and "sys_runtimes s h1 = Some r1" "hasAuthority (sys_clock s) r1"
    and "sys_runtimes s h2 = Some r2" "hasAuthority (sys_clock s) r2"
  shows "h1 = h2"
  using authority_stored[OF assms(1,2,3)] authority_stored[OF assms(1,4,5)]
  by (auto dest: storedLease_unique)

text \<open>A write that resolves: its document is in the store under the new ETag of the handle.\<close>

lemma write_in_store:
  assumes inv: "leaseInvariant storage valid issued key s" and r: "sys_runtimes s holder = Some r"
    and h: "rtm_phase r = Held h" "hnd_current h = Some (op, nxt, Some answer)" "op \<noteq> ReleaseLease"
    and resolves: "\<not> rtm_aborted (settleAnswer (sys_clock s) r)"
  shows "\<exists>h'. rtm_phase (settleAnswer (sys_clock s) r) = Held h' \<and>
    getJson storage key (sys_objects s) =
      Some \<lparr>so_etag = hnd_etag h', so_value = leaseJson (hnd_document h')\<rparr> \<and>
    doc_state (hnd_document h') = writtenState op h \<and> doc_holder (hnd_document h') = holder \<and>
    sys_clock s < doc_expiresAt (hnd_document h')"
proof -
  from inv r have ok: "runtimeOk (issued (sys_objects s) key) (sys_clock s) holder r"
    and stored: "storedFor r (getJson storage key (sys_objects s)) (sys_clock s)"
    by (auto simp: leaseInvariant_def)
  obtain h' error where settled: "settleWrite (sys_clock s) (rtm_aborted r) nxt answer h = (h', error)"
    by (cases "settleWrite (sys_clock s) (rtm_aborted r) nxt answer h")
  with h resolves have none: "error = None" "\<not> rtm_aborted r"
    and phase: "rtm_phase (settleAnswer (sys_clock s) r) = Held h'"
    by (auto simp: settleAnswer_def)
  from settled none obtain e where e: "answer = Inr e" "hnd_etag h' = e" "hnd_document h' = nxt"
    "sys_clock s < doc_expiresAt (hnd_document h)"
    by (auto simp: settleWrite_def Let_def split: sum.splits if_splits)
  from stored none e h have "storedForHandle h (getJson storage key (sys_objects s))"
    by (simp add: storedFor_def)
  with h e have "getJson storage key (sys_objects s) = Some \<lparr>so_etag = e, so_value = leaseJson nxt\<rparr>"
    by (simp add: storedForHandle_def)
  moreover from ok h have "doc_holder nxt = holder" "doc_state nxt = writtenState op h"
    "doc_expiresAt (hnd_document h) \<le> doc_expiresAt nxt"
    by (auto simp: runtimeOk_def handleOk_def currentOk_def)
  ultimately show ?thesis using phase e by simp
qed

end

section \<open>Generations\<close>

text \<open>With durable leases only: every granted generation is at most the stored one, which belongs to
  one holder.\<close>

definition generationsOk :: "'o Storage \<Rightarrow> string \<Rightarrow> 'o LeaseSystem \<Rightarrow> bool" where
  "generationsOk storage key s \<longleftrightarrow>
     (\<forall>holder r doc. sys_runtimes s holder = Some r \<longrightarrow> grantedDocument r = Some doc \<longrightarrow>
        (\<exists>d. storedLease storage key s d \<and> doc_generation doc \<le> doc_generation d \<and>
           (doc_generation doc = doc_generation d \<longrightarrow> doc_holder d = holder))) \<and>
     (\<forall>h1 h2 r1 r2 doc1 doc2. sys_runtimes s h1 = Some r1 \<longrightarrow> sys_runtimes s h2 = Some r2 \<longrightarrow>
        grantedDocument r1 = Some doc1 \<longrightarrow> grantedDocument r2 = Some doc2 \<longrightarrow>
        doc_generation doc1 = doc_generation doc2 \<longrightarrow> h1 = h2)"

text \<open>A step of a runtime on its own never changes its generation, and never gives it one.\<close>

definition sameGrant :: "Runtime \<Rightarrow> Runtime \<Rightarrow> bool" where
  "sameGrant r r' \<longleftrightarrow> rtm_input r' = rtm_input r \<and> (\<forall>doc'. grantedDocument r' = Some doc' \<longrightarrow>
     (\<exists>doc. grantedDocument r = Some doc \<and> doc_generation doc' = doc_generation doc))"

lemma sameGrant_refl: "sameGrant r r"
  by (simp add: sameGrant_def)

lemma sameGrant_handle:
  "rtm_phase r = Held h \<Longrightarrow> doc_generation (hnd_document h') = doc_generation (hnd_document h) \<Longrightarrow>
   sameGrant r (r\<lparr>rtm_phase := Held h'\<rparr>)"
  "rtm_phase r = Held h \<Longrightarrow> doc_generation (hnd_document h') = doc_generation (hnd_document h) \<Longrightarrow>
   sameGrant r (r\<lparr>rtm_aborted := b, rtm_phase := Held h'\<rparr>)"
  by (simp_all add: sameGrant_def grantedDocument_def)

lemma settled_generation:
  assumes "handleOk iss now input aborted holder h" "hnd_current h = Some (op, nxt, Some answer)"
    and "settleWrite now aborted nxt answer h = (h', error)"
  shows "doc_generation (hnd_document h') = doc_generation (hnd_document h)"
  using assms by (auto simp: settleWrite_def handleOk_def currentOk_def Let_def split: sum.splits)

lemma sameGrant_settle:
  assumes "runtimeOk iss now holder r"
  shows "sameGrant r (settleAnswer now r)"
proof (cases "rtm_phase r")
  case (Held h)
  with assms show ?thesis
    using settled_generation[of iss now "rtm_input r" "rtm_aborted r" holder h]
    by (auto simp: settleAnswer_def runtimeOk_def intro!: sameGrant_refl sameGrant_handle
        split: option.splits prod.splits)
qed (auto simp: settleAnswer_def sameGrant_def grantedDocument_def split: option.splits sum.splits)

lemma sameGrant_start: "sameGrant r (startOperation now r)"
  by (auto simp: startOperation_def intro!: sameGrant_refl sameGrant_handle
      split: Phase.splits option.splits list.splits)

lemma sameGrant_event:
  assumes "runtimeOk iss now holder r"
  shows "sameGrant r (runtimeEvent holder now event r)"
proof (cases event)
  case SettleAnswer
  with sameGrant_settle[OF assms] show ?thesis by simp
next
  case StartOperation
  then show ?thesis by (simp add: sameGrant_start)
qed (auto simp: beginAttempt_def failRead_def decideAttempt_def ensureHeld_def promote_def updateState_def
  releaseLease_def renewalTimer_def expiryTimer_def sameGrant_def grantedDocument_def enqueue_def
  split: Phase.splits option.splits sum.splits Attempt.splits)


lemma succeeds_grant:
  assumes "d' = d \<or> leaseSucceeds now d d'" "g \<le> doc_generation d" "g = doc_generation d \<longrightarrow> doc_holder d = h"
  shows "g \<le> doc_generation d' \<and> (g = doc_generation d' \<longrightarrow> doc_holder d' = h)"
  using assms by (auto simp: leaseSucceeds_def)

text \<open>The step in general: every grant is an old one, or the new one of a single runtime, above all
  others and in the store.\<close>

lemma generationsOk_step:
  assumes ok: "generationsOk storage key s"
    and transition: "\<And>d. storedLease storage key s d \<Longrightarrow>
      \<exists>d'. storedLease storage key s' d' \<and> (d' = d \<or> leaseSucceeds now d d')"
    and grants: "\<And>h r' doc'. sys_runtimes s' h = Some r' \<Longrightarrow> grantedDocument r' = Some doc' \<Longrightarrow>
      (\<exists>r doc. sys_runtimes s h = Some r \<and> grantedDocument r = Some doc \<and>
         doc_generation doc' = doc_generation doc) \<or>
      h = new \<and> storedLease storage key s' doc' \<and> doc_holder doc' = new \<and>
        (\<forall>h r doc. sys_runtimes s h = Some r \<longrightarrow> grantedDocument r = Some doc \<longrightarrow>
           doc_generation doc < doc_generation doc')"
  shows "generationsOk storage key s'"
proof -
  have first: "\<exists>d. storedLease storage key s' d \<and> doc_generation doc' \<le> doc_generation d \<and>
      (doc_generation doc' = doc_generation d \<longrightarrow> doc_holder d = h)"
    if r': "sys_runtimes s' h = Some r'" "grantedDocument r' = Some doc'" for h r' doc'
    using grants[OF r']
  proof
    assume "\<exists>r doc. sys_runtimes s h = Some r \<and> grantedDocument r = Some doc \<and>
      doc_generation doc' = doc_generation doc"
    then obtain r doc where r: "sys_runtimes s h = Some r" "grantedDocument r = Some doc"
      "doc_generation doc' = doc_generation doc" by blast
    with ok obtain d where d: "storedLease storage key s d" "doc_generation doc' \<le> doc_generation d"
      "doc_generation doc' = doc_generation d \<longrightarrow> doc_holder d = h"
      unfolding generationsOk_def by force
    from transition[OF d(1)] obtain d' where d': "storedLease storage key s' d'"
      "d' = d \<or> leaseSucceeds now d d'" by blast
    from d'(1) succeeds_grant[OF d'(2) d(2,3)] show ?thesis by blast
  qed auto
  have second: "h1 = h2"
    if "sys_runtimes s' h1 = Some r1" "sys_runtimes s' h2 = Some r2"
      "grantedDocument r1 = Some doc1" "grantedDocument r2 = Some doc2"
      "doc_generation doc1 = doc_generation doc2" for h1 h2 r1 r2 doc1 doc2
  proof -
    have old: "h1 = h2" if "sys_runtimes s h1 = Some r1" "grantedDocument r1 = Some d1"
      "sys_runtimes s h2 = Some r2" "grantedDocument r2 = Some d2"
      "doc_generation d1 = doc_generation d2" for r1 r2 d1 d2
      using ok that unfolding generationsOk_def by blast
    show ?thesis
      using grants[OF that(1,3)] grants[OF that(2,4)]
    proof (elim disjE)
      assume "\<exists>r doc. sys_runtimes s h1 = Some r \<and> grantedDocument r = Some doc \<and>
          doc_generation doc1 = doc_generation doc"
        and "\<exists>r doc. sys_runtimes s h2 = Some r \<and> grantedDocument r = Some doc \<and>
          doc_generation doc2 = doc_generation doc"
      then obtain r1' d1 r2' d2 where
        "sys_runtimes s h1 = Some r1'" "grantedDocument r1' = Some d1" "doc_generation doc1 = doc_generation d1"
        "sys_runtimes s h2 = Some r2'" "grantedDocument r2' = Some d2" "doc_generation doc2 = doc_generation d2"
        by blast
      with that(5) old[of r1' d1 r2' d2] show ?thesis by simp
    qed (use that(5) in fastforce)+
  qed
  from first second show ?thesis unfolding generationsOk_def by blast
qed

lemma runtime_inputs [simp]:
  "rtm_input (beginAttempt now r) = rtm_input r"
  "rtm_input (failRead e r) = rtm_input r"
  "rtm_input (serveRead stored r) = rtm_input r"
  "rtm_input (decideAttempt holder now r) = rtm_input r"
  "rtm_input (settleAnswer now r) = rtm_input r"
  "rtm_input (startOperation now r) = rtm_input r"
  "rtm_input (ensureHeld now r) = rtm_input r"
  "rtm_input (promote now r) = rtm_input r"
  "rtm_input (updateState st r) = rtm_input r"
  "rtm_input (releaseLease r) = rtm_input r"
  "rtm_input (renewalTimer r) = rtm_input r"
  "rtm_input (expiryTimer now r) = rtm_input r"
  by (auto simp: beginAttempt_def failRead_def serveRead_def decideAttempt_def settleAnswer_def
      startOperation_def ensureHeld_def promote_def updateState_def releaseLease_def renewalTimer_def
      expiryTimer_def split: Phase.splits option.splits sum.splits Attempt.splits list.splits prod.splits)

lemma durableSystem_step:
  assumes "durableSystem (leaseStep storage key action s)"
  shows "durableSystem s"
proof -
  have kept: "\<exists>r'. sys_runtimes (leaseStep storage key action s) holder = Some r' \<and> rtm_input r' = rtm_input r"
    if "sys_runtimes s holder = Some r" for holder r
    using that
    by (cases action)
      (auto simp: leaseStep_def runtimeActs_def split: option.splits RuntimeEvent.splits prod.splits)
  show ?thesis
    unfolding durableSystem_def
  proof (intro allI impI)
    fix holder r assume "sys_runtimes s holder = Some r"
    from kept[OF this] obtain r' where "sys_runtimes (leaseStep storage key action s) holder = Some r'"
      "rtm_input r' = rtm_input r" by blast
    with assms show "lin_durable (rtm_input r)" by (metis durableSystem_def)
  qed
qed

lemma durableSystem_action:
  assumes "durableSystem s" "durableAction action"
  shows "durableSystem (leaseStep storage key action s)"
proof -
  show ?thesis
    using assms
    by (cases action)
      (auto simp: leaseStep_def runtimeActs_def durableSystem_def durableAction_def startAcquire_def
        split: option.splits RuntimeEvent.splits prod.splits)
qed

context conditional_storage
begin

lemma claim_generation:
  assumes put: "putJson storage key (leaseJson doc) condition objects = (Inr e, objects')" "valid objects"
    and claim: "claimOf (issued objects key) now doc condition"
  shows "getJson storage key objects = None \<or>
    (\<exists>stored d. getJson storage key objects = Some stored \<and> leaseOf (so_value stored) d \<and>
       doc_generation doc = doc_generation d + 1)"
proof (cases "getJson storage key objects")
  case (Some stored)
  note written = put_ok[OF put]
  from claim Some written obtain e0 v d where c: "pcn_etag condition = Some e0" "issued objects key e0 v"
    "parseLease v = Inr d" "doc_generation doc = doc_generation d + 1"
    by (auto simp: claimOf_def)
  with written Some issued_unique[OF put(2) Some, of v] have "v = so_value stored" by auto
  with c Some show ?thesis by (auto simp: leaseOf_def)
qed simp

lemma generations_served:
  assumes inv: "leaseInvariant storage valid issued key s" and durable: "durableSystem s"
    and ok: "generationsOk storage key s" and r: "sys_runtimes s holder = Some r"
    and awaited: "awaitedRequest r = Some request"
    and served: "serveRequest storage key request (sys_objects s) = (answer, objects)"
    and s': "s' = s\<lparr>sys_objects := objects, sys_runtimes := (sys_runtimes s)(holder \<mapsto> answerRequest answer r)\<rparr>"
  shows "generationsOk storage key s'"
proof -
  from inv have valid: "valid (sys_objects s)" by (simp add: leaseInvariant_def)
  have step: "s' = leaseStep storage key (RuntimeActs holder ServeRequest) s"
    using r awaited served s' by (simp add: leaseStep_def runtimeActs_def)
  show ?thesis
  proof (rule generationsOk_step[OF ok, of s' "sys_clock s" holder])
    show "\<exists>d'. storedLease storage key s' d' \<and> (d' = d \<or> leaseSucceeds (sys_clock s) d d')"
      if "storedLease storage key s d" for d
      unfolding step by (rule step_transition[OF inv that durable])
  next
    fix h r' doc' assume r': "sys_runtimes s' h = Some r'" "grantedDocument r' = Some doc'"
    show "(\<exists>r doc. sys_runtimes s h = Some r \<and> grantedDocument r = Some doc \<and>
         doc_generation doc' = doc_generation doc) \<or>
      h = holder \<and> storedLease storage key s' doc' \<and> doc_holder doc' = holder \<and>
        (\<forall>h r doc. sys_runtimes s h = Some r \<longrightarrow> grantedDocument r = Some doc \<longrightarrow>
           doc_generation doc < doc_generation doc')"
    proof (cases "h = holder \<and> grantedDocument r = None")
      case False
      with r r' s' show ?thesis
        by (cases "h = holder")
          (auto simp: grantedDocument_def answerRequest_def split: Phase.splits option.splits sum.splits)
    next
      case True
      with r' s' awaited obtain condition e where phase: "rtm_phase r = Claiming doc' condition None"
        and answer: "answer = Inr e"
        by (auto simp: grantedDocument_def answerRequest_def awaitedRequest_def
            split: Phase.splits option.splits sum.splits)
      from inv r have "runtimeOk (issued (sys_objects s) key) (sys_clock s) holder r"
        by (auto simp: leaseInvariant_def)
      with phase have claim: "doc_holder doc' = holder"
        "claimOf (issued (sys_objects s) key) (sys_clock s) doc' condition"
        by (auto simp: runtimeOk_def)
      from awaited phase served answer have put:
        "putJson storage key (leaseJson doc') condition (sys_objects s) = (Inr e, objects)"
        by (auto simp: awaitedRequest_def serveRequest_def)
      have "storedLease storage key s' doc'"
        using put_ok[OF put valid] s' by (simp add: storedLease_def leaseOf_def)
      moreover have "doc_generation doc < doc_generation doc'"
        if "sys_runtimes s h = Some r0" "grantedDocument r0 = Some doc" for h r0 doc
      proof -
        from ok that obtain d where d: "storedLease storage key s d" "doc_generation doc \<le> doc_generation d"
          unfolding generationsOk_def by blast
        with claim_generation[OF put valid claim(2)] show ?thesis
          by (auto simp: storedLease_def dest: leaseOf_unique)
      qed
      ultimately show ?thesis using True claim by blast
    qed
  qed
qed

lemma generations_step:
  assumes inv: "leaseInvariant storage valid issued key s" and durable: "durableSystem s"
    and ok: "generationsOk storage key s"
  shows "generationsOk storage key (leaseStep storage key action s)"
proof -
  let ?s = "leaseStep storage key action s"
  have same: ?thesis
    if "\<And>h r'. sys_runtimes ?s h = Some r' \<Longrightarrow>
      grantedDocument r' = None \<or> (\<exists>r. sys_runtimes s h = Some r \<and> sameGrant r r')"
  proof (rule generationsOk_step[OF ok, of ?s "sys_clock s" "[]"])
    show "\<exists>d'. storedLease storage key ?s d' \<and> (d' = d \<or> leaseSucceeds (sys_clock s) d d')"
      if "storedLease storage key s d" for d
      by (rule step_transition[OF inv that durable])
  qed (use that in \<open>fastforce simp: sameGrant_def\<close>)
  show ?thesis
  proof (cases action)
    case (RuntimeActs holder event)
    show ?thesis
    proof (cases "sys_runtimes s holder")
      case None
      with RuntimeActs ok show ?thesis by (simp add: leaseStep_def)
    next
      case (Some r)
      from inv Some have rok: "runtimeOk (issued (sys_objects s) key) (sys_clock s) holder r"
        by (auto simp: leaseInvariant_def)
      have lost: "sameGrant r (answerRequest (Inl err) r)" for err
        by (auto simp: sameGrant_def grantedDocument_def answerRequest_def
            split: Phase.splits option.splits sum.splits)
      have read: "sameGrant r (serveRead stored r)" for stored
        by (auto simp: sameGrant_def grantedDocument_def serveRead_def
            split: Phase.splits option.splits sum.splits)
      show ?thesis
      proof (cases "event = ServeRequest")
        case True
        with RuntimeActs Some ok generations_served[OF inv durable ok Some] show ?thesis
          by (auto simp: leaseStep_def runtimeActs_def split: option.splits prod.splits)
      next
        case False
        show ?thesis
          by (rule same)
            (use RuntimeActs Some False lost read sameGrant_event[OF rok, of event] in
              \<open>auto simp: leaseStep_def runtimeActs_def intro: sameGrant_refl
                split: RuntimeEvent.splits if_splits\<close>)
      qed
    qed
  next
    case (StartRuntime holder input)
    show ?thesis
      by (rule same) (use StartRuntime in
        \<open>auto simp: leaseStep_def startAcquire_def grantedDocument_def intro: sameGrant_refl split: if_splits\<close>)
  next
    case (AdvanceClock t)
    show ?thesis
      by (rule same) (use AdvanceClock in \<open>auto simp: leaseStep_def intro: sameGrant_refl split: if_splits\<close>)
  next
    case (ServeStray n)
    show ?thesis
      by (rule same) (use ServeStray in \<open>auto simp: leaseStep_def intro: sameGrant_refl split: if_splits\<close>)
  qed
qed

lemma reachable_generations:
  "leaseReachable storage key valid s \<Longrightarrow> durableSystem s \<Longrightarrow> generationsOk storage key s"
proof (induction rule: leaseReachable.induct)
  case (reachable_start objects now)
  then show ?case by (simp add: generationsOk_def initialSystem_def)
next
  case (reachable_step s action)
  then have "durableSystem s" by (auto dest: durableSystem_step)
  with reachable_step reachable_invariant show ?case by (auto intro: generations_step)
qed

end


section \<open>A superseded runtime\<close>

lemma held_answer:
  "rtm_phase r = Held h \<Longrightarrow> \<exists>h'. rtm_phase (answerRequest answer r) = Held h' \<and>
     hnd_document h' = hnd_document h"
  by (auto simp: answerRequest_def split: option.splits)

lemma held_event:
  assumes "runtimeOk iss now holder r" "rtm_phase r = Held h"
  shows "\<exists>h'. rtm_phase (runtimeEvent holder now event r) = Held h' \<and>
    doc_generation (hnd_document h') = doc_generation (hnd_document h)"
proof -
  have "\<exists>h'. rtm_phase (runtimeEvent holder now event r) = Held h'"
    using assms(2)
    by (cases event)
      (auto simp: beginAttempt_def failRead_def decideAttempt_def ensureHeld_def promote_def updateState_def
        releaseLease_def renewalTimer_def expiryTimer_def settleAnswer_def startOperation_def
        split: option.splits list.splits prod.splits)
  with sameGrant_event[OF assms(1), of event] assms(2) show ?thesis
    by (auto simp: sameGrant_def grantedDocument_def)
qed

context conditional_storage
begin

lemma held_step:
  assumes inv: "leaseInvariant storage valid issued key s"
    and r: "sys_runtimes s holder = Some r" "rtm_phase r = Held h"
  shows "\<exists>r' h'. sys_runtimes (leaseStep storage key action s) holder = Some r' \<and>
    rtm_phase r' = Held h' \<and> doc_generation (hnd_document h') = doc_generation (hnd_document h)"
proof (cases action)
  case (RuntimeActs other event)
  from inv r have ok: "runtimeOk (issued (sys_objects s) key) (sys_clock s) holder r"
    by (auto simp: leaseInvariant_def)
  show ?thesis
  proof (cases "other = holder")
    case True
    have read: "serveRead stored r = r" for stored
      using r by (simp add: serveRead_def)
    from True RuntimeActs r read show ?thesis
      using held_answer[OF r(2)] held_event[OF ok r(2), of event]
      by (cases event)
        (auto simp: leaseStep_def runtimeActs_def split: option.splits prod.splits, fastforce+)
  next
    case False
    with RuntimeActs r show ?thesis
      by (cases event) (auto simp: leaseStep_def runtimeActs_def split: option.splits prod.splits)
  qed
qed (use r in \<open>auto simp: leaseStep_def\<close>)

lemma superseded_run:
  assumes "leaseReachable storage key valid s" "durableSystem s" "list_all durableAction actions"
    and "storedLease storage key s d" "sys_runtimes s holder = Some r" "rtm_phase r = Held h"
    and "doc_generation (hnd_document h) < doc_generation d"
  shows "\<exists>d' r' h'. storedLease storage key (leaseRun storage key actions s) d' \<and>
    leaseReachable storage key valid (leaseRun storage key actions s) \<and>
    sys_runtimes (leaseRun storage key actions s) holder = Some r' \<and> rtm_phase r' = Held h' \<and>
    doc_generation (hnd_document h') < doc_generation d'"
  using assms
proof (induction actions arbitrary: s d r h)
  case Nil
  then show ?case by (auto simp: leaseRun_def)
next
  case (Cons action actions)
  note inv = reachable_invariant[OF Cons.prems(1)]
  let ?s = "leaseStep storage key action s"
  obtain d1 where d1: "storedLease storage key ?s d1" "d1 = d \<or> leaseSucceeds (sys_clock s) d d1"
    using step_transition[OF inv Cons.prems(4,2)] by blast
  obtain r1 h1 where r1: "sys_runtimes ?s holder = Some r1" "rtm_phase r1 = Held h1"
    "doc_generation (hnd_document h1) = doc_generation (hnd_document h)"
    using held_step[OF inv Cons.prems(5,6)] by blast
  have "doc_generation (hnd_document h1) < doc_generation d1"
    using d1(2) r1(3) Cons.prems(7) by (auto simp: leaseSucceeds_def)
  with Cons.IH[of ?s d1 r1 h1] Cons.prems d1 r1 show ?case
    by (simp add: leaseRun_def reachable_step durableSystem_action)
qed

end

section \<open>The properties\<close>

text \<open>C10. At most one runtime has authority. Whatever the interleaving of the calls, timers, requests,
  lost answers and late deliveries of any number of runtimes on one lease key: two runtimes whose
  \<open>check\<close> passes at the same moment are the same runtime. The object store is any that keeps the
  contract of conditional writes.\<close>

theorem lease_exclusive:
  assumes "conditional_storage storage valid issued" "leaseReachable storage key valid s"
    and "sys_runtimes s h1 = Some r1" "hasAuthority (sys_clock s) r1"
    and "sys_runtimes s h2 = Some r2" "hasAuthority (sys_clock s) r2"
  shows "h1 = h2"
  using conditional_storage.authority_unique[OF assms(1)]
    conditional_storage.reachable_invariant[OF assms(1,2)] assms(3-6) by blast

text \<open>C11. Fencing. As long as every runtime asks for a durable lease, a stored lease is never lost: any
  step leaves it, renews or releases it in the name of the same holder and generation, or hands it
  over after it has expired, with the next generation and exactly the state that was stored.\<close>

theorem durable_lease_succession:
  assumes "conditional_storage storage valid issued" "leaseReachable storage key valid s"
    and "durableSystem s" "storedLease storage key s d"
  shows "\<exists>d'. storedLease storage key (leaseStep storage key action s) d' \<and>
    (d' = d \<or> leaseSucceeds (sys_clock s) d d')"
  using conditional_storage.step_transition[OF assms(1)]
    conditional_storage.reachable_invariant[OF assms(1,2)] assms(3,4) by blast

text \<open>A generation has one holder. With durable leases, two runtimes that were granted the same
  generation are the same runtime, however long ago the grants were.\<close>

theorem generation_held_once:
  assumes "conditional_storage storage valid issued" "leaseReachable storage key valid s"
    and "durableSystem s"
    and "sys_runtimes s h1 = Some r1" "grantedDocument r1 = Some doc1"
    and "sys_runtimes s h2 = Some r2" "grantedDocument r2 = Some doc2"
    and "doc_generation doc1 = doc_generation doc2"
  shows "h1 = h2"
  using conditional_storage.reachable_generations[OF assms(1,2,3)] assms(4-8)
  unfolding generationsOk_def by blast


text \<open>An acknowledged write is in the store. When \<open>updateState\<close> or \<open>ensureHeld\<close> resolves, the store
  holds exactly the document of the handle, with the written state, in the name of this runtime
  and not expired.\<close>

theorem write_acknowledged:
  assumes "conditional_storage storage valid issued" "leaseReachable storage key valid s"
    and "sys_runtimes s holder = Some r" "rtm_phase r = Held h"
    and "hnd_current h = Some (op, nxt, Some answer)" "op \<noteq> ReleaseLease"
    and "\<not> rtm_aborted (settleAnswer (sys_clock s) r)"
  shows "\<exists>h'. rtm_phase (settleAnswer (sys_clock s) r) = Held h' \<and>
    getJson storage key (sys_objects s) =
      Some \<lparr>so_etag = hnd_etag h', so_value = leaseJson (hnd_document h')\<rparr> \<and>
    doc_state (hnd_document h') = writtenState op h \<and> doc_holder (hnd_document h') = holder \<and>
    sys_clock s < doc_expiresAt (hnd_document h')"
  using conditional_storage.write_in_store[OF assms(1)]
    conditional_storage.reachable_invariant[OF assms(1,2)] assms(3-7) by blast


text \<open>A free lease is acquired. When the object is absent or its lease has expired, a runtime that
  runs alone and whose conditional write is accepted ends up holding the next generation with the
  stored state, and has authority when its time to live is positive.\<close>

theorem free_lease_acquired:
  assumes "sys_runtimes s holder = None"
    and "storedHolder (getJson storage key (sys_objects s)) \<noteq> Some (JString holder)"
    and "getJson storage key (sys_objects s) = None \<and> previous = None \<or>
      (\<exists>stored p. getJson storage key (sys_objects s) = Some stored \<and> previous = Some p \<and>
         parseLease (so_value stored) = Inr p \<and> doc_expiresAt p \<le> sys_clock s \<and>
         (doc_version p = 2 \<longrightarrow> lin_durable input))"
    and "\<not> deadlinePassed (sys_clock s) (lin_deadlineAt input)"
    and "putJson storage key (leaseJson (claimDocument input holder (sys_clock s) previous))
      \<lparr>pcn_etag = map_option so_etag (getJson storage key (sys_objects s)),
       pcn_absent = (getJson storage key (sys_objects s) = None)\<rparr> (sys_objects s) = (Inr e, objects)"
    and "s' = leaseRun storage key (StartRuntime holder input # map (RuntimeActs holder)
      [BeginAttempt, ServeRead, DecideAttempt, ServeRequest, SettleAnswer]) s"
  shows "\<exists>r h. sys_runtimes s' holder = Some r \<and> rtm_phase r = Held h \<and> hnd_etag h = e \<and>
    hnd_document h = claimDocument input holder (sys_clock s) previous \<and>
    sys_objects s' = objects \<and> (0 < lin_ttlMs input \<longrightarrow> hasAuthority (sys_clock s') r)"
proof -
  let ?doc = "claimDocument input holder (sys_clock s) previous"
  have decided: "acquireAttempt input holder (sys_clock s + lin_waitMs input) (sys_clock s)
      (getJson storage key (sys_objects s)) =
    AttemptWrites ?doc \<lparr>pcn_etag = map_option so_etag (getJson storage key (sys_objects s)),
      pcn_absent = (getJson storage key (sys_objects s) = None)\<rparr>"
    using assms(3) by (auto simp: acquireAttempt_def)
  have unexpired: "0 < lin_ttlMs input \<longrightarrow> \<not> doc_expiresAt ?doc \<le> sys_clock s"
    using assms(4) by (auto simp: claimDocument_def cappedAt_def deadlinePassed_def split: option.splits)
  show ?thesis
    using assms(1,2,4,5) decided unexpired unfolding assms(6)
    by (simp add: leaseRun_def leaseStep_def runtimeActs_def startAcquire_def beginAttempt_def
        checkDeadline_def serveRead_def decideAttempt_def awaitedRequest_def serveRequest_def
        answerRequest_def settleAnswer_def hasAuthority_def checkHeld_def)
qed

section \<open>Two runtimes on one lease\<close>

text \<open>Runtime A acquires the lease and updates its state; it then stalls beyond its expiry, and B takes
  the lease over.\<close>

definition exLeaseInput :: LeaseInput where
  "exLeaseInput = \<lparr>lin_ttlMs = 3000, lin_waitMs = 30000, lin_deadlineAt = None, lin_durable = True\<rparr>"

definition exAcquire :: "string \<Rightarrow> LeaseAction list" where
  "exAcquire holder = StartRuntime holder exLeaseInput # map (RuntimeActs holder)
     [BeginAttempt, ServeRead, DecideAttempt, ServeRequest, SettleAnswer]"

definition exLeaseStart :: "MemoryStorage LeaseSystem" where
  "exLeaseStart = initialSystem emptyMemory 0"

definition exLeaseUpdate :: "LeaseAction list" where
  "exLeaseUpdate = map (RuntimeActs ''A'')
     [CallUpdateState (Some (JString ''old'')), StartOperation, ServeRequest]"

definition exLeaseA :: "MemoryStorage LeaseSystem" where
  "exLeaseA = leaseRun memoryStorage ''lease'' (exAcquire ''A'' @ exLeaseUpdate) exLeaseStart"

definition exLeaseB :: "MemoryStorage LeaseSystem" where
  "exLeaseB = leaseRun memoryStorage ''lease''
     ([RuntimeActs ''A'' SettleAnswer, AdvanceClock 3001] @ exAcquire ''B'') exLeaseA"

lemmas lease_evaluation = leaseRun_def leaseStep_def runtimeActs_def startAcquire_def beginAttempt_def
  checkDeadline_def serveRead_def decideAttempt_def awaitedRequest_def serveRequest_def answerRequest_def
  settleAnswer_def checkHeld_def updateState_def startOperation_def enqueue_def operationRequest_def
  nextDocument_def writtenState_def settleWrite_def acquireAttempt_def claimDocument_def cappedAt_def
  deadlinePassed_def initialSystem_def storedHolder_def parseLease_def leaseVersion_def
  leaseGeneration_def leaseJson_def isSafeInteger_def MAX_SAFE_INTEGER_def Let_def
  memoryStorage_def memoryGetJson_def memoryPutJson_def emptyMemory_def etagMatches_def

definition exDocA0 :: LeaseDocument where
  "exDocA0 = \<lparr>doc_expiresAt = 3000, doc_generation = 1, doc_holder = ''A'', doc_state = None, doc_version = 2\<rparr>"

definition exDocA :: LeaseDocument where
  "exDocA = exDocA0\<lparr>doc_state := Some (JString ''old'')\<rparr>"

definition exDocB :: LeaseDocument where
  "exDocB = \<lparr>doc_expiresAt = 6001, doc_generation = 2, doc_holder = ''B'',
     doc_state = Some (JString ''old''), doc_version = 2\<rparr>"

lemma exLeaseA_state:
  "exLeaseA = \<lparr>sys_objects = \<lparr>ms_json = [(''lease'', \<lparr>so_etag = etagText 2, so_value = leaseJson exDocA\<rparr>)], ms_etag = 2\<rparr>,
     sys_clock = 0,
     sys_runtimes = [''A'' \<mapsto> \<lparr>rtm_input = exLeaseInput, rtm_waitDeadline = 30000, rtm_aborted = False,
       rtm_phase = Held \<lparr>hnd_etag = etagText 1, hnd_document = exDocA0, hnd_deadlineAt = None,
         hnd_released = False, hnd_operations = [],
         hnd_current = Some (UpdateState (Some (JString ''old'')), exDocA, Some (Inr (etagText 2)))\<rparr>\<rparr>],
     sys_strays = []\<rparr>"
  by (simp add: exLeaseA_def exAcquire_def exLeaseUpdate_def exLeaseStart_def exLeaseInput_def exDocA0_def
      exDocA_def lease_evaluation eval_nat_numeral)


lemma exLeaseB_state:
  "exLeaseB = \<lparr>sys_objects = \<lparr>ms_json = [(''lease'', \<lparr>so_etag = etagText 3, so_value = leaseJson exDocB\<rparr>)], ms_etag = 3\<rparr>,
     sys_clock = 3001,
     sys_runtimes = [''A'' \<mapsto> \<lparr>rtm_input = exLeaseInput, rtm_waitDeadline = 30000, rtm_aborted = False,
         rtm_phase = Held \<lparr>hnd_etag = etagText 2, hnd_document = exDocA, hnd_deadlineAt = None,
           hnd_released = False, hnd_operations = [], hnd_current = None\<rparr>\<rparr>,
       ''B'' \<mapsto> \<lparr>rtm_input = exLeaseInput, rtm_waitDeadline = 33001, rtm_aborted = False,
         rtm_phase = Held \<lparr>hnd_etag = etagText 3, hnd_document = exDocB, hnd_deadlineAt = None,
           hnd_released = False, hnd_operations = [], hnd_current = None\<rparr>\<rparr>],
     sys_strays = []\<rparr>"
  unfolding exLeaseB_def exLeaseA_state
  by (simp add: exAcquire_def exLeaseInput_def exDocA0_def exDocA_def exDocB_def lease_evaluation
      eval_nat_numeral)

lemma leaseReachable_run:
  "leaseReachable storage key valid s \<Longrightarrow> leaseReachable storage key valid (leaseRun storage key actions s)"
  by (induction actions arbitrary: s) (simp_all add: leaseRun_def reachable_step)

lemma exLease_reachable:
  "leaseReachable memoryStorage ''lease'' memoryValid exLeaseA"
  "leaseReachable memoryStorage ''lease'' memoryValid exLeaseB"
proof -
  have "leaseReachable memoryStorage ''lease'' memoryValid exLeaseStart"
    unfolding exLeaseStart_def by (rule reachable_start) (simp add: memoryValid_def emptyMemory_def)
  then show "leaseReachable memoryStorage ''lease'' memoryValid exLeaseA"
    unfolding exLeaseA_def by (rule leaseReachable_run)
  then show "leaseReachable memoryStorage ''lease'' memoryValid exLeaseB"
    unfolding exLeaseB_def by (rule leaseReachable_run)
qed

lemma exLease_durable: "durableSystem exLeaseA" "durableSystem exLeaseB"
  by (auto simp: durableSystem_def exLeaseA_state exLeaseB_state exLeaseInput_def split: if_splits)

lemma exLease_stored:
  "storedLease memoryStorage ''lease'' exLeaseA exDocA"
  "storedLease memoryStorage ''lease'' exLeaseB exDocB"
  by (simp_all add: storedLease_def exLeaseA_state exLeaseB_state memoryStorage_def memoryGetJson_def leaseOf_def)

theorem lease_exclusive_witness:
  "hasAuthority 3001 (the (sys_runtimes exLeaseB ''B'')) \<and>
   \<not> hasAuthority 3001 (the (sys_runtimes exLeaseB ''A''))"
proof -
  have b: "hasAuthority 3001 (the (sys_runtimes exLeaseB ''B''))"
    by (simp add: exLeaseB_state hasAuthority_def checkHeld_def checkDeadline_def deadlinePassed_def exDocB_def)
  have runtimes: "sys_runtimes exLeaseB ''A'' \<noteq> None" "sys_runtimes exLeaseB ''B'' \<noteq> None"
    "sys_clock exLeaseB = 3001"
    by (simp_all add: exLeaseB_state)
  have "\<not> hasAuthority 3001 (the (sys_runtimes exLeaseB ''A''))"
    using lease_exclusive[OF memory.conditional_storage_axioms exLease_reachable(2),
        of "''A''" "the (sys_runtimes exLeaseB ''A'')" "''B''" "the (sys_runtimes exLeaseB ''B'')"] b runtimes
    by auto
  with b show ?thesis by blast
qed

theorem durable_lease_succession_witness:
  "\<exists>d'. storedLease memoryStorage ''lease''
      (leaseStep memoryStorage ''lease'' (RuntimeActs ''A'' CallRelease) exLeaseB) d' \<and>
    (d' = exDocB \<or> leaseSucceeds (sys_clock exLeaseB) exDocB d')"
  by (rule durable_lease_succession[OF memory.conditional_storage_axioms exLease_reachable(2)
        exLease_durable(2) exLease_stored(2)])

theorem generation_held_once_witness:
  "doc_generation (the (grantedDocument (the (sys_runtimes exLeaseB ''A'')))) \<noteq>
   doc_generation (the (grantedDocument (the (sys_runtimes exLeaseB ''B''))))"
proof
  assume same: "doc_generation (the (grantedDocument (the (sys_runtimes exLeaseB ''A'')))) =
    doc_generation (the (grantedDocument (the (sys_runtimes exLeaseB ''B''))))"
  let ?a = "the (sys_runtimes exLeaseB ''A'')" and ?b = "the (sys_runtimes exLeaseB ''B'')"
  have granted: "sys_runtimes exLeaseB ''A'' = Some ?a" "grantedDocument ?a = Some (the (grantedDocument ?a))"
    "sys_runtimes exLeaseB ''B'' = Some ?b" "grantedDocument ?b = Some (the (grantedDocument ?b))"
    by (simp_all add: exLeaseB_state grantedDocument_def)
  have "''A'' = ''B''"
    by (rule generation_held_once[OF memory.conditional_storage_axioms exLease_reachable(2) exLease_durable(2)
          granted same])
  then show False by simp
qed


theorem write_acknowledged_witness:
  "\<exists>h. rtm_phase (settleAnswer 0 (the (sys_runtimes exLeaseA ''A''))) = Held h \<and>
     doc_state (hnd_document h) = Some (JString ''old'') \<and>
     getJson memoryStorage ''lease'' (sys_objects exLeaseA) =
       Some \<lparr>so_etag = hnd_etag h, so_value = leaseJson (hnd_document h)\<rparr>"
proof -
  let ?r = "the (sys_runtimes exLeaseA ''A'')"
  have clock: "sys_clock exLeaseA = 0" by (simp add: exLeaseA_state)
  have "\<not> rtm_aborted (settleAnswer (sys_clock exLeaseA) ?r)"
    by (simp add: exLeaseA_state settleAnswer_def settleWrite_def checkHeld_def checkDeadline_def
        deadlinePassed_def exDocA_def exDocA0_def)
  from write_acknowledged[OF memory.conditional_storage_axioms exLease_reachable(1), of "''A''" ?r,
      OF _ _ _ _ this]
  show ?thesis
    unfolding clock by (force simp: exLeaseA_state writtenState_def)
qed

theorem free_lease_acquired_witness:
  "\<exists>r h. sys_runtimes (leaseRun memoryStorage ''lease'' (exAcquire ''A'') exLeaseStart) ''A'' = Some r \<and>
     rtm_phase r = Held h \<and> doc_generation (hnd_document h) = 1 \<and> hasAuthority 0 r"
proof -
  have clock: "sys_clock (leaseRun memoryStorage ''lease'' (exAcquire ''A'') exLeaseStart) = 0"
    by (simp add: exLeaseStart_def exAcquire_def exLeaseInput_def lease_evaluation)
  have "\<exists>r h. sys_runtimes (leaseRun memoryStorage ''lease'' (exAcquire ''A'') exLeaseStart) ''A'' = Some r \<and>
      rtm_phase r = Held h \<and> hnd_etag h = etagText 1 \<and>
      hnd_document h = claimDocument exLeaseInput ''A'' (sys_clock exLeaseStart) None \<and>
      sys_objects (leaseRun memoryStorage ''lease'' (exAcquire ''A'') exLeaseStart) =
        snd (memoryPutJson ''lease'' (leaseJson exDocA0) \<lparr>pcn_etag = None, pcn_absent = True\<rparr> emptyMemory) \<and>
      (0 < lin_ttlMs exLeaseInput \<longrightarrow>
       hasAuthority (sys_clock (leaseRun memoryStorage ''lease'' (exAcquire ''A'') exLeaseStart)) r)"
    by (rule free_lease_acquired)
      (simp_all add: exLeaseStart_def exAcquire_def exLeaseInput_def exDocA0_def initialSystem_def
        memoryStorage_def memoryGetJson_def memoryPutJson_def emptyMemory_def etagMatches_def
        storedHolder_def deadlinePassed_def claimDocument_def cappedAt_def Let_def)
  then show ?thesis
    unfolding clock by (auto simp: claimDocument_def exLeaseInput_def)
qed

end
