(* ===== verification/Microvm_Metadata.thy ===== *)
theory Microvm_Metadata
  imports Json_Roundtrip Encoding
begin

text \<open>
  The persistent metadata and the activation envelope of the Lambda MicroVM backend
  (\<open>packages/eve-aws-lambda-microvms/src/metadata.ts\<close> and \<open>activation.ts\<close>): parsers of untrusted
  JSON into typed records, and the validation and serialisation of the envelope that is handed to a
  guest. An error carries the text the message names; a character is one UTF-16 code unit below 256.
\<close>

datatype MetadataError =
    UnsupportedMetadataVersion
  | InvalidMetadata string
  | UnexpectedMetadataField string

section \<open>Checks of single values\<close>

definition isSha256Hex :: "string \<Rightarrow> bool" where
  "isSha256Hex s \<longleftrightarrow> length s = 64 \<and> list_all isLowerHex s"

text \<open>The regular expression \<open>/^[A-Z_][A-Z0-9_]{0,127}$/\<close>.\<close>

definition isUpperOrUnderscore :: "char \<Rightarrow> bool" where
  "isUpperOrUnderscore c \<longleftrightarrow> c = CHR ''_'' \<or> (65 \<le> (of_char c :: nat) \<and> (of_char c :: nat) \<le> 90)"

definition isEnvironmentVariable :: "string \<Rightarrow> bool" where
  "isEnvironmentVariable s \<longleftrightarrow> (case s of
     [] \<Rightarrow> False
   | c # cs \<Rightarrow> isUpperOrUnderscore c \<and> length cs \<le> 127 \<and>
       list_all (\<lambda>x. isUpperOrUnderscore x \<or> isDigit x) cs)"

text \<open>An absent property is \<open>None\<close>.\<close>

definition expectRecord :: "JsonValue \<Rightarrow> string \<Rightarrow> MetadataError + (string \<times> JsonValue) list" where
  "expectRecord value name = (case value of JObject ms \<Rightarrow> Inr ms | _ \<Rightarrow> Inl (InvalidMetadata name))"

definition expectString :: "JsonValue option \<Rightarrow> string \<Rightarrow> MetadataError + string" where
  "expectString value name = (case value of
     Some (JString s) \<Rightarrow> if s = [] then Inl (InvalidMetadata name) else Inr s
   | _ \<Rightarrow> Inl (InvalidMetadata name))"

definition expectIntegerFrom :: "int \<Rightarrow> JsonValue option \<Rightarrow> string \<Rightarrow> MetadataError + int" where
  "expectIntegerFrom least value name = (case value of
     Some (JNumber q) \<Rightarrow>
       if of_int \<lfloor>q\<rfloor> = q \<and> least \<le> \<lfloor>q\<rfloor> then Inr \<lfloor>q\<rfloor> else Inl (InvalidMetadata name)
   | _ \<Rightarrow> Inl (InvalidMetadata name))"

definition expectPositiveInteger :: "JsonValue option \<Rightarrow> string \<Rightarrow> MetadataError + int" where
  "expectPositiveInteger = expectIntegerFrom 1"

definition expectNonNegativeInteger :: "JsonValue option \<Rightarrow> string \<Rightarrow> MetadataError + int" where
  "expectNonNegativeInteger = expectIntegerFrom 0"

definition expectSha256 :: "JsonValue option \<Rightarrow> string \<Rightarrow> MetadataError + string" where
  "expectSha256 value name = (case expectString value name of
     Inl e \<Rightarrow> Inl e
   | Inr s \<Rightarrow> if isSha256Hex s then Inr s else Inl (InvalidMetadata name))"

definition optionalValue ::
  "(JsonValue option \<Rightarrow> string \<Rightarrow> MetadataError + 'a) \<Rightarrow> JsonValue option \<Rightarrow> string \<Rightarrow> MetadataError + 'a option" where
  "optionalValue expect value name = (case value of
     None \<Rightarrow> Inr None
   | Some _ \<Rightarrow> (case expect value name of Inl e \<Rightarrow> Inl e | Inr x \<Rightarrow> Inr (Some x)))"

text \<open>Sequencing: the first check that throws ends the parse.\<close>

fun andParse :: "'e + 'a \<Rightarrow> ('a \<Rightarrow> 'e + 'b) \<Rightarrow> 'e + 'b" where
  "andParse (Inl e) f = Inl e"
| "andParse (Inr x) f = f x"

lemma andParse_Inr: "andParse m f = Inr y \<longleftrightarrow> (\<exists>x. m = Inr x \<and> f x = Inr y)"
  by (cases m) auto

section \<open>Checkpoints and templates\<close>

record Checkpoint =
  cp_etag :: "string option"
  cp_generation :: int
  cp_key :: string
  cp_sha256 :: string
  cp_size :: int

record TemplateDescriptor =
  td_checkpoint :: "Checkpoint option"
  td_configHash :: string
  td_controllerProtocolVersion :: int
  td_egressProxyCaSha256 :: "string option"
  td_imageArn :: string
  td_imageVersion :: string
  td_region :: string
  td_templateHash :: string

text \<open>An \<open>etag\<close> that is no string, or empty, counts as absent.\<close>

definition lenientEtag :: "JsonValue option \<Rightarrow> string option" where
  "lenientEtag value = (case value of Some (JString e) \<Rightarrow> if e = [] then None else Some e | _ \<Rightarrow> None)"

definition parseCheckpoint :: "JsonValue option \<Rightarrow> MetadataError + Checkpoint option" where
  "parseCheckpoint value = (case value of
     None \<Rightarrow> Inr None
   | Some v \<Rightarrow>
       andParse (expectRecord v ''checkpoint'') (\<lambda>ms.
       andParse (expectPositiveInteger (map_of ms ''generation'') ''checkpoint.generation'') (\<lambda>generation.
       andParse (expectString (map_of ms ''key'') ''checkpoint.key'') (\<lambda>key.
       andParse (expectSha256 (map_of ms ''sha256'') ''checkpoint.sha256'') (\<lambda>sha256.
       andParse (expectNonNegativeInteger (map_of ms ''size'') ''checkpoint.size'') (\<lambda>size.
       Inr (Some \<lparr>cp_etag = lenientEtag (map_of ms ''etag''),
                  cp_generation = generation, cp_key = key, cp_sha256 = sha256, cp_size = size\<rparr>)))))))"

definition parseTemplateMembers :: "(string \<times> JsonValue) list \<Rightarrow> MetadataError + TemplateDescriptor" where
  "parseTemplateMembers ms =
     (if map_of ms ''version'' \<noteq> Some (JNumber 2) then Inl UnsupportedMetadataVersion
      else
        andParse (parseCheckpoint (map_of ms ''checkpoint'')) (\<lambda>checkpoint.
        andParse (expectString (map_of ms ''configHash'') ''configHash'') (\<lambda>configHash.
        andParse (expectPositiveInteger (map_of ms ''controllerProtocolVersion'')
          ''controllerProtocolVersion'') (\<lambda>protocol.
        andParse (optionalValue expectSha256 (map_of ms ''egressProxyCaSha256'') ''egressProxyCaSha256'') (\<lambda>ca.
        andParse (expectString (map_of ms ''imageArn'') ''imageArn'') (\<lambda>arn.
        andParse (expectString (map_of ms ''imageVersion'') ''imageVersion'') (\<lambda>version.
        andParse (expectString (map_of ms ''region'') ''region'') (\<lambda>region.
        andParse (expectSha256 (map_of ms ''templateHash'') ''templateHash'') (\<lambda>hash.
        Inr \<lparr>td_checkpoint = checkpoint, td_configHash = configHash,
             td_controllerProtocolVersion = protocol, td_egressProxyCaSha256 = ca,
             td_imageArn = arn, td_imageVersion = version, td_region = region,
             td_templateHash = hash\<rparr>)))))))))"

definition parseTemplateDescriptor :: "JsonValue \<Rightarrow> MetadataError + TemplateDescriptor" where
  "parseTemplateDescriptor value = andParse (expectRecord value ''template descriptor'') parseTemplateMembers"

section \<open>Sessions\<close>

record SessionMetadata =
  sm_template :: TemplateDescriptor
  sm_activationId :: "string option"
  sm_controllerCaSha256 :: "string option"
  sm_egressNetworkConnectorArn :: "string option"
  sm_manifestEtag :: string
  sm_microvmId :: string
  sm_networkLaneId :: "string option"
  sm_placeholderGeneration :: "int option"
  sm_placeholderPlacement :: "string option"
  sm_trustedBindingGeneration :: "int option"

definition sessionKeys :: "string list" where
  "sessionKeys = [''activationId'', ''checkpoint'', ''configHash'', ''controllerCaSha256'',
     ''controllerProtocolVersion'', ''egressNetworkConnectorArn'', ''egressProxyCaSha256'', ''imageArn'',
     ''imageVersion'', ''manifestEtag'', ''microvmId'', ''networkLaneId'', ''placeholderGeneration'',
     ''placeholderPlacement'', ''region'', ''templateHash'', ''trustedBindingGeneration'', ''version'']"

definition rejectUnexpected :: "string list \<Rightarrow> (string \<times> JsonValue) list \<Rightarrow> MetadataError + unit" where
  "rejectUnexpected allowed ms = (case filter (\<lambda>k. k \<notin> set allowed) (map fst ms) of
     [] \<Rightarrow> Inr () | k # _ \<Rightarrow> Inl (UnexpectedMetadataField k))"

definition parsePlaceholderPlacement :: "JsonValue option \<Rightarrow> MetadataError + string option" where
  "parsePlaceholderPlacement value = (case value of
     None \<Rightarrow> Inr None
   | Some v \<Rightarrow>
       andParse (expectRecord v ''placeholderPlacement'') (\<lambda>ms.
         if length ms \<noteq> 1 \<or> map_of ms ''environmentVariable'' = None
         then Inl (InvalidMetadata ''placeholderPlacement'')
         else andParse (expectString (map_of ms ''environmentVariable'')
                ''placeholderPlacement.environmentVariable'') (\<lambda>variable.
              if isEnvironmentVariable variable then Inr (Some variable)
              else Inl (InvalidMetadata ''placeholderPlacement.environmentVariable''))))"

definition parseSessionMetadata :: "JsonValue option \<Rightarrow> MetadataError + SessionMetadata option" where
  "parseSessionMetadata value = (case value of
     None \<Rightarrow> Inr None
   | Some v \<Rightarrow>
       andParse (expectRecord v ''session metadata'') (\<lambda>ms.
       andParse (rejectUnexpected sessionKeys ms) (\<lambda>_.
       andParse (parseTemplateMembers ms) (\<lambda>template.
       andParse (optionalValue expectString (map_of ms ''activationId'') ''activationId'') (\<lambda>activationId.
       andParse (optionalValue expectSha256 (map_of ms ''controllerCaSha256'') ''controllerCaSha256'') (\<lambda>ca.
       andParse (optionalValue expectString (map_of ms ''egressNetworkConnectorArn'')
         ''egressNetworkConnectorArn'') (\<lambda>connector.
       andParse (expectString (map_of ms ''manifestEtag'') ''manifestEtag'') (\<lambda>manifestEtag.
       andParse (expectString (map_of ms ''microvmId'') ''microvmId'') (\<lambda>microvmId.
       andParse (optionalValue expectString (map_of ms ''networkLaneId'') ''networkLaneId'') (\<lambda>lane.
       andParse (optionalValue expectPositiveInteger (map_of ms ''placeholderGeneration'')
         ''placeholderGeneration'') (\<lambda>placeholder.
       andParse (parsePlaceholderPlacement (map_of ms ''placeholderPlacement'')) (\<lambda>placement.
       andParse (optionalValue expectPositiveInteger (map_of ms ''trustedBindingGeneration'')
         ''trustedBindingGeneration'') (\<lambda>binding.
       Inr (Some \<lparr>sm_template = template, sm_activationId = activationId, sm_controllerCaSha256 = ca,
         sm_egressNetworkConnectorArn = connector, sm_manifestEtag = manifestEtag,
         sm_microvmId = microvmId, sm_networkLaneId = lane, sm_placeholderGeneration = placeholder,
         sm_placeholderPlacement = placement, sm_trustedBindingGeneration = binding\<rparr>))))))))))))))"

section \<open>Writing metadata\<close>

text \<open>\<open>JSON.stringify\<close> of a descriptor and of session metadata: a member that is undefined is left out.\<close>

definition optionalMember :: "string \<Rightarrow> ('a \<Rightarrow> JsonValue) \<Rightarrow> 'a option \<Rightarrow> (string \<times> JsonValue) list" where
  "optionalMember key f v = (case v of None \<Rightarrow> [] | Some x \<Rightarrow> [(key, f x)])"

definition integerJson :: "int \<Rightarrow> JsonValue" where
  "integerJson i = JNumber (of_int i)"

definition checkpointJson :: "Checkpoint \<Rightarrow> JsonValue" where
  "checkpointJson c = JObject (optionalMember ''etag'' JString (cp_etag c) @
     [(''generation'', integerJson (cp_generation c)), (''key'', JString (cp_key c)),
      (''sha256'', JString (cp_sha256 c)), (''size'', integerJson (cp_size c))])"

definition templateMembers :: "TemplateDescriptor \<Rightarrow> (string \<times> JsonValue) list" where
  "templateMembers t =
     optionalMember ''checkpoint'' checkpointJson (td_checkpoint t) @
     [(''configHash'', JString (td_configHash t)),
      (''controllerProtocolVersion'', integerJson (td_controllerProtocolVersion t))] @
     optionalMember ''egressProxyCaSha256'' JString (td_egressProxyCaSha256 t) @
     [(''imageArn'', JString (td_imageArn t)), (''imageVersion'', JString (td_imageVersion t)),
      (''region'', JString (td_region t)), (''templateHash'', JString (td_templateHash t)),
      (''version'', JNumber 2)]"

definition sessionMembers :: "SessionMetadata \<Rightarrow> (string \<times> JsonValue) list" where
  "sessionMembers m =
     optionalMember ''activationId'' JString (sm_activationId m) @
     optionalMember ''controllerCaSha256'' JString (sm_controllerCaSha256 m) @
     optionalMember ''placeholderGeneration'' integerJson (sm_placeholderGeneration m) @
     optionalMember ''placeholderPlacement''
       (\<lambda>v. JObject [(''environmentVariable'', JString v)]) (sm_placeholderPlacement m) @
     optionalMember ''trustedBindingGeneration'' integerJson (sm_trustedBindingGeneration m) @
     templateMembers (sm_template m) @
     optionalMember ''egressNetworkConnectorArn'' JString (sm_egressNetworkConnectorArn m) @
     optionalMember ''networkLaneId'' JString (sm_networkLaneId m) @
     [(''microvmId'', JString (sm_microvmId m)), (''manifestEtag'', JString (sm_manifestEtag m))]"

section \<open>Activation envelopes\<close>

definition MAX_ACTIVATION_BYTES :: nat where
  "MAX_ACTIVATION_BYTES = 4095"

text \<open>\<open>token.split(".").length === 3\<close>: exactly two dots.\<close>

definition isJwtShaped :: "string \<Rightarrow> bool" where
  "isJwtShaped token \<longleftrightarrow> length (filter (\<lambda>c. c = CHR ''.'') token) = 2"

definition expectOpaque :: "JsonValue option \<Rightarrow> string \<Rightarrow> MetadataError + string" where
  "expectOpaque value name = andParse (expectString value name) (\<lambda>token.
     if length token < 8 \<or> length token > 8192 \<or>
        list_ex (\<lambda>c. c = CHR 0x00 \<or> c = CHR 0x0D \<or> c = CHR 0x0A) token
     then Inl (InvalidMetadata name)
     else if isJwtShaped token then Inl (InvalidMetadata name)
     else Inr token)"

definition validateEnvelopeMembers :: "(string \<times> JsonValue) list \<Rightarrow> MetadataError + unit" where
  "validateEnvelopeMembers ms =
     (if map_of ms ''version'' \<noteq> Some (JNumber 2) \<or> map_of ms ''protocolVersion'' \<noteq> Some (JNumber 2)
      then Inl UnsupportedMetadataVersion
      else
        andParse (expectOpaque (map_of ms ''activationId'') ''activationId'') (\<lambda>_.
        andParse (expectSha256 (map_of ms ''controllerCaSha256'') ''controllerCaSha256'') (\<lambda>_.
        andParse (expectOpaque (map_of ms ''controllerSessionToken'') ''controllerSessionToken'') (\<lambda>session.
        andParse (case map_of ms ''placeholder'' of
                   None \<Rightarrow> Inl (InvalidMetadata ''placeholder'')
                 | Some v \<Rightarrow> expectRecord v ''placeholder'') (\<lambda>placeholder.
        andParse (rejectUnexpected [''generation'', ''placement'', ''token'', ''trustedBindingGeneration'']
          placeholder) (\<lambda>_.
        andParse (expectPositiveInteger (map_of placeholder ''generation'') ''placeholder.generation'') (\<lambda>_.
        andParse (expectPositiveInteger (map_of placeholder ''trustedBindingGeneration'')
          ''placeholder.trustedBindingGeneration'') (\<lambda>_.
        andParse (expectOpaque (map_of placeholder ''token'') ''placeholder.token'') (\<lambda>token.
        if token = session then Inl (InvalidMetadata ''placeholder.token'')
        else
        andParse (case map_of placeholder ''placement'' of
                   None \<Rightarrow> Inl (InvalidMetadata ''placeholder.placement'')
                 | Some v \<Rightarrow> expectRecord v ''placeholder.placement'') (\<lambda>placement.
        andParse (rejectUnexpected [''environmentVariable''] placement) (\<lambda>_.
        andParse (expectString (map_of placement ''environmentVariable'')
          ''placeholder.placement.environmentVariable'') (\<lambda>variable.
        if \<not> isEnvironmentVariable variable
        then Inl (InvalidMetadata ''placeholder.placement.environmentVariable'')
        else rejectUnexpected [''activationId'', ''controllerCaSha256'', ''controllerSessionToken'',
               ''placeholder'', ''protocolVersion'', ''version''] ms))))))))))))"

definition serializeActivationEnvelope ::
  "(rat \<Rightarrow> string) \<Rightarrow> (string \<times> JsonValue) list \<Rightarrow> MetadataError + string" where
  "serializeActivationEnvelope numText ms = andParse (validateEnvelopeMembers ms) (\<lambda>_.
     let serialized = jsonText numText (JObject ms) in
     if length (utf8 serialized) > MAX_ACTIVATION_BYTES then Inl (InvalidMetadata ''payload'')
     else Inr serialized)"

text \<open>\<open>createAwsLambdaMicrovmActivationEnvelope\<close>: the identifier and the session token are the given
  ones or fresh random ones, which are arguments.\<close>

record CreateEnvelopeInput =
  ce_controllerCaSha256 :: JsonValue
  ce_placeholder :: JsonValue
  ce_activationId :: "string option"
  ce_controllerSessionToken :: "string option"

definition createActivationEnvelope ::
  "string \<Rightarrow> byte list \<Rightarrow> CreateEnvelopeInput \<Rightarrow> MetadataError + (string \<times> JsonValue) list" where
  "createActivationEnvelope uuid bytes input =
     andParse (expectSha256 (Some (ce_controllerCaSha256 input)) ''controllerCaSha256'') (\<lambda>ca.
     let envelope =
       [(''activationId'', JString (case ce_activationId input of None \<Rightarrow> uuid | Some s \<Rightarrow> s)),
        (''controllerCaSha256'', JString ca),
        (''controllerSessionToken'', JString (case ce_controllerSessionToken input of
           None \<Rightarrow> ''eve_local_'' @ base64url bytes | Some s \<Rightarrow> s)),
        (''placeholder'', ce_placeholder input),
        (''protocolVersion'', JNumber 2),
        (''version'', JNumber 2)]
     in andParse (validateEnvelopeMembers envelope) (\<lambda>_. Inr envelope))"

end
