(* ===== verification/Microvm_Metadata_Properties.thy ===== *)
theory Microvm_Metadata_Properties
  imports Microvm_Metadata
begin

text \<open>
  Session metadata of the Lambda MicroVM backend is canonical: whatever the parser accepts is
  written and read back unchanged. A serialised activation envelope is bounded, closed and carries
  two different opaque credentials.
\<close>

section \<open>What the checks accept\<close>

named_theorems metadata_checks

lemma expectRecord_Inr [metadata_checks]: "expectRecord v n = Inr ms \<longleftrightarrow> v = JObject ms"
  by (auto simp: expectRecord_def split: JsonValue.splits)

lemma expectString_Inr [metadata_checks]: "expectString v n = Inr s \<longleftrightarrow> v = Some (JString s) \<and> s \<noteq> []"
  by (auto simp: expectString_def split: option.splits JsonValue.splits)

lemma expectIntegerFrom_Inr:
  "expectIntegerFrom least v n = Inr i \<longleftrightarrow> v = Some (JNumber (of_int i)) \<and> least \<le> i"
  by (auto simp: expectIntegerFrom_def split: option.splits JsonValue.splits if_splits)

lemma expectPositiveInteger_Inr [metadata_checks]:
  "expectPositiveInteger v n = Inr i \<longleftrightarrow> v = Some (JNumber (of_int i)) \<and> 1 \<le> i"
  by (simp add: expectPositiveInteger_def expectIntegerFrom_Inr)

lemma expectNonNegativeInteger_Inr [metadata_checks]:
  "expectNonNegativeInteger v n = Inr i \<longleftrightarrow> v = Some (JNumber (of_int i)) \<and> 0 \<le> i"
  by (simp add: expectNonNegativeInteger_def expectIntegerFrom_Inr)

lemma expectSha256_Inr [metadata_checks]:
  "expectSha256 v n = Inr s \<longleftrightarrow> v = Some (JString s) \<and> s \<noteq> [] \<and> isSha256Hex s"
  using expectString_Inr[of v n s] by (auto simp: expectSha256_def expectString_def
      split: option.splits JsonValue.splits if_splits)

lemma optionalValue_property:
  "optionalValue expect v n = Inr r \<Longrightarrow> (\<And>x. expect v n = Inr x \<Longrightarrow> P x) \<Longrightarrow> optionally P r"
  by (auto simp: optionalValue_def split: option.splits sum.splits)

lemma optionalString_Inr: "optionalValue expectString v n = Inr r \<Longrightarrow> optionally (\<lambda>s. s \<noteq> []) r"
  by (erule optionalValue_property) (simp add: expectString_Inr)

lemma optionalSha256_Inr: "optionalValue expectSha256 v n = Inr r \<Longrightarrow> optionally isSha256Hex r"
  by (erule optionalValue_property) (simp add: expectSha256_Inr)

lemma optionalPositive_Inr: "optionalValue expectPositiveInteger v n = Inr r \<Longrightarrow> optionally (\<lambda>i. 1 \<le> i) r"
  by (erule optionalValue_property) (simp add: expectPositiveInteger_Inr)

text \<open>And what they give on values that are written.\<close>

lemma written_values [simp]:
  "s \<noteq> [] \<Longrightarrow> expectString (Some (JString s)) n = Inr s"
  "isSha256Hex s \<Longrightarrow> expectSha256 (Some (JString s)) n = Inr s"
  "1 \<le> i \<Longrightarrow> expectPositiveInteger (Some (JNumber (of_int i))) n = Inr i"
  "0 \<le> i \<Longrightarrow> expectNonNegativeInteger (Some (JNumber (of_int i))) n = Inr i"
  by (auto simp: metadata_checks isSha256Hex_def)

lemma written_string [simp]:
  "optionally (\<lambda>s. s \<noteq> []) v \<Longrightarrow> optionalValue expectString (map_option JString v) n = Inr v"
  by (cases v) (simp_all add: optionalValue_def)

lemma written_sha256 [simp]:
  "optionally isSha256Hex v \<Longrightarrow> optionalValue expectSha256 (map_option JString v) n = Inr v"
  by (cases v) (simp_all add: optionalValue_def)

lemma written_positive [simp]:
  "optionally (\<lambda>i. 1 \<le> i) v \<Longrightarrow>
   optionalValue expectPositiveInteger (map_option (\<lambda>i. JNumber (of_int i)) v) n = Inr v"
  by (cases v) (simp_all add: optionalValue_def)

lemma rejectUnexpected_Inr [metadata_checks]:
  "rejectUnexpected allowed ms = Inr u \<longleftrightarrow> fst ` set ms \<subseteq> set allowed"
proof -
  have "rejectUnexpected allowed ms = Inr u \<longleftrightarrow> filter (\<lambda>k. k \<notin> set allowed) (map fst ms) = []"
    by (auto simp: rejectUnexpected_def split: list.splits)
  then show ?thesis by (auto simp: filter_empty_conv image_subset_iff)
qed

lemma isSha256Hex_nonempty [simp]: "isSha256Hex s \<Longrightarrow> s \<noteq> []"
  by (auto simp: isSha256Hex_def)

section \<open>Metadata written and read\<close>

lemma map_of_optionalMember [simp]:
  "map_of (optionalMember k f v @ ms) k' =
     (if k' = k then (case v of None \<Rightarrow> map_of ms k' | Some x \<Rightarrow> Some (f x)) else map_of ms k')"
  by (auto simp: optionalMember_def split: option.splits)

lemma optional_map [simp]: "(case v of None \<Rightarrow> None | Some x \<Rightarrow> Some (f x)) = map_option f v"
  by (cases v) auto

lemma keys_optionalMember:
  "fst ` set (optionalMember k f v) \<subseteq> {k}"
  by (auto simp: optionalMember_def split: option.splits)

text \<open>What the parser accepts, as a predicate on the typed value.\<close>

definition validCheckpoint :: "Checkpoint \<Rightarrow> bool" where
  "validCheckpoint c \<longleftrightarrow> cp_etag c \<noteq> Some [] \<and> 1 \<le> cp_generation c \<and> cp_key c \<noteq> [] \<and>
     isSha256Hex (cp_sha256 c) \<and> 0 \<le> cp_size c"

definition validTemplate :: "TemplateDescriptor \<Rightarrow> bool" where
  "validTemplate t \<longleftrightarrow> optionally validCheckpoint (td_checkpoint t) \<and> td_configHash t \<noteq> [] \<and>
     1 \<le> td_controllerProtocolVersion t \<and> optionally isSha256Hex (td_egressProxyCaSha256 t) \<and>
     td_imageArn t \<noteq> [] \<and> td_imageVersion t \<noteq> [] \<and> td_region t \<noteq> [] \<and> isSha256Hex (td_templateHash t)"

definition validSession :: "SessionMetadata \<Rightarrow> bool" where
  "validSession m \<longleftrightarrow> validTemplate (sm_template m) \<and> optionally (\<lambda>s. s \<noteq> []) (sm_activationId m) \<and>
     optionally isSha256Hex (sm_controllerCaSha256 m) \<and> optionally (\<lambda>s. s \<noteq> []) (sm_egressNetworkConnectorArn m) \<and>
     sm_manifestEtag m \<noteq> [] \<and> sm_microvmId m \<noteq> [] \<and> optionally (\<lambda>s. s \<noteq> []) (sm_networkLaneId m) \<and>
     optionally (\<lambda>i. 1 \<le> i) (sm_placeholderGeneration m) \<and>
     optionally isEnvironmentVariable (sm_placeholderPlacement m) \<and>
     optionally (\<lambda>i. 1 \<le> i) (sm_trustedBindingGeneration m)"

lemma lenientEtag_valid: "lenientEtag v \<noteq> Some []"
  by (auto simp: lenientEtag_def split: option.splits JsonValue.splits)

lemma parseCheckpoint_valid: "parseCheckpoint v = Inr r \<Longrightarrow> optionally validCheckpoint r"
  by (cases v) (auto simp: parseCheckpoint_def andParse_Inr metadata_checks validCheckpoint_def lenientEtag_valid)

lemma parseTemplate_valid: "parseTemplateMembers ms = Inr t \<Longrightarrow> validTemplate t"
  by (auto simp: parseTemplateMembers_def andParse_Inr metadata_checks validTemplate_def
      split: if_splits dest: parseCheckpoint_valid optionalSha256_Inr)

lemma parsePlacement_valid: "parsePlaceholderPlacement v = Inr r \<Longrightarrow> optionally isEnvironmentVariable r"
  by (cases v) (auto simp: parsePlaceholderPlacement_def andParse_Inr metadata_checks split: if_splits)

lemma parseSession_valid: "parseSessionMetadata v = Inr (Some m) \<Longrightarrow> validSession m"
  by (cases v)
    (auto simp: parseSessionMetadata_def andParse_Inr metadata_checks validSession_def
      dest: parseTemplate_valid parsePlacement_valid optionalString_Inr optionalSha256_Inr optionalPositive_Inr)

lemma lenientEtag_json: "e \<noteq> Some [] \<Longrightarrow> lenientEtag (map_option JString e) = e"
  by (cases e) (auto simp: lenientEtag_def)

lemma parseCheckpoint_json:
  "validCheckpoint c \<Longrightarrow> parseCheckpoint (Some (checkpointJson c)) = Inr (Some c)"
  by (cases "cp_etag c") (simp_all add: parseCheckpoint_def checkpointJson_def expectRecord_def
      validCheckpoint_def integerJson_def lenientEtag_def optionalMember_def)

lemma parseCheckpoint_optional:
  "optionally validCheckpoint v \<Longrightarrow> parseCheckpoint (map_option checkpointJson v) = Inr v"
  by (cases v) (simp_all add: parseCheckpoint_json, simp add: parseCheckpoint_def)

lemma templateMembers_lookup:
  "map_of (templateMembers t) ''checkpoint'' = map_option checkpointJson (td_checkpoint t)"
  "map_of (templateMembers t) ''configHash'' = Some (JString (td_configHash t))"
  "map_of (templateMembers t) ''controllerProtocolVersion'' = Some (integerJson (td_controllerProtocolVersion t))"
  "map_of (templateMembers t) ''egressProxyCaSha256'' = map_option JString (td_egressProxyCaSha256 t)"
  "map_of (templateMembers t) ''imageArn'' = Some (JString (td_imageArn t))"
  "map_of (templateMembers t) ''imageVersion'' = Some (JString (td_imageVersion t))"
  "map_of (templateMembers t) ''region'' = Some (JString (td_region t))"
  "map_of (templateMembers t) ''templateHash'' = Some (JString (td_templateHash t))"
  "map_of (templateMembers t) ''version'' = Some (JNumber 2)"
  by (cases "td_checkpoint t"; cases "td_egressProxyCaSha256 t";
      simp add: templateMembers_def optionalMember_def)+

lemma parseTemplate_json:
  assumes "validTemplate t" "\<And>k. k \<in> {''checkpoint'', ''configHash'', ''controllerProtocolVersion'',
      ''egressProxyCaSha256'', ''imageArn'', ''imageVersion'', ''region'', ''templateHash'', ''version''} \<Longrightarrow>
      map_of ms k = map_of (templateMembers t) k"
  shows "parseTemplateMembers ms = Inr t"
  using assms(1)
  by (simp add: parseTemplateMembers_def assms(2) templateMembers_lookup parseCheckpoint_optional
      validTemplate_def integerJson_def)


definition templateKeys :: "string list" where
  "templateKeys = [''checkpoint'', ''configHash'', ''controllerProtocolVersion'', ''egressProxyCaSha256'',
     ''imageArn'', ''imageVersion'', ''region'', ''templateHash'', ''version'']"

lemma templateMembers_keys: "fst ` set (templateMembers t) \<subseteq> set templateKeys"
  by (auto simp: templateMembers_def templateKeys_def optionalMember_def split: option.splits)

lemma templateMembers_other: "k \<notin> set templateKeys \<Longrightarrow> map_of (templateMembers t) k = None"
  using templateMembers_keys[of t] by (auto simp: map_of_eq_None_iff)

lemma map_of_optional: "map_of (optionalMember k f v) k' = (if k' = k then map_option f v else None)"
  by (cases v) (auto simp: optionalMember_def)

lemma case_option_same: "(case v of None \<Rightarrow> None | Some x \<Rightarrow> Some x) = v"
  by (cases v) auto

lemma map_of_skip: "map_of a k = None \<Longrightarrow> map_of (a @ b) k = map_of b k"
  "map_of b k = None \<Longrightarrow> map_of (a @ b) k = map_of a k"
  by (simp_all add: map_add_def split: option.split)

lemma sessionMembers_template:
  assumes "k \<in> set templateKeys"
  shows "map_of (sessionMembers m) k = map_of (templateMembers (sm_template m)) k"
proof -
  have other: "map_of (optionalMember k' f v) k = None" if "k' \<notin> set templateKeys"
    for k' and f :: "'a \<Rightarrow> JsonValue" and v
    using that assms by (auto simp: map_of_optional)
  have last: "map_of [(''microvmId'', x), (''manifestEtag'', y)] k = None" for x y
    using assms by (auto simp: templateKeys_def)
  have "''activationId'' \<notin> set templateKeys" "''controllerCaSha256'' \<notin> set templateKeys"
    "''placeholderGeneration'' \<notin> set templateKeys" "''placeholderPlacement'' \<notin> set templateKeys"
    "''trustedBindingGeneration'' \<notin> set templateKeys" "''egressNetworkConnectorArn'' \<notin> set templateKeys"
    "''networkLaneId'' \<notin> set templateKeys"
    by (simp_all add: templateKeys_def)
  then show ?thesis
    unfolding sessionMembers_def by (simp add: map_of_skip other last del: map_of_append map_of_optionalMember map_of.simps)
qed

lemma sessionMembers_lookup:
  "map_of (sessionMembers m) ''activationId'' = map_option JString (sm_activationId m)"
  "map_of (sessionMembers m) ''controllerCaSha256'' = map_option JString (sm_controllerCaSha256 m)"
  "map_of (sessionMembers m) ''egressNetworkConnectorArn'' = map_option JString (sm_egressNetworkConnectorArn m)"
  "map_of (sessionMembers m) ''manifestEtag'' = Some (JString (sm_manifestEtag m))"
  "map_of (sessionMembers m) ''microvmId'' = Some (JString (sm_microvmId m))"
  "map_of (sessionMembers m) ''networkLaneId'' = map_option JString (sm_networkLaneId m)"
  "map_of (sessionMembers m) ''placeholderGeneration'' = map_option integerJson (sm_placeholderGeneration m)"
  "map_of (sessionMembers m) ''placeholderPlacement'' =
     map_option (\<lambda>v. JObject [(''environmentVariable'', JString v)]) (sm_placeholderPlacement m)"
  "map_of (sessionMembers m) ''trustedBindingGeneration'' = map_option integerJson (sm_trustedBindingGeneration m)"
  by (simp_all add: sessionMembers_def map_of_optional map_add_def case_option_same
      templateMembers_other templateKeys_def del: map_of_optionalMember cong: option.case_cong)

lemma sessionMembers_keys: "fst ` set (sessionMembers m) \<subseteq> set sessionKeys"
  using templateMembers_keys[of "sm_template m"]
  by (auto simp: sessionMembers_def sessionKeys_def templateKeys_def optionalMember_def split: option.splits)

lemma parsePlacement_json:
  "optionally isEnvironmentVariable v \<Longrightarrow>
   parsePlaceholderPlacement (map_option (\<lambda>v. JObject [(''environmentVariable'', JString v)]) v) = Inr v"
  by (cases v) (auto simp: parsePlaceholderPlacement_def expectRecord_def isEnvironmentVariable_def split: list.splits)

lemma rejectUnexpected_none: "fst ` set ms \<subseteq> set allowed \<Longrightarrow> rejectUnexpected allowed ms = Inr ()"
  by (simp add: rejectUnexpected_Inr)

lemma parseSession_json:
  assumes "validSession m"
  shows "parseSessionMetadata (Some (JObject (sessionMembers m))) = Inr (Some m)"
proof -
  have template: "parseTemplateMembers (sessionMembers m) = Inr (sm_template m)"
    using assms by (intro parseTemplate_json sessionMembers_template) (auto simp: validSession_def templateKeys_def)
  have int: "map_option integerJson v = map_option (\<lambda>i. JNumber (of_int i)) v" for v
    by (cases v) (simp_all add: integerJson_def)
  show ?thesis
    using assms
    by (simp add: parseSessionMetadata_def expectRecord_def rejectUnexpected_none[OF sessionMembers_keys] template
        sessionMembers_lookup parsePlacement_json int validSession_def)
qed

section \<open>The properties\<close>

text \<open>C19. Session metadata is canonical. Whatever value the parser accepts has only valid members, and
  writing the parsed metadata gives a value that parses to the same metadata again.\<close>

theorem session_metadata_roundtrip:
  assumes "parseSessionMetadata v = Inr (Some m)"
  shows "validSession m \<and> parseSessionMetadata (Some (JObject (sessionMembers m))) = Inr (Some m)"
  using parseSession_valid[OF assms] parseSession_json by blast

text \<open>A serialised activation envelope has at most 4095 bytes of UTF-8, has exactly the six known
  members, and carries two different credentials, neither of the shape of a JWT.\<close>

theorem serialized_envelope_safe:
  assumes "serializeActivationEnvelope numText ms = Inr s"
  shows "length (utf8 s) \<le> 4095 \<and> s = jsonText numText (JObject ms) \<and>
    fst ` set ms \<subseteq> {''activationId'', ''controllerCaSha256'', ''controllerSessionToken'',
      ''placeholder'', ''protocolVersion'', ''version''} \<and>
    (\<exists>session token placeholder. map_of ms ''controllerSessionToken'' = Some (JString session) \<and>
       map_of ms ''placeholder'' = Some (JObject placeholder) \<and>
       map_of placeholder ''token'' = Some (JString token) \<and>
       session \<noteq> token \<and> \<not> isJwtShaped session \<and> \<not> isJwtShaped token)"
proof -
  from assms have valid: "validateEnvelopeMembers ms = Inr ()" and s: "s = jsonText numText (JObject ms)"
    "length (utf8 s) \<le> MAX_ACTIVATION_BYTES"
    by (auto simp: serializeActivationEnvelope_def andParse_Inr Let_def split: if_splits)
  have opaque: "expectOpaque v n = Inr t \<Longrightarrow> v = Some (JString t) \<and> \<not> isJwtShaped t" for v n t
    by (auto simp: expectOpaque_def andParse_Inr metadata_checks split: if_splits)
  from valid obtain session token placeholder where
    "map_of ms ''controllerSessionToken'' = Some (JString session)" "\<not> isJwtShaped session"
    "map_of ms ''placeholder'' = Some (JObject placeholder)"
    "map_of placeholder ''token'' = Some (JString token)" "\<not> isJwtShaped token" "token \<noteq> session"
    "fst ` set ms \<subseteq> {''activationId'', ''controllerCaSha256'', ''controllerSessionToken'',
      ''placeholder'', ''protocolVersion'', ''version''}"
    by (auto simp: validateEnvelopeMembers_def andParse_Inr metadata_checks
        split: if_splits option.splits dest!: opaque)
  with s show ?thesis by (auto simp: MAX_ACTIVATION_BYTES_def)
qed

section \<open>Examples\<close>

definition exSessionMetadata :: SessionMetadata where
  "exSessionMetadata = \<lparr>sm_template = \<lparr>td_checkpoint = Some \<lparr>cp_etag = Some ''e'', cp_generation = 1,
       cp_key = ''k'', cp_sha256 = replicate 64 CHR ''a'', cp_size = 10\<rparr>, td_configHash = ''c'',
       td_controllerProtocolVersion = 2, td_egressProxyCaSha256 = None, td_imageArn = ''arn'',
       td_imageVersion = ''1'', td_region = ''us-east-1'', td_templateHash = replicate 64 CHR ''b''\<rparr>,
     sm_activationId = None, sm_controllerCaSha256 = None, sm_egressNetworkConnectorArn = None,
     sm_manifestEtag = ''m'', sm_microvmId = ''vm'', sm_networkLaneId = None,
     sm_placeholderGeneration = Some 3, sm_placeholderPlacement = Some ''API_KEY'',
     sm_trustedBindingGeneration = None\<rparr>"

lemma exSessionMetadata_valid: "validSession exSessionMetadata"
  by (simp add: validSession_def validTemplate_def validCheckpoint_def exSessionMetadata_def isSha256Hex_def
      isLowerHex_def isDigit_def list_all_iff isEnvironmentVariable_def isUpperOrUnderscore_def)

theorem session_metadata_roundtrip_witness:
  "parseSessionMetadata (Some (JObject (sessionMembers exSessionMetadata))) = Inr (Some exSessionMetadata) \<and>
   validSession exSessionMetadata"
  using session_metadata_roundtrip[OF parseSession_json[OF exSessionMetadata_valid]] by simp

definition exEnvelope :: "(string \<times> JsonValue) list" where
  "exEnvelope = [(''activationId'', JString ''activation-1''),
     (''controllerCaSha256'', JString (replicate 64 CHR ''a'')),
     (''controllerSessionToken'', JString ''eve_local_1''),
     (''placeholder'', JObject [(''generation'', JNumber 1),
        (''placement'', JObject [(''environmentVariable'', JString ''API_KEY'')]),
        (''token'', JString ''placeholder''), (''trustedBindingGeneration'', JNumber 1)]),
     (''protocolVersion'', JNumber 2), (''version'', JNumber 2)]"

lemma exEnvelope_serialized:
  "serializeActivationEnvelope (\<lambda>_. []) exEnvelope = Inr (jsonText (\<lambda>_. []) (JObject exEnvelope))"
  by code_simp

theorem serialized_envelope_safe_witness:
  "length (utf8 (jsonText (\<lambda>_. []) (JObject exEnvelope))) \<le> 4095"
  using serialized_envelope_safe[OF exEnvelope_serialized] by blast

end
