(* ===== verification/Effects.thy ===== *)
theory Effects
  imports Prelude
begin

text \<open>
  Asynchronous code that talks to services outside the repository. A computation either ends or
  makes one call and continues with its answer; an answer may be an error, and nothing is assumed of
  the answers. \<open>runIo\<close> runs a computation on a list of answers and gives the calls it makes, each with
  its answer, and the result; the last call has no answer when the list ends there. \<open>wp\<close> is the
  rule to reason about every run: each call is allowed by what was answered before it, and each
  result satisfies a postcondition.

  An action is a computation with local variables that ends with a value or a thrown error and,
  in both cases, with the variables as they are then.
\<close>

section \<open>Computations\<close>

datatype ('c, 'a, 'r) io = Ended 'r | Asks 'c "'a \<Rightarrow> ('c, 'a, 'r) io"

type_synonym ('c, 'a) trace = "('c \<times> 'a option) list"

primrec runIo :: "('c, 'a, 'r) io \<Rightarrow> 'a list \<Rightarrow> ('c, 'a) trace \<times> 'r option" where
  "runIo (Ended r) answers = ([], Some r)"
| "runIo (Asks c k) answers =
     (case answers of
        [] \<Rightarrow> ([(c, None)], None)
      | a # rest \<Rightarrow> (case runIo (k a) rest of (t, r) \<Rightarrow> ((c, Some a) # t, r)))"

primrec bindIo :: "('c, 'a, 'r) io \<Rightarrow> ('r \<Rightarrow> ('c, 'a, 's) io) \<Rightarrow> ('c, 'a, 's) io" where
  "bindIo (Ended r) f = f r"
| "bindIo (Asks c k) f = Asks c (\<lambda>a. bindIo (k a) f)"

primrec wp ::
  "(('c \<times> 'a) list \<Rightarrow> 'c \<Rightarrow> bool) \<Rightarrow> ('c, 'a, 'r) io \<Rightarrow> ('c \<times> 'a) list \<Rightarrow> (('c \<times> 'a) list \<Rightarrow> 'r \<Rightarrow> bool) \<Rightarrow> bool" where
  "wp P (Ended r) h Q = Q h r"
| "wp P (Asks c k) h Q = (P h c \<and> (\<forall>a. wp P (k a) (h @ [(c, a)]) Q))"

lemma wp_bindIo: "wp P (bindIo m f) h Q = wp P m h (\<lambda>h r. wp P (f r) h Q)"
  by (induction m arbitrary: h) auto

lemma wp_mono: "wp P m h Q \<Longrightarrow> (\<And>h r. Q h r \<Longrightarrow> Q' h r) \<Longrightarrow> wp P m h Q'"
  by (induction m arbitrary: h) auto

lemma wp_calls: "wp P m h Q \<Longrightarrow> (\<And>h c. P h c \<Longrightarrow> P' h c) \<Longrightarrow> wp P' m h Q"
  by (induction m arbitrary: h) auto

lemma wp_conj: "wp P m h Q \<Longrightarrow> wp P m h Q' \<Longrightarrow> wp P m h (\<lambda>h r. Q h r \<and> Q' h r)"
  by (induction m arbitrary: h) auto

lemma wp_true: "(\<And>h c. P h c) \<Longrightarrow> (\<And>h r. Q h r) \<Longrightarrow> wp P m h Q"
  by (induction m arbitrary: h) auto

text \<open>The history of a trace: its answered calls.\<close>

definition answered :: "('c, 'a) trace \<Rightarrow> ('c \<times> 'a) list" where
  "answered t = map (\<lambda>(c, a). (c, the a)) (filter (\<lambda>(c, a). a \<noteq> None) t)"

lemma answered_simps [simp]:
  "answered [] = []" "answered ((c, Some a) # t) = (c, a) # answered t" "answered ((c, None) # t) = answered t"
  by (simp_all add: answered_def)

lemma wp_sound:
  assumes "wp P m h Q" "runIo m answers = (t, r)"
  shows "(\<forall>i<length t. P (h @ answered (take i t)) (fst (t ! i))) \<and>
    (\<forall>x. r = Some x \<longrightarrow> Q (h @ answered t) x)"
  using assms
proof (induction m arbitrary: h answers t)
  case (Asks c k)
  show ?case
  proof (cases answers)
    case Nil
    with Asks.prems show ?thesis by auto
  next
    case (Cons a rest)
    obtain t1 where t1: "runIo (k a) rest = (t1, r)" and t: "t = (c, Some a) # t1"
      using Asks.prems(2) Cons by (auto split: prod.splits)
    have "wp P (k a) (h @ [(c, a)]) Q" and first: "P h c" using Asks.prems(1) by auto
    from Asks.IH[OF _ this(1) t1]
    have rest: "(\<forall>i<length t1. P ((h @ [(c, a)]) @ answered (take i t1)) (fst (t1 ! i))) \<and>
        (\<forall>x. r = Some x \<longrightarrow> Q ((h @ [(c, a)]) @ answered t1) x)" by auto
    have "P (h @ answered (take i t)) (fst (t ! i))" if "i < length t" for i
      using that first rest t by (cases i) auto
    with rest t show ?thesis by auto
  qed
qed auto

lemma answered_take:
  assumes "(c, a) \<in> set (answered (take i t))" "i \<le> length t"
  shows "\<exists>j<i. t ! j = (c, Some a)"
proof -
  from assms(1) have "(c, Some a) \<in> set (take i t)" by (auto simp: answered_def)
  then show ?thesis using assms(2) by (auto simp: in_set_conv_nth)
qed

section \<open>Actions\<close>

type_synonym ('c, 'a, 'e, 's, 'r) act = "'s \<Rightarrow> ('c, 'a, ('e + 'r) \<times> 's) io"

definition ret :: "'r \<Rightarrow> ('c, 'a, 'e, 's, 'r) act" where
  "ret x s = Ended (Inr x, s)"

definition throw :: "'e \<Rightarrow> ('c, 'a, 'e, 's, 'r) act" where
  "throw e s = Ended (Inl e, s)"

definition seq :: "('c, 'a, 'e, 's, 'r) act \<Rightarrow> ('r \<Rightarrow> ('c, 'a, 'e, 's, 'q) act) \<Rightarrow> ('c, 'a, 'e, 's, 'q) act" where
  "seq m f s = bindIo (m s) (\<lambda>(r, s'). case r of Inl e \<Rightarrow> Ended (Inl e, s') | Inr x \<Rightarrow> f x s')"

definition catch :: "('c, 'a, 'e, 's, 'r) act \<Rightarrow> ('e \<Rightarrow> ('c, 'a, 'e, 's, 'r) act) \<Rightarrow> ('c, 'a, 'e, 's, 'r) act" where
  "catch m f s = bindIo (m s) (\<lambda>(r, s'). case r of Inl e \<Rightarrow> f e s' | Inr x \<Rightarrow> Ended (Inr x, s'))"

definition ask :: "'c \<Rightarrow> ('c, 'a, 'e, 's, 'a) act" where
  "ask c s = Asks c (\<lambda>a. Ended (Inr a, s))"

definition getLocal :: "('c, 'a, 'e, 's, 's) act" where
  "getLocal s = Ended (Inr s, s)"

definition setLocal :: "('s \<Rightarrow> 's) \<Rightarrow> ('c, 'a, 'e, 's, unit) act" where
  "setLocal f s = Ended (Inr (), f s)"

text \<open>\<open>m.catch(() => undefined)\<close>, and \<open>try { m } finally { f }\<close>.\<close>

definition attempt :: "('c, 'a, 'e, 's, 'r) act \<Rightarrow> ('c, 'a, 'e, 's, unit) act" where
  "attempt m = catch (seq m (\<lambda>_. ret ())) (\<lambda>_. ret ())"

definition finally_do :: "('c, 'a, 'e, 's, 'r) act \<Rightarrow> ('c, 'a, 'e, 's, unit) act \<Rightarrow> ('c, 'a, 'e, 's, 'r) act" where
  "finally_do m f = seq (catch m (\<lambda>e. seq f (\<lambda>_. throw e))) (\<lambda>x. seq f (\<lambda>_. ret x))"

fun forEach :: "('b \<Rightarrow> ('c, 'a, 'e, 's, unit) act) \<Rightarrow> 'b list \<Rightarrow> ('c, 'a, 'e, 's, unit) act" where
  "forEach f [] = ret ()"
| "forEach f (x # xs) = seq (f x) (\<lambda>_. forEach f xs)"

text \<open>The rules, for actions applied to their variables.\<close>

lemma wp_ret [simp]: "wp P (ret x s) h Q = Q h (Inr x, s)"
  by (simp add: ret_def)

lemma wp_throw [simp]: "wp P (throw e s) h Q = Q h (Inl e, s)"
  by (simp add: throw_def)

lemma wp_ask [simp]: "wp P (ask c s) h Q = (P h c \<and> (\<forall>a. Q (h @ [(c, a)]) (Inr a, s)))"
  by (simp add: ask_def)

lemma wp_getLocal [simp]: "wp P (getLocal s) h Q = Q h (Inr s, s)"
  by (simp add: getLocal_def)

lemma wp_setLocal [simp]: "wp P (setLocal f s) h Q = Q h (Inr (), f s)"
  by (simp add: setLocal_def)

lemma wp_seq [simp]:
  "wp P (seq m f s) h Q =
   wp P (m s) h (\<lambda>h r. case fst r of Inl e \<Rightarrow> Q h (Inl e, snd r) | Inr x \<Rightarrow> wp P (f x (snd r)) h Q)"
proof -
  have "(\<lambda>h r. wp P (case r of (r, s') \<Rightarrow> case r of Inl e \<Rightarrow> Ended (Inl e, s') | Inr x \<Rightarrow> f x s') h Q) =
    (\<lambda>h r. case fst r of Inl e \<Rightarrow> Q h (Inl e, snd r) | Inr x \<Rightarrow> wp P (f x (snd r)) h Q)"
    by (auto simp: fun_eq_iff split: sum.splits)
  then show ?thesis by (simp add: seq_def wp_bindIo)
qed

lemma wp_catch [simp]:
  "wp P (catch m f s) h Q =
   wp P (m s) h (\<lambda>h r. case fst r of Inl e \<Rightarrow> wp P (f e (snd r)) h Q | Inr x \<Rightarrow> Q h (Inr x, snd r))"
proof -
  have "(\<lambda>h r. wp P (case r of (r, s') \<Rightarrow> case r of Inl e \<Rightarrow> f e s' | Inr x \<Rightarrow> Ended (Inr x, s')) h Q) =
    (\<lambda>h r. case fst r of Inl e \<Rightarrow> wp P (f e (snd r)) h Q | Inr x \<Rightarrow> Q h (Inr x, snd r))"
    by (auto simp: fun_eq_iff split: sum.splits)
  then show ?thesis by (simp add: catch_def wp_bindIo)
qed

end
