(* ===== verification/Microvm_Session.thy ===== *)
theory Microvm_Session
  imports Effects Microvm_Lease Microvm_Metadata
begin

text \<open>
  Sessions and templates of the Lambda MicroVM backend (\<open>backend.ts\<close>) and their checkpoints
  (\<open>checkpoint.ts\<close>, both in \<open>packages/eve-aws-lambda-microvms/src\<close>): launching a MicroVM under the
  session lease, retiring a late launch, capturing, stopping and deleting a session, and prewarming
  a template.

  The object store, the lease, the MicroVM API, the guest controller, the activation provider and
  the image provisioning are services: a call to one of them is a call of the trace, and an answer
  may be an error at any point. A promise that loses a race with an abort signal (\<open>bounded\<close>) answers
  with an error. The two that have a handler for their late value, the start of a MicroVM and the first
  lease of a session, may answer \<open>MicrovmLate\<close> and \<open>LeaseLate\<close>: the race is lost, and the promise is
  fulfilled later with a value. The handler of the code then runs in the background; here its calls are
  made before the next call of the operation (a template's MicroVM, a lease) or before the operation
  ends with the error (\<open>lateMicrovm\<close> for the MicroVM of a session).
  Diagnostics and telemetry never influence a result and are left out.
\<close>

section \<open>Data\<close>

record Envelope =
  ev_activationId :: string
  ev_controllerCaSha256 :: string
  ev_controllerSessionToken :: string
  ev_generation :: int
  ev_environmentVariable :: string
  ev_token :: string
  ev_trustedBindingGeneration :: int

definition envelopeMembers :: "Envelope \<Rightarrow> (string \<times> JsonValue) list" where
  "envelopeMembers e =
     [(''activationId'', JString (ev_activationId e)),
      (''controllerCaSha256'', JString (ev_controllerCaSha256 e)),
      (''controllerSessionToken'', JString (ev_controllerSessionToken e)),
      (''placeholder'', JObject
        [(''generation'', JNumber (of_int (ev_generation e))),
         (''placement'', JObject [(''environmentVariable'', JString (ev_environmentVariable e))]),
         (''token'', JString (ev_token e)),
         (''trustedBindingGeneration'', JNumber (of_int (ev_trustedBindingGeneration e)))]),
      (''protocolVersion'', JNumber 2),
      (''version'', JNumber 2)]"

record IdlePolicy =
  ip_autoResumeEnabled :: bool
  ip_maxIdleDurationSeconds :: int
  ip_suspendedDurationSeconds :: int

datatype Logging = LoggingDisabled | CloudWatch "string option" "string option"

record RunRequest =
  rr_clientToken :: string
  rr_egressNetworkConnectorArns :: "string list"
  rr_executionRoleArn :: "string option"
  rr_idlePolicy :: IdlePolicy
  rr_imageArn :: string
  rr_imageVersion :: string
  rr_ingressNetworkConnectorArns :: "string list"
  rr_logging :: Logging
  rr_maximumDurationSeconds :: int
  rr_runHookPayload :: string

record Microvm =
  mv_microvmId :: string
  mv_imageArn :: string
  mv_imageVersion :: string
  mv_egressNetworkConnectorArns :: "string list"

text \<open>A started MicroVM with the properties \<open>runMicrovmWithAuthority\<close> defines on it.\<close>

record LaunchedMicrovm =
  lm_microvm :: Microvm
  lm_activation :: "Envelope option"
  lm_egressProxyCaSha256 :: "string option"

record PendingLaunch =
  la_id :: string
  la_request :: "RunRequest option"
  la_activation :: "Envelope option"
  la_microvmId :: "string option"

text \<open>The state of the session lease. Metadata is read back as JSON; \<open>None\<close> is \<open>null\<close>.\<close>

record SessionAuthority =
  sa_metadata :: "JsonValue option"
  sa_launch :: "PendingLaunch option"

record Replacement =
  rp_activationId :: string
  rp_placeholderGeneration :: "int option"
  rp_trustedBindingGeneration :: "int option"

record Preparation =
  pr_dirty :: bool
  pr_checkpointId :: "string option"
  pr_partCount :: "int option"
  pr_partSha256s :: "string list option"
  pr_sha256 :: "string option"
  pr_size :: "int option"

record UploadedPart =
  up_etag :: string
  up_partNumber :: int
  up_sha256 :: "string option"

record ObjectInfo =
  oi_etag :: "string option"
  oi_size :: int

record ImageIdentity =
  im_imageArn :: string
  im_imageVersion :: string
  im_configHash :: string

record MicrovmOptions =
  op_applicationHash :: string
  op_artifactPrefix :: string
  op_region :: string
  op_customerManaged :: bool
  op_activationProvider :: bool
  op_buildEgressNetworkConnectorArns :: "string list"
  op_runtimeEgressNetworkConnectorArns :: "string list"
  op_buildNetworkLaneId :: string
  op_runtimeNetworkLaneId :: string
  op_httpIngressNetworkConnectorArn :: string
  op_shellIngressNetworkConnectorArn :: "string option"
  op_executionRoleArn :: "string option"
  op_egressProxyCaSha256 :: "string option"
  op_idlePolicy :: IdlePolicy
  op_runtimeLogging :: "(string option \<times> string option) option"
  op_maximumDurationSeconds :: int

text \<open>SHA-256 in lower-case hexadecimal digits, and the text of numbers that are no integers.\<close>

record MicrovmHost =
  mh_sha256 :: "string \<Rightarrow> string"
  mh_numberText :: "rat \<Rightarrow> string"

datatype Failure =
    ServiceThrew "ErrorObject option"
  | UnexpectedAnswer
  | TemplateNotProvisioned
  | TemplateRegionDiffers
  | ControllerIncompatible
  | TemplateCaDiffers
  | InvalidStored MetadataError
  | ActivationProviderMissing
  | LaunchConfigurationChanged
  | ActivationMismatch
  | StaleReplacement
  | LaunchSuperseded
  | AuthorityEnded
  | HandleShutDown
  | BindingRevocationFailed
  | RetirementFailed
  | SessionReplaced
  | ControllerOmitted string
  | PartCountDiffers
  | PartOutOfOrder
  | ObjectVerificationFailed
  | CheckpointDiffers
  | TemplateUnchanged
  | InvalidLineRange
  | TextNotDecodable
  | NetworkPolicyImmutable
  | BootstrapCommandFailed
  | PrewarmFailed Failure
  | DeadlineExceeded

section \<open>Services\<close>

datatype MicrovmCall =
    StorageAssertRegion
  | StorageGetJson string
  | StoragePutJson string JsonValue PutCondition
  | StorageDelete string "etag option"
  | StorageCreateUpload string
  | StoragePresignParts string string "string list"
  | StorageCompleteUpload string string "UploadedPart list" string
  | StorageAbortUpload string string
  | StorageInfo string
  | StoragePresignGet string
  | LeaseAcquire string
  | LeaseEnsureHeld
  | LeaseUpdateState SessionAuthority
  | LeaseRelease
  | LeasePromote
  | CallerCheckAborted
  | ApiRun RunRequest
  | ApiTerminate string
  | ProviderCreate string string "Replacement option"
  | ProviderRevoke string int int
  | ControllerWait string
  | ControllerPause
  | ControllerPrepare
  | ControllerUpload string "string list"
  | ControllerCommitted string
  | ControllerRelease
  | ControllerRestore string int string
  | EnsureImage
  | RunBootstrap
  | WriteSeedFile string
  | RandomUuid
  | ControllerSpawn string "(string \<times> string) list option" string
  | ControllerWaitProcess
  | ControllerReadFile string
  | ControllerWriteFile string "byte list"
  | ControllerRemovePath string "bool option" "bool option"
  | CallerContent

datatype MicrovmAnswer =
    Threw "ErrorObject option"
  | NothingGiven
  | JsonGiven "StoredJson option"
  | EtagGiven "etag option"
  | TextGiven string
  | TextsGiven "string list"
  | InfoGiven "ObjectInfo option"
  | PartsGiven "UploadedPart list"
  | PreparationGiven Preparation
  | LeaseGiven int "SessionAuthority option"
  | EnvelopeGiven Envelope
  | LeaseLate
  | MicrovmGiven Microvm
  | MicrovmLate Microvm
  | ImageGiven ImageIdentity
  | ProcessGiven "byte list" "byte list" int
  | BytesGiven "byte list option"

fun asNothing :: "MicrovmAnswer \<Rightarrow> unit option" where
  "asNothing NothingGiven = Some ()" | "asNothing _ = None"
fun asJson :: "MicrovmAnswer \<Rightarrow> StoredJson option option" where
  "asJson (JsonGiven v) = Some v" | "asJson _ = None"
fun asEtag :: "MicrovmAnswer \<Rightarrow> etag option option" where
  "asEtag (EtagGiven v) = Some v" | "asEtag _ = None"
fun asText :: "MicrovmAnswer \<Rightarrow> string option" where
  "asText (TextGiven v) = Some v" | "asText _ = None"
fun asTexts :: "MicrovmAnswer \<Rightarrow> string list option" where
  "asTexts (TextsGiven v) = Some v" | "asTexts _ = None"
fun asInfo :: "MicrovmAnswer \<Rightarrow> ObjectInfo option option" where
  "asInfo (InfoGiven v) = Some v" | "asInfo _ = None"
fun asParts :: "MicrovmAnswer \<Rightarrow> UploadedPart list option" where
  "asParts (PartsGiven v) = Some v" | "asParts _ = None"
fun asPreparation :: "MicrovmAnswer \<Rightarrow> Preparation option" where
  "asPreparation (PreparationGiven v) = Some v" | "asPreparation _ = None"
fun asLease :: "MicrovmAnswer \<Rightarrow> (int \<times> SessionAuthority option) option" where
  "asLease (LeaseGiven g v) = Some (g, v)" | "asLease _ = None"
fun asEnvelope :: "MicrovmAnswer \<Rightarrow> Envelope option" where
  "asEnvelope (EnvelopeGiven v) = Some v" | "asEnvelope _ = None"
fun asMicrovm :: "MicrovmAnswer \<Rightarrow> Microvm option" where
  "asMicrovm (MicrovmGiven v) = Some v" | "asMicrovm _ = None"
fun asImage :: "MicrovmAnswer \<Rightarrow> ImageIdentity option" where
  "asImage (ImageGiven v) = Some v" | "asImage _ = None"

fun asProcess :: "MicrovmAnswer \<Rightarrow> (byte list \<times> byte list \<times> int) option" where
  "asProcess (ProcessGiven stdout stderr code) = Some (stdout, stderr, code)" | "asProcess _ = None"
fun asBytes :: "MicrovmAnswer \<Rightarrow> byte list option option" where
  "asBytes (BytesGiven v) = Some v" | "asBytes _ = None"

text \<open>
  The variables of the handle: the lease with the state it last committed, the metadata, and the
  flags of \<open>createLeasedSessionHandle\<close> and of the pending checkpoint; \<open>lo_late\<close> is the MicroVM of a session
  that arrived after its launch was given up, with the id of the launch.
\<close>

record MicrovmLocals =
  lo_leaseHeld :: bool
  lo_leaseGeneration :: int
  lo_leaseState :: "SessionAuthority option"
  lo_metadata :: "SessionMetadata option"
  lo_captured :: bool
  lo_controllerPaused :: bool
  lo_shutDown :: bool
  lo_finalized :: bool
  lo_launched :: "(string \<times> Microvm) option"
  lo_late :: "(string \<times> Microvm) option"

type_synonym 'r action = "(MicrovmCall, MicrovmAnswer, Failure, MicrovmLocals, 'r) act"

definition answerAs :: "(MicrovmAnswer \<Rightarrow> 'r option) \<Rightarrow> MicrovmAnswer \<Rightarrow> Failure + 'r" where
  "answerAs f a = (case a of
     Threw e \<Rightarrow> Inl (ServiceThrew e)
   | _ \<Rightarrow> (case f a of None \<Rightarrow> Inl UnexpectedAnswer | Some x \<Rightarrow> Inr x))"

definition asking :: "MicrovmCall \<Rightarrow> (MicrovmAnswer \<Rightarrow> 'r option) \<Rightarrow> 'r action" where
  "asking c f = seq (ask c) (\<lambda>a. case answerAs f a of Inl e \<Rightarrow> throw e | Inr x \<Rightarrow> ret x)"

lemma wp_asking [simp]:
  "wp P (asking c f s) h Q = (P h c \<and> (\<forall>a. Q (h @ [(c, a)]) (answerAs f a, s)))"
proof -
  have "wp P ((case answerAs f a of Inl e \<Rightarrow> throw e | Inr x \<Rightarrow> ret x) s) h' Q = Q h' (answerAs f a, s)"
    for a h' by (cases "answerAs f a") simp_all
  then show ?thesis by (simp add: asking_def)
qed

definition check :: "bool \<Rightarrow> Failure \<Rightarrow> unit action" where
  "check b e = (if b then ret () else throw e)"

definition orThrow :: "('e \<Rightarrow> Failure) \<Rightarrow> 'e + 'r \<Rightarrow> 'r action" where
  "orThrow f r = (case r of Inl e \<Rightarrow> throw (f e) | Inr x \<Rightarrow> ret x)"

lemma wp_check [simp]: "wp P (check b e s) h Q = (if b then Q h (Inr (), s) else Q h (Inl e, s))"
  by (simp add: check_def)

lemma wp_orThrow [simp]:
  "wp P (orThrow f r s) h Q = Q h (case r of Inl e \<Rightarrow> Inl (f e) | Inr x \<Rightarrow> Inr x, s)"
  by (simp add: orThrow_def split: sum.split)

text \<open>\<open>terminateMicrovmIfPresent\<close>: a MicroVM that is not there any more counts as terminated.\<close>

definition isAbsent :: "ErrorObject option \<Rightarrow> bool" where
  "isAbsent error = (case error of None \<Rightarrow> False | Some e \<Rightarrow>
     err_name e = Some ''ResourceNotFoundException'' \<or> err_httpStatusCode e = Some 404)"

definition terminateMicrovmIfPresent :: "string \<Rightarrow> unit action" where
  "terminateMicrovmIfPresent microvmId = seq (ask (ApiTerminate microvmId)) (\<lambda>a. case a of
     Threw e \<Rightarrow> if isAbsent e then ret () else throw (ServiceThrew e)
   | _ \<Rightarrow> ret ())"

definition leaseUpdate :: "SessionAuthority \<Rightarrow> unit action" where
  "leaseUpdate state = seq (asking (LeaseUpdateState state) asNothing) (\<lambda>_.
     setLocal (\<lambda>s. s\<lparr>lo_leaseState := Some state\<rparr>))"

definition ensureHeldCall :: "unit action" where
  "ensureHeldCall = asking LeaseEnsureHeld asNothing"

definition pauseHeartbeats :: "unit action" where
  "pauseHeartbeats = seq (ask ControllerPause) (\<lambda>_. ret ())"


section \<open>Keys\<close>

text \<open>
  \<open>stabilizeEveScope\<close>: the generated scope segment of a key, sixteen hexadecimal digits and a hyphen
  after the prefix, is replaced by the application hash; any other key is left alone.
\<close>

definition scopePrefix :: "string \<Rightarrow> string" where
  "scopePrefix kind = ''eve-sbx-'' @ kind @ ''-aws-lambda-microvms-''"

definition isScopedSuffix :: "string \<Rightarrow> bool" where
  "isScopedSuffix suffix \<longleftrightarrow> 17 \<le> length suffix \<and> list_all isLowerHex (take 16 suffix) \<and> suffix ! 16 = CHR ''-''"

definition stabilizeEveScope :: "MicrovmOptions \<Rightarrow> string \<Rightarrow> string \<Rightarrow> string" where
  "stabilizeEveScope options key kind =
     (let prefix = scopePrefix kind in
      if \<not> startsWith key prefix then key
      else let suffix = drop (length prefix) key in
        if \<not> isScopedSuffix suffix then key
        else prefix @ take 16 (op_applicationHash options) @ ''-'' @ drop 17 suffix)"

definition stabilizeTemplateKey :: "MicrovmOptions \<Rightarrow> string \<Rightarrow> string" where
  "stabilizeTemplateKey options key = stabilizeEveScope options key ''tpl''"

definition stabilizeSessionKey :: "MicrovmOptions \<Rightarrow> string \<Rightarrow> string" where
  "stabilizeSessionKey options key = stabilizeEveScope options key ''ses''"

definition defaultTemplateKey :: "MicrovmOptions \<Rightarrow> string" where
  "defaultTemplateKey options =
     ''eve-sbx-tpl-aws-lambda-microvms-'' @ take 16 (op_applicationHash options) @ ''-default''"

definition templatePath :: "MicrovmHost \<Rightarrow> MicrovmOptions \<Rightarrow> string \<Rightarrow> string" where
  "templatePath host options key =
     op_artifactPrefix options @ ''/templates/'' @ mh_sha256 host (stabilizeTemplateKey options key)"

definition sessionPath :: "MicrovmHost \<Rightarrow> MicrovmOptions \<Rightarrow> string \<Rightarrow> string" where
  "sessionPath host options key =
     op_artifactPrefix options @ ''/sessions/'' @ mh_sha256 host (stabilizeSessionKey options key)"

definition templateDescriptorKey :: "MicrovmHost \<Rightarrow> MicrovmOptions \<Rightarrow> string \<Rightarrow> string" where
  "templateDescriptorKey host options key = templatePath host options key @ ''/manifest.json''"

definition templateLeaseKey :: "MicrovmHost \<Rightarrow> MicrovmOptions \<Rightarrow> string \<Rightarrow> string" where
  "templateLeaseKey host options key = templatePath host options key @ ''/lease.json''"

definition sessionManifestKey :: "MicrovmHost \<Rightarrow> MicrovmOptions \<Rightarrow> string \<Rightarrow> string" where
  "sessionManifestKey host options key = sessionPath host options key @ ''/manifest.json''"

definition sessionLeaseKey :: "MicrovmHost \<Rightarrow> MicrovmOptions \<Rightarrow> string \<Rightarrow> string" where
  "sessionLeaseKey host options key = sessionPath host options key @ ''/lease.json''"

section \<open>Checkpoints\<close>

record PendingCheckpoint =
  pn_checkpoint :: Checkpoint
  pn_checkpointId :: string

definition expectDefined :: "'r option \<Rightarrow> string \<Rightarrow> 'r action" where
  "expectDefined value name = (case value of None \<Rightarrow> throw (ControllerOmitted name) | Some x \<Rightarrow> ret x)"

lemma wp_expectDefined [simp]:
  "wp P (expectDefined v n s) h Q = Q h (case v of None \<Rightarrow> Inl (ControllerOmitted n) | Some x \<Rightarrow> Inr x, s)"
  by (simp add: expectDefined_def split: option.split)

definition partsInOrder :: "UploadedPart list \<Rightarrow> bool" where
  "partsInOrder parts \<longleftrightarrow> map up_partNumber parts = map int [1..<length parts + 1]"

definition checksummedParts :: "string list \<Rightarrow> UploadedPart list \<Rightarrow> UploadedPart list" where
  "checksummedParts shas parts = map (\<lambda>(i, p). p\<lparr>up_sha256 := if i < length shas then Some (shas ! i) else None\<rparr>)
     (enumerate 0 parts)"

definition uploadCheckpoint :: "int \<Rightarrow> string \<Rightarrow> PendingCheckpoint option action" where
  "uploadCheckpoint generation objectKeyPrefix =
     seq (asking ControllerPrepare asPreparation) (\<lambda>p.
     if \<not> pr_dirty p then ret None
     else
       seq (expectDefined (pr_checkpointId p) ''checkpointId'') (\<lambda>checkpointId.
       seq (expectDefined (pr_partCount p) ''partCount'') (\<lambda>partCount.
       seq (expectDefined (pr_partSha256s p) ''partSha256s'') (\<lambda>shas.
       seq (expectDefined (pr_sha256 p) ''sha256'') (\<lambda>sha256.
       seq (expectDefined (pr_size p) ''size'') (\<lambda>size.
       let key = objectKeyPrefix @ ''/'' @ intText generation @ ''-'' @ sha256 @ ''.tar.zst'' in
       seq (asking (StorageCreateUpload key) asText) (\<lambda>uploadId.
       seq (catch
         (seq (asking (StoragePresignParts key uploadId shas) asTexts) (\<lambda>urls.
          seq (asking (ControllerUpload checkpointId urls) asParts) (\<lambda>parts.
          seq (check (int (length parts) = partCount) PartCountDiffers) (\<lambda>_.
          seq (check (partsInOrder parts) PartOutOfOrder) (\<lambda>_.
          seq (asking (StorageCompleteUpload key uploadId (checksummedParts shas parts) sha256) asEtag) (\<lambda>result.
          seq (asking (StorageInfo key) asInfo) (\<lambda>stored.
          case stored of
            None \<Rightarrow> throw ObjectVerificationFailed
          | Some info \<Rightarrow>
              if oi_size info \<noteq> size then throw ObjectVerificationFailed
              else ret (case result of Some e \<Rightarrow> Some e | None \<Rightarrow> oi_etag info))))))))
         (\<lambda>e. seq (attempt (asking (StorageAbortUpload key uploadId) asNothing)) (\<lambda>_.
               seq (attempt (asking ControllerRelease asNothing)) (\<lambda>_. throw e)))) (\<lambda>etag.
       seq (setLocal (\<lambda>s. s\<lparr>lo_finalized := False\<rparr>)) (\<lambda>_.
       ret (Some \<lparr>pn_checkpoint = \<lparr>cp_etag = etag, cp_generation = generation, cp_key = key,
                    cp_sha256 = sha256, cp_size = size\<rparr>, pn_checkpointId = checkpointId\<rparr>))))))))))"

definition commitPending :: "PendingCheckpoint option \<Rightarrow> unit action" where
  "commitPending pending = (case pending of
     None \<Rightarrow> ret ()
   | Some p \<Rightarrow> seq getLocal (\<lambda>s.
       if lo_finalized s then ret ()
       else seq (asking (ControllerCommitted (pn_checkpointId p)) asNothing) (\<lambda>_.
            setLocal (\<lambda>s. s\<lparr>lo_finalized := True\<rparr>))))"

definition releasePending :: "PendingCheckpoint option \<Rightarrow> unit action" where
  "releasePending pending = (case pending of
     None \<Rightarrow> ret ()
   | Some p \<Rightarrow> seq getLocal (\<lambda>s.
       if lo_finalized s then ret ()
       else seq (asking ControllerRelease asNothing) (\<lambda>_.
            setLocal (\<lambda>s. s\<lparr>lo_finalized := True\<rparr>))))"

definition restoreCheckpoint :: "Checkpoint \<Rightarrow> unit action" where
  "restoreCheckpoint checkpoint =
     seq (asking (StorageInfo (cp_key checkpoint)) asInfo) (\<lambda>stored.
     if (case stored of None \<Rightarrow> True | Some info \<Rightarrow>
           oi_size info \<noteq> cp_size checkpoint \<or>
           cp_etag checkpoint \<noteq> None \<and> oi_etag info \<noteq> cp_etag checkpoint)
     then throw CheckpointDiffers
     else
       seq (asking (StoragePresignGet (cp_key checkpoint)) asText) (\<lambda>url.
       asking (ControllerRestore (cp_sha256 checkpoint) (cp_size checkpoint) url) asNothing))"

section \<open>Launching a MicroVM\<close>

text \<open>The configuration of a request: everything but its token and payload.\<close>

definition requestConfig :: "RunRequest \<Rightarrow> RunRequest" where
  "requestConfig r = r\<lparr>rr_clientToken := [], rr_runHookPayload := []\<rparr>"

definition resolveLogging :: "MicrovmOptions \<Rightarrow> Logging" where
  "resolveLogging options = (case op_runtimeLogging options of
     None \<Rightarrow> LoggingDisabled | Some (logGroup, logStream) \<Rightarrow> CloudWatch logGroup logStream)"

definition CONTROLLER_PROTOCOL_VERSION :: int where
  "CONTROLLER_PROTOCOL_VERSION = 2"

record RunInput =
  ri_withLease :: bool
  ri_egressNetworkConnectorArns :: "string list"
  ri_egressProxyCaSha256 :: "string option"
  ri_imageArn :: string
  ri_imageVersion :: string
  ri_purposeKey :: string
  ri_replacementOf :: "Replacement option"
  ri_isSession :: bool

definition ingressConnectors :: "MicrovmOptions \<Rightarrow> string list" where
  "ingressConnectors options = op_httpIngressNetworkConnectorArn options #
     (case op_shellIngressNetworkConnectorArn options of None \<Rightarrow> [] | Some a \<Rightarrow> [a])"

definition runHookPayload :: "MicrovmHost \<Rightarrow> RunInput \<Rightarrow> Envelope option \<Rightarrow> MetadataError + string" where
  "runHookPayload host input activation = (case activation of
     None \<Rightarrow> Inr (jsonText (mh_numberText host) (JObject
       [(''controllerProtocolVersion'', JNumber (of_int CONTROLLER_PROTOCOL_VERSION)),
        (''eveSession'', JString (mh_sha256 host (ri_purposeKey input)))]))
   | Some e \<Rightarrow> serializeActivationEnvelope (mh_numberText host) (envelopeMembers e))"

definition proposedRequest :: "MicrovmOptions \<Rightarrow> RunInput \<Rightarrow> string \<Rightarrow> string \<Rightarrow> RunRequest" where
  "proposedRequest options input token payload =
     \<lparr>rr_clientToken = token,
      rr_egressNetworkConnectorArns = ri_egressNetworkConnectorArns input,
      rr_executionRoleArn = op_executionRoleArn options,
      rr_idlePolicy = op_idlePolicy options,
      rr_imageArn = ri_imageArn input, rr_imageVersion = ri_imageVersion input,
      rr_ingressNetworkConnectorArns = ingressConnectors options,
      rr_logging = resolveLogging options,
      rr_maximumDurationSeconds = op_maximumDurationSeconds options,
      rr_runHookPayload = payload\<rparr>"

text \<open>The pending launch that the lease records, when there is a lease.\<close>

definition savedLaunch :: "RunInput \<Rightarrow> MicrovmLocals \<Rightarrow> PendingLaunch option" where
  "savedLaunch input s =
     (if ri_withLease input then Option.bind (lo_leaseState s) sa_launch else None)"

definition updateLaunch :: "(PendingLaunch \<Rightarrow> PendingLaunch) \<Rightarrow> unit action" where
  "updateLaunch f = seq getLocal (\<lambda>s. case lo_leaseState s of
     None \<Rightarrow> throw UnexpectedAnswer
   | Some state \<Rightarrow> leaseUpdate (state\<lparr>sa_launch := map_option f (sa_launch state)\<rparr>))"

definition whenLeased :: "RunInput \<Rightarrow> unit action \<Rightarrow> unit action" where
  "whenLeased input m = (if ri_withLease input then m else ret ())"

text \<open>The activation of the launch: the saved one, or with customer-managed networking a fresh one.\<close>

definition activationFor ::
  "MicrovmHost \<Rightarrow> MicrovmOptions \<Rightarrow> RunInput \<Rightarrow> PendingLaunch option \<Rightarrow> Envelope option action" where
  "activationFor host options input saved = (case Option.bind saved la_activation of
     Some e \<Rightarrow> ret (Some e)
   | None \<Rightarrow>
       if op_customerManaged options
       then seq (asking (ProviderCreate
              (if ri_isSession input then op_runtimeNetworkLaneId options else op_buildNetworkLaneId options)
              (mh_sha256 host (ri_purposeKey input)) (ri_replacementOf input)) asEnvelope)
            (\<lambda>e. ret (Some e))
       else ret None)"

text \<open>The request is recorded in the lease and sent; what comes back must be the image and the connector
  that were asked for. When the launch is given up or its lease is lost meanwhile, the call fails.\<close>

definition matchesRequest :: "RunInput \<Rightarrow> Microvm \<Rightarrow> bool" where
  "matchesRequest input microvm \<longleftrightarrow>
     length (mv_egressNetworkConnectorArns microvm) = 1 \<and>
     mv_egressNetworkConnectorArns microvm = take 1 (ri_egressNetworkConnectorArns input) \<and>
     mv_imageArn microvm = ri_imageArn input \<and> mv_imageVersion microvm = ri_imageVersion input"

text \<open>The handler of a MicroVM that arrives late: without a lease it is terminated; with one, it is left to
  the background computation \<open>onLate\<close>, which is \<open>lateMicrovm\<close> below.\<close>

definition lateResult :: "RunInput \<Rightarrow> Microvm \<Rightarrow> unit action" where
  "lateResult input late =
     (if ri_withLease input
      then setLocal (\<lambda>s. s\<lparr>lo_late := map_option (\<lambda>l. (la_id l, late)) (savedLaunch input s)\<rparr>)
      else attempt (terminateMicrovmIfPresent (mv_microvmId late)))"

definition boundedRun :: "RunInput \<Rightarrow> RunRequest \<Rightarrow> Microvm action" where
  "boundedRun input request = seq (ask (ApiRun request)) (\<lambda>a. case a of
     MicrovmLate late \<Rightarrow> seq (lateResult input late) (\<lambda>_. throw DeadlineExceeded)
   | _ \<Rightarrow> (case answerAs asMicrovm a of Inl e \<Rightarrow> throw e | Inr microvm \<Rightarrow> ret microvm))"

definition sendRequest ::
  "MicrovmOptions \<Rightarrow> RunInput \<Rightarrow> Envelope option \<Rightarrow> RunRequest \<Rightarrow> LaunchedMicrovm action" where
  "sendRequest options input activation request =
     seq (whenLeased input (updateLaunch (\<lambda>l. l\<lparr>la_request := Some request, la_activation := activation\<rparr>))) (\<lambda>_.
     seq (boundedRun input request) (\<lambda>microvm.
     seq (whenLeased input (catch ensureHeldCall (\<lambda>e. seq (lateResult input microvm) (\<lambda>_. throw e)))) (\<lambda>_.
     if op_customerManaged options
     then
       (if matchesRequest input microvm
        then ret \<lparr>lm_microvm = microvm, lm_activation = activation,
                  lm_egressProxyCaSha256 = ri_egressProxyCaSha256 input\<rparr>
        else
          seq (whenLeased input (updateLaunch (\<lambda>l. l\<lparr>la_microvmId := Some (mv_microvmId microvm)\<rparr>))) (\<lambda>_.
          seq (attempt (terminateMicrovmIfPresent (mv_microvmId microvm))) (\<lambda>_.
          throw ActivationMismatch)))
     else ret \<lparr>lm_microvm = microvm, lm_activation = None, lm_egressProxyCaSha256 = None\<rparr>)))"

definition runMicrovmWithAuthority ::
  "MicrovmHost \<Rightarrow> MicrovmOptions \<Rightarrow> RunInput \<Rightarrow> LaunchedMicrovm action" where
  "runMicrovmWithAuthority host options input =
     seq (check (\<not> op_customerManaged options \<or> op_activationProvider options) ActivationProviderMissing) (\<lambda>_.
     seq (whenLeased input ensureHeldCall) (\<lambda>_.
     seq getLocal (\<lambda>s.
     let saved = savedLaunch input s in
     seq (activationFor host options input saved) (\<lambda>activation.
     seq (whenLeased input ensureHeldCall) (\<lambda>_.
     seq (orThrow InvalidStored (runHookPayload host input activation)) (\<lambda>payload.
     seq (case saved of Some l \<Rightarrow> ret (la_id l) | None \<Rightarrow> asking RandomUuid asText) (\<lambda>token.
     let proposed = proposedRequest options input token payload;
         request = (case Option.bind saved la_request of None \<Rightarrow> proposed | Some r \<Rightarrow> r) in
     seq (check (requestConfig request = requestConfig proposed) LaunchConfigurationChanged) (\<lambda>_.
     sendRequest options input activation request))))))))"

section \<open>Retiring a late launch\<close>

text \<open>
  \<open>retireLateLaunch\<close>: the cleanup lease is taken without waiting, the launch must still be the
  pending one, and the identity of the MicroVM is published before it is terminated. The error
  handler swallows everything, and the lease is released in any case.
\<close>

definition acquireLease :: "string \<Rightarrow> unit action" where
  "acquireLease key = seq (asking (LeaseAcquire key) asLease) (\<lambda>(generation, state).
     setLocal (\<lambda>s. s\<lparr>lo_leaseHeld := True, lo_leaseGeneration := generation, lo_leaseState := state\<rparr>))"

definition retireLateLaunch ::
  "MicrovmHost \<Rightarrow> MicrovmOptions \<Rightarrow> string \<Rightarrow> string \<Rightarrow> string \<Rightarrow> unit action" where
  "retireLateLaunch host options sessionKey launchId microvmId =
     seq (attempt
       (seq (acquireLease (sessionLeaseKey host options sessionKey)) (\<lambda>_.
        seq getLocal (\<lambda>s.
        case lo_leaseState s of
          None \<Rightarrow> throw LaunchSuperseded
        | Some state \<Rightarrow>
            if map_option la_id (sa_launch state) \<noteq> Some launchId then throw LaunchSuperseded
            else
              seq (leaseUpdate (state\<lparr>sa_launch :=
                     map_option (\<lambda>l. l\<lparr>la_microvmId := Some microvmId\<rparr>) (sa_launch state)\<rparr>)) (\<lambda>_.
              seq (terminateMicrovmIfPresent microvmId) (\<lambda>_.
              leaseUpdate \<lparr>sa_metadata = sa_metadata state, sa_launch = None\<rparr>)))))) (\<lambda>_.
     seq getLocal (\<lambda>s. if lo_leaseHeld s then attempt (asking LeaseRelease asNothing) else ret ()))"

text \<open>What happens when a MicroVM arrives after its launch was given up: the lease is released first.\<close>

definition lateMicrovm ::
  "MicrovmHost \<Rightarrow> MicrovmOptions \<Rightarrow> string \<Rightarrow> string \<Rightarrow> string \<Rightarrow> unit action" where
  "lateMicrovm host options sessionKey launchId microvmId =
     seq (attempt (asking LeaseRelease asNothing)) (\<lambda>_.
     seq (setLocal (\<lambda>s. s\<lparr>lo_leaseHeld := False\<rparr>)) (\<lambda>_.
     retireLateLaunch host options sessionKey launchId microvmId))"

section \<open>Opening a session\<close>

text \<open>The parts of the source a MicroVM is launched from: the template, or the session's own image when
  its configuration is still the one of the template.\<close>

definition sourceOf :: "TemplateDescriptor \<Rightarrow> SessionMetadata option \<Rightarrow> TemplateDescriptor" where
  "sourceOf template persisted = (case persisted of
     None \<Rightarrow> template
   | Some m \<Rightarrow>
       if td_configHash (sm_template m) = td_configHash template then sm_template m
       else template\<lparr>td_checkpoint := td_checkpoint (sm_template m)\<rparr>)"

text \<open>\<open>assertFreshReplacement\<close>.\<close>

definition freshReplacement :: "MicrovmOptions \<Rightarrow> LaunchedMicrovm \<Rightarrow> SessionMetadata option \<Rightarrow> bool" where
  "freshReplacement options launched persisted = (case persisted of
     None \<Rightarrow> True
   | Some m \<Rightarrow>
       if \<not> op_customerManaged options then True
       else (case lm_activation launched of
         None \<Rightarrow> False
       | Some e \<Rightarrow>
           length (mv_egressNetworkConnectorArns (lm_microvm launched)) = 1 \<and>
           mv_egressNetworkConnectorArns (lm_microvm launched) = take 1 (op_runtimeEgressNetworkConnectorArns options) \<and>
           Some (ev_activationId e) \<noteq> sm_activationId m \<and>
           (case sm_placeholderGeneration m of None \<Rightarrow> False | Some g \<Rightarrow> g < ev_generation e) \<and>
           (case sm_trustedBindingGeneration m of None \<Rightarrow> False | Some g \<Rightarrow> g < ev_trustedBindingGeneration e) \<and>
           Some (ev_environmentVariable e) = sm_placeholderPlacement m \<and>
           Some (ev_controllerCaSha256 e) = sm_controllerCaSha256 m \<and>
           lm_egressProxyCaSha256 launched = op_egressProxyCaSha256 options))"

text \<open>The metadata a session goes on from: the one in the lease; without a lease state, the stored
  manifest with its ETag, or else the metadata the caller kept.\<close>

definition persistedMetadata ::
  "SessionAuthority option \<Rightarrow> StoredJson option \<Rightarrow> JsonValue option \<Rightarrow> MetadataError + SessionMetadata option" where
  "persistedMetadata authority stored existing = (case authority of
     Some a \<Rightarrow> parseSessionMetadata (sa_metadata a)
   | None \<Rightarrow>
       (case stored of
          None \<Rightarrow> parseSessionMetadata existing
        | Some o1 \<Rightarrow>
            andParse (expectRecord (so_value o1) ''session manifest'') (\<lambda>ms.
              parseSessionMetadata (Some (JObject
                (AList.update ''manifestEtag'' (JString (so_etag o1)) ms))))))"

definition sessionReplacement :: "SessionMetadata option \<Rightarrow> Replacement option" where
  "sessionReplacement persisted = (case persisted of
     None \<Rightarrow> None
   | Some m \<Rightarrow> map_option (\<lambda>a. \<lparr>rp_activationId = a,
       rp_placeholderGeneration = sm_placeholderGeneration m,
       rp_trustedBindingGeneration = sm_trustedBindingGeneration m\<rparr>) (sm_activationId m))"

record OpenedSession =
  os_source :: TemplateDescriptor
  os_launched :: LaunchedMicrovm
  os_storedSession :: "StoredJson option"

text \<open>Everything between the start of the MicroVM and its handle: its identity is recorded before it is used,
  and an error terminates it and clears the launch.\<close>

definition prepareLaunched :: "string \<Rightarrow> bool \<Rightarrow> Checkpoint option \<Rightarrow> JsonValue option \<Rightarrow> unit action" where
  "prepareLaunched microvmId fresh checkpoint md =
     catch
       (seq (updateLaunch (\<lambda>l. l\<lparr>la_microvmId := Some microvmId\<rparr>)) (\<lambda>_.
        seq (check fresh StaleReplacement) (\<lambda>_.
        seq (asking (ControllerWait microvmId) asNothing) (\<lambda>_.
        seq ensureHeldCall (\<lambda>_.
        seq (case checkpoint of Some c \<Rightarrow> restoreCheckpoint c | None \<Rightarrow> ret ()) (\<lambda>_.
        ensureHeldCall))))))
       (\<lambda>e. seq (attempt
          (seq ensureHeldCall (\<lambda>_.
           seq (terminateMicrovmIfPresent microvmId) (\<lambda>_.
           leaseUpdate \<lparr>sa_metadata = md, sa_launch = None\<rparr>)))) (\<lambda>_. throw e))"

text \<open>\<open>createLeasedSessionHandle\<close> up to the handle it returns, with the session lease held.\<close>

definition createLeasedSession ::
  "MicrovmHost \<Rightarrow> MicrovmOptions \<Rightarrow> string \<Rightarrow> string \<Rightarrow> JsonValue option \<Rightarrow> OpenedSession action" where
  "createLeasedSession host options templateKey sessionKey existingMetadata =
     seq (asking (StorageGetJson (templateDescriptorKey host options templateKey)) asJson) (\<lambda>storedTemplate.
     case storedTemplate of
       None \<Rightarrow> throw TemplateNotProvisioned
     | Some t \<Rightarrow>
     seq (orThrow InvalidStored (parseTemplateDescriptor (so_value t))) (\<lambda>template.
     seq (check (td_region template = op_region options) TemplateRegionDiffers) (\<lambda>_.
     seq (check (td_controllerProtocolVersion template = CONTROLLER_PROTOCOL_VERSION) ControllerIncompatible) (\<lambda>_.
     seq (check (td_egressProxyCaSha256 template = op_egressProxyCaSha256 options) TemplateCaDiffers) (\<lambda>_.
     let manifestKey = sessionManifestKey host options sessionKey in
     seq (asking (StorageGetJson manifestKey) asJson) (\<lambda>storedSession.
     seq getLocal (\<lambda>s0.
     seq (orThrow InvalidStored (persistedMetadata (lo_leaseState s0) storedSession existingMetadata)) (\<lambda>persisted.
     seq (check (case persisted of None \<Rightarrow> True | Some m \<Rightarrow>
            td_controllerProtocolVersion (sm_template m) = CONTROLLER_PROTOCOL_VERSION) ControllerIncompatible) (\<lambda>_.
     seq ensureHeldCall (\<lambda>_.
     let authority0 = (case lo_leaseState s0 of
           Some a \<Rightarrow> a
         | None \<Rightarrow> \<lparr>sa_metadata = map_option (\<lambda>m. JObject (sessionMembers m)) persisted, sa_launch = None\<rparr>) in
     seq (case Option.bind (sa_launch authority0) la_microvmId of
            Some previous \<Rightarrow> seq (terminateMicrovmIfPresent previous) (\<lambda>_.
              ret (authority0\<lparr>sa_launch := None\<rparr>))
          | None \<Rightarrow> ret authority0) (\<lambda>authority1.
     let launch = (case sa_launch authority1 of
           Some l \<Rightarrow> l
         | None \<Rightarrow> \<lparr>la_id = mh_sha256 host (manifestKey @ '':'' @ intText (lo_leaseGeneration s0)),
                    la_request = None, la_activation = None, la_microvmId = None\<rparr>);
         authority = authority1\<lparr>sa_launch := Some launch\<rparr>;
         source = sourceOf template persisted in
     seq (leaseUpdate authority) (\<lambda>_.
     seq (runMicrovmWithAuthority host options
       \<lparr>ri_withLease = True,
        ri_egressNetworkConnectorArns = op_runtimeEgressNetworkConnectorArns options,
        ri_egressProxyCaSha256 = td_egressProxyCaSha256 source,
        ri_imageArn = td_imageArn source, ri_imageVersion = td_imageVersion source,
        ri_purposeKey = stabilizeSessionKey options sessionKey,
        ri_replacementOf = sessionReplacement persisted, ri_isSession = True\<rparr>) (\<lambda>launched.
     let microvmId = mv_microvmId (lm_microvm launched) in
     seq (setLocal (\<lambda>s. s\<lparr>lo_launched := Some (la_id launch, lm_microvm launched)\<rparr>)) (\<lambda>_.
     seq (prepareLaunched microvmId (freshReplacement options launched persisted)
       (if (case persisted of None \<Rightarrow> True | Some m \<Rightarrow> sm_microvmId m \<noteq> microvmId) then td_checkpoint source else None)
       (sa_metadata authority)) (\<lambda>_.
     seq (setLocal (\<lambda>s. s\<lparr>lo_metadata := persisted, lo_captured := False, lo_controllerPaused := False,
            lo_shutDown := False, lo_finalized := True\<rparr>)) (\<lambda>_.
     ret \<lparr>os_source = source, os_launched = launched, os_storedSession = storedSession\<rparr>))))))))))))))))"


section \<open>Prewarming a template\<close>

record PrewarmInput =
  pi_templateKey :: string
  pi_bootstrap :: bool
  pi_seedFiles :: "string list"

definition templateReusable :: "MicrovmHost \<Rightarrow> MicrovmOptions \<Rightarrow> string \<Rightarrow> ImageIdentity \<Rightarrow> TemplateDescriptor \<Rightarrow> bool" where
  "templateReusable host options templateKey img d \<longleftrightarrow>
     td_configHash d = im_configHash img \<and>
     td_controllerProtocolVersion d = CONTROLLER_PROTOCOL_VERSION \<and>
     td_imageArn d = im_imageArn img \<and> td_imageVersion d = im_imageVersion img \<and>
     td_region d = op_region options \<and>
     td_templateHash d = mh_sha256 host (stabilizeTemplateKey options templateKey)"

text \<open>The template MicroVM, from its start to its uploaded checkpoint. The identity of the temporary
  MicroVM and the pending checkpoint outlive an error.\<close>

definition captureTemplate ::
  "MicrovmHost \<Rightarrow> MicrovmOptions \<Rightarrow> PrewarmInput \<Rightarrow> ImageIdentity \<Rightarrow> PendingCheckpoint option action" where
  "captureTemplate host options input img =
     (let stable = stabilizeTemplateKey options (pi_templateKey input) in
     seq (runMicrovmWithAuthority host options
       \<lparr>ri_withLease = False,
        ri_egressNetworkConnectorArns = op_buildEgressNetworkConnectorArns options,
        ri_egressProxyCaSha256 = op_egressProxyCaSha256 options,
        ri_imageArn = im_imageArn img, ri_imageVersion = im_imageVersion img,
        ri_purposeKey = stable, ri_replacementOf = None, ri_isSession = False\<rparr>) (\<lambda>launched.
     seq (setLocal (\<lambda>s. s\<lparr>lo_launched := Some ([], lm_microvm launched)\<rparr>)) (\<lambda>_.
     seq (asking (ControllerWait (mv_microvmId (lm_microvm launched))) asNothing) (\<lambda>_.
     seq (if pi_bootstrap input then asking RunBootstrap asNothing else ret ()) (\<lambda>_.
     seq (forEach (\<lambda>path. asking (WriteSeedFile path) asNothing) (pi_seedFiles input)) (\<lambda>_.
     seq (uploadCheckpoint 1 (op_artifactPrefix options @ ''/templates/'' @ mh_sha256 host stable @ ''/checkpoints'')) (\<lambda>pending.
     if pending = None then throw TemplateUnchanged else ret pending)))))))"

definition publishTemplate ::
  "MicrovmHost \<Rightarrow> MicrovmOptions \<Rightarrow> PrewarmInput \<Rightarrow> StoredJson option \<Rightarrow> ImageIdentity \<Rightarrow> PendingCheckpoint option \<Rightarrow> unit action" where
  "publishTemplate host options input existing img pending =
     asking (StoragePutJson (templateDescriptorKey host options (pi_templateKey input))
       (JObject (templateMembers
         \<lparr>td_checkpoint = map_option pn_checkpoint pending, td_configHash = im_configHash img,
          td_controllerProtocolVersion = CONTROLLER_PROTOCOL_VERSION,
          td_egressProxyCaSha256 = op_egressProxyCaSha256 options,
          td_imageArn = im_imageArn img, td_imageVersion = im_imageVersion img,
          td_region = op_region options,
          td_templateHash = mh_sha256 host (stabilizeTemplateKey options (pi_templateKey input))\<rparr>))
       \<lparr>pcn_etag = map_option so_etag existing, pcn_absent = (existing = None)\<rparr>) (\<lambda>a. map_option (\<lambda>_. ()) (asEtag a))"

definition publishOrRelease ::
  "MicrovmHost \<Rightarrow> MicrovmOptions \<Rightarrow> PrewarmInput \<Rightarrow> StoredJson option \<Rightarrow> ImageIdentity \<Rightarrow> PendingCheckpoint option \<Rightarrow> bool action" where
  "publishOrRelease host options input existing img pending =
     catch
       (seq (publishTemplate host options input existing img pending) (\<lambda>_.
        seq (commitPending pending) (\<lambda>_. ret False)))
       (\<lambda>e. seq (attempt (releasePending pending)) (\<lambda>_. throw e))"

definition retireTemporary :: "unit action" where
  "retireTemporary = seq getLocal (\<lambda>s. case lo_launched s of
     None \<Rightarrow> ret ()
   | Some (_, m) \<Rightarrow> attempt (terminateMicrovmIfPresent (mv_microvmId m)))"

definition provisionTemplate ::
  "MicrovmHost \<Rightarrow> MicrovmOptions \<Rightarrow> PrewarmInput \<Rightarrow> StoredJson option \<Rightarrow> ImageIdentity \<Rightarrow> bool action" where
  "provisionTemplate host options input existing img =
     seq (setLocal (\<lambda>s. s\<lparr>lo_launched := None, lo_finalized := True\<rparr>)) (\<lambda>_.
     finally_do
       (catch
         (seq (if pi_bootstrap input \<or> pi_seedFiles input \<noteq> []
               then captureTemplate host options input img else ret None)
            (publishOrRelease host options input existing img))
         (\<lambda>e. throw (PrewarmFailed e)))
       retireTemporary)"

text \<open>\<open>prewarmTemplateWithLease\<close>; the result tells whether the stored template was reused.\<close>

definition prewarmTemplateWithLease ::
  "MicrovmHost \<Rightarrow> MicrovmOptions \<Rightarrow> PrewarmInput \<Rightarrow> bool action" where
  "prewarmTemplateWithLease host options input =
     seq (asking (StorageGetJson (templateDescriptorKey host options (pi_templateKey input))) asJson) (\<lambda>existing.
     seq (asking EnsureImage asImage) (\<lambda>img.
     seq (case existing of
            None \<Rightarrow> ret None
          | Some o1 \<Rightarrow> orThrow InvalidStored (case parseTemplateDescriptor (so_value o1) of
              Inl e \<Rightarrow> Inl e | Inr d \<Rightarrow> Inr (Some d))) (\<lambda>descriptor.
     if (case descriptor of None \<Rightarrow> False
         | Some d \<Rightarrow> templateReusable host options (pi_templateKey input) img d)
     then ret True
     else provisionTemplate host options input existing img)))"

definition prewarmTemplate :: "MicrovmHost \<Rightarrow> MicrovmOptions \<Rightarrow> PrewarmInput \<Rightarrow> bool action" where
  "prewarmTemplate host options input =
     seq (asking StorageAssertRegion asNothing) (\<lambda>_.
     seq (asking (LeaseAcquire (templateLeaseKey host options (pi_templateKey input))) asLease) (\<lambda>_.
     finally_do (prewarmTemplateWithLease host options input) (asking LeaseRelease asNothing)))"

text \<open>
  \<open>createSessionHandle\<close>: a missing template key names the default template, which is prewarmed;
  the launch runs under a fresh session lease. When it fails, the lease is released in the
  background and a launched MicroVM is then retired as a late one, as is one that arrives late. A
  lease that arrives late is released.
\<close>

definition acquireInitialLease :: "string \<Rightarrow> unit action" where
  "acquireInitialLease key = seq (ask (LeaseAcquire key)) (\<lambda>a. case a of
     LeaseLate \<Rightarrow> seq (attempt (asking LeaseRelease asNothing)) (\<lambda>_. throw DeadlineExceeded)
   | _ \<Rightarrow> (case answerAs asLease a of
       Inl e \<Rightarrow> throw e
     | Inr (generation, state) \<Rightarrow>
         setLocal (\<lambda>s. s\<lparr>lo_leaseHeld := True, lo_leaseGeneration := generation, lo_leaseState := state\<rparr>)))"

definition createSession ::
  "MicrovmHost \<Rightarrow> MicrovmOptions \<Rightarrow> string option \<Rightarrow> string \<Rightarrow> JsonValue option \<Rightarrow> OpenedSession action" where
  "createSession host options templateKey sessionKey existingMetadata =
     seq (asking CallerCheckAborted asNothing) (\<lambda>_.
     seq (asking StorageAssertRegion asNothing) (\<lambda>_.
     seq (case templateKey of
            Some k \<Rightarrow> ret k
          | None \<Rightarrow> let k = defaultTemplateKey options in
              seq (prewarmTemplate host options \<lparr>pi_templateKey = k, pi_bootstrap = False, pi_seedFiles = []\<rparr>)
                (\<lambda>_. ret k)) (\<lambda>key.
     seq (setLocal (\<lambda>s. s\<lparr>lo_leaseHeld := False, lo_launched := None, lo_late := None\<rparr>)) (\<lambda>_.
     catch
       (seq (acquireInitialLease (sessionLeaseKey host options sessionKey)) (\<lambda>_.
        seq (createLeasedSession host options key sessionKey existingMetadata) (\<lambda>opened.
        seq (asking LeasePromote asNothing) (\<lambda>_. ret opened))))
       (\<lambda>e. seq getLocal (\<lambda>s.
          seq (if lo_leaseHeld s then attempt (asking LeaseRelease asNothing) else ret ()) (\<lambda>_.
          seq (setLocal (\<lambda>s. s\<lparr>lo_leaseHeld := False\<rparr>)) (\<lambda>_.
          seq (case lo_launched s of
                 Some (launchId, m) \<Rightarrow>
                   if lo_leaseHeld s
                   then retireLateLaunch host options sessionKey launchId (mv_microvmId m) else ret ()
               | None \<Rightarrow> ret ()) (\<lambda>_.
          seq (case lo_late s of
                 Some (launchId, m) \<Rightarrow> lateMicrovm host options sessionKey launchId (mv_microvmId m)
               | None \<Rightarrow> ret ()) (\<lambda>_. throw e))))))))))"

section \<open>The handle\<close>

text \<open>The operations of the handle of an open session.\<close>

definition ensureLease :: "MicrovmHost \<Rightarrow> MicrovmOptions \<Rightarrow> string \<Rightarrow> unit action" where
  "ensureLease host options sessionKey =
     seq getLocal (\<lambda>s.
     seq (if lo_leaseHeld s then ret () else acquireLease (sessionLeaseKey host options sessionKey)) (\<lambda>_.
     ensureHeldCall))"

definition ensureActive :: "MicrovmHost \<Rightarrow> MicrovmOptions \<Rightarrow> string \<Rightarrow> unit action" where
  "ensureActive host options sessionKey =
     seq (ensureLease host options sessionKey) (\<lambda>_.
     seq getLocal (\<lambda>s. check (\<not> lo_controllerPaused s) AuthorityEnded))"

text \<open>What \<open>createAwsLambdaMicrovmSession\<close> awaits before an operation that may change the guest.\<close>

definition beforeMutation :: "MicrovmHost \<Rightarrow> MicrovmOptions \<Rightarrow> string \<Rightarrow> unit action" where
  "beforeMutation host options sessionKey =
     seq (ensureActive host options sessionKey) (\<lambda>_. setLocal (\<lambda>s. s\<lparr>lo_captured := False\<rparr>))"

definition capturedMetadata ::
  "MicrovmOptions \<Rightarrow> OpenedSession \<Rightarrow> Checkpoint option \<Rightarrow> string \<Rightarrow> SessionMetadata" where
  "capturedMetadata options opened checkpoint manifestEtag =
     (let e = lm_activation (os_launched opened) in
      \<lparr>sm_template = (os_source opened)\<lparr>td_checkpoint := checkpoint,
         td_controllerProtocolVersion := CONTROLLER_PROTOCOL_VERSION\<rparr>,
       sm_activationId = map_option ev_activationId e,
       sm_controllerCaSha256 = map_option ev_controllerCaSha256 e,
       sm_egressNetworkConnectorArn =
         (if op_customerManaged options
          then (case op_runtimeEgressNetworkConnectorArns options of [] \<Rightarrow> None | a # _ \<Rightarrow> Some a) else None),
       sm_manifestEtag = manifestEtag,
       sm_microvmId = mv_microvmId (lm_microvm (os_launched opened)),
       sm_networkLaneId = (if op_customerManaged options then Some (op_runtimeNetworkLaneId options) else None),
       sm_placeholderGeneration = map_option ev_generation e,
       sm_placeholderPlacement = map_option ev_environmentVariable e,
       sm_trustedBindingGeneration = map_option ev_trustedBindingGeneration e\<rparr>)"

definition revokeBinding :: "Envelope \<Rightarrow> unit action" where
  "revokeBinding e = asking (ProviderRevoke (ev_activationId e) (ev_generation e) (ev_trustedBindingGeneration e)) asNothing"

text \<open>What follows the upload: the metadata is recorded, and only then the checkpoint is committed, the
  binding revoked, the old MicroVM terminated and the lease released.\<close>

definition adoptCapture ::
  "MicrovmOptions \<Rightarrow> OpenedSession \<Rightarrow> Checkpoint option \<Rightarrow> PendingCheckpoint option \<Rightarrow> SessionMetadata action" where
  "adoptCapture options opened checkpoint pending =
     (let microvmId = mv_microvmId (lm_microvm (os_launched opened)) in
     seq (asking RandomUuid asText) (\<lambda>manifestEtag.
     let metadata = capturedMetadata options opened checkpoint manifestEtag in
     seq (leaseUpdate \<lparr>sa_metadata = Some (JObject (sessionMembers metadata)), sa_launch = None\<rparr>) (\<lambda>_.
     seq (setLocal (\<lambda>s. s\<lparr>lo_metadata := Some metadata\<rparr>)) (\<lambda>_.
     seq (commitPending pending) (\<lambda>_.
     seq pauseHeartbeats (\<lambda>_.
     seq (setLocal (\<lambda>s. s\<lparr>lo_controllerPaused := True\<rparr>)) (\<lambda>_.
     seq (case lm_activation (os_launched opened) of
            None \<Rightarrow> ret ()
          | Some e \<Rightarrow> catch (revokeBinding e) (\<lambda>_.
              seq (attempt (terminateMicrovmIfPresent microvmId)) (\<lambda>_. throw BindingRevocationFailed))) (\<lambda>_.
     seq (catch (terminateMicrovmIfPresent microvmId) (\<lambda>_. throw RetirementFailed)) (\<lambda>_.
     seq (setLocal (\<lambda>s. s\<lparr>lo_captured := True\<rparr>)) (\<lambda>_.
     seq (asking LeaseRelease asNothing) (\<lambda>_.
     seq (setLocal (\<lambda>s. s\<lparr>lo_leaseHeld := False\<rparr>)) (\<lambda>_.
     ret metadata))))))))))))"

definition capture ::
  "MicrovmHost \<Rightarrow> MicrovmOptions \<Rightarrow> string \<Rightarrow> OpenedSession \<Rightarrow> SessionMetadata action" where
  "capture host options sessionKey opened =
     (let microvmId = mv_microvmId (lm_microvm (os_launched opened)) in
     seq getLocal (\<lambda>s0.
     seq (check (\<not> lo_shutDown s0) HandleShutDown) (\<lambda>_.
     seq (ensureActive host options sessionKey) (\<lambda>_.
     seq (ensureLease host options sessionKey) (\<lambda>_.
     seq getLocal (\<lambda>s.
     let previous = (case Option.bind (lo_metadata s) (\<lambda>m. td_checkpoint (sm_template m)) of
           Some c \<Rightarrow> Some c | None \<Rightarrow> td_checkpoint (os_source opened)) in
     seq (asking RandomUuid asText) (\<lambda>uuid.
     seq (uploadCheckpoint ((case previous of None \<Rightarrow> 0 | Some c \<Rightarrow> cp_generation c) + 1)
       (sessionPath host options sessionKey @ ''/checkpoints/'' @ intText (lo_leaseGeneration s) @ ''-'' @ uuid)) (\<lambda>pending.
     let checkpoint = (case pending of Some p \<Rightarrow> Some (pn_checkpoint p) | None \<Rightarrow> previous) in
     catch
       (adoptCapture options opened checkpoint pending)
       (\<lambda>e. seq (attempt (releasePending pending)) (\<lambda>_. throw e))))))))))"

definition stop :: "MicrovmHost \<Rightarrow> MicrovmOptions \<Rightarrow> string \<Rightarrow> OpenedSession \<Rightarrow> unit action" where
  "stop host options sessionKey opened =
     seq getLocal (\<lambda>s.
     if lo_shutDown s then ret ()
     else
       seq (if lo_captured s then ret () else seq (capture host options sessionKey opened) (\<lambda>_. ret ())) (\<lambda>_.
       seq pauseHeartbeats (\<lambda>_.
       setLocal (\<lambda>s. s\<lparr>lo_shutDown := True\<rparr>))))"

text \<open>\<open>deleteSandbox\<close>.\<close>

definition deleteSandbox ::
  "MicrovmHost \<Rightarrow> MicrovmOptions \<Rightarrow> string \<Rightarrow> OpenedSession \<Rightarrow> unit action" where
  "deleteSandbox host options sessionKey opened =
     (let microvmId = mv_microvmId (lm_microvm (os_launched opened)) in
     seq getLocal (\<lambda>s0.
     if lo_shutDown s0 \<and> lo_metadata s0 = None then ret ()
     else
       seq (asking CallerCheckAborted asNothing) (\<lambda>_.
       seq (ensureLease host options sessionKey) (\<lambda>_.
       seq getLocal (\<lambda>s.
       let checkpoint = (case Option.bind (lo_metadata s) (\<lambda>m. td_checkpoint (sm_template m)) of
             Some c \<Rightarrow> if startsWith (cp_key c) (sessionPath host options sessionKey @ ''/checkpoints/'')
                       then Some c else None
           | None \<Rightarrow> None) in
       finally_do
         (seq (if lo_controllerPaused s then ret ()
               else
                 seq pauseHeartbeats (\<lambda>_.
                 seq (case lm_activation (os_launched opened) of None \<Rightarrow> ret () | Some e \<Rightarrow> revokeBinding e) (\<lambda>_.
                 seq (terminateMicrovmIfPresent microvmId) (\<lambda>_.
                 setLocal (\<lambda>s. s\<lparr>lo_controllerPaused := True\<rparr>))))) (\<lambda>_.
          seq (asking CallerCheckAborted asNothing) (\<lambda>_.
          seq getLocal (\<lambda>s.
          seq (check
            ((case lo_leaseState s of
                None \<Rightarrow> None
              | Some a \<Rightarrow> (case sa_metadata a of
                  Some (JObject ms) \<Rightarrow> map_of ms ''manifestEtag'' | _ \<Rightarrow> None))
             = map_option (\<lambda>m. JString (sm_manifestEtag m)) (lo_metadata s)) SessionReplaced) (\<lambda>_.
          seq (leaseUpdate \<lparr>sa_metadata = None, sa_launch = None\<rparr>) (\<lambda>_.
          seq (case os_storedSession opened of
                 None \<Rightarrow> ret ()
               | Some o1 \<Rightarrow> asking (StorageDelete (sessionManifestKey host options sessionKey) (Some (so_etag o1))) asNothing) (\<lambda>_.
          seq (case checkpoint of
                 None \<Rightarrow> ret ()
               | Some c \<Rightarrow> asking (StorageDelete (cp_key c) (cp_etag c)) asNothing) (\<lambda>_.
          setLocal (\<lambda>s. s\<lparr>lo_metadata := None, lo_captured := False, lo_shutDown := True\<rparr>)))))))))
         (seq (asking LeaseRelease asNothing) (\<lambda>_. setLocal (\<lambda>s. s\<lparr>lo_leaseHeld := False\<rparr>))))))))"

text \<open>The life of a handle: any operations one after the other, each of which may fail.\<close>

datatype HandleOperation = HandleCapture | HandleStop | HandleMutation | HandleDelete

fun performHandle ::
  "MicrovmHost \<Rightarrow> MicrovmOptions \<Rightarrow> string \<Rightarrow> OpenedSession \<Rightarrow> HandleOperation \<Rightarrow> unit action" where
  "performHandle host options sessionKey opened HandleCapture =
     seq (capture host options sessionKey opened) (\<lambda>_. ret ())"
| "performHandle host options sessionKey opened HandleStop = stop host options sessionKey opened"
| "performHandle host options sessionKey opened HandleMutation = beforeMutation host options sessionKey"
| "performHandle host options sessionKey opened HandleDelete = deleteSandbox host options sessionKey opened"

definition useHandle ::
  "MicrovmHost \<Rightarrow> MicrovmOptions \<Rightarrow> string \<Rightarrow> OpenedSession \<Rightarrow> HandleOperation list \<Rightarrow> unit action" where
  "useHandle host options sessionKey opened = forEach (\<lambda>op. attempt (performHandle host options sessionKey opened op))"

end
