(* ===== verification/Microvm_Session_Rules.thy ===== *)
theory Microvm_Session_Rules
  imports Microvm_Session
begin

text \<open>
  The order of effects in the sessions of the Lambda MicroVM backend, for any answers of the
  services: a MicroVM is terminated only after the lease records it, a launch request is sent
  only after the lease records it, and a checkpoint is durable before anything of the old MicroVM
  is given up.
\<close>

section \<open>Calls and their records\<close>

text \<open>The lease has acknowledged a state with a property.\<close>

fun recordOf :: "(SessionAuthority \<Rightarrow> bool) \<Rightarrow> MicrovmCall \<times> MicrovmAnswer \<Rightarrow> bool" where
  "recordOf R (LeaseUpdateState state, NothingGiven) = R state"
| "recordOf R _ = False"

lemma recordOf_iff: "recordOf R (c, a) \<longleftrightarrow> (\<exists>state. c = LeaseUpdateState state \<and> a = NothingGiven \<and> R state)"
  by (cases c; cases a) auto

definition recorded :: "(SessionAuthority \<Rightarrow> bool) \<Rightarrow> (MicrovmCall \<times> MicrovmAnswer) list \<Rightarrow> bool" where
  "recorded R h = list_ex (recordOf R) h"

lemma recorded_simps [simp]:
  "recorded R [] = False" "recorded R (x # h) = (recordOf R x \<or> recorded R h)"
  "recorded R (h @ h') = (recorded R h \<or> recorded R h')"
  by (simp_all add: recorded_def)

lemma answerAs_Inr: "answerAs f a = Inr x \<longleftrightarrow> f a = Some x \<and> (\<forall>e. a \<noteq> Threw e)"
  by (auto simp: answerAs_def split: MicrovmAnswer.splits option.splits)

lemma asNothing_Some [simp]: "asNothing a = Some u \<longleftrightarrow> a = NothingGiven"
  by (cases a) auto

text \<open>From the rule for every run to a statement on traces.\<close>

lemma trace_rule:
  assumes "wp P m [] Q" "runIo m answers = (t, r)" "i < length t"
  shows "P (answered (take i t)) (fst (t ! i))"
  using wp_sound[OF assms(1,2)] assms(3) by simp

lemma result_rule:
  assumes "wp P m [] Q" "runIo m answers = (t, Some x)"
  shows "Q (answered t) x"
  using wp_sound[OF assms(1,2)] by simp

lemma recorded_take:
  assumes "recorded R (answered (take i t))" "i < length t"
  shows "\<exists>j<i. \<exists>state. t ! j = (LeaseUpdateState state, Some NothingGiven) \<and> R state"
proof -
  from assms(1) obtain c a where ca: "(c, a) \<in> set (answered (take i t))" "recordOf R (c, a)"
    by (auto simp: recorded_def list_ex_iff)
  then obtain state where "c = LeaseUpdateState state" "a = NothingGiven" "R state"
    by (auto simp: recordOf_iff)
  with ca answered_take[of c a i t] assms(2) show ?thesis by auto
qed

section \<open>Retiring a late launch\<close>

definition recordsMicrovm :: "string \<Rightarrow> string \<Rightarrow> SessionAuthority \<Rightarrow> bool" where
  "recordsMicrovm launchId microvmId state \<longleftrightarrow>
     (\<exists>l. sa_launch state = Some l \<and> la_id l = launchId \<and> la_microvmId l = Some microvmId)"

lemma wp_terminate:
  "P h (ApiTerminate microvmId) \<Longrightarrow> (\<And>a r. Q (h @ [(ApiTerminate microvmId, a)]) (r, s)) \<Longrightarrow>
   wp P (terminateMicrovmIfPresent microvmId s) h Q"
  by (auto simp: terminateMicrovmIfPresent_def split: MicrovmAnswer.split)

text \<open>A late launch is recorded only while it is still the pending launch of the session, and its MicroVM
  is terminated only after the record.\<close>

definition pendingLaunch :: "string \<Rightarrow> string \<Rightarrow> MicrovmCall \<times> MicrovmAnswer \<Rightarrow> bool" where
  "pendingLaunch key launchId x \<longleftrightarrow> (\<exists>g state l. x = (LeaseAcquire key, LeaseGiven g (Some state)) \<and>
     sa_launch state = Some l \<and> la_id l = launchId)"

definition lateCall :: "string \<Rightarrow> string \<Rightarrow> string \<Rightarrow> (MicrovmCall \<times> MicrovmAnswer) list \<Rightarrow> MicrovmCall \<Rightarrow> bool" where
  "lateCall key launchId microvmId h c \<longleftrightarrow>
     (\<forall>vm. c = ApiTerminate vm \<longrightarrow> vm = microvmId \<and> recorded (recordsMicrovm launchId microvmId) h) \<and>
     (\<forall>state. c = LeaseUpdateState state \<longrightarrow> list_ex (pendingLaunch key launchId) h)"

lemma late_wp:
  "wp (lateCall (sessionLeaseKey host options sessionKey) launchId microvmId)
    (lateMicrovm host options sessionKey launchId microvmId s) [] (\<lambda>_ _. True)"
proof -
  have given: "pendingLaunch key (la_id l) (LeaseAcquire key, a)"
    if "asLease a = Some (g, Some state)" "sa_launch state = Some l" for key a g state l
    using that by (cases a) (auto simp: pendingLaunch_def)
  show ?thesis
    by (auto simp: lateMicrovm_def retireLateLaunch_def acquireLease_def attempt_def lateCall_def recordsMicrovm_def
        leaseUpdate_def answerAs_Inr given intro!: wp_terminate split: sum.splits option.splits prod.splits)
qed

section \<open>Launching\<close>

definition recordsRequest :: "RunRequest \<Rightarrow> SessionAuthority \<Rightarrow> bool" where
  "recordsRequest request state \<longleftrightarrow> (\<exists>l. sa_launch state = Some l \<and> la_request l = Some request)"

definition recordsVm :: "string \<Rightarrow> SessionAuthority \<Rightarrow> bool" where
  "recordsVm microvmId state \<longleftrightarrow> (\<exists>l. sa_launch state = Some l \<and> la_microvmId l = Some microvmId)"

text \<open>
  A lease that failed stays failed: after one failed call every further call fails. (A failed write
  aborts the signal of the lease, and the check before every call then throws.)
\<close>

definition leaseFailed :: "MicrovmCall \<times> MicrovmAnswer \<Rightarrow> bool" where
  "leaseFailed x \<longleftrightarrow> (case fst x of LeaseEnsureHeld \<Rightarrow> snd x \<noteq> NothingGiven
     | LeaseUpdateState _ \<Rightarrow> snd x \<noteq> NothingGiven | _ \<Rightarrow> False)"

definition leaseSucceeded :: "MicrovmCall \<times> MicrovmAnswer \<Rightarrow> bool" where
  "leaseSucceeded x \<longleftrightarrow> (case fst x of LeaseEnsureHeld \<Rightarrow> snd x = NothingGiven
     | LeaseUpdateState _ \<Rightarrow> snd x = NothingGiven | _ \<Rightarrow> False)"

fun failsClosed :: "(MicrovmCall \<times> MicrovmAnswer) list \<Rightarrow> bool" where
  "failsClosed [] = True"
| "failsClosed (x # h) = ((leaseFailed x \<longrightarrow> \<not> list_ex leaseSucceeded h) \<and> failsClosed h)"

lemma failsClosed_append [simp]:
  "failsClosed (h @ h') = (failsClosed h \<and> failsClosed h' \<and> (list_ex leaseFailed h \<longrightarrow> \<not> list_ex leaseSucceeded h'))"
  by (induction h) auto

lemma lease_calls [simp]:
  "leaseFailed (LeaseEnsureHeld, a) = (a \<noteq> NothingGiven)" "leaseSucceeded (LeaseEnsureHeld, a) = (a = NothingGiven)"
  "leaseFailed (LeaseUpdateState state, a) = (a \<noteq> NothingGiven)"
  "leaseSucceeded (LeaseUpdateState state, a) = (a = NothingGiven)"
  by (simp_all add: leaseFailed_def leaseSucceeded_def)

text \<open>What a session launch may do: send only a request that is recorded, and terminate only a
  MicroVM that is recorded.\<close>

definition launchCall :: "string option \<Rightarrow> (MicrovmCall \<times> MicrovmAnswer) list \<Rightarrow> MicrovmCall \<Rightarrow> bool" where
  "launchCall known h c \<longleftrightarrow>
     (\<forall>request. c = ApiRun request \<longrightarrow> recorded (recordsRequest request) h) \<and>
     (\<forall>id. c = ApiTerminate id \<longrightarrow> failsClosed h \<longrightarrow> known = Some id \<or> recorded (recordsVm id) h)"

lemma launchCall_other [simp]:
  "(\<forall>request. c \<noteq> ApiRun request) \<Longrightarrow> (\<forall>id. c \<noteq> ApiTerminate id) \<Longrightarrow> launchCall known h c"
  by (simp add: launchCall_def)

definition launchState :: "SessionAuthority \<Rightarrow> PendingLaunch \<Rightarrow> MicrovmLocals \<Rightarrow> bool" where
  "launchState state l s \<longleftrightarrow> (\<exists>l'. lo_leaseState s = Some (state\<lparr>sa_launch := Some l'\<rparr>) \<and> la_id l' = la_id l)"

lemma launchState_launched [simp]: "launchState state l (s\<lparr>lo_launched := x\<rparr>) = launchState state l s"
  by (simp add: launchState_def)

lemma wp_leaseUpdate [simp]:
  "wp P (leaseUpdate st s) h Q = (P h (LeaseUpdateState st) \<and>
     Q (h @ [(LeaseUpdateState st, NothingGiven)]) (Inr (), s\<lparr>lo_leaseState := Some st\<rparr>) \<and>
     (\<forall>a e. answerAs asNothing a = Inl e \<longrightarrow> Q (h @ [(LeaseUpdateState st, a)]) (Inl e, s)))"
proof -
  have "(\<forall>a. case answerAs asNothing a of Inl e \<Rightarrow> F a e | Inr x \<Rightarrow> G a) \<longleftrightarrow>
      G NothingGiven \<and> (\<forall>a e. answerAs asNothing a = Inl e \<longrightarrow> F a e)" for F G
    by (auto simp: answerAs_def split: sum.splits MicrovmAnswer.splits)
  then show ?thesis by (simp add: leaseUpdate_def)
qed

lemma answerAs_asNothing [simp]: "answerAs asNothing NothingGiven = Inr ()"
  by (simp add: answerAs_def)

lemma wp_updateLaunch [simp]:
  "lo_leaseState s = Some state \<Longrightarrow> sa_launch state = Some l \<Longrightarrow>
   wp P (updateLaunch f s) h Q = wp P (leaseUpdate (state\<lparr>sa_launch := Some (f l)\<rparr>) s) h Q"
  by (simp add: updateLaunch_def)

lemma wp_ensureHeld [simp]:
  "wp P (ensureHeldCall s) h Q =
   (P h LeaseEnsureHeld \<and> (\<forall>a. Q (h @ [(LeaseEnsureHeld, a)]) (answerAs asNothing a, s)))"
  by (simp add: ensureHeldCall_def)

text \<open>With a lease, a late MicroVM is only noted for the background.\<close>

lemma wp_lateResult [simp]:
  "ri_withLease input \<Longrightarrow> wp P (lateResult input late s) h Q =
     Q h (Inr (), s\<lparr>lo_late := map_option (\<lambda>l. (la_id l, late)) (savedLaunch input s)\<rparr>)"
  by (simp add: lateResult_def)

lemma wp_boundedRun [simp]:
  "wp P (boundedRun input request s) h Q = (P h (ApiRun request) \<and>
     (\<forall>m. Q (h @ [(ApiRun request, MicrovmGiven m)]) (Inr m, s)) \<and>
     (\<forall>m. wp P (lateResult input m s) (h @ [(ApiRun request, MicrovmLate m)])
        (\<lambda>h r. case fst r of Inl e \<Rightarrow> Q h (Inl e, snd r) | Inr _ \<Rightarrow> Q h (Inl DeadlineExceeded, snd r))) \<and>
     (\<forall>a e. (\<forall>m. a \<noteq> MicrovmLate m) \<longrightarrow> answerAs asMicrovm a = Inl e \<longrightarrow> Q (h @ [(ApiRun request, a)]) (Inl e, s)))"
proof -
  define R where "R m h' = wp P (lateResult input m s) h'
     (\<lambda>h r. case fst r of Inl e \<Rightarrow> Q h (Inl e, snd r) | Inr _ \<Rightarrow> Q h (Inl DeadlineExceeded, snd r))" for m h'
  have "wp P ((case a of MicrovmLate late \<Rightarrow> seq (lateResult input late) (\<lambda>_. throw DeadlineExceeded)
      | _ \<Rightarrow> (case answerAs asMicrovm a of Inl e \<Rightarrow> throw e | Inr microvm \<Rightarrow> ret microvm)) s) h' Q \<longleftrightarrow>
    (\<forall>m. a = MicrovmGiven m \<longrightarrow> Q h' (Inr m, s)) \<and> (\<forall>m. a = MicrovmLate m \<longrightarrow> R m h') \<and>
    (\<forall>e. (\<forall>m. a \<noteq> MicrovmLate m) \<longrightarrow> answerAs asMicrovm a = Inl e \<longrightarrow> Q h' (Inl e, s))" for a h'
    by (cases a) (simp_all add: answerAs_def R_def cong: sum.case_cong)
  then show ?thesis unfolding boundedRun_def by (simp add: R_def[symmetric]) blast
qed

lemma send_wp:
  assumes lease: "ri_withLease input" and s: "lo_leaseState s = Some state" "sa_launch state = Some l"
    and bad: "\<And>h' e s'. Q h' (Inl e, s')"
    and good: "\<And>h' x s'. launchState state l s' \<Longrightarrow> Q h' (Inr x, s')"
  shows "wp (launchCall known) (sendRequest options input activation request s) h Q"
proof -
  have *: "launchState state l (s\<lparr>lo_leaseState := Some (state\<lparr>sa_launch := Some (l\<lparr>la_request := Some request, la_activation := activation\<rparr>)\<rparr>)\<rparr>)"
    unfolding launchState_def by (intro exI conjI) (simp, simp)
  show ?thesis
    using s
    by (auto simp: sendRequest_def whenLeased_def lease launchCall_def recordsRequest_def
        recordsVm_def attempt_def intro!: wp_terminate bad good * split: sum.splits)
qed

lemma activationFor_wp:
  "(\<And>h a. P h (ProviderCreate (if ri_isSession input then op_runtimeNetworkLaneId options else op_buildNetworkLaneId options)
        (mh_sha256 host (ri_purposeKey input)) (ri_replacementOf input))) \<Longrightarrow>
   (\<And>h r. Q h (r, s)) \<Longrightarrow> wp P (activationFor host options input saved s) h Q"
  by (auto simp: activationFor_def split: option.splits sum.splits)

lemma run_wp:
  assumes lease: "ri_withLease input" and s: "lo_leaseState s = Some state" "sa_launch state = Some l"
    and bad: "\<And>h' e s'. Q h' (Inl e, s')"
    and good: "\<And>h' x s'. launchState state l s' \<Longrightarrow> Q h' (Inr x, s')"
  shows "wp (launchCall known) (runMicrovmWithAuthority host options input s) h Q"
  using s
  by (auto simp: runMicrovmWithAuthority_def whenLeased_def lease savedLaunch_def Let_def
      intro!: activationFor_wp send_wp[OF lease] bad good split: sum.splits option.splits)

lemma restore_wp:
  assumes "\<And>h c. (\<forall>request. c \<noteq> ApiRun request) \<Longrightarrow> (\<forall>id. c \<noteq> ApiTerminate id) \<Longrightarrow> P h c"
    and "\<And>h' r. Q h' (r, s)"
  shows "wp P (restoreCheckpoint checkpoint s) h Q"
  using assms by (auto simp: restoreCheckpoint_def split: sum.splits option.splits)

text \<open>Everything after the MicroVM was started: its identity is recorded, and an error terminates it.\<close>

lemma launched_wp:
  assumes s: "launchState state l s" and all: "\<And>h' r. Q h' r"
  shows "wp (launchCall known) (prepareLaunched microvmId fresh checkpoint md s) h Q"
proof -
  obtain l' where l': "lo_leaseState s = Some (state\<lparr>sa_launch := Some l'\<rparr>)"
    using s by (auto simp: launchState_def)
  have restore: "wp (launchCall known) (restoreCheckpoint c s') h' R"
    if "\<And>h'' x. R (h' @ h'') (x, s')" for c s' h' R
    using that by (auto simp: restoreCheckpoint_def split: sum.splits option.splits)
  have launchR: "launchCall known h' (ApiTerminate microvmId)" if "failsClosed h' \<Longrightarrow> recorded (recordsVm microvmId) h'" for h'
    using that by (simp add: launchCall_def)
  show ?thesis
    using l'
    by (auto simp: prepareLaunched_def all attempt_def recordsVm_def answerAs_Inr recordOf_iff
        intro!: wp_terminate launchR restore split: sum.splits option.splits)
qed

definition knownMicrovm :: "MicrovmLocals \<Rightarrow> string option" where
  "knownMicrovm s = Option.bind (Option.bind (lo_leaseState s) sa_launch) la_microvmId"

lemma known_launch:
  "lo_leaseState s = Some state \<Longrightarrow> sa_launch state = Some l \<Longrightarrow> la_microvmId l = Some microvmId \<Longrightarrow>
   launchCall (knownMicrovm s) h (ApiTerminate microvmId)"
  by (simp add: launchCall_def knownMicrovm_def)

lemma leased_wp:
  "wp (launchCall (knownMicrovm s)) (createLeasedSession host options templateKey sessionKey existing s) h (\<lambda>_ _. True)"
  unfolding createLeasedSession_def Let_def
  by (auto intro!: wp_terminate known_launch run_wp launched_wp split: sum.splits option.splits)

section \<open>Uploading a checkpoint\<close>

text \<open>The history shows that a checkpoint is complete in the object store: its upload was completed, and
  the stored object has its size.\<close>

definition storedInfo :: "string \<Rightarrow> int \<Rightarrow> (MicrovmCall \<times> MicrovmAnswer) \<Rightarrow> bool" where
  "storedInfo key n x \<longleftrightarrow>
     (case x of (StorageInfo k, InfoGiven (Some info)) \<Rightarrow> k = key \<and> oi_size info = n | _ \<Rightarrow> False)"

definition completedUpload :: "string \<Rightarrow> string \<Rightarrow> (MicrovmCall \<times> MicrovmAnswer) \<Rightarrow> bool" where
  "completedUpload key sha x \<longleftrightarrow>
     (case x of (StorageCompleteUpload k _ parts h, EtagGiven _) \<Rightarrow> k = key \<and> h = sha \<and> partsInOrder parts | _ \<Rightarrow> False)"

lemma storedInfo_simps [simp]:
  "storedInfo key n (StorageInfo key, InfoGiven (Some info)) = (oi_size info = n)"
  "completedUpload key sha (StorageCompleteUpload key u parts sha, EtagGiven e) = partsInOrder parts"
  by (simp_all add: storedInfo_def completedUpload_def)

definition durable :: "Checkpoint \<Rightarrow> (MicrovmCall \<times> MicrovmAnswer) list \<Rightarrow> bool" where
  "durable c h \<longleftrightarrow> list_ex (storedInfo (cp_key c) (cp_size c)) h \<and> list_ex (completedUpload (cp_key c) (cp_sha256 c)) h"

lemma durable_append [simp]: "durable c h \<Longrightarrow> durable c (h @ h')"
  by (auto simp: durable_def)

lemma answerAs_some:
  "answerAs asText a = Inr x \<longleftrightarrow> a = TextGiven x" "answerAs asTexts a = Inr xs \<longleftrightarrow> a = TextsGiven xs"
  "answerAs asInfo a = Inr i \<longleftrightarrow> a = InfoGiven i" "answerAs asEtag a = Inr e \<longleftrightarrow> a = EtagGiven e"
  "answerAs asParts a = Inr ps \<longleftrightarrow> a = PartsGiven ps" "answerAs asPreparation a = Inr p \<longleftrightarrow> a = PreparationGiven p"
  "answerAs asNothing a = Inr u \<longleftrightarrow> a = NothingGiven" "answerAs asMicrovm a = Inr m \<longleftrightarrow> a = MicrovmGiven m"
  "answerAs asJson a = Inr j \<longleftrightarrow> a = JsonGiven j" "answerAs asEnvelope a = Inr ev \<longleftrightarrow> a = EnvelopeGiven ev"
  by (cases a; auto simp: answerAs_def)+

lemma partsInOrder_checksummed [simp]: "partsInOrder (checksummedParts shas parts) = partsInOrder parts"
proof -
  have "map up_partNumber (checksummedParts shas parts) = map up_partNumber parts"
    by (rule nth_equalityI) (simp_all add: checksummedParts_def nth_enumerate_eq)
  then show ?thesis by (simp add: partsInOrder_def checksummedParts_def)
qed

definition uploadCall :: "MicrovmCall \<Rightarrow> bool" where
  "uploadCall c \<longleftrightarrow> (case c of ControllerPrepare \<Rightarrow> True | StorageCreateUpload _ \<Rightarrow> True | StoragePresignParts _ _ _ \<Rightarrow> True
     | ControllerUpload _ _ \<Rightarrow> True | StorageCompleteUpload _ _ _ _ \<Rightarrow> True | StorageInfo _ \<Rightarrow> True
     | StorageAbortUpload _ _ \<Rightarrow> True | ControllerRelease \<Rightarrow> True | _ \<Rightarrow> False)"

lemma upload_wp:
  assumes call: "\<And>h' c. uploadCall c \<Longrightarrow> P (h @ h') c"
    and bad: "\<And>h' e. list_all (\<lambda>x. uploadCall (fst x)) h' \<Longrightarrow> Q (h @ h') (Inl e, s)"
    and clean: "\<And>h'. list_all (\<lambda>x. uploadCall (fst x)) h' \<Longrightarrow> Q (h @ h') (Inr None, s)"
    and good: "\<And>h' p. list_all (\<lambda>x. uploadCall (fst x)) h' \<Longrightarrow>
      durable (pn_checkpoint p) (h @ h') \<Longrightarrow> cp_generation (pn_checkpoint p) = generation \<Longrightarrow>
      startsWith (cp_key (pn_checkpoint p)) prefix \<Longrightarrow> Q (h @ h') (Inr (Some p), s\<lparr>lo_finalized := False\<rparr>)"
  shows "wp P (uploadCheckpoint generation prefix s) h Q"
proof -
  have first: "uploadCall c \<Longrightarrow> P h c" for c
    using call[of c "[]"] by simp
  show ?thesis
    by (auto simp: uploadCheckpoint_def attempt_def Let_def answerAs_some uploadCall_def durable_def startsWith_def
        intro!: first call bad clean good split: sum.splits option.splits)
qed

end
