(* ===== verification/Microvm_Session_Properties.thy ===== *)
theory Microvm_Session_Properties
  imports Microvm_Session_Rules
begin

section \<open>Capturing a session\<close>

definition adoptsMetadata :: "string \<Rightarrow> SessionAuthority \<Rightarrow> bool" where
  "adoptsMetadata microvmId state \<longleftrightarrow> sa_launch state = None \<and>
     (\<exists>m. sa_metadata state = Some (JObject (sessionMembers m)) \<and> sm_microvmId m = microvmId)"

text \<open>What the lease may record in a capture: metadata whose checkpoint is the previous one or durable.
  What gives up the old MicroVM comes after such a record.\<close>

definition captureCall ::
  "string \<Rightarrow> Checkpoint option \<Rightarrow> (MicrovmCall \<times> MicrovmAnswer) list \<Rightarrow> MicrovmCall \<Rightarrow> bool" where
  "captureCall microvmId previous h c \<longleftrightarrow>
     (\<forall>state. c = LeaseUpdateState state \<longrightarrow>
        (\<exists>m. state = \<lparr>sa_metadata = Some (JObject (sessionMembers m)), sa_launch = None\<rparr> \<and>
           (td_checkpoint (sm_template m) = previous \<or> (\<exists>ck. td_checkpoint (sm_template m) = Some ck \<and> durable ck h)))) \<and>
     ((\<exists>id. c = ApiTerminate id) \<or> (\<exists>a g b. c = ProviderRevoke a g b) \<or> (\<exists>id. c = ControllerCommitted id) \<or> c = LeaseRelease \<longrightarrow>
        recorded (adoptsMetadata microvmId) h)"

lemma captureCall_other [simp]:
  "uploadCall c \<Longrightarrow> captureCall microvmId previous h c"
  "captureCall microvmId previous h LeaseEnsureHeld" "captureCall microvmId previous h (LeaseAcquire key)"
  "captureCall microvmId previous h RandomUuid" "captureCall microvmId previous h ControllerRelease" "captureCall microvmId previous h ControllerPause"
  by (auto simp: captureCall_def uploadCall_def)

definition previousCheckpoint :: "MicrovmLocals \<Rightarrow> OpenedSession \<Rightarrow> Checkpoint option" where
  "previousCheckpoint s opened = (case Option.bind (lo_metadata s) (\<lambda>m. td_checkpoint (sm_template m)) of
     Some c \<Rightarrow> Some c | None \<Rightarrow> td_checkpoint (os_source opened))"

lemma ensureLease_wp:
  assumes "\<And>h'. P (h @ h') (LeaseAcquire (sessionLeaseKey host options sessionKey))" "\<And>h'. P (h @ h') LeaseEnsureHeld"
    and "\<And>h' r held g st. Q (h @ h') (r, s\<lparr>lo_leaseHeld := held, lo_leaseGeneration := g, lo_leaseState := st\<rparr>)"
  shows "wp P (ensureLease host options sessionKey s) h Q"
proof -
  have "Q (h @ h') (r, s)" for h' r
    using assms(3)[where h'=h' and r=r and held="lo_leaseHeld s" and g="lo_leaseGeneration s" and st="lo_leaseState s"] by simp
  moreover have "P h (LeaseAcquire (sessionLeaseKey host options sessionKey))" "P h LeaseEnsureHeld"
    using assms(1)[of "[]"] assms(2)[of "[]"] by simp_all
  ultimately show ?thesis
    using assms by (auto simp: ensureLease_def acquireLease_def ensureHeldCall_def split: sum.splits prod.splits)
qed

lemma adoptsMetadata_new [simp]:
  "adoptsMetadata microvmId \<lparr>sa_metadata = Some (JObject (sessionMembers m)), sa_launch = None\<rparr>"
  if "sm_microvmId m = microvmId"
  using that by (auto simp: adoptsMetadata_def)

lemma captured_simps [simp]:
  "sm_microvmId (capturedMetadata options opened checkpoint e) = mv_microvmId (lm_microvm (os_launched opened))"
  "td_checkpoint (sm_template (capturedMetadata options opened checkpoint e)) = checkpoint"
  by (simp_all add: capturedMetadata_def Let_def)

lemma captureCall_release [simp]:
  "recorded (adoptsMetadata microvmId) h \<Longrightarrow> captureCall microvmId previous h (ApiTerminate vm)"
  "recorded (adoptsMetadata microvmId) h \<Longrightarrow> captureCall microvmId previous h (ProviderRevoke a g b)"
  "recorded (adoptsMetadata microvmId) h \<Longrightarrow> captureCall microvmId previous h (ControllerCommitted pid)"
  "recorded (adoptsMetadata microvmId) h \<Longrightarrow> captureCall microvmId previous h LeaseRelease"
  by (simp_all add: captureCall_def)

lemma adopt_wp:
  assumes "checkpoint = previous \<or> (\<exists>ck. checkpoint = Some ck \<and> durable ck h)"
    and "\<And>h' x s'. Q (h @ h') (x, s')"
  shows "wp (captureCall (mv_microvmId (lm_microvm (os_launched opened))) previous)
    (adoptCapture options opened checkpoint pending s) h Q"
proof -
  have upd: "captureCall (mv_microvmId (lm_microvm (os_launched opened))) previous (h @ h')
      (LeaseUpdateState \<lparr>sa_metadata = Some (JObject (sessionMembers (capturedMetadata options opened checkpoint e))), sa_launch = None\<rparr>)"
    for h' e
    using assms(1) unfolding captureCall_def
    by (auto intro!: exI[of _ "capturedMetadata options opened checkpoint e"])
  show ?thesis
    unfolding adoptCapture_def Let_def
    by (auto simp: attempt_def commitPending_def pauseHeartbeats_def revokeBinding_def answerAs_some assms(2)
        intro!: upd wp_terminate split: sum.splits option.splits)
qed

lemma capture_wp:
  "wp (captureCall (mv_microvmId (lm_microvm (os_launched opened))) (previousCheckpoint s opened))
    (capture host options sessionKey opened s) [] (\<lambda>_ _. True)"
  unfolding capture_def Let_def
  by (auto simp: ensureActive_def attempt_def releasePending_def previousCheckpoint_def
      intro!: upload_wp ensureLease_wp adopt_wp split: sum.splits option.splits)

section \<open>Deleting a session\<close>

definition deletableObject ::
  "MicrovmHost \<Rightarrow> MicrovmOptions \<Rightarrow> string \<Rightarrow> OpenedSession \<Rightarrow> string \<Rightarrow> etag option \<Rightarrow> bool" where
  "deletableObject host options sessionKey opened key e \<longleftrightarrow>
     startsWith key (sessionPath host options sessionKey @ ''/checkpoints/'') \<or>
     key = sessionManifestKey host options sessionKey \<and> e = map_option so_etag (os_storedSession opened) \<and> e \<noteq> None"

text \<open>A MicroVM is given up when its termination was asked for and, unless a failed termination also counts, it
  is known to be gone.\<close>

definition givesUp :: "bool \<Rightarrow> string \<Rightarrow> MicrovmCall \<times> MicrovmAnswer \<Rightarrow> bool" where
  "givesUp tried microvmId x \<longleftrightarrow> fst x = ApiTerminate microvmId \<and>
     (tried \<or> (case snd x of Threw e \<Rightarrow> isAbsent e | _ \<Rightarrow> True))"

definition givenUp :: "bool \<Rightarrow> string \<Rightarrow> (MicrovmCall \<times> MicrovmAnswer) list \<Rightarrow> bool" where
  "givenUp tried microvmId h = list_ex (givesUp tried microvmId) h"

lemma givenUp_simps [simp]:
  "givenUp tried microvmId [] = False"
  "givenUp tried microvmId (x # h) = (givesUp tried microvmId x \<or> givenUp tried microvmId h)"
  "givenUp tried microvmId (h @ h') = (givenUp tried microvmId h \<or> givenUp tried microvmId h')"
  by (simp_all add: givenUp_def)

lemma givesUp_terminate [simp]:
  "givesUp tried microvmId (ApiTerminate vm, a) \<longleftrightarrow> vm = microvmId \<and> (tried \<or> (\<forall>e. a = Threw e \<longrightarrow> isAbsent e))"
  "(\<forall>vm. c \<noteq> ApiTerminate vm) \<Longrightarrow> \<not> givesUp tried microvmId (c, a)"
  by (auto simp: givesUp_def split: MicrovmAnswer.splits)

definition cleared :: SessionAuthority where
  "cleared = \<lparr>sa_metadata = None, sa_launch = None\<rparr>"

definition deleteCall ::
  "MicrovmHost \<Rightarrow> MicrovmOptions \<Rightarrow> string \<Rightarrow> OpenedSession \<Rightarrow> bool \<Rightarrow> (MicrovmCall \<times> MicrovmAnswer) list \<Rightarrow> MicrovmCall \<Rightarrow> bool" where
  "deleteCall host options sessionKey opened tried h c \<longleftrightarrow>
     (c = LeaseUpdateState cleared \<longrightarrow> givenUp tried (mv_microvmId (lm_microvm (os_launched opened))) h) \<and>
     (\<forall>key e. c = StorageDelete key e \<longrightarrow> deletableObject host options sessionKey opened key e \<and>
        recorded (\<lambda>state. state = cleared) h)"

lemma deleteCall_other [simp]:
  "c \<noteq> LeaseUpdateState cleared \<Longrightarrow> (\<forall>key e. c \<noteq> StorageDelete key e) \<Longrightarrow>
   deleteCall host options sessionKey opened tried h c"
  by (simp add: deleteCall_def)

text \<open>What holds between the operations of a handle: when the MicroVM counts as retired, it was given up.\<close>

definition handleInv :: "bool \<Rightarrow> OpenedSession \<Rightarrow> (MicrovmCall \<times> MicrovmAnswer) list \<Rightarrow> MicrovmLocals \<Rightarrow> bool" where
  "handleInv tried opened h s \<longleftrightarrow>
     (lo_controllerPaused s \<longrightarrow> givenUp tried (mv_microvmId (lm_microvm (os_launched opened))) h)"

lemma wp_terminate_exact [simp]:
  "wp P (terminateMicrovmIfPresent microvmId s) h Q =
   (P h (ApiTerminate microvmId) \<and>
    (\<forall>a. Q (h @ [(ApiTerminate microvmId, a)])
       ((case a of Threw e \<Rightarrow> if isAbsent e then Inr () else Inl (ServiceThrew e) | _ \<Rightarrow> Inr ()), s)))"
  by (simp add: terminateMicrovmIfPresent_def split: MicrovmAnswer.split)

text \<open>An action that makes only allowed calls and keeps an invariant of history and variables.\<close>

definition keeps ::
  "((MicrovmCall \<times> MicrovmAnswer) list \<Rightarrow> MicrovmLocals \<Rightarrow> bool) \<Rightarrow>
   ((MicrovmCall \<times> MicrovmAnswer) list \<Rightarrow> MicrovmCall \<Rightarrow> bool) \<Rightarrow> 'r action \<Rightarrow> bool" where
  "keeps I P m \<longleftrightarrow> (\<forall>h s. I h s \<longrightarrow> wp P (m s) h (\<lambda>h' r. I h' (snd r)))"

named_theorems keeping

lemma keeps_basic [keeping]: "keeps I P (ret x)" "keeps I P (throw e)" "keeps I P (check b e)" "keeps I P getLocal"
    "keeps I P (orThrow g v)" "keeps I P (expectDefined w n)"
  by (simp_all add: keeps_def)

lemma keepsD: "keeps I P m \<Longrightarrow> I h s \<Longrightarrow> (\<And>h' r. I h' (snd r) \<Longrightarrow> Q h' r) \<Longrightarrow> wp P (m s) h Q"
  unfolding keeps_def using wp_mono by blast

lemma keeps_apply: "keeps I P m \<Longrightarrow> I h s \<Longrightarrow> wp P (m s) h (\<lambda>h' r. I h' (snd r))"
  by (simp add: keeps_def)

lemma keepsI: "(\<And>h s. I h s \<Longrightarrow> wp P (m s) h (\<lambda>h' r. I h' (snd r))) \<Longrightarrow> keeps I P m"
  by (simp add: keeps_def)

lemma keeps_seq [keeping]: "keeps I P m \<Longrightarrow> (\<And>x. keeps I P (f x)) \<Longrightarrow> keeps I P (seq m f)"
  by (rule keepsI) (simp, erule (1) keepsD, auto intro: keeps_apply split: sum.split)

lemma keeps_catch [keeping]: "keeps I P m \<Longrightarrow> (\<And>e. keeps I P (f e)) \<Longrightarrow> keeps I P (catch m f)"
  by (rule keepsI) (simp, erule (1) keepsD, auto intro: keeps_apply split: sum.split)

lemma keeps_attempt [keeping]: "keeps I P m \<Longrightarrow> keeps I P (attempt m)"
  by (simp add: attempt_def keeping)

lemma keeps_finally [keeping]: "keeps I P m \<Longrightarrow> keeps I P f \<Longrightarrow> keeps I P (finally_do m f)"
  by (simp add: finally_do_def keeping)

lemma keeps_forEach: "(\<And>x. x \<in> set xs \<Longrightarrow> keeps I P (f x)) \<Longrightarrow> keeps I P (forEach f xs)"
  by (induction xs) (simp_all add: keeping)

text \<open>For the invariant of a handle.\<close>

lemma handleInv_step: "handleInv tried opened h s \<Longrightarrow> lo_controllerPaused s' = lo_controllerPaused s \<Longrightarrow>
   handleInv tried opened (h @ h') s'"
  by (simp add: handleInv_def)

lemma keeps_calls [keeping]:
  "(\<And>h. P h c) \<Longrightarrow> keeps (handleInv tried opened) P (ask c)"
  "(\<And>h. P h c) \<Longrightarrow> keeps (handleInv tried opened) P (asking c g)"
  "(\<And>h. P h c) \<Longrightarrow> c = ApiTerminate vm \<Longrightarrow> keeps (handleInv tried opened) P (terminateMicrovmIfPresent vm)"
  by (auto simp: keeps_def handleInv_def)

lemma keeps_setLocal [keeping]:
  "(\<And>s. lo_controllerPaused (f s) = lo_controllerPaused s) \<Longrightarrow> keeps (handleInv tried opened) P (setLocal f)"
  by (simp add: keeps_def handleInv_def)

lemma keeps_retired:
  "keeps (handleInv tried opened) (\<lambda>_ _. True)
     (seq (terminateMicrovmIfPresent (mv_microvmId (lm_microvm (os_launched opened))))
       (\<lambda>_. setLocal (\<lambda>s. s\<lparr>lo_controllerPaused := True\<rparr>)))"
  by (auto simp: keeps_def handleInv_def split: MicrovmAnswer.splits if_splits)

lemma delete_calls:
  assumes "handleInv tried opened h s"
  shows "wp (deleteCall host options sessionKey opened tried) (deleteSandbox host options sessionKey opened s) h (\<lambda>_ _. True)"
  unfolding deleteSandbox_def Let_def
  using assms
  by (auto simp: finally_do_def pauseHeartbeats_def revokeBinding_def deleteCall_def deletableObject_def
      handleInv_def cleared_def answerAs_some intro!: ensureLease_wp
      split: sum.splits option.splits prod.splits if_splits MicrovmAnswer.splits)

lemma delete_keeps:
  "keeps (handleInv tried opened) (\<lambda>_ _. True) (deleteSandbox host options sessionKey opened)"
  unfolding deleteSandbox_def Let_def ensureLease_def acquireLease_def ensureHeldCall_def pauseHeartbeats_def
    revokeBinding_def leaseUpdate_def
  by (auto intro!: keeping keeps_retired split: option.split prod.split)

lemma wp_both: "wp P m h (\<lambda>_ _. True) \<Longrightarrow> wp (\<lambda>_ _. True) m h Q \<Longrightarrow> wp P m h Q"
  by (induction m arbitrary: h) auto

lemma delete_handle:
  "keeps (handleInv tried opened) (deleteCall host options sessionKey opened tried) (deleteSandbox host options sessionKey opened)"
  using delete_keeps unfolding keeps_def by (blast intro: wp_both delete_calls)

text \<open>A capture retires the MicroVM with its heartbeats paused: however it ends then, the termination was asked for.\<close>

lemma capture_retires:
  "keeps (handleInv True opened) (deleteCall host options sessionKey opened True)
    (seq (setLocal (\<lambda>s. s\<lparr>lo_controllerPaused := True\<rparr>)) (\<lambda>_.
     seq (case lm_activation (os_launched opened) of
            None \<Rightarrow> ret ()
          | Some e \<Rightarrow> catch (revokeBinding e) (\<lambda>_.
              seq (attempt (terminateMicrovmIfPresent (mv_microvmId (lm_microvm (os_launched opened)))))
                (\<lambda>_. throw BindingRevocationFailed))) (\<lambda>_.
     seq (catch (terminateMicrovmIfPresent (mv_microvmId (lm_microvm (os_launched opened)))) (\<lambda>_. throw RetirementFailed)) (\<lambda>_.
     seq (setLocal (\<lambda>s. s\<lparr>lo_captured := True\<rparr>)) (\<lambda>_.
     seq (asking LeaseRelease asNothing) (\<lambda>_.
     seq (setLocal (\<lambda>s. s\<lparr>lo_leaseHeld := False\<rparr>)) (\<lambda>_.
     ret md)))))))"
  by (rule keepsI)
    (auto simp: handleInv_def revokeBinding_def attempt_def split: option.splits sum.splits MicrovmAnswer.splits if_splits)

lemma capture_update [simp]: "\<lparr>sa_metadata = Some m, sa_launch = None\<rparr> \<noteq> cleared"
  by (simp add: cleared_def)

lemma keeps_upload: 
  "keeps (handleInv True opened) (deleteCall host options sessionKey opened True) (uploadCheckpoint generation prefix)"
  unfolding uploadCheckpoint_def Let_def
  by (auto intro!: keeping split: option.split)

lemma capture_handle:
  "keeps (handleInv True opened) (deleteCall host options sessionKey opened True) (capture host options sessionKey opened)"
  unfolding capture_def adoptCapture_def Let_def ensureActive_def ensureLease_def acquireLease_def ensureHeldCall_def
    pauseHeartbeats_def leaseUpdate_def commitPending_def releasePending_def
  by (intro capture_retires keeps_upload keeping) (auto intro!: keeping split: option.split prod.split)

lemma mutation_handle:
  "keeps (handleInv tried opened) (deleteCall host options sessionKey opened tried) (beforeMutation host options sessionKey)"
  unfolding beforeMutation_def ensureActive_def ensureLease_def acquireLease_def ensureHeldCall_def
  by (auto intro!: keeping split: prod.split)

lemma stop_handle:
  "keeps (handleInv True opened) (deleteCall host options sessionKey opened True) (stop host options sessionKey opened)"
  unfolding stop_def pauseHeartbeats_def
  by (auto intro!: capture_handle keeping)

text \<open>Whether a capture is among the operations.\<close>

definition captures :: "HandleOperation list \<Rightarrow> bool" where
  "captures ops \<longleftrightarrow> HandleCapture \<in> set ops \<or> HandleStop \<in> set ops"

lemma perform_handle:
  "op \<in> set ops \<Longrightarrow> keeps (handleInv (captures ops) opened) (deleteCall host options sessionKey opened (captures ops))
     (performHandle host options sessionKey opened op)"
  by (cases op)
    (auto simp: captures_def intro: delete_handle mutation_handle stop_handle keeps_seq[OF capture_handle] keeps_basic)

lemma use_handle:
  "keeps (handleInv (captures ops) opened) (deleteCall host options sessionKey opened (captures ops))
     (useHandle host options sessionKey opened ops)"
  unfolding useHandle_def by (intro keeps_forEach keeps_attempt perform_handle)

section \<open>Prewarming a template\<close>

text \<open>The MicroVMs that were started, in time or late, and those whose termination was asked for.\<close>

definition startedIds :: "(MicrovmCall \<times> MicrovmAnswer) list \<Rightarrow> string set" where
  "startedIds h = {mv_microvmId m | m.
     \<exists>request. (ApiRun request, MicrovmGiven m) \<in> set h \<or> (ApiRun request, MicrovmLate m) \<in> set h}"

definition endedIds :: "(MicrovmCall \<times> MicrovmAnswer) list \<Rightarrow> string set" where
  "endedIds h = {microvmId. \<exists>a. (ApiTerminate microvmId, a) \<in> set h}"

lemma ids_append [simp]:
  "startedIds (h @ h') = startedIds h \<union> startedIds h'" "endedIds (h @ h') = endedIds h \<union> endedIds h'"
  "startedIds [] = {}" "endedIds [] = {}"
  by (auto simp: startedIds_def endedIds_def)

lemma startedIds_Cons [simp]:
  "startedIds ((ApiRun request, MicrovmGiven m) # h) = insert (mv_microvmId m) (startedIds h)"
  "startedIds ((ApiRun request, MicrovmLate m) # h) = insert (mv_microvmId m) (startedIds h)"
  "(\<forall>request. c \<noteq> ApiRun request) \<or> (\<forall>m. a \<noteq> MicrovmGiven m \<and> a \<noteq> MicrovmLate m) \<Longrightarrow>
   startedIds ((c, a) # h) = startedIds h"
  by (auto simp: startedIds_def)

lemma endedIds_Cons [simp]:
  "endedIds ((ApiTerminate microvmId, a) # h) = insert microvmId (endedIds h)"
  "(\<forall>vm. c \<noteq> ApiTerminate vm) \<Longrightarrow> endedIds ((c, a) # h) = endedIds h"
  by (auto simp: endedIds_def)

definition retiredBut :: "string set \<Rightarrow> (MicrovmCall \<times> MicrovmAnswer) list \<Rightarrow> bool" where
  "retiredBut X h \<longleftrightarrow> startedIds h \<subseteq> endedIds h \<union> X"

lemma retiredBut_append: "retiredBut X h \<Longrightarrow> startedIds h' = {} \<Longrightarrow> retiredBut X (h @ h')"
  by (auto simp: retiredBut_def)

lemma answerAs_microvm: "answerAs asMicrovm a = Inl e \<Longrightarrow> (\<forall>m. a \<noteq> MicrovmGiven m)"
  by (auto simp: answerAs_def)

lemma answered_member: "(c, Some a) \<in> set t \<Longrightarrow> (c, a) \<in> set (answered t)"
  by (force simp: answered_def)

lemma temporary_run_wp:
  assumes "\<not> ri_withLease input" "retiredBut {} h"
    and "\<And>h' e. retiredBut {} h' \<Longrightarrow> Q h' (Inl e, s)"
    and "\<And>h' launched. retiredBut {mv_microvmId (lm_microvm launched)} h' \<Longrightarrow> Q h' (Inr launched, s)"
  shows "wp (\<lambda>_ _. True) (runMicrovmWithAuthority host options input s) h Q"
  using assms(1,2)
  by (auto simp: runMicrovmWithAuthority_def sendRequest_def lateResult_def whenLeased_def savedLaunch_def Let_def attempt_def
      activationFor_def answerAs_some answerAs_microvm retiredBut_def intro!: assms(3,4)
      split: sum.splits option.splits if_splits)

lemma seed_wp:
  assumes "\<And>h' r. startedIds h' = {} \<Longrightarrow> Q (h @ h') (r, s)"
  shows "wp (\<lambda>_ _. True) (forEach (\<lambda>path. asking (WriteSeedFile path) asNothing) paths s) h Q"
  using assms
proof (induction paths arbitrary: h)
  case Nil
  from Nil[of "[]"] show ?case by simp
next
  case (Cons path paths)
  then show ?case by (auto split: sum.splits)
qed

lemma upload_started: "list_all (\<lambda>x. uploadCall (fst x)) h \<Longrightarrow> startedIds h = {}"
  by (auto simp: startedIds_def list_all_iff uploadCall_def)

definition temporaryIds :: "MicrovmLocals \<Rightarrow> string set" where
  "temporaryIds s = (case lo_launched s of None \<Rightarrow> {} | Some (_, m) \<Rightarrow> {mv_microvmId m})"

lemma temporaryIds_simps [simp]:
  "temporaryIds (s\<lparr>lo_launched := Some (l, m)\<rparr>) = {mv_microvmId m}"
  "temporaryIds (s\<lparr>lo_launched := None\<rparr>) = {}"
  "temporaryIds (s\<lparr>lo_finalized := b\<rparr>) = temporaryIds s"
  by (simp_all add: temporaryIds_def)

lemma captureTemplate_wp:
  assumes "retiredBut {} h" "temporaryIds s = {}"
    and all: "\<And>h' r s'. retiredBut (temporaryIds s') h' \<Longrightarrow> Q h' (r, s')"
  shows "wp (\<lambda>_ _. True) (captureTemplate host options input img s) h Q"
  unfolding captureTemplate_def Let_def
  using assms(1,2)
  by (auto simp: upload_started intro!: temporary_run_wp seed_wp upload_wp all retiredBut_append
      split: sum.splits option.splits if_splits)

lemma publish_wp:
  assumes "retiredBut (temporaryIds s) h"
    and all: "\<And>h' r s'. retiredBut (temporaryIds s') h' \<Longrightarrow> Q h' (r, s')"
  shows "wp (\<lambda>_ _. True) (publishOrRelease host options input existing img pending s) h Q"
  using assms(1)
  by (auto simp: publishOrRelease_def attempt_def publishTemplate_def commitPending_def releasePending_def
      intro!: all retiredBut_append split: sum.splits option.splits)

lemma retire_wp:
  assumes "retiredBut (temporaryIds s) h"
    and "\<And>h' r s'. retiredBut {} h' \<Longrightarrow> Q h' (r, s')"
  shows "wp (\<lambda>_ _. True) (retireTemporary s) h Q"
proof -
  have "retiredBut {} (h @ [(ApiTerminate (mv_microvmId m), a)])" if "lo_launched s = Some (l, m)" for a l m
    using that assms(1) by (auto simp: retiredBut_def temporaryIds_def)
  moreover have "retiredBut {} h" if "lo_launched s = None"
    using that assms(1) by (simp add: temporaryIds_def)
  ultimately show ?thesis
    by (auto simp: retireTemporary_def attempt_def intro!: assms(2) split: sum.splits option.splits prod.splits)
qed

lemma provision_wp:
  assumes "retiredBut {} h" and all: "\<And>h' r s'. retiredBut {} h' \<Longrightarrow> Q h' (r, s')"
  shows "wp (\<lambda>_ _. True) (provisionTemplate host options input existing img s) h Q"
proof -
  have tmp: "temporaryIds (s\<lparr>lo_launched := None, lo_finalized := True\<rparr>) = {}" by simp
  show ?thesis
    using assms(1)
    by (auto simp: provisionTemplate_def finally_do_def intro!: captureTemplate_wp publish_wp retire_wp all
        split: sum.splits)
qed

lemma prewarm_leased_wp:
  assumes "retiredBut {} h" and all: "\<And>h' r s'. retiredBut {} h' \<Longrightarrow> Q h' (r, s')"
  shows "wp (\<lambda>_ _. True) (prewarmTemplateWithLease host options input s) h Q"
  unfolding prewarmTemplateWithLease_def
  using assms(1)
  by (auto intro!: provision_wp all retiredBut_append split: sum.splits option.splits)

lemma prewarm_wp:
  "wp (\<lambda>_ _. True) (prewarmTemplate host options input s) [] (\<lambda>h _. retiredBut {} h)"
proof -
  have [simp]: "retiredBut {} []" by (simp add: retiredBut_def)
  show ?thesis
    by (auto simp: prewarmTemplate_def finally_do_def retiredBut_def
        intro!: prewarm_leased_wp split: sum.splits)
qed

section \<open>The properties\<close>

lemma conclude_later: "A \<and> (B \<longrightarrow> R) \<Longrightarrow> (R \<Longrightarrow> X) \<Longrightarrow> A \<and> (B \<longrightarrow> X)"
  by blast

lemma send_calls:
  assumes "\<And>h. P h (ApiRun request)" "\<And>h c. (\<forall>request. c \<noteq> ApiRun request) \<Longrightarrow> P h c"
  shows "wp P (sendRequest options input activation request s) h (\<lambda>_ _. True)"
  by (auto simp: sendRequest_def lateResult_def whenLeased_def updateLaunch_def attempt_def assms split: sum.splits option.splits)

text \<open>C15. A MicroVM that arrives after its launch was given up is terminated only as a recorded late launch:
  every termination is of that MicroVM, comes after an acknowledged lease state that names the launch and the
  MicroVM, and the lease is changed only when the state read with it still has that launch pending, so a
  MicroVM that a successor may have adopted is left alone.\<close>

theorem late_launch_retired_after_record:
  assumes "runIo (lateMicrovm host options sessionKey launchId microvmId s) answers = (t, r)" "i < length t"
  shows "(\<forall>vm. fst (t ! i) = ApiTerminate vm \<longrightarrow> vm = microvmId \<and>
      (\<exists>j<i. \<exists>state l. t ! j = (LeaseUpdateState state, Some NothingGiven) \<and>
         sa_launch state = Some l \<and> la_id l = launchId \<and> la_microvmId l = Some microvmId)) \<and>
    (\<forall>state. fst (t ! i) = LeaseUpdateState state \<longrightarrow>
      (\<exists>j<i. \<exists>g held l. t ! j = (LeaseAcquire (sessionLeaseKey host options sessionKey), Some (LeaseGiven g (Some held))) \<and>
         sa_launch held = Some l \<and> la_id l = launchId))"
proof -
  have c: "lateCall (sessionLeaseKey host options sessionKey) launchId microvmId (answered (take i t)) (fst (t ! i))"
    using trace_rule[OF late_wp assms] .
  have "\<exists>j<i. \<exists>g held l. t ! j = (LeaseAcquire (sessionLeaseKey host options sessionKey), Some (LeaseGiven g (Some held))) \<and>
      sa_launch held = Some l \<and> la_id l = launchId"
    if "list_ex (pendingLaunch (sessionLeaseKey host options sessionKey) launchId) (answered (take i t))"
    using that answered_take[of _ _ i t] assms(2) by (fastforce simp: list_ex_iff pendingLaunch_def)
  moreover have "\<exists>j<i. \<exists>state l. t ! j = (LeaseUpdateState state, Some NothingGiven) \<and>
      sa_launch state = Some l \<and> la_id l = launchId \<and> la_microvmId l = Some microvmId"
    if "recorded (recordsMicrovm launchId microvmId) (answered (take i t))"
    using recorded_take[OF that assms(2)] by (auto simp: recordsMicrovm_def)
  ultimately show ?thesis using c unfolding lateCall_def by blast
qed

text \<open>C13. Opening a session records before it acts: a launch request is sent only after the lease acknowledged
  a state with exactly that request, and a MicroVM is terminated only when the lease state the session
  started from names it or the lease acknowledged a state that names it. (The lease fails closed: after a
  failed call of the lease no later one succeeds.)\<close>

theorem launch_recorded_first:
  assumes "runIo (createLeasedSession host options templateKey sessionKey existing s) answers = (t, r)" "i < length t"
  shows "(\<forall>request. fst (t ! i) = ApiRun request \<longrightarrow>
      (\<exists>j<i. \<exists>state l. t ! j = (LeaseUpdateState state, Some NothingGiven) \<and> sa_launch state = Some l \<and> la_request l = Some request)) \<and>
    (\<forall>vm. fst (t ! i) = ApiTerminate vm \<and> failsClosed (answered (take i t)) \<longrightarrow>
      Option.bind (Option.bind (lo_leaseState s) sa_launch) la_microvmId = Some vm \<or>
      (\<exists>j<i. \<exists>state l. t ! j = (LeaseUpdateState state, Some NothingGiven) \<and> sa_launch state = Some l \<and> la_microvmId l = Some vm))"
proof -
  have c: "launchCall (knownMicrovm s) (answered (take i t)) (fst (t ! i))"
    using trace_rule[OF leased_wp assms] .
  have "\<exists>j<i. \<exists>state l. t ! j = (LeaseUpdateState state, Some NothingGiven) \<and> sa_launch state = Some l \<and> la_request l = Some request"
    if "recorded (recordsRequest request) (answered (take i t))" for request
    using recorded_take[OF that assms(2)] by (auto simp: recordsRequest_def)
  moreover have "\<exists>j<i. \<exists>state l. t ! j = (LeaseUpdateState state, Some NothingGiven) \<and> sa_launch state = Some l \<and> la_microvmId l = Some vm"
    if "recorded (recordsVm vm) (answered (take i t))" for vm
    using recorded_take[OF that assms(2)] by (auto simp: recordsVm_def)
  ultimately show ?thesis using c by (fastforce simp: launchCall_def knownMicrovm_def)
qed

text \<open>C17. A retry sends the saved request again and no other, with the image, connectors and limits that
  the backend would ask for now; a launch without a saved request is sent with the launch id as its token.\<close>

theorem retry_replays_request:
  assumes "ri_withLease input" "lo_leaseState s = Some state" "sa_launch state = Some l"
    and "runIo (runMicrovmWithAuthority host options input s) answers = (t, r)" "(ApiRun request, a) \<in> set t"
  shows "(case la_request l of Some saved \<Rightarrow> request = saved | None \<Rightarrow> rr_clientToken request = la_id l) \<and>
    requestConfig request = requestConfig (proposedRequest options input [] [])"
proof -
  define base where "base = requestConfig (proposedRequest options input [] [])"
  have config: "requestConfig (proposedRequest options input token payload) = base"
    and token: "rr_clientToken (proposedRequest options input token payload) = token" for token payload
    by (simp_all add: base_def requestConfig_def proposedRequest_def)
  have w: "wp (\<lambda>h c. \<forall>request. c = ApiRun request \<longrightarrow>
      (case la_request l of Some saved \<Rightarrow> request = saved | None \<Rightarrow> rr_clientToken request = la_id l) \<and>
      requestConfig request = base) (runMicrovmWithAuthority host options input s) [] (\<lambda>_ _. True)"
    using assms(1-3)
    by (auto simp: runMicrovmWithAuthority_def whenLeased_def savedLaunch_def Let_def
        config token intro!: send_calls activationFor_wp split: sum.splits option.splits)
  obtain i where "i < length t" "t ! i = (ApiRun request, a)" using assms(5) by (auto simp: in_set_conv_nth)
  then show ?thesis using trace_rule[OF w assms(4), of i] by (simp add: base_def)
qed


text \<open>C16. Through the whole life of a handle, whatever operations it performs and whatever the services answer,
  deletion clears first and touches only its own objects: the authority in the lease is cleared only
  after the termination of the MicroVM was asked for and answered; when the handle never captures, the
  answer was that the MicroVM is gone, and after a capture it may also be that capture's failed
  termination, which is not asked again. An object is deleted only after the authority was cleared,
  and only when it is a checkpoint below the session's own prefix, or the session's manifest in the
  version that was read when it was opened.\<close>

theorem delete_own_objects_last:
  assumes "runIo (useHandle host options sessionKey opened ops s) answers = (t, r)" "\<not> lo_controllerPaused s" "i < length t"
  shows "(fst (t ! i) = LeaseUpdateState \<lparr>sa_metadata = None, sa_launch = None\<rparr> \<longrightarrow>
      (\<exists>j<i. \<exists>a. t ! j = (ApiTerminate (mv_microvmId (lm_microvm (os_launched opened))), Some a) \<and>
         ((\<forall>e. a = Threw e \<longrightarrow> isAbsent e) \<or> HandleCapture \<in> set ops \<or> HandleStop \<in> set ops))) \<and>
    (\<forall>key e. fst (t ! i) = StorageDelete key e \<longrightarrow> deletableObject host options sessionKey opened key e \<and>
      (\<exists>j<i. t ! j = (LeaseUpdateState \<lparr>sa_metadata = None, sa_launch = None\<rparr>, Some NothingGiven)))"
proof -
  have "handleInv (captures ops) opened [] s" using assms(2) by (simp add: handleInv_def)
  then have w: "wp (deleteCall host options sessionKey opened (captures ops)) (useHandle host options sessionKey opened ops s) []
      (\<lambda>h' r. handleInv (captures ops) opened h' (snd r))"
    by (rule keeps_apply[OF use_handle])
  have c: "deleteCall host options sessionKey opened (captures ops) (answered (take i t)) (fst (t ! i))"
    using trace_rule[OF w assms(1,3)] .
  have clear: "\<exists>j<i. t ! j = (LeaseUpdateState cleared, Some NothingGiven)"
    if "recorded (\<lambda>state. state = cleared) (answered (take i t))"
    using recorded_take[OF that assms(3)] by blast
  have gone: "\<exists>j<i. \<exists>a. t ! j = (ApiTerminate vm, Some a) \<and>
      ((\<forall>e. a = Threw e \<longrightarrow> isAbsent e) \<or> HandleCapture \<in> set ops \<or> HandleStop \<in> set ops)"
    if ended: "givenUp (captures ops) vm (answered (take i t))" for vm
  proof -
    obtain b a where x: "(b, a) \<in> set (answered (take i t))" "givesUp (captures ops) vm (b, a)"
      using ended unfolding givenUp_def list_ex_iff by fast
    then have "b = ApiTerminate vm" "(\<forall>e. a = Threw e \<longrightarrow> isAbsent e) \<or> captures ops"
      by (auto simp: givesUp_def split: MicrovmAnswer.splits)
    with answered_take[OF x(1)] assms(3) show ?thesis by (auto simp: captures_def)
  qed
  show ?thesis
    using c[unfolded deleteCall_def] clear gone unfolding cleared_def by blast
qed

text \<open>C18. Prewarming leaves no MicroVM running: whatever the services answer, when the call is over, with a
  result or an error, and the handlers of late values have run, the termination of every MicroVM that it
  started has been asked for, those included that arrived after the launch had timed out.\<close>

theorem temporary_microvm_retired:
  assumes "runIo (prewarmTemplate host options input s) answers = (t, Some r)"
    and "(ApiRun request, Some a) \<in> set t" "a = MicrovmGiven m \<or> a = MicrovmLate m"
  shows "\<exists>b. (ApiTerminate (mv_microvmId m), Some b) \<in> set t"
proof -
  have "retiredBut {} (answered t)" using result_rule[OF prewarm_wp assms(1)] .
  moreover have "(ApiRun request, a) \<in> set (answered t)" using assms(2) by (rule answered_member)
  then have "mv_microvmId m \<in> startedIds (answered t)"
    using assms(3) unfolding startedIds_def by blast
  ultimately show ?thesis by (auto simp: retiredBut_def endedIds_def answered_def)
qed

text \<open>A failed start of the upload leaves the guest prepared: it is neither released nor committed.\<close>

lemma failed_upload_start_keeps_prepared:
  assumes "pr_dirty p" "pr_checkpointId p = Some cid" "pr_partCount p = Some n" "pr_partSha256s p = Some shas"
    "pr_sha256 p = Some sha" "pr_size p = Some len"
  shows "\<exists>key. runIo (uploadCheckpoint generation prefix s) [PreparationGiven p, Threw e] =
    ([(ControllerPrepare, Some (PreparationGiven p)), (StorageCreateUpload key, Some (Threw e))],
     Some (Inl (ServiceThrew e), s))"
  using assms
  by (simp add: uploadCheckpoint_def seq_def asking_def ask_def answerAs_def expectDefined_def throw_def ret_def Let_def)

section \<open>Runs\<close>

definition exMicrovmHost :: MicrovmHost where
  "exMicrovmHost = \<lparr>mh_sha256 = (\<lambda>_. replicate 64 CHR ''a''), mh_numberText = (\<lambda>_. [])\<rparr>"

definition exMicrovmOptions :: MicrovmOptions where
  "exMicrovmOptions = \<lparr>op_applicationHash = replicate 64 CHR ''b'', op_artifactPrefix = ''p'', op_region = ''r'',
     op_customerManaged = False, op_activationProvider = False,
     op_buildEgressNetworkConnectorArns = [''e''], op_runtimeEgressNetworkConnectorArns = [''e''],
     op_buildNetworkLaneId = [], op_runtimeNetworkLaneId = [], op_httpIngressNetworkConnectorArn = ''i'',
     op_shellIngressNetworkConnectorArn = None, op_executionRoleArn = None, op_egressProxyCaSha256 = None,
     op_idlePolicy = \<lparr>ip_autoResumeEnabled = True, ip_maxIdleDurationSeconds = 60, ip_suspendedDurationSeconds = 60\<rparr>,
     op_runtimeLogging = None, op_maximumDurationSeconds = 3600\<rparr>"

definition exLocals :: MicrovmLocals where
  "exLocals = \<lparr>lo_leaseHeld = True, lo_leaseGeneration = 1, lo_leaseState = None, lo_metadata = None,
     lo_captured = False, lo_controllerPaused = False, lo_shutDown = False, lo_finalized = True,
     lo_launched = None, lo_late = None\<rparr>"

definition exTemplate :: TemplateDescriptor where
  "exTemplate = \<lparr>td_checkpoint = None, td_configHash = ''c'', td_controllerProtocolVersion = 2,
     td_egressProxyCaSha256 = None, td_imageArn = ''image'', td_imageVersion = ''1'', td_region = ''r'',
     td_templateHash = replicate 64 CHR ''a''\<rparr>"

definition exVm :: Microvm where
  "exVm = \<lparr>mv_microvmId = ''vm'', mv_imageArn = ''image'', mv_imageVersion = ''1'', mv_egressNetworkConnectorArns = [''e'']\<rparr>"

definition exLaunch :: PendingLaunch where
  "exLaunch = \<lparr>la_id = ''launch'', la_request = None, la_activation = None, la_microvmId = None\<rparr>"

definition exOpened :: OpenedSession where
  "exOpened = \<lparr>os_source = exTemplate,
     os_launched = \<lparr>lm_microvm = exVm, lm_activation = None, lm_egressProxyCaSha256 = None\<rparr>,
     os_storedSession = Some \<lparr>so_etag = ''e1'', so_value = JNull\<rparr>\<rparr>"

definition exLateRun :: "(MicrovmCall, MicrovmAnswer) trace \<times> ((Failure + unit) \<times> MicrovmLocals) option" where
  "exLateRun = runIo (lateMicrovm exMicrovmHost exMicrovmOptions ''s'' ''launch'' ''vm'' exLocals)
     [NothingGiven, LeaseGiven 2 (Some \<lparr>sa_metadata = None, sa_launch = Some exLaunch\<rparr>), NothingGiven, NothingGiven]"

lemma exLateRun_calls:
  "length (fst exLateRun) = 5" "fst (fst exLateRun ! 3) = ApiTerminate ''vm''"
  by code_simp+

theorem late_launch_retired_after_record_witness:
  "fst (fst exLateRun ! 3) = ApiTerminate ''vm'' \<and>
   (\<exists>j<3. \<exists>state l. fst exLateRun ! j = (LeaseUpdateState state, Some NothingGiven) \<and>
      sa_launch state = Some l \<and> la_id l = ''launch'' \<and> la_microvmId l = Some ''vm'')"
proof -
  have run: "runIo (lateMicrovm exMicrovmHost exMicrovmOptions ''s'' ''launch'' ''vm'' exLocals)
     [NothingGiven, LeaseGiven 2 (Some \<lparr>sa_metadata = None, sa_launch = Some exLaunch\<rparr>), NothingGiven, NothingGiven]
     = (fst exLateRun, snd exLateRun)" by (simp add: exLateRun_def)
  show ?thesis using late_launch_retired_after_record[OF run, of 3] exLateRun_calls by simp
qed

definition exLaunchAnswers :: "MicrovmAnswer list" where
  "exLaunchAnswers = [JsonGiven (Some \<lparr>so_etag = ''t'', so_value = JObject (templateMembers exTemplate)\<rparr>), JsonGiven None,
     NothingGiven, NothingGiven, NothingGiven, NothingGiven, NothingGiven, MicrovmGiven exVm]"

definition exLaunchRun :: "(MicrovmCall, MicrovmAnswer) trace \<times> ((Failure + OpenedSession) \<times> MicrovmLocals) option" where
  "exLaunchRun = runIo (createLeasedSession exMicrovmHost exMicrovmOptions ''t'' ''s'' None exLocals) exLaunchAnswers"

lemma exLaunchRun_calls:
  "length (fst exLaunchRun) = 9"
  "(case fst (fst exLaunchRun ! 7) of ApiRun request \<Rightarrow> rr_imageArn request = ''image'' | _ \<Rightarrow> False)"
  by code_simp+

theorem launch_recorded_first_witness:
  "\<exists>request. fst (fst exLaunchRun ! 7) = ApiRun request \<and>
     (\<exists>j<7. \<exists>state l. fst exLaunchRun ! j = (LeaseUpdateState state, Some NothingGiven) \<and>
        sa_launch state = Some l \<and> la_request l = Some request)"
proof -
  have run: "runIo (createLeasedSession exMicrovmHost exMicrovmOptions ''t'' ''s'' None exLocals) exLaunchAnswers
     = (fst exLaunchRun, snd exLaunchRun)" by (simp add: exLaunchRun_def)
  obtain request where "fst (fst exLaunchRun ! 7) = ApiRun request"
    using exLaunchRun_calls(2) by (simp split: MicrovmCall.splits)
  then show ?thesis using launch_recorded_first[OF run, of 7] exLaunchRun_calls(1) by simp
qed

definition exRunInput :: RunInput where
  "exRunInput = \<lparr>ri_withLease = True, ri_egressNetworkConnectorArns = [''e''], ri_egressProxyCaSha256 = None,
     ri_imageArn = ''image'', ri_imageVersion = ''1'', ri_purposeKey = ''s'', ri_replacementOf = None, ri_isSession = True\<rparr>"

definition exSaved :: RunRequest where
  "exSaved = proposedRequest exMicrovmOptions exRunInput ''launch'' ''payload''"

definition exRetryLaunch :: PendingLaunch where
  "exRetryLaunch = exLaunch\<lparr>la_request := Some exSaved\<rparr>"

definition exRetryState :: SessionAuthority where
  "exRetryState = \<lparr>sa_metadata = None, sa_launch = Some exRetryLaunch\<rparr>"

definition exRetryRun :: "(MicrovmCall, MicrovmAnswer) trace \<times> ((Failure + LaunchedMicrovm) \<times> MicrovmLocals) option" where
  "exRetryRun = runIo (runMicrovmWithAuthority exMicrovmHost exMicrovmOptions exRunInput (exLocals\<lparr>lo_leaseState := Some exRetryState\<rparr>))
     [NothingGiven, NothingGiven, NothingGiven, MicrovmGiven exVm]"

lemma exRetryRun_calls:
  "length (fst exRetryRun) = 5"
  "(case fst (fst exRetryRun ! 3) of ApiRun request \<Rightarrow> True | _ \<Rightarrow> False)"
  by code_simp+

theorem retry_replays_request_witness: "\<exists>a. (ApiRun exSaved, a) \<in> set (fst exRetryRun)"
proof -
  have run: "runIo (runMicrovmWithAuthority exMicrovmHost exMicrovmOptions exRunInput (exLocals\<lparr>lo_leaseState := Some exRetryState\<rparr>))
     [NothingGiven, NothingGiven, NothingGiven, MicrovmGiven exVm] = (fst exRetryRun, snd exRetryRun)"
    by (simp add: exRetryRun_def)
  obtain request where r: "fst (fst exRetryRun ! 3) = ApiRun request"
    using exRetryRun_calls(2) by (simp split: MicrovmCall.splits)
  then have mem: "(ApiRun request, snd (fst exRetryRun ! 3)) \<in> set (fst exRetryRun)"
    using exRetryRun_calls(1) nth_mem[of 3 "fst exRetryRun"] by (cases "fst exRetryRun ! 3") simp
  have "ri_withLease exRunInput" "lo_leaseState (exLocals\<lparr>lo_leaseState := Some exRetryState\<rparr>) = Some exRetryState"
    "sa_launch exRetryState = Some exRetryLaunch" by (simp_all add: exRunInput_def exRetryState_def)
  from retry_replays_request[OF this run mem] have "request = exSaved" by (simp add: exRetryLaunch_def)
  with mem show ?thesis by blast
qed

definition exPart :: UploadedPart where
  "exPart = \<lparr>up_etag = ''x'', up_partNumber = 1, up_sha256 = None\<rparr>"

definition exCaptureAnswers :: "MicrovmAnswer list" where
  "exCaptureAnswers = [NothingGiven, NothingGiven, TextGiven ''u'',
     PreparationGiven \<lparr>pr_dirty = True, pr_checkpointId = Some ''ck'', pr_partCount = Some 1, pr_partSha256s = Some [''h''],
       pr_sha256 = Some ''hh'', pr_size = Some 9\<rparr>,
     TextGiven ''upload'', TextsGiven [''url''], PartsGiven [exPart], EtagGiven None,
     InfoGiven (Some \<lparr>oi_etag = None, oi_size = 9\<rparr>), TextGiven ''m'', NothingGiven, NothingGiven, NothingGiven, NothingGiven]"

definition exCaptureRun :: "(MicrovmCall, MicrovmAnswer) trace \<times> ((Failure + SessionMetadata) \<times> MicrovmLocals) option" where
  "exCaptureRun = runIo (capture exMicrovmHost exMicrovmOptions ''s'' exOpened exLocals) exCaptureAnswers"

lemma exCaptureRun_calls: "length (fst exCaptureRun) = 15" "fst (fst exCaptureRun ! 13) = ApiTerminate ''vm''"
  by code_simp+


definition exDeleteRun :: "(MicrovmCall, MicrovmAnswer) trace \<times> ((Failure + unit) \<times> MicrovmLocals) option" where
  "exDeleteRun = runIo (useHandle exMicrovmHost exMicrovmOptions ''s'' exOpened [HandleMutation, HandleDelete] exLocals)
     (replicate 8 NothingGiven)"

lemma exDeleteRun_calls:
  "length (fst exDeleteRun) = 9" "\<not> lo_controllerPaused exLocals"
  "fst (fst exDeleteRun ! 7) = StorageDelete (sessionManifestKey exMicrovmHost exMicrovmOptions ''s'') (Some ''e1'')"
  by code_simp+

theorem delete_own_objects_last_witness:
  "\<exists>j<7. fst exDeleteRun ! j = (LeaseUpdateState \<lparr>sa_metadata = None, sa_launch = None\<rparr>, Some NothingGiven)"
proof -
  have run: "runIo (useHandle exMicrovmHost exMicrovmOptions ''s'' exOpened [HandleMutation, HandleDelete] exLocals)
     (replicate 8 NothingGiven) = (fst exDeleteRun, snd exDeleteRun)" by (simp add: exDeleteRun_def)
  from delete_own_objects_last[OF run, of 7] exDeleteRun_calls show ?thesis by simp
qed

text \<open>
  The case that a capture leaves open: its checkpoint is recorded, the termination of the MicroVM fails, and
  the deletion that follows does not ask for it again. It clears the authority and returns, and no
  call of the run has ended the MicroVM.
\<close>

definition exFailedRetirement :: "(MicrovmCall, MicrovmAnswer) trace \<times> ((Failure + unit) \<times> MicrovmLocals) option" where
  "exFailedRetirement = runIo (useHandle exMicrovmHost exMicrovmOptions ''s'' exOpened [HandleCapture, HandleDelete]
       (exLocals\<lparr>lo_leaseGeneration := 2\<rparr>))
     (take 13 exCaptureAnswers @ [Threw None] @ replicate 8 NothingGiven)"

lemma delete_after_failed_retirement:
  "list_all (\<lambda>x. case x of (ApiTerminate vm, a) \<Rightarrow> (case a of Some (Threw e) \<Rightarrow> \<not> isAbsent e | _ \<Rightarrow> False) | _ \<Rightarrow> True)
     (fst exFailedRetirement)"
  "list_ex (\<lambda>x. case x of (LeaseUpdateState a, Some NothingGiven) \<Rightarrow> sa_metadata a = None \<and> sa_launch a = None | _ \<Rightarrow> False)
     (fst exFailedRetirement)"
  "(case snd exFailedRetirement of Some (r, s) \<Rightarrow> isl r = False \<and> lo_shutDown s \<and> lo_metadata s = None | None \<Rightarrow> False)"
  by code_simp+

definition exPrewarmAnswers :: "MicrovmAnswer list" where
  "exPrewarmAnswers = [NothingGiven, LeaseGiven 1 None, JsonGiven None,
     ImageGiven \<lparr>im_imageArn = ''image'', im_imageVersion = ''1'', im_configHash = ''c''\<rparr>,
     TextGiven ''token'', MicrovmLate exVm, Threw None, NothingGiven]"

definition exPrewarmRun :: "(MicrovmCall, MicrovmAnswer) trace \<times> ((Failure + bool) \<times> MicrovmLocals) option" where
  "exPrewarmRun = runIo (prewarmTemplate exMicrovmHost exMicrovmOptions \<lparr>pi_templateKey = ''t'', pi_bootstrap = True, pi_seedFiles = []\<rparr> exLocals) exPrewarmAnswers"

lemma exPrewarmRun_calls:
  "length (fst exPrewarmRun) = 8" "snd exPrewarmRun \<noteq> None"
  "(case fst exPrewarmRun ! 5 of (ApiRun request, Some (MicrovmLate m)) \<Rightarrow> mv_microvmId m = ''vm'' | _ \<Rightarrow> False)"
  by code_simp+

theorem temporary_microvm_retired_witness: "\<exists>a. (ApiTerminate ''vm'', Some a) \<in> set (fst exPrewarmRun)"
proof -
  obtain r where "snd exPrewarmRun = Some r" using exPrewarmRun_calls(2) by auto
  then have run: "runIo (prewarmTemplate exMicrovmHost exMicrovmOptions \<lparr>pi_templateKey = ''t'', pi_bootstrap = True, pi_seedFiles = []\<rparr> exLocals)
      exPrewarmAnswers = (fst exPrewarmRun, Some r)" by (simp add: exPrewarmRun_def prod_eq_iff)
  obtain request m where "fst exPrewarmRun ! 5 = (ApiRun request, Some (MicrovmLate m))" "mv_microvmId m = ''vm''"
    using exPrewarmRun_calls(3) by (simp split: prod.splits MicrovmCall.splits option.splits MicrovmAnswer.splits)
  then show ?thesis
    using temporary_microvm_retired[OF run, of request "MicrovmLate m" m] exPrewarmRun_calls(1)
      nth_mem[of 5 "fst exPrewarmRun"] by simp
qed

end
