(* ===== verification/Paths.thy ===== *)
theory Paths
  imports Prelude
begin

text \<open>
  Slash-separated paths and the parts of Node's \<open>posix\<close> module that the code uses: \<open>normalize\<close> of an
  absolute path, which keeps a trailing slash, and \<open>resolve\<close> against an absolute directory, which drops
  it. A \<open>..\<close> at the root stays at the root.
\<close>

fun pathSegments :: "string \<Rightarrow> string list" where
  "pathSegments [] = [[]]"
| "pathSegments (c # cs) =
     (if c = CHR ''/'' then [] # pathSegments cs
      else (case pathSegments cs of [] \<Rightarrow> [[c]] | s # ss \<Rightarrow> (c # s) # ss))"

fun joinSegments :: "string list \<Rightarrow> string" where
  "joinSegments [] = []"
| "joinSegments [s] = s"
| "joinSegments (s # ss) = s @ CHR ''/'' # joinSegments ss"

definition resolveSegment :: "string list \<Rightarrow> string \<Rightarrow> string list" where
  "resolveSegment done' s = (if s = [] \<or> s = ''.'' then done' else if s = ''..'' then butlast done' else done' @ [s])"

definition normalSegments :: "string list \<Rightarrow> string list" where
  "normalSegments ss = foldl resolveSegment [] ss"

definition isAbsolute :: "string \<Rightarrow> bool" where
  "isAbsolute path \<longleftrightarrow> startsWith path ''/''"

definition posixNormalize :: "string \<Rightarrow> string" where
  "posixNormalize path = (case normalSegments (pathSegments path) of
     [] \<Rightarrow> ''/''
   | ss \<Rightarrow> ''/'' @ joinSegments ss @ (if last path = CHR ''/'' then ''/'' else []))"

definition posixResolve :: "string \<Rightarrow> string \<Rightarrow> string" where
  "posixResolve base path =
     ''/'' @ joinSegments (normalSegments (pathSegments (if isAbsolute path then path else base @ ''/'' @ path)))"

text \<open>A segment of a normal path.\<close>

definition plainSegment :: "string \<Rightarrow> bool" where
  "plainSegment s \<longleftrightarrow> s \<noteq> [] \<and> s \<noteq> ''.'' \<and> s \<noteq> ''..'' \<and> CHR ''/'' \<notin> set s"

lemma pathSegments_nonempty [simp]: "pathSegments p \<noteq> []"
  by (cases p) (auto split: list.split)

lemma pathSegments_no_slash: "s \<in> set (pathSegments p) \<Longrightarrow> CHR ''/'' \<notin> set s"
proof (induction p arbitrary: s)
  case (Cons c cs)
  then show ?case by (cases "pathSegments cs") (auto split: if_splits)
qed simp

lemma pathSegments_plain: "CHR ''/'' \<notin> set s \<Longrightarrow> pathSegments s = [s]"
  by (induction s) auto

lemma pathSegments_append: "CHR ''/'' \<notin> set s \<Longrightarrow> pathSegments (s @ CHR ''/'' # p) = s # pathSegments p"
  by (induction s) auto

lemma pathSegments_join:
  "ss \<noteq> [] \<Longrightarrow> \<forall>s\<in>set ss. CHR ''/'' \<notin> set s \<Longrightarrow> pathSegments (joinSegments ss) = ss"
  by (induction ss rule: joinSegments.induct) (auto simp: pathSegments_plain pathSegments_append)

lemma pathSegments_join_slash:
  "ss \<noteq> [] \<Longrightarrow> \<forall>s\<in>set ss. CHR ''/'' \<notin> set s \<Longrightarrow> pathSegments (joinSegments ss @ ''/'') = ss @ [[]]"
  by (induction ss rule: joinSegments.induct) (auto simp: pathSegments_append)

lemma normalSegments_plain: "\<forall>s\<in>set ss. CHR ''/'' \<notin> set s \<Longrightarrow> \<forall>s\<in>set (normalSegments ss). plainSegment s"
proof -
  have "\<forall>s\<in>set acc. plainSegment s \<Longrightarrow> \<forall>s\<in>set ss. CHR ''/'' \<notin> set s \<Longrightarrow>
      \<forall>s\<in>set (foldl resolveSegment acc ss). plainSegment s" for acc
  proof (induction ss arbitrary: acc)
    case (Cons s ss)
    have "\<forall>x\<in>set (resolveSegment acc s). plainSegment x"
      using Cons.prems by (auto simp: resolveSegment_def plainSegment_def dest: in_set_butlastD)
    with Cons show ?case by simp
  qed simp
  from this[of "[]"] show "\<forall>s\<in>set ss. CHR ''/'' \<notin> set s \<Longrightarrow> ?thesis" by (simp add: normalSegments_def)
qed

lemma normalSegments_path: "\<forall>s\<in>set (normalSegments (pathSegments p)). plainSegment s"
  by (rule normalSegments_plain) (simp add: pathSegments_no_slash)

lemma normalSegments_id: "\<forall>s\<in>set ss. plainSegment s \<Longrightarrow> normalSegments ss = ss"
proof -
  have "\<forall>s\<in>set ss. plainSegment s \<Longrightarrow> foldl resolveSegment acc ss = acc @ ss" for acc
    by (induction ss arbitrary: acc) (auto simp: resolveSegment_def plainSegment_def)
  from this[of "[]"] show "\<forall>s\<in>set ss. plainSegment s \<Longrightarrow> ?thesis" by (simp add: normalSegments_def)
qed

lemma normalSegments_empty [simp]:
  "normalSegments ([] # ss) = normalSegments ss" "normalSegments (ss @ [[]]) = normalSegments ss"
  by (simp_all add: normalSegments_def resolveSegment_def)

text \<open>A normal path: the root, or plain segments, with or without a slash at the end.\<close>

definition normalPath :: "string \<Rightarrow> bool" where
  "normalPath p \<longleftrightarrow> (\<exists>ss. (\<forall>s\<in>set ss. plainSegment s) \<and>
     (p = ''/'' @ joinSegments ss \<or> ss \<noteq> [] \<and> p = ''/'' @ joinSegments ss @ ''/''))"

lemma posixNormalize_normal: "normalPath (posixNormalize p)"
  using normalSegments_path[of p]
  by (auto simp: posixNormalize_def normalPath_def split: list.split intro: exI[of _ "[]"])

lemma posixResolve_normal: "normalPath (posixResolve base p)"
  using normalSegments_path by (auto simp: posixResolve_def normalPath_def)

lemma join_last: "ss \<noteq> [] \<Longrightarrow> \<forall>s\<in>set ss. plainSegment s \<Longrightarrow> joinSegments ss \<noteq> [] \<and> last (joinSegments ss) \<noteq> CHR ''/''"
proof (induction ss rule: joinSegments.induct)
  case (2 s)
  then show ?case by (auto simp: plainSegment_def) (metis last_in_set)
qed (auto simp: plainSegment_def)

lemma posixNormalize_idem: "normalPath p \<Longrightarrow> posixNormalize p = p"
proof -
  assume "normalPath p"
  then obtain ss where ss: "\<forall>s\<in>set ss. plainSegment s"
    and p: "p = ''/'' @ joinSegments ss \<or> ss \<noteq> [] \<and> p = ''/'' @ joinSegments ss @ ''/''"
    by (auto simp: normalPath_def)
  from ss have slash: "\<forall>s\<in>set ss. CHR ''/'' \<notin> set s" by (simp add: plainSegment_def)
  show "posixNormalize p = p"
  proof (cases "ss = []")
    case True
    with p show ?thesis by (simp add: posixNormalize_def normalSegments_def resolveSegment_def)
  next
    case False
    from p show ?thesis
    proof
      assume "p = ''/'' @ joinSegments ss"
      then show ?thesis
        using False ss slash join_last[OF False ss]
        by (auto simp: posixNormalize_def pathSegments_join normalSegments_id split: list.split)
    next
      assume "ss \<noteq> [] \<and> p = ''/'' @ joinSegments ss @ ''/''"
      then show ?thesis
        using False ss slash
        by (auto simp: posixNormalize_def pathSegments_join_slash normalSegments_id split: list.split)
    qed
  qed
qed

end
