(* ===== verification/Microvm_Surface.thy ===== *)
theory Microvm_Surface
  imports Microvm_Session_Rules Paths
begin

text \<open>
  The operations on the files and processes of a session (\<open>session.ts\<close> of
  \<open>packages/eve-aws-lambda-microvms/src\<close>), as \<open>backend.ts\<close> wires them: before each operation the handle
  must be active, and a mutation marks the session as not captured. Text encodings are parameters; a
  decoder may throw. The streams of a process and of the caller are their bytes.
\<close>

section \<open>Paths and lines\<close>

definition resolvePath :: "string \<Rightarrow> string" where
  "resolvePath path =
     (if path = ''$HOME'' then ''/root''
      else if startsWith path ''$HOME/'' then posixResolve ''/root'' (drop 6 path)
      else if isAbsolute path then posixNormalize path
      else posixResolve ''/workspace'' path)"

record TextHost =
  th_decode :: "string \<Rightarrow> byte list \<Rightarrow> string option"
  th_encode :: "string \<Rightarrow> string \<Rightarrow> byte list"
  th_decodeLoosely :: "byte list \<Rightarrow> string"

text \<open>Line numbers are JavaScript numbers.\<close>

record ReadTextOptions =
  rt_path :: string
  rt_encoding :: "string option"
  rt_startLine :: "rat option"
  rt_endLine :: "rat option"

definition isPositiveInteger :: "rat \<Rightarrow> bool" where
  "isPositiveInteger x \<longleftrightarrow> x = of_int \<lfloor>x\<rfloor> \<and> 1 \<le> x"

definition validReadTextFileOptions :: "ReadTextOptions \<Rightarrow> bool" where
  "validReadTextFileOptions options \<longleftrightarrow>
     optionally isPositiveInteger (rt_startLine options) \<and>
     optionally isPositiveInteger (rt_endLine options) \<and>
     (case (rt_startLine options, rt_endLine options) of (Some a, Some b) \<Rightarrow> a \<le> b | _ \<Rightarrow> True)"

text \<open>The matches of \<open>/.*?(?:\r\n|\r|\n|$)/g\<close> that are not empty: the lines with their ends.\<close>

fun textLines :: "string \<Rightarrow> string list" where
  "textLines [] = []"
| "textLines (c # cs) =
     (if c = CHR 0x0D then
        (case cs of
           [] \<Rightarrow> [[c]]
         | d # ds \<Rightarrow> if d = CHR 0x0A then [c, d] # textLines ds else [c] # textLines cs)
      else if c = CHR 0x0A then [c] # textLines cs
      else (case textLines cs of [] \<Rightarrow> [[c]] | l # ls \<Rightarrow> (c # l) # ls))"

definition applyLineRange :: "string \<Rightarrow> ReadTextOptions \<Rightarrow> string" where
  "applyLineRange content options =
     (if rt_startLine options = None \<and> rt_endLine options = None then content
      else
        let lines = textLines content;
            start = (case rt_startLine options of None \<Rightarrow> 1 | Some a \<Rightarrow> nat \<lfloor>a\<rfloor>);
            end' = min (case rt_endLine options of None \<Rightarrow> length lines | Some b \<Rightarrow> nat \<lfloor>b\<rfloor>) (length lines)
        in if length lines < start then [] else concat (take (end' - (start - 1)) (drop (start - 1) lines)))"

section \<open>Operations\<close>

datatype SandboxOperation =
    Spawn string "(string \<times> string) list option" "string option"
  | Run string "(string \<times> string) list option" "string option"
  | ReadFile string
  | ReadBinaryFile string
  | ReadTextFile ReadTextOptions
  | WriteFile string
  | WriteBinaryFile string "byte list"
  | WriteTextFile string "string option" string
  | WriteFiles "(string \<times> byte list) list"
  | RemovePath string "bool option" "bool option"
  | SetNetworkPolicy

datatype SandboxResult =
    NoResult
  | RunResult int string string
  | FileBytes "byte list option"
  | FileText "string option"

definition spawnProcess ::
  "unit action \<Rightarrow> string \<Rightarrow> (string \<times> string) list option \<Rightarrow> string option \<Rightarrow> unit action" where
  "spawnProcess mutation command env directory = seq mutation (\<lambda>_.
     asking (ControllerSpawn command env
       (resolvePath (case directory of None \<Rightarrow> ''/workspace'' | Some d \<Rightarrow> d))) asNothing)"

definition writeFiles :: "(string \<times> byte list) list \<Rightarrow> unit action" where
  "writeFiles files = forEach (\<lambda>f. asking (ControllerWriteFile (resolvePath (fst f)) (snd f)) asNothing) files"

fun sandboxOperation ::
  "TextHost \<Rightarrow> unit action \<Rightarrow> unit action \<Rightarrow> SandboxOperation \<Rightarrow> SandboxResult action" where
  "sandboxOperation texts before mutation (Spawn command env directory) =
     seq (spawnProcess mutation command env directory) (\<lambda>_. ret NoResult)"
| "sandboxOperation texts before mutation (Run command env directory) =
     seq (spawnProcess mutation command env directory) (\<lambda>_.
     seq (asking ControllerWaitProcess asProcess) (\<lambda>(stdout, stderr, code).
     ret (RunResult code (th_decodeLoosely texts stderr) (th_decodeLoosely texts stdout))))"
| "sandboxOperation texts before mutation (ReadFile path) =
     seq before (\<lambda>_. seq (asking (ControllerReadFile (resolvePath path)) asBytes) (\<lambda>b. ret (FileBytes b)))"
| "sandboxOperation texts before mutation (ReadBinaryFile path) =
     seq before (\<lambda>_. seq (asking (ControllerReadFile (resolvePath path)) asBytes) (\<lambda>b. ret (FileBytes b)))"
| "sandboxOperation texts before mutation (ReadTextFile options) =
     seq (check (validReadTextFileOptions options) InvalidLineRange) (\<lambda>_.
     seq before (\<lambda>_.
     seq (asking (ControllerReadFile (resolvePath (rt_path options))) asBytes) (\<lambda>b.
     case b of
       None \<Rightarrow> ret (FileText None)
     | Some bytes \<Rightarrow>
         (case th_decode texts (case rt_encoding options of None \<Rightarrow> ''utf-8'' | Some e \<Rightarrow> e) bytes of
            None \<Rightarrow> throw TextNotDecodable
          | Some text' \<Rightarrow> ret (FileText (Some (applyLineRange text' options)))))))"
| "sandboxOperation texts before mutation (WriteFile path) =
     seq mutation (\<lambda>_.
     seq (asking CallerContent asBytes) (\<lambda>content. case content of
       None \<Rightarrow> throw UnexpectedAnswer
     | Some bytes \<Rightarrow> seq (asking (ControllerWriteFile (resolvePath path) bytes) asNothing) (\<lambda>_. ret NoResult)))"
| "sandboxOperation texts before mutation (WriteBinaryFile path bytes) =
     seq mutation (\<lambda>_. seq (asking (ControllerWriteFile (resolvePath path) bytes) asNothing) (\<lambda>_. ret NoResult))"
| "sandboxOperation texts before mutation (WriteTextFile path encoding content) =
     seq mutation (\<lambda>_. seq (asking (ControllerWriteFile (resolvePath path)
       (th_encode texts (case encoding of None \<Rightarrow> ''utf-8'' | Some e \<Rightarrow> e) content)) asNothing) (\<lambda>_. ret NoResult))"
| "sandboxOperation texts before mutation (WriteFiles files) =
     seq mutation (\<lambda>_. seq (writeFiles files) (\<lambda>_. ret NoResult))"
| "sandboxOperation texts before mutation (RemovePath path force recursive) =
     seq mutation (\<lambda>_. seq (asking (ControllerRemovePath (resolvePath path) force recursive) asNothing) (\<lambda>_. ret NoResult))"
| "sandboxOperation texts before mutation SetNetworkPolicy = seq before (\<lambda>_. throw NetworkPolicyImmutable)"

text \<open>The session of a handle, and the one that a bootstrap runs in: without a lease, and with a command
  that exits with code 1 as an error (\<open>createLoggingSandboxSession\<close>).\<close>

definition handleOperation ::
  "MicrovmHost \<Rightarrow> TextHost \<Rightarrow> MicrovmOptions \<Rightarrow> string \<Rightarrow> SandboxOperation \<Rightarrow> SandboxResult action" where
  "handleOperation host texts options sessionKey operation =
     sandboxOperation texts (ensureActive host options sessionKey) (beforeMutation host options sessionKey) operation"

definition bootstrapOperation :: "TextHost \<Rightarrow> SandboxOperation \<Rightarrow> SandboxResult action" where
  "bootstrapOperation texts operation =
     seq (sandboxOperation texts (ret ()) (ret ()) operation) (\<lambda>r.
     case r of
       RunResult code stderr stdout \<Rightarrow> if code = 1 then throw BootstrapCommandFailed else ret r
     | _ \<Rightarrow> ret r)"

end
