(* ===== verification/Microvm_Surface_Properties.thy ===== *)
theory Microvm_Surface_Properties
  imports Microvm_Surface Microvm_Session_Properties
begin

text \<open>
  What the operations of a session guarantee: the guest is reached only under the held lease and with
  normal paths, a mutation is never taken for captured, and line ranges cut a text into its lines.
\<close>

section \<open>Paths\<close>

lemma normal_home: "normalPath ''/root''"
  unfolding normalPath_def by (rule exI[of _ "[''root'']"]) (simp add: plainSegment_def)

lemma normal_resolved [simp]: "normalPath (resolvePath path)"
  by (simp add: resolvePath_def posixNormalize_normal posixResolve_normal normal_home)

text \<open>A resolved path is absolute and normal, without empty segments, \<open>.\<close> or \<open>..\<close>, and resolving it
  again changes nothing.\<close>

theorem resolved_path_normal: "normalPath (resolvePath path) \<and> resolvePath (resolvePath path) = resolvePath path"
proof
  show normal: "normalPath (resolvePath path)" by simp
  then obtain rest where "resolvePath path = CHR ''/'' # rest" by (auto simp: normalPath_def)
  then have "isAbsolute (resolvePath path)" "\<not> startsWith (resolvePath path) ''$HOME/''" "resolvePath path \<noteq> ''$HOME''"
    by (simp_all add: isAbsolute_def startsWith_def)
  with posixNormalize_idem[OF normal] show "resolvePath (resolvePath path) = resolvePath path"
    by (simp add: resolvePath_def[of "resolvePath path"])
qed

section \<open>Lines\<close>

lemma concat_extend: "concat (case ls of [] \<Rightarrow> [[c]] | l # rest \<Rightarrow> (c # l) # rest) = c # concat ls"
  by (cases ls) auto

lemma concat_textLines: "concat (textLines s) = s"
proof (induction s rule: length_induct)
  case (1 s)
  show ?case
  proof (cases s)
    case (Cons c cs)
    have cs: "concat (textLines cs) = cs" using "1.IH" Cons by auto
    have ds: "concat (textLines ds) = ds" if "cs = d # ds" for d ds using "1.IH" Cons that by auto
    show ?thesis
    proof (cases cs)
      case Nil
      with Cons show ?thesis by simp
    next
      case (Cons d ds)
      with \<open>s = c # cs\<close> cs ds[OF Cons] show ?thesis
        by (simp only: textLines.simps(2)[of c] concat_extend list.case split: if_split) simp
    qed
  qed simp
qed

definition lineRange :: "nat option \<Rightarrow> nat option \<Rightarrow> ReadTextOptions" where
  "lineRange a b = \<lparr>rt_path = ''f'', rt_encoding = None,
     rt_startLine = map_option of_nat a, rt_endLine = map_option of_nat b\<rparr>"

lemma applyLineRange_nat:
  "applyLineRange s (lineRange a b) =
     (if a = None \<and> b = None then s
      else
        let lines = textLines s; start = (case a of None \<Rightarrow> 1 | Some n \<Rightarrow> n);
            end' = min (case b of None \<Rightarrow> length lines | Some n \<Rightarrow> n) (length lines)
        in if length lines < start then [] else concat (take (end' - (start - 1)) (drop (start - 1) lines)))"
  by (cases a; cases b) (simp_all add: applyLineRange_def lineRange_def)

text \<open>Line ranges cut a text: the first lines up to a number and the lines after it are together exactly
  the text, with every line end kept, and a range that starts behind the last line is empty.\<close>

theorem line_ranges_cut:
  assumes "1 \<le> n"
  shows "applyLineRange s (lineRange (Some 1) (Some n)) @ applyLineRange s (lineRange (Some (n + 1)) None) = s \<and>
    (length (textLines s) < n \<longrightarrow> applyLineRange s (lineRange (Some n) None) = [])"
proof -
  have "concat (take n (textLines s)) @ concat (drop n (textLines s)) = s"
    by (metis append_take_drop_id concat_append concat_textLines)
  moreover have "textLines s = [] \<Longrightarrow> s = []" by (metis concat.simps(1) concat_textLines)
  ultimately show ?thesis
    using assms by (cases "length (textLines s) \<le> n") (auto simp: applyLineRange_nat Let_def min_def)
qed

section \<open>Authority\<close>

fun guestPath :: "MicrovmCall \<Rightarrow> string option" where
  "guestPath (ControllerSpawn command env directory) = Some directory"
| "guestPath (ControllerReadFile path) = Some path"
| "guestPath (ControllerWriteFile path bytes) = Some path"
| "guestPath (ControllerRemovePath path force recursive) = Some path"
| "guestPath _ = None"

fun changesGuest :: "MicrovmCall \<Rightarrow> bool" where
  "changesGuest (ControllerSpawn command env directory) = True"
| "changesGuest (ControllerWriteFile path bytes) = True"
| "changesGuest (ControllerRemovePath path force recursive) = True"
| "changesGuest _ = False"

definition guestCall :: "bool \<Rightarrow> (MicrovmCall \<times> MicrovmAnswer) list \<Rightarrow> MicrovmCall \<Rightarrow> bool" where
  "guestCall paused h c \<longleftrightarrow> (\<forall>path. guestPath c = Some path \<longrightarrow>
     normalPath path \<and> \<not> paused \<and> (LeaseEnsureHeld, NothingGiven) \<in> set h)"

definition marksMutation :: "(MicrovmCall \<times> MicrovmAnswer) list \<Rightarrow> (Failure + SandboxResult) \<times> MicrovmLocals \<Rightarrow> bool" where
  "marksMutation h r \<longleftrightarrow> (list_ex (\<lambda>x. changesGuest (fst x)) h \<longrightarrow> \<not> lo_captured (snd r))"

lemma guestCall_other [simp]: "guestPath c = None \<Longrightarrow> guestCall paused h c"
  by (simp add: guestCall_def)

lemma ensureActive_wp:
  assumes "\<And>h' e s'. \<not> list_ex (\<lambda>x. changesGuest (fst x)) h' \<Longrightarrow> Q (h @ h') (Inl e, s')"
    and "\<And>h' s'. \<not> list_ex (\<lambda>x. changesGuest (fst x)) h' \<Longrightarrow> (LeaseEnsureHeld, NothingGiven) \<in> set h' \<Longrightarrow>
      \<not> lo_controllerPaused s \<Longrightarrow> Q (h @ h') (Inr (), s')"
  shows "wp (guestCall (lo_controllerPaused s)) (ensureActive host options sessionKey s) h Q"
  by (auto simp: ensureActive_def ensureLease_def acquireLease_def answerAs_some intro!: assms
      split: sum.splits prod.splits)

lemma writeFiles_wp:
  assumes "(LeaseEnsureHeld, NothingGiven) \<in> set h" "\<not> paused" "\<And>h' r. Q h' (r, s)"
  shows "wp (guestCall paused) (writeFiles files s) h Q"
  using assms(1,3)
proof (induction files arbitrary: h)
  case (Cons f files)
  then show ?case
    by (auto simp: writeFiles_def guestCall_def assms(2) split: sum.splits)
qed (simp add: writeFiles_def)

lemmas surface = handleOperation_def beforeMutation_def spawnProcess_def guestCall_def marksMutation_def

lemma spawn_wp:
  assumes "\<And>h r s'. list_ex (\<lambda>x. changesGuest (fst x)) h \<longrightarrow> \<not> lo_captured s' \<Longrightarrow> Q h (r, s')"
  shows "wp (guestCall (lo_controllerPaused s))
    (spawnProcess (beforeMutation host options sessionKey) command env directory s) [] Q"
  by (auto simp: spawnProcess_def beforeMutation_def guestCall_def intro!: ensureActive_wp assms split: sum.splits)

lemma operation_wp:
  "wp (guestCall (lo_controllerPaused s)) (handleOperation host texts options sessionKey operation s) [] marksMutation"
proof (cases operation)
  case (Spawn command env directory)
  then show ?thesis
    by (auto simp: handleOperation_def marksMutation_def intro!: spawn_wp split: sum.splits)
next
  case (Run command env directory)
  then show ?thesis
    by (auto simp: handleOperation_def marksMutation_def intro!: spawn_wp split: sum.splits prod.splits)
next
  case (ReadFile path)
  then show ?thesis by (auto simp: surface intro!: ensureActive_wp split: sum.splits)
next
  case (ReadBinaryFile path)
  then show ?thesis by (auto simp: surface intro!: ensureActive_wp split: sum.splits)
next
  case (ReadTextFile range)
  then show ?thesis by (auto simp: surface intro!: ensureActive_wp split: sum.splits option.splits)
next
  case (WriteFile path)
  then show ?thesis by (auto simp: surface intro!: ensureActive_wp split: sum.splits option.splits)
next
  case (WriteBinaryFile path bytes)
  then show ?thesis by (auto simp: surface intro!: ensureActive_wp split: sum.splits)
next
  case (WriteTextFile path encoding content)
  then show ?thesis by (auto simp: surface intro!: ensureActive_wp split: sum.splits)
next
  case (WriteFiles files)
  then show ?thesis
    by (auto simp: handleOperation_def beforeMutation_def marksMutation_def
        intro!: ensureActive_wp writeFiles_wp split: sum.splits)
next
  case (RemovePath path force recursive)
  then show ?thesis by (auto simp: surface intro!: ensureActive_wp split: sum.splits)
next
  case SetNetworkPolicy
  then show ?thesis by (auto simp: surface intro!: ensureActive_wp split: sum.splits)
qed

text \<open>C20. An operation reaches the guest only with authority and marks what it changes: every process, read,
  write and removal has a normal path, comes after the lease was confirmed in the same operation, and
  never happens once the handle gave its MicroVM up; and when the guest may have been changed, the
  session is not taken for captured afterwards, even if the operation failed.\<close>

theorem guest_calls_authorized:
  assumes "runIo (handleOperation host texts options sessionKey operation s) answers = (t, r)"
  shows "(\<forall>i<length t. \<forall>path. guestPath (fst (t ! i)) = Some path \<longrightarrow>
      normalPath path \<and> \<not> lo_controllerPaused s \<and> (\<exists>j<i. t ! j = (LeaseEnsureHeld, Some NothingGiven))) \<and>
    (\<forall>x s' c a. r = Some (x, s') \<and> (c, Some a) \<in> set t \<and> changesGuest c \<longrightarrow> \<not> lo_captured s')"
proof (rule conjI; intro allI impI)
  fix i path assume i: "i < length t" and path: "guestPath (fst (t ! i)) = Some path"
  from trace_rule[OF operation_wp assms i] path
  have "normalPath path" "\<not> lo_controllerPaused s" and held: "(LeaseEnsureHeld, NothingGiven) \<in> set (answered (take i t))"
    by (simp_all add: guestCall_def)
  moreover have "\<exists>j<i. t ! j = (LeaseEnsureHeld, Some NothingGiven)" using answered_take[OF held] i by simp
  ultimately show "normalPath path \<and> \<not> lo_controllerPaused s \<and> (\<exists>j<i. t ! j = (LeaseEnsureHeld, Some NothingGiven))"
    by blast
next
  fix x s' c a assume r: "r = Some (x, s') \<and> (c, Some a) \<in> set t \<and> changesGuest c"
  then have "marksMutation (answered t) (x, s')" using result_rule[OF operation_wp, of host texts options sessionKey operation s answers t "(x, s')"] assms by simp
  moreover have "(c, a) \<in> set (answered t)" using r by (force simp: answered_def)
  ultimately show "\<not> lo_captured s'" using r by (force simp: marksMutation_def list_ex_iff)
qed

definition exTextHost :: TextHost where
  "exTextHost = \<lparr>th_decode = (\<lambda>_ _. None), th_encode = (\<lambda>_ _. []), th_decodeLoosely = (\<lambda>_. [])\<rparr>"

definition exWriteRun :: "(MicrovmCall, MicrovmAnswer) trace \<times> ((Failure + SandboxResult) \<times> MicrovmLocals) option" where
  "exWriteRun = runIo (handleOperation exMicrovmHost exTextHost exMicrovmOptions ''s'' (WriteBinaryFile ''a/../b'' [])
     (exLocals\<lparr>lo_captured := True\<rparr>)) [NothingGiven, Threw None]"

lemma exWriteRun_calls:
  "length (fst exWriteRun) = 2" "fst exWriteRun ! 1 = (ControllerWriteFile ''/workspace/b'' [], Some (Threw None))"
  "\<exists>x s'. snd exWriteRun = Some (x, s')"
proof -
  show "length (fst exWriteRun) = 2" by code_simp
  have "(case fst exWriteRun ! 1 of (ControllerWriteFile path bytes, Some (Threw None)) \<Rightarrow> path = ''/workspace/b'' \<and> bytes = [] | _ \<Rightarrow> False)"
    by code_simp
  then show "fst exWriteRun ! 1 = (ControllerWriteFile ''/workspace/b'' [], Some (Threw None))"
    by (simp split: prod.splits MicrovmCall.splits option.splits MicrovmAnswer.splits)
  have "snd exWriteRun \<noteq> None" by code_simp
  then show "\<exists>x s'. snd exWriteRun = Some (x, s')" by auto
qed

theorem guest_calls_authorized_witness:
  "fst exWriteRun ! 0 = (LeaseEnsureHeld, Some NothingGiven) \<and>
   (\<exists>x s'. snd exWriteRun = Some (x, s') \<and> \<not> lo_captured s')"
proof -
  have run: "runIo (handleOperation exMicrovmHost exTextHost exMicrovmOptions ''s'' (WriteBinaryFile ''a/../b'' [])
     (exLocals\<lparr>lo_captured := True\<rparr>)) [NothingGiven, Threw None] = (fst exWriteRun, snd exWriteRun)"
    by (simp add: exWriteRun_def)
  note claim = guest_calls_authorized[OF run]
  have "guestPath (fst (fst exWriteRun ! 1)) = Some ''/workspace/b''"
    by (simp only: exWriteRun_calls(2) fst_conv guestPath.simps)
  with claim[THEN conjunct1, rule_format, of 1] exWriteRun_calls(1)
  have "fst exWriteRun ! 0 = (LeaseEnsureHeld, Some NothingGiven)" by auto
  moreover obtain x s' where r: "snd exWriteRun = Some (x, s')" using exWriteRun_calls(3) by blast
  moreover have "(ControllerWriteFile ''/workspace/b'' [], Some (Threw None)) \<in> set (fst exWriteRun)"
    using nth_mem[of 1 "fst exWriteRun", unfolded exWriteRun_calls(2)] exWriteRun_calls(1) by simp
  with claim[THEN conjunct2, rule_format, of x s'] r have "\<not> lo_captured s'" by fastforce
  ultimately show ?thesis by blast
qed

theorem line_ranges_cut_witness:
  "applyLineRange [CHR ''a'', CHR 0x0D, CHR 0x0A, CHR ''b''] (lineRange (Some 1) (Some 1)) @
   applyLineRange [CHR ''a'', CHR 0x0D, CHR 0x0A, CHR ''b''] (lineRange (Some 2) None) =
     [CHR ''a'', CHR 0x0D, CHR 0x0A, CHR ''b'']"
  using line_ranges_cut[of 1 "[CHR ''a'', CHR 0x0D, CHR 0x0A, CHR ''b'']"] by (simp add: numeral_2_eq_2)

end
