(* ===== verification/Zip_Archive.thy ===== *)
theory Zip_Archive
  imports Encoding Paths
begin

unbundle bit_operations_syntax

text \<open>
  The archive that a MicroVM image is built from (\<open>deterministic-zip.ts\<close> of
  \<open>packages/eve-aws-lambda-microvms/src\<close>): uncompressed entries with a CRC, their directory and the
  end record. Numbers are written in little-endian order; \<open>writeUInt16LE\<close> and \<open>writeUInt32LE\<close> throw for
  a number that does not fit. The order of \<open>localeCompare\<close> is a parameter. The reader at the end is the
  format read the other way round, and the round trip shows that every entry is found.
\<close>

section \<open>Numbers\<close>

datatype ZipError = InvalidEntryPath | ValueOutOfRange

fun littleEndian :: "nat \<Rightarrow> nat \<Rightarrow> byte list" where
  "littleEndian 0 n = []"
| "littleEndian (Suc k) n = word_of_nat (n mod 256) # littleEndian k (n div 256)"

fun readLittle :: "byte list \<Rightarrow> nat" where
  "readLittle [] = 0"
| "readLittle (b # bs) = unat b + 256 * readLittle bs"

lemma length_littleEndian [simp]: "length (littleEndian k n) = k"
  by (induction k arbitrary: n) auto

lemma readLittle_littleEndian: "n < 256 ^ k \<Longrightarrow> readLittle (littleEndian k n) = n"
proof (induction k arbitrary: n)
  case (Suc k)
  have small: "unat (word_of_nat (n mod 256) :: byte) = n mod 256"
    by (simp add: unsigned_of_nat take_bit_eq_mod)
  from Suc.prems have "n div 256 < 256 ^ k" by (simp add: less_mult_imp_div_less mult.commute)
  from Suc.IH[OF this] small show ?case by simp
qed simp

text \<open>A header is written field by field; a field is its width and its value.\<close>

fun writeFields :: "(nat \<times> nat) list \<Rightarrow> ZipError + byte list" where
  "writeFields [] = Inr []"
| "writeFields ((k, n) # fs) =
     (if n < 256 ^ k
      then (case writeFields fs of Inl e \<Rightarrow> Inl e | Inr bs \<Rightarrow> Inr (littleEndian k n @ bs))
      else Inl ValueOutOfRange)"

fun readFields :: "nat list \<Rightarrow> byte list \<Rightarrow> (nat list \<times> byte list) option" where
  "readFields [] bs = Some ([], bs)"
| "readFields (k # ks) bs =
     (if length bs < k then None
      else map_option (\<lambda>(ns, rest). (readLittle (take k bs) # ns, rest)) (readFields ks (drop k bs)))"

lemma readFields_writeFields:
  "writeFields fs = Inr bs \<Longrightarrow> readFields (map fst fs) (bs @ rest) = Some (map snd fs, rest)"
  by (induction fs arbitrary: bs rule: writeFields.induct)
    (auto simp: readLittle_littleEndian split: if_splits sum.splits)

lemma length_writeFields: "writeFields fs = Inr bs \<Longrightarrow> length bs = sum_list (map fst fs)"
  by (induction fs arbitrary: bs rule: writeFields.induct) (auto split: if_splits sum.splits)

section \<open>The checksum\<close>

definition crcBit :: "32 word \<Rightarrow> 32 word" where
  "crcBit c = drop_bit 1 c XOR (0xedb88320 AND (- (c AND 1)))"

definition crcByte :: "32 word \<Rightarrow> byte \<Rightarrow> 32 word" where
  "crcByte c b = (crcBit ^^ 8) (c XOR ucast b)"

definition crc32 :: "byte list \<Rightarrow> 32 word" where
  "crc32 bs = foldl crcByte 0xffffffff bs XOR 0xffffffff"

text \<open>The bits of one byte are shifted out independently of the others, so that the loop over the bits is
  the lookup in a table of 256 values that the format is usually described with.\<close>

lemma crcBit_xor: "crcBit (x XOR y) = crcBit x XOR crcBit y"
proof -
  have odd: "(x XOR y) AND 1 = (x AND 1) XOR (y AND 1)" by (rule bit_word_eqI) (auto simp: bit_simps)
  have low: "z AND 1 = 0 \<or> z AND 1 = 1" for z :: "32 word" by (cases "even z") (auto simp: and_one_eq odd_iff_mod_2_eq_one)
  show ?thesis
    using low[of x] low[of y] by (auto simp: crcBit_def odd drop_bit_xor xor.assoc xor.left_commute xor.commute)
qed

lemma crcBits_xor: "(crcBit ^^ n) (x XOR y) = (crcBit ^^ n) x XOR (crcBit ^^ n) y"
  by (induction n) (simp_all add: crcBit_xor)

lemma crcBits_high: "take_bit n y = 0 \<Longrightarrow> (crcBit ^^ n) y = drop_bit n y"
proof (induction n arbitrary: y)
  case (Suc n)
  have "y AND 1 = 0"
    using Suc.prems by (metis and_one_eq bit_0 even_take_bit_eq take_bit_Suc zero_eq_power2 even_zero nat.distinct(1) mod2_eq_if)
  then have "crcBit y = drop_bit 1 y" by (simp add: crcBit_def)
  moreover have "take_bit n (drop_bit 1 y) = 0"
    using Suc.prems by (simp add: take_bit_drop_bit)
  ultimately show ?case using Suc.IH[of "drop_bit 1 y"] by (simp add: funpow_swap1 drop_bit_drop_bit)
qed simp

text \<open>Two equations to compute with.\<close>

lemma crcBit_cases: "crcBit c = (if even c then drop_bit 1 c else drop_bit 1 c XOR 0xedb88320)"
  by (cases "even c") (simp_all add: crcBit_def and_one_eq even_iff_mod_2_eq_zero)

lemma crcByte_steps:
  "crcByte c b = crcBit (crcBit (crcBit (crcBit (crcBit (crcBit (crcBit (crcBit (c XOR ucast b))))))))"
  by (simp add: crcByte_def eval_nat_numeral)

definition crcTable :: "byte \<Rightarrow> 32 word" where
  "crcTable i = (crcBit ^^ 8) (ucast i)"

lemma crcByte_table: "crcByte c b = crcTable (ucast c XOR b) XOR drop_bit 8 c"
proof -
  have split: "c XOR ucast b = ucast (ucast c XOR b :: byte) XOR (c AND NOT (mask 8))"
    by (rule bit_word_eqI) (auto simp: bit_simps)
  have "take_bit 8 (c AND NOT (mask 8)) = 0" by (rule bit_word_eqI) (auto simp: bit_simps)
  moreover have "drop_bit 8 (c AND NOT (mask 8)) = drop_bit 8 c"
    by (rule bit_word_eqI) (auto simp: bit_simps dest: bit_imp_le_length)
  ultimately show ?thesis
    unfolding crcByte_def crcTable_def split crcBits_xor by (simp add: crcBits_high)
qed

section \<open>Paths\<close>

definition normalizeZipPath :: "string \<Rightarrow> ZipError + string" where
  "normalizeZipPath path =
     (let normalized = dropWhile (\<lambda>c. c = CHR ''/'')
            (map (\<lambda>c. if c = CHR 0x5C then CHR ''/'' else c) path) in
      if normalized = [] \<or> list_ex (\<lambda>s. s = [] \<or> s = ''.'' \<or> s = ''..'') (pathSegments normalized)
      then Inl InvalidEntryPath else Inr normalized)"

section \<open>The archive\<close>

record ZipFile =
  zf_content :: "byte list"
  zf_mode :: "int option"
  zf_path :: string

fun insertFile :: "(string \<Rightarrow> string \<Rightarrow> bool) \<Rightarrow> ZipFile \<Rightarrow> ZipFile list \<Rightarrow> ZipFile list" where
  "insertFile le f [] = [f]"
| "insertFile le f (g # gs) = (if le (zf_path f) (zf_path g) then f # g # gs else g # insertFile le f gs)"

definition sortFiles :: "(string \<Rightarrow> string \<Rightarrow> bool) \<Rightarrow> ZipFile list \<Rightarrow> ZipFile list" where
  "sortFiles le files = foldr (insertFile le) files []"

definition modeBits :: "ZipFile \<Rightarrow> 32 word" where
  "modeBits f = word_of_int (case zf_mode f of None \<Rightarrow> 33188 | Some m \<Rightarrow> m) AND 0xffff"

definition localFields :: "ZipFile \<Rightarrow> nat \<Rightarrow> (nat \<times> nat) list" where
  "localFields f nameLength =
     [(4, 0x04034b50), (2, 20), (2, 0x0800), (2, 0), (2, 0), (2, 0x21), (4, unat (crc32 (zf_content f))),
      (4, length (zf_content f)), (4, length (zf_content f)), (2, nameLength), (2, 0)]"

definition centralFields :: "ZipFile \<Rightarrow> nat \<Rightarrow> nat \<Rightarrow> (nat \<times> nat) list" where
  "centralFields f nameLength offset =
     [(4, 0x02014b50), (2, 0x031e), (2, 20), (2, 0x0800), (2, 0), (2, 0), (2, 0x21),
      (4, unat (crc32 (zf_content f))), (4, length (zf_content f)), (4, length (zf_content f)),
      (2, nameLength), (2, 0), (2, 0), (2, 0), (2, 0),
      (4, unat (push_bit 16 (modeBits f))), (4, offset)]"

definition endFields :: "nat \<Rightarrow> nat \<Rightarrow> nat \<Rightarrow> (nat \<times> nat) list" where
  "endFields entries directoryLength offset =
     [(4, 0x06054b50), (2, 0), (2, 0), (2, entries), (2, entries), (4, directoryLength), (4, offset), (2, 0)]"

text \<open>The loop over the files: the local parts, the directory, and the offset behind the last part.\<close>

fun zipEntries :: "nat \<Rightarrow> ZipFile list \<Rightarrow> ZipError + (byte list \<times> byte list \<times> nat)" where
  "zipEntries offset [] = Inr ([], [], offset)"
| "zipEntries offset (f # fs) =
     (case normalizeZipPath (zf_path f) of
        Inl e \<Rightarrow> Inl e
      | Inr path \<Rightarrow>
          (case writeFields (localFields f (length (utf8 path))) of
             Inl e \<Rightarrow> Inl e
           | Inr header \<Rightarrow>
               (case writeFields (centralFields f (length (utf8 path)) offset) of
                  Inl e \<Rightarrow> Inl e
                | Inr central \<Rightarrow>
                    (case zipEntries (offset + length header + length (utf8 path) + length (zf_content f)) fs of
                       Inl e \<Rightarrow> Inl e
                     | Inr (locals, centrals, after) \<Rightarrow>
                         Inr (header @ utf8 path @ zf_content f @ locals, central @ utf8 path @ centrals, after)))))"

definition createDeterministicZip :: "(string \<Rightarrow> string \<Rightarrow> bool) \<Rightarrow> ZipFile list \<Rightarrow> ZipError + byte list" where
  "createDeterministicZip le files =
     (case zipEntries 0 (sortFiles le files) of
        Inl e \<Rightarrow> Inl e
      | Inr (locals, centrals, offset) \<Rightarrow>
          (case writeFields (endFields (length (sortFiles le files)) (length centrals) offset) of
             Inl e \<Rightarrow> Inl e
           | Inr ending \<Rightarrow> Inr (locals @ centrals @ ending)))"

section \<open>Reading an archive\<close>

record ZipEntry =
  ze_name :: string
  ze_content :: "byte list"
  ze_crc :: nat
  ze_mode :: nat

definition LOCAL_WIDTHS :: "nat list" where
  "LOCAL_WIDTHS = [4, 2, 2, 2, 2, 2, 4, 4, 4, 2, 2]"

definition CENTRAL_WIDTHS :: "nat list" where
  "CENTRAL_WIDTHS = [4, 2, 2, 2, 2, 2, 2, 4, 4, 4, 2, 2, 2, 2, 2, 4, 4]"

definition END_WIDTHS :: "nat list" where
  "END_WIDTHS = [4, 2, 2, 2, 2, 4, 4, 2]"

text \<open>The content of an entry is found through the offset in the directory, past the name of the local part.\<close>

definition readLocal :: "byte list \<Rightarrow> nat \<Rightarrow> (nat \<times> byte list) option" where
  "readLocal archive offset = (case readFields LOCAL_WIDTHS (drop offset archive) of
     Some ([signature, _, _, _, _, _, crc, _, size', nameLength, extra], rest) \<Rightarrow>
       if signature = 0x04034b50 \<and> nameLength + extra + size' \<le> length rest
       then Some (crc, take size' (drop (nameLength + extra) rest)) else None
   | _ \<Rightarrow> None)"

fun readDirectory :: "byte list \<Rightarrow> nat \<Rightarrow> byte list \<Rightarrow> ZipEntry list option" where
  "readDirectory archive 0 bs = Some []"
| "readDirectory archive (Suc n) bs = (case readFields CENTRAL_WIDTHS bs of
     Some ([signature, _, _, _, _, _, _, crc, _, size', nameLength, extra, comment, _, _, attributes, offset], rest) \<Rightarrow>
       if signature \<noteq> 0x02014b50 \<or> length rest < nameLength + extra + comment then None
       else
         (case (utf8Decode (take nameLength rest), readLocal archive offset,
                readDirectory archive n (drop (nameLength + extra + comment) rest)) of
            (Some name, Some (crc', content), Some entries) \<Rightarrow>
              if crc = crc' \<and> length content = size'
              then Some (\<lparr>ze_name = name, ze_content = content, ze_crc = crc, ze_mode = attributes div 65536\<rparr> # entries)
              else None
          | _ \<Rightarrow> None)
   | _ \<Rightarrow> None)"

definition readZip :: "byte list \<Rightarrow> ZipEntry list option" where
  "readZip archive = (if length archive < 22 then None
     else (case readFields END_WIDTHS (drop (length archive - 22) archive) of
       Some ([signature, _, _, _, entries, _, offset, _], _) \<Rightarrow>
         if signature = 0x06054b50 then readDirectory archive entries (drop offset archive) else None
     | _ \<Rightarrow> None))"

definition entryOf :: "ZipFile \<Rightarrow> ZipEntry" where
  "entryOf f = \<lparr>ze_name = (case normalizeZipPath (zf_path f) of Inr p \<Rightarrow> p | Inl _ \<Rightarrow> []),
     ze_content = zf_content f, ze_crc = unat (crc32 (zf_content f)), ze_mode = unat (modeBits f)\<rparr>"

section \<open>Every entry is found\<close>

lemma unat_bound [simp]: "unat (w :: 32 word) < 4294967296"
  using unsigned_less[of w] by simp

lemma modeBits_bound: "unat (modeBits f) < 65536"
proof -
  let ?m = "word_of_int (case zf_mode f of None \<Rightarrow> 33188 | Some m \<Rightarrow> m) :: 32 word"
  have "modeBits f = take_bit 16 ?m"
    by (simp add: modeBits_def take_bit_eq_mask mask_eq_exp_minus_1)
  then have "unat (modeBits f) = take_bit 16 (unat ?m)" by (simp only: unsigned_take_bit_eq)
  then show ?thesis using take_bit_nat_less_exp[of 16 "unat ?m"] by simp
qed

lemma mode_attributes: "unat (push_bit 16 (modeBits f)) div 65536 = unat (modeBits f)"
proof -
  have "unat (push_bit 16 (modeBits f)) = take_bit 32 (push_bit 16 (unat (modeBits f)))"
    by (simp add: unsigned_push_bit_eq)
  also have "\<dots> = unat (modeBits f) * 65536"
    using modeBits_bound[of f] by (simp add: push_bit_eq_mult take_bit_nat_eq_self)
  finally show ?thesis by simp
qed

lemma readLocal_written:
  assumes "writeFields (localFields f (length name)) = Inr header"
  shows "readLocal (before @ header @ name @ zf_content f @ rest) (length before) =
    Some (unat (crc32 (zf_content f)), zf_content f)"
  using readFields_writeFields[OF assms, of "name @ zf_content f @ rest"]
  by (simp add: readLocal_def localFields_def LOCAL_WIDTHS_def)

lemma readDirectory_written:
  "zipEntries offset fs = Inr (locals, centrals, after) \<Longrightarrow> length before = offset \<Longrightarrow>
   readDirectory (before @ locals @ rest) (length fs) (centrals @ rest') = Some (map entryOf fs) \<and>
   after = offset + length locals"
proof (induction offset fs arbitrary: before locals centrals after rule: zipEntries.induct)
  case (2 offset f fs)
  let ?name = "\<lambda>path. utf8 path"
  from "2.prems"(1) obtain path header central locals' centrals' where
    path: "normalizeZipPath (zf_path f) = Inr path"
    and header: "writeFields (localFields f (length (utf8 path))) = Inr header"
    and central: "writeFields (centralFields f (length (utf8 path)) offset) = Inr central"
    and tail: "zipEntries (offset + length header + length (utf8 path) + length (zf_content f)) fs = Inr (locals', centrals', after)"
    and parts: "locals = header @ utf8 path @ zf_content f @ locals'" "centrals = central @ utf8 path @ centrals'"
    by (auto split: sum.splits prod.splits)
  from "2.IH"[OF path header central tail, of "before @ header @ utf8 path @ zf_content f"] "2.prems"(2)
  have IH: "readDirectory (before @ locals @ rest) (length fs) (centrals' @ rest') = Some (map entryOf fs)"
    "after = offset + length locals"
    by (simp_all add: parts)
  have lc: "readLocal (before @ locals @ rest) offset = Some (unat (crc32 (zf_content f)), zf_content f)"
    using readLocal_written[OF header, of before "locals' @ rest"] "2.prems"(2) by (simp add: parts)
  have "readFields CENTRAL_WIDTHS (centrals @ rest') =
      Some (map snd (centralFields f (length (utf8 path)) offset), utf8 path @ centrals' @ rest')"
    using readFields_writeFields[OF central, of "utf8 path @ centrals' @ rest'"]
    by (simp add: parts centralFields_def CENTRAL_WIDTHS_def)
  then show ?case
    using lc IH path by (simp add: centralFields_def utf8Decode_utf8 entryOf_def mode_attributes)
qed simp

lemma length_sortFiles [simp]: "length (sortFiles le files) = length files"
proof -
  have "length (insertFile le f gs) = Suc (length gs)" for f gs by (induction gs) auto
  then show ?thesis by (induction files) (auto simp: sortFiles_def)
qed

lemma zipEntries_paths:
  "zipEntries offset fs = Inr r \<Longrightarrow> f \<in> set fs \<Longrightarrow> \<exists>path. normalizeZipPath (zf_path f) = Inr path"
proof (induction fs arbitrary: offset r)
  case (Cons g gs)
  from Cons.prems(1) obtain path offset' r' where "normalizeZipPath (zf_path g) = Inr path" "zipEntries offset' gs = Inr r'"
    by (auto split: sum.splits prod.splits)
  moreover have "\<exists>path. normalizeZipPath (zf_path f) = Inr path" if "f \<in> set gs"
    using Cons.IH[OF calculation(2) that] .
  ultimately show ?case using Cons.prems(2) by auto
qed simp

definition relativePath :: "string \<Rightarrow> bool" where
  "relativePath path \<longleftrightarrow> path \<noteq> [] \<and> (\<forall>s \<in> set (pathSegments path). s \<noteq> [] \<and> s \<noteq> ''.'' \<and> s \<noteq> ''..'')"

lemma normalizeZipPath_relative:
  assumes "normalizeZipPath path = Inr p"
  shows "relativePath p"
proof -
  define n where "n = dropWhile (\<lambda>c. c = CHR ''/'') (map (\<lambda>c. if c = CHR 0x5C then CHR ''/'' else c) path)"
  from assms have "(if n = [] \<or> list_ex (\<lambda>s. s = [] \<or> s = ''.'' \<or> s = ''..'') (pathSegments n)
      then Inl InvalidEntryPath else Inr n) = Inr p" by (simp only: normalizeZipPath_def Let_def n_def)
  then show ?thesis by (auto simp: relativePath_def list_ex_iff split: if_splits)
qed

text \<open>C21. An archive can be read back. Whenever the archive is written, a reader that goes from the end
  record to the directory and from there by the offsets to the parts finds exactly the files, in their
  order, with their contents, checksums and modes, under relative paths without dot segments.\<close>

theorem zip_roundtrip:
  assumes "createDeterministicZip le files = Inr archive"
  shows "readZip archive = Some (map entryOf (sortFiles le files)) \<and>
    (\<forall>f \<in> set (sortFiles le files). relativePath (ze_name (entryOf f)))"
proof -
  let ?fs = "sortFiles le files"
  from assms obtain locals centrals offset ending where
    entries: "zipEntries 0 ?fs = Inr (locals, centrals, offset)"
    and ending: "writeFields (endFields (length ?fs) (length centrals) offset) = Inr ending"
    and archive: "archive = locals @ centrals @ ending"
    by (auto simp: createDeterministicZip_def split: sum.splits prod.splits)
  from readDirectory_written[OF entries, of "[]" "centrals @ ending" ending]
  have directory: "readDirectory archive (length files) (centrals @ ending) = Some (map entryOf ?fs)"
    and offset: "offset = length locals" by (simp_all add: archive)
  have "length ending = 22" using length_writeFields[OF ending] by (simp add: endFields_def)
  moreover have "readFields END_WIDTHS ending = Some (map snd (endFields (length ?fs) (length centrals) offset), [])"
    using readFields_writeFields[OF ending, of "[]"] by (simp add: endFields_def END_WIDTHS_def)
  ultimately have "readZip archive = Some (map entryOf ?fs)"
    using directory offset by (simp add: readZip_def archive endFields_def)
  moreover have "relativePath (ze_name (entryOf f))" if "f \<in> set ?fs" for f
    using zipEntries_paths[OF entries that] by (auto simp: entryOf_def dest: normalizeZipPath_relative)
  ultimately show ?thesis by blast
qed

definition exFiles :: "ZipFile list" where
  "exFiles = [\<lparr>zf_content = [104, 105], zf_mode = Some 33261, zf_path = ''b/run''\<rparr>,
     \<lparr>zf_content = [], zf_mode = None, zf_path = ''/a''\<rparr>]"

definition shorter :: "string \<Rightarrow> string \<Rightarrow> bool" where
  "shorter p q \<longleftrightarrow> length p \<le> length q"

lemma exPaths:
  "normalizeZipPath ''/a'' = Inr ''a''" "normalizeZipPath ''b/run'' = Inr ''b/run''"
  "length (utf8 ''a'') = 1" "length (utf8 ''b/run'') = 5"
  by code_simp+

lemma exSorted: "sortFiles shorter exFiles = rev exFiles"
  by (simp add: sortFiles_def exFiles_def shorter_def)

lemma exFiles_written: "\<exists>archive. createDeterministicZip shorter exFiles = Inr archive"
  by (simp add: createDeterministicZip_def exSorted)
    (simp add: exFiles_def exPaths localFields_def centralFields_def endFields_def)

theorem zip_roundtrip_witness:
  "\<exists>archive entries. createDeterministicZip shorter exFiles = Inr archive \<and>
     readZip archive = Some entries \<and> map ze_name entries = [''a'', ''b/run'']"
proof -
  obtain archive where archive: "createDeterministicZip shorter exFiles = Inr archive"
    using exFiles_written by blast
  have "map ze_name (map entryOf (sortFiles shorter exFiles)) = [''a'', ''b/run'']"
    by (simp add: exSorted) (simp add: exFiles_def entryOf_def exPaths)
  with zip_roundtrip[OF archive, THEN conjunct1] archive show ?thesis by (intro exI conjI)
qed

text \<open>C22. The checksum is the CRC-32 of the format: the loop over bytes and bits computes what the algorithm
  with a table of 256 values computes, and the check value of the digits one to nine is the published
  one.\<close>

theorem crc32_table_driven:
  "crc32 bs = foldl (\<lambda>c b. crcTable (ucast c XOR b) XOR drop_bit 8 c) 0xffffffff bs XOR 0xffffffff \<and>
   crc32 [0x31, 0x32, 0x33, 0x34, 0x35, 0x36, 0x37, 0x38, 0x39] = 0xcbf43926"
proof
  have "crcByte = (\<lambda>c b. crcTable (ucast c XOR b) XOR drop_bit 8 c)"
    by (intro ext) (rule crcByte_table)
  then show "crc32 bs = foldl (\<lambda>c b. crcTable (ucast c XOR b) XOR drop_bit 8 c) 0xffffffff bs XOR 0xffffffff"
    by (simp add: crc32_def)
  show "crc32 [0x31, 0x32, 0x33, 0x34, 0x35, 0x36, 0x37, 0x38, 0x39] = 0xcbf43926"
    by (simp add: crc32_def crcByte_steps crcBit_cases)
qed

end
