(* ===== verification/Spec2Isabelle.thy ===== *)
theory Spec2Isabelle
  imports Workflow_Properties Family_Properties Scenario_Run Session_Properties
    Lifecycle_Properties Mutation_Properties Bootstrap_Properties Discovery_Properties Capabilities
    Json_Roundtrip Roles_Properties Runner_Properties
    Microvm_Lease_Properties Microvm_Metadata_Properties Microvm_Session_Properties
    Microvm_Surface_Properties Zip_Archive
begin

text \<open>
  A verification development for two parts of this repository that keep authoritative state: the
  agent builder (\<open>packages/eve-agent-builder/extension/lib\<close>) with saved agents, the build workflow
  that produces them and the sessions of the roles that work on a build; and the Lambda MicroVM
  sandbox (\<open>packages/eve-aws-lambda-microvms/src\<close>) with its lease, its sessions and checkpoints.

  \<^bold>\<open>The agent builder.\<close> One store transaction is one command (\<open>store.ts\<close>). The in-memory
  store (\<open>stores/memory.ts\<close>) runs its operations one at a time under a lock, so an execution is a
  sequence of calls. It keeps, per tenant and owner, a bucket with the families (a draft, the
  published versions, a lifecycle and a revision), the build workflows (a phase, a transition log,
  test evidence, a QA approval), the log of mutations, the bootstrap grants and execution leases
  of role sessions, the closed parent turns, and the approvals and executions of consequential
  test steps. The services on top (\<open>service.ts\<close>, \<open>workflow-service.ts\<close>, \<open>bootstrap.ts\<close>, \<open>roles.ts\<close>,
  \<open>runtime/service.ts\<close>, \<open>mounts/runner-tools.ts\<close>) await one store call after the other, so other
  callers may run between any two of them.

  \<^bold>\<open>The MicroVM sandbox.\<close> Runtimes share one lease object in an object store with conditional writes
  (\<open>lease.ts\<close>). The holder of a session lease launches, captures and deletes the MicroVM of the
  session (\<open>backend.ts\<close>, \<open>checkpoint.ts\<close>), and records in the lease what it is about to do before it
  does it.

  \<^bold>\<open>Theories of the agent builder.\<close>
  \<^item> \<open>Prelude\<close>: numbers, strings, insertion-ordered maps. \<open>Machine\<close>: the interfaces as locales
    (a keyed store, an invariant of a machine, its history, a revision-guarded cell).
  \<^item> \<open>Timestamps\<close>, \<open>Instants\<close>, \<open>Domain\<close> (\<open>domain.ts\<close>), \<open>Workflow\<close> (\<open>workflow.ts\<close>), \<open>Bootstrap\<close>
    (\<open>bootstrap.ts\<close>), \<open>Test_Policy\<close> (\<open>test-policy.ts\<close>), \<open>Store_Interface\<close> (\<open>store.ts\<close>): the data
    types, each with the predicate of its zod schema, and the commands, results and errors.
  \<^item> \<open>Memory_Family\<close>, \<open>Memory_Workflow\<close>, \<open>Memory_Lease\<close>, \<open>Memory_Test\<close>, \<open>Memory_Store\<close>
    (\<open>stores/memory.ts\<close>): one definition per method, named after it. A handler of a mutation takes
    the bucket and returns an error or the new bucket with the result; an operation on sessions
    takes all buckets and returns them with its result. \<open>StoreCall\<close> lists the operations,
    \<open>callState\<close> runs one, \<open>reachable\<close> is reachability from the empty store.
  \<^item> \<open>Family_Laws\<close>, \<open>Workflow_Laws\<close>: one inversion lemma per handler. \<open>Family_Invariant\<close> to
    \<open>Bucket_Invariant\<close>: the invariant of each component and its preservation. \<open>Store_Invariant\<close>,
    \<open>Lease_Preservation\<close>, \<open>Store_Machine\<close>: the invariant of the whole store in every reachable
    state. \<open>Store_History\<close>, \<open>Operation_Log\<close>: what no operation undoes. \<open>Store_Concurrency\<close>: revisions as
    guarded cells. \<open>Session_Safety\<close>: tokens and parent turns over executions.
  \<^item> \<open>Json_Text\<close>, \<open>Json_Roundtrip\<close>, \<open>Encoding\<close>, \<open>Fingerprint\<close>: \<open>JSON.stringify\<close> and \<open>JSON.parse\<close>, UTF-8
    and base64url, the canonical text of a request.
  \<^item> \<open>Program\<close>: a service as a program over store calls (\<open>Return\<close>, or a call with its continuation);
    \<open>runs\<close> interleaves it with any calls of others. \<open>Bootstrap_Service\<close>, \<open>Service_Input\<close>, \<open>Service\<close>,
    \<open>Coordinator\<close>, \<open>Roles\<close>, \<open>Turns\<close>, \<open>Runner\<close>: the services in this form. \<open>Capabilities\<close>, \<open>Discovery\<close>:
    plans of capabilities, the roster and the search. The map of prepared turns in \<open>runtime/service.ts\<close>
    is an argument of an inspection, its entry for the turn; \<open>turnEntry\<close> (\<open>Turn_Properties\<close>) has the
    entries that earlier inspections can leave.
  \<^item> \<open>Scenario\<close>, \<open>Scenario_Run\<close>: a complete build, evaluated stage by stage; the witnesses use its
    states.
  \<^item> The theories named \<open>_Properties\<close> and this one hold the properties.

  \<^bold>\<open>Theories of the MicroVM sandbox.\<close>
  \<^item> \<open>Microvm_Lease\<close> (\<open>lease.ts\<close>): the state of one runtime that asks for or holds the lease, one
    definition per stretch of code between two awaits, and the system of all runtimes with the shared
    object, a clock and requests whose answer was lost. The object store is a parameter with the
    contract \<open>conditional_storage\<close>, which the storage of the test suite satisfies.
    \<open>Microvm_Lease_Safety\<close> has the invariant, \<open>Microvm_Lease_Properties\<close> what follows from it.
  \<^item> \<open>Microvm_Metadata\<close> (\<open>metadata.ts\<close>, \<open>activation.ts\<close>): parsers and writers of stored metadata and of
    activation envelopes; \<open>Microvm_Metadata_Properties\<close>: they fit together.
  \<^item> \<open>Effects\<close>: asynchronous code as a tree of calls with an answer each, its runs on a list of answers
    and the rule \<open>wp\<close> for all runs. \<open>Microvm_Session\<close> (\<open>backend.ts\<close>, \<open>checkpoint.ts\<close>): prewarming,
    launching, retiring, capturing, stopping and deleting in this form, and the life of a handle as any
    of its operations one after the other. A launch or a first lease that loses its race and arrives
    late is an answer of its own; the calls of its handler, which runs in the background, are made at a
    fixed place of the operation (\<open>lateResult\<close>, \<open>acquireInitialLease\<close>, \<open>lateMicrovm\<close>).
    \<open>Microvm_Session_Rules\<close> and \<open>Microvm_Session_Properties\<close>: the order of their effects for any answers.
  \<^item> \<open>Microvm_Surface\<close> (\<open>session.ts\<close>): the operations on files and processes, with \<open>Paths\<close> for Node's \<open>posix\<close>
    module; \<open>Microvm_Surface_Properties\<close>: they reach the guest only with authority.
  \<^item> \<open>Zip_Archive\<close> (\<open>deterministic-zip.ts\<close>): the archive of an image and its checksum at the width of the
    code, and a reader that finds every entry.

  \<^bold>\<open>The abstract specification.\<close> \<open>phase_edge\<close> (theory \<open>Workflow_Invariant\<close>) is the build process as
  an abstract state machine; C2 is the refinement: every stored workflow is a walk of it.
  \<open>storeLater\<close> (theory \<open>Store_History\<close>) is what an observer may rely on between two calls.

  \<^bold>\<open>How the code is read.\<close> A JavaScript \<open>Map\<close> is an association list in insertion order; a missing
  member is \<open>None\<close>. Numbers are integers with \<open>Number.isSafeInteger\<close> as a predicate, since every
  stored number passes a schema that demands it; JSON numbers are rationals. A string is a list of
  characters below 256; \<open>normalize("NFKC")\<close>, the time zone database, SHA-256, the text of numbers
  that are no integers, the order of \<open>localeCompare\<close> and text encodings other than UTF-8 are parameters. \<open>Date.parse\<close> is modelled on the canonical form of \<open>toISOString\<close>,
  the only one that stored times have; every other text is \<open>NaN\<close>, which compares as false.
  Comparisons of objects by \<open>JSON.stringify\<close> are equality of the records: members are taken to come in
  their declared order. Keys made by \<open>JSON.stringify\<close> of a list of strings are the tuples themselves.
  JSON values are trees: cycles and shared references do not occur. Messages of errors are left out.
  \<open>clone\<close> and \<open>publicClone\<close> are the identity on immutable values. A typed failure is \<open>Inl\<close>; a rejected
  promise is an error value of its own (\<open>REJECTED_PROMISE\<close>). The resolver of the host answers the same
  within one call. In the lease all runtimes read one clock; the property that at most one has
  authority rests on that.

  \<^bold>\<open>Bounds and fuel.\<close> \<open>jsonParse\<close> has fuel: one more than the length of its text, which every recursive
  call shortens. Loops end by a measure: the worklist of \<open>isBoundedJsonValue\<close> by the number of
  pending nodes. The pages of a search are as many as the matching agents fill, at least one. Numbers of the archive are
  refused when they do not fit their 16 or 32 bits. The runs of \<open>Effects\<close> are
  structural. Waiting for a lease may go on for ever; it is a sequence of steps.

  \<^bold>\<open>Not modelled.\<close> The schemas and the wiring of the tools that the Eve framework calls, prompts and
  instructions; the AWS SDK adapters, the HTTP client of the guest controller, the provisioning of
  images and the checks of developer options; telemetry; the celld sandbox, whose state lives in
  worker processes and file systems; and the other packages of the repository (connectors, image
  generation, compaction, plugins, Slack participation, progress, project link, ambient agents) and
  the applications, which are adapters to remote services and user interfaces.
\<close>

section \<open>The whole process\<close>

text \<open>The process can be completed: from the empty store, the calls of the example (allocation,
  five role sessions, a test run with an approved consequential step, QA approval, publication)
  lead to a published workflow with the version that was tested.\<close>

theorem build_reaches_publication:
  "\<exists>w. getBuildWorkflow (runCalls exHost [] exCalls) exOwner ''a'' = Some w \<and> wf_phase w = Published \<and>
     listVersions (runCalls exHost [] exCalls) exOwner ''a'' = [exVersion] \<and>
     map tr_toPhase (wf_transitions w) =
       [PmWork, ImplementationWork, QaReview, TestPending, QaReview, PublishReady, Published]"
  unfolding exCalls_run
  by (simp add: exWorkflows exPhases exState8_def queries workflow_values)

text \<open>Finding. Archiving does not stop the publication of a workflow: \<open>#publishBuildWorkflow\<close> succeeds on
  an archived family and makes it active again, while any patch of the same draft is refused
  because the family is archived.\<close>

theorem archival_ignored_by_workflow_publication:
  assumes "fresh t m" and "mutate h t m (PublishBuildWorkflow c) = (t1, Inr s)"
    and "getFamily t (mb_owner m) (pw_agentId c) = Some f" and "fam_lifecycle f = Archived"
    and "fresh t m2" and "mb_owner m2 = mb_owner m" and "pd_agentId c2 = pw_agentId c"
  shows "(\<exists>f'. getFamily t1 (mb_owner m) (pw_agentId c) = Some f' \<and> fam_lifecycle f' = Active \<and>
      fam_archivedAt f' = None) \<and>
    (\<exists>e. snd (mutate h t m2 (PatchDraft c2)) = Inl e)"
proof
  from mutation_applied[OF assms(1,2)] obtain b' where
    b': "publishBuildWorkflow h (bucketOf t (mb_owner m)) m c = Inr (b', s)"
    "families (bucketOf t1 (mb_owner m)) = families b'" by auto
  show "\<exists>f'. getFamily t1 (mb_owner m) (pw_agentId c) = Some f' \<and> fam_lifecycle f' = Active \<and>
      fam_archivedAt f' = None"
    by (rule publishBuildWorkflow_Inr[OF b'(1)])
      (simp add: getFamily_def familyRecordOf_bucketOf b'(2) putWorkflow_def putRecord_def
        publishedFamily_def)
  have "patchDraft h (bucketOf t (mb_owner m2)) m2 c2 \<noteq> Inr (b2, s2)" for b2 s2
  proof
    assume "patchDraft h (bucketOf t (mb_owner m2)) m2 c2 = Inr (b2, s2)"
    then show False
      by (rule patchDraft_Inr)
        (use assms(3,4,6,7) in \<open>simp add: getFamily_def familyRecordOf_bucketOf\<close>)
  qed
  then show "\<exists>e. snd (mutate h t m2 (PatchDraft c2)) = Inl e"
    by (intro mutate_fresh_refused[OF assms(5)]) simp
qed

definition exShelve :: StoreCall where
  "exShelve = Mutate (exBase ''op-shelve'' ''08'')
     (ArchiveFamily \<lparr>lc_agentId = ''a'', lc_expectedRevision = 3\<rparr>)"

definition exShelved :: Tenants where
  "exShelved = runCalls exHost exState7 [exShelve]"

lemma exShelved_family:
  "\<exists>f. getFamily exShelved exOwner ''a'' = Some f \<and> fam_lifecycle f = Archived"
  by (simp add: exShelved_def exShelve_def evaluation scenario states exOp1_def)

lemma exShelved_publish:
  "\<exists>t1 s. mutate exHost exShelved (exBase ''op-publish'' ''10'')
     (PublishBuildWorkflow (exPublishCommand\<lparr>pw_expectedRevision := 4\<rparr>)) = (t1, Inr s)"
  by (simp add: exShelved_def exShelve_def exPublishCommand_def evaluation scenario states exOp1_def)

lemma exShelved_operations:
  "fresh exShelved (exBase ''op-publish'' minute)" "fresh exShelved (exBase ''op-patch'' minute)"
  by (simp_all add: fresh_def exShelved_def exShelve_def evaluation scenario states exOp1_def)

theorem archival_ignored_by_workflow_publication_witness:
  "\<exists>t1 f f' e. getFamily exShelved exOwner ''a'' = Some f \<and> fam_lifecycle f = Archived \<and>
     fst (mutate exHost exShelved (exBase ''op-publish'' ''10'')
       (PublishBuildWorkflow (exPublishCommand\<lparr>pw_expectedRevision := 4\<rparr>))) = t1 \<and>
     getFamily t1 exOwner ''a'' = Some f' \<and> fam_lifecycle f' = Active \<and>
     snd (mutate exHost exShelved (exBase ''op-patch'' ''10'') (PatchDraft exPatch)) = Inl e"
proof -
  from exShelved_family obtain f where f: "getFamily exShelved exOwner ''a'' = Some f"
    "fam_lifecycle f = Archived" by blast
  from exShelved_publish obtain t1 s where p: "mutate exHost exShelved (exBase ''op-publish'' ''10'')
     (PublishBuildWorkflow (exPublishCommand\<lparr>pw_expectedRevision := 4\<rparr>)) = (t1, Inr s)" by blast
  have "pw_agentId (exPublishCommand\<lparr>pw_expectedRevision := 4\<rparr>) = ''a''" "pd_agentId exPatch = ''a''"
    by (simp_all add: exPublishCommand_def exPatch_def)
  with archival_ignored_by_workflow_publication[OF exShelved_operations(1) p, of f
      "exBase ''op-patch'' ''10''" exPatch] f exShelved_operations(2) p
  show ?thesis by auto
qed

end
